(* ===== verification/FF_Prelude.thy ===== *)
theory FF_Prelude
  imports Main "HOL-Library.Word"
begin

text \<open>
  Shared vocabulary of the development: the fixed-width integers of the C++ sources, the
  exceptions they throw, the sequencing of computations that may throw, the \<open>std::vector\<close>
  idioms the components repeat (find the first match, overwrite it in place, otherwise
  append), and the interface locales of the keyed stores built from them.
\<close>

section \<open>Machine integers and exceptions\<close>

type_synonym u8 = "8 word"
type_synonym u32 = "32 word"
type_synonym u64 = "64 word"
type_synonym bytes = "8 word list"

text \<open>The exception classes the library throws, with their message.\<close>

datatype exn =
    GenerationExhausted string
  | CapacityExceeded string
  | InvalidArgument string
  | LogicError string
  | RuntimeError string
  | ProtocolError string

type_synonym 'a result = "exn + 'a"

text \<open>Facts that normalise computations over \<^typ>\<open>'a result\<close>.\<close>

named_theorems exn_simps

text \<open>Frame facts: what an operation leaves unchanged.\<close>

named_theorems frame_simps

section \<open>Sequencing computations that may throw\<close>

definition bindE :: "'e + 'a \<Rightarrow> ('a \<Rightarrow> 'e + 'b) \<Rightarrow> 'e + 'b" where
  "bindE m f = (case m of Inl e \<Rightarrow> Inl e | Inr a \<Rightarrow> f a)"

lemma bindE_Inl [simp, exn_simps]: "bindE (Inl e) f = Inl e"
  by (simp add: bindE_def)

lemma bindE_Inr [simp, exn_simps]: "bindE (Inr a) f = f a"
  by (simp add: bindE_def)

lemma bindE_eq_Inr_iff [exn_simps]: "bindE m f = Inr b \<longleftrightarrow> (\<exists>a. m = Inr a \<and> f a = Inr b)"
  by (cases m) auto

lemma bindE_eq_Inl_iff [exn_simps]:
  "bindE m f = Inl e \<longleftrightarrow> m = Inl e \<or> (\<exists>a. m = Inr a \<and> f a = Inl e)"
  by (cases m) auto

lemma bindE_assoc: "bindE (bindE m f) g = bindE m (\<lambda>x. bindE (f x) g)"
  by (cases m) auto

text \<open>\<^verbatim>\<open>if (!cond) throw e;\<close>\<close>

definition guardE :: "bool \<Rightarrow> 'e \<Rightarrow> 'e + unit" where
  "guardE b e = (if b then Inr () else Inl e)"

lemma guardE_eq_Inr [simp, exn_simps]: "guardE b e = Inr u \<longleftrightarrow> b"
  by (simp add: guardE_def)

lemma guardE_eq_Inl [simp, exn_simps]: "guardE b e = Inl e' \<longleftrightarrow> \<not> b \<and> e' = e"
  by (auto simp add: guardE_def)

lemma guardE_True [simp]: "guardE True e = Inr ()"
  by (simp add: guardE_def)

lemma guardE_False [simp]: "guardE False e = Inl e"
  by (simp add: guardE_def)

section \<open>Printing numbers\<close>

text \<open>\<^verbatim>\<open>std::to_string\<close> of an unsigned integer.\<close>

fun decimal :: "nat \<Rightarrow> string" where
  "decimal n = (if n < 10 then [char_of (48 + n)] else decimal (n div 10) @ [char_of (48 + n mod 10)])"

declare decimal.simps [simp del]

section \<open>Vector idioms\<close>

text \<open>
  \<^verbatim>\<open>for (auto& e : v) if (P(e)) { e = f(e); return; }\<close> overwrites the first match in place.
\<close>

fun upd_first :: "('a \<Rightarrow> bool) \<Rightarrow> ('a \<Rightarrow> 'a) \<Rightarrow> 'a list \<Rightarrow> 'a list" where
  "upd_first P f [] = []"
| "upd_first P f (x # xs) = (if P x then f x # xs else x # upd_first P f xs)"

text \<open>
  \<^verbatim>\<open>if (v.size() > max) v.resize(max);\<close> keeps a prefix, which is \<^const>\<open>take\<close>.
\<close>

lemma find_SomeD: "List.find P xs = Some x \<Longrightarrow> x \<in> set xs \<and> P x"
  by (induction xs) (auto split: if_splits)

lemma find_None_iff_none: "List.find P xs = None \<longleftrightarrow> (\<forall>x \<in> set xs. \<not> P x)"
  by (auto simp: find_None_iff)

lemma find_append [simp]:
  "List.find P (xs @ ys) = (case List.find P xs of None \<Rightarrow> List.find P ys | Some x \<Rightarrow> Some x)"
  by (induction xs) auto

lemma length_upd_first [simp]: "length (upd_first P f xs) = length xs"
  by (induction xs) auto

lemma upd_first_id: "\<forall>x \<in> set xs. \<not> P x \<Longrightarrow> upd_first P f xs = xs"
  by (induction xs) auto

lemma upd_first_eq_Nil [simp]: "upd_first P f xs = [] \<longleftrightarrow> xs = []"
  by (cases xs) auto

lemma set_upd_first: "set (upd_first P f xs) \<subseteq> set xs \<union> f ` set xs"
  by (induction xs) auto

lemma in_set_upd_firstD:
  "x \<in> set (upd_first P f xs) \<Longrightarrow> x \<in> set xs \<or> (\<exists>y. List.find P xs = Some y \<and> x = f y)"
  by (induction xs) (auto split: if_splits)

text \<open>An update that keeps the key of its element keeps the keys of the whole vector.\<close>

lemma map_upd_first:
  "(\<And>x. x \<in> set xs \<Longrightarrow> P x \<Longrightarrow> key (f x) = key x) \<Longrightarrow> map key (upd_first P f xs) = map key xs"
  by (induction xs) auto

lemma find_upd_first_same:
  "(\<And>x. P x \<Longrightarrow> P (f x)) \<Longrightarrow> List.find P (upd_first P f xs) = map_option f (List.find P xs)"
  by (induction xs) auto

lemma find_upd_first_other:
  "(\<And>x. P x \<Longrightarrow> \<not> Q x \<and> \<not> Q (f x)) \<Longrightarrow> List.find Q (upd_first P f xs) = List.find Q xs"
  by (induction xs) auto

lemma image_upd_first:
  "(\<And>x. x \<in> set xs \<Longrightarrow> P x \<Longrightarrow> key (f x) = key x) \<Longrightarrow> key ` set (upd_first P f xs) = key ` set xs"
  by (induction xs) auto

lemma find_distinct_key:
  "distinct (map key xs) \<Longrightarrow> x \<in> set xs \<Longrightarrow> List.find (\<lambda>y. key y = key x) xs = Some x"
  by (induction xs) (auto simp: rev_image_eqI)

text \<open>Nested loops that filter: membership in the results.\<close>

lemma nth_in_range_set: "i < length xs \<Longrightarrow> xs ! i \<in> set xs"
  by simp

lemma nth_append_list_update:
  "i < length xs \<Longrightarrow> (xs @ [y])[i := z] = xs[i := z] @ [y]"
  by (simp add: list_update_append)

section \<open>Interface locales of keyed stores\<close>

text \<open>
  A keyed store keeps at most one current value per key. \<open>put\<close> offers a value; the store
  takes it when \<open>accepts\<close> allows it against the value it holds for that key. The domain
  registry (declarations and memberships), the route table and the request tracker are
  such stores.
\<close>

locale keyed_store =
  fixes lookup :: "'s \<Rightarrow> 'k \<Rightarrow> 'v option"
    and put :: "'s \<Rightarrow> 'v \<Rightarrow> 's"
    and key :: "'v \<Rightarrow> 'k"
    and accepts :: "'v option \<Rightarrow> 'v \<Rightarrow> bool"
    and invar :: "'s \<Rightarrow> bool"
  assumes lookup_put: "invar s \<Longrightarrow>
      lookup (put s v) k = (if k = key v \<and> accepts (lookup s k) v then Some v else lookup s k)"
    and invar_put: "invar s \<Longrightarrow> invar (put s v)"
begin

lemma lookup_put_other: "invar s \<Longrightarrow> k \<noteq> key v \<Longrightarrow> lookup (put s v) k = lookup s k"
  by (simp add: lookup_put)

lemma lookup_put_same:
  "invar s \<Longrightarrow> accepts (lookup s (key v)) v \<Longrightarrow> lookup (put s v) (key v) = Some v"
  by (simp add: lookup_put)

lemma invar_puts: "invar s \<Longrightarrow> invar (foldl put s vs)"
  by (induction vs arbitrary: s) (auto simp: invar_put)

text \<open>Offers for different keys commute.\<close>

lemma put_commute:
  "invar s \<Longrightarrow> key v \<noteq> key w \<Longrightarrow> lookup (put (put s v) w) = lookup (put (put s w) v)"
  by (rule ext) (auto simp: lookup_put invar_put)

lemma lookup_puts_notin:
  "invar s \<Longrightarrow> k \<notin> key ` set vs \<Longrightarrow> lookup (foldl put s vs) k = lookup s k"
  by (induction vs arbitrary: s) (auto simp: invar_put lookup_put)

text \<open>
  Rebuilding a store from the values of an earlier one, as a restart does: with distinct
  keys that the empty store accepts, every value is found again.
\<close>

lemma lookup_puts_distinct:
  assumes "invar s" and "distinct (map key vs)" and "v \<in> set vs"
    and "\<forall>k. lookup s k = None" and "\<forall>v \<in> set vs. accepts None v"
  shows "lookup (foldl put s vs) (key v) = Some v"
proof -
  obtain as bs where vs: "vs = as @ v # bs"
    using assms(3) by (meson split_list)
  let ?s = "foldl put s as"
  have "invar ?s" using assms(1) by (rule invar_puts)
  moreover have "lookup ?s (key v) = None"
    using assms(1,2,4) vs by (subst lookup_puts_notin) auto
  ultimately have "lookup (put ?s v) (key v) = Some v"
    using assms(5) vs by (subst lookup_put) auto
  moreover have "lookup (foldl put (put ?s v) bs) (key v) = lookup (put ?s v) (key v)"
    using \<open>invar ?s\<close> assms(2) vs by (subst lookup_puts_notin) (auto intro: invar_put)
  ultimately show ?thesis using vs by simp
qed

end

text \<open>
  In a versioned store the value held for a key is only replaced by one whose version is
  not older, so no sequence of offers takes a key back.
\<close>

locale versioned_store = keyed_store lookup put key accepts invar
  for lookup :: "'s \<Rightarrow> 'k \<Rightarrow> 'v option"
    and put :: "'s \<Rightarrow> 'v \<Rightarrow> 's"
    and key :: "'v \<Rightarrow> 'k"
    and accepts :: "'v option \<Rightarrow> 'v \<Rightarrow> bool"
    and invar :: "'s \<Rightarrow> bool" +
  fixes version :: "'v \<Rightarrow> 'ver :: linorder"
  assumes accepts_version: "accepts (Some old) v \<Longrightarrow> version old \<le> version v"
begin

lemma put_version_mono:
  assumes "invar s" and "lookup s k = Some old"
  shows "\<exists>new. lookup (put s v) k = Some new \<and> version old \<le> version new"
  using assms by (auto simp: lookup_put dest: accepts_version)

lemma puts_version_mono:
  assumes "invar s" and "lookup s k = Some old"
  shows "\<exists>new. lookup (foldl put s vs) k = Some new \<and> version old \<le> version new"
  using assms
proof (induction vs arbitrary: s old)
  case (Cons v vs)
  obtain mid where mid: "lookup (put s v) k = Some mid" "version old \<le> version mid"
    using put_version_mono [OF Cons.prems] by blast
  obtain new where "lookup (foldl put (put s v) vs) k = Some new" "version mid \<le> version new"
    using Cons.IH [OF invar_put [OF Cons.prems(1)] mid(1)] by blast
  with mid(2) show ?case by auto
qed simp

end

end
