(* ===== verification/Identities.thy ===== *)
theory Identities
  imports FF_Prelude
begin

text \<open>
  \<^verbatim>\<open>identities.hpp\<close>: strongly typed identities \<open>Id<Tag>\<close> and generations \<open>Gen<Tag>\<close>.
  The C++ tag parameter is a phantom type parameter here, so an identity of one concept is
  no identity of another. Both are ordered by their value (the instances of \<^verbatim>\<open>linorder\<close>),
  an identity may wrap when it is advanced, a generation refuses to.
\<close>

section \<open>Identities and generations\<close>

text \<open>\<open>detail::kGenMax\<close>\<close>

definition kGenMax :: u64 where
  "kGenMax = - 1"

datatype 'tag Id = Id (id_value: u64)

datatype 'tag Gen = Gen (gen_value: u64)

definition id_null :: "'tag Id" where
  "id_null = Id 0"

definition min_id :: "'tag Id" where
  "min_id = Id 1"

definition id_is_null :: "'tag Id \<Rightarrow> bool" where
  "id_is_null i \<longleftrightarrow> id_value i = 0"

text \<open>\<open>Id::next\<close> is unchecked: the largest identity wraps to the null one.\<close>

definition id_next :: "'tag Id \<Rightarrow> 'tag Id" where
  "id_next i = Id (id_value i + 1)"

definition gen_first :: "'tag Gen" where
  "gen_first = Gen 1"

definition gen_null :: "'tag Gen" where
  "gen_null = Gen 0"

definition gen_is_null :: "'tag Gen \<Rightarrow> bool" where
  "gen_is_null g \<longleftrightarrow> gen_value g = 0"

text \<open>\<open>Gen::next\<close> throws at the maximum instead of wrapping.\<close>

definition gen_next :: "'tag Gen \<Rightarrow> 'tag Gen result" where
  "gen_next g = (if kGenMax \<le> gen_value g then Inl (GenerationExhausted ''generation exhausted'')
                 else Inr (Gen (gen_value g + 1)))"

definition can_advance :: "'tag Gen \<Rightarrow> bool" where
  "can_advance g \<longleftrightarrow> gen_value g < kGenMax"

subsection \<open>The comparison operators\<close>

instantiation Id :: (type) linorder
begin

definition less_eq_Id :: "'a Id \<Rightarrow> 'a Id \<Rightarrow> bool" where
  "less_eq_Id a b \<longleftrightarrow> id_value a \<le> id_value b"

definition less_Id :: "'a Id \<Rightarrow> 'a Id \<Rightarrow> bool" where
  "less_Id a b \<longleftrightarrow> id_value a < id_value b"

instance
  by standard (auto simp: less_eq_Id_def less_Id_def intro: Id.expand)

end

instantiation Gen :: (type) linorder
begin

definition less_eq_Gen :: "'a Gen \<Rightarrow> 'a Gen \<Rightarrow> bool" where
  "less_eq_Gen a b \<longleftrightarrow> gen_value a \<le> gen_value b"

definition less_Gen :: "'a Gen \<Rightarrow> 'a Gen \<Rightarrow> bool" where
  "less_Gen a b \<longleftrightarrow> gen_value a < gen_value b"

instance
  by standard (auto simp: less_eq_Gen_def less_Gen_def intro: Gen.expand)

end

lemma less_Id_iff [simp]: "Id a < Id b \<longleftrightarrow> a < b"
  by (simp add: less_Id_def)

lemma less_eq_Id_iff [simp]: "Id a \<le> Id b \<longleftrightarrow> a \<le> b"
  by (simp add: less_eq_Id_def)

lemma less_Gen_iff [simp]: "Gen a < Gen b \<longleftrightarrow> a < b"
  by (simp add: less_Gen_def)

lemma less_eq_Gen_iff [simp]: "Gen a \<le> Gen b \<longleftrightarrow> a \<le> b"
  by (simp add: less_eq_Gen_def)

lemma id_is_null_iff [simp]: "id_is_null i \<longleftrightarrow> i = id_null"
  by (cases i) (simp add: id_is_null_def id_null_def)

section \<open>Advancing a generation\<close>

lemma kGenMax_greatest [simp]: "x \<le> kGenMax"
  by (simp add: kGenMax_def)

lemma le_kGenMax_iff [simp]: "kGenMax \<le> x \<longleftrightarrow> x = kGenMax"
  by (simp add: kGenMax_def word_order.extremum_unique)

lemma less_kGenMax_iff: "x < kGenMax \<longleftrightarrow> x \<noteq> kGenMax"
  by (simp add: less_le)

lemma unat_Suc_below_max: "x \<noteq> kGenMax \<Longrightarrow> unat (x + 1) = Suc (unat x)"
  using unatSuc [of x] max_word_wrap [of x]
  by (metis add.commute kGenMax_def)

lemma gen_next_eq_Inr_iff [exn_simps]:
  "gen_next g = Inr g' \<longleftrightarrow> can_advance g \<and> g' = Gen (gen_value g + 1)"
  by (auto simp: gen_next_def can_advance_def less_kGenMax_iff)

lemma gen_next_eq_Inl_iff [exn_simps]:
  "gen_next g = Inl e \<longleftrightarrow> \<not> can_advance g \<and> e = GenerationExhausted ''generation exhausted''"
  by (auto simp: gen_next_def can_advance_def less_kGenMax_iff)

lemma gen_next_greater: "gen_next g = Inr g' \<Longrightarrow> g < g'"
  by (cases g)
    (auto simp: gen_next_def word_less_nat_alt unat_Suc_below_max split: if_splits)

text \<open>
  Advancing a generation is exact or fails closed: it throws precisely at the maximum,
  and otherwise returns the generation whose value is one larger as a number (no
  wrap-around), which is therefore above every generation that was not above the old one.
\<close>

theorem gen_next_monotonic:
  "case gen_next g of
     Inl e \<Rightarrow> e = GenerationExhausted ''generation exhausted'' \<and> unat (gen_value g) = 2 ^ 64 - 1
   | Inr g' \<Rightarrow> unat (gen_value g') = unat (gen_value g) + 1 \<and> {h. h \<le> g} = {h. h < g'}"
proof (cases "gen_value g = kGenMax")
  case True
  then show ?thesis by (simp add: gen_next_def kGenMax_def unsigned_minus_1_eq_mask mask_eq_exp_minus_1)
next
  case False
  then have s: "unat (gen_value g + 1) = Suc (unat (gen_value g))"
    by (rule unat_Suc_below_max)
  then have "h \<le> g \<longleftrightarrow> h < Gen (gen_value g + 1)" for h :: "'a Gen"
    by (simp add: less_eq_Gen_def less_Gen_def word_less_nat_alt word_le_nat_alt less_Suc_eq_le)
  with False s show ?thesis by (simp add: gen_next_def)
qed

section \<open>Tags and aliases\<close>

datatype ServiceTag = ServiceTag
datatype ServiceShardTag = ServiceShardTag
datatype ServiceSlotTag = ServiceSlotTag
datatype AssignmentTag = AssignmentTag
datatype TargetTag = TargetTag
datatype ReplicaTag = ReplicaTag
datatype EngineTag = EngineTag
datatype EngineIncarnationTag = EngineIncarnationTag
datatype ReadinessProfileTag = ReadinessProfileTag
datatype ActivationTag = ActivationTag
datatype WorkerTag = WorkerTag
datatype WorkerBootTag = WorkerBootTag
datatype SourceTag = SourceTag
datatype SourceBootTag = SourceBootTag
datatype FailureDomainTag = FailureDomainTag
datatype FailureEventTag = FailureEventTag
datatype FailoverPlanTag = FailoverPlanTag
datatype FailoverAttemptTag = FailoverAttemptTag
datatype FenceTag = FenceTag
datatype RouteTag = RouteTag
datatype GatewayBootTag = GatewayBootTag
datatype CoordinatorTag = CoordinatorTag
datatype StateTag = StateTag
datatype RequestTag = RequestTag
datatype ExecutionTag = ExecutionTag
datatype CompatibilityTag = CompatibilityTag
datatype CapacityTag = CapacityTag
datatype ResourceClaimTag = ResourceClaimTag
datatype ReservationTag = ReservationTag
datatype DependencyTag = DependencyTag
datatype ServiceConfigTag = ServiceConfigTag
datatype ServiceAuthorityTag = ServiceAuthorityTag
datatype ReadinessGenerationTag = ReadinessGenerationTag
datatype HealthGenerationTag = HealthGenerationTag
datatype CandidateSnapshotTag = CandidateSnapshotTag
datatype PolicyTag = PolicyTag
datatype CheckpointTag = CheckpointTag

type_synonym ServiceId = "ServiceTag Id"
type_synonym ServiceSlotId = "ServiceSlotTag Id"
type_synonym AssignmentId = "AssignmentTag Id"
type_synonym TargetId = "TargetTag Id"
type_synonym ReplicaId = "ReplicaTag Id"
type_synonym EngineId = "EngineTag Id"
type_synonym EngineIncarnationId = "EngineIncarnationTag Id"
type_synonym ReadinessProfileId = "ReadinessProfileTag Id"
type_synonym ActivationId = "ActivationTag Id"
type_synonym WorkerId = "WorkerTag Id"
type_synonym WorkerBootId = "WorkerBootTag Id"
type_synonym SourceId = "SourceTag Id"
type_synonym SourceBootId = "SourceBootTag Id"
type_synonym FailureDomainId = "FailureDomainTag Id"
type_synonym FailureEventId = "FailureEventTag Id"
type_synonym FailoverPlanId = "FailoverPlanTag Id"
type_synonym FailoverAttemptId = "FailoverAttemptTag Id"
type_synonym FenceId = "FenceTag Id"
type_synonym RouteId = "RouteTag Id"
type_synonym GatewayBootId = "GatewayBootTag Id"
type_synonym CoordinatorId = "CoordinatorTag Id"
type_synonym StateId = "StateTag Id"
type_synonym RequestId = "RequestTag Id"
type_synonym ExecutionId = "ExecutionTag Id"
type_synonym CompatibilityId = "CompatibilityTag Id"
type_synonym ResourceClaimId = "ResourceClaimTag Id"
type_synonym ReservationId = "ReservationTag Id"
type_synonym DependencyId = "DependencyTag Id"

type_synonym ServiceGeneration = "ServiceTag Gen"
type_synonym FailureDomainGeneration = "FailureDomainTag Gen"
type_synonym ServiceConfigGeneration = "ServiceConfigTag Gen"
type_synonym AssignmentGeneration = "AssignmentTag Gen"
type_synonym ServiceAuthorityGeneration = "ServiceAuthorityTag Gen"
type_synonym TargetGeneration = "TargetTag Gen"
type_synonym ReplicaGeneration = "ReplicaTag Gen"
type_synonym EngineGeneration = "EngineTag Gen"
type_synonym ReadinessProfileGeneration = "ReadinessProfileTag Gen"
type_synonym ReadinessGeneration = "ReadinessGenerationTag Gen"
type_synonym ActivationGeneration = "ActivationTag Gen"
type_synonym FailureGeneration = "FailureEventTag Gen"
type_synonym HealthGeneration = "HealthGenerationTag Gen"
type_synonym CandidateSnapshotGeneration = "CandidateSnapshotTag Gen"
type_synonym FailoverPlanGeneration = "FailoverPlanTag Gen"
type_synonym FailoverAttemptGeneration = "FailoverAttemptTag Gen"
type_synonym FenceGeneration = "FenceTag Gen"
type_synonym RouteGeneration = "RouteTag Gen"
type_synonym PolicyGeneration = "PolicyTag Gen"
type_synonym CapacityGeneration = "CapacityTag Gen"
type_synonym ReservationGeneration = "ReservationTag Gen"
type_synonym StateGeneration = "StateTag Gen"
type_synonym CheckpointGeneration = "CheckpointTag Gen"
type_synonym ExecutionGeneration = "ExecutionTag Gen"

end
