(* ===== verification/FF_Types.thy ===== *)
theory FF_Types
  imports Identities
begin

text \<open>
  \<^verbatim>\<open>types.hpp\<close> and the enumerations of the other headers, with their \<^verbatim>\<open>to_string\<close> functions
  (\<^verbatim>\<open>types.cpp\<close>). Every enumeration is a datatype with the source's enumerators in the
  source's order; \<open>X_values\<close> lists them in that order, so the underlying byte of an
  enumerator is its position. The locale \<open>byte_enum\<close> states what the casts to and from
  the underlying byte rely on, and each enumeration interprets it.
\<close>

section \<open>Enumerations and their underlying bytes\<close>

fun index_of :: "'a \<Rightarrow> 'a list \<Rightarrow> nat" where
  "index_of x [] = 0"
| "index_of x (y # ys) = (if x = y then 0 else Suc (index_of x ys))"

lemma index_of_less: "x \<in> set xs \<Longrightarrow> index_of x xs < length xs"
  by (induction xs) auto

lemma nth_index_of: "x \<in> set xs \<Longrightarrow> xs ! index_of x xs = x"
  by (induction xs) auto

lemma index_of_nth: "distinct xs \<Longrightarrow> i < length xs \<Longrightarrow> index_of (xs ! i) xs = i"
  by (metis distinct_conv_nth index_of_less nth_index_of nth_mem)

text \<open>\<^verbatim>\<open>(std::uint8_t)x\<close> for an enumerator, and the range check with the cast back.\<close>

definition enum_byte :: "'a list \<Rightarrow> 'a \<Rightarrow> u8" where
  "enum_byte vals x = of_nat (index_of x vals)"

definition enum_of_byte :: "'a list \<Rightarrow> u8 \<Rightarrow> 'a option" where
  "enum_of_byte vals b = (if unat b < length vals then Some (vals ! unat b) else None)"

locale byte_enum =
  fixes vals :: "'a list"
  assumes distinct_vals: "distinct vals"
    and complete_vals: "x \<in> set vals"
    and few_vals: "length vals \<le> 256"
begin

lemma unat_enum_byte: "unat (enum_byte vals x) = index_of x vals"
proof -
  have "index_of x vals < 256"
    using index_of_less [OF complete_vals, of x] few_vals by simp
  then show ?thesis by (simp add: enum_byte_def unat_of_nat)
qed

lemma enum_roundtrip: "enum_of_byte vals (enum_byte vals x) = Some x"
  by (simp add: enum_of_byte_def unat_enum_byte index_of_less nth_index_of complete_vals)

lemma enum_of_byte_Some_iff: "enum_of_byte vals b = Some x \<longleftrightarrow> b = enum_byte vals x"
proof
  assume "enum_of_byte vals b = Some x"
  then have b: "unat b < length vals" "x = vals ! unat b"
    by (auto simp: enum_of_byte_def split: if_splits)
  then have "unat (enum_byte vals x) = unat b"
    by (simp add: unat_enum_byte index_of_nth distinct_vals)
  then show "b = enum_byte vals x" by (simp add: word_unat_eq_iff)
qed (simp add: enum_roundtrip)

lemma UNIV_vals: "UNIV = set vals"
  using complete_vals by auto

lemma inj_if_distinct_map: "distinct (map f vals) \<Longrightarrow> inj f"
  by (simp add: distinct_map UNIV_vals)

end

section \<open>The enumerations\<close>

datatype EvidenceStatus =
    SUSPECTED
  | CONFIRMED
  | CLEARED
  | STALE
  | UNKNOWN

definition EvidenceStatus_values :: "EvidenceStatus list" where
  "EvidenceStatus_values =
    [EvidenceStatus.SUSPECTED,
     EvidenceStatus.CONFIRMED,
     EvidenceStatus.CLEARED,
     EvidenceStatus.STALE,
     EvidenceStatus.UNKNOWN]"

interpretation EvidenceStatus_bytes: byte_enum EvidenceStatus_values
proof unfold_locales
  fix x :: EvidenceStatus
  show "x \<in> set EvidenceStatus_values" by (cases x) (simp_all add: EvidenceStatus_values_def)
qed (simp_all add: EvidenceStatus_values_def)

datatype FailureCategory =
    PROCESS_EXIT
  | TRANSPORT_DISCONNECT
  | HEARTBEAT_EXPIRATION
  | BACKEND_EXECUTION_FAILURE
  | READINESS_REVOKED
  | DEVICE_UNAVAILABLE
  | NODE_UNAVAILABLE
  | RESOURCE_CLAIM_REVOKED
  | DEPENDENCY_INVALIDATION
  | ADMIN_FAILOVER
  | PLANNED_MAINTENANCE
  | DEGRADED_HEALTH
  | UNKNOWN_FAILURE

definition FailureCategory_values :: "FailureCategory list" where
  "FailureCategory_values =
    [FailureCategory.PROCESS_EXIT,
     FailureCategory.TRANSPORT_DISCONNECT,
     FailureCategory.HEARTBEAT_EXPIRATION,
     FailureCategory.BACKEND_EXECUTION_FAILURE,
     FailureCategory.READINESS_REVOKED,
     FailureCategory.DEVICE_UNAVAILABLE,
     FailureCategory.NODE_UNAVAILABLE,
     FailureCategory.RESOURCE_CLAIM_REVOKED,
     FailureCategory.DEPENDENCY_INVALIDATION,
     FailureCategory.ADMIN_FAILOVER,
     FailureCategory.PLANNED_MAINTENANCE,
     FailureCategory.DEGRADED_HEALTH,
     FailureCategory.UNKNOWN_FAILURE]"

interpretation FailureCategory_bytes: byte_enum FailureCategory_values
proof unfold_locales
  fix x :: FailureCategory
  show "x \<in> set FailureCategory_values" by (cases x) (simp_all add: FailureCategory_values_def)
qed (simp_all add: FailureCategory_values_def)

datatype Provenance =
    MEASURED
  | REPORTED
  | DERIVED
  | ESTIMATED
  | SYNTHETIC
  | RECONSTRUCTED
  | UNKNOWN

definition Provenance_values :: "Provenance list" where
  "Provenance_values =
    [Provenance.MEASURED,
     Provenance.REPORTED,
     Provenance.DERIVED,
     Provenance.ESTIMATED,
     Provenance.SYNTHETIC,
     Provenance.RECONSTRUCTED,
     Provenance.UNKNOWN]"

interpretation Provenance_bytes: byte_enum Provenance_values
proof unfold_locales
  fix x :: Provenance
  show "x \<in> set Provenance_values" by (cases x) (simp_all add: Provenance_values_def)
qed (simp_all add: Provenance_values_def)

datatype ServiceOutcome =
    UNKNOWN
  | AVAILABLE
  | DEGRADED
  | UNAVAILABLE
  | RECOVERING
  | REVALIDATION_REQUIRED

definition ServiceOutcome_values :: "ServiceOutcome list" where
  "ServiceOutcome_values =
    [ServiceOutcome.UNKNOWN,
     ServiceOutcome.AVAILABLE,
     ServiceOutcome.DEGRADED,
     ServiceOutcome.UNAVAILABLE,
     ServiceOutcome.RECOVERING,
     ServiceOutcome.REVALIDATION_REQUIRED]"

interpretation ServiceOutcome_bytes: byte_enum ServiceOutcome_values
proof unfold_locales
  fix x :: ServiceOutcome
  show "x \<in> set ServiceOutcome_values" by (cases x) (simp_all add: ServiceOutcome_values_def)
qed (simp_all add: ServiceOutcome_values_def)

datatype AttemptState =
    REQUESTED
  | EVALUATING
  | BLOCKED
  | PREPARING
  | FENCING
  | PROMOTING
  | CUTTING_OVER
  | VERIFYING
  | COMPLETED
  | FAILED
  | CANCELLED
  | SUPERSEDED
  | RECOVERY_REQUIRED

definition AttemptState_values :: "AttemptState list" where
  "AttemptState_values =
    [AttemptState.REQUESTED,
     AttemptState.EVALUATING,
     AttemptState.BLOCKED,
     AttemptState.PREPARING,
     AttemptState.FENCING,
     AttemptState.PROMOTING,
     AttemptState.CUTTING_OVER,
     AttemptState.VERIFYING,
     AttemptState.COMPLETED,
     AttemptState.FAILED,
     AttemptState.CANCELLED,
     AttemptState.SUPERSEDED,
     AttemptState.RECOVERY_REQUIRED]"

interpretation AttemptState_bytes: byte_enum AttemptState_values
proof unfold_locales
  fix x :: AttemptState
  show "x \<in> set AttemptState_values" by (cases x) (simp_all add: AttemptState_values_def)
qed (simp_all add: AttemptState_values_def)

datatype AssignmentState =
    CANDIDATE
  | PREPARED
  | AUTHORIZED
  | ACTIVE
  | DRAINING
  | FENCED
  | RETIRED
  | REVALIDATION_REQUIRED

definition AssignmentState_values :: "AssignmentState list" where
  "AssignmentState_values =
    [AssignmentState.CANDIDATE,
     AssignmentState.PREPARED,
     AssignmentState.AUTHORIZED,
     AssignmentState.ACTIVE,
     AssignmentState.DRAINING,
     AssignmentState.FENCED,
     AssignmentState.RETIRED,
     AssignmentState.REVALIDATION_REQUIRED]"

interpretation AssignmentState_bytes: byte_enum AssignmentState_values
proof unfold_locales
  fix x :: AssignmentState
  show "x \<in> set AssignmentState_values" by (cases x) (simp_all add: AssignmentState_values_def)
qed (simp_all add: AssignmentState_values_def)

datatype ContinuityClass =
    STATELESS_RESTART
  | REPLAY_SAFE_REQUESTS
  | CHECKPOINT_RESTORE
  | SESSION_STATE_REBIND
  | SESSION_RESTART_REQUIRED
  | MANUAL_RECOVERY_REQUIRED
  | UNKNOWN

definition ContinuityClass_values :: "ContinuityClass list" where
  "ContinuityClass_values =
    [ContinuityClass.STATELESS_RESTART,
     ContinuityClass.REPLAY_SAFE_REQUESTS,
     ContinuityClass.CHECKPOINT_RESTORE,
     ContinuityClass.SESSION_STATE_REBIND,
     ContinuityClass.SESSION_RESTART_REQUIRED,
     ContinuityClass.MANUAL_RECOVERY_REQUIRED,
     ContinuityClass.UNKNOWN]"

interpretation ContinuityClass_bytes: byte_enum ContinuityClass_values
proof unfold_locales
  fix x :: ContinuityClass
  show "x \<in> set ContinuityClass_values" by (cases x) (simp_all add: ContinuityClass_values_def)
qed (simp_all add: ContinuityClass_values_def)

datatype DomainClass =
    PROCESS
  | DEVICE
  | HOST
  | RACK
  | ZONE
  | REGION
  | POWER
  | NETWORK
  | CUSTOM
  | UNKNOWN

definition DomainClass_values :: "DomainClass list" where
  "DomainClass_values =
    [DomainClass.PROCESS,
     DomainClass.DEVICE,
     DomainClass.HOST,
     DomainClass.RACK,
     DomainClass.ZONE,
     DomainClass.REGION,
     DomainClass.POWER,
     DomainClass.NETWORK,
     DomainClass.CUSTOM,
     DomainClass.UNKNOWN]"

interpretation DomainClass_bytes: byte_enum DomainClass_values
proof unfold_locales
  fix x :: DomainClass
  show "x \<in> set DomainClass_values" by (cases x) (simp_all add: DomainClass_values_def)
qed (simp_all add: DomainClass_values_def)

datatype ExclusionReason =
    NO_ELIGIBLE_TARGET
  | STALE_READINESS
  | INCOMPATIBLE_PROFILE
  | FAILED_DOMAIN
  | DOMAIN_INDEPENDENCE_UNKNOWN
  | INSUFFICIENT_CAPACITY
  | COMMITMENT_CONFLICT
  | STATE_UNAVAILABLE
  | STATE_TOO_OLD
  | FENCING_UNPROVEN
  | ROUTE_AUTHORITY_UNAVAILABLE
  | RECOVERY_BUDGET_INFEASIBLE
  | REVALIDATION_REQUIRED
  | STALE_AUTHORITY
  | FENCED_BOOT
  | UNKNOWN_REQUIRED_EVIDENCE
  | RESOURCES_REVOKED
  | UNREADY_ENGINE
  | UNSUPPORTED_CONTINUITY
  | POLICY_PROHIBITED_DEGRADATION
  | STALE_ROUTE_PRECONDITION

definition ExclusionReason_values :: "ExclusionReason list" where
  "ExclusionReason_values =
    [ExclusionReason.NO_ELIGIBLE_TARGET,
     ExclusionReason.STALE_READINESS,
     ExclusionReason.INCOMPATIBLE_PROFILE,
     ExclusionReason.FAILED_DOMAIN,
     ExclusionReason.DOMAIN_INDEPENDENCE_UNKNOWN,
     ExclusionReason.INSUFFICIENT_CAPACITY,
     ExclusionReason.COMMITMENT_CONFLICT,
     ExclusionReason.STATE_UNAVAILABLE,
     ExclusionReason.STATE_TOO_OLD,
     ExclusionReason.FENCING_UNPROVEN,
     ExclusionReason.ROUTE_AUTHORITY_UNAVAILABLE,
     ExclusionReason.RECOVERY_BUDGET_INFEASIBLE,
     ExclusionReason.REVALIDATION_REQUIRED,
     ExclusionReason.STALE_AUTHORITY,
     ExclusionReason.FENCED_BOOT,
     ExclusionReason.UNKNOWN_REQUIRED_EVIDENCE,
     ExclusionReason.RESOURCES_REVOKED,
     ExclusionReason.UNREADY_ENGINE,
     ExclusionReason.UNSUPPORTED_CONTINUITY,
     ExclusionReason.POLICY_PROHIBITED_DEGRADATION,
     ExclusionReason.STALE_ROUTE_PRECONDITION]"

interpretation ExclusionReason_bytes: byte_enum ExclusionReason_values
proof unfold_locales
  fix x :: ExclusionReason
  show "x \<in> set ExclusionReason_values" by (cases x) (simp_all add: ExclusionReason_values_def)
qed (simp_all add: ExclusionReason_values_def)

datatype RequestDisposition =
    NOT_DISPATCHED
  | DISPATCHED
  | ACCEPTED_BY_TARGET
  | CONFIRMED_COMPLETE
  | RESPONSE_COMMITTED
  | FAILED
  | OUTCOME_UNKNOWN

definition RequestDisposition_values :: "RequestDisposition list" where
  "RequestDisposition_values =
    [RequestDisposition.NOT_DISPATCHED,
     RequestDisposition.DISPATCHED,
     RequestDisposition.ACCEPTED_BY_TARGET,
     RequestDisposition.CONFIRMED_COMPLETE,
     RequestDisposition.RESPONSE_COMMITTED,
     RequestDisposition.FAILED,
     RequestDisposition.OUTCOME_UNKNOWN]"

interpretation RequestDisposition_bytes: byte_enum RequestDisposition_values
proof unfold_locales
  fix x :: RequestDisposition
  show "x \<in> set RequestDisposition_values" by (cases x) (simp_all add: RequestDisposition_values_def)
qed (simp_all add: RequestDisposition_values_def)

datatype FailbackPolicy =
    MANUAL
  | STAY_ON_CURRENT
  | RETURN_AFTER_VALIDATION

definition FailbackPolicy_values :: "FailbackPolicy list" where
  "FailbackPolicy_values =
    [FailbackPolicy.MANUAL,
     FailbackPolicy.STAY_ON_CURRENT,
     FailbackPolicy.RETURN_AFTER_VALIDATION]"

interpretation FailbackPolicy_bytes: byte_enum FailbackPolicy_values
proof unfold_locales
  fix x :: FailbackPolicy
  show "x \<in> set FailbackPolicy_values" by (cases x) (simp_all add: FailbackPolicy_values_def)
qed (simp_all add: FailbackPolicy_values_def)

datatype RouteState =
    EMPTY
  | PENDING_INSTALL
  | INSTALLED
  | ACKNOWLEDGED
  | REVALIDATION_REQUIRED
  | STALE

definition RouteState_values :: "RouteState list" where
  "RouteState_values =
    [RouteState.EMPTY,
     RouteState.PENDING_INSTALL,
     RouteState.INSTALLED,
     RouteState.ACKNOWLEDGED,
     RouteState.REVALIDATION_REQUIRED,
     RouteState.STALE]"

interpretation RouteState_bytes: byte_enum RouteState_values
proof unfold_locales
  fix x :: RouteState
  show "x \<in> set RouteState_values" by (cases x) (simp_all add: RouteState_values_def)
qed (simp_all add: RouteState_values_def)

datatype Severity =
    LOW
  | MEDIUM
  | HIGH
  | CRITICAL

definition Severity_values :: "Severity list" where
  "Severity_values =
    [Severity.LOW,
     Severity.MEDIUM,
     Severity.HIGH,
     Severity.CRITICAL]"

interpretation Severity_bytes: byte_enum Severity_values
proof unfold_locales
  fix x :: Severity
  show "x \<in> set Severity_values" by (cases x) (simp_all add: Severity_values_def)
qed (simp_all add: Severity_values_def)

datatype ServingRole =
    EXCLUSIVE_ACTIVE
  | PARTITIONED_SLOTS
  | MULTI_ACTIVE_SLOTS

definition ServingRole_values :: "ServingRole list" where
  "ServingRole_values =
    [ServingRole.EXCLUSIVE_ACTIVE,
     ServingRole.PARTITIONED_SLOTS,
     ServingRole.MULTI_ACTIVE_SLOTS]"

interpretation ServingRole_bytes: byte_enum ServingRole_values
proof unfold_locales
  fix x :: ServingRole
  show "x \<in> set ServingRole_values" by (cases x) (simp_all add: ServingRole_values_def)
qed (simp_all add: ServingRole_values_def)

datatype RtoAnchor =
    FIRST_ACCEPTED_FAILURE_OBSERVATION
  | EXPLICIT_FAILOVER_REQUEST
  | SERVICE_CONTRACT_ANCHOR

definition RtoAnchor_values :: "RtoAnchor list" where
  "RtoAnchor_values =
    [RtoAnchor.FIRST_ACCEPTED_FAILURE_OBSERVATION,
     RtoAnchor.EXPLICIT_FAILOVER_REQUEST,
     RtoAnchor.SERVICE_CONTRACT_ANCHOR]"

interpretation RtoAnchor_bytes: byte_enum RtoAnchor_values
proof unfold_locales
  fix x :: RtoAnchor
  show "x \<in> set RtoAnchor_values" by (cases x) (simp_all add: RtoAnchor_values_def)
qed (simp_all add: RtoAnchor_values_def)

datatype RecoveryStage =
    FAILURE_OBSERVATION
  | CANDIDATE_EVALUATION
  | ENGINE_PREPARATION
  | STATE_RESTORE_OR_REBIND
  | FENCING
  | ACTIVATION
  | ROUTE_INSTALLATION
  | VERIFICATION

definition RecoveryStage_values :: "RecoveryStage list" where
  "RecoveryStage_values =
    [RecoveryStage.FAILURE_OBSERVATION,
     RecoveryStage.CANDIDATE_EVALUATION,
     RecoveryStage.ENGINE_PREPARATION,
     RecoveryStage.STATE_RESTORE_OR_REBIND,
     RecoveryStage.FENCING,
     RecoveryStage.ACTIVATION,
     RecoveryStage.ROUTE_INSTALLATION,
     RecoveryStage.VERIFICATION]"

interpretation RecoveryStage_bytes: byte_enum RecoveryStage_values
proof unfold_locales
  fix x :: RecoveryStage
  show "x \<in> set RecoveryStage_values" by (cases x) (simp_all add: RecoveryStage_values_def)
qed (simp_all add: RecoveryStage_values_def)

datatype FenceEnforcement =
    COORDINATOR_ASSIGNMENT_AUTHORITY
  | GATEWAY_DISPATCH
  | WORKER_ADMISSION
  | RESULT_ACCEPTANCE
  | EXTERNAL_SIDE_EFFECT_BOUNDARY

definition FenceEnforcement_values :: "FenceEnforcement list" where
  "FenceEnforcement_values =
    [FenceEnforcement.COORDINATOR_ASSIGNMENT_AUTHORITY,
     FenceEnforcement.GATEWAY_DISPATCH,
     FenceEnforcement.WORKER_ADMISSION,
     FenceEnforcement.RESULT_ACCEPTANCE,
     FenceEnforcement.EXTERNAL_SIDE_EFFECT_BOUNDARY]"

interpretation FenceEnforcement_bytes: byte_enum FenceEnforcement_values
proof unfold_locales
  fix x :: FenceEnforcement
  show "x \<in> set FenceEnforcement_values" by (cases x) (simp_all add: FenceEnforcement_values_def)
qed (simp_all add: FenceEnforcement_values_def)

datatype FenceState =
    NONE
  | REQUESTED
  | ENFORCED
  | UNPROVEN
  | SUPERSEDED

definition FenceState_values :: "FenceState list" where
  "FenceState_values =
    [FenceState.NONE,
     FenceState.REQUESTED,
     FenceState.ENFORCED,
     FenceState.UNPROVEN,
     FenceState.SUPERSEDED]"

interpretation FenceState_bytes: byte_enum FenceState_values
proof unfold_locales
  fix x :: FenceState
  show "x \<in> set FenceState_values" by (cases x) (simp_all add: FenceState_values_def)
qed (simp_all add: FenceState_values_def)

datatype IdempotencyAuthority =
    NONE
  | SAFE_TO_RETRY
  | DETERMINISTIC_REFERENCE

definition IdempotencyAuthority_values :: "IdempotencyAuthority list" where
  "IdempotencyAuthority_values =
    [IdempotencyAuthority.NONE,
     IdempotencyAuthority.SAFE_TO_RETRY,
     IdempotencyAuthority.DETERMINISTIC_REFERENCE]"

interpretation IdempotencyAuthority_bytes: byte_enum IdempotencyAuthority_values
proof unfold_locales
  fix x :: IdempotencyAuthority
  show "x \<in> set IdempotencyAuthority_values" by (cases x) (simp_all add: IdempotencyAuthority_values_def)
qed (simp_all add: IdempotencyAuthority_values_def)

datatype Milestone =
    INTENT_ONLY
  | OLD_ADMISSION_FENCED
  | REPLACEMENT_AUTHORIZED
  | ACTIVATION_ACKNOWLEDGED
  | ROUTE_INSTALLED
  | VERIFICATION_COMPLETE

definition Milestone_values :: "Milestone list" where
  "Milestone_values =
    [Milestone.INTENT_ONLY,
     Milestone.OLD_ADMISSION_FENCED,
     Milestone.REPLACEMENT_AUTHORIZED,
     Milestone.ACTIVATION_ACKNOWLEDGED,
     Milestone.ROUTE_INSTALLED,
     Milestone.VERIFICATION_COMPLETE]"

interpretation Milestone_bytes: byte_enum Milestone_values
proof unfold_locales
  fix x :: Milestone
  show "x \<in> set Milestone_values" by (cases x) (simp_all add: Milestone_values_def)
qed (simp_all add: Milestone_values_def)

section \<open>Printing\<close>

fun to_string_EvidenceStatus :: "EvidenceStatus \<Rightarrow> string" where
  "to_string_EvidenceStatus EvidenceStatus.SUSPECTED = ''SUSPECTED''"
| "to_string_EvidenceStatus EvidenceStatus.CONFIRMED = ''CONFIRMED''"
| "to_string_EvidenceStatus EvidenceStatus.CLEARED = ''CLEARED''"
| "to_string_EvidenceStatus EvidenceStatus.STALE = ''STALE''"
| "to_string_EvidenceStatus EvidenceStatus.UNKNOWN = ''UNKNOWN''"

fun to_string_FailureCategory :: "FailureCategory \<Rightarrow> string" where
  "to_string_FailureCategory FailureCategory.PROCESS_EXIT = ''PROCESS_EXIT''"
| "to_string_FailureCategory FailureCategory.TRANSPORT_DISCONNECT = ''TRANSPORT_DISCONNECT''"
| "to_string_FailureCategory FailureCategory.HEARTBEAT_EXPIRATION = ''HEARTBEAT_EXPIRATION''"
| "to_string_FailureCategory FailureCategory.BACKEND_EXECUTION_FAILURE = ''BACKEND_EXECUTION_FAILURE''"
| "to_string_FailureCategory FailureCategory.READINESS_REVOKED = ''READINESS_REVOKED''"
| "to_string_FailureCategory FailureCategory.DEVICE_UNAVAILABLE = ''DEVICE_UNAVAILABLE''"
| "to_string_FailureCategory FailureCategory.NODE_UNAVAILABLE = ''NODE_UNAVAILABLE''"
| "to_string_FailureCategory FailureCategory.RESOURCE_CLAIM_REVOKED = ''RESOURCE_CLAIM_REVOKED''"
| "to_string_FailureCategory FailureCategory.DEPENDENCY_INVALIDATION = ''DEPENDENCY_INVALIDATION''"
| "to_string_FailureCategory FailureCategory.ADMIN_FAILOVER = ''ADMIN_FAILOVER''"
| "to_string_FailureCategory FailureCategory.PLANNED_MAINTENANCE = ''PLANNED_MAINTENANCE''"
| "to_string_FailureCategory FailureCategory.DEGRADED_HEALTH = ''DEGRADED_HEALTH''"
| "to_string_FailureCategory FailureCategory.UNKNOWN_FAILURE = ''UNKNOWN_FAILURE''"

fun to_string_Provenance :: "Provenance \<Rightarrow> string" where
  "to_string_Provenance Provenance.MEASURED = ''MEASURED''"
| "to_string_Provenance Provenance.REPORTED = ''REPORTED''"
| "to_string_Provenance Provenance.DERIVED = ''DERIVED''"
| "to_string_Provenance Provenance.ESTIMATED = ''ESTIMATED''"
| "to_string_Provenance Provenance.SYNTHETIC = ''SYNTHETIC''"
| "to_string_Provenance Provenance.RECONSTRUCTED = ''RECONSTRUCTED''"
| "to_string_Provenance Provenance.UNKNOWN = ''UNKNOWN''"

fun to_string_ServiceOutcome :: "ServiceOutcome \<Rightarrow> string" where
  "to_string_ServiceOutcome ServiceOutcome.UNKNOWN = ''UNKNOWN''"
| "to_string_ServiceOutcome ServiceOutcome.AVAILABLE = ''AVAILABLE''"
| "to_string_ServiceOutcome ServiceOutcome.DEGRADED = ''DEGRADED''"
| "to_string_ServiceOutcome ServiceOutcome.UNAVAILABLE = ''UNAVAILABLE''"
| "to_string_ServiceOutcome ServiceOutcome.RECOVERING = ''RECOVERING''"
| "to_string_ServiceOutcome ServiceOutcome.REVALIDATION_REQUIRED = ''REVALIDATION_REQUIRED''"

fun to_string_AttemptState :: "AttemptState \<Rightarrow> string" where
  "to_string_AttemptState AttemptState.REQUESTED = ''REQUESTED''"
| "to_string_AttemptState AttemptState.EVALUATING = ''EVALUATING''"
| "to_string_AttemptState AttemptState.BLOCKED = ''BLOCKED''"
| "to_string_AttemptState AttemptState.PREPARING = ''PREPARING''"
| "to_string_AttemptState AttemptState.FENCING = ''FENCING''"
| "to_string_AttemptState AttemptState.PROMOTING = ''PROMOTING''"
| "to_string_AttemptState AttemptState.CUTTING_OVER = ''CUTTING_OVER''"
| "to_string_AttemptState AttemptState.VERIFYING = ''VERIFYING''"
| "to_string_AttemptState AttemptState.COMPLETED = ''COMPLETED''"
| "to_string_AttemptState AttemptState.FAILED = ''FAILED''"
| "to_string_AttemptState AttemptState.CANCELLED = ''CANCELLED''"
| "to_string_AttemptState AttemptState.SUPERSEDED = ''SUPERSEDED''"
| "to_string_AttemptState AttemptState.RECOVERY_REQUIRED = ''RECOVERY_REQUIRED''"

fun to_string_AssignmentState :: "AssignmentState \<Rightarrow> string" where
  "to_string_AssignmentState AssignmentState.CANDIDATE = ''CANDIDATE''"
| "to_string_AssignmentState AssignmentState.PREPARED = ''PREPARED''"
| "to_string_AssignmentState AssignmentState.AUTHORIZED = ''AUTHORIZED''"
| "to_string_AssignmentState AssignmentState.ACTIVE = ''ACTIVE''"
| "to_string_AssignmentState AssignmentState.DRAINING = ''DRAINING''"
| "to_string_AssignmentState AssignmentState.FENCED = ''FENCED''"
| "to_string_AssignmentState AssignmentState.RETIRED = ''RETIRED''"
| "to_string_AssignmentState AssignmentState.REVALIDATION_REQUIRED = ''REVALIDATION_REQUIRED''"

fun to_string_ContinuityClass :: "ContinuityClass \<Rightarrow> string" where
  "to_string_ContinuityClass ContinuityClass.STATELESS_RESTART = ''STATELESS_RESTART''"
| "to_string_ContinuityClass ContinuityClass.REPLAY_SAFE_REQUESTS = ''REPLAY_SAFE_REQUESTS''"
| "to_string_ContinuityClass ContinuityClass.CHECKPOINT_RESTORE = ''CHECKPOINT_RESTORE''"
| "to_string_ContinuityClass ContinuityClass.SESSION_STATE_REBIND = ''SESSION_STATE_REBIND''"
| "to_string_ContinuityClass ContinuityClass.SESSION_RESTART_REQUIRED = ''SESSION_RESTART_REQUIRED''"
| "to_string_ContinuityClass ContinuityClass.MANUAL_RECOVERY_REQUIRED = ''MANUAL_RECOVERY_REQUIRED''"
| "to_string_ContinuityClass ContinuityClass.UNKNOWN = ''UNKNOWN''"

fun to_string_DomainClass :: "DomainClass \<Rightarrow> string" where
  "to_string_DomainClass DomainClass.PROCESS = ''PROCESS''"
| "to_string_DomainClass DomainClass.DEVICE = ''DEVICE''"
| "to_string_DomainClass DomainClass.HOST = ''HOST''"
| "to_string_DomainClass DomainClass.RACK = ''RACK''"
| "to_string_DomainClass DomainClass.ZONE = ''ZONE''"
| "to_string_DomainClass DomainClass.REGION = ''REGION''"
| "to_string_DomainClass DomainClass.POWER = ''POWER''"
| "to_string_DomainClass DomainClass.NETWORK = ''NETWORK''"
| "to_string_DomainClass DomainClass.CUSTOM = ''CUSTOM''"
| "to_string_DomainClass DomainClass.UNKNOWN = ''UNKNOWN''"

fun to_string_ExclusionReason :: "ExclusionReason \<Rightarrow> string" where
  "to_string_ExclusionReason ExclusionReason.NO_ELIGIBLE_TARGET = ''NO_ELIGIBLE_TARGET''"
| "to_string_ExclusionReason ExclusionReason.STALE_READINESS = ''STALE_READINESS''"
| "to_string_ExclusionReason ExclusionReason.INCOMPATIBLE_PROFILE = ''INCOMPATIBLE_PROFILE''"
| "to_string_ExclusionReason ExclusionReason.FAILED_DOMAIN = ''FAILED_DOMAIN''"
| "to_string_ExclusionReason ExclusionReason.DOMAIN_INDEPENDENCE_UNKNOWN = ''DOMAIN_INDEPENDENCE_UNKNOWN''"
| "to_string_ExclusionReason ExclusionReason.INSUFFICIENT_CAPACITY = ''INSUFFICIENT_CAPACITY''"
| "to_string_ExclusionReason ExclusionReason.COMMITMENT_CONFLICT = ''COMMITMENT_CONFLICT''"
| "to_string_ExclusionReason ExclusionReason.STATE_UNAVAILABLE = ''STATE_UNAVAILABLE''"
| "to_string_ExclusionReason ExclusionReason.STATE_TOO_OLD = ''STATE_TOO_OLD''"
| "to_string_ExclusionReason ExclusionReason.FENCING_UNPROVEN = ''FENCING_UNPROVEN''"
| "to_string_ExclusionReason ExclusionReason.ROUTE_AUTHORITY_UNAVAILABLE = ''ROUTE_AUTHORITY_UNAVAILABLE''"
| "to_string_ExclusionReason ExclusionReason.RECOVERY_BUDGET_INFEASIBLE = ''RECOVERY_BUDGET_INFEASIBLE''"
| "to_string_ExclusionReason ExclusionReason.REVALIDATION_REQUIRED = ''REVALIDATION_REQUIRED''"
| "to_string_ExclusionReason ExclusionReason.STALE_AUTHORITY = ''STALE_AUTHORITY''"
| "to_string_ExclusionReason ExclusionReason.FENCED_BOOT = ''FENCED_BOOT''"
| "to_string_ExclusionReason ExclusionReason.UNKNOWN_REQUIRED_EVIDENCE = ''UNKNOWN_REQUIRED_EVIDENCE''"
| "to_string_ExclusionReason ExclusionReason.RESOURCES_REVOKED = ''RESOURCES_REVOKED''"
| "to_string_ExclusionReason ExclusionReason.UNREADY_ENGINE = ''UNREADY_ENGINE''"
| "to_string_ExclusionReason ExclusionReason.UNSUPPORTED_CONTINUITY = ''UNSUPPORTED_CONTINUITY''"
| "to_string_ExclusionReason ExclusionReason.POLICY_PROHIBITED_DEGRADATION = ''POLICY_PROHIBITED_DEGRADATION''"
| "to_string_ExclusionReason ExclusionReason.STALE_ROUTE_PRECONDITION = ''STALE_ROUTE_PRECONDITION''"

fun to_string_RequestDisposition :: "RequestDisposition \<Rightarrow> string" where
  "to_string_RequestDisposition RequestDisposition.NOT_DISPATCHED = ''NOT_DISPATCHED''"
| "to_string_RequestDisposition RequestDisposition.DISPATCHED = ''DISPATCHED''"
| "to_string_RequestDisposition RequestDisposition.ACCEPTED_BY_TARGET = ''ACCEPTED_BY_TARGET''"
| "to_string_RequestDisposition RequestDisposition.CONFIRMED_COMPLETE = ''CONFIRMED_COMPLETE''"
| "to_string_RequestDisposition RequestDisposition.RESPONSE_COMMITTED = ''RESPONSE_COMMITTED''"
| "to_string_RequestDisposition RequestDisposition.FAILED = ''FAILED''"
| "to_string_RequestDisposition RequestDisposition.OUTCOME_UNKNOWN = ''OUTCOME_UNKNOWN''"

fun to_string_FailbackPolicy :: "FailbackPolicy \<Rightarrow> string" where
  "to_string_FailbackPolicy FailbackPolicy.MANUAL = ''MANUAL''"
| "to_string_FailbackPolicy FailbackPolicy.STAY_ON_CURRENT = ''STAY_ON_CURRENT''"
| "to_string_FailbackPolicy FailbackPolicy.RETURN_AFTER_VALIDATION = ''RETURN_AFTER_VALIDATION''"

fun to_string_RouteState :: "RouteState \<Rightarrow> string" where
  "to_string_RouteState RouteState.EMPTY = ''EMPTY''"
| "to_string_RouteState RouteState.PENDING_INSTALL = ''PENDING_INSTALL''"
| "to_string_RouteState RouteState.INSTALLED = ''INSTALLED''"
| "to_string_RouteState RouteState.ACKNOWLEDGED = ''ACKNOWLEDGED''"
| "to_string_RouteState RouteState.REVALIDATION_REQUIRED = ''REVALIDATION_REQUIRED''"
| "to_string_RouteState RouteState.STALE = ''STALE''"

fun to_string_Severity :: "Severity \<Rightarrow> string" where
  "to_string_Severity Severity.LOW = ''LOW''"
| "to_string_Severity Severity.MEDIUM = ''MEDIUM''"
| "to_string_Severity Severity.HIGH = ''HIGH''"
| "to_string_Severity Severity.CRITICAL = ''CRITICAL''"

fun to_string_ServingRole :: "ServingRole \<Rightarrow> string" where
  "to_string_ServingRole ServingRole.EXCLUSIVE_ACTIVE = ''EXCLUSIVE_ACTIVE''"
| "to_string_ServingRole ServingRole.PARTITIONED_SLOTS = ''PARTITIONED_SLOTS''"
| "to_string_ServingRole ServingRole.MULTI_ACTIVE_SLOTS = ''MULTI_ACTIVE_SLOTS''"

fun to_string_RtoAnchor :: "RtoAnchor \<Rightarrow> string" where
  "to_string_RtoAnchor RtoAnchor.FIRST_ACCEPTED_FAILURE_OBSERVATION = ''FIRST_ACCEPTED_FAILURE_OBSERVATION''"
| "to_string_RtoAnchor RtoAnchor.EXPLICIT_FAILOVER_REQUEST = ''EXPLICIT_FAILOVER_REQUEST''"
| "to_string_RtoAnchor RtoAnchor.SERVICE_CONTRACT_ANCHOR = ''SERVICE_CONTRACT_ANCHOR''"

fun to_string_RecoveryStage :: "RecoveryStage \<Rightarrow> string" where
  "to_string_RecoveryStage RecoveryStage.FAILURE_OBSERVATION = ''FAILURE_OBSERVATION''"
| "to_string_RecoveryStage RecoveryStage.CANDIDATE_EVALUATION = ''CANDIDATE_EVALUATION''"
| "to_string_RecoveryStage RecoveryStage.ENGINE_PREPARATION = ''ENGINE_PREPARATION''"
| "to_string_RecoveryStage RecoveryStage.STATE_RESTORE_OR_REBIND = ''STATE_RESTORE_OR_REBIND''"
| "to_string_RecoveryStage RecoveryStage.FENCING = ''FENCING''"
| "to_string_RecoveryStage RecoveryStage.ACTIVATION = ''ACTIVATION''"
| "to_string_RecoveryStage RecoveryStage.ROUTE_INSTALLATION = ''ROUTE_INSTALLATION''"
| "to_string_RecoveryStage RecoveryStage.VERIFICATION = ''VERIFICATION''"

fun to_string_FenceEnforcement :: "FenceEnforcement \<Rightarrow> string" where
  "to_string_FenceEnforcement FenceEnforcement.COORDINATOR_ASSIGNMENT_AUTHORITY = ''COORDINATOR_ASSIGNMENT_AUTHORITY''"
| "to_string_FenceEnforcement FenceEnforcement.GATEWAY_DISPATCH = ''GATEWAY_DISPATCH''"
| "to_string_FenceEnforcement FenceEnforcement.WORKER_ADMISSION = ''WORKER_ADMISSION''"
| "to_string_FenceEnforcement FenceEnforcement.RESULT_ACCEPTANCE = ''RESULT_ACCEPTANCE''"
| "to_string_FenceEnforcement FenceEnforcement.EXTERNAL_SIDE_EFFECT_BOUNDARY = ''EXTERNAL_SIDE_EFFECT_BOUNDARY''"

fun to_string_FenceState :: "FenceState \<Rightarrow> string" where
  "to_string_FenceState FenceState.NONE = ''NONE''"
| "to_string_FenceState FenceState.REQUESTED = ''REQUESTED''"
| "to_string_FenceState FenceState.ENFORCED = ''ENFORCED''"
| "to_string_FenceState FenceState.UNPROVEN = ''UNPROVEN''"
| "to_string_FenceState FenceState.SUPERSEDED = ''SUPERSEDED''"

fun to_string_IdempotencyAuthority :: "IdempotencyAuthority \<Rightarrow> string" where
  "to_string_IdempotencyAuthority IdempotencyAuthority.NONE = ''NONE''"
| "to_string_IdempotencyAuthority IdempotencyAuthority.SAFE_TO_RETRY = ''SAFE_TO_RETRY''"
| "to_string_IdempotencyAuthority IdempotencyAuthority.DETERMINISTIC_REFERENCE = ''DETERMINISTIC_REFERENCE''"

fun to_string_Milestone :: "Milestone \<Rightarrow> string" where
  "to_string_Milestone Milestone.INTENT_ONLY = ''INTENT_ONLY''"
| "to_string_Milestone Milestone.OLD_ADMISSION_FENCED = ''OLD_ADMISSION_FENCED''"
| "to_string_Milestone Milestone.REPLACEMENT_AUTHORIZED = ''REPLACEMENT_AUTHORIZED''"
| "to_string_Milestone Milestone.ACTIVATION_ACKNOWLEDGED = ''ACTIVATION_ACKNOWLEDGED''"
| "to_string_Milestone Milestone.ROUTE_INSTALLED = ''ROUTE_INSTALLED''"
| "to_string_Milestone Milestone.VERIFICATION_COMPLETE = ''VERIFICATION_COMPLETE''"

lemmas to_string_simps =
  to_string_EvidenceStatus.simps
  to_string_FailureCategory.simps
  to_string_Provenance.simps
  to_string_ServiceOutcome.simps
  to_string_AttemptState.simps
  to_string_AssignmentState.simps
  to_string_ContinuityClass.simps
  to_string_DomainClass.simps
  to_string_ExclusionReason.simps
  to_string_RequestDisposition.simps
  to_string_FailbackPolicy.simps
  to_string_RouteState.simps
  to_string_Severity.simps
  to_string_ServingRole.simps
  to_string_RtoAnchor.simps
  to_string_RecoveryStage.simps
  to_string_FenceEnforcement.simps
  to_string_FenceState.simps
  to_string_IdempotencyAuthority.simps
  to_string_Milestone.simps

section \<open>Milestones are ordered by their underlying byte\<close>

lemma Milestone_index_inject:
  "index_of a Milestone_values = index_of b Milestone_values \<longleftrightarrow> a = b"
  by (metis Milestone_bytes.complete_vals nth_index_of)

instantiation Milestone :: linorder
begin

definition less_eq_Milestone :: "Milestone \<Rightarrow> Milestone \<Rightarrow> bool" where
  "less_eq_Milestone a b \<longleftrightarrow> index_of a Milestone_values \<le> index_of b Milestone_values"

definition less_Milestone :: "Milestone \<Rightarrow> Milestone \<Rightarrow> bool" where
  "less_Milestone a b \<longleftrightarrow> index_of a Milestone_values < index_of b Milestone_values"

instance
  by standard (auto simp: less_eq_Milestone_def less_Milestone_def Milestone_index_inject)

end

section \<open>Timestamps\<close>

text \<open>
  \<open>wall_ns\<close> is a signed 64-bit count, kept as its bit pattern and read with \<^const>\<open>sint\<close>.
\<close>

record Timestamp =
  ts_wall_ns :: u64
  ts_seq :: u64

definition has_wall :: "Timestamp \<Rightarrow> bool" where
  "has_wall t \<longleftrightarrow> ts_wall_ns t \<noteq> 0"

definition zero_timestamp :: Timestamp where
  "zero_timestamp = \<lparr>ts_wall_ns = 0, ts_seq = 0\<rparr>"

text \<open>
  Durations are counted in nanoseconds; \<^verbatim>\<open>duration_cast<milliseconds>\<close> truncates towards zero.
\<close>

definition duration_ms :: "int \<Rightarrow> int" where
  "duration_ms ns = sgn ns * (\<bar>ns\<bar> div 1000000)"

lemma duration_ms_nonneg: "0 \<le> ns \<Longrightarrow> duration_ms ns = ns div 1000000"
  by (cases "ns = 0") (auto simp: duration_ms_def)

section \<open>Printed names identify enumerators\<close>

text \<open>
  The printed name of an enumerator identifies it: no enumeration prints two of its
  enumerators alike, so a name in an explanation or a log line is unambiguous.
\<close>

theorem to_string_injective:
  "inj to_string_EvidenceStatus \<and>
   inj to_string_FailureCategory \<and>
   inj to_string_Provenance \<and>
   inj to_string_ServiceOutcome \<and>
   inj to_string_AttemptState \<and>
   inj to_string_AssignmentState \<and>
   inj to_string_ContinuityClass \<and>
   inj to_string_DomainClass \<and>
   inj to_string_ExclusionReason \<and>
   inj to_string_RequestDisposition \<and>
   inj to_string_FailbackPolicy \<and>
   inj to_string_RouteState \<and>
   inj to_string_Severity \<and>
   inj to_string_ServingRole \<and>
   inj to_string_RtoAnchor \<and>
   inj to_string_RecoveryStage \<and>
   inj to_string_FenceEnforcement \<and>
   inj to_string_FenceState \<and>
   inj to_string_IdempotencyAuthority \<and>
   inj to_string_Milestone"
  by (intro conjI,
      (rule EvidenceStatus_bytes.inj_if_distinct_map, simp add: EvidenceStatus_values_def),
      (rule FailureCategory_bytes.inj_if_distinct_map, simp add: FailureCategory_values_def),
      (rule Provenance_bytes.inj_if_distinct_map, simp add: Provenance_values_def),
      (rule ServiceOutcome_bytes.inj_if_distinct_map, simp add: ServiceOutcome_values_def),
      (rule AttemptState_bytes.inj_if_distinct_map, simp add: AttemptState_values_def),
      (rule AssignmentState_bytes.inj_if_distinct_map, simp add: AssignmentState_values_def),
      (rule ContinuityClass_bytes.inj_if_distinct_map, simp add: ContinuityClass_values_def),
      (rule DomainClass_bytes.inj_if_distinct_map, simp add: DomainClass_values_def),
      (rule ExclusionReason_bytes.inj_if_distinct_map, simp add: ExclusionReason_values_def),
      (rule RequestDisposition_bytes.inj_if_distinct_map, simp add: RequestDisposition_values_def),
      (rule FailbackPolicy_bytes.inj_if_distinct_map, simp add: FailbackPolicy_values_def),
      (rule RouteState_bytes.inj_if_distinct_map, simp add: RouteState_values_def),
      (rule Severity_bytes.inj_if_distinct_map, simp add: Severity_values_def),
      (rule ServingRole_bytes.inj_if_distinct_map, simp add: ServingRole_values_def),
      (rule RtoAnchor_bytes.inj_if_distinct_map, simp add: RtoAnchor_values_def),
      (rule RecoveryStage_bytes.inj_if_distinct_map, simp add: RecoveryStage_values_def),
      (rule FenceEnforcement_bytes.inj_if_distinct_map, simp add: FenceEnforcement_values_def),
      (rule FenceState_bytes.inj_if_distinct_map, simp add: FenceState_values_def),
      (rule IdempotencyAuthority_bytes.inj_if_distinct_map, simp add: IdempotencyAuthority_values_def),
      (rule Milestone_bytes.inj_if_distinct_map, simp add: Milestone_values_def))

end
