(* ===== verification/IEEE_Double.thy ===== *)
theory IEEE_Double
  imports FF_Prelude "HOL-Library.Code_Target_Nat"
begin

text \<open>
  The \<^verbatim>\<open>double\<close> values of the sources: IEEE 754 binary64, represented by their bit pattern
  (as the codecs copy them with \<^verbatim>\<open>memcpy\<close>). A finite pattern denotes an integer times
  a power of two, so every operation is exact integer arithmetic followed by one
  rounding to nearest, ties to even. The comparison, \<^verbatim>\<open>isfinite\<close>, the four operations,
  \<^verbatim>\<open>std::min\<close>, \<^verbatim>\<open>std::max\<close>, the conversions and \<^verbatim>\<open>std::round\<close> are those the sources use.
\<close>

section \<open>Bit patterns\<close>

type_synonym double = u64

definition d_inf_mag :: nat where
  "d_inf_mag = 2047 * 2 ^ 52"

definition d_sign :: "double \<Rightarrow> bool" where
  "d_sign x \<longleftrightarrow> 2 ^ 63 \<le> unat x"

definition d_mag :: "double \<Rightarrow> nat" where
  "d_mag x = unat x mod 2 ^ 63"

definition d_isnan :: "double \<Rightarrow> bool" where
  "d_isnan x \<longleftrightarrow> d_inf_mag < d_mag x"

definition d_isinf :: "double \<Rightarrow> bool" where
  "d_isinf x \<longleftrightarrow> d_mag x = d_inf_mag"

definition d_isfinite :: "double \<Rightarrow> bool" where
  "d_isfinite x \<longleftrightarrow> d_mag x < d_inf_mag"

text \<open>A finite pattern denotes \<open>\<plusminus> d_mant x * 2 powr d_expo x\<close>.\<close>

definition d_mant :: "double \<Rightarrow> nat" where
  "d_mant x = (if d_mag x div 2 ^ 52 = 0 then d_mag x mod 2 ^ 52 else 2 ^ 52 + d_mag x mod 2 ^ 52)"

definition d_expo :: "double \<Rightarrow> int" where
  "d_expo x = int (max (d_mag x div 2 ^ 52) 1) - 1075"

definition d_smant :: "double \<Rightarrow> int" where
  "d_smant x = (if d_sign x then - int (d_mant x) else int (d_mant x))"

definition d_nan :: double where
  "d_nan = of_nat (d_inf_mag + 2 ^ 51)"

definition with_sign :: "bool \<Rightarrow> nat \<Rightarrow> double" where
  "with_sign s m = of_nat (if s then m + 2 ^ 63 else m)"

section \<open>Rounding\<close>

fun ilog2 :: "nat \<Rightarrow> nat" where
  "ilog2 n = (if n < 2 then 0 else Suc (ilog2 (n div 2)))"

declare ilog2.simps [simp del]

text \<open>The floor of the binary logarithm of \<open>p / q\<close>.\<close>

definition flog2 :: "nat \<Rightarrow> nat \<Rightarrow> int" where
  "flog2 p q = (let d = int (ilog2 p) - int (ilog2 q)
                in if q * 2 ^ nat d \<le> p * 2 ^ nat (- d) then d else d - 1)"

definition round_half_even :: "nat \<Rightarrow> nat \<Rightarrow> nat" where
  "round_half_even p q = (let n = p div q; r = p mod q
                          in if 2 * r < q \<or> 2 * r = q \<and> even n then n else n + 1)"

text \<open>
  The magnitude bits of \<open>p / q * 2 powr k\<close> rounded to 53 significant bits, or to the
  subnormal grid. A mantissa that rounds up to the next power of two carries into the exponent.
\<close>

definition round_expo :: "nat \<Rightarrow> nat \<Rightarrow> int \<Rightarrow> int" where
  "round_expo p q k = max (flog2 p q + k - 52) (- 1074)"

definition round_mant :: "nat \<Rightarrow> nat \<Rightarrow> int \<Rightarrow> nat" where
  "round_mant p q t = round_half_even (p * 2 ^ nat t) (q * 2 ^ nat (- t))"

definition round_mag :: "nat \<Rightarrow> nat \<Rightarrow> int \<Rightarrow> nat" where
  "round_mag p q k =
     (let e = round_expo p q k
      in min d_inf_mag (nat (e + 1074) * 2 ^ 52 + round_mant p q (k - e)))"

definition d_of_frac :: "bool \<Rightarrow> nat \<Rightarrow> nat \<Rightarrow> int \<Rightarrow> double" where
  "d_of_frac s p q k = with_sign s (if p = 0 then 0 else round_mag p q k)"

text \<open>A decimal literal \<open>p / q\<close>, and the conversion of an integer.\<close>

definition d_lit :: "nat \<Rightarrow> nat \<Rightarrow> double" where
  "d_lit p q = d_of_frac False p q 0"

definition d_of_nat :: "nat \<Rightarrow> double" where
  "d_of_nat n = d_of_frac False n 1 0"

section \<open>Operations\<close>

definition d_less :: "double \<Rightarrow> double \<Rightarrow> bool" where
  "d_less x y \<longleftrightarrow> \<not> d_isnan x \<and> \<not> d_isnan y \<and>
     (if d_sign x then - int (d_mag x) else int (d_mag x)) <
     (if d_sign y then - int (d_mag y) else int (d_mag y))"

definition d_min :: "double \<Rightarrow> double \<Rightarrow> double" where
  "d_min a b = (if d_less b a then b else a)"

definition d_max :: "double \<Rightarrow> double \<Rightarrow> double" where
  "d_max a b = (if d_less a b then b else a)"

definition d_neg :: "double \<Rightarrow> double" where
  "d_neg x = with_sign (\<not> d_sign x) (d_mag x)"

definition d_add :: "double \<Rightarrow> double \<Rightarrow> double" where
  "d_add x y =
     (if d_isnan x \<or> d_isnan y then d_nan
      else if d_isinf x then (if d_isinf y \<and> d_sign x \<noteq> d_sign y then d_nan else x)
      else if d_isinf y then y
      else (let e = min (d_expo x) (d_expo y);
                n = d_smant x * 2 ^ nat (d_expo x - e) + d_smant y * 2 ^ nat (d_expo y - e)
            in if n = 0 then with_sign (d_sign x \<and> d_sign y) 0
               else d_of_frac (n < 0) (nat \<bar>n\<bar>) 1 e))"

definition d_sub :: "double \<Rightarrow> double \<Rightarrow> double" where
  "d_sub x y = d_add x (d_neg y)"

definition d_mul :: "double \<Rightarrow> double \<Rightarrow> double" where
  "d_mul x y =
     (let s = (d_sign x \<noteq> d_sign y)
      in if d_isnan x \<or> d_isnan y then d_nan
         else if d_isinf x then (if d_mag y = 0 then d_nan else with_sign s d_inf_mag)
         else if d_isinf y then (if d_mag x = 0 then d_nan else with_sign s d_inf_mag)
         else d_of_frac s (d_mant x * d_mant y) 1 (d_expo x + d_expo y))"

definition d_div :: "double \<Rightarrow> double \<Rightarrow> double" where
  "d_div x y =
     (let s = (d_sign x \<noteq> d_sign y)
      in if d_isnan x \<or> d_isnan y then d_nan
         else if d_isinf x then (if d_isinf y then d_nan else with_sign s d_inf_mag)
         else if d_isinf y then with_sign s 0
         else if d_mag y = 0 then (if d_mag x = 0 then d_nan else with_sign s d_inf_mag)
         else d_of_frac s (d_mant x) (d_mant y) (d_expo x - d_expo y))"

text \<open>
  \<^verbatim>\<open>static_cast<std::uint64_t>(std::round(x))\<close> for a non-negative \<open>x\<close>: halves round away from
  zero. The C++ conversion is only defined below \<open>2\<^sup>6\<^sup>4\<close>; the ranking score it is applied to is a
  sum of weights that add up to about one, scaled by a million.
\<close>

definition d_round_nat :: "double \<Rightarrow> nat" where
  "d_round_nat x =
     (if d_isfinite x
      then (2 * (d_mant x * 2 ^ nat (d_expo x)) + 2 ^ nat (- d_expo x)) div (2 * 2 ^ nat (- d_expo x))
      else 0)"

lemma d_finite_not_special [simp]:
  "d_isfinite x \<Longrightarrow> \<not> d_isnan x" "d_isfinite x \<Longrightarrow> \<not> d_isinf x"
  by (auto simp: d_isfinite_def d_isnan_def d_isinf_def)

lemma d_less_irrefl [simp]: "\<not> d_less x x"
  by (simp add: d_less_def)

lemma d_less_trans: "d_less x y \<Longrightarrow> d_less y z \<Longrightarrow> d_less x z"
  by (auto simp: d_less_def)

end
