(* ===== verification/Service.thy ===== *)
theory Service
  imports FF_Types IEEE_Double
begin

text \<open>
  \<^verbatim>\<open>service.hpp\<close>, \<^verbatim>\<open>authority.hpp\<close> and \<^verbatim>\<open>fence.hpp\<close>: the service contract, the exclusive
  assignment of a slot, the coordinator epoch and the authorization a worker is given per
  request. The structs are records whose fields carry a short prefix of the struct's name;
  \<open>default_X\<close> is the default-constructed struct.
\<close>

section \<open>Slots\<close>

datatype ServiceSlotKey = SlotKey (sk_service: ServiceId) (sk_slot: ServiceSlotId)

instantiation ServiceSlotKey :: linorder
begin

definition less_ServiceSlotKey :: "ServiceSlotKey \<Rightarrow> ServiceSlotKey \<Rightarrow> bool" where
  "less_ServiceSlotKey a b \<longleftrightarrow>
     (if sk_service a \<noteq> sk_service b then sk_service a < sk_service b else sk_slot a < sk_slot b)"

definition less_eq_ServiceSlotKey :: "ServiceSlotKey \<Rightarrow> ServiceSlotKey \<Rightarrow> bool" where
  "less_eq_ServiceSlotKey a b \<longleftrightarrow> a < b \<or> a = b"

instance
  by standard
    (auto simp: less_ServiceSlotKey_def less_eq_ServiceSlotKey_def split: if_splits
      intro: ServiceSlotKey.expand)

end

section \<open>The service contract\<close>

record SlotRange =
  srng_first :: u32
  srng_count :: u32

record AntiFlappingPolicy =
  afp_max_auto_attempts :: u32
  afp_cooldown_ms :: u32
  afp_hysteresis_ms :: u32
  afp_manual_intervention_required :: bool

record RecoveryObjective =
  obj_rto_ms :: u64
  obj_rto_anchor :: RtoAnchor
  obj_continuity :: ContinuityClass
  obj_max_state_loss_sequences :: u64
  obj_min_checkpoint_gen :: "CheckpointGeneration option"
  obj_requires_verified_recovery :: bool

record CompatibilityRequirement =
  compat_model_key :: string
  compat_runtime_abi :: string
  compat_readiness_profile :: "ReadinessProfileId option"
  compat_dependencies :: "DependencyId list"
  compat_required_capabilities :: "CompatibilityId list"

record ResourceRequirement =
  rreq_resource_class :: string
  rreq_amount :: double
  rreq_exactly_one_target :: bool

record DomainRequirement =
  dreq_require_domain_independence :: bool
  dreq_min_distinct_hosts :: u32
  dreq_min_distinct_devices :: u32
  dreq_forbidden_overlap_classes :: "DomainClass list"

record ServiceDefinition =
  sd_service :: ServiceId
  sd_generation :: ServiceGeneration
  sd_config_generation :: ServiceConfigGeneration
  sd_name :: string
  sd_role :: ServingRole
  sd_slots :: SlotRange
  sd_compatibility :: CompatibilityRequirement
  sd_domain_requirement :: DomainRequirement
  sd_resources :: "ResourceRequirement list"
  sd_recovery :: RecoveryObjective
  sd_failback :: FailbackPolicy
  sd_anti_flapping :: AntiFlappingPolicy
  sd_required_state :: "StateId list"
  sd_provenance :: Provenance
  sd_policy_generation :: PolicyGeneration

definition has_valid_identity :: "ServiceDefinition \<Rightarrow> bool" where
  "has_valid_identity s \<longleftrightarrow> \<not> id_is_null (sd_service s)"

definition default_AntiFlappingPolicy :: AntiFlappingPolicy where
  "default_AntiFlappingPolicy = \<lparr>afp_max_auto_attempts = 3, afp_cooldown_ms = 5000,
     afp_hysteresis_ms = 5000, afp_manual_intervention_required = False\<rparr>"

definition default_RecoveryObjective :: RecoveryObjective where
  "default_RecoveryObjective = \<lparr>obj_rto_ms = 0,
     obj_rto_anchor = RtoAnchor.FIRST_ACCEPTED_FAILURE_OBSERVATION,
     obj_continuity = ContinuityClass.UNKNOWN, obj_max_state_loss_sequences = 0,
     obj_min_checkpoint_gen = None, obj_requires_verified_recovery = True\<rparr>"

definition default_CompatibilityRequirement :: CompatibilityRequirement where
  "default_CompatibilityRequirement = \<lparr>compat_model_key = [], compat_runtime_abi = [],
     compat_readiness_profile = None, compat_dependencies = [], compat_required_capabilities = []\<rparr>"

definition default_DomainRequirement :: DomainRequirement where
  "default_DomainRequirement = \<lparr>dreq_require_domain_independence = False,
     dreq_min_distinct_hosts = 0, dreq_min_distinct_devices = 0,
     dreq_forbidden_overlap_classes = []\<rparr>"

definition default_ServiceDefinition :: ServiceDefinition where
  "default_ServiceDefinition = \<lparr>sd_service = id_null, sd_generation = gen_first,
     sd_config_generation = gen_first, sd_name = [], sd_role = ServingRole.EXCLUSIVE_ACTIVE,
     sd_slots = \<lparr>srng_first = 1, srng_count = 1\<rparr>,
     sd_compatibility = default_CompatibilityRequirement,
     sd_domain_requirement = default_DomainRequirement, sd_resources = [],
     sd_recovery = default_RecoveryObjective, sd_failback = FailbackPolicy.MANUAL,
     sd_anti_flapping = default_AntiFlappingPolicy, sd_required_state = [],
     sd_provenance = Provenance.REPORTED, sd_policy_generation = gen_first\<rparr>"

section \<open>Assignments\<close>

record Assignment =
  asg_id :: AssignmentId
  asg_generation :: AssignmentGeneration
  asg_slot :: ServiceSlotKey
  asg_target :: TargetId
  asg_target_generation :: TargetGeneration
  asg_replica :: ReplicaId
  asg_replica_generation :: ReplicaGeneration
  asg_engine :: EngineId
  asg_engine_incarnation :: EngineIncarnationId
  asg_readiness_profile :: ReadinessProfileId
  asg_authority_generation :: ServiceAuthorityGeneration
  asg_activation :: ActivationId
  asg_activation_generation :: ActivationGeneration
  asg_route :: RouteId
  asg_route_generation :: RouteGeneration
  asg_worker_boot :: WorkerBootId
  asg_resource_claims :: "ResourceClaimId list"
  asg_continuity_state :: "StateId list"
  asg_state :: AssignmentState
  asg_provisory :: bool
  asg_provenance :: Provenance

definition default_Assignment :: Assignment where
  "default_Assignment = \<lparr>asg_id = id_null, asg_generation = gen_first,
     asg_slot = SlotKey id_null id_null, asg_target = id_null, asg_target_generation = gen_first,
     asg_replica = id_null, asg_replica_generation = gen_first, asg_engine = id_null,
     asg_engine_incarnation = id_null, asg_readiness_profile = id_null,
     asg_authority_generation = gen_first, asg_activation = id_null,
     asg_activation_generation = gen_first, asg_route = id_null, asg_route_generation = gen_first,
     asg_worker_boot = id_null, asg_resource_claims = [], asg_continuity_state = [],
     asg_state = AssignmentState.CANDIDATE, asg_provisory = False,
     asg_provenance = Provenance.DERIVED\<rparr>"

definition is_authorizing :: "Assignment \<Rightarrow> bool" where
  "is_authorizing a \<longleftrightarrow>
     asg_state a = AssignmentState.AUTHORIZED \<or> asg_state a = AssignmentState.ACTIVE"

section \<open>Coordinator epoch and authorizations\<close>

record CoordinatorEpoch =
  ep_epoch :: u64
  ep_id :: CoordinatorId
  ep_boot :: CoordinatorId

definition default_CoordinatorEpoch :: CoordinatorEpoch where
  "default_CoordinatorEpoch = \<lparr>ep_epoch = 0, ep_id = id_null, ep_boot = id_null\<rparr>"

definition epoch_next :: "CoordinatorEpoch \<Rightarrow> CoordinatorEpoch result" where
  "epoch_next e = (if ep_epoch e = kGenMax
                   then Inl (GenerationExhausted ''coordinator epoch exhausted'')
                   else Inr (e\<lparr>ep_epoch := ep_epoch e + 1\<rparr>))"

record WorkerAuthorization =
  wa_epoch :: CoordinatorEpoch
  wa_slot :: ServiceSlotKey
  wa_assignment :: AssignmentId
  wa_assignment_generation :: AssignmentGeneration
  wa_route_generation :: RouteGeneration
  wa_incarnation :: EngineIncarnationId
  wa_request :: RequestId
  wa_execution :: ExecutionId
  wa_operation :: string
  wa_worker_boot :: WorkerBootId

record GateDecision =
  gd_allowed :: bool
  gd_reason :: string
  gd_fail_closed :: bool

section \<open>Fence outcomes\<close>

record FencingRequirement =
  freq_require_gateway_dispatch :: bool
  freq_require_worker_admission :: bool
  freq_require_result_acceptance :: bool
  freq_require_coordinator_authority :: bool
  freq_require_external_effect_boundary :: bool
  freq_effect_sink_note :: string

end
