(* ===== verification/Recovery.thy ===== *)
theory Recovery
  imports Service
begin

text \<open>
  \<^verbatim>\<open>recovery.hpp\<close> / \<^verbatim>\<open>recovery.cpp\<close>: the evaluation of a recovery against its objective and the
  compatibility order of the continuity classes.
\<close>

section \<open>Definitions\<close>

record StageEstimate =
  stg_stage :: RecoveryStage
  stg_estimated_ms :: u64
  stg_measured :: bool
  stg_measured_ms :: u64
  stg_depends_on :: "RecoveryStage list"

record RecoveryEstimate =
  est_stages :: "StageEstimate list"
  est_critical_path_ms :: u64
  est_all_stages_measured :: bool

definition default_RecoveryEstimate :: RecoveryEstimate where
  "default_RecoveryEstimate =
     \<lparr>est_stages = [], est_critical_path_ms = 0, est_all_stages_measured = False\<rparr>"

record RecoveryEvaluation =
  rev_satisfied :: bool
  rev_rto_met :: bool
  rev_rpo_met :: bool
  rev_verified :: bool
  rev_elapsed_ms :: u64
  rev_state_loss_sequences :: u64
  rev_note :: string

fun preservation_level :: "ContinuityClass \<Rightarrow> int" where
  "preservation_level ContinuityClass.STATELESS_RESTART = 0"
| "preservation_level ContinuityClass.REPLAY_SAFE_REQUESTS = 1"
| "preservation_level ContinuityClass.SESSION_STATE_REBIND = 2"
| "preservation_level ContinuityClass.CHECKPOINT_RESTORE = 3"
| "preservation_level ContinuityClass.SESSION_RESTART_REQUIRED = 1"
| "preservation_level ContinuityClass.MANUAL_RECOVERY_REQUIRED = -1"
| "preservation_level ContinuityClass.UNKNOWN = -2"

definition continuity_compatible :: "ContinuityClass \<Rightarrow> ContinuityClass \<Rightarrow> bool" where
  "continuity_compatible required candidate =
     (if required = ContinuityClass.UNKNOWN then True
      else if candidate = ContinuityClass.UNKNOWN then False
      else if candidate = ContinuityClass.MANUAL_RECOVERY_REQUIRED then False
      else if required = ContinuityClass.MANUAL_RECOVERY_REQUIRED then True
      else preservation_level required \<le> preservation_level candidate)"

definition evaluate ::
    "RecoveryObjective \<Rightarrow> RecoveryEstimate \<Rightarrow> u64 \<Rightarrow> u64 \<Rightarrow> bool \<Rightarrow> RecoveryEvaluation" where
  "evaluate obj est elapsed_ms state_loss verified =
     (let note0 = (if est_all_stages_measured est then [] else ''(estimated); '');
          rto_met = (obj_rto_ms obj = 0 \<or> elapsed_ms \<le> obj_rto_ms obj);
          rpo_met = (state_loss \<le> obj_max_state_loss_sequences obj);
          satisfied = (rto_met \<and> rpo_met \<and> (verified \<or> \<not> obj_requires_verified_recovery obj));
          note1 = (if satisfied then []
                   else (if rto_met then [] else ''RTO not met; '') @
                        (if rpo_met then [] else ''RPO not met; '') @
                        (if \<not> verified \<and> obj_requires_verified_recovery obj
                         then ''recovery not verified; '' else []))
      in \<lparr>rev_satisfied = satisfied, rev_rto_met = rto_met, rev_rpo_met = rpo_met,
          rev_verified = verified, rev_elapsed_ms = elapsed_ms, rev_state_loss_sequences = state_loss,
          rev_note = note0 @ note1\<rparr>)"

section \<open>Properties\<close>

lemma preservation_level_range: "- 2 \<le> preservation_level c \<and> preservation_level c \<le> 3"
  by (cases c) auto

text \<open>
  Continuity is never silently downgraded by the compatibility order: an unknown or
  operator-only candidate satisfies no stated requirement, every automatic class satisfies
  itself, what satisfies a stronger class satisfies every class that one satisfies
  (transitivity), and a checkpoint or session requirement is satisfied by classes that
  preserve state only.
\<close>

theorem continuity_order:
  "(required \<noteq> ContinuityClass.UNKNOWN \<longrightarrow>
      \<not> continuity_compatible required ContinuityClass.UNKNOWN \<and>
      \<not> continuity_compatible required ContinuityClass.MANUAL_RECOVERY_REQUIRED) \<and>
   (c \<noteq> ContinuityClass.MANUAL_RECOVERY_REQUIRED \<longrightarrow> continuity_compatible c c) \<and>
   (continuity_compatible a b \<longrightarrow> continuity_compatible b c \<longrightarrow> b \<noteq> ContinuityClass.UNKNOWN \<longrightarrow>
      continuity_compatible a c) \<and>
   (continuity_compatible ContinuityClass.SESSION_STATE_REBIND c \<longleftrightarrow>
      c = ContinuityClass.SESSION_STATE_REBIND \<or> c = ContinuityClass.CHECKPOINT_RESTORE) \<and>
   (continuity_compatible ContinuityClass.CHECKPOINT_RESTORE c \<longleftrightarrow> c = ContinuityClass.CHECKPOINT_RESTORE)"
  by (cases a; cases b; cases c) (simp_all add: continuity_compatible_def)

theorem continuity_order_witness:
  "continuity_compatible ContinuityClass.REPLAY_SAFE_REQUESTS ContinuityClass.CHECKPOINT_RESTORE \<and>
   \<not> continuity_compatible ContinuityClass.CHECKPOINT_RESTORE ContinuityClass.UNKNOWN"
  using continuity_order [of ContinuityClass.CHECKPOINT_RESTORE ContinuityClass.CHECKPOINT_RESTORE
      ContinuityClass.REPLAY_SAFE_REQUESTS ContinuityClass.SESSION_STATE_REBIND]
  by (simp add: continuity_compatible_def)

text \<open>
  A recovery is reported as satisfied exactly when it is within the recovery time (if one
  is set) and the permitted loss, and was verified whenever verification is required; and an
  unsatisfied one always says why.
\<close>

theorem evaluate_satisfied:
  "(rev_satisfied (evaluate obj est ms loss v) \<longleftrightarrow>
      (obj_rto_ms obj = 0 \<or> ms \<le> obj_rto_ms obj) \<and> loss \<le> obj_max_state_loss_sequences obj \<and>
      (obj_requires_verified_recovery obj \<longrightarrow> v)) \<and>
   (\<not> rev_satisfied (evaluate obj est ms loss v) \<longrightarrow> rev_note (evaluate obj est ms loss v) \<noteq> [])"
  by (auto simp: evaluate_def Let_def)

theorem evaluate_satisfied_witness:
  "\<not> rev_satisfied (evaluate default_RecoveryObjective default_RecoveryEstimate 50 0 False) \<and>
   rev_note (evaluate default_RecoveryObjective default_RecoveryEstimate 50 0 False) \<noteq> []"
  using evaluate_satisfied [of default_RecoveryObjective default_RecoveryEstimate 50 0 False]
  by (simp add: default_RecoveryObjective_def)

end
