(* ===== verification/Requests.thy ===== *)
theory Requests
  imports Service
begin

text \<open>
  \<^verbatim>\<open>request.hpp\<close> / \<^verbatim>\<open>request.cpp\<close>: the request tracker, a keyed store of request records with
  the two counters of late outcomes.
\<close>

section \<open>The tracker\<close>

record RequestRecord =
  rq_request :: RequestId
  rq_execution :: ExecutionId
  rq_execution_generation :: ExecutionGeneration
  rq_slot :: ServiceSlotKey
  rq_disposition :: RequestDisposition
  rq_idempotent :: bool
  rq_authority :: IdempotencyAuthority
  rq_externally_effectful :: bool
  rq_dispatched_auth :: "WorkerAuthorization option"
  rq_client_note :: string
  rq_outcome :: string

definition default_RequestRecord :: RequestRecord where
  "default_RequestRecord = \<lparr>rq_request = id_null, rq_execution = id_null,
     rq_execution_generation = gen_first, rq_slot = SlotKey id_null id_null,
     rq_disposition = RequestDisposition.NOT_DISPATCHED, rq_idempotent = False,
     rq_authority = IdempotencyAuthority.NONE, rq_externally_effectful = False,
     rq_dispatched_auth = None, rq_client_note = [], rq_outcome = []\<rparr>"

datatype LateOutcome = ACCEPTED | REJECTED_STALE | CLASSIFIED_AMBIGUOUS

record RequestEntry =
  rqe_rec :: RequestRecord
  rqe_committed :: bool

record RequestTracker =
  trk_records :: "RequestEntry list"
  trk_ambiguous :: nat
  trk_rejected_late :: nat

definition empty_tracker :: RequestTracker where
  "empty_tracker = \<lparr>trk_records = [], trk_ambiguous = 0, trk_rejected_late = 0\<rparr>"

definition has_request :: "RequestId \<Rightarrow> RequestEntry \<Rightarrow> bool" where
  "has_request i e \<longleftrightarrow> rq_request (rqe_rec e) = i"

definition find_request :: "RequestTracker \<Rightarrow> RequestId \<Rightarrow> RequestRecord option" where
  "find_request t i = map_option rqe_rec (List.find (has_request i) (trk_records t))"

definition trk_record :: "RequestTracker \<Rightarrow> RequestRecord \<Rightarrow> RequestTracker" where
  "trk_record t r =
     (case List.find (has_request (rq_request r)) (trk_records t) of
        Some _ \<Rightarrow> t\<lparr>trk_records := upd_first (has_request (rq_request r))
                     (\<lambda>e. e\<lparr>rqe_rec := r\<rparr>) (trk_records t)\<rparr>
      | None \<Rightarrow> t\<lparr>trk_records := trk_records t @ [\<lparr>rqe_rec = r, rqe_committed = False\<rparr>]\<rparr>)"

definition set_outcome_unknown :: "RequestTracker \<Rightarrow> RequestId \<Rightarrow> RequestTracker" where
  "set_outcome_unknown t i =
     (case find_request t i of
        None \<Rightarrow> t\<lparr>trk_ambiguous := trk_ambiguous t + 1\<rparr>
      | Some r \<Rightarrow>
          if rq_disposition r \<noteq> RequestDisposition.OUTCOME_UNKNOWN
          then t\<lparr>trk_records := upd_first (has_request i)
                   (\<lambda>e. e\<lparr>rqe_rec := (rqe_rec e)\<lparr>rq_disposition := RequestDisposition.OUTCOME_UNKNOWN\<rparr>\<rparr>)
                   (trk_records t),
                 trk_ambiguous := trk_ambiguous t + 1\<rparr>
          else t)"

text \<open>The authorization of the late result is not consulted.\<close>

definition classify_late_result ::
    "RequestTracker \<Rightarrow> RequestId \<Rightarrow> WorkerAuthorization \<Rightarrow> RequestTracker \<times> LateOutcome" where
  "classify_late_result t i auth =
     (case find_request t i of
        None \<Rightarrow> (t\<lparr>trk_ambiguous := trk_ambiguous t + 1\<rparr>, CLASSIFIED_AMBIGUOUS)
      | Some r \<Rightarrow>
          if rq_dispatched_auth r = None
          then (t\<lparr>trk_ambiguous := trk_ambiguous t + 1\<rparr>, CLASSIFIED_AMBIGUOUS)
          else if rq_disposition r = RequestDisposition.RESPONSE_COMMITTED
          then (t\<lparr>trk_rejected_late := trk_rejected_late t + 1\<rparr>, REJECTED_STALE)
          else (t\<lparr>trk_ambiguous := trk_ambiguous t + 1\<rparr>, CLASSIFIED_AMBIGUOUS))"

text \<open>\<open>FailoverFabric::retry_allowed\<close> on the record found.\<close>

definition retry_allowed_record :: "RequestRecord \<Rightarrow> bool" where
  "retry_allowed_record r =
     (if rq_authority r = IdempotencyAuthority.SAFE_TO_RETRY \<or>
         rq_authority r = IdempotencyAuthority.DETERMINISTIC_REFERENCE then True
      else if rq_externally_effectful r then False
      else rq_idempotent r)"

section \<open>A keyed store of records\<close>

definition wf_tracker :: "RequestTracker \<Rightarrow> bool" where
  "wf_tracker t \<longleftrightarrow> distinct (map (rq_request \<circ> rqe_rec) (trk_records t))"

lemma wf_empty_tracker [simp]: "wf_tracker empty_tracker"
  by (simp add: wf_tracker_def empty_tracker_def)

lemma find_request_id: "find_request t i = Some r \<Longrightarrow> rq_request r = i"
  by (auto simp: find_request_def has_request_def dest!: find_SomeD)

lemma find_request_upd:
  assumes "\<And>e. has_request i e \<Longrightarrow> has_request i (f e)"
  shows "find_request (t\<lparr>trk_records := upd_first (has_request i) f (trk_records t)\<rparr>) k =
    (if k = i then map_option (rqe_rec \<circ> f) (List.find (has_request i) (trk_records t))
     else find_request t k)"
proof (cases "k = i")
  case True
  then show ?thesis
    using assms by (simp add: find_request_def find_upd_first_same option.map_comp)
next
  case False
  have "\<not> has_request k e \<and> \<not> has_request k (f e)" if "has_request i e" for e
    using that assms [OF that] False by (auto simp: has_request_def)
  then show ?thesis using False by (simp add: find_request_def find_upd_first_other)
qed

lemma find_request_record:
  "find_request (trk_record t r) k = (if k = rq_request r then Some r else find_request t k)"
proof (cases "List.find (has_request (rq_request r)) (trk_records t)")
  case None
  then show ?thesis
    by (auto simp: trk_record_def find_request_def has_request_def split: option.split)
next
  case (Some e)
  then show ?thesis
    by (simp add: trk_record_def find_request_upd has_request_def)
qed

lemma request_keys_upd:
  "(\<And>e. has_request i e \<Longrightarrow> has_request i (f e)) \<Longrightarrow>
   map (rq_request \<circ> rqe_rec) (upd_first (has_request i) f xs) = map (rq_request \<circ> rqe_rec) xs"
  by (rule map_upd_first) (auto simp: has_request_def)

lemma wf_trk_record: "wf_tracker t \<Longrightarrow> wf_tracker (trk_record t r)"
proof -
  assume wf: "wf_tracker t"
  have "map (rq_request \<circ> rqe_rec) (upd_first (has_request (rq_request r)) (\<lambda>e. e\<lparr>rqe_rec := r\<rparr>) xs) =
      map (rq_request \<circ> rqe_rec) xs" for xs
    by (rule request_keys_upd) (simp add: has_request_def)
  with wf show ?thesis
    by (auto simp: wf_tracker_def trk_record_def find_None_iff_none has_request_def [abs_def] split: option.split)
qed

lemma wf_set_outcome_unknown: "wf_tracker t \<Longrightarrow> wf_tracker (set_outcome_unknown t i)"
proof -
  assume wf: "wf_tracker t"
  have "map (rq_request \<circ> rqe_rec) (upd_first (has_request i)
        (\<lambda>e. e\<lparr>rqe_rec := (rqe_rec e)\<lparr>rq_disposition := RequestDisposition.OUTCOME_UNKNOWN\<rparr>\<rparr>) xs) =
      map (rq_request \<circ> rqe_rec) xs" for xs
    by (rule request_keys_upd) (simp add: has_request_def)
  with wf show ?thesis
    by (auto simp: wf_tracker_def set_outcome_unknown_def split: option.split)
qed

lemma find_request_ambiguous [simp, frame_simps]:
  "find_request (t\<lparr>trk_ambiguous := n\<rparr>) = find_request t"
  by (simp add: find_request_def fun_eq_iff)

lemma find_request_set_outcome_unknown:
  "find_request (set_outcome_unknown t i) k =
     (if k = i then map_option (\<lambda>r. r\<lparr>rq_disposition := RequestDisposition.OUTCOME_UNKNOWN\<rparr>) (find_request t i)
      else find_request t k)"
proof (cases "find_request t i")
  case None
  then show ?thesis by (simp add: set_outcome_unknown_def)
next
  case (Some r)
  define f :: "RequestEntry \<Rightarrow> RequestEntry"
    where "f = (\<lambda>e. e\<lparr>rqe_rec := (rqe_rec e)\<lparr>rq_disposition := RequestDisposition.OUTCOME_UNKNOWN\<rparr>\<rparr>)"
  have hf: "has_request i e \<Longrightarrow> has_request i (f e)" for e by (simp add: has_request_def f_def)
  obtain e where e: "List.find (has_request i) (trk_records t) = Some e" "rqe_rec e = r"
    using Some by (auto simp: find_request_def)
  have upd: "find_request (t\<lparr>trk_records := upd_first (has_request i) f (trk_records t)\<rparr>) k =
      (if k = i then Some (r\<lparr>rq_disposition := RequestDisposition.OUTCOME_UNKNOWN\<rparr>) else find_request t k)"
    using hf e by (subst find_request_upd) (auto simp: f_def)
  show ?thesis
  proof (cases "rq_disposition r = RequestDisposition.OUTCOME_UNKNOWN")
    case True
    then have "r\<lparr>rq_disposition := RequestDisposition.OUTCOME_UNKNOWN\<rparr> = r" by (cases r) simp
    with True Some show ?thesis by (simp add: set_outcome_unknown_def)
  next
    case False
    then have "set_outcome_unknown t i =
        t\<lparr>trk_records := upd_first (has_request i) f (trk_records t)\<rparr>\<lparr>trk_ambiguous := trk_ambiguous t + 1\<rparr>"
      using Some by (simp add: set_outcome_unknown_def f_def)
    with upd Some show ?thesis by (simp only: find_request_ambiguous) simp
  qed
qed

interpretation request_store: keyed_store
  find_request trk_record rq_request "\<lambda>_ _. True" wf_tracker
  by unfold_locales (simp_all add: find_request_record wf_trk_record)

section \<open>Properties\<close>

text \<open>
  A late result is never accepted, whatever authorization it carries: it is rejected as
  stale exactly when the request was dispatched and its response is already committed, and
  classified as ambiguous otherwise. Exactly one of the two counters grows, by one, and no
  request record changes.
\<close>

theorem late_result_never_accepted:
  "case classify_late_result t i auth of (t', out) \<Rightarrow>
     out \<noteq> ACCEPTED \<and>
     (out = REJECTED_STALE \<longleftrightarrow> (\<exists>r. find_request t i = Some r \<and> rq_dispatched_auth r \<noteq> None \<and>
        rq_disposition r = RequestDisposition.RESPONSE_COMMITTED)) \<and>
     trk_records t' = trk_records t \<and>
     trk_ambiguous t' = trk_ambiguous t + (if out = REJECTED_STALE then 0 else 1) \<and>
     trk_rejected_late t' = trk_rejected_late t + (if out = REJECTED_STALE then 1 else 0)"
  by (auto simp: classify_late_result_def split: option.split)

text \<open>
  Recording an unknown outcome never fabricates one: the request's record keeps every
  field but its disposition, which becomes OUTCOME_UNKNOWN; other requests are untouched; the
  ambiguity counter grows by one unless the outcome was already unknown, so doing it again
  for a known request changes nothing.
\<close>

theorem outcome_unknown_recorded:
  "(\<forall>k. find_request (set_outcome_unknown t i) k =
      (if k = i then map_option (\<lambda>r. r\<lparr>rq_disposition := RequestDisposition.OUTCOME_UNKNOWN\<rparr>) (find_request t i)
       else find_request t k)) \<and>
   trk_ambiguous (set_outcome_unknown t i) = trk_ambiguous t +
      (if map_option rq_disposition (find_request t i) = Some RequestDisposition.OUTCOME_UNKNOWN then 0 else 1) \<and>
   (find_request t i \<noteq> None \<longrightarrow>
      set_outcome_unknown (set_outcome_unknown t i) i = set_outcome_unknown t i)"
proof (intro conjI)
  show "find_request t i \<noteq> None \<longrightarrow>
      set_outcome_unknown (set_outcome_unknown t i) i = set_outcome_unknown t i"
    using find_request_set_outcome_unknown [of t i i]
    by (auto simp: set_outcome_unknown_def [of "set_outcome_unknown t i"])
qed (auto simp: find_request_set_outcome_unknown, auto simp: set_outcome_unknown_def split: option.split)

theorem outcome_unknown_recorded_witness:
  "let t = trk_record empty_tracker (default_RequestRecord\<lparr>rq_request := Id 4\<rparr>)
   in find_request t (Id 4) \<noteq> None \<and>
      set_outcome_unknown (set_outcome_unknown t (Id 4)) (Id 4) = set_outcome_unknown t (Id 4)"
proof -
  have "find_request (trk_record empty_tracker (default_RequestRecord\<lparr>rq_request := Id 4\<rparr>)) (Id 4) \<noteq> None"
    by code_simp
  then show ?thesis
    unfolding Let_def using outcome_unknown_recorded by blast
qed

end
