(* ===== verification/Domains.thy ===== *)
theory Domains
  imports FF_Types
begin

text \<open>
  \<^verbatim>\<open>domains.hpp\<close> / \<^verbatim>\<open>domains.cpp\<close>: the registry of failure domains and memberships. Both
  vectors are keyed stores; \<open>overlaps\<close> and \<open>in_domain\<close> answer with an optional bool,
  where no answer means that independence cannot be established.
\<close>

section \<open>The registry\<close>

record DomainDecl =
  dd_id :: FailureDomainId
  dd_generation :: FailureDomainGeneration
  dd_cls :: DomainClass
  dd_name :: string
  dd_parent :: "FailureDomainId option"
  dd_provenance :: Provenance

record DomainMembership =
  dm_target :: TargetId
  dm_domain :: FailureDomainId
  dm_known :: bool

record DomainRegistry =
  reg_domains :: "DomainDecl list"
  reg_memberships :: "DomainMembership list"

definition empty_registry :: DomainRegistry where
  "empty_registry = \<lparr>reg_domains = [], reg_memberships = []\<rparr>"

text \<open>\<open>find_\<close>, and \<open>find\<close> which copies what it points to.\<close>

definition find_domain :: "DomainRegistry \<Rightarrow> FailureDomainId \<Rightarrow> DomainDecl option" where
  "find_domain r i = List.find (\<lambda>d. dd_id d = i) (reg_domains r)"

definition declare_domain :: "DomainRegistry \<Rightarrow> DomainDecl \<Rightarrow> DomainRegistry" where
  "declare_domain r d =
     (if id_is_null (dd_id d) then r
      else (case find_domain r (dd_id d) of
              None \<Rightarrow> r\<lparr>reg_domains := reg_domains r @ [d]\<rparr>
            | Some _ \<Rightarrow> r\<lparr>reg_domains := upd_first (\<lambda>e. dd_id e = dd_id d)
                  (\<lambda>e. if gen_value (dd_generation e) \<le> gen_value (dd_generation d) then d else e)
                  (reg_domains r)\<rparr>))"

definition find_membership :: "DomainRegistry \<Rightarrow> TargetId \<times> FailureDomainId \<Rightarrow> DomainMembership option" where
  "find_membership r k = List.find (\<lambda>m. (dm_target m, dm_domain m) = k) (reg_memberships r)"

definition set_membership :: "DomainRegistry \<Rightarrow> DomainMembership \<Rightarrow> DomainRegistry" where
  "set_membership r m =
     (case find_membership r (dm_target m, dm_domain m) of
        None \<Rightarrow> r\<lparr>reg_memberships := reg_memberships r @ [m]\<rparr>
      | Some _ \<Rightarrow> r\<lparr>reg_memberships := upd_first
            (\<lambda>e. dm_target e = dm_target m \<and> dm_domain e = dm_domain m) (\<lambda>_. m)
            (reg_memberships r)\<rparr>)"

definition mark_membership_unknown :: "DomainRegistry \<Rightarrow> TargetId \<Rightarrow> FailureDomainId \<Rightarrow> DomainRegistry" where
  "mark_membership_unknown r t d =
     set_membership r \<lparr>dm_target = t, dm_domain = d, dm_known = False\<rparr>"

definition domains_of :: "DomainRegistry \<Rightarrow> TargetId \<Rightarrow> FailureDomainId list" where
  "domains_of r t = map dm_domain (filter (\<lambda>m. dm_target m = t \<and> dm_known m) (reg_memberships r))"

text \<open>
  The \<open>while (cur && guard++ < 64)\<close> loop of \<open>ancestors_of\<close>: the first argument is the
  number of iterations the guard still permits.
\<close>

fun ancestors_loop :: "nat \<Rightarrow> DomainRegistry \<Rightarrow> FailureDomainId option \<Rightarrow> FailureDomainId list" where
  "ancestors_loop n r None = []"
| "ancestors_loop 0 r (Some c) = []"
| "ancestors_loop (Suc n) r (Some c) =
     (case find_domain r c of
        None \<Rightarrow> []
      | Some d \<Rightarrow> dd_id d # ancestors_loop n r (dd_parent d))"

definition ancestors_of :: "DomainRegistry \<Rightarrow> FailureDomainId \<Rightarrow> FailureDomainId list" where
  "ancestors_of r i = ancestors_loop 64 r (Some i)"

text \<open>
  One pass over the memberships collects both closures; a membership of \<open>a\<close> is not also
  taken for \<open>b\<close> when the targets are the same.
\<close>

definition closure_of :: "DomainRegistry \<Rightarrow> (DomainMembership \<Rightarrow> bool) \<Rightarrow> FailureDomainId list" where
  "closure_of r P = concat (map (\<lambda>m. ancestors_of r (dm_domain m))
                               (filter (\<lambda>m. P m \<and> dm_known m) (reg_memberships r)))"

definition overlaps :: "DomainRegistry \<Rightarrow> TargetId \<Rightarrow> TargetId \<Rightarrow> bool option" where
  "overlaps r a b =
     (let of_a = (\<lambda>m. dm_target m = a);
          of_b = (\<lambda>m. dm_target m \<noteq> a \<and> dm_target m = b);
          closure_a = closure_of r of_a;
          closure_b = closure_of r of_b;
          any_unknown_a = list_ex (\<lambda>m. of_a m \<and> \<not> dm_known m) (reg_memberships r);
          any_unknown_b = list_ex (\<lambda>m. of_b m \<and> \<not> dm_known m) (reg_memberships r)
      in if list_ex (\<lambda>d. List.member closure_b d) closure_a then Some True
         else if any_unknown_a \<or> any_unknown_b then None
         else Some False)"

definition in_domain :: "DomainRegistry \<Rightarrow> TargetId \<Rightarrow> FailureDomainId \<Rightarrow> bool option" where
  "in_domain r t d =
     (let ms = filter (\<lambda>m. dm_target m = t \<and> dm_domain m = d) (reg_memberships r);
          declared_unknown = list_ex (\<lambda>m. \<not> dm_known m) ms;
          declared_member = list_ex dm_known ms
      in if declared_unknown then None
         else if declared_member then Some True
         else Some False)"

section \<open>Both vectors are keyed stores\<close>

definition wf_registry :: "DomainRegistry \<Rightarrow> bool" where
  "wf_registry r \<longleftrightarrow>
     distinct (map dd_id (reg_domains r)) \<and> id_null \<notin> set (map dd_id (reg_domains r)) \<and>
     distinct (map (\<lambda>m. (dm_target m, dm_domain m)) (reg_memberships r))"

definition decl_accepts :: "DomainDecl option \<Rightarrow> DomainDecl \<Rightarrow> bool" where
  "decl_accepts old d \<longleftrightarrow> \<not> id_is_null (dd_id d) \<and>
     (case old of None \<Rightarrow> True | Some e \<Rightarrow> gen_value (dd_generation e) \<le> gen_value (dd_generation d))"

lemma wf_empty_registry [simp]: "wf_registry empty_registry"
  by (simp add: wf_registry_def empty_registry_def)

lemma find_domain_id: "find_domain r i = Some d \<Longrightarrow> dd_id d = i"
  by (auto simp: find_domain_def dest: find_SomeD)

lemma find_domain_None_iff: "find_domain r i = None \<longleftrightarrow> i \<notin> dd_id ` set (reg_domains r)"
  by (auto simp: find_domain_def find_None_iff_none)

lemma find_membership_None_iff:
  "find_membership r k = None \<longleftrightarrow> k \<notin> (\<lambda>m. (dm_target m, dm_domain m)) ` set (reg_memberships r)"
  by (auto simp: find_membership_def find_None_iff_none)

lemma find_domain_memberships_update [simp, frame_simps]:
  "find_domain (r\<lparr>reg_memberships := ms\<rparr>) = find_domain r"
  by (simp add: find_domain_def fun_eq_iff)

lemma find_domain_set_membership [simp, frame_simps]:
  "find_domain (set_membership r m) = find_domain r"
  by (simp add: set_membership_def split: option.split)

lemma find_membership_declare [simp, frame_simps]:
  "find_membership (declare_domain r d) = find_membership r"
  by (simp add: find_membership_def declare_domain_def fun_eq_iff split: option.split)

lemma find_domain_declare:
  "find_domain (declare_domain r d) i =
     (if i = dd_id d \<and> decl_accepts (find_domain r i) d then Some d else find_domain r i)"
proof (cases "i = dd_id d")
  case True
  then show ?thesis
    by (auto simp: declare_domain_def find_domain_def decl_accepts_def find_upd_first_same
        split: option.split dest: find_SomeD)
next
  case False
  then show ?thesis
    by (auto simp: declare_domain_def find_domain_def find_upd_first_other split: option.split)
qed

lemma find_membership_set:
  "find_membership (set_membership r m) k =
     (if k = (dm_target m, dm_domain m) then Some m else find_membership r k)"
proof (cases "k = (dm_target m, dm_domain m)")
  case True
  then show ?thesis
    by (auto simp: set_membership_def find_membership_def find_upd_first_same split: option.split)
next
  case False
  then have "List.find (\<lambda>m. (dm_target m, dm_domain m) = k)
      (upd_first (\<lambda>e. dm_target e = dm_target m \<and> dm_domain e = dm_domain m) (\<lambda>_. m) xs) =
    List.find (\<lambda>m. (dm_target m, dm_domain m) = k) xs" for xs
    by (intro find_upd_first_other) auto
  with False show ?thesis
    by (auto simp: set_membership_def find_membership_def split: option.split)
qed

lemma wf_declare_domain: "wf_registry r \<Longrightarrow> wf_registry (declare_domain r d)"
  by (auto simp: wf_registry_def declare_domain_def find_domain_None_iff map_upd_first image_upd_first
      split: option.split)

lemma wf_set_membership:
  assumes "wf_registry r"
  shows "wf_registry (set_membership r m)"
proof -
  have "map (\<lambda>m. (dm_target m, dm_domain m))
      (upd_first (\<lambda>e. dm_target e = dm_target m \<and> dm_domain e = dm_domain m) (\<lambda>_. m) xs) =
    map (\<lambda>m. (dm_target m, dm_domain m)) xs" for xs
    by (rule map_upd_first) auto
  with assms show ?thesis
    by (auto simp: wf_registry_def set_membership_def find_membership_None_iff split: option.split)
qed

interpretation decl_store: versioned_store
  find_domain declare_domain dd_id decl_accepts wf_registry dd_generation
  by unfold_locales
    (auto simp: find_domain_declare wf_declare_domain decl_accepts_def less_eq_Gen_def)

interpretation memb_store: keyed_store
  find_membership set_membership "\<lambda>m. (dm_target m, dm_domain m)" "\<lambda>_ _. True" wf_registry
  by unfold_locales (auto simp: find_membership_set wf_set_membership)

section \<open>Ancestors\<close>

text \<open>The reference: \<open>parent_chain r i\<close> is the relation "\<open>j\<close> is \<open>i\<close> or an ancestor of \<open>i\<close>".\<close>

inductive ancestor :: "DomainRegistry \<Rightarrow> FailureDomainId \<Rightarrow> nat \<Rightarrow> FailureDomainId \<Rightarrow> bool"
  for r :: DomainRegistry where
  ancestor_self: "find_domain r i = Some d \<Longrightarrow> ancestor r i 0 i"
| ancestor_up: "find_domain r i = Some d \<Longrightarrow> dd_parent d = Some p \<Longrightarrow> ancestor r p n j \<Longrightarrow>
    ancestor r i (Suc n) j"

inductive_cases ancestor_zeroE: "ancestor r i 0 j"
inductive_cases ancestor_SucE: "ancestor r i (Suc n) j"

inductive_simps ancestor_zero_iff: "ancestor r i 0 j"
inductive_simps ancestor_Suc_iff: "ancestor r i (Suc n) j"

lemma length_ancestors_loop: "length (ancestors_loop n r c) \<le> n"
  by (induction n r c rule: ancestors_loop.induct) (auto split: option.split)

lemma ancestors_loop_nth:
  "k < n \<Longrightarrow> ancestor r i k j \<longleftrightarrow>
     k < length (ancestors_loop n r (Some i)) \<and> ancestors_loop n r (Some i) ! k = j"
proof (induction k arbitrary: n i)
  case 0
  then obtain m where "n = Suc m" by (cases n) auto
  then show ?case by (auto simp: ancestor_zero_iff split: option.split dest: find_domain_id)
next
  case (Suc k)
  then obtain m where m: "n = Suc m" "k < m" by (cases n) auto
  show ?case
  proof (cases "find_domain r i")
    case (Some d)
    then show ?thesis using Suc.IH [OF m(2)] m
      by (cases "dd_parent d") (auto simp: ancestor_Suc_iff)
  qed (simp add: m ancestor_Suc_iff)
qed

lemma set_ancestors_of: "set (ancestors_of r i) = {j. \<exists>k < 64. ancestor r i k j}" (is "?L = ?R")
proof
  show "?L \<subseteq> ?R"
  proof
    fix j assume "j \<in> ?L"
    then obtain k where k: "k < length (ancestors_loop 64 r (Some i))"
        "ancestors_loop 64 r (Some i) ! k = j"
      by (auto simp: ancestors_of_def in_set_conv_nth)
    then have "k < 64" using length_ancestors_loop [of 64 r "Some i"] by simp
    with k show "j \<in> ?R" using ancestors_loop_nth by blast
  qed
  show "?R \<subseteq> ?L"
    by (auto simp: ancestors_of_def ancestors_loop_nth [where n = 64])
qed

text \<open>
  The walk is deterministic, so a shortest one never visits a domain twice; in a registry
  of at most 64 domains the guard therefore never cuts a walk short.
\<close>

lemma ancestor_unique: "ancestor r i k j \<Longrightarrow> ancestor r i k j' \<Longrightarrow> j = j'"
  by (induction arbitrary: j' rule: ancestor.induct) (auto simp: ancestor_zero_iff ancestor_Suc_iff)

lemma ancestor_add: "ancestor r i (m + n) j \<longleftrightarrow> (\<exists>x. ancestor r i m x \<and> ancestor r x n j)"
proof (induction m arbitrary: i)
  case 0
  then show ?case by (cases n) (auto simp: ancestor_zero_iff ancestor_Suc_iff)
next
  case (Suc m)
  then show ?case by (auto simp: ancestor_Suc_iff)
qed

lemma ancestor_declared: "ancestor r i k j \<Longrightarrow> j \<in> dd_id ` set (reg_domains r)"
  by (induction rule: ancestor.induct) (auto simp: find_domain_def dest!: find_SomeD)

lemma shortest_ancestor_bound:
  assumes "ancestor r i k j" and min: "\<forall>k' < k. \<not> ancestor r i k' j"
  shows "k < length (reg_domains r)"
proof -
  have "\<forall>a \<le> k. \<exists>x. ancestor r i a x \<and> ancestor r x (k - a) j"
    using assms(1) by (metis ancestor_add le_add_diff_inverse)
  then obtain f where f: "\<And>a. a \<le> k \<Longrightarrow> ancestor r i a (f a) \<and> ancestor r (f a) (k - a) j"
    by metis
  have False if "a < b" "b \<le> k" "f a = f b" for a b
  proof -
    have "ancestor r i (a + (k - b)) j"
      using f [of a] f [of b] that ancestor_add [of r i a "k - b" j] by auto
    moreover have "a + (k - b) < k" using that by simp
    ultimately show False using min by blast
  qed
  then have "inj_on f {..k}"
    by (metis atMost_iff inj_onI linorder_neqE_nat)
  moreover have "f ` {..k} \<subseteq> dd_id ` set (reg_domains r)"
    using f ancestor_declared by fastforce
  ultimately have "card {..k} \<le> card (dd_id ` set (reg_domains r))"
    by (intro card_inj_on_le) auto
  also have "\<dots> \<le> length (reg_domains r)"
    by (metis card_image_le card_length finite_set order_trans)
  finally show ?thesis by simp
qed

section \<open>Overlap and independence\<close>

definition risk_of :: "DomainRegistry \<Rightarrow> TargetId \<Rightarrow> FailureDomainId set" where
  "risk_of r t = {j. \<exists>m \<in> set (reg_memberships r). dm_target m = t \<and> dm_known m \<and>
                     j \<in> set (ancestors_of r (dm_domain m))}"

definition memberships_known :: "DomainRegistry \<Rightarrow> TargetId \<Rightarrow> bool" where
  "memberships_known r t \<longleftrightarrow> (\<forall>m \<in> set (reg_memberships r). dm_target m = t \<longrightarrow> dm_known m)"

lemma set_closure_of:
  "set (closure_of r P) = {j. \<exists>m \<in> set (reg_memberships r). P m \<and> dm_known m \<and>
                              j \<in> set (ancestors_of r (dm_domain m))}"
  by (auto simp: closure_of_def)

lemma overlaps_distinct:
  assumes "a \<noteq> b"
  shows "overlaps r a b =
    (if risk_of r a \<inter> risk_of r b \<noteq> {} then Some True
     else if memberships_known r a \<and> memberships_known r b then Some False else None)"
proof -
  have "set (closure_of r (\<lambda>m. dm_target m = a)) = risk_of r a"
    by (simp add: set_closure_of risk_of_def)
  moreover have "set (closure_of r (\<lambda>m. dm_target m \<noteq> a \<and> dm_target m = b)) = risk_of r b"
    using assms by (auto simp: set_closure_of risk_of_def)
  ultimately have "list_ex (\<lambda>d. List.member (closure_of r (\<lambda>m. dm_target m \<noteq> a \<and> dm_target m = b)) d)
      (closure_of r (\<lambda>m. dm_target m = a)) \<longleftrightarrow> risk_of r a \<inter> risk_of r b \<noteq> {}"
    by (auto simp: list_ex_iff)
  then show ?thesis
    using assms by (auto simp: overlaps_def Let_def memberships_known_def list_ex_iff)
qed

lemma overlaps_same_target: "overlaps r a a \<noteq> Some True"
  by (simp add: overlaps_def Let_def closure_of_def list_ex_iff)

definition shares_domain :: "DomainRegistry \<Rightarrow> TargetId \<Rightarrow> TargetId \<Rightarrow> bool" where
  "shares_domain r a b \<longleftrightarrow>
     (\<exists>m \<in> set (reg_memberships r). \<exists>m' \<in> set (reg_memberships r). \<exists>j k k'.
        dm_target m = a \<and> dm_target m' = b \<and> dm_known m \<and> dm_known m' \<and> k < 64 \<and> k' < 64 \<and>
        ancestor r (dm_domain m) k j \<and> ancestor r (dm_domain m') k' j)"

lemma shares_domain_iff: "shares_domain r a b \<longleftrightarrow> risk_of r a \<inter> risk_of r b \<noteq> {}"
  unfolding shares_domain_def risk_of_def set_ancestors_of by blast

definition host_registry :: DomainRegistry where
  "host_registry = foldl set_membership
     (foldl declare_domain empty_registry
        [\<lparr>dd_id = Id 1, dd_generation = gen_first, dd_cls = DomainClass.HOST, dd_name = ''host'',
          dd_parent = None, dd_provenance = Provenance.REPORTED\<rparr>,
         \<lparr>dd_id = Id 2, dd_generation = gen_first, dd_cls = DomainClass.DEVICE, dd_name = ''gpu'',
          dd_parent = Some (Id 1), dd_provenance = Provenance.REPORTED\<rparr>])
     [\<lparr>dm_target = Id 10, dm_domain = Id 1, dm_known = True\<rparr>,
      \<lparr>dm_target = Id 11, dm_domain = Id 2, dm_known = True\<rparr>,
      \<lparr>dm_target = Id 12, dm_domain = Id 1, dm_known = False\<rparr>]"

text \<open>
  Unknown membership never passes for independence. Two different targets are reported
  independent exactly when every membership of both is known and no domain is an ancestor
  (within the 64 levels the walk covers) of a declared membership of both; they are reported
  overlapping exactly when such a shared domain exists, and the order of the targets does
  not matter.
\<close>

theorem overlaps_independence:
  assumes "a \<noteq> b"
  shows "(overlaps r a b = Some False \<longleftrightarrow> \<not> shares_domain r a b \<and>
            (\<forall>m \<in> set (reg_memberships r). dm_target m \<in> {a, b} \<longrightarrow> dm_known m)) \<and>
         (overlaps r a b = Some True \<longleftrightarrow> shares_domain r a b) \<and>
         overlaps r a b = overlaps r b a"
  using overlaps_distinct [OF assms] overlaps_distinct [OF assms [symmetric]]
  by (auto simp: shares_domain_iff memberships_known_def Int_commute)

theorem overlaps_independence_witness:
  "overlaps host_registry (Id 10) (Id 11) = Some True \<and>
   overlaps host_registry (Id 12) (Id 11) = None \<and>
   (overlaps host_registry (Id 10) (Id 11) = Some True \<longleftrightarrow> shares_domain host_registry (Id 10) (Id 11))"
proof -
  have "overlaps host_registry (Id 10) (Id 11) = Some True" by code_simp
  moreover have "overlaps host_registry (Id 12) (Id 11) = None" by code_simp
  moreover have "overlaps host_registry (Id 10) (Id 11) = Some True \<longleftrightarrow>
      shares_domain host_registry (Id 10) (Id 11)"
    by (rule conjunct1 [OF conjunct2 [OF overlaps_independence]]) simp
  ultimately show ?thesis by blast
qed

text \<open>
  C20. The 64-step guard of the ancestor walk loses nothing in a registry of at most 64
  declared domains, even one whose parent links form a cycle: the walk returns exactly the
  domains reachable over any number of parent links.
\<close>

theorem ancestors_of_exact:
  assumes "length (reg_domains r) \<le> 64"
  shows "set (ancestors_of r i) = {j. \<exists>k. ancestor r i k j}"
proof -
  have "\<exists>k < 64. ancestor r i k j" if "ancestor r i k j" for k j
  proof -
    let ?k = "LEAST k. ancestor r i k j"
    have "ancestor r i ?k j" using that by (rule LeastI)
    moreover have "\<forall>k' < ?k. \<not> ancestor r i k' j" using not_less_Least by blast
    ultimately have "?k < length (reg_domains r)" by (rule shortest_ancestor_bound)
    with assms \<open>ancestor r i ?k j\<close> show ?thesis by (meson less_le_trans)
  qed
  then show ?thesis by (auto simp: set_ancestors_of)
qed

theorem ancestors_of_exact_witness:
  "length (reg_domains host_registry) = 2 \<and>
   {Id 1, Id 2} = {j. \<exists>k. ancestor host_registry (Id 2) k j}"
proof -
  have len: "length (reg_domains host_registry) = 2" by code_simp
  have anc: "ancestors_of host_registry (Id 2) = [Id 2, Id 1]" by code_simp
  show ?thesis using ancestors_of_exact [of host_registry "Id 2"] len anc by auto
qed

text \<open>
  Re-declaring domains never takes one back to an older generation: after any sequence
  of declarations, a domain that was declared is still declared, at a generation that is
  not smaller.
\<close>

theorem declare_domain_monotonic:
  assumes "wf_registry r" and "find_domain r i = Some d"
  shows "\<exists>d'. find_domain (foldl declare_domain r ds) i = Some d' \<and> dd_generation d \<le> dd_generation d'"
  using assms by (rule decl_store.puts_version_mono)

theorem declare_domain_monotonic_witness:
  "\<exists>d'. find_domain (foldl declare_domain host_registry
           [\<lparr>dd_id = Id 1, dd_generation = gen_null, dd_cls = DomainClass.RACK, dd_name = ''old'',
             dd_parent = None, dd_provenance = Provenance.REPORTED\<rparr>]) (Id 1) = Some d' \<and>
        gen_first \<le> dd_generation d'"
proof -
  have wf: "wf_registry host_registry" by code_simp
  have f: "find_domain host_registry (Id 1) =
      Some \<lparr>dd_id = Id 1, dd_generation = gen_first, dd_cls = DomainClass.HOST, dd_name = ''host'',
          dd_parent = None, dd_provenance = Provenance.REPORTED\<rparr>" by code_simp
  show ?thesis by (rule declare_domain_monotonic [OF wf f, simplified])
qed

end
