(* ===== verification/Candidates.thy ===== *)
theory Candidates
  imports Service Domains
begin

text \<open>
  \<^verbatim>\<open>candidate.hpp\<close> and the structs of \<^verbatim>\<open>selection.hpp\<close>: what the fabric knows about a possible
  replacement, the snapshot of all candidates for one slot, the context the selection is
  made in and its result.
\<close>

section \<open>Candidates\<close>

record CandidateFacts =
  cf_target :: TargetId
  cf_target_generation :: TargetGeneration
  cf_service :: ServiceId
  cf_replica :: ReplicaId
  cf_replica_generation :: ReplicaGeneration
  cf_engine :: EngineId
  cf_engine_generation :: EngineGeneration
  cf_engine_incarnation :: EngineIncarnationId
  cf_worker :: WorkerId
  cf_worker_boot :: WorkerBootId
  cf_profile :: ReadinessProfileId
  cf_model_key :: string
  cf_runtime_abi :: string
  cf_profile_generation :: ReadinessProfileGeneration
  cf_readiness_generation :: ReadinessGeneration
  cf_ready :: bool
  cf_activation_eligible :: bool
  cf_health_generation :: HealthGeneration
  cf_provenance :: Provenance
  cf_observed :: Timestamp
  cf_evidence_fresh :: bool

definition default_CandidateFacts :: CandidateFacts where
  "default_CandidateFacts = \<lparr>cf_target = id_null, cf_target_generation = gen_null,
     cf_service = id_null, cf_replica = id_null, cf_replica_generation = gen_null,
     cf_engine = id_null, cf_engine_generation = gen_null, cf_engine_incarnation = id_null,
     cf_worker = id_null, cf_worker_boot = id_null, cf_profile = id_null, cf_model_key = [],
     cf_runtime_abi = [], cf_profile_generation = gen_null, cf_readiness_generation = gen_null,
     cf_ready = False, cf_activation_eligible = False, cf_health_generation = gen_null,
     cf_provenance = Provenance.UNKNOWN, cf_observed = zero_timestamp, cf_evidence_fresh = False\<rparr>"

record CandidateState =
  cs_state_required :: bool
  cs_state_available :: bool
  cs_state_generation :: "StateGeneration option"
  cs_checkpoint_generation :: "CheckpointGeneration option"
  cs_committed_sequence :: u64
  cs_correct_session :: bool
  cs_correct_tenant :: bool
  cs_correct_model_generation :: bool
  cs_state_format_ok :: bool
  cs_status_integrity_ok :: bool
  cs_replay_safe :: bool

definition default_CandidateState :: CandidateState where
  "default_CandidateState = \<lparr>cs_state_required = False, cs_state_available = False,
     cs_state_generation = None, cs_checkpoint_generation = None, cs_committed_sequence = 0,
     cs_correct_session = False, cs_correct_tenant = False, cs_correct_model_generation = False,
     cs_state_format_ok = False, cs_status_integrity_ok = False, cs_replay_safe = False\<rparr>"

record CandidateResource =
  cres_resource_class :: string
  cres_amount :: double
  cres_capacity_generation :: CapacityGeneration
  cres_existing_claims :: "ResourceClaimId list"
  cres_has_conflicting_commitment :: bool
  cres_reservation :: "ReservationId option"
  cres_reservation_generation :: ReservationGeneration
  cres_resources_revoked :: bool
  cres_unit :: u64

record CandidateCosts =
  cc_estimated_prep_ms :: u64
  cc_estimated_cutover_ms :: u64
  cc_state_restore_ms :: u64
  cc_estimated_critical_path_ms :: u64
  cc_cost_estimated :: bool
  cc_state_loss_sequences :: u64
  cc_route_cost :: string

definition default_CandidateCosts :: CandidateCosts where
  "default_CandidateCosts = \<lparr>cc_estimated_prep_ms = 0, cc_estimated_cutover_ms = 0,
     cc_state_restore_ms = 0, cc_estimated_critical_path_ms = 0, cc_cost_estimated = True,
     cc_state_loss_sequences = 0, cc_route_cost = []\<rparr>"

record Candidate =
  cand_facts :: CandidateFacts
  cand_domains :: "FailureDomainId list"
  cand_memberships :: "DomainMembership list"
  cand_state :: CandidateState
  cand_resources :: "CandidateResource list"
  cand_costs :: CandidateCosts
  cand_continuity :: "ContinuityClass option"
  cand_failed_reason :: "ExclusionReason option"
  cand_failed_detail :: string
  cand_blocked_domain_classes :: "DomainClass list"
  cand_hard_eligible :: bool

definition default_Candidate :: Candidate where
  "default_Candidate = \<lparr>cand_facts = default_CandidateFacts, cand_domains = [],
     cand_memberships = [], cand_state = default_CandidateState, cand_resources = [],
     cand_costs = default_CandidateCosts, cand_continuity = None, cand_failed_reason = None,
     cand_failed_detail = [], cand_blocked_domain_classes = [], cand_hard_eligible = False\<rparr>"

abbreviation cand_target :: "Candidate \<Rightarrow> TargetId" where
  "cand_target c \<equiv> cf_target (cand_facts c)"

abbreviation cand_boot :: "Candidate \<Rightarrow> WorkerBootId" where
  "cand_boot c \<equiv> cf_worker_boot (cand_facts c)"

record CandidateSnapshot =
  snap_generation :: CandidateSnapshotGeneration
  snap_slot :: ServiceSlotKey
  snap_at :: Timestamp
  snap_candidates :: "Candidate list"

definition default_CandidateSnapshot :: CandidateSnapshot where
  "default_CandidateSnapshot = \<lparr>snap_generation = gen_first, snap_slot = SlotKey id_null id_null,
     snap_at = zero_timestamp, snap_candidates = []\<rparr>"

section \<open>The selection's context and result\<close>

record SelectionContext =
  ctx_failed_target :: TargetId
  ctx_confirmed_failed_targets :: "TargetId list"
  ctx_fenced_boots :: "WorkerBootId list"
  ctx_failed_domains :: "FailureDomainId list"
  ctx_current_route_gen :: "RouteGeneration option"
  ctx_preferred_target :: "TargetId option"
  ctx_requires_fresh_readiness :: bool
  ctx_now_receipt_seq :: u64

definition default_SelectionContext :: SelectionContext where
  "default_SelectionContext = \<lparr>ctx_failed_target = id_null, ctx_confirmed_failed_targets = [],
     ctx_fenced_boots = [], ctx_failed_domains = [], ctx_current_route_gen = None,
     ctx_preferred_target = None, ctx_requires_fresh_readiness = True, ctx_now_receipt_seq = 0\<rparr>"

record RankingFactor =
  rf_name :: string
  rf_weight :: double
  rf_normalized_value :: double
  rf_note :: string

record SelectionResult =
  sel_has_selection :: bool
  sel_selected :: "Candidate option"
  sel_evaluated_alternatives :: "Candidate list"
  sel_exclusions :: "(TargetId \<times> ExclusionReason \<times> string) list"
  sel_factors :: "RankingFactor list"
  sel_cost_components :: "string list"
  sel_provenance :: Provenance
  sel_uncertainty :: double
  sel_policy_gen :: PolicyGeneration
  sel_snapshot_gen :: CandidateSnapshotGeneration

definition default_SelectionResult :: SelectionResult where
  "default_SelectionResult = \<lparr>sel_has_selection = False, sel_selected = None,
     sel_evaluated_alternatives = [], sel_exclusions = [], sel_factors = [],
     sel_cost_components = [], sel_provenance = Provenance.DERIVED, sel_uncertainty = 0,
     sel_policy_gen = gen_first, sel_snapshot_gen = gen_first\<rparr>"

end
