(* ===== verification/Selection.thy ===== *)
theory Selection
  imports Candidates "HOL-Library.Multiset"
begin

text \<open>
  \<^verbatim>\<open>selection.cpp\<close>: the hard eligibility checks in the order the engine makes them, the
  ranking score in IEEE arithmetic and the deterministic choice. \<open>std::stable_sort\<close> is
  modelled by a stable insertion sort; the locale \<open>strict_weak_order\<close> shows, for every
  comparator that meets the standard's requirement, that its result is the only one a
  stable sort can give, and the engine's comparator interprets it.
\<close>

section \<open>Stable sorting\<close>

fun insert_stable :: "('a \<Rightarrow> 'a \<Rightarrow> bool) \<Rightarrow> 'a \<Rightarrow> 'a list \<Rightarrow> 'a list" where
  "insert_stable lt x [] = [x]"
| "insert_stable lt x (y # ys) = (if lt y x then y # insert_stable lt x ys else x # y # ys)"

definition stable_sort :: "('a \<Rightarrow> 'a \<Rightarrow> bool) \<Rightarrow> 'a list \<Rightarrow> 'a list" where
  "stable_sort lt xs = foldr (insert_stable lt) xs []"

lemma mset_insert_stable [simp]: "mset (insert_stable lt x ys) = add_mset x (mset ys)"
  by (induction ys) auto

lemma stable_sort_simps [simp]:
  "stable_sort lt [] = []"
  "stable_sort lt (x # xs) = insert_stable lt x (stable_sort lt xs)"
  by (simp_all add: stable_sort_def)

lemma mset_stable_sort [simp]: "mset (stable_sort lt xs) = mset xs"
  by (induction xs) auto

lemma set_stable_sort [simp]: "set (stable_sort lt xs) = set xs"
  by (metis mset_stable_sort set_mset_mset)

lemma length_stable_sort [simp]: "length (stable_sort lt xs) = length xs"
  by (metis mset_stable_sort size_mset)

lemma stable_sort_eq_Nil [simp]: "stable_sort lt xs = [] \<longleftrightarrow> xs = []"
  by (metis length_0_conv length_stable_sort)

lemma set_insert_stable [simp]: "set (insert_stable lt x ys) = insert x (set ys)"
  by (metis mset_insert_stable set_mset_add_mset_insert set_mset_mset)

text \<open>A list sorted by a relation that is antisymmetric on its elements is determined by them.\<close>

lemma sorted_wrt_unique:
  assumes "sorted_wrt R xs" and "sorted_wrt R ys" and "mset xs = mset ys"
    and "\<And>a b. a \<in> set xs \<Longrightarrow> b \<in> set xs \<Longrightarrow> R a b \<Longrightarrow> R b a \<Longrightarrow> a = b"
  shows "xs = ys"
  using assms
proof (induction xs arbitrary: ys)
  case (Cons x xs)
  then obtain y zs where ys: "ys = y # zs" by (cases ys) auto
  have sets: "set (x # xs) = set ys" using Cons.prems(3) by (metis set_mset_mset)
  have "x = y"
  proof (rule ccontr)
    assume "x \<noteq> y"
    then have "x \<in> set zs" "y \<in> set xs" using sets ys by auto
    then have "R y x" "R x y" using Cons.prems(1,2) ys by auto
    then show False using Cons.prems(4) [of x y] \<open>x \<noteq> y\<close> \<open>y \<in> set xs\<close> by auto
  qed
  moreover have "xs = zs"
  proof (rule Cons.IH)
    show "sorted_wrt R xs" "sorted_wrt R zs" "mset xs = mset zs"
      using Cons.prems(1-3) ys \<open>x = y\<close> by simp_all
  qed (use Cons.prems(4) in simp)
  ultimately show ?case using ys by simp
qed simp

locale strict_weak_order =
  fixes lt :: "'a \<Rightarrow> 'a \<Rightarrow> bool"
  assumes lt_irrefl: "\<not> lt a a"
    and lt_trans: "lt a b \<Longrightarrow> lt b c \<Longrightarrow> lt a c"
    and not_lt_trans: "\<not> lt b a \<Longrightarrow> \<not> lt c b \<Longrightarrow> \<not> lt c a"
begin

lemma lt_asym: "lt a b \<Longrightarrow> \<not> lt b a"
  using lt_irrefl lt_trans by blast

lemma sorted_insert_stable:
  "sorted_wrt (\<lambda>a b. \<not> lt b a) ys \<Longrightarrow> sorted_wrt (\<lambda>a b. \<not> lt b a) (insert_stable lt x ys)"
proof (induction ys)
  case (Cons y ys)
  show ?case
  proof (cases "lt y x")
    case True
    then show ?thesis using Cons lt_asym by simp
  next
    case False
    then have "\<not> lt z x" if "z \<in> set ys" for z
      using that Cons.prems not_lt_trans [of y x z] by simp
    with False Cons.prems show ?thesis by simp
  qed
qed simp

lemma sorted_stable_sort: "sorted_wrt (\<lambda>a b. \<not> lt b a) (stable_sort lt xs)"
  by (induction xs) (auto intro: sorted_insert_stable)

text \<open>Elements that neither precede each other keep their order.\<close>

lemma filter_insert_stable:
  "filter (\<lambda>y. \<not> lt y z \<and> \<not> lt z y) (insert_stable lt x ys) =
   filter (\<lambda>y. \<not> lt y z \<and> \<not> lt z y) (x # ys)"
proof (induction ys)
  case (Cons y ys)
  show ?case
  proof (cases "lt y x")
    case True
    then have "\<not> (\<not> lt y z \<and> \<not> lt z y \<and> \<not> lt x z \<and> \<not> lt z x)"
      using not_lt_trans by blast
    with True Cons.IH show ?thesis by auto
  qed simp
qed simp

lemma stable_sort_stable:
  "filter (\<lambda>y. \<not> lt y z \<and> \<not> lt z y) (stable_sort lt xs) = filter (\<lambda>y. \<not> lt y z \<and> \<not> lt z y) xs"
  by (induction xs) (simp_all add: filter_insert_stable)

lemma hd_stable_sort: "xs \<noteq> [] \<Longrightarrow> y \<in> set xs \<Longrightarrow> \<not> lt y (hd (stable_sort lt xs))"
proof -
  assume "xs \<noteq> []" "y \<in> set xs"
  then obtain z zs where z: "stable_sort lt xs = z # zs" by (cases "stable_sort lt xs") auto
  then have "y = z \<or> y \<in> set zs"
    using \<open>y \<in> set xs\<close> set_stable_sort [of lt xs] by auto
  then show ?thesis using sorted_stable_sort [of xs] z lt_irrefl by auto
qed

text \<open>Where the order separates all elements the result does not depend on the input order.\<close>

lemma stable_sort_perm:
  assumes "mset xs = mset ys"
    and "\<And>a b. a \<in> set xs \<Longrightarrow> b \<in> set xs \<Longrightarrow> a \<noteq> b \<Longrightarrow> lt a b \<or> lt b a"
  shows "stable_sort lt xs = stable_sort lt ys"
  using sorted_stable_sort sorted_stable_sort
proof (rule sorted_wrt_unique)
  show "mset (stable_sort lt xs) = mset (stable_sort lt ys)" using assms(1) by simp
next
  fix a b
  assume "a \<in> set (stable_sort lt xs)" "b \<in> set (stable_sort lt xs)" "\<not> lt b a" "\<not> lt a b"
  then show "a = b" using assms(2) by auto
qed

end

section \<open>Hard eligibility\<close>

fun first_some :: "('a \<Rightarrow> 'b option) \<Rightarrow> 'a list \<Rightarrow> 'b option" where
  "first_some f [] = None"
| "first_some f (x # xs) = (case f x of Some y \<Rightarrow> Some y | None \<Rightarrow> first_some f xs)"

lemma first_some_None_iff [simp]: "first_some f xs = None \<longleftrightarrow> (\<forall>x \<in> set xs. f x = None)"
  by (induction xs) (auto split: option.splits)

lemma first_some_SomeD: "first_some f xs = Some y \<Longrightarrow> \<exists>x \<in> set xs. f x = Some y"
  by (induction xs) (auto split: option.splits)

type_synonym exclusion = "ExclusionReason \<times> string"

text \<open>Step 7 for one requirement: the first resource of the class decides.\<close>

definition check_resource :: "CandidateResource list \<Rightarrow> ResourceRequirement \<Rightarrow> exclusion option" where
  "check_resource crs req =
     (case List.find (\<lambda>cr. cres_resource_class cr = rreq_resource_class req) crs of
        None \<Rightarrow> Some (ExclusionReason.INSUFFICIENT_CAPACITY, ''no capacity on '' @ rreq_resource_class req)
      | Some cr \<Rightarrow>
          if cres_resources_revoked cr
          then Some (ExclusionReason.RESOURCES_REVOKED, ''resource claim revoked'')
          else if cres_has_conflicting_commitment cr
          then Some (ExclusionReason.COMMITMENT_CONFLICT,
                     ''conflicting exclusive commitment on '' @ rreq_resource_class req)
          else if d_less (cres_amount cr) (rreq_amount req)
          then Some (ExclusionReason.INSUFFICIENT_CAPACITY,
                     ''insufficient capacity on '' @ rreq_resource_class req)
          else None)"

text \<open>Step 8: independence from the failed target, then from every failed domain.\<close>

definition check_failed_domain :: "DomainRegistry \<Rightarrow> TargetId \<Rightarrow> FailureDomainId \<Rightarrow> exclusion option" where
  "check_failed_domain reg t fd =
     (case in_domain reg t fd of
        Some True \<Rightarrow> Some (ExclusionReason.FAILED_DOMAIN, ''candidate is inside a failed domain'')
      | None \<Rightarrow> Some (ExclusionReason.DOMAIN_INDEPENDENCE_UNKNOWN,
                      ''candidate domain membership is unknown in failed domain'')
      | Some False \<Rightarrow> None)"

definition check_domains ::
    "DomainRegistry \<Rightarrow> SelectionContext \<Rightarrow> TargetId \<Rightarrow> exclusion option" where
  "check_domains reg ctx t =
     (case overlaps reg t (ctx_failed_target ctx) of
        None \<Rightarrow> Some (ExclusionReason.DOMAIN_INDEPENDENCE_UNKNOWN,
                     ''domain independence cannot be established (unknown membership)'')
      | Some True \<Rightarrow> Some (ExclusionReason.FAILED_DOMAIN,
                     ''candidate shares a failure domain with the failed target'')
      | Some False \<Rightarrow> first_some (check_failed_domain reg t) (ctx_failed_domains ctx))"

text \<open>Step 6: the state a stateful continuity class needs.\<close>

definition stateful_class :: "ContinuityClass \<Rightarrow> bool" where
  "stateful_class c \<longleftrightarrow> c = ContinuityClass.CHECKPOINT_RESTORE \<or> c = ContinuityClass.SESSION_STATE_REBIND"

definition state_usable :: "CandidateState \<Rightarrow> bool" where
  "state_usable s \<longleftrightarrow> cs_state_available s \<and> cs_correct_session s \<and> cs_correct_tenant s \<and>
     cs_correct_model_generation s \<and> cs_state_format_ok s \<and> cs_status_integrity_ok s"

definition check_state :: "Candidate \<Rightarrow> ServiceDefinition \<Rightarrow> exclusion option" where
  "check_state c svc =
     (if \<not> state_usable (cand_state c)
      then Some (ExclusionReason.STATE_UNAVAILABLE, ''required state is not available or incompatible'')
      else if (case (obj_min_checkpoint_gen (sd_recovery svc), cs_checkpoint_generation (cand_state c)) of
                 (Some least, Some have) \<Rightarrow> have < least
               | _ \<Rightarrow> False)
      then Some (ExclusionReason.STATE_TOO_OLD, ''checkpoint is older than the permitted recovery point'')
      else if cand_continuity c = None \<or> cand_continuity c = Some ContinuityClass.UNKNOWN
      then Some (ExclusionReason.UNSUPPORTED_CONTINUITY, ''candidate continuity class is unknown'')
      else None)"

text \<open>The eight steps in their order: the exclusion found first, if any.\<close>

definition hard_check ::
    "Candidate \<Rightarrow> ServiceDefinition \<Rightarrow> DomainRegistry \<Rightarrow> SelectionContext \<Rightarrow> exclusion option" where
  "hard_check c svc reg ctx =
     (let f = cand_facts c; compat = sd_compatibility svc
      in if cf_target f \<noteq> id_null \<and> cf_target f = ctx_failed_target ctx
         then Some (ExclusionReason.FAILED_DOMAIN, ''candidate is the failed target'')
         else if cf_target f \<in> set (ctx_confirmed_failed_targets ctx)
         then Some (ExclusionReason.FAILED_DOMAIN, ''target has confirmed failure evidence'')
         else if cf_worker_boot f \<in> set (ctx_fenced_boots ctx)
         then Some (ExclusionReason.FENCED_BOOT, ''worker boot is fenced'')
         else if ctx_requires_fresh_readiness ctx \<and> \<not> cf_evidence_fresh f
         then Some (ExclusionReason.STALE_READINESS, ''readiness evidence is stale'')
         else if ctx_requires_fresh_readiness ctx \<and> \<not> cf_ready f
         then Some (ExclusionReason.UNREADY_ENGINE, ''engine is not ready'')
         else if compat_model_key compat \<noteq> [] \<and> cf_model_key f \<noteq> compat_model_key compat
         then Some (ExclusionReason.INCOMPATIBLE_PROFILE, ''model_key mismatch'')
         else if compat_runtime_abi compat \<noteq> [] \<and> cf_runtime_abi f \<noteq> compat_runtime_abi compat
         then Some (ExclusionReason.INCOMPATIBLE_PROFILE, ''runtime_abi mismatch'')
         else if compat_readiness_profile compat \<noteq> None \<and>
                 compat_readiness_profile compat \<noteq> Some (cf_profile f)
         then Some (ExclusionReason.INCOMPATIBLE_PROFILE, ''readiness_profile mismatch'')
         else (case (if stateful_class (obj_continuity (sd_recovery svc)) then check_state c svc else None) of
                 Some e \<Rightarrow> Some e
               | None \<Rightarrow>
                  (case first_some (check_resource (cand_resources c)) (sd_resources svc) of
                     Some e \<Rightarrow> Some e
                   | None \<Rightarrow>
                       if dreq_require_domain_independence (sd_domain_requirement svc)
                       then check_domains reg ctx (cf_target f) else None)))"

definition hard_eligible ::
    "Candidate \<Rightarrow> ServiceDefinition \<Rightarrow> DomainRegistry \<Rightarrow> SelectionContext \<Rightarrow> Candidate \<times> bool" where
  "hard_eligible c svc reg ctx =
     (case hard_check c svc reg ctx of
        Some (reason, detail) \<Rightarrow>
          (c\<lparr>cand_failed_reason := Some reason, cand_failed_detail := detail\<rparr>, False)
      | None \<Rightarrow> (c\<lparr>cand_hard_eligible := True, cand_failed_reason := None\<rparr>, True))"

section \<open>Ranking\<close>

definition resource_overlap_credit :: "Candidate \<Rightarrow> double" where
  "resource_overlap_credit c = (if cand_resources c = [] then d_lit 1 2 else d_lit 1 1)"

definition kDomainIndependenceWeight :: double where "kDomainIndependenceWeight = d_lit 25 100"
definition kPreparationWeight :: double where "kPreparationWeight = d_lit 12 100"
definition kContinuityWeight :: double where "kContinuityWeight = d_lit 20 100"
definition kStateFreshnessWeight :: double where "kStateFreshnessWeight = d_lit 10 100"
definition kCapacityWeight :: double where "kCapacityWeight = d_lit 8 100"
definition kResourceOverlapWeight :: double where "kResourceOverlapWeight = d_lit 6 100"
definition kPrepCostWeight :: double where "kPrepCostWeight = d_lit 7 100"
definition kPolicyPreferenceWeight :: double where "kPolicyPreferenceWeight = d_lit 3 100"

text \<open>\<^verbatim>\<open>x > 0 ? 1.0 - std::min(1.0, x / scale) : 1.0\<close>.\<close>

definition inverse_score :: "double \<Rightarrow> double \<Rightarrow> double" where
  "inverse_score x scale =
     (if d_less 0 x then d_sub (d_lit 1 1) (d_min (d_lit 1 1) (d_div x scale)) else d_lit 1 1)"

text \<open>The capacity loop: the sum so far and whether any requirement was matched.\<close>

definition cap_step :: "CandidateResource list \<Rightarrow> double \<times> bool \<Rightarrow> ResourceRequirement \<Rightarrow> double \<times> bool" where
  "cap_step crs acc req =
     (case List.find (\<lambda>cr. cres_resource_class cr = rreq_resource_class req) crs of
        None \<Rightarrow> acc
      | Some cr \<Rightarrow>
          let avail = (if d_less (rreq_amount req) (cres_amount cr)
                       then d_div (d_sub (cres_amount cr) (rreq_amount req))
                                  (d_max (d_lit 1 1) (rreq_amount req))
                       else 0)
          in (d_add (fst acc) (d_min (d_lit 1 1) avail), True))"

definition cap_score :: "Candidate \<Rightarrow> ServiceDefinition \<Rightarrow> double" where
  "cap_score c svc =
     (let (cap, have_cap) = foldl (cap_step (cand_resources c)) (0, False) (sd_resources svc)
      in if have_cap then d_div cap (d_of_nat (length (sd_resources svc))) else 0)"

definition rank_score :: "Candidate \<Rightarrow> ServiceDefinition \<Rightarrow> double" where
  "rank_score c svc =
     (let s1 = d_add 0 (d_mul kPreparationWeight (if cf_ready (cand_facts c) then d_lit 1 1 else 0));
          t = d_of_nat (unat (cc_estimated_critical_path_ms (cand_costs c)));
          s2 = d_add s1 (d_mul kPrepCostWeight (inverse_score t (d_lit 30000 1)));
          cls = (case cand_continuity c of None \<Rightarrow> 0 | Some k \<Rightarrow> index_of k ContinuityClass_values);
          s3 = d_add s2 (d_mul kContinuityWeight
                 (d_div (d_of_nat cls) (d_of_nat (index_of ContinuityClass.UNKNOWN ContinuityClass_values))));
          loss = d_of_nat (unat (cc_state_loss_sequences (cand_costs c)));
          s4 = d_add s3 (d_mul kStateFreshnessWeight (inverse_score loss (d_lit 1000 1)));
          s5 = d_add s4 (d_mul kCapacityWeight (cap_score c svc));
          s6 = d_add s5 (d_mul kResourceOverlapWeight (resource_overlap_credit c));
          s7 = d_add s6 kDomainIndependenceWeight
      in d_add s7 (d_mul kPolicyPreferenceWeight (d_lit 1 2)))"

definition rank :: "Candidate \<Rightarrow> ServiceDefinition \<Rightarrow> SelectionContext \<Rightarrow> u64" where
  "rank c svc ctx =
     (let result = (of_nat (d_round_nat (d_mul (rank_score c svc) (d_lit 1000000 1))) :: u64)
      in result * 2 + cc_estimated_critical_path_ms (cand_costs c) mod 1000)"

section \<open>Selection\<close>

definition is_preferred :: "SelectionContext \<Rightarrow> Candidate \<Rightarrow> bool" where
  "is_preferred ctx c \<longleftrightarrow> ctx_preferred_target ctx = Some (cand_target c)"

text \<open>The comparator of the sort.\<close>

definition ranks_before :: "ServiceDefinition \<Rightarrow> SelectionContext \<Rightarrow> Candidate \<Rightarrow> Candidate \<Rightarrow> bool" where
  "ranks_before svc ctx a b =
     (let pa = is_preferred ctx a; pb = is_preferred ctx b;
          ra = rank a svc ctx; rb = rank b svc ctx
      in if pa \<noteq> pb then pa
         else if ra \<noteq> rb then rb < ra
         else if cand_target a \<noteq> cand_target b then cand_target a < cand_target b
         else cand_boot a < cand_boot b)"

text \<open>Phase 1: the annotated eligible candidates and the exclusions, in candidate order.\<close>

definition phase1_step ::
    "ServiceDefinition \<Rightarrow> DomainRegistry \<Rightarrow> SelectionContext \<Rightarrow>
     Candidate list \<times> (TargetId \<times> ExclusionReason \<times> string) list \<Rightarrow> Candidate \<Rightarrow>
     Candidate list \<times> (TargetId \<times> ExclusionReason \<times> string) list" where
  "phase1_step svc reg ctx acc c =
     (let (c', ok) = hard_eligible c svc reg ctx
      in if ok then (fst acc @ [c'], snd acc)
         else (case cand_failed_reason c' of
                 Some r \<Rightarrow> (fst acc, snd acc @ [(cand_target c', r, cand_failed_detail c')])
               | None \<Rightarrow> acc))"

definition phase1 ::
    "ServiceDefinition \<Rightarrow> DomainRegistry \<Rightarrow> SelectionContext \<Rightarrow> Candidate list \<Rightarrow>
     Candidate list \<times> (TargetId \<times> ExclusionReason \<times> string) list" where
  "phase1 svc reg ctx cs =
     foldl (phase1_step svc reg ctx) ([], []) cs"

definition select ::
    "CandidateSnapshot \<Rightarrow> ServiceDefinition \<Rightarrow> DomainRegistry \<Rightarrow> SelectionContext \<Rightarrow> SelectionResult" where
  "select snap svc reg ctx =
     (let (eligible, exclusions) = phase1 svc reg ctx (snap_candidates snap);
          out = default_SelectionResult\<lparr>sel_policy_gen := sd_policy_generation svc,
                  sel_snapshot_gen := snap_generation snap, sel_exclusions := exclusions\<rparr>
      in if eligible = []
         then (if exclusions = []
               then out\<lparr>sel_exclusions :=
                      [(id_null, ExclusionReason.NO_ELIGIBLE_TARGET, ''no candidates'')]\<rparr>
               else out)
         else (let sorted = stable_sort (ranks_before svc ctx) eligible
               in out\<lparr>sel_selected := Some (hd sorted), sel_has_selection := True,
                      sel_evaluated_alternatives := tl sorted,
                      sel_provenance := Provenance.DERIVED,
                      sel_uncertainty := (if 1 < length eligible
                         then d_div (d_lit 1 1) (d_of_nat (length eligible)) else 0)\<rparr>))"

section \<open>What the checks decide\<close>

definition compatible_with :: "CandidateFacts \<Rightarrow> CompatibilityRequirement \<Rightarrow> bool" where
  "compatible_with f req \<longleftrightarrow>
     (compat_model_key req \<in> {[], cf_model_key f}) \<and> (compat_runtime_abi req \<in> {[], cf_runtime_abi f}) \<and>
     (compat_readiness_profile req \<in> {None, Some (cf_profile f)})"

definition state_admissible :: "Candidate \<Rightarrow> RecoveryObjective \<Rightarrow> bool" where
  "state_admissible c req \<longleftrightarrow> (stateful_class (obj_continuity req) \<longrightarrow>
     state_usable (cand_state c) \<and>
     (\<forall>least have. obj_min_checkpoint_gen req = Some least \<longrightarrow>
        cs_checkpoint_generation (cand_state c) = Some have \<longrightarrow> least \<le> have) \<and>
     cand_continuity c \<notin> {None, Some ContinuityClass.UNKNOWN})"

definition capacity_admissible :: "CandidateResource list \<Rightarrow> ResourceRequirement \<Rightarrow> bool" where
  "capacity_admissible crs req \<longleftrightarrow>
     (\<exists>cr. List.find (\<lambda>cr. cres_resource_class cr = rreq_resource_class req) crs = Some cr \<and>
        \<not> cres_resources_revoked cr \<and> \<not> cres_has_conflicting_commitment cr \<and>
        \<not> d_less (cres_amount cr) (rreq_amount req))"

definition domain_admissible :: "DomainRegistry \<Rightarrow> SelectionContext \<Rightarrow> TargetId \<Rightarrow> bool" where
  "domain_admissible reg ctx t \<longleftrightarrow>
     (\<forall>m \<in> set (reg_memberships reg). dm_target m \<in> {t, ctx_failed_target ctx} \<longrightarrow> dm_known m) \<and>
     (t \<noteq> ctx_failed_target ctx \<longrightarrow> \<not> shares_domain reg t (ctx_failed_target ctx)) \<and>
     (\<forall>m \<in> set (reg_memberships reg). dm_target m = t \<longrightarrow> dm_domain m \<notin> set (ctx_failed_domains ctx))"

lemma check_resource_None_iff: "check_resource crs req = None \<longleftrightarrow> capacity_admissible crs req"
  by (simp add: check_resource_def capacity_admissible_def split: option.split)

lemma check_state_None_iff:
  "(if stateful_class (obj_continuity (sd_recovery svc)) then check_state c svc else None) = None \<longleftrightarrow>
   state_admissible c (sd_recovery svc)"
  by (auto simp: check_state_def state_admissible_def not_less split: option.split)

lemma overlaps_Some_False_iff:
  "overlaps reg a b = Some False \<longleftrightarrow>
     (\<forall>m \<in> set (reg_memberships reg). dm_target m \<in> {a, b} \<longrightarrow> dm_known m) \<and>
     (a \<noteq> b \<longrightarrow> \<not> shares_domain reg a b)"
proof (cases "a = b")
  case True
  then show ?thesis by (auto simp: overlaps_def Let_def closure_of_def list_ex_iff)
next
  case False
  then show ?thesis
    by (auto simp: overlaps_distinct shares_domain_iff memberships_known_def)
qed

lemma check_domains_None_iff: "check_domains reg ctx t = None \<longleftrightarrow> domain_admissible reg ctx t"
proof -
  have "check_domains reg ctx t = None \<longleftrightarrow>
      overlaps reg t (ctx_failed_target ctx) = Some False \<and>
      (\<forall>fd \<in> set (ctx_failed_domains ctx). in_domain reg t fd = Some False)"
    by (auto simp: check_domains_def check_failed_domain_def split: option.split bool.split)
  then show ?thesis
    by (auto simp: overlaps_Some_False_iff domain_admissible_def in_domain_def Let_def list_ex_iff)
qed

definition eligible ::
    "ServiceDefinition \<Rightarrow> DomainRegistry \<Rightarrow> SelectionContext \<Rightarrow> Candidate \<Rightarrow> bool" where
  "eligible svc reg ctx c \<longleftrightarrow>
     (cand_target c = id_null \<or> cand_target c \<noteq> ctx_failed_target ctx) \<and>
     cand_target c \<notin> set (ctx_confirmed_failed_targets ctx) \<and>
     cand_boot c \<notin> set (ctx_fenced_boots ctx) \<and>
     (ctx_requires_fresh_readiness ctx \<longrightarrow> cf_evidence_fresh (cand_facts c) \<and> cf_ready (cand_facts c)) \<and>
     compatible_with (cand_facts c) (sd_compatibility svc) \<and>
     state_admissible c (sd_recovery svc) \<and>
     (\<forall>req \<in> set (sd_resources svc). capacity_admissible (cand_resources c) req) \<and>
     (dreq_require_domain_independence (sd_domain_requirement svc) \<longrightarrow>
        domain_admissible reg ctx (cand_target c))"

lemma if_Some_None_iff: "(if P then Some e else x) = None \<longleftrightarrow> \<not> P \<and> x = None"
  by simp

lemma if_None_iff: "(if P then x else None) = None \<longleftrightarrow> (P \<longrightarrow> x = None)"
  by simp

lemma case_Some_None_iff: "(case m of Some e \<Rightarrow> Some e | None \<Rightarrow> x) = None \<longleftrightarrow> m = None \<and> x = None"
  by (simp split: option.split)

lemma hard_check_None_iff: "hard_check c svc reg ctx = None \<longleftrightarrow> eligible svc reg ctx c"
proof -
  have resources: "first_some (check_resource (cand_resources c)) (sd_resources svc) = None \<longleftrightarrow>
      (\<forall>req \<in> set (sd_resources svc). capacity_admissible (cand_resources c) req)"
    by (simp add: check_resource_None_iff)
  have compat: "compatible_with (cand_facts c) (sd_compatibility svc) \<longleftrightarrow>
      \<not> (compat_model_key (sd_compatibility svc) \<noteq> [] \<and>
         cf_model_key (cand_facts c) \<noteq> compat_model_key (sd_compatibility svc)) \<and>
      \<not> (compat_runtime_abi (sd_compatibility svc) \<noteq> [] \<and>
         cf_runtime_abi (cand_facts c) \<noteq> compat_runtime_abi (sd_compatibility svc)) \<and>
      \<not> (compat_readiness_profile (sd_compatibility svc) \<noteq> None \<and>
         compat_readiness_profile (sd_compatibility svc) \<noteq> Some (cf_profile (cand_facts c)))"
    by (auto simp: compatible_with_def)
  have "hard_check c svc reg ctx = None \<longleftrightarrow>
      \<not> (cand_target c \<noteq> id_null \<and> cand_target c = ctx_failed_target ctx) \<and>
      cand_target c \<notin> set (ctx_confirmed_failed_targets ctx) \<and>
      cand_boot c \<notin> set (ctx_fenced_boots ctx) \<and>
      \<not> (ctx_requires_fresh_readiness ctx \<and> \<not> cf_evidence_fresh (cand_facts c)) \<and>
      \<not> (ctx_requires_fresh_readiness ctx \<and> \<not> cf_ready (cand_facts c)) \<and>
      compatible_with (cand_facts c) (sd_compatibility svc) \<and>
      (if stateful_class (obj_continuity (sd_recovery svc)) then check_state c svc else None) = None \<and>
      first_some (check_resource (cand_resources c)) (sd_resources svc) = None \<and>
      (dreq_require_domain_independence (sd_domain_requirement svc) \<longrightarrow>
         check_domains reg ctx (cand_target c) = None)"
    unfolding hard_check_def Let_def compat if_Some_None_iff case_Some_None_iff if_None_iff by blast
  then show ?thesis
    unfolding check_state_None_iff resources check_domains_None_iff eligible_def by blast
qed

section \<open>What the selection returns\<close>

definition annotated :: "Candidate \<Rightarrow> Candidate" where
  "annotated c = c\<lparr>cand_hard_eligible := True, cand_failed_reason := None\<rparr>"

lemma annotated_simps [simp]:
  "cand_facts (annotated c) = cand_facts c" "cand_hard_eligible (annotated c)"
  by (simp_all add: annotated_def)

lemma phase1_step_eligible:
  "hard_check c svc reg ctx = None \<Longrightarrow> phase1_step svc reg ctx (es, xs) c = (es @ [annotated c], xs)"
  by (simp add: phase1_step_def hard_eligible_def annotated_def)

lemma phase1_step_excluded:
  "hard_check c svc reg ctx = Some (r, d) \<Longrightarrow>
   phase1_step svc reg ctx (es, xs) c = (es, xs @ [(cand_target c, r, d)])"
  by (simp add: phase1_step_def hard_eligible_def)

lemma phase1_eq:
  "phase1 svc reg ctx cs =
     (map annotated (filter (eligible svc reg ctx) cs),
      concat (map (\<lambda>c. case hard_check c svc reg ctx of
                         Some (r, d) \<Rightarrow> [(cand_target c, r, d)] | None \<Rightarrow> []) cs))"
proof -
  have "foldl (phase1_step svc reg ctx) (es, xs) cs =
     (es @ map annotated (filter (eligible svc reg ctx) cs),
      xs @ concat (map (\<lambda>c. case hard_check c svc reg ctx of
                         Some (r, d) \<Rightarrow> [(cand_target c, r, d)] | None \<Rightarrow> []) cs))" for es xs
  proof (induction cs arbitrary: es xs)
    case (Cons c cs)
    show ?case
    proof (cases "hard_check c svc reg ctx")
      case None
      then have "eligible svc reg ctx c" by (simp add: hard_check_None_iff)
      with None show ?thesis by (simp add: Cons.IH phase1_step_eligible)
    next
      case (Some e)
      then have "\<not> eligible svc reg ctx c" using hard_check_None_iff by force
      with Some show ?thesis by (cases e) (simp add: Cons.IH phase1_step_excluded)
    qed
  qed simp
  from this [of "[]" "[]"] show ?thesis by (simp add: phase1_def)
qed

text \<open>The comparator meets the requirement of the standard's sort.\<close>

interpretation ranking: strict_weak_order "ranks_before svc ctx"
  by unfold_locales (auto simp: ranks_before_def Let_def split: if_splits)

lemma rank_annotated [simp]: "rank (annotated c) svc ctx = rank c svc ctx"
  by (simp add: rank_def rank_score_def annotated_def resource_overlap_credit_def cap_score_def)

lemma ranks_before_annotated [simp]:
  "ranks_before svc ctx (annotated a) (annotated b) = ranks_before svc ctx a b"
  by (simp add: ranks_before_def is_preferred_def)

lemma insert_stable_map:
  "(\<And>a b. lt (f a) (f b) = lt a b) \<Longrightarrow> insert_stable lt (f x) (map f ys) = map f (insert_stable lt x ys)"
  by (induction ys) auto

lemma stable_sort_map:
  "(\<And>a b. lt (f a) (f b) = lt a b) \<Longrightarrow> stable_sort lt (map f xs) = map f (stable_sort lt xs)"
  by (induction xs) (auto simp: insert_stable_map)

definition ranked ::
    "CandidateSnapshot \<Rightarrow> ServiceDefinition \<Rightarrow> DomainRegistry \<Rightarrow> SelectionContext \<Rightarrow> Candidate list" where
  "ranked snap svc reg ctx =
     stable_sort (ranks_before svc ctx) (filter (eligible svc reg ctx) (snap_candidates snap))"

lemma set_ranked: "set (ranked snap svc reg ctx) = {c \<in> set (snap_candidates snap). eligible svc reg ctx c}"
  by (auto simp: ranked_def)

lemma mset_ranked:
  "mset (ranked snap svc reg ctx) = filter_mset (eligible svc reg ctx) (mset (snap_candidates snap))"
  by (simp add: ranked_def)

text \<open>The selection in terms of the ranked eligible candidates.\<close>

lemma select_ranked:
  "sel_has_selection (select snap svc reg ctx) \<longleftrightarrow> ranked snap svc reg ctx \<noteq> []"
  "sel_selected (select snap svc reg ctx) =
     (case ranked snap svc reg ctx of [] \<Rightarrow> None | c # _ \<Rightarrow> Some (annotated c))"
  "sel_evaluated_alternatives (select snap svc reg ctx) = map annotated (tl (ranked snap svc reg ctx))"
  "sel_uncertainty (select snap svc reg ctx) =
     (if 1 < length (ranked snap svc reg ctx)
      then d_div (d_lit 1 1) (d_of_nat (length (ranked snap svc reg ctx))) else 0)"
proof -
  have sorted: "stable_sort (ranks_before svc ctx)
      (map annotated (filter (eligible svc reg ctx) (snap_candidates snap))) =
      map annotated (ranked snap svc reg ctx)"
    by (simp add: ranked_def stable_sort_map)
  have nil: "ranked snap svc reg ctx = [] \<longleftrightarrow> filter (eligible svc reg ctx) (snap_candidates snap) = []"
    by (simp add: ranked_def)
  have len: "length (ranked snap svc reg ctx) = length (filter (eligible svc reg ctx) (snap_candidates snap))"
    by (simp add: ranked_def)
  show "sel_has_selection (select snap svc reg ctx) \<longleftrightarrow> ranked snap svc reg ctx \<noteq> []"
    by (simp add: select_def Let_def phase1_eq nil default_SelectionResult_def)
  show "sel_selected (select snap svc reg ctx) =
     (case ranked snap svc reg ctx of [] \<Rightarrow> None | c # _ \<Rightarrow> Some (annotated c))"
    using nil by (cases "ranked snap svc reg ctx")
      (simp_all add: select_def Let_def phase1_eq sorted default_SelectionResult_def)
  show "sel_evaluated_alternatives (select snap svc reg ctx) = map annotated (tl (ranked snap svc reg ctx))"
    using nil by (cases "ranked snap svc reg ctx")
      (simp_all add: select_def Let_def phase1_eq sorted default_SelectionResult_def)
  show "sel_uncertainty (select snap svc reg ctx) =
     (if 1 < length (ranked snap svc reg ctx)
      then d_div (d_lit 1 1) (d_of_nat (length (ranked snap svc reg ctx))) else 0)"
    using nil len by (cases "ranked snap svc reg ctx")
      (simp_all add: select_def Let_def phase1_eq default_SelectionResult_def)
qed

lemma ranked_hd_best:
  assumes "ranked snap svc reg ctx = best # rest" and "c \<in> set (snap_candidates snap)"
    and "eligible svc reg ctx c"
  shows "\<not> ranks_before svc ctx c best"
proof -
  have c: "c \<in> set (filter (eligible svc reg ctx) (snap_candidates snap))" using assms(2,3) by simp
  then have "filter (eligible svc reg ctx) (snap_candidates snap) \<noteq> []" by (metis empty_iff empty_set)
  from ranking.hd_stable_sort [OF this c, of svc ctx] show ?thesis
    using assms(1) by (simp add: ranked_def)
qed

lemma select_exclusions:
  "snap_candidates snap \<noteq> [] \<Longrightarrow> sel_exclusions (select snap svc reg ctx) =
     concat (map (\<lambda>c. case hard_check c svc reg ctx of
                        Some (r, d) \<Rightarrow> [(cand_target c, r, d)] | None \<Rightarrow> []) (snap_candidates snap))"
proof -
  assume "snap_candidates snap \<noteq> []"
  let ?ex = "concat (map (\<lambda>c. case hard_check c svc reg ctx of
                        Some (r, d) \<Rightarrow> [(cand_target c, r, d)] | None \<Rightarrow> []) (snap_candidates snap))"
  have "?ex \<noteq> []" if "filter (eligible svc reg ctx) (snap_candidates snap) = []"
  proof -
    obtain c where c: "c \<in> set (snap_candidates snap)"
      using \<open>snap_candidates snap \<noteq> []\<close> by (cases "snap_candidates snap") auto
    then have "hard_check c svc reg ctx \<noteq> None"
      using that by (simp add: hard_check_None_iff filter_empty_conv)
    then obtain e where "hard_check c svc reg ctx = Some e" by blast
    then have "(cand_target c, e) \<in> set ?ex"
      using c by (cases e) force
    then have "set ?ex \<noteq> {}" by (metis empty_iff)
    then show ?thesis by (simp only: set_empty not_False_eq_True)
  qed
  then show ?thesis
    by (auto simp: select_def Let_def phase1_eq default_SelectionResult_def)
qed

text \<open>Each exclusion comes from one of the checks, with the reasons that check can give.\<close>

lemma check_state_reason:
  "check_state c svc = Some (r, d) \<Longrightarrow>
   r \<in> {ExclusionReason.STATE_UNAVAILABLE, ExclusionReason.STATE_TOO_OLD, ExclusionReason.UNSUPPORTED_CONTINUITY}"
  by (auto simp: check_state_def split: if_splits)

lemma check_resource_reason:
  "check_resource crs req = Some (r, d) \<Longrightarrow>
   r \<in> {ExclusionReason.INSUFFICIENT_CAPACITY, ExclusionReason.RESOURCES_REVOKED, ExclusionReason.COMMITMENT_CONFLICT}"
  by (auto simp: check_resource_def split: if_splits option.splits)

lemma overlaps_None_unknown:
  "overlaps reg a b = None \<Longrightarrow> \<exists>m \<in> set (reg_memberships reg). dm_target m \<in> {a, b} \<and> \<not> dm_known m"
  by (auto simp: overlaps_def Let_def list_ex_iff split: if_splits)

lemma in_domain_None_unknown:
  "in_domain reg t fd = None \<Longrightarrow> \<exists>m \<in> set (reg_memberships reg). dm_target m = t \<and> \<not> dm_known m"
  by (auto simp: in_domain_def Let_def list_ex_iff split: if_splits)

lemma check_domains_reason:
  assumes "check_domains reg ctx t = Some (r, d)"
  shows "r = ExclusionReason.FAILED_DOMAIN \<or>
    r = ExclusionReason.DOMAIN_INDEPENDENCE_UNKNOWN \<and>
    (\<exists>m \<in> set (reg_memberships reg). dm_target m \<in> {t, ctx_failed_target ctx} \<and> \<not> dm_known m)"
proof (cases "overlaps reg t (ctx_failed_target ctx)")
  case None
  with assms overlaps_None_unknown [OF None] show ?thesis by (auto simp: check_domains_def)
next
  case (Some b)
  show ?thesis
  proof (cases b)
    case True
    with Some assms show ?thesis by (simp add: check_domains_def)
  next
    case False
    with Some assms obtain fd where fd: "check_failed_domain reg t fd = Some (r, d)"
      by (auto simp: check_domains_def dest: first_some_SomeD)
    then show ?thesis using in_domain_None_unknown [of reg t fd]
      by (auto simp: check_failed_domain_def split: option.splits bool.splits)
  qed
qed

lemma hard_check_SomeE:
  assumes "hard_check c svc reg ctx = Some (r, d)"
  obtains "r = ExclusionReason.FAILED_DOMAIN" "cand_target c = ctx_failed_target ctx"
    | "r = ExclusionReason.FAILED_DOMAIN" "cand_target c \<in> set (ctx_confirmed_failed_targets ctx)"
    | "r = ExclusionReason.FENCED_BOOT" "cand_boot c \<in> set (ctx_fenced_boots ctx)"
    | "r = ExclusionReason.STALE_READINESS" "\<not> cf_evidence_fresh (cand_facts c)"
    | "r = ExclusionReason.UNREADY_ENGINE" "cf_evidence_fresh (cand_facts c)" "\<not> cf_ready (cand_facts c)"
    | "r = ExclusionReason.INCOMPATIBLE_PROFILE" "\<not> compatible_with (cand_facts c) (sd_compatibility svc)"
    | "stateful_class (obj_continuity (sd_recovery svc))" "check_state c svc = Some (r, d)"
    | "first_some (check_resource (cand_resources c)) (sd_resources svc) = Some (r, d)"
    | "check_domains reg ctx (cand_target c) = Some (r, d)"
  using assms unfolding hard_check_def Let_def compatible_with_def
  by (auto split: if_splits option.splits)

section \<open>An example\<close>

text \<open>Three candidates for a service: one ready, one with stale readiness, one with a fenced boot.\<close>

definition example_candidate :: "u64 \<Rightarrow> u64 \<Rightarrow> bool \<Rightarrow> Candidate" where
  "example_candidate t boot fresh = default_Candidate\<lparr>cand_facts := default_CandidateFacts\<lparr>
     cf_target := Id t, cf_service := Id 1, cf_worker_boot := Id boot, cf_ready := True,
     cf_evidence_fresh := fresh\<rparr>\<rparr>"

definition example_snapshot :: CandidateSnapshot where
  "example_snapshot = default_CandidateSnapshot\<lparr>snap_candidates :=
     [example_candidate 21 31 False, example_candidate 23 33 True, example_candidate 22 32 True,
      example_candidate 24 34 True]\<rparr>"

definition example_service :: ServiceDefinition where
  "example_service = default_ServiceDefinition\<lparr>sd_service := Id 1\<rparr>"

definition example_context :: SelectionContext where
  "example_context = default_SelectionContext\<lparr>ctx_failed_target := Id 10, ctx_fenced_boots := [Id 34],
     ctx_preferred_target := Some (Id 23)\<rparr>"

section \<open>Properties\<close>


text \<open>
  The constraint that blocked a candidate is the one that is reported: each exclusion
  reason comes with a violated constraint of its kind, and independence that cannot be
  established because a membership is unknown is reported as unknown.
\<close>

theorem exclusion_reason_sound:
  assumes "hard_eligible c svc reg ctx = (c', False)" and "cand_failed_reason c' = Some reason"
  shows "(reason = ExclusionReason.FENCED_BOOT \<longrightarrow> cand_boot c \<in> set (ctx_fenced_boots ctx)) \<and>
    (reason = ExclusionReason.STALE_READINESS \<longrightarrow> \<not> cf_evidence_fresh (cand_facts c)) \<and>
    (reason = ExclusionReason.UNREADY_ENGINE \<longrightarrow> cf_evidence_fresh (cand_facts c) \<and> \<not> cf_ready (cand_facts c)) \<and>
    (reason = ExclusionReason.INCOMPATIBLE_PROFILE \<longrightarrow>
       \<not> compatible_with (cand_facts c) (sd_compatibility svc)) \<and>
    (reason \<in> {ExclusionReason.STATE_UNAVAILABLE, ExclusionReason.STATE_TOO_OLD,
               ExclusionReason.UNSUPPORTED_CONTINUITY} \<longrightarrow> \<not> state_admissible c (sd_recovery svc)) \<and>
    (reason \<in> {ExclusionReason.INSUFFICIENT_CAPACITY, ExclusionReason.RESOURCES_REVOKED,
               ExclusionReason.COMMITMENT_CONFLICT} \<longrightarrow>
       (\<exists>req \<in> set (sd_resources svc). \<not> capacity_admissible (cand_resources c) req)) \<and>
    (reason = ExclusionReason.FAILED_DOMAIN \<longrightarrow>
       cand_target c = ctx_failed_target ctx \<or> cand_target c \<in> set (ctx_confirmed_failed_targets ctx) \<or>
       \<not> domain_admissible reg ctx (cand_target c)) \<and>
    (reason = ExclusionReason.DOMAIN_INDEPENDENCE_UNKNOWN \<longrightarrow>
       (\<exists>m \<in> set (reg_memberships reg).
          dm_target m \<in> {cand_target c, ctx_failed_target ctx} \<and> \<not> dm_known m))"
proof -
  obtain d where chk: "hard_check c svc reg ctx = Some (reason, d)"
    using assms by (auto simp: hard_eligible_def split: option.splits prod.splits)
  from chk show ?thesis
  proof (cases rule: hard_check_SomeE)
    case 7
    then have "\<not> state_admissible c (sd_recovery svc)"
      using check_state_None_iff [of svc c] by force
    with check_state_reason [OF 7(2)] show ?thesis by auto
  next
    case 8
    then obtain req where req: "req \<in> set (sd_resources svc)"
        "check_resource (cand_resources c) req = Some (reason, d)"
      by (auto dest: first_some_SomeD)
    then have "\<not> capacity_admissible (cand_resources c) req"
      by (simp flip: check_resource_None_iff)
    with req(1) check_resource_reason [OF req(2)] show ?thesis by auto
  next
    case 9
    then have "\<not> domain_admissible reg ctx (cand_target c)"
      by (simp flip: check_domains_None_iff)
    with check_domains_reason [OF 9] show ?thesis by auto
  qed simp_all
qed

theorem exclusion_reason_sound_witness:
  "fst (hard_eligible (example_candidate 24 34 True) example_service empty_registry example_context) =
     (example_candidate 24 34 True)\<lparr>cand_failed_reason := Some ExclusionReason.FENCED_BOOT,
        cand_failed_detail := ''worker boot is fenced''\<rparr> \<and>
   cand_boot (example_candidate 24 34 True) \<in> set (ctx_fenced_boots example_context)"
proof -
  have he: "hard_eligible (example_candidate 24 34 True) example_service empty_registry example_context =
     ((example_candidate 24 34 True)\<lparr>cand_failed_reason := Some ExclusionReason.FENCED_BOOT,
        cand_failed_detail := ''worker boot is fenced''\<rparr>, False)" by code_simp
  show ?thesis using exclusion_reason_sound [OF he, of ExclusionReason.FENCED_BOOT] he by simp
qed

text \<open>
  C16. The selection is complete and picks a best candidate. There is a selection exactly when
  some candidate is eligible; the selected candidate is then an eligible one of the snapshot
  that no eligible one ranks before, and together with the evaluated alternatives it is
  exactly the collection of eligible candidates, each once. Every other candidate is listed
  among the exclusions with the reason of its hard check, and a snapshot without candidates
  is reported as having no eligible target.
\<close>

theorem select_correct:
  "(sel_has_selection (select snap svc reg ctx) \<longleftrightarrow> (\<exists>c \<in> set (snap_candidates snap). eligible svc reg ctx c)) \<and>
   (case sel_selected (select snap svc reg ctx) of
      None \<Rightarrow> \<not> sel_has_selection (select snap svc reg ctx) \<and>
              sel_evaluated_alternatives (select snap svc reg ctx) = []
    | Some s \<Rightarrow> (\<exists>best \<in> {c \<in> set (snap_candidates snap). eligible svc reg ctx c}. s = annotated best \<and>
              {c \<in> set (snap_candidates snap). eligible svc reg ctx c \<and> ranks_before svc ctx c best} = {}) \<and>
              mset (s # sel_evaluated_alternatives (select snap svc reg ctx)) =
                image_mset annotated (filter_mset (eligible svc reg ctx) (mset (snap_candidates snap)))) \<and>
   sel_exclusions (select snap svc reg ctx) =
     (if snap_candidates snap = [] then [(id_null, ExclusionReason.NO_ELIGIBLE_TARGET, ''no candidates'')]
      else concat (map (\<lambda>c. case hard_check c svc reg ctx of
                         Some (r, d) \<Rightarrow> [(cand_target c, r, d)] | None \<Rightarrow> []) (snap_candidates snap)))"
proof (intro conjI)
  show "sel_has_selection (select snap svc reg ctx) \<longleftrightarrow>
      (\<exists>c \<in> set (snap_candidates snap). eligible svc reg ctx c)"
    using set_ranked [of snap svc reg ctx] by (cases "ranked snap svc reg ctx") (auto simp: select_ranked)
next
  show "sel_exclusions (select snap svc reg ctx) =
     (if snap_candidates snap = [] then [(id_null, ExclusionReason.NO_ELIGIBLE_TARGET, ''no candidates'')]
      else concat (map (\<lambda>c. case hard_check c svc reg ctx of
                         Some (r, d) \<Rightarrow> [(cand_target c, r, d)] | None \<Rightarrow> []) (snap_candidates snap)))"
  proof (cases "snap_candidates snap = []")
    case True
    then show ?thesis by (simp add: select_def phase1_def default_SelectionResult_def)
  qed (simp add: select_exclusions)
next
  show "case sel_selected (select snap svc reg ctx) of
      None \<Rightarrow> \<not> sel_has_selection (select snap svc reg ctx) \<and>
              sel_evaluated_alternatives (select snap svc reg ctx) = []
    | Some s \<Rightarrow> (\<exists>best \<in> {c \<in> set (snap_candidates snap). eligible svc reg ctx c}. s = annotated best \<and>
              {c \<in> set (snap_candidates snap). eligible svc reg ctx c \<and> ranks_before svc ctx c best} = {}) \<and>
              mset (s # sel_evaluated_alternatives (select snap svc reg ctx)) =
                image_mset annotated (filter_mset (eligible svc reg ctx) (mset (snap_candidates snap)))"
  proof (cases "ranked snap svc reg ctx")
    case (Cons best rest)
    have best: "best \<in> {c \<in> set (snap_candidates snap). eligible svc reg ctx c}"
      using set_ranked [of snap svc reg ctx] Cons by auto
    moreover have "{c \<in> set (snap_candidates snap). eligible svc reg ctx c \<and> ranks_before svc ctx c best} = {}"
      using ranked_hd_best [OF Cons] by blast
    moreover have "mset (map annotated (best # rest)) =
        image_mset annotated (filter_mset (eligible svc reg ctx) (mset (snap_candidates snap)))"
      using mset_ranked [of snap svc reg ctx] Cons by (simp flip: mset_ranked)
    ultimately show ?thesis using Cons by (auto simp: select_ranked)
  qed (simp add: select_ranked)
qed

text \<open>
  The choice does not depend on the order in which the candidates are listed: for
  candidates told apart by target and worker boot, every permutation of the snapshot gives the
  same selection, the same alternatives in the same order and the same uncertainty.
\<close>

theorem select_deterministic:
  assumes "mset (snap_candidates snap) = mset (snap_candidates snap')"
    and "distinct (map (\<lambda>c. (cand_target c, cand_boot c)) (snap_candidates snap))"
  shows "sel_selected (select snap svc reg ctx) = sel_selected (select snap' svc reg ctx) \<and>
    sel_evaluated_alternatives (select snap svc reg ctx) = sel_evaluated_alternatives (select snap' svc reg ctx) \<and>
    sel_uncertainty (select snap svc reg ctx) = sel_uncertainty (select snap' svc reg ctx)"
proof -
  have "ranks_before svc ctx a b \<or> ranks_before svc ctx b a"
    if "a \<in> set (snap_candidates snap)" "b \<in> set (snap_candidates snap)" "a \<noteq> b" for a b
  proof -
    have "cand_target a \<noteq> cand_target b \<or> cand_boot a \<noteq> cand_boot b"
      using assms(2) that by (auto simp: distinct_map inj_on_def)
    then show ?thesis by (auto simp: ranks_before_def Let_def)
  qed
  then have "ranked snap svc reg ctx = ranked snap' svc reg ctx"
    unfolding ranked_def using assms(1) by (intro ranking.stable_sort_perm) auto
  then show ?thesis by (simp add: select_ranked)
qed

theorem select_deterministic_witness:
  "sel_selected (select example_snapshot example_service empty_registry example_context) =
   sel_selected (select (example_snapshot\<lparr>snap_candidates := rev (snap_candidates example_snapshot)\<rparr>)
     example_service empty_registry example_context)"
proof -
  have d: "distinct (map (\<lambda>c. (cand_target c, cand_boot c)) (snap_candidates example_snapshot))"
    by code_simp
  show ?thesis
    by (rule conjunct1 [OF select_deterministic [OF _ d]]) simp
qed

text \<open>
  A preferred target is chosen exactly when one of its candidates is eligible: the
  preference overrides the ranking and never the hard checks.
\<close>

theorem select_prefers_eligible:
  assumes "ctx_preferred_target ctx = Some t"
  shows "(\<exists>s. sel_selected (select snap svc reg ctx) = Some s \<and> cand_target s = t) \<longleftrightarrow>
    (\<exists>c \<in> set (snap_candidates snap). cand_target c = t \<and> eligible svc reg ctx c)"
proof
  assume "\<exists>s. sel_selected (select snap svc reg ctx) = Some s \<and> cand_target s = t"
  then show "\<exists>c \<in> set (snap_candidates snap). cand_target c = t \<and> eligible svc reg ctx c"
    using set_ranked [of snap svc reg ctx]
    by (cases "ranked snap svc reg ctx") (auto simp: select_ranked)
next
  assume "\<exists>c \<in> set (snap_candidates snap). cand_target c = t \<and> eligible svc reg ctx c"
  then obtain c where c: "c \<in> set (snap_candidates snap)" "cand_target c = t" "eligible svc reg ctx c"
    by blast
  then obtain best rest where r: "ranked snap svc reg ctx = best # rest"
    using set_ranked [of snap svc reg ctx] by (cases "ranked snap svc reg ctx") auto
  have "cand_target best = t"
    using ranked_hd_best [OF r c(1,3)] c(2) assms
    by (auto simp: ranks_before_def is_preferred_def Let_def split: if_splits)
  then show "\<exists>s. sel_selected (select snap svc reg ctx) = Some s \<and> cand_target s = t"
    using r by (simp add: select_ranked)
qed

theorem select_prefers_eligible_witness:
  "\<exists>s. sel_selected (select example_snapshot example_service empty_registry example_context) = Some s \<and>
       cand_target s = Id 23"
proof -
  have p: "ctx_preferred_target example_context = Some (Id 23)" by code_simp
  have "hard_check (example_candidate 23 33 True) example_service empty_registry example_context = None"
    by code_simp
  then have "eligible example_service empty_registry example_context (example_candidate 23 33 True)"
    by (simp add: hard_check_None_iff)
  then show ?thesis
    unfolding select_prefers_eligible [OF p]
    by (intro bexI [of _ "example_candidate 23 33 True"])
      (simp_all add: example_snapshot_def example_candidate_def)
qed

end
