(* ===== verification/Evidence.thy ===== *)
theory Evidence
  imports FF_Types IEEE_Double
begin

text \<open>
  \<^verbatim>\<open>evidence.hpp\<close> / \<^verbatim>\<open>evidence.cpp\<close>: the store of failure evidence. Events are kept in a vector
  ordered by first receipt; \<open>id_index\<close> and \<open>target_index\<close> are the two hash indices into
  it. The store is a versioned store over the event identity.
\<close>

section \<open>The store\<close>

record FailureEvent =
  ev_event_id :: FailureEventId
  ev_generation :: FailureGeneration
  ev_source :: SourceId
  ev_source_boot :: SourceBootId
  ev_category :: FailureCategory
  ev_status :: EvidenceStatus
  ev_provenance :: Provenance
  ev_severity :: Severity
  ev_confidence :: double
  ev_target :: "TargetId option"
  ev_target_generation :: "TargetGeneration option"
  ev_domain :: "FailureDomainId option"
  ev_observed :: Timestamp
  ev_received :: Timestamp
  ev_mechanism :: string
  ev_detail :: string
  ev_affected_domains :: "FailureDomainId list"
  ev_revalidates_existing :: bool

definition ev_has_identity :: "FailureEvent \<Rightarrow> bool" where
  "ev_has_identity e \<longleftrightarrow> ev_target e = None \<or> \<not> id_is_null (ev_source e)"

definition default_FailureEvent :: FailureEvent where
  "default_FailureEvent = \<lparr>ev_event_id = id_null, ev_generation = gen_first, ev_source = id_null,
     ev_source_boot = id_null, ev_category = FailureCategory.UNKNOWN_FAILURE,
     ev_status = EvidenceStatus.UNKNOWN, ev_provenance = Provenance.REPORTED,
     ev_severity = Severity.MEDIUM, ev_confidence = 0x3FF0000000000000, ev_target = None,
     ev_target_generation = None, ev_domain = None, ev_observed = zero_timestamp,
     ev_received = zero_timestamp, ev_mechanism = [], ev_detail = [], ev_affected_domains = [],
     ev_revalidates_existing = False\<rparr>"

record EvidenceEntry =
  ent_event :: FailureEvent
  ent_cleared :: bool

record EvidenceStore =
  es_events :: "EvidenceEntry list"
  es_id_index :: "FailureEventId \<rightharpoonup> nat"
  es_target_index :: "TargetId \<rightharpoonup> nat list"

definition empty_evidence :: EvidenceStore where
  "empty_evidence = \<lparr>es_events = [], es_id_index = Map.empty, es_target_index = Map.empty\<rparr>"

text \<open>The received stamps are compared by sequence, then by wall clock.\<close>

definition ev_newer :: "FailureEvent \<Rightarrow> FailureEvent \<Rightarrow> bool" where
  "ev_newer old ev \<longleftrightarrow>
     ts_seq (ev_received old) < ts_seq (ev_received ev) \<or>
     ts_seq (ev_received ev) = ts_seq (ev_received old) \<and>
       sint (ts_wall_ns (ev_received old)) \<le> sint (ts_wall_ns (ev_received ev))"

definition push_index :: "('k \<rightharpoonup> nat list) \<Rightarrow> 'k \<Rightarrow> nat \<Rightarrow> ('k \<rightharpoonup> nat list)" where
  "push_index m k n = m(k \<mapsto> (case m k of None \<Rightarrow> [] | Some l \<Rightarrow> l) @ [n])"

definition ev_publish :: "EvidenceStore \<Rightarrow> FailureEvent \<Rightarrow> EvidenceStore \<times> bool" where
  "ev_publish s ev =
     (case es_id_index s (ev_event_id ev) of
        Some i \<Rightarrow>
          (let old = ent_event (es_events s ! i); newer = ev_newer old ev
           in if newer \<and> ev_status old = EvidenceStatus.CONFIRMED \<and> ev_status ev = EvidenceStatus.CLEARED
              then (s, False)
              else if newer
              then (s\<lparr>es_events := (es_events s)[i := \<lparr>ent_event = ev,
                       ent_cleared = (ev_status ev = EvidenceStatus.CLEARED)\<rparr>]\<rparr>, True)
              else (s, False))
      | None \<Rightarrow>
          (\<lparr>es_events = es_events s @ [\<lparr>ent_event = ev,
                ent_cleared = (ev_status ev = EvidenceStatus.CLEARED)\<rparr>],
            es_id_index = (es_id_index s)(ev_event_id ev \<mapsto> length (es_events s)),
            es_target_index = (case ev_target ev of None \<Rightarrow> es_target_index s
                | Some t \<Rightarrow> push_index (es_target_index s) t (length (es_events s)))\<rparr>, True))"

definition ev_clear :: "EvidenceStore \<Rightarrow> FailureEventId \<Rightarrow> EvidenceStore" where
  "ev_clear s i =
     (case es_id_index s i of
        None \<Rightarrow> s
      | Some n \<Rightarrow> s\<lparr>es_events := (es_events s)[n := (es_events s ! n)\<lparr>ent_cleared := True\<rparr>]\<rparr>)"

text \<open>The loop body's two \<open>continue\<close> conditions.\<close>

definition ent_active :: "EvidenceEntry \<Rightarrow> bool" where
  "ent_active e \<longleftrightarrow> \<not> ent_cleared e \<and> ev_status (ent_event e) \<noteq> EvidenceStatus.CLEARED \<and>
     ev_status (ent_event e) \<noteq> EvidenceStatus.STALE"

definition target_slots :: "EvidenceStore \<Rightarrow> TargetId \<Rightarrow> nat list" where
  "target_slots s t = (case es_target_index s t of None \<Rightarrow> [] | Some l \<Rightarrow> l)"

definition indexed_entries :: "EvidenceStore \<Rightarrow> TargetId \<Rightarrow> EvidenceEntry list" where
  "indexed_entries s t = map (\<lambda>i. es_events s ! i) (target_slots s t)"

definition latest_step :: "FailureEvent option \<Rightarrow> EvidenceEntry \<Rightarrow> FailureEvent option" where
  "latest_step res e =
     (if \<not> ent_active e then res
      else (case res of
              None \<Rightarrow> Some (ent_event e)
            | Some r \<Rightarrow> if ts_seq (ev_received r) \<le> ts_seq (ev_received (ent_event e))
                        then Some (ent_event e) else res))"

definition latest_failure_for :: "EvidenceStore \<Rightarrow> TargetId \<Rightarrow> FailureEvent option" where
  "latest_failure_for s t = foldl latest_step None (indexed_entries s t)"

definition failures_for :: "EvidenceStore \<Rightarrow> TargetId \<Rightarrow> nat \<Rightarrow> FailureEvent list" where
  "failures_for s t mx = take mx (map ent_event (filter ent_active (indexed_entries s t)))"

definition all_evidence :: "EvidenceStore \<Rightarrow> FailureEvent list" where
  "all_evidence s = map ent_event (es_events s)"

section \<open>The indices agree with the vector\<close>

definition wf_evidence :: "EvidenceStore \<Rightarrow> bool" where
  "wf_evidence s \<longleftrightarrow>
     (\<forall>i n. es_id_index s i = Some n \<longleftrightarrow>
        n < length (es_events s) \<and> ev_event_id (ent_event (es_events s ! n)) = i) \<and>
     (\<forall>t l. es_target_index s t = Some l \<longrightarrow> (\<forall>n \<in> set l. n < length (es_events s)))"

definition find_event :: "EvidenceStore \<Rightarrow> FailureEventId \<Rightarrow> FailureEvent option" where
  "find_event s i = map_option (\<lambda>n. ent_event (es_events s ! n)) (es_id_index s i)"

definition ev_accepts :: "FailureEvent option \<Rightarrow> FailureEvent \<Rightarrow> bool" where
  "ev_accepts old ev \<longleftrightarrow> (case old of None \<Rightarrow> True
     | Some e \<Rightarrow> ev_newer e ev \<and>
         \<not> (ev_status e = EvidenceStatus.CONFIRMED \<and> ev_status ev = EvidenceStatus.CLEARED))"

text \<open>Position of an event in the order of receipt, as one number.\<close>

definition ev_version :: "FailureEvent \<Rightarrow> int" where
  "ev_version e = uint (ts_seq (ev_received e)) * 2 ^ 64 + (sint (ts_wall_ns (ev_received e)) + 2 ^ 63)"

lemma wf_evidence_empty [simp]: "wf_evidence empty_evidence"
  by (simp add: wf_evidence_def empty_evidence_def)

lemma wf_evidence_indexD:
  "wf_evidence s \<Longrightarrow> es_id_index s i = Some n \<Longrightarrow>
     n < length (es_events s) \<and> ev_event_id (ent_event (es_events s ! n)) = i"
  by (simp add: wf_evidence_def)

lemma wf_evidence_idD:
  "wf_evidence s \<Longrightarrow> n < length (es_events s) \<Longrightarrow>
     es_id_index s (ev_event_id (ent_event (es_events s ! n))) = Some n"
  by (simp add: wf_evidence_def)

lemma push_index_Some_iff:
  "push_index m k n k' = Some l \<longleftrightarrow>
     (if k' = k then l = (case m k of None \<Rightarrow> [] | Some l \<Rightarrow> l) @ [n] else m k' = Some l)"
  by (auto simp: push_index_def)

lemma wf_evidence_replace:
  assumes "wf_evidence s" and "n < length (es_events s)"
    and "ev_event_id (ent_event e) = ev_event_id (ent_event (es_events s ! n))"
  shows "wf_evidence (s\<lparr>es_events := (es_events s)[n := e]\<rparr>)"
  using assms by (auto simp: wf_evidence_def nth_list_update split: if_splits)

lemma wf_evidence_append:
  assumes wf: "wf_evidence s" and new: "es_id_index s (ev_event_id (ent_event e)) = None"
    and idx: "\<And>t l. ti t = Some l \<Longrightarrow> \<forall>n \<in> set l. n < Suc (length (es_events s))"
  shows "wf_evidence \<lparr>es_events = es_events s @ [e],
     es_id_index = (es_id_index s)(ev_event_id (ent_event e) \<mapsto> length (es_events s)),
     es_target_index = ti\<rparr>"
proof -
  have "ev_event_id (ent_event (es_events s ! n)) \<noteq> ev_event_id (ent_event e)"
    if "n < length (es_events s)" for n
    using wf_evidence_idD [OF wf that] new by auto
  with wf idx show ?thesis
    by (auto simp: wf_evidence_def nth_append less_Suc_eq)
qed

lemma wf_ev_publish:
  assumes wf: "wf_evidence s"
  shows "wf_evidence (fst (ev_publish s ev))"
proof (cases "es_id_index s (ev_event_id ev)")
  case None
  have "\<forall>n \<in> set l. n < Suc (length (es_events s))"
    if "(case ev_target ev of None \<Rightarrow> es_target_index s
          | Some t \<Rightarrow> push_index (es_target_index s) t (length (es_events s))) t' = Some l" for t' l
  proof -
    have "\<forall>n \<in> set l'. n < Suc (length (es_events s))" if "es_target_index s t' = Some l'" for t' l'
      using wf that by (auto simp: wf_evidence_def less_Suc_eq)
    with that show ?thesis
      by (auto simp: push_index_Some_iff split: option.splits if_splits)
  qed
  then have "wf_evidence \<lparr>es_events = es_events s @ [e],
      es_id_index = (es_id_index s)(ev_event_id (ent_event e) \<mapsto> length (es_events s)),
      es_target_index = (case ev_target ev of None \<Rightarrow> es_target_index s
        | Some t \<Rightarrow> push_index (es_target_index s) t (length (es_events s)))\<rparr>"
    if "ent_event e = ev" for e
    using None that by (intro wf_evidence_append [OF wf]) simp_all
  with None show ?thesis by (simp add: ev_publish_def)
next
  case (Some n)
  with wf_evidence_indexD [OF wf Some] wf show ?thesis
    by (auto simp: ev_publish_def Let_def intro: wf_evidence_replace)
qed

lemma wf_ev_clear: "wf_evidence s \<Longrightarrow> wf_evidence (ev_clear s i)"
  by (auto simp: ev_clear_def split: option.split intro!: wf_evidence_replace dest: wf_evidence_indexD)

lemma find_event_publish:
  assumes wf: "wf_evidence s"
  shows "find_event (fst (ev_publish s ev)) i =
    (if i = ev_event_id ev \<and> ev_accepts (find_event s i) ev then Some ev else find_event s i)"
proof (cases "es_id_index s (ev_event_id ev)")
  case None
  have "map_option (\<lambda>n. ent_event ((es_events s @ [e]) ! n)) (es_id_index s j) =
        map_option (\<lambda>n. ent_event (es_events s ! n)) (es_id_index s j)" for e j
    using wf_evidence_indexD [OF wf, of j]
    by (cases "es_id_index s j") (auto simp: nth_append)
  with None show ?thesis
    by (auto simp: ev_publish_def find_event_def ev_accepts_def)
next
  case (Some n)
  note n = wf_evidence_indexD [OF wf Some]
  have other: "j \<noteq> ev_event_id ev \<Longrightarrow>
      map_option (\<lambda>k. ent_event ((es_events s)[n := e] ! k)) (es_id_index s j) =
      map_option (\<lambda>k. ent_event (es_events s ! k)) (es_id_index s j)" for j e
    using wf_evidence_indexD [OF wf, of j] n
    by (cases "es_id_index s j") (auto simp: nth_list_update)
  show ?thesis
  proof (cases "i = ev_event_id ev")
    case True
    then show ?thesis
      using Some n by (auto simp: ev_publish_def Let_def find_event_def ev_accepts_def)
  next
    case False
    then show ?thesis
      using Some other by (auto simp: ev_publish_def Let_def find_event_def)
  qed
qed

lemma ev_newer_version: "ev_newer old ev \<Longrightarrow> ev_version old \<le> ev_version ev"
proof -
  assume n: "ev_newer old ev"
  let ?a = "uint (ts_seq (ev_received old))" and ?b = "uint (ts_seq (ev_received ev))"
  let ?v = "sint (ts_wall_ns (ev_received old))" and ?w = "sint (ts_wall_ns (ev_received ev))"
  have b: "- (2 ^ 63) \<le> ?v" "?v < 2 ^ 63" "- (2 ^ 63) \<le> ?w" "?w < 2 ^ 63"
    using sint_ge [of "ts_wall_ns (ev_received old)"] sint_lt [of "ts_wall_ns (ev_received old)"]
      sint_ge [of "ts_wall_ns (ev_received ev)"] sint_lt [of "ts_wall_ns (ev_received ev)"]
    by simp_all
  from n have "?a < ?b \<or> ?a = ?b \<and> ?v \<le> ?w"
    by (auto simp: ev_newer_def word_less_def)
  then show ?thesis using b by (auto simp: ev_version_def)
qed

lemma ev_version_newer: "ev_version old \<le> ev_version new \<Longrightarrow> ev_newer old new"
proof -
  assume le: "ev_version old \<le> ev_version new"
  let ?a = "uint (ts_seq (ev_received old))" and ?b = "uint (ts_seq (ev_received new))"
  let ?v = "sint (ts_wall_ns (ev_received old))" and ?w = "sint (ts_wall_ns (ev_received new))"
  have "- (2 ^ 63) \<le> ?v" "?w < 2 ^ 63"
    using sint_ge [of "ts_wall_ns (ev_received old)"] sint_lt [of "ts_wall_ns (ev_received new)"]
    by simp_all
  with le have "?a \<le> ?b" "?a = ?b \<Longrightarrow> ?v \<le> ?w"
    by (auto simp: ev_version_def)
  then have "?a < ?b \<or> ?a = ?b \<and> ?v \<le> ?w" by linarith
  then show ?thesis
    by (auto simp: ev_newer_def word_less_def word_uint_eq_iff)
qed

interpretation evidence_store: versioned_store
  find_event "\<lambda>s ev. fst (ev_publish s ev)" ev_event_id ev_accepts wf_evidence ev_version
  by unfold_locales
    (auto simp: find_event_publish wf_ev_publish ev_accepts_def ev_newer_version)

section \<open>The target index\<close>

text \<open>
  The target index records the target an event had when it was first received. As long as
  re-published events keep their target, it lists exactly the events of each target.
\<close>

definition target_index_exact :: "EvidenceStore \<Rightarrow> bool" where
  "target_index_exact s \<longleftrightarrow>
     (\<forall>t n. n \<in> set (target_slots s t) \<longleftrightarrow>
        n < length (es_events s) \<and> ev_target (ent_event (es_events s ! n)) = Some t)"

definition keeps_target :: "EvidenceStore \<Rightarrow> FailureEvent \<Rightarrow> bool" where
  "keeps_target s ev \<longleftrightarrow> (case find_event s (ev_event_id ev) of None \<Rightarrow> True
                         | Some e \<Rightarrow> ev_target e = ev_target ev)"

lemma set_target_slots_push:
  "set (target_slots (s\<lparr>es_target_index := push_index (es_target_index s) k n\<rparr>) t) =
     set (target_slots s t) \<union> (if t = k then {n} else {})"
  by (auto simp: push_index_def target_slots_def split: option.split)

lemma target_slots_cong: "es_target_index s' = es_target_index s \<Longrightarrow> target_slots s' = target_slots s"
  by (simp add: target_slots_def fun_eq_iff)

lemma target_index_exact_empty [simp]: "target_index_exact empty_evidence"
  by (simp add: target_index_exact_def target_slots_def empty_evidence_def)

lemma target_index_exact_replace:
  assumes "target_index_exact s" and "n < length (es_events s)"
    and "ev_target (ent_event e) = ev_target (ent_event (es_events s ! n))"
  shows "target_index_exact (s\<lparr>es_events := (es_events s)[n := e]\<rparr>)"
  using assms target_slots_cong [of "s\<lparr>es_events := (es_events s)[n := e]\<rparr>" s]
  by (auto simp: target_index_exact_def nth_list_update)

lemma target_index_exact_append:
  assumes ex: "target_index_exact s"
    and ti: "ti = (case ev_target (ent_event e) of None \<Rightarrow> es_target_index s
                  | Some t \<Rightarrow> push_index (es_target_index s) t (length (es_events s)))"
  shows "target_index_exact \<lparr>es_events = es_events s @ [e], es_id_index = ii, es_target_index = ti\<rparr>"
proof -
  have "set (target_slots \<lparr>es_events = es_events s @ [e], es_id_index = ii, es_target_index = ti\<rparr> t) =
      set (target_slots s t) \<union> (if ev_target (ent_event e) = Some t then {length (es_events s)} else {})" for t
    by (auto simp: target_slots_def push_index_def ti split: option.splits)
  with ex show ?thesis
    by (auto simp: target_index_exact_def nth_append less_Suc_eq)
qed

lemma target_index_exact_publish:
  assumes wf: "wf_evidence s" and ex: "target_index_exact s" and keep: "keeps_target s ev"
  shows "target_index_exact (fst (ev_publish s ev))"
proof (cases "es_id_index s (ev_event_id ev)")
  case None
  with ex show ?thesis by (simp add: ev_publish_def target_index_exact_append)
next
  case (Some n)
  with wf_evidence_indexD [OF wf Some] ex keep show ?thesis
    by (auto simp: ev_publish_def Let_def keeps_target_def find_event_def
        intro!: target_index_exact_replace)
qed

lemma target_index_exact_clear:
  "wf_evidence s \<Longrightarrow> target_index_exact s \<Longrightarrow> target_index_exact (ev_clear s i)"
  by (auto simp: ev_clear_def split: option.split intro!: target_index_exact_replace
      dest: wf_evidence_indexD)

lemma set_indexed_entries:
  assumes "target_index_exact s"
  shows "set (indexed_entries s t) = {e \<in> set (es_events s). ev_target (ent_event e) = Some t}"
proof -
  have "set (target_slots s t) =
      {n. n < length (es_events s) \<and> ev_target (ent_event (es_events s ! n)) = Some t}"
    using assms by (auto simp: target_index_exact_def)
  then show ?thesis by (auto simp: indexed_entries_def in_set_conv_nth)
qed

text \<open>The running maximum of \<open>latest_failure_for\<close>.\<close>

definition max_received :: "EvidenceEntry set \<Rightarrow> FailureEvent option \<Rightarrow> bool" where
  "max_received A res \<longleftrightarrow>
     (case res of
        None \<Rightarrow> \<forall>e \<in> A. \<not> ent_active e
      | Some f \<Rightarrow> (\<exists>e \<in> A. ent_active e \<and> ent_event e = f) \<and>
          (\<forall>e \<in> A. ent_active e \<longrightarrow> ts_seq (ev_received (ent_event e)) \<le> ts_seq (ev_received f)))"

lemma max_received_step: "max_received A res \<Longrightarrow> max_received (insert e A) (latest_step res e)"
  by (auto simp: max_received_def latest_step_def split: option.splits)

lemma max_received_foldl:
  "max_received A res \<Longrightarrow> max_received (A \<union> set es) (foldl latest_step res es)"
proof (induction es arbitrary: A res)
  case (Cons e es)
  from Cons.IH [OF max_received_step [OF Cons.prems, of e]] show ?case by simp
qed simp

lemma latest_failure_max: "max_received (set (indexed_entries s t)) (latest_failure_for s t)"
  using max_received_foldl [of "{}" None "indexed_entries s t"]
  by (simp add: latest_failure_for_def max_received_def)

section \<open>Properties\<close>

text \<open>
  Evidence never goes back in time: after any sequence of publications, an event that
  the store held is still held, in a version whose receipt (sequence, then wall clock) is not
  older. In particular an older healthy observation never erases a newer failure.
\<close>

theorem evidence_monotonic:
  assumes "wf_evidence s" and "find_event s i = Some old"
  shows "\<exists>new. find_event (foldl (\<lambda>s ev. fst (ev_publish s ev)) s evs) i = Some new \<and>
     (ts_seq (ev_received old) < ts_seq (ev_received new) \<or>
      ts_seq (ev_received new) = ts_seq (ev_received old) \<and>
        sint (ts_wall_ns (ev_received old)) \<le> sint (ts_wall_ns (ev_received new)))"
proof -
  obtain new where new: "find_event (foldl (\<lambda>s ev. fst (ev_publish s ev)) s evs) i = Some new"
      "ev_version old \<le> ev_version new"
    using evidence_store.puts_version_mono [OF assms] by blast
  have "ev_newer old new"
    using new(2) ev_version_newer by blast
  with new(1) show ?thesis by (auto simp: ev_newer_def)
qed

definition demo_failure :: "u64 \<Rightarrow> EvidenceStatus \<Rightarrow> TargetId \<Rightarrow> FailureEvent" where
  "demo_failure q st t = default_FailureEvent\<lparr>ev_event_id := Id 1, ev_status := st,
     ev_target := Some t, ev_received := \<lparr>ts_wall_ns = 0, ts_seq = q\<rparr>\<rparr>"

definition demo_evidence :: EvidenceStore where
  "demo_evidence = fst (ev_publish empty_evidence (demo_failure 5 EvidenceStatus.CONFIRMED (Id 10)))"

lemma wf_demo_evidence: "wf_evidence demo_evidence"
  unfolding demo_evidence_def by (rule wf_ev_publish) simp

lemma find_demo_evidence:
  "find_event demo_evidence (Id 1) = Some (demo_failure 5 EvidenceStatus.CONFIRMED (Id 10))"
  by code_simp

theorem evidence_monotonic_witness:
  "\<exists>new. find_event (foldl (\<lambda>s ev. fst (ev_publish s ev)) demo_evidence
             [demo_failure 4 EvidenceStatus.CLEARED (Id 10)]) (Id 1) = Some new \<and>
     (5 < ts_seq (ev_received new) \<or> ts_seq (ev_received new) = 5 \<and>
        0 \<le> sint (ts_wall_ns (ev_received new)))"
proof -
  have d: "ts_seq (ev_received (demo_failure 5 EvidenceStatus.CONFIRMED (Id 10))) = 5"
    "ts_wall_ns (ev_received (demo_failure 5 EvidenceStatus.CONFIRMED (Id 10))) = 0"
    by (simp_all add: demo_failure_def)
  show ?thesis
    using evidence_monotonic [OF wf_demo_evidence find_demo_evidence,
        of "[demo_failure 4 EvidenceStatus.CLEARED (Id 10)]"]
    unfolding d by simp
qed

text \<open>
  A confirmed failure is not cleared by publication: a CLEARED observation for an event
  that is held as CONFIRMED is refused whatever its receipt stamp, and the store is unchanged;
  only an explicit \<open>clear\<close> of the event takes it out of the failures of its target.
\<close>

theorem confirmed_survives_cleared_publication:
  assumes "find_event s (ev_event_id ev) = Some old" and "ev_status old = EvidenceStatus.CONFIRMED"
    and "ev_status ev = EvidenceStatus.CLEARED"
  shows "ev_publish s ev = (s, False)"
  using assms by (auto simp: find_event_def ev_publish_def Let_def)

theorem confirmed_survives_cleared_publication_witness:
  "ev_publish demo_evidence (demo_failure 9 EvidenceStatus.CLEARED (Id 10)) = (demo_evidence, False)"
proof (rule confirmed_survives_cleared_publication)
  show "find_event demo_evidence (ev_event_id (demo_failure 9 EvidenceStatus.CLEARED (Id 10))) =
      Some (demo_failure 5 EvidenceStatus.CONFIRMED (Id 10))"
    by code_simp
qed (simp_all add: demo_failure_def)

text \<open>
  The latest failure reported for a target is a stored event of that target that is
  neither cleared nor stale, no other such event has a later receipt sequence, and nothing is
  reported exactly when the target has no such event. This holds in every store whose events
  keep the target of their first receipt, which publication and clearing preserve.
\<close>

theorem latest_failure_correct:
  assumes "target_index_exact s"
  shows "case latest_failure_for s t of
     None \<Rightarrow> \<forall>e \<in> set (es_events s). ev_target (ent_event e) = Some t \<longrightarrow> \<not> ent_active e
   | Some f \<Rightarrow> ev_target f = Some t \<and> (\<exists>e \<in> set (es_events s). ent_active e \<and> ent_event e = f) \<and>
       (\<forall>e \<in> set (es_events s). ev_target (ent_event e) = Some t \<longrightarrow> ent_active e \<longrightarrow>
          ts_seq (ev_received (ent_event e)) \<le> ts_seq (ev_received f))"
  using latest_failure_max [of s t]
  by (auto simp: max_received_def set_indexed_entries [OF assms] split: option.splits)

theorem latest_failure_correct_witness:
  "target_index_exact demo_evidence \<and>
   latest_failure_for demo_evidence (Id 10) = Some (demo_failure 5 EvidenceStatus.CONFIRMED (Id 10)) \<and>
   {e \<in> set (es_events demo_evidence). ev_target (ent_event e) = Some (Id 10) \<and> ent_active e \<and>
      5 < ts_seq (ev_received (ent_event e))} = {}"
proof -
  have ex: "target_index_exact demo_evidence"
    unfolding demo_evidence_def
    by (rule target_index_exact_publish)
      (simp_all, simp add: keeps_target_def find_event_def empty_evidence_def)
  have l: "latest_failure_for demo_evidence (Id 10) = Some (demo_failure 5 EvidenceStatus.CONFIRMED (Id 10))"
    by code_simp
  have q: "ts_seq (ev_received (demo_failure 5 EvidenceStatus.CONFIRMED (Id 10))) = 5"
    by (simp add: demo_failure_def)
  show ?thesis using latest_failure_correct [OF ex, of "Id 10"] ex l q by (simp add: not_less)
qed

text \<open>
  Re-publishing an event under its identity for another target leaves the target index
  as it was: the newer event, although stored, is reported for the target it no longer names
  and for none of the targets it names.
\<close>

theorem republished_event_misindexed:
  "let s = fst (ev_publish demo_evidence (demo_failure 6 EvidenceStatus.CONFIRMED (Id 11)))
   in find_event s (Id 1) = Some (demo_failure 6 EvidenceStatus.CONFIRMED (Id 11)) \<and>
      latest_failure_for s (Id 11) = None \<and>
      latest_failure_for s (Id 10) = Some (demo_failure 6 EvidenceStatus.CONFIRMED (Id 11))"
  unfolding Let_def by (intro conjI; code_simp)

end
