(* ===== verification/Routes.thy ===== *)
theory Routes
  imports Service
begin

text \<open>
  \<^verbatim>\<open>route.hpp\<close> / \<^verbatim>\<open>route.cpp\<close>: the route table, one current route per slot with its history.
  It is a versioned store over the slot, and a state machine whose steps are the table's
  operations.
\<close>

section \<open>The table\<close>

record RouteEntry =
  re_route :: RouteId
  re_generation :: RouteGeneration
  re_slot :: ServiceSlotKey
  re_target :: TargetId
  re_target_generation :: TargetGeneration
  re_incarnation :: EngineIncarnationId
  re_permitted_boot :: WorkerBootId
  re_assignment :: AssignmentId
  re_assignment_generation :: AssignmentGeneration
  re_epoch :: CoordinatorEpoch
  re_state :: RouteState
  re_gateway_boot :: GatewayBootId
  re_transport :: string
  re_provenance :: Provenance

definition default_RouteEntry :: RouteEntry where
  "default_RouteEntry = \<lparr>re_route = id_null, re_generation = gen_first,
     re_slot = SlotKey id_null id_null, re_target = id_null, re_target_generation = gen_first,
     re_incarnation = id_null, re_permitted_boot = id_null, re_assignment = id_null,
     re_assignment_generation = gen_first, re_epoch = default_CoordinatorEpoch,
     re_state = RouteState.EMPTY, re_gateway_boot = id_null, re_transport = [],
     re_provenance = Provenance.DERIVED\<rparr>"

record SlotRoute =
  slr_current :: RouteEntry
  slr_history :: "RouteEntry list"

record RouteTable =
  rt_current :: "SlotRoute list"
  rt_revalidation_count :: nat

definition empty_routes :: RouteTable where
  "empty_routes = \<lparr>rt_current = [], rt_revalidation_count = 0\<rparr>"

abbreviation slr_slot :: "SlotRoute \<Rightarrow> ServiceSlotKey" where
  "slr_slot sr \<equiv> re_slot (slr_current sr)"

definition find_route :: "RouteTable \<Rightarrow> ServiceSlotKey \<Rightarrow> SlotRoute option" where
  "find_route t k = List.find (\<lambda>s. slr_slot s = k) (rt_current t)"

text \<open>Writing through the pointer \<open>find_\<close> returns.\<close>

definition upd_route :: "RouteTable \<Rightarrow> ServiceSlotKey \<Rightarrow> (SlotRoute \<Rightarrow> SlotRoute) \<Rightarrow> RouteTable" where
  "upd_route t k f = t\<lparr>rt_current := upd_first (\<lambda>s. slr_slot s = k) f (rt_current t)\<rparr>"

definition rt_install :: "RouteTable \<Rightarrow> RouteEntry \<Rightarrow> RouteTable \<times> bool" where
  "rt_install t e =
     (if id_is_null (sk_service (re_slot e)) then (t, False)
      else (case find_route t (re_slot e) of
              Some sr \<Rightarrow>
                if gen_value (re_generation e) \<le> gen_value (re_generation (slr_current sr)) then (t, False)
                else if ep_epoch (re_epoch e) < ep_epoch (re_epoch (slr_current sr)) then (t, False)
                else (upd_route t (re_slot e)
                        (\<lambda>s. \<lparr>slr_current = e, slr_history = slr_history s @ [slr_current s]\<rparr>), True)
            | None \<Rightarrow> (t\<lparr>rt_current := rt_current t @ [\<lparr>slr_current = e, slr_history = []\<rparr>]\<rparr>, True)))"

definition rt_bind_gateway :: "RouteTable \<Rightarrow> ServiceSlotKey \<Rightarrow> GatewayBootId \<Rightarrow> RouteTable \<times> bool" where
  "rt_bind_gateway t k boot =
     (case find_route t k of
        None \<Rightarrow> (t, False)
      | Some sr \<Rightarrow>
          if re_state (slr_current sr) = RouteState.EMPTY then (t, False)
          else if re_gateway_boot (slr_current sr) = boot then (t, True)
          else (upd_route t k (\<lambda>s. s\<lparr>slr_current := (slr_current s)\<lparr>re_gateway_boot := boot\<rparr>\<rparr>), True))"

definition rt_acknowledge ::
    "RouteTable \<Rightarrow> ServiceSlotKey \<Rightarrow> RouteGeneration \<Rightarrow> GatewayBootId \<Rightarrow> RouteTable \<times> bool" where
  "rt_acknowledge t k g boot =
     (case find_route t k of
        None \<Rightarrow> (t, False)
      | Some sr \<Rightarrow>
          if re_generation (slr_current sr) \<noteq> g then (t, False)
          else if boot \<noteq> re_gateway_boot (slr_current sr) then (t, False)
          else if re_state (slr_current sr) \<noteq> RouteState.INSTALLED \<and>
                  re_state (slr_current sr) \<noteq> RouteState.PENDING_INSTALL then (t, False)
          else (upd_route t k
                  (\<lambda>s. s\<lparr>slr_current := (slr_current s)\<lparr>re_state := RouteState.ACKNOWLEDGED\<rparr>\<rparr>), True))"

definition current_route :: "RouteTable \<Rightarrow> ServiceSlotKey \<Rightarrow> RouteEntry option" where
  "current_route t k =
     (case find_route t k of
        None \<Rightarrow> None
      | Some sr \<Rightarrow> if re_state (slr_current sr) = RouteState.EMPTY then None else Some (slr_current sr))"

definition route_history :: "RouteTable \<Rightarrow> ServiceSlotKey \<Rightarrow> nat \<Rightarrow> RouteEntry list" where
  "route_history t k mx = (case find_route t k of None \<Rightarrow> [] | Some sr \<Rightarrow> take mx (slr_history sr))"

definition all_routes :: "RouteTable \<Rightarrow> RouteEntry list" where
  "all_routes t = filter (\<lambda>e. re_state e \<noteq> RouteState.EMPTY) (map slr_current (rt_current t))"

definition live_state :: "RouteState \<Rightarrow> bool" where
  "live_state s \<longleftrightarrow> s = RouteState.ACKNOWLEDGED \<or> s = RouteState.INSTALLED \<or> s = RouteState.PENDING_INSTALL"

definition mark_revalidation_required :: "RouteTable \<Rightarrow> RouteTable" where
  "mark_revalidation_required t =
     \<lparr>rt_current = map (\<lambda>s. if live_state (re_state (slr_current s))
          then s\<lparr>slr_current := (slr_current s)\<lparr>re_state := RouteState.REVALIDATION_REQUIRED\<rparr>\<rparr> else s)
        (rt_current t),
      rt_revalidation_count = rt_revalidation_count t +
        length (filter (\<lambda>s. live_state (re_state (slr_current s))) (rt_current t))\<rparr>"

section \<open>Well-formed tables\<close>

text \<open>
  Every slot has one entry, and along the history of a slot the generations strictly grow
  and the epochs never fall.
\<close>

definition route_le :: "RouteEntry \<Rightarrow> RouteEntry \<Rightarrow> bool" where
  "route_le a b \<longleftrightarrow> re_generation a < re_generation b \<and> ep_epoch (re_epoch a) \<le> ep_epoch (re_epoch b)"

definition wf_slot_route :: "SlotRoute \<Rightarrow> bool" where
  "wf_slot_route sr \<longleftrightarrow>
     sorted_wrt route_le (slr_history sr @ [slr_current sr]) \<and>
     (\<forall>e \<in> set (slr_history sr). re_slot e = slr_slot sr) \<and>
     sk_service (slr_slot sr) \<noteq> id_null"

definition wf_routes :: "RouteTable \<Rightarrow> bool" where
  "wf_routes t \<longleftrightarrow> distinct (map slr_slot (rt_current t)) \<and> (\<forall>sr \<in> set (rt_current t). wf_slot_route sr)"

lemma route_le_fold:
  "(\<lambda>a b. re_generation a < re_generation b \<and> ep_epoch (re_epoch a) \<le> ep_epoch (re_epoch b)) = route_le"
  by (simp add: route_le_def fun_eq_iff)

lemma route_le_trans: "route_le a b \<Longrightarrow> route_le b c \<Longrightarrow> route_le a c"
  by (auto simp: route_le_def)

lemma wf_empty_routes [simp]: "wf_routes empty_routes"
  by (simp add: wf_routes_def empty_routes_def)

lemma find_route_slot: "find_route t k = Some sr \<Longrightarrow> slr_slot sr = k \<and> sr \<in> set (rt_current t)"
  by (auto simp: find_route_def dest: find_SomeD)

lemma find_route_wf: "wf_routes t \<Longrightarrow> find_route t k = Some sr \<Longrightarrow> wf_slot_route sr"
  by (auto simp: wf_routes_def dest: find_route_slot)

lemma find_route_upd:
  assumes "\<And>s. slr_slot s = k \<Longrightarrow> slr_slot (f s) = k"
  shows "find_route (upd_route t k f) k' =
    (if k' = k then map_option f (find_route t k) else find_route t k')"
  using assms
  by (auto simp: find_route_def upd_route_def find_upd_first_same find_upd_first_other)

lemma wf_upd_route:
  assumes "wf_routes t" and "\<And>s. slr_slot s = k \<Longrightarrow> slr_slot (f s) = k"
    and "\<And>s. find_route t k = Some s \<Longrightarrow> wf_slot_route s \<Longrightarrow> wf_slot_route (f s)"
  shows "wf_routes (upd_route t k f)"
proof -
  have "map slr_slot (upd_first (\<lambda>s. slr_slot s = k) f (rt_current t)) = map slr_slot (rt_current t)"
    using assms(2) by (intro map_upd_first) auto
  moreover have "wf_slot_route s" if "s \<in> set (upd_first (\<lambda>s. slr_slot s = k) f (rt_current t))" for s
    using in_set_upd_firstD [OF that] assms(1) assms(3) find_route_wf [OF assms(1)]
    by (auto simp: find_route_def wf_routes_def)
  ultimately show ?thesis using assms(1) by (simp add: wf_routes_def upd_route_def)
qed

lemma wf_slot_route_push:
  assumes "wf_slot_route s" and "route_le (slr_current s) e" and "re_slot e = slr_slot s"
  shows "wf_slot_route \<lparr>slr_current = e, slr_history = slr_history s @ [slr_current s]\<rparr>"
  using assms by (auto simp: wf_slot_route_def sorted_wrt_append intro: route_le_trans)

lemma wf_slot_route_state:
  assumes "wf_slot_route s" and "re_slot e = slr_slot s" and "re_generation e = re_generation (slr_current s)"
    and "re_epoch e = re_epoch (slr_current s)"
  shows "wf_slot_route (s\<lparr>slr_current := e\<rparr>)"
  using assms by (auto simp: wf_slot_route_def sorted_wrt_append route_le_def)

definition route_accepts :: "SlotRoute option \<Rightarrow> RouteEntry \<Rightarrow> bool" where
  "route_accepts old e \<longleftrightarrow> sk_service (re_slot e) \<noteq> id_null \<and>
     (case old of None \<Rightarrow> True | Some sr \<Rightarrow> route_le (slr_current sr) e)"

lemma rt_install_result: "snd (rt_install t e) \<longleftrightarrow> route_accepts (find_route t (re_slot e)) e"
  by (auto simp: rt_install_def route_accepts_def route_le_def less_Gen_def not_le split: option.split)

lemma find_route_install:
  "find_route (fst (rt_install t e)) k =
     (if k = re_slot e \<and> route_accepts (find_route t k) e
      then Some \<lparr>slr_current = e, slr_history = (case find_route t k of None \<Rightarrow> []
              | Some sr \<Rightarrow> slr_history sr @ [slr_current sr])\<rparr>
      else find_route t k)"
proof (cases "route_accepts (find_route t (re_slot e)) e")
  case True
  show ?thesis
  proof (cases "find_route t (re_slot e)")
    case None
    with True show ?thesis
      by (auto simp: rt_install_def route_accepts_def find_route_def split: option.split)
  next
    case (Some sr)
    with True have "fst (rt_install t e) = upd_route t (re_slot e)
        (\<lambda>s. \<lparr>slr_current = e, slr_history = slr_history s @ [slr_current s]\<rparr>)"
      by (auto simp: rt_install_def route_accepts_def route_le_def less_Gen_def)
    with True Some show ?thesis by (simp add: find_route_upd)
  qed
next
  case False
  then have "fst (rt_install t e) = t"
    using rt_install_result [of t e] by (auto simp: rt_install_def split: option.splits if_splits)
  with False show ?thesis by auto
qed

lemma wf_rt_install:
  assumes "wf_routes t"
  shows "wf_routes (fst (rt_install t e))"
proof (cases "find_route t (re_slot e)")
  case None
  then have "re_slot e \<notin> slr_slot ` set (rt_current t)"
    by (auto simp: find_route_def find_None_iff_none)
  with None assms show ?thesis
    by (auto simp: rt_install_def wf_routes_def) (simp add: wf_slot_route_def)
next
  case (Some sr)
  then show ?thesis using assms
    by (auto simp: rt_install_def route_le_def less_Gen_def not_le
        intro!: wf_upd_route wf_slot_route_push dest: find_route_slot)
qed

lemma wf_rt_bind_gateway: "wf_routes t \<Longrightarrow> wf_routes (fst (rt_bind_gateway t k b))"
  by (auto simp: rt_bind_gateway_def split: option.split intro!: wf_upd_route wf_slot_route_state)

lemma wf_rt_acknowledge: "wf_routes t \<Longrightarrow> wf_routes (fst (rt_acknowledge t k g b))"
  by (auto simp: rt_acknowledge_def split: option.split intro!: wf_upd_route wf_slot_route_state)

lemma wf_mark_revalidation: "wf_routes t \<Longrightarrow> wf_routes (mark_revalidation_required t)"
  by (auto simp: wf_routes_def mark_revalidation_required_def comp_def if_distrib cong: if_cong
      intro!: wf_slot_route_state)

text \<open>The current entry of a slot as a versioned store.\<close>

definition route_entry :: "RouteTable \<Rightarrow> ServiceSlotKey \<Rightarrow> RouteEntry option" where
  "route_entry t k = map_option slr_current (find_route t k)"

definition entry_accepts :: "RouteEntry option \<Rightarrow> RouteEntry \<Rightarrow> bool" where
  "entry_accepts old e \<longleftrightarrow> sk_service (re_slot e) \<noteq> id_null \<and>
     (case old of None \<Rightarrow> True | Some r \<Rightarrow> route_le r e)"

lemma route_accepts_entry: "route_accepts (find_route t k) e \<longleftrightarrow> entry_accepts (route_entry t k) e"
  by (simp add: route_accepts_def entry_accepts_def route_entry_def split: option.split)

interpretation route_store: versioned_store
  route_entry "\<lambda>t e. fst (rt_install t e)" re_slot entry_accepts wf_routes re_generation
  by unfold_locales
    (auto simp: route_entry_def find_route_install route_accepts_def entry_accepts_def wf_rt_install
      route_le_def split: option.splits)

section \<open>The table as a state machine\<close>

inductive route_step :: "RouteTable \<Rightarrow> RouteTable \<Rightarrow> bool" where
  step_install: "route_step t (fst (rt_install t e))"
| step_bind: "route_step t (fst (rt_bind_gateway t k b))"
| step_ack: "route_step t (fst (rt_acknowledge t k g b))"
| step_revalidate: "route_step t (mark_revalidation_required t)"

inductive reachable_routes :: "RouteTable \<Rightarrow> bool" where
  reach_empty: "reachable_routes empty_routes"
| reach_step: "reachable_routes t \<Longrightarrow> route_step t t' \<Longrightarrow> reachable_routes t'"

lemma route_step_wf: "route_step t t' \<Longrightarrow> wf_routes t \<Longrightarrow> wf_routes t'"
  by (induction rule: route_step.induct)
    (simp_all add: wf_rt_install wf_rt_bind_gateway wf_rt_acknowledge wf_mark_revalidation)

lemma reachable_routes_wf: "reachable_routes t \<Longrightarrow> wf_routes t"
  by (induction rule: reachable_routes.induct) (auto intro: route_step_wf)

lemma find_route_bind:
  "find_route (fst (rt_bind_gateway t k b)) k' =
     (if k' = k \<and> (\<exists>sr. find_route t k = Some sr \<and> re_state (slr_current sr) \<noteq> RouteState.EMPTY)
      then map_option (\<lambda>s. s\<lparr>slr_current := (slr_current s)\<lparr>re_gateway_boot := b\<rparr>\<rparr>) (find_route t k)
      else find_route t k')"
  by (auto simp: rt_bind_gateway_def find_route_upd split: option.split)

lemma rt_acknowledge_result:
  "snd (rt_acknowledge t k g b) \<longleftrightarrow> (\<exists>sr. find_route t k = Some sr \<and>
     re_generation (slr_current sr) = g \<and> re_gateway_boot (slr_current sr) = b \<and>
     (re_state (slr_current sr) = RouteState.INSTALLED \<or>
      re_state (slr_current sr) = RouteState.PENDING_INSTALL))"
  by (auto simp: rt_acknowledge_def split: option.split)

lemma find_route_ack:
  "find_route (fst (rt_acknowledge t k g b)) k' =
     (if k' = k \<and> snd (rt_acknowledge t k g b)
      then map_option (\<lambda>s. s\<lparr>slr_current := (slr_current s)\<lparr>re_state := RouteState.ACKNOWLEDGED\<rparr>\<rparr>) (find_route t k)
      else find_route t k')"
  by (auto simp: rt_acknowledge_def find_route_upd split: option.split)

definition revalidate_entry :: "SlotRoute \<Rightarrow> SlotRoute" where
  "revalidate_entry s = (if live_state (re_state (slr_current s))
     then s\<lparr>slr_current := (slr_current s)\<lparr>re_state := RouteState.REVALIDATION_REQUIRED\<rparr>\<rparr> else s)"

lemma find_map_same: "(\<And>x. P (f x) = P x) \<Longrightarrow> List.find P (map f xs) = map_option f (List.find P xs)"
  by (induction xs) auto

lemma find_route_revalidate:
  "find_route (mark_revalidation_required t) k = map_option revalidate_entry (find_route t k)"
proof -
  have "mark_revalidation_required t = \<lparr>rt_current = map revalidate_entry (rt_current t),
      rt_revalidation_count = rt_revalidation_count t +
        length (filter (\<lambda>s. live_state (re_state (slr_current s))) (rt_current t))\<rparr>"
    by (simp add: mark_revalidation_required_def revalidate_entry_def)
  then show ?thesis
    by (simp add: find_route_def find_map_same revalidate_entry_def)
qed

text \<open>What one step does to the entry of a slot.\<close>

definition same_route :: "RouteEntry \<Rightarrow> RouteEntry \<Rightarrow> bool" where
  "same_route a b \<longleftrightarrow> re_generation b = re_generation a \<and> re_epoch b = re_epoch a \<and>
     re_target b = re_target a \<and> re_permitted_boot b = re_permitted_boot a \<and>
     re_assignment b = re_assignment a \<and> re_assignment_generation b = re_assignment_generation a"

lemma route_step_entry:
  assumes "route_step t t'" and "find_route t k = Some sr"
  shows "\<exists>sr'. find_route t' k = Some sr' \<and>
     (same_route (slr_current sr) (slr_current sr') \<and> slr_history sr' = slr_history sr \<and>
       (re_state (slr_current sr') = re_state (slr_current sr) \<or> live_state (re_state (slr_current sr)))
      \<or> route_le (slr_current sr) (slr_current sr') \<and> slr_history sr' = slr_history sr @ [slr_current sr])"
  using assms
proof (induction rule: route_step.induct)
  case (step_install t e)
  then show ?case by (auto simp: find_route_install route_accepts_def same_route_def)
next
  case (step_bind t k' b)
  then show ?case by (auto simp: find_route_bind same_route_def)
next
  case (step_ack t k' g b)
  then show ?case
    by (auto simp: find_route_ack rt_acknowledge_result same_route_def live_state_def)
next
  case (step_revalidate t)
  then show ?case by (auto simp: find_route_revalidate revalidate_entry_def same_route_def)
qed

section \<open>Properties\<close>

text \<open>
  C19. In every table reachable through the table's operations (installs, gateway bindings,
  acknowledgments and revalidation marks, in any order) each slot has one route, and along
  the slot's history up to the current route the generations strictly increase and the
  coordinator epochs never decrease: a superseded route generation is never current again.
\<close>

theorem route_history_monotonic:
  assumes "reachable_routes t" and "find_route t k = Some sr"
  shows "sorted_wrt (\<lambda>a b. re_generation a < re_generation b \<and>
             ep_epoch (re_epoch a) \<le> ep_epoch (re_epoch b)) (slr_history sr @ [slr_current sr]) \<and>
         (\<forall>sr' \<in> set (rt_current t). slr_slot sr' = k \<longrightarrow> sr' = sr)"
proof -
  have wf: "wf_routes t" using assms(1) by (rule reachable_routes_wf)
  have "sr' = sr" if "sr' \<in> set (rt_current t)" "slr_slot sr' = k" for sr'
    using find_distinct_key [of slr_slot "rt_current t" sr'] that wf assms(2)
    by (simp add: find_route_def wf_routes_def)
  with find_route_wf [OF wf assms(2)] show ?thesis
    unfolding route_le_fold by (auto simp: wf_slot_route_def)
qed

definition demo_route :: "u64 \<Rightarrow> RouteEntry" where
  "demo_route g = default_RouteEntry\<lparr>re_slot := SlotKey (Id 1) (Id 1), re_generation := Gen g,
     re_state := RouteState.ACKNOWLEDGED, re_gateway_boot := Id 7\<rparr>"

definition demo_table :: RouteTable where
  "demo_table = fst (rt_install (fst (rt_install empty_routes (demo_route 1))) (demo_route 2))"

lemma demo_table_reachable: "reachable_routes demo_table"
  unfolding demo_table_def
  by (rule reach_step [OF reach_step [OF reach_empty step_install] step_install])

lemma find_demo_table:
  "find_route demo_table (SlotKey (Id 1) (Id 1)) =
     Some \<lparr>slr_current = demo_route 2, slr_history = [demo_route 1]\<rparr>"
  by code_simp

theorem route_history_monotonic_witness:
  "reachable_routes demo_table \<and>
   sorted_wrt (\<lambda>a b. re_generation a < re_generation b \<and>
      ep_epoch (re_epoch a) \<le> ep_epoch (re_epoch b)) [demo_route 1, demo_route 2]"
  using route_history_monotonic [OF demo_table_reachable find_demo_table] demo_table_reachable
  by simp

text \<open>
  The exact contract of installing a route: it succeeds precisely when the slot names a
  service and the entry's generation is strictly above, and its epoch not below, those of the
  current route; then the entry is current and the previous route joins the history, and
  otherwise nothing changes. Other slots are never affected.
\<close>

theorem route_install_spec:
  "(snd (rt_install t e) \<longleftrightarrow> sk_service (re_slot e) \<noteq> id_null \<and>
      (case find_route t (re_slot e) of None \<Rightarrow> True
       | Some sr \<Rightarrow> re_generation (slr_current sr) < re_generation e \<and>
                   ep_epoch (re_epoch (slr_current sr)) \<le> ep_epoch (re_epoch e))) \<and>
   (\<not> snd (rt_install t e) \<longrightarrow> fst (rt_install t e) = t) \<and>
   (snd (rt_install t e) \<longrightarrow> find_route (fst (rt_install t e)) (re_slot e) =
      Some \<lparr>slr_current = e, slr_history = (case find_route t (re_slot e) of None \<Rightarrow> []
              | Some sr \<Rightarrow> slr_history sr @ [slr_current sr])\<rparr>) \<and>
   (\<forall>k. k \<noteq> re_slot e \<longrightarrow> find_route (fst (rt_install t e)) k = find_route t k)"
proof (intro conjI)
  show "\<not> snd (rt_install t e) \<longrightarrow> fst (rt_install t e) = t"
    by (auto simp: rt_install_def split: option.split)
qed (auto simp: rt_install_result route_accepts_def route_le_def find_route_install split: option.splits)

theorem route_install_spec_witness:
  "snd (rt_install demo_table (demo_route 3)) \<and> \<not> snd (rt_install demo_table (demo_route 2)) \<and>
   fst (rt_install demo_table (demo_route 2)) = demo_table"
proof -
  have "snd (rt_install demo_table (demo_route 3))" "\<not> snd (rt_install demo_table (demo_route 2))"
    by code_simp+
  then show ?thesis using route_install_spec [of demo_table "demo_route 2"] by blast
qed

text \<open>
  A route marked for revalidation stays unusable until a strictly newer generation is
  installed: whatever sequence of table operations follows, the slot's route is either still
  the same generation in state REVALIDATION_REQUIRED, or it is a route of a strictly larger
  generation (a late acknowledgment or a re-bound gateway does not revive it).
\<close>

theorem revalidation_is_sticky:
  assumes "route_step\<^sup>*\<^sup>* t t'" and "find_route t k = Some sr"
    and "re_state (slr_current sr) = RouteState.REVALIDATION_REQUIRED"
  shows "\<exists>sr'. find_route t' k = Some sr' \<and>
     (re_generation (slr_current sr') = re_generation (slr_current sr) \<and>
        re_state (slr_current sr') = RouteState.REVALIDATION_REQUIRED
      \<or> re_generation (slr_current sr) < re_generation (slr_current sr'))"
  using assms(1)
proof (induction rule: rtranclp_induct)
  case base
  then show ?case using assms(2,3) by auto
next
  case (step t1 t2)
  then obtain sr1 where sr1: "find_route t1 k = Some sr1"
    and d1: "re_generation (slr_current sr1) = re_generation (slr_current sr) \<and>
        re_state (slr_current sr1) = RouteState.REVALIDATION_REQUIRED
      \<or> re_generation (slr_current sr) < re_generation (slr_current sr1)"
    by blast
  from route_step_entry [OF step.hyps(2) sr1] d1 show ?case
    by (auto simp: same_route_def route_le_def live_state_def)
qed

theorem revalidation_is_sticky_witness:
  "\<exists>sr'. find_route (fst (rt_acknowledge (mark_revalidation_required demo_table)
              (SlotKey (Id 1) (Id 1)) (Gen 2) (Id 7))) (SlotKey (Id 1) (Id 1)) = Some sr' \<and>
     (re_generation (slr_current sr') = Gen 2 \<and>
        re_state (slr_current sr') = RouteState.REVALIDATION_REQUIRED
      \<or> Gen 2 < re_generation (slr_current sr'))"
proof -
  let ?t = "mark_revalidation_required demo_table" and ?k = "SlotKey (Id 1) (Id 1)"
  let ?sr = "\<lparr>slr_current = (demo_route 2)\<lparr>re_state := RouteState.REVALIDATION_REQUIRED\<rparr>,
              slr_history = [demo_route 1]\<rparr>"
  have f: "find_route ?t ?k = Some ?sr" by code_simp
  have st: "route_step\<^sup>*\<^sup>* ?t (fst (rt_acknowledge ?t ?k (Gen 2) (Id 7)))"
    by (intro r_into_rtranclp step_ack)
  have g: "re_generation (slr_current ?sr) = Gen 2" by (simp add: demo_route_def)
  show ?thesis
    using revalidation_is_sticky [OF st f] unfolding g by simp
qed

end
