(* ===== verification/Plans.thy ===== *)
theory Plans
  imports Candidates Evidence Recovery Routes
begin

text \<open>
  \<^verbatim>\<open>plan.hpp\<close> / \<^verbatim>\<open>plan.cpp\<close>: the failover plan and its milestones; \<^verbatim>\<open>cutover.hpp\<close>: the outcomes
  that the external effects of a cutover report; \<open>AttemptResult\<close> of \<^verbatim>\<open>failover_fabric.hpp\<close>;
  \<open>PersistenceSnapshot\<close> of \<^verbatim>\<open>persistence.hpp\<close>, the durable form of the fabric's state.
\<close>

section \<open>Plans\<close>

record RollbackBoundary =
  rb_up_to :: Milestone
  rb_old_assignment_may_remain :: bool

record FailoverPlan =
  fp_plan :: FailoverPlanId
  fp_generation :: FailoverPlanGeneration
  fp_slot :: ServiceSlotKey
  fp_source_assignment :: "Assignment option"
  fp_triggering_evidence :: "FailureEvent list"
  fp_snapshot :: CandidateSnapshot
  fp_selected :: "Candidate option"
  fp_continuity :: ContinuityClass
  fp_resource_commitments_domain :: "FailureDomainId list"
  fp_fencing_requirement :: FencingRequirement
  fp_requested_route :: RouteId
  fp_requested_route_generation :: RouteGeneration
  fp_recovery_objective :: RecoveryObjective
  fp_estimated_stages :: RecoveryEstimate
  fp_rollback_boundaries :: "RollbackBoundary list"
  fp_policy_gen :: PolicyGeneration
  fp_reached_milestones :: "Milestone list"
  fp_provenance :: Provenance

definition reached :: "FailoverPlan \<Rightarrow> Milestone \<Rightarrow> bool" where
  "reached p m \<longleftrightarrow> m \<in> set (fp_reached_milestones p)"

definition record_milestone :: "FailoverPlan \<Rightarrow> Milestone \<Rightarrow> FailoverPlan" where
  "record_milestone p m =
     (if \<not> reached p m then p\<lparr>fp_reached_milestones := fp_reached_milestones p @ [m]\<rparr> else p)"

definition is_valid :: "FailoverPlan \<Rightarrow> bool" where
  "is_valid p =
     (if id_is_null (fp_plan p) then False
      else if id_is_null (sk_service (fp_slot p)) \<or> id_is_null (sk_slot (fp_slot p)) then False
      else if fp_selected p = None then False
      else if reached p Milestone.VERIFICATION_COMPLETE then False
      else True)"

lemma reached_record_milestone [simp]: "reached (record_milestone p m) k \<longleftrightarrow> k = m \<or> reached p k"
  by (auto simp: reached_def record_milestone_def)

lemma record_milestone_twice [simp]: "record_milestone (record_milestone p m) m = record_milestone p m"
  by (simp add: record_milestone_def [of "record_milestone p m"])

lemma record_milestone_frame [simp, frame_simps]:
  "fp_plan (record_milestone p m) = fp_plan p" "fp_slot (record_milestone p m) = fp_slot p"
  "fp_selected (record_milestone p m) = fp_selected p"
  "fp_source_assignment (record_milestone p m) = fp_source_assignment p"
  "fp_requested_route_generation (record_milestone p m) = fp_requested_route_generation p"
  "fp_requested_route (record_milestone p m) = fp_requested_route p"
  by (simp_all add: record_milestone_def)

section \<open>Outcomes of the external effects\<close>

record FenceOutcome =
  fo_applied :: bool
  fo_detail :: string
  fo_state :: FenceState
  fo_fencing_unproven :: bool

definition default_FenceOutcome :: FenceOutcome where
  "default_FenceOutcome = \<lparr>fo_applied = False, fo_detail = [], fo_state = FenceState.NONE,
     fo_fencing_unproven = False\<rparr>"

record ActivateOutcome =
  ao_acknowledged :: bool
  ao_activation_note :: string
  ao_detail :: string

record RouteOutcome =
  ro_acknowledged :: bool
  ro_route :: RouteId
  ro_generation :: RouteGeneration
  ro_detail :: string

record VerifyOutcome =
  vo_verified :: bool
  vo_result :: string
  vo_ambiguous :: bool
  vo_detail :: string

record AttemptResult =
  ar_attempt :: FailoverAttemptId
  ar_generation :: FailoverAttemptGeneration
  ar_state :: AttemptState
  ar_reached :: Milestone
  ar_committed_assignment :: "Assignment option"
  ar_detail :: string
  ar_stage_durations :: "StageEstimate list"
  ar_elapsed_ms :: u64
  ar_recovery_verified :: bool
  ar_violated_recovery_objective :: bool

definition default_AttemptResult :: AttemptResult where
  "default_AttemptResult = \<lparr>ar_attempt = id_null, ar_generation = gen_first,
     ar_state = AttemptState.REQUESTED, ar_reached = Milestone.INTENT_ONLY,
     ar_committed_assignment = None, ar_detail = [], ar_stage_durations = [], ar_elapsed_ms = 0,
     ar_recovery_verified = False, ar_violated_recovery_objective = False\<rparr>"

section \<open>The durable snapshot\<close>

record PersistenceSnapshot =
  ps_format_version :: u32
  ps_epoch :: CoordinatorEpoch
  ps_policy_generation :: PolicyGeneration
  ps_last_authority_gen :: ServiceAuthorityGeneration
  ps_services :: "ServiceDefinition list"
  ps_assignments :: "Assignment list"
  ps_domains :: "DomainDecl list"
  ps_memberships :: "DomainMembership list"
  ps_evidence :: "FailureEvent list"
  ps_routes :: "RouteEntry list"
  ps_fenced_boots :: "WorkerBootId list"
  ps_has_txn :: bool
  ps_txn_milestone :: Milestone
  ps_pending_assignment :: "Assignment option"
  ps_source_assignment :: "Assignment option"
  ps_pending_route :: "RouteEntry option"

definition default_PersistenceSnapshot :: PersistenceSnapshot where
  "default_PersistenceSnapshot = \<lparr>ps_format_version = 2, ps_epoch = default_CoordinatorEpoch,
     ps_policy_generation = gen_first, ps_last_authority_gen = gen_first, ps_services = [],
     ps_assignments = [], ps_domains = [], ps_memberships = [], ps_evidence = [], ps_routes = [],
     ps_fenced_boots = [], ps_has_txn = False, ps_txn_milestone = Milestone.VERIFICATION_COMPLETE,
     ps_pending_assignment = None, ps_source_assignment = None, ps_pending_route = None\<rparr>"

end
