(* ===== verification/Fabric.thy ===== *)
theory Fabric
  imports Selection Plans Requests
begin

text \<open>
  \<^verbatim>\<open>failover_fabric.hpp\<close> / \<^verbatim>\<open>fabric.cpp\<close>: the state of the coordinator core (\<open>Impl\<close>) and its
  operations, the cutover transaction excepted (\<open>Cutover\<close>). Every public operation holds the
  core's mutex for its whole body, so it is one atomic function of the state. An operation
  that throws before it changes anything returns \<^typ>\<open>'a result\<close>; one that can throw after a
  change returns the changed state as well. The clock is an argument: the nanoseconds its
  \<open>now()\<close> returned. A hash map from keys to vector positions is a partial function.
\<close>

section \<open>The state\<close>

record RuntimeConfig =
  cfg_max_services :: nat
  cfg_max_slots_per_service :: nat
  cfg_max_slots :: nat
  cfg_max_targets :: nat
  cfg_max_candidates_per_snapshot :: nat
  cfg_max_domains :: nat
  cfg_max_memberships :: nat
  cfg_max_failure_history :: nat
  cfg_max_requests :: nat
  cfg_max_attempt_history :: nat
  cfg_max_route_history :: nat
  cfg_max_explanations :: nat
  cfg_strict :: bool
  cfg_bounds_checked :: bool

definition default_RuntimeConfig :: RuntimeConfig where
  "default_RuntimeConfig = \<lparr>cfg_max_services = 10000, cfg_max_slots_per_service = 1024,
     cfg_max_slots = 20000, cfg_max_targets = 20000, cfg_max_candidates_per_snapshot = 4096,
     cfg_max_domains = 10000, cfg_max_memberships = 100000, cfg_max_failure_history = 10000,
     cfg_max_requests = 65536, cfg_max_attempt_history = 4096, cfg_max_route_history = 64,
     cfg_max_explanations = 4096, cfg_strict = True, cfg_bounds_checked = True\<rparr>"

record SlotState =
  ss_slot :: ServiceSlotKey
  ss_current :: "Assignment option"
  ss_history :: "Assignment list"

record TargetRecord =
  tr_id :: TargetId
  tr_transport :: string
  tr_facts :: "CandidateFacts option"
  tr_has_state :: bool
  tr_state :: CandidateState
  tr_resources :: "CandidateResource list"

record FabricState =
  fs_cfg :: RuntimeConfig
  fs_services :: "ServiceDefinition list"
  fs_service_index :: "ServiceId \<rightharpoonup> nat"
  fs_slots :: "SlotState list"
  fs_slot_index :: "ServiceSlotKey \<rightharpoonup> nat"
  fs_targets :: "TargetRecord list"
  fs_target_index :: "TargetId \<rightharpoonup> nat"
  fs_targets_by_service :: "ServiceId \<rightharpoonup> nat list"
  fs_evidence :: EvidenceStore
  fs_domains :: DomainRegistry
  fs_routes :: RouteTable
  fs_requests :: RequestTracker
  fs_epoch :: CoordinatorEpoch
  fs_policy_gen :: PolicyGeneration
  fs_last_authority_gen :: ServiceAuthorityGeneration
  fs_snapshot_counter :: CandidateSnapshotGeneration
  fs_assignment_counter :: AssignmentId
  fs_assignment_gen_counter :: AssignmentGeneration
  fs_attempt_counter :: FailoverAttemptId
  fs_attempt_gen_counter :: FailoverAttemptGeneration
  fs_plan_counter :: FailoverPlanId
  fs_plan_gen_counter :: FailoverPlanGeneration
  fs_route_counter :: RouteId
  fs_route_gen_counter :: RouteGeneration
  fs_activation_counter :: ActivationId
  fs_activation_gen_counter :: ActivationGeneration
  fs_gateway_boot :: GatewayBootId
  fs_coordinator_id :: CoordinatorId
  fs_fenced_boots :: "WorkerBootId list"
  fs_attempt_states :: "AttemptState list"
  fs_confirmed_failed_targets :: "TargetId set"
  fs_receipt_seq :: u64
  fs_preferred :: "ServiceSlotKey \<rightharpoonup> TargetId"
  fs_last_transition :: "ServiceSlotKey \<rightharpoonup> int"
  fs_failback_attempts :: "ServiceSlotKey \<rightharpoonup> u32"
  fs_manual_failback_authorized :: "ServiceSlotKey set"
  fs_dispatch_count :: nat
  fs_ready_since :: "TargetId \<rightharpoonup> int"
  fs_checkpoint_path :: string
  fs_barrier_milestone :: Milestone
  fs_has_txn :: bool
  fs_txn_milestone :: Milestone
  fs_pending_assignment :: "Assignment option"
  fs_source_assignment :: "Assignment option"
  fs_pending_route :: "RouteEntry option"

definition init_fabric :: "RuntimeConfig \<Rightarrow> FabricState" where
  "init_fabric cfg = \<lparr>fs_cfg = cfg, fs_services = [], fs_service_index = Map.empty, fs_slots = [],
     fs_slot_index = Map.empty, fs_targets = [], fs_target_index = Map.empty,
     fs_targets_by_service = Map.empty, fs_evidence = empty_evidence, fs_domains = empty_registry,
     fs_routes = empty_routes, fs_requests = empty_tracker, fs_epoch = default_CoordinatorEpoch,
     fs_policy_gen = gen_first, fs_last_authority_gen = gen_first, fs_snapshot_counter = gen_first,
     fs_assignment_counter = min_id, fs_assignment_gen_counter = gen_first,
     fs_attempt_counter = min_id, fs_attempt_gen_counter = gen_first, fs_plan_counter = min_id,
     fs_plan_gen_counter = gen_first, fs_route_counter = min_id, fs_route_gen_counter = gen_first,
     fs_activation_counter = min_id, fs_activation_gen_counter = gen_first,
     fs_gateway_boot = id_null, fs_coordinator_id = min_id, fs_fenced_boots = [],
     fs_attempt_states = [], fs_confirmed_failed_targets = {}, fs_receipt_seq = 0,
     fs_preferred = Map.empty, fs_last_transition = Map.empty, fs_failback_attempts = Map.empty,
     fs_manual_failback_authorized = {}, fs_dispatch_count = 0, fs_ready_since = Map.empty,
     fs_checkpoint_path = [], fs_barrier_milestone = Milestone.VERIFICATION_COMPLETE,
     fs_has_txn = False, fs_txn_milestone = Milestone.INTENT_ONLY, fs_pending_assignment = None,
     fs_source_assignment = None, fs_pending_route = None\<rparr>"

text \<open>The finders return the position with the element, so that a write goes to that position.\<close>

definition find_slot :: "FabricState \<Rightarrow> ServiceSlotKey \<Rightarrow> SlotState option" where
  "find_slot s k = map_option (\<lambda>n. fs_slots s ! n) (fs_slot_index s k)"

definition find_target :: "FabricState \<Rightarrow> TargetId \<Rightarrow> TargetRecord option" where
  "find_target s t = map_option (\<lambda>n. fs_targets s ! n) (fs_target_index s t)"

definition find_service :: "FabricState \<Rightarrow> ServiceId \<Rightarrow> ServiceDefinition option" where
  "find_service s i = map_option (\<lambda>n. fs_services s ! n) (fs_service_index s i)"

definition service_for_slot :: "FabricState \<Rightarrow> ServiceSlotKey \<Rightarrow> ServiceDefinition option" where
  "service_for_slot s k = find_service s (sk_service k)"

text \<open>Writing through the pointer \<open>find_slot\<close> or \<open>find_target\<close> returned.\<close>

definition upd_slot :: "FabricState \<Rightarrow> ServiceSlotKey \<Rightarrow> (SlotState \<Rightarrow> SlotState) \<Rightarrow> FabricState" where
  "upd_slot s k f = (case fs_slot_index s k of
     None \<Rightarrow> s | Some n \<Rightarrow> s\<lparr>fs_slots := (fs_slots s)[n := f (fs_slots s ! n)]\<rparr>)"

definition upd_target :: "FabricState \<Rightarrow> TargetId \<Rightarrow> (TargetRecord \<Rightarrow> TargetRecord) \<Rightarrow> FabricState" where
  "upd_target s t f = (case fs_target_index s t of
     None \<Rightarrow> s | Some n \<Rightarrow> s\<lparr>fs_targets := (fs_targets s)[n := f (fs_targets s ! n)]\<rparr>)"

definition empty_slot :: "ServiceSlotKey \<Rightarrow> SlotState" where
  "empty_slot k = \<lparr>ss_slot = k, ss_current = None, ss_history = []\<rparr>"

text \<open>\<^verbatim>\<open>slot_index[k] = slots.size(); slots.push_back(SlotState{k, nullopt, {}})\<close>.\<close>

definition add_slot :: "FabricState \<Rightarrow> ServiceSlotKey \<Rightarrow> FabricState" where
  "add_slot s k = s\<lparr>fs_slot_index := (fs_slot_index s)(k \<mapsto> length (fs_slots s)),
                   fs_slots := fs_slots s @ [empty_slot k]\<rparr>"

definition boot_fenced :: "FabricState \<Rightarrow> WorkerBootId \<Rightarrow> bool" where
  "boot_fenced s b \<longleftrightarrow> b \<in> set (fs_fenced_boots s)"

definition add_fenced_boot :: "FabricState \<Rightarrow> WorkerBootId \<Rightarrow> FabricState" where
  "add_fenced_boot s b =
     (if \<not> id_is_null b \<and> \<not> boot_fenced s b then s\<lparr>fs_fenced_boots := fs_fenced_boots s @ [b]\<rparr> else s)"

definition infer_continuity :: "CandidateState \<Rightarrow> CandidateFacts \<Rightarrow> ContinuityClass" where
  "infer_continuity st facts =
     (if state_usable st \<and> cs_checkpoint_generation st \<noteq> None then ContinuityClass.CHECKPOINT_RESTORE
      else if state_usable st \<and> cs_state_generation st \<noteq> None then ContinuityClass.SESSION_STATE_REBIND
      else if cf_ready facts then ContinuityClass.REPLAY_SAFE_REQUESTS
      else ContinuityClass.STATELESS_RESTART)"

definition crit_path_ms :: "CandidateCosts \<Rightarrow> u64" where
  "crit_path_ms c = max (cc_estimated_prep_ms c) (cc_state_restore_ms c) + 20 + 20 + 20 + 100"

definition make_auth ::
    "CoordinatorEpoch \<Rightarrow> Assignment \<Rightarrow> Candidate \<Rightarrow> RequestId \<Rightarrow> ExecutionId \<Rightarrow> string \<Rightarrow> WorkerAuthorization" where
  "make_auth epoch a c req ex oper = \<lparr>wa_epoch = epoch, wa_slot = asg_slot a, wa_assignment = asg_id a,
     wa_assignment_generation = asg_generation a, wa_route_generation = asg_route_generation a,
     wa_incarnation = cf_engine_incarnation (cand_facts c), wa_request = req, wa_execution = ex,
     wa_operation = oper, wa_worker_boot = cf_worker_boot (cand_facts c)\<rparr>"

section \<open>Control plane, services and assignments\<close>

definition set_coordinator_identity :: "FabricState \<Rightarrow> CoordinatorId \<Rightarrow> u64 \<Rightarrow> FabricState" where
  "set_coordinator_identity s i epoch =
     s\<lparr>fs_coordinator_id := i, fs_epoch := \<lparr>ep_epoch = epoch, ep_id = i, ep_boot = i\<rparr>\<rparr>"

definition set_gateway_boot :: "FabricState \<Rightarrow> GatewayBootId \<Rightarrow> FabricState" where
  "set_gateway_boot s boot = s\<lparr>fs_gateway_boot := boot\<rparr>"

definition create_service :: "FabricState \<Rightarrow> ServiceDefinition \<Rightarrow> FabricState result" where
  "create_service s def =
     (if cfg_max_services (fs_cfg s) \<le> length (fs_services s)
      then Inl (CapacityExceeded ''max_services exceeded'')
      else if list_ex (\<lambda>d. sd_service d = sd_service def) (fs_services s)
      then Inl (InvalidArgument ''service already exists with same identity'')
      else Inr (s\<lparr>fs_service_index := (fs_service_index s)(sd_service def \<mapsto> length (fs_services s)),
                  fs_services := fs_services s @ [def]\<rparr>))"

definition get_service :: "FabricState \<Rightarrow> ServiceId \<Rightarrow> ServiceDefinition option" where
  "get_service s i = find_service s i"

definition service_slots :: "FabricState \<Rightarrow> ServiceId \<Rightarrow> ServiceSlotKey list" where
  "service_slots s i =
     (case find_service s i of
        None \<Rightarrow> []
      | Some svc \<Rightarrow> map (\<lambda>n. SlotKey i (Id (ucast (srng_first (sd_slots svc) + of_nat n))))
                       [0..<unat (srng_count (sd_slots svc))])"

text \<open>The assignment as it is stored: active, with the last authority generation if it has none.\<close>

definition initial_assignment :: "FabricState \<Rightarrow> Assignment \<Rightarrow> Assignment" where
  "initial_assignment s a =
     (let a1 = a\<lparr>asg_state := AssignmentState.ACTIVE, asg_provisory := False\<rparr>
      in if gen_is_null (asg_authority_generation a1)
         then a1\<lparr>asg_authority_generation := fs_last_authority_gen s\<rparr> else a1)"

definition set_initial_assignment :: "FabricState \<Rightarrow> int \<Rightarrow> Assignment \<Rightarrow> FabricState result" where
  "set_initial_assignment s now a =
     (let k = asg_slot a
      in if id_is_null (sk_service k) \<or> id_is_null (sk_slot k)
         then Inl (InvalidArgument ''assignment slot is null'')
         else if (case find_slot s k of Some st \<Rightarrow> ss_current st \<noteq> None | None \<Rightarrow> False)
         then Inl (LogicError ''slot already has a current assignment'')
         else
           (let s1 = (if find_slot s k = None then add_slot s k else s);
                s2 = s1\<lparr>fs_preferred := (fs_preferred s1)(k \<mapsto> asg_target a),
                        fs_last_transition := (fs_last_transition s1)(k \<mapsto> now),
                        fs_failback_attempts := (fs_failback_attempts s1)(k \<mapsto> 0)\<rparr>
            in Inr (upd_slot s2 k (\<lambda>st. st\<lparr>ss_current := Some (initial_assignment s2 a)\<rparr>))))"

definition current_assignment :: "FabricState \<Rightarrow> ServiceSlotKey \<Rightarrow> Assignment option" where
  "current_assignment s k = (case find_slot s k of None \<Rightarrow> None | Some st \<Rightarrow> ss_current st)"

definition assignment_history :: "FabricState \<Rightarrow> ServiceSlotKey \<Rightarrow> nat \<Rightarrow> Assignment list" where
  "assignment_history s k mx = (case find_slot s k of None \<Rightarrow> [] | Some st \<Rightarrow> take mx (ss_history st))"

definition ff_declare_domain :: "FabricState \<Rightarrow> DomainDecl \<Rightarrow> FabricState" where
  "ff_declare_domain s d = s\<lparr>fs_domains := declare_domain (fs_domains s) d\<rparr>"

definition ff_set_membership :: "FabricState \<Rightarrow> DomainMembership \<Rightarrow> FabricState" where
  "ff_set_membership s m = s\<lparr>fs_domains := set_membership (fs_domains s) m\<rparr>"

section \<open>Candidate registration and failure evidence\<close>

definition new_target :: "TargetId \<Rightarrow> string \<Rightarrow> TargetRecord" where
  "new_target t transport = \<lparr>tr_id = t, tr_transport = transport, tr_facts = None,
     tr_has_state = False, tr_state = default_CandidateState, tr_resources = []\<rparr>"

definition register_target :: "FabricState \<Rightarrow> TargetId \<Rightarrow> string \<Rightarrow> FabricState result" where
  "register_target s t transport =
     (if cfg_max_targets (fs_cfg s) \<le> length (fs_targets s)
      then Inl (CapacityExceeded ''max_targets exceeded'')
      else if find_target s t = None
      then Inr (s\<lparr>fs_target_index := (fs_target_index s)(t \<mapsto> length (fs_targets s)),
                  fs_targets := fs_targets s @ [new_target t transport]\<rparr>)
      else Inr s)"

definition publish_candidate_facts :: "FabricState \<Rightarrow> int \<Rightarrow> CandidateFacts \<Rightarrow> FabricState result" where
  "publish_candidate_facts s now f =
     (case fs_target_index s (cf_target f) of
        None \<Rightarrow> Inl (InvalidArgument ''target not registered'')
      | Some n \<Rightarrow>
          (let t = fs_targets s ! n
           in if (case tr_facts t of None \<Rightarrow> True
                  | Some g \<Rightarrow> gen_value (cf_readiness_generation g) \<le> gen_value (cf_readiness_generation f))
              then
                (let f1 = f\<lparr>cf_evidence_fresh := True\<rparr>;
                     same_svc = (case tr_facts t of None \<Rightarrow> False | Some g \<Rightarrow> cf_service g = cf_service f);
                     s1 = (if cf_service f \<noteq> id_null \<and> \<not> same_svc
                           then s\<lparr>fs_targets_by_service := push_index (fs_targets_by_service s) (cf_service f) n\<rparr>
                           else s);
                     s2 = (if cf_ready f
                           then s1\<lparr>fs_confirmed_failed_targets := fs_confirmed_failed_targets s1 - {cf_target f}\<rparr>
                           else s1);
                     s3 = (if cf_ready f
                           then s2\<lparr>fs_ready_since := (fs_ready_since s2)(cf_target f \<mapsto> now)\<rparr> else s2)
                 in Inr (upd_target s3 (cf_target f) (\<lambda>t. t\<lparr>tr_facts := Some f1\<rparr>)))
              else Inr s))"

definition publish_candidate_state :: "FabricState \<Rightarrow> TargetId \<Rightarrow> CandidateState \<Rightarrow> FabricState result" where
  "publish_candidate_state s t st =
     (if find_target s t = None then Inl (InvalidArgument ''target not registered'')
      else Inr (upd_target s t (\<lambda>r. r\<lparr>tr_state := st, tr_has_state := True\<rparr>)))"

definition publish_candidate_resources ::
    "FabricState \<Rightarrow> TargetId \<Rightarrow> CandidateResource list \<Rightarrow> FabricState result" where
  "publish_candidate_resources s t crs =
     (if find_target s t = None then Inl (InvalidArgument ''target not registered'')
      else Inr (upd_target s t (\<lambda>r. r\<lparr>tr_resources := crs\<rparr>)))"

definition publish_failure :: "FabricState \<Rightarrow> FailureEvent \<Rightarrow> FabricState" where
  "publish_failure s ev =
     (let (s1, ev1) =
            (if ts_seq (ev_received ev) = 0
             then (s\<lparr>fs_receipt_seq := fs_receipt_seq s + 1\<rparr>,
                   ev\<lparr>ev_received := (ev_received ev)\<lparr>ts_seq := fs_receipt_seq s + 1\<rparr>\<rparr>)
             else (s, ev));
          s2 = (case ev_target ev1 of
                  Some t \<Rightarrow> if ev_status ev1 = EvidenceStatus.CONFIRMED \<or> ev_status ev1 = EvidenceStatus.UNKNOWN
                           then s1\<lparr>fs_confirmed_failed_targets := insert t (fs_confirmed_failed_targets s1)\<rparr>
                           else s1
                | None \<Rightarrow> s1)
      in s2\<lparr>fs_evidence := fst (ev_publish (fs_evidence s2) ev1)\<rparr>)"

definition clear_failure :: "FabricState \<Rightarrow> FailureEventId \<Rightarrow> FabricState" where
  "clear_failure s i = s\<lparr>fs_evidence := ev_clear (fs_evidence s) i\<rparr>"

definition ff_failures_for :: "FabricState \<Rightarrow> TargetId \<Rightarrow> nat \<Rightarrow> FailureEvent list" where
  "ff_failures_for s t mx = failures_for (fs_evidence s) t mx"

section \<open>Snapshots, selection and planning\<close>

text \<open>
  \<open>emit\<close>. The range-for over \<^verbatim>\<open>c.domains\<close> appends to the vector it walks; the model gives the
  domains with the ancestors of each, the result when the vector does not reallocate. No
  other code reads the field.
\<close>

definition emit_candidate :: "DomainRegistry \<Rightarrow> TargetRecord \<Rightarrow> CandidateFacts \<Rightarrow> Candidate" where
  "emit_candidate reg t f =
     (let doms = domains_of reg (tr_id t);
          has = (tr_has_state t \<and> cs_state_available (tr_state t));
          costs0 = default_CandidateCosts\<lparr>cc_estimated_prep_ms := (if cf_ready f then 0 else 5000),
                     cc_state_restore_ms := (if has then 200 else 0), cc_estimated_cutover_ms := 50\<rparr>;
          costs = costs0\<lparr>cc_estimated_critical_path_ms := crit_path_ms costs0,
                     cc_state_loss_sequences := (if has then 0 else 1000), cc_cost_estimated := True\<rparr>
      in default_Candidate\<lparr>cand_facts := f, cand_state := tr_state t, cand_resources := tr_resources t,
           cand_domains := doms @ concat (map (ancestors_of reg) doms),
           cand_continuity := Some (infer_continuity (tr_state t) f), cand_costs := costs\<rparr>)"

definition emit :: "FabricState \<Rightarrow> nat \<Rightarrow> Candidate list" where
  "emit s n = (let t = fs_targets s ! n
               in case tr_facts t of None \<Rightarrow> [] | Some f \<Rightarrow> [emit_candidate (fs_domains s) t f])"

definition scan_admits :: "ServiceDefinition option \<Rightarrow> TargetRecord \<Rightarrow> bool" where
  "scan_admits svc t =
     (let want_model = (case svc of None \<Rightarrow> [] | Some d \<Rightarrow> compat_model_key (sd_compatibility d));
          want_abi = (case svc of None \<Rightarrow> [] | Some d \<Rightarrow> compat_runtime_abi (sd_compatibility d))
      in case tr_facts t of
           None \<Rightarrow> False
         | Some f \<Rightarrow> \<not> (want_model \<noteq> [] \<and> cf_model_key f \<noteq> want_model) \<and>
                    \<not> (want_abi \<noteq> [] \<and> cf_runtime_abi f \<noteq> want_abi))"

definition snapshot_positions :: "FabricState \<Rightarrow> ServiceSlotKey \<Rightarrow> nat list" where
  "snapshot_positions s k =
     (case fs_targets_by_service s (sk_service k) of
        Some (n # ns) \<Rightarrow> n # ns
      | _ \<Rightarrow> filter (\<lambda>n. scan_admits (service_for_slot s k) (fs_targets s ! n)) [0..<length (fs_targets s)])"

definition snapshot_locked ::
    "FabricState \<Rightarrow> ServiceSlotKey \<Rightarrow> (FabricState \<times> CandidateSnapshot) result" where
  "snapshot_locked s k =
     bindE (gen_next (fs_snapshot_counter s)) (\<lambda>g.
       Inr (s\<lparr>fs_snapshot_counter := g\<rparr>,
            default_CandidateSnapshot\<lparr>snap_generation := g, snap_slot := k,
              snap_candidates := take (cfg_max_candidates_per_snapshot (fs_cfg s))
                (concat (map (emit s) (snapshot_positions s k)))\<rparr>))"

definition uniq :: "'a::linorder list \<Rightarrow> 'a list" where
  "uniq xs = remdups_adj (sort xs)"

definition build_context :: "FabricState \<Rightarrow> ServiceSlotKey \<Rightarrow> SelectionContext" where
  "build_context s k =
     (let failed = (case current_assignment s k of None \<Rightarrow> id_null | Some a \<Rightarrow> asg_target a);
          bound = (case fs_targets_by_service s (sk_service k) of
                     None \<Rightarrow> [] | Some ns \<Rightarrow> map (\<lambda>n. tr_id (fs_targets s ! n)) ns);
          relevant = bound @ (if failed \<noteq> id_null then [failed] else []);
          confirmed = filter (\<lambda>t. t \<in> fs_confirmed_failed_targets s) relevant;
          failed_doms = concat (map (domains_of (fs_domains s)) confirmed)
      in default_SelectionContext\<lparr>ctx_now_receipt_seq := fs_receipt_seq s, ctx_failed_target := failed,
           ctx_confirmed_failed_targets := uniq confirmed, ctx_failed_domains := uniq failed_doms,
           ctx_fenced_boots := fs_fenced_boots s,
           ctx_current_route_gen := map_option re_generation (current_route (fs_routes s) k)\<rparr>)"

definition ff_select :: "FabricState \<Rightarrow> ServiceSlotKey \<Rightarrow> (FabricState \<times> SelectionResult) result" where
  "ff_select s k =
     (case service_for_slot s k of
        None \<Rightarrow> Inr (s, default_SelectionResult)
      | Some svc \<Rightarrow>
          bindE (snapshot_locked s k) (\<lambda>(s1, snap).
            Inr (s1, select snap svc (fs_domains s1) (build_context s1 k))))"

definition eligible_candidates :: "FabricState \<Rightarrow> ServiceSlotKey \<Rightarrow> (FabricState \<times> Candidate list) result" where
  "eligible_candidates s k =
     (case service_for_slot s k of
        None \<Rightarrow> Inr (s, [])
      | Some svc \<Rightarrow>
          bindE (snapshot_locked s k) (\<lambda>(s1, snap).
            let r = select snap svc (fs_domains s1) (build_context s1 k)
            in Inr (s1, (case sel_selected r of None \<Rightarrow> [] | Some c \<Rightarrow> [c]) @ sel_evaluated_alternatives r)))"

definition plan_fencing :: FencingRequirement where
  "plan_fencing = \<lparr>freq_require_gateway_dispatch = True, freq_require_worker_admission = True,
     freq_require_result_acceptance = True, freq_require_coordinator_authority = True,
     freq_require_external_effect_boundary = False,
     freq_effect_sink_note = ''reference coordinator/gateway/worker gates enforce generation-bound authority''\<rparr>"

text \<open>The generations of the plan: its own, then that of the route it will install.\<close>

definition plan_route :: "FabricState \<Rightarrow> ServiceSlotKey \<Rightarrow> (RouteId \<times> RouteGeneration) result" where
  "plan_route s k =
     (case current_route (fs_routes s) k of
        Some r \<Rightarrow> bindE (gen_next (re_generation r)) (\<lambda>g. Inr (re_route r, g))
      | None \<Rightarrow> bindE (gen_next (fs_route_gen_counter s)) (\<lambda>g. Inr (id_next (fs_route_counter s), g)))"

definition plan_failover_pref ::
    "FabricState \<Rightarrow> ServiceSlotKey \<Rightarrow> TargetId option \<Rightarrow> FabricState \<times> FailoverPlan option result" where
  "plan_failover_pref s k pref =
     (case service_for_slot s k of
        None \<Rightarrow> (s, Inr None)
      | Some svc \<Rightarrow>
          (case snapshot_locked s k of
             Inl e \<Rightarrow> (s, Inl e)
           | Inr (s1, snap) \<Rightarrow>
               (let ctx = (build_context s1 k)\<lparr>ctx_preferred_target := pref\<rparr>;
                    sr = select snap svc (fs_domains s1) ctx
                in case (if sel_has_selection sr then sel_selected sr else None) of
                     None \<Rightarrow> (s1, Inr None)
                   | Some c \<Rightarrow>
                       (s1, bindE (gen_next (fs_plan_gen_counter s1)) (\<lambda>pg.
                            bindE (plan_route s1 k) (\<lambda>(route, rg).
                              Inr (Some (record_milestone
                                \<lparr>fp_plan = id_next (fs_plan_counter s1), fp_generation = pg, fp_slot = k,
                                 fp_source_assignment = current_assignment s1 k,
                                 fp_triggering_evidence = failures_for (fs_evidence s1) (ctx_failed_target ctx) 4,
                                 fp_snapshot = snap, fp_selected = Some c,
                                 fp_continuity = (case cand_continuity c of
                                    None \<Rightarrow> ContinuityClass.UNKNOWN | Some x \<Rightarrow> x),
                                 fp_resource_commitments_domain = [], fp_fencing_requirement = plan_fencing,
                                 fp_requested_route = route, fp_requested_route_generation = rg,
                                 fp_recovery_objective = sd_recovery svc,
                                 fp_estimated_stages = default_RecoveryEstimate, fp_rollback_boundaries = [],
                                 fp_policy_gen = sd_policy_generation svc, fp_reached_milestones = [],
                                 fp_provenance = Provenance.DERIVED\<rparr> Milestone.INTENT_ONLY))))))))"

definition plan_failover :: "FabricState \<Rightarrow> ServiceSlotKey \<Rightarrow> FabricState \<times> FailoverPlan option result" where
  "plan_failover s k = plan_failover_pref s k None"

section \<open>Failback decisions\<close>

record FailbackDecision =
  fbd_authorized :: bool
  fbd_reason :: string
  fbd_in_cooldown :: bool
  fbd_attempts_exhausted :: bool
  fbd_stale_readiness :: bool
  fbd_policy_refused :: bool
  fbd_hysteresis_not_met :: bool
  fbd_remaining_cooldown_ms :: u64
  fbd_remaining_hysteresis_ms :: u64

definition default_FailbackDecision :: FailbackDecision where
  "default_FailbackDecision = \<lparr>fbd_authorized = False, fbd_reason = [], fbd_in_cooldown = False,
     fbd_attempts_exhausted = False, fbd_stale_readiness = False, fbd_policy_refused = False,
     fbd_hysteresis_not_met = False, fbd_remaining_cooldown_ms = 0, fbd_remaining_hysteresis_ms = 0\<rparr>"

text \<open>
  The gates after the policy, in their order. The clock is read once for the cooldown and
  once for the hysteresis window.
\<close>

definition failback_budget :: "FabricState \<Rightarrow> ServiceSlotKey \<Rightarrow> AntiFlappingPolicy \<Rightarrow> FailbackDecision" where
  "failback_budget s k afp =
     (if (case fs_failback_attempts s k of None \<Rightarrow> False | Some n \<Rightarrow> afp_max_auto_attempts afp \<le> n)
      then default_FailbackDecision\<lparr>fbd_attempts_exhausted := True,
             fbd_reason := ''failback attempt budget exhausted''\<rparr>
      else default_FailbackDecision\<lparr>fbd_authorized := True, fbd_reason := ''failback authorized''\<rparr>)"

definition failback_hysteresis ::
    "FabricState \<Rightarrow> ServiceSlotKey \<Rightarrow> AntiFlappingPolicy \<Rightarrow> TargetId \<Rightarrow> int \<Rightarrow> FailbackDecision" where
  "failback_hysteresis s k afp pref now =
     (if 0 < afp_hysteresis_ms afp
      then (case fs_ready_since s pref of
              None \<Rightarrow> default_FailbackDecision\<lparr>fbd_hysteresis_not_met := True,
                        fbd_reason := ''preferred target not stably ready (hysteresis)''\<rparr>
            | Some since \<Rightarrow>
                let h = duration_ms (now - since)
                in if 0 \<le> h \<and> h < uint (afp_hysteresis_ms afp)
                   then default_FailbackDecision\<lparr>fbd_hysteresis_not_met := True,
                          fbd_remaining_hysteresis_ms := of_int (uint (afp_hysteresis_ms afp) - h),
                          fbd_reason := ''failback in hysteresis window''\<rparr>
                   else failback_budget s k afp)
      else failback_budget s k afp)"

definition failback_cooldown ::
    "FabricState \<Rightarrow> ServiceSlotKey \<Rightarrow> AntiFlappingPolicy \<Rightarrow> TargetId \<Rightarrow> int \<Rightarrow> int \<Rightarrow> FailbackDecision" where
  "failback_cooldown s k afp pref now now' =
     (case fs_last_transition s k of
        None \<Rightarrow> failback_hysteresis s k afp pref now'
      | Some t0 \<Rightarrow>
          let elapsed = duration_ms (now - t0)
          in if 0 \<le> elapsed \<and> elapsed < uint (afp_cooldown_ms afp)
             then default_FailbackDecision\<lparr>fbd_in_cooldown := True,
                    fbd_remaining_cooldown_ms := of_int (uint (afp_cooldown_ms afp) - elapsed),
                    fbd_reason := ''failback in cooldown''\<rparr>
             else failback_hysteresis s k afp pref now')"

definition policy_refusal :: "FabricState \<Rightarrow> ServiceSlotKey \<Rightarrow> FailbackPolicy \<Rightarrow> string option" where
  "policy_refusal s k p =
     (case p of
        FailbackPolicy.STAY_ON_CURRENT \<Rightarrow> Some ''failback policy stays on current''
      | FailbackPolicy.MANUAL \<Rightarrow>
          if k \<notin> fs_manual_failback_authorized s then Some ''manual failback authorization required'' else None
      | FailbackPolicy.RETURN_AFTER_VALIDATION \<Rightarrow> None)"

definition target_fresh_ready :: "FabricState \<Rightarrow> TargetId \<Rightarrow> bool" where
  "target_fresh_ready s t =
     (case find_target s t of
        None \<Rightarrow> False
      | Some tr \<Rightarrow> (case tr_facts tr of None \<Rightarrow> False | Some f \<Rightarrow> cf_ready f \<and> cf_evidence_fresh f))"

definition evaluate_failback :: "FabricState \<Rightarrow> int \<Rightarrow> int \<Rightarrow> ServiceSlotKey \<Rightarrow> FailbackDecision" where
  "evaluate_failback s now now' k =
     (case service_for_slot s k of
        None \<Rightarrow> default_FailbackDecision\<lparr>fbd_reason := ''service not found''\<rparr>
      | Some svc \<Rightarrow>
     (case current_assignment s k of
        None \<Rightarrow> default_FailbackDecision\<lparr>fbd_reason := ''no current assignment''\<rparr>
      | Some cur \<Rightarrow>
     (case fs_preferred s k of
        None \<Rightarrow> default_FailbackDecision\<lparr>fbd_reason := ''no preferred target''\<rparr>
      | Some pref \<Rightarrow>
          if asg_target cur = pref
          then default_FailbackDecision\<lparr>fbd_reason := ''already on preferred target''\<rparr>
          else (case policy_refusal s k (sd_failback svc) of
             Some why \<Rightarrow> default_FailbackDecision\<lparr>fbd_policy_refused := True, fbd_reason := why\<rparr>
           | None \<Rightarrow>
               if \<not> target_fresh_ready s pref
               then default_FailbackDecision\<lparr>fbd_stale_readiness := True,
                      fbd_reason := ''preferred target readiness stale or unavailable''\<rparr>
               else failback_cooldown s k (sd_anti_flapping svc) pref now now'))))"

definition authorize_failback :: "FabricState \<Rightarrow> ServiceSlotKey \<Rightarrow> FabricState" where
  "authorize_failback s k = s\<lparr>fs_manual_failback_authorized := insert k (fs_manual_failback_authorized s)\<rparr>"

definition set_checkpoint_path :: "FabricState \<Rightarrow> string \<Rightarrow> FabricState" where
  "set_checkpoint_path s path = s\<lparr>fs_checkpoint_path := path\<rparr>"

definition set_cutover_barrier :: "FabricState \<Rightarrow> Milestone \<Rightarrow> FabricState" where
  "set_cutover_barrier s m = s\<lparr>fs_barrier_milestone := m\<rparr>"

definition clear_cutover_barrier :: "FabricState \<Rightarrow> FabricState" where
  "clear_cutover_barrier s = s\<lparr>fs_barrier_milestone := Milestone.VERIFICATION_COMPLETE\<rparr>"

definition has_incomplete_cutover :: "FabricState \<Rightarrow> bool" where
  "has_incomplete_cutover s \<longleftrightarrow> fs_has_txn s \<and> fs_txn_milestone s < Milestone.VERIFICATION_COMPLETE"

section \<open>Requests, the gate and routes\<close>

definition record_request :: "FabricState \<Rightarrow> RequestRecord \<Rightarrow> FabricState" where
  "record_request s r = s\<lparr>fs_requests := trk_record (fs_requests s) r\<rparr>"

definition ff_classify_late_result ::
    "FabricState \<Rightarrow> RequestId \<Rightarrow> WorkerAuthorization \<Rightarrow> FabricState \<times> LateOutcome" where
  "ff_classify_late_result s i auth =
     (let (t, out) = classify_late_result (fs_requests s) i auth in (s\<lparr>fs_requests := t\<rparr>, out))"

text \<open>The copy of the record that the function changes first is discarded.\<close>

definition mark_outcome_unknown :: "FabricState \<Rightarrow> RequestId \<Rightarrow> ServiceSlotKey \<Rightarrow> FabricState" where
  "mark_outcome_unknown s i k = s\<lparr>fs_requests := set_outcome_unknown (fs_requests s) i\<rparr>"

definition request_state :: "FabricState \<Rightarrow> RequestId \<Rightarrow> RequestRecord option" where
  "request_state s i = find_request (fs_requests s) i"

definition record_dispatch :: "FabricState \<Rightarrow> FabricState" where
  "record_dispatch s = s\<lparr>fs_dispatch_count := fs_dispatch_count s + 1\<rparr>"

definition retry_allowed :: "FabricState \<Rightarrow> RequestId \<Rightarrow> bool" where
  "retry_allowed s i =
     (case find_request (fs_requests s) i of None \<Rightarrow> False | Some r \<Rightarrow> retry_allowed_record r)"

definition deny :: "string \<Rightarrow> GateDecision" where
  "deny why = \<lparr>gd_allowed = False, gd_reason = why, gd_fail_closed = True\<rparr>"

definition allow :: "string \<Rightarrow> GateDecision" where
  "allow why = \<lparr>gd_allowed = True, gd_reason = why, gd_fail_closed = False\<rparr>"

definition route_blocks_dispatch :: "RouteState \<Rightarrow> bool" where
  "route_blocks_dispatch st \<longleftrightarrow>
     st = RouteState.REVALIDATION_REQUIRED \<or> st = RouteState.EMPTY \<or> st = RouteState.STALE"

definition dispatch_allowed_locked :: "FabricState \<Rightarrow> WorkerAuthorization \<Rightarrow> GateDecision" where
  "dispatch_allowed_locked s auth =
     (case current_assignment s (wa_slot auth) of
        None \<Rightarrow> deny ''no current assignment for slot''
      | Some cur \<Rightarrow>
          if wa_epoch auth \<noteq> fs_epoch s then deny ''stale coordinator epoch''
          else if wa_assignment auth \<noteq> asg_id cur \<or> wa_assignment_generation auth \<noteq> asg_generation cur
          then deny ''stale assignment generation''
          else if wa_route_generation auth \<noteq> asg_route_generation cur then deny ''stale route generation''
          else if (case current_route (fs_routes s) (wa_slot auth) of
                     None \<Rightarrow> False | Some rt \<Rightarrow> route_blocks_dispatch (re_state rt))
          then deny ''route requires revalidation''
          else if wa_worker_boot auth \<noteq> asg_worker_boot cur then deny ''worker boot not current''
          else if boot_fenced s (wa_worker_boot auth) then deny ''fenced worker boot''
          else if asg_state cur \<noteq> AssignmentState.ACTIVE then deny ''assignment not active''
          else allow ''authorized'')"

definition authorize_dispatch :: "FabricState \<Rightarrow> WorkerAuthorization \<Rightarrow> GateDecision" where
  "authorize_dispatch s auth = dispatch_allowed_locked s auth"

definition authorize_result :: "FabricState \<Rightarrow> WorkerAuthorization \<Rightarrow> GateDecision" where
  "authorize_result s auth =
     (let d = dispatch_allowed_locked s auth
      in if \<not> gd_allowed d then d
         else (case find_request (fs_requests s) (wa_request auth) of
                 None \<Rightarrow> deny ''unknown request''
               | Some r \<Rightarrow> if rq_disposition r = RequestDisposition.RESPONSE_COMMITTED
                          then deny ''response already committed''
                          else allow ''authorized result''))"

definition install_route :: "FabricState \<Rightarrow> RouteEntry \<Rightarrow> GatewayBootId \<Rightarrow> FabricState \<times> bool" where
  "install_route s e boot =
     (if re_epoch e \<noteq> fs_epoch s then (s, False)
      else (let (t, ok) = rt_install (fs_routes s)
                  (e\<lparr>re_state := RouteState.ACKNOWLEDGED, re_gateway_boot := boot\<rparr>)
            in (s\<lparr>fs_routes := t\<rparr>, ok)))"

definition bind_route_gateway :: "FabricState \<Rightarrow> ServiceSlotKey \<Rightarrow> GatewayBootId \<Rightarrow> FabricState \<times> bool" where
  "bind_route_gateway s k boot =
     (let (t, ok) = rt_bind_gateway (fs_routes s) k boot in (s\<lparr>fs_routes := t\<rparr>, ok))"

definition ff_current_route :: "FabricState \<Rightarrow> ServiceSlotKey \<Rightarrow> RouteEntry option" where
  "ff_current_route s k =
     (case current_route (fs_routes s) k of
        Some r \<Rightarrow> if re_state r = RouteState.EMPTY then None else Some r
      | None \<Rightarrow> None)"

definition ff_route_history :: "FabricState \<Rightarrow> ServiceSlotKey \<Rightarrow> nat \<Rightarrow> RouteEntry list" where
  "ff_route_history s k mx = route_history (fs_routes s) k mx"

definition mark_routes_revalidation :: "FabricState \<Rightarrow> FabricState" where
  "mark_routes_revalidation s = s\<lparr>fs_routes := mark_revalidation_required (fs_routes s)\<rparr>"

definition service_outcome :: "FabricState \<Rightarrow> ServiceSlotKey \<Rightarrow> ServiceOutcome" where
  "service_outcome s k =
     (case current_assignment s k of
        None \<Rightarrow> ServiceOutcome.UNAVAILABLE
      | Some cur \<Rightarrow>
          (let r = current_route (fs_routes s) k
           in if map_option re_state r = Some RouteState.REVALIDATION_REQUIRED
              then ServiceOutcome.REVALIDATION_REQUIRED
              else if asg_state cur = AssignmentState.ACTIVE \<and>
                      map_option re_state r = Some RouteState.ACKNOWLEDGED
              then (if latest_failure_for (fs_evidence s) (asg_target cur) \<noteq> None
                    then ServiceOutcome.DEGRADED else ServiceOutcome.AVAILABLE)
              else if asg_state cur = AssignmentState.DRAINING \<or>
                      asg_state cur = AssignmentState.REVALIDATION_REQUIRED
              then ServiceOutcome.REVALIDATION_REQUIRED
              else ServiceOutcome.UNAVAILABLE))"

section \<open>Saving and restoring\<close>

text \<open>What \<open>save\<close> writes, and what \<open>load\<close> makes of a decoded snapshot.\<close>

definition save_snapshot :: "FabricState \<Rightarrow> PersistenceSnapshot" where
  "save_snapshot s = \<lparr>ps_format_version = 2, ps_epoch = fs_epoch s, ps_policy_generation = fs_policy_gen s,
     ps_last_authority_gen = fs_last_authority_gen s, ps_services = fs_services s,
     ps_assignments = concat (map (\<lambda>st. (case ss_current st of None \<Rightarrow> [] | Some a \<Rightarrow> [a]) @ ss_history st)
                                  (fs_slots s)),
     ps_domains = reg_domains (fs_domains s), ps_memberships = reg_memberships (fs_domains s),
     ps_evidence = all_evidence (fs_evidence s), ps_routes = all_routes (fs_routes s),
     ps_fenced_boots = fs_fenced_boots s, ps_has_txn = fs_has_txn s,
     ps_txn_milestone = fs_txn_milestone s, ps_pending_assignment = fs_pending_assignment s,
     ps_source_assignment = fs_source_assignment s, ps_pending_route = fs_pending_route s\<rparr>"

definition load_assignment :: "FabricState \<Rightarrow> Assignment \<Rightarrow> FabricState" where
  "load_assignment s a =
     (let s1 = (if find_slot s (asg_slot a) = None then add_slot s (asg_slot a) else s)
      in upd_slot s1 (asg_slot a) (\<lambda>st.
           if asg_state a = AssignmentState.ACTIVE then st\<lparr>ss_current := Some a\<rparr>
           else st\<lparr>ss_history := ss_history st @ [a]\<rparr>))"

definition index_services :: "ServiceDefinition list \<Rightarrow> ServiceId \<rightharpoonup> nat" where
  "index_services svcs = foldl (\<lambda>m n. m(sd_service (svcs ! n) \<mapsto> n)) Map.empty [0..<length svcs]"

definition stale_target :: "TargetRecord \<Rightarrow> TargetRecord" where
  "stale_target t = t\<lparr>tr_facts := map_option (\<lambda>f. f\<lparr>cf_ready := False, cf_evidence_fresh := False\<rparr>) (tr_facts t)\<rparr>"

text \<open>The reconciliation of an interrupted cutover.\<close>

definition reconcile_slot :: "FabricState \<Rightarrow> SlotState \<Rightarrow> SlotState" where
  "reconcile_slot s st =
     (case ss_current st of
        None \<Rightarrow> st
      | Some a \<Rightarrow>
          if asg_state a = AssignmentState.ACTIVE \<and>
             (boot_fenced s (asg_worker_boot a) \<or> fs_pending_assignment s \<noteq> None)
          then st\<lparr>ss_current := Some (a\<lparr>asg_state := AssignmentState.REVALIDATION_REQUIRED\<rparr>)\<rparr>
          else st)"

definition load_snapshot :: "FabricState \<Rightarrow> PersistenceSnapshot \<Rightarrow> FabricState" where
  "load_snapshot s snap =
     (let s1 = s\<lparr>fs_services := ps_services snap, fs_service_index := index_services (ps_services snap),
                fs_epoch := ps_epoch snap, fs_policy_gen := ps_policy_generation snap,
                fs_last_authority_gen := ps_last_authority_gen snap,
                fs_fenced_boots := ps_fenced_boots snap, fs_slots := [], fs_slot_index := Map.empty,
                fs_target_index := Map.empty, fs_targets_by_service := Map.empty\<rparr>;
          s2 = foldl load_assignment s1 (ps_assignments snap);
          s3 = s2\<lparr>fs_domains := foldl set_membership (foldl declare_domain empty_registry (ps_domains snap))
                    (ps_memberships snap),
                 fs_evidence := foldl (\<lambda>es e. fst (ev_publish es e)) empty_evidence (ps_evidence snap),
                 fs_routes := mark_revalidation_required
                    (foldl (\<lambda>t r. fst (rt_install t r)) empty_routes (ps_routes snap)),
                 fs_targets := map stale_target (fs_targets s2),
                 fs_has_txn := ps_has_txn snap, fs_txn_milestone := ps_txn_milestone snap,
                 fs_pending_assignment := ps_pending_assignment snap,
                 fs_source_assignment := ps_source_assignment snap,
                 fs_pending_route := ps_pending_route snap\<rparr>
      in if fs_has_txn s3 \<and> fs_txn_milestone s3 < Milestone.VERIFICATION_COMPLETE
         then s3\<lparr>fs_slots := map (reconcile_slot s3) (fs_slots s3)\<rparr>
         else s3)"

end
