(* ===== verification/Fabric_Invariant.thy ===== *)
theory Fabric_Invariant
  imports Fabric
begin

text \<open>
  The representation invariant of the coordinator core: every index of \<open>Impl\<close> points at the
  element it names, so no operation reads a vector out of range, and the component stores are
  well formed. Every operation of \<open>Fabric\<close> keeps it. The slots are a keyed store of the
  current assignments.
\<close>

section \<open>The invariant\<close>

definition wf_services :: "FabricState \<Rightarrow> bool" where
  "wf_services s \<longleftrightarrow> (\<forall>i n. fs_service_index s i = Some n \<longleftrightarrow>
     n < length (fs_services s) \<and> sd_service (fs_services s ! n) = i)"

definition wf_slots :: "FabricState \<Rightarrow> bool" where
  "wf_slots s \<longleftrightarrow>
     (\<forall>k n. fs_slot_index s k = Some n \<longrightarrow> n < length (fs_slots s) \<and> ss_slot (fs_slots s ! n) = k) \<and>
     (\<forall>st \<in> set (fs_slots s). \<forall>a. ss_current st = Some a \<longrightarrow> asg_slot a = ss_slot st)"

definition wf_targets :: "FabricState \<Rightarrow> bool" where
  "wf_targets s \<longleftrightarrow>
     (\<forall>t n. fs_target_index s t = Some n \<longrightarrow> n < length (fs_targets s) \<and> tr_id (fs_targets s ! n) = t) \<and>
     (\<forall>i ns. fs_targets_by_service s i = Some ns \<longrightarrow> (\<forall>n \<in> set ns. n < length (fs_targets s)))"

definition wf_stores :: "FabricState \<Rightarrow> bool" where
  "wf_stores s \<longleftrightarrow> wf_evidence (fs_evidence s) \<and> wf_registry (fs_domains s) \<and>
     wf_routes (fs_routes s) \<and> wf_tracker (fs_requests s)"

definition wf_fabric :: "FabricState \<Rightarrow> bool" where
  "wf_fabric s \<longleftrightarrow> wf_services s \<and> wf_slots s \<and> wf_targets s \<and> wf_stores s"

lemmas wf_fabric_defs = wf_fabric_def wf_services_def wf_slots_def wf_targets_def wf_stores_def

lemma wf_init_fabric [simp]: "wf_fabric (init_fabric cfg)"
  by (simp add: wf_fabric_defs init_fabric_def)

section \<open>Slots\<close>

lemma wf_slots_find_slot: "wf_slots s \<Longrightarrow> find_slot s k = Some st \<Longrightarrow> ss_slot st = k"
  by (auto simp: wf_slots_def find_slot_def)

lemma current_assignment_slot: "wf_slots s \<Longrightarrow> current_assignment s k = Some a \<Longrightarrow> asg_slot a = k"
  by (auto simp: wf_slots_def current_assignment_def find_slot_def split: option.splits)
    (metis nth_mem)

lemma wf_slots_inj: "wf_slots s \<Longrightarrow> fs_slot_index s k = Some n \<Longrightarrow> fs_slot_index s k' = Some n \<Longrightarrow> k = k'"
  by (metis wf_slots_def)

lemma find_slot_upd_slot:
  assumes "wf_slots s"
  shows "find_slot (upd_slot s k f) k' = (if k' = k then map_option f (find_slot s k) else find_slot s k')"
proof (cases "fs_slot_index s k")
  case None
  then show ?thesis by (simp add: upd_slot_def find_slot_def)
next
  case (Some n)
  then have "n < length (fs_slots s)" using assms by (auto simp: wf_slots_def)
  moreover have "fs_slot_index s k' \<noteq> Some n" if "k' \<noteq> k"
    using wf_slots_inj [OF assms Some] that by auto
  ultimately show ?thesis
    using Some by (auto simp: upd_slot_def find_slot_def map_option_case split: option.split)
qed

lemma upd_slot_frame [simp, frame_simps]:
  "fs_slot_index (upd_slot s k f) = fs_slot_index s" "fs_services (upd_slot s k f) = fs_services s"
  "fs_service_index (upd_slot s k f) = fs_service_index s" "fs_targets (upd_slot s k f) = fs_targets s"
  "fs_target_index (upd_slot s k f) = fs_target_index s"
  "fs_targets_by_service (upd_slot s k f) = fs_targets_by_service s"
  "fs_evidence (upd_slot s k f) = fs_evidence s" "fs_domains (upd_slot s k f) = fs_domains s"
  "fs_routes (upd_slot s k f) = fs_routes s" "fs_requests (upd_slot s k f) = fs_requests s"
  "fs_epoch (upd_slot s k f) = fs_epoch s" "fs_fenced_boots (upd_slot s k f) = fs_fenced_boots s"
  "fs_last_authority_gen (upd_slot s k f) = fs_last_authority_gen s"
  "fs_preferred (upd_slot s k f) = fs_preferred s"
  "fs_pending_assignment (upd_slot s k f) = fs_pending_assignment s"
  "length (fs_slots (upd_slot s k f)) = length (fs_slots s)"
  by (simp_all add: upd_slot_def split: option.split)

lemma wf_slots_upd_slot:
  assumes "wf_slots s"
    and "\<And>st. ss_slot st = k \<Longrightarrow> (\<And>a. ss_current st = Some a \<Longrightarrow> asg_slot a = k) \<Longrightarrow>
           ss_slot (f st) = k \<and> (\<forall>a. ss_current (f st) = Some a \<longrightarrow> asg_slot a = k)"
  shows "wf_slots (upd_slot s k f)"
proof (cases "fs_slot_index s k")
  case None
  then show ?thesis using assms(1) by (simp add: upd_slot_def)
next
  case (Some n)
  then have n: "n < length (fs_slots s)" "ss_slot (fs_slots s ! n) = k"
    using assms(1) by (auto simp: wf_slots_def)
  then have f: "ss_slot (f (fs_slots s ! n)) = k"
      "\<And>a. ss_current (f (fs_slots s ! n)) = Some a \<Longrightarrow> asg_slot a = k"
    using assms(2) [of "fs_slots s ! n"] assms(1) by (auto simp: wf_slots_def)
  have slots: "fs_slots (upd_slot s k f) = (fs_slots s)[n := f (fs_slots s ! n)]"
    using Some by (simp add: upd_slot_def)
  have "n' < length (fs_slots (upd_slot s k f)) \<and> ss_slot (fs_slots (upd_slot s k f) ! n') = k'"
    if "fs_slot_index s k' = Some n'" for k' n'
  proof -
    have "n' < length (fs_slots s) \<and> ss_slot (fs_slots s ! n') = k'"
      using assms(1) that by (simp add: wf_slots_def)
    then show ?thesis using n f(1) slots by (cases "n' = n") auto
  qed
  moreover have "asg_slot a = ss_slot st"
    if "st \<in> set (fs_slots (upd_slot s k f))" "ss_current st = Some a" for st a
  proof -
    have "st = f (fs_slots s ! n) \<or> st \<in> set (fs_slots s)"
      using that(1) slots set_update_subset_insert [of "fs_slots s" n "f (fs_slots s ! n)"] by auto
    then show ?thesis using assms(1) f that(2) by (auto simp: wf_slots_def)
  qed
  ultimately show ?thesis by (simp add: wf_slots_def)
qed

lemma wf_slots_add_slot: "wf_slots s \<Longrightarrow> wf_slots (add_slot s k)"
  by (fastforce simp: wf_slots_def add_slot_def empty_slot_def nth_append)

lemma find_slot_add_slot:
  "wf_slots s \<Longrightarrow> find_slot (add_slot s k) k' = (if k' = k then Some (empty_slot k) else find_slot s k')"
  by (auto simp: wf_slots_def find_slot_def add_slot_def nth_append map_option_case split: option.split)

lemma add_slot_frame [simp, frame_simps]:
  "fs_services (add_slot s k) = fs_services s" "fs_service_index (add_slot s k) = fs_service_index s"
  "fs_targets (add_slot s k) = fs_targets s" "fs_target_index (add_slot s k) = fs_target_index s"
  "fs_targets_by_service (add_slot s k) = fs_targets_by_service s"
  "fs_evidence (add_slot s k) = fs_evidence s" "fs_domains (add_slot s k) = fs_domains s"
  "fs_routes (add_slot s k) = fs_routes s" "fs_requests (add_slot s k) = fs_requests s"
  "fs_epoch (add_slot s k) = fs_epoch s" "fs_fenced_boots (add_slot s k) = fs_fenced_boots s"
  "fs_last_authority_gen (add_slot s k) = fs_last_authority_gen s"
  by (simp_all add: add_slot_def)

section \<open>Targets\<close>

lemma find_target_id: "wf_targets s \<Longrightarrow> find_target s t = Some r \<Longrightarrow> tr_id r = t"
  by (auto simp: wf_targets_def find_target_def)

lemma find_target_upd_target:
  assumes "wf_targets s"
  shows "find_target (upd_target s t f) t' = (if t' = t then map_option f (find_target s t) else find_target s t')"
proof (cases "fs_target_index s t")
  case None
  then show ?thesis by (simp add: upd_target_def find_target_def)
next
  case (Some n)
  then have "n < length (fs_targets s)" using assms by (auto simp: wf_targets_def)
  moreover have "fs_target_index s t' \<noteq> Some n" if "t' \<noteq> t"
    using assms Some that by (metis wf_targets_def)
  ultimately show ?thesis
    using Some by (auto simp: upd_target_def find_target_def map_option_case split: option.split)
qed

lemma upd_target_frame [simp, frame_simps]:
  "fs_services (upd_target s t f) = fs_services s" "fs_service_index (upd_target s t f) = fs_service_index s"
  "fs_slots (upd_target s t f) = fs_slots s" "fs_slot_index (upd_target s t f) = fs_slot_index s"
  "fs_target_index (upd_target s t f) = fs_target_index s"
  "fs_targets_by_service (upd_target s t f) = fs_targets_by_service s"
  "fs_evidence (upd_target s t f) = fs_evidence s" "fs_domains (upd_target s t f) = fs_domains s"
  "fs_routes (upd_target s t f) = fs_routes s" "fs_requests (upd_target s t f) = fs_requests s"
  "fs_epoch (upd_target s t f) = fs_epoch s" "fs_fenced_boots (upd_target s t f) = fs_fenced_boots s"
  "length (fs_targets (upd_target s t f)) = length (fs_targets s)"
  by (simp_all add: upd_target_def split: option.split)

lemma wf_targets_upd_target:
  assumes "wf_targets s" and "\<And>r. tr_id (f r) = tr_id r"
  shows "wf_targets (upd_target s t f)"
proof (cases "fs_target_index s t")
  case None
  then show ?thesis using assms(1) by (simp add: upd_target_def)
next
  case (Some n)
  then show ?thesis
    using assms unfolding wf_targets_def upd_target_def by (auto simp: nth_list_update)
qed

section \<open>Every operation keeps the invariant\<close>

lemmas wf_store_ops =
  wf_ev_publish wf_ev_clear wf_declare_domain wf_set_membership wf_rt_install wf_rt_bind_gateway
  wf_mark_revalidation wf_trk_record wf_set_outcome_unknown

text \<open>Operations that leave services, slots and targets alone.\<close>

definition same_indices :: "FabricState \<Rightarrow> FabricState \<Rightarrow> bool" where
  "same_indices s s' \<longleftrightarrow> fs_services s' = fs_services s \<and> fs_service_index s' = fs_service_index s \<and>
     fs_slots s' = fs_slots s \<and> fs_slot_index s' = fs_slot_index s \<and> fs_targets s' = fs_targets s \<and>
     fs_target_index s' = fs_target_index s \<and> fs_targets_by_service s' = fs_targets_by_service s"

lemma wf_same_indices: "wf_fabric s \<Longrightarrow> same_indices s s' \<Longrightarrow> wf_stores s' \<Longrightarrow> wf_fabric s'"
  by (simp add: wf_fabric_def wf_services_def wf_slots_def wf_targets_def same_indices_def)

lemma wf_create_service:
  assumes "wf_fabric s" and "create_service s def = Inr s'"
  shows "wf_fabric s'"
proof -
  have new: "\<forall>d \<in> set (fs_services s). sd_service d \<noteq> sd_service def"
    using assms(2) by (auto simp: create_service_def list_ex_iff split: if_splits)
  have s': "s' = s\<lparr>fs_service_index := (fs_service_index s)(sd_service def \<mapsto> length (fs_services s)),
                  fs_services := fs_services s @ [def]\<rparr>"
    using assms(2) by (auto simp: create_service_def split: if_splits)
  have "wf_services s'"
    using assms(1) new unfolding s' wf_fabric_def wf_services_def
    by (auto simp: nth_append less_Suc_eq)
  then show ?thesis
    using assms(1) by (simp add: s' wf_fabric_def wf_slots_def wf_targets_def wf_stores_def)
qed

lemma initial_assignment_slot [simp]:
  "asg_slot (initial_assignment s a) = asg_slot a" "asg_target (initial_assignment s a) = asg_target a"
  "asg_state (initial_assignment s a) = AssignmentState.ACTIVE"
  by (simp_all add: initial_assignment_def Let_def)

lemma wf_set_initial_assignment:
  assumes "wf_fabric s" and "set_initial_assignment s now a = Inr s'"
  shows "wf_fabric s'"
proof -
  define s1 where "s1 = (if find_slot s (asg_slot a) = None then add_slot s (asg_slot a) else s)"
  define s2 where "s2 = s1\<lparr>fs_preferred := (fs_preferred s1)(asg_slot a \<mapsto> asg_target a),
          fs_last_transition := (fs_last_transition s1)(asg_slot a \<mapsto> now),
          fs_failback_attempts := (fs_failback_attempts s1)(asg_slot a \<mapsto> 0)\<rparr>"
  have wf1: "wf_slots s1" using assms(1) by (simp add: s1_def wf_fabric_def wf_slots_add_slot)
  have s': "s' = upd_slot s2 (asg_slot a) (\<lambda>st. st\<lparr>ss_current := Some (initial_assignment s2 a)\<rparr>)"
    using assms(2) unfolding set_initial_assignment_def Let_def s1_def [symmetric] s2_def [symmetric]
    by (simp split: if_splits)
  have "wf_slots s'"
    unfolding s' using wf1 by (intro wf_slots_upd_slot) (auto simp: wf_slots_def s2_def)
  then show ?thesis
    using assms(1) by (simp add: s' s2_def s1_def wf_fabric_def wf_services_def wf_targets_def wf_stores_def)
qed

lemma wf_register_target:
  assumes "wf_fabric s" and "register_target s t tr = Inr s'"
  shows "wf_fabric s'"
proof (cases "find_target s t")
  case None
  then have s': "s' = s\<lparr>fs_target_index := (fs_target_index s)(t \<mapsto> length (fs_targets s)),
                  fs_targets := fs_targets s @ [new_target t tr]\<rparr>"
    using assms(2) by (simp add: register_target_def split: if_splits)
  have old: "n < length (fs_targets s) \<and> tr_id (fs_targets s ! n) = u" if "fs_target_index s u = Some n" for u n
    using assms(1) that by (simp add: wf_fabric_def wf_targets_def)
  have bound: "n < length (fs_targets s)" if "fs_targets_by_service s i = Some ns" "n \<in> set ns" for i ns n
    using assms(1) that by (simp add: wf_fabric_def wf_targets_def)
  have "wf_targets s'"
    unfolding s' wf_targets_def using old bound
    by (auto simp: nth_append new_target_def intro: less_SucI)
  then show ?thesis
    using assms(1) by (simp add: s' wf_fabric_def wf_services_def wf_slots_def wf_stores_def)
next
  case (Some r)
  then show ?thesis using assms by (auto simp: register_target_def split: if_splits)
qed

lemma wf_publish_candidate_facts:
  assumes "wf_fabric s" and "publish_candidate_facts s now f = Inr s'"
  shows "wf_fabric s'"
proof -
  obtain n where n: "fs_target_index s (cf_target f) = Some n"
    using assms(2) by (auto simp: publish_candidate_facts_def split: option.splits)
  then have len: "n < length (fs_targets s)"
    using assms(1) by (auto simp: wf_fabric_def wf_targets_def)
  let ?tbs = "push_index (fs_targets_by_service s) (cf_service f) n"
  have tbs: "wf_targets (s\<lparr>fs_targets_by_service := ?tbs\<rparr>)"
    using assms(1) len unfolding wf_fabric_def wf_targets_def
    by (auto simp: push_index_def split: option.split dest: sym)
  have same: "wf_targets (r\<lparr>fs_confirmed_failed_targets := x, fs_ready_since := y\<rparr>) = wf_targets r"
      "wf_targets (r\<lparr>fs_ready_since := y\<rparr>) = wf_targets r"
      "wf_targets (r\<lparr>fs_confirmed_failed_targets := x\<rparr>) = wf_targets r" for r x y
    by (simp_all add: wf_targets_def)
  have "wf_targets s'"
    using assms tbs n unfolding publish_candidate_facts_def wf_fabric_def
    by (auto simp: Let_def same intro!: wf_targets_upd_target split: if_splits)
  moreover have "fs_services s' = fs_services s \<and> fs_service_index s' = fs_service_index s \<and>
      fs_slots s' = fs_slots s \<and> fs_slot_index s' = fs_slot_index s \<and> fs_evidence s' = fs_evidence s \<and>
      fs_domains s' = fs_domains s \<and> fs_routes s' = fs_routes s \<and> fs_requests s' = fs_requests s"
    using assms(2) n by (auto simp: publish_candidate_facts_def Let_def split: if_splits)
  ultimately show ?thesis
    using assms(1) by (simp add: wf_fabric_def wf_services_def wf_slots_def wf_stores_def)
qed

lemma wf_upd_target:
  assumes "wf_fabric s" and "\<And>r. tr_id (f r) = tr_id r"
  shows "wf_fabric (upd_target s t f)"
  using assms by (simp add: wf_fabric_def wf_targets_upd_target)
    (simp add: wf_services_def wf_slots_def wf_stores_def)

lemma wf_publish_candidate_state:
  "wf_fabric s \<Longrightarrow> publish_candidate_state s t st = Inr s' \<Longrightarrow> wf_fabric s'"
  by (auto simp: publish_candidate_state_def intro!: wf_upd_target split: if_splits)

lemma wf_publish_candidate_resources:
  "wf_fabric s \<Longrightarrow> publish_candidate_resources s t crs = Inr s' \<Longrightarrow> wf_fabric s'"
  by (auto simp: publish_candidate_resources_def intro!: wf_upd_target split: if_splits)

lemma wf_publish_failure: "wf_fabric s \<Longrightarrow> wf_fabric (publish_failure s ev)"
proof (rule wf_same_indices)
  show "same_indices s (publish_failure s ev)"
    by (simp add: same_indices_def publish_failure_def Let_def split: option.split)
  show "wf_fabric s \<Longrightarrow> wf_stores (publish_failure s ev)"
    by (simp add: publish_failure_def Let_def wf_fabric_def wf_stores_def wf_ev_publish split: option.split)
qed

lemma snapshot_locked_state:
  "snapshot_locked s k = Inr (s', snap) \<Longrightarrow> \<exists>g. gen_next (fs_snapshot_counter s) = Inr g \<and> s' = s\<lparr>fs_snapshot_counter := g\<rparr>"
  by (auto simp: snapshot_locked_def bindE_eq_Inr_iff)

lemma wf_snapshot_locked: "wf_fabric s \<Longrightarrow> snapshot_locked s k = Inr (s', snap) \<Longrightarrow> wf_fabric s'"
  by (auto dest!: snapshot_locked_state simp: wf_fabric_defs)

section \<open>The operations as steps\<close>

text \<open>
  One call of an operation that holds the mutex once, for any arguments: every state-changing
  operation of the public interface other than \<open>execute_plan\<close>, \<open>execute_failback\<close> and \<open>load\<close>. An
  operation that throws leaves the state as it was. Planning and selection only advance the
  snapshot counter. \<open>Runtime_Steps\<close> adds the regions of \<open>execute_plan\<close> and \<open>execute_failback\<close>,
  and \<open>load\<close>.
\<close>

inductive api_step :: "FabricState \<Rightarrow> FabricState \<Rightarrow> bool" where
  st_identity: "api_step s (set_coordinator_identity s i e)"
| st_gateway: "api_step s (set_gateway_boot s b)"
| st_create: "create_service s def = Inr s' \<Longrightarrow> api_step s s'"
| st_initial: "set_initial_assignment s now a = Inr s' \<Longrightarrow> api_step s s'"
| st_domain: "api_step s (ff_declare_domain s d)"
| st_membership: "api_step s (ff_set_membership s m)"
| st_register: "register_target s t tr = Inr s' \<Longrightarrow> api_step s s'"
| st_facts: "publish_candidate_facts s now f = Inr s' \<Longrightarrow> api_step s s'"
| st_state: "publish_candidate_state s t cs = Inr s' \<Longrightarrow> api_step s s'"
| st_resources: "publish_candidate_resources s t crs = Inr s' \<Longrightarrow> api_step s s'"
| st_failure: "api_step s (publish_failure s ev)"
| st_clear: "api_step s (clear_failure s i)"
| st_snapshot: "snapshot_locked s k = Inr (s', snap) \<Longrightarrow> api_step s s'"
| st_failback: "api_step s (authorize_failback s k)"
| st_path: "api_step s (set_checkpoint_path s path)"
| st_barrier: "api_step s (set_cutover_barrier s m)"
| st_unbarrier: "api_step s (clear_cutover_barrier s)"
| st_request: "api_step s (record_request s r)"
| st_late: "api_step s (fst (ff_classify_late_result s i auth))"
| st_unknown: "api_step s (mark_outcome_unknown s i k)"
| st_dispatch: "api_step s (record_dispatch s)"
| st_route: "api_step s (fst (install_route s e b))"
| st_bind: "api_step s (fst (bind_route_gateway s k b))"
| st_revalidate: "api_step s (mark_routes_revalidation s)"

inductive_cases api_stepE: "api_step s s'"

lemma wf_simple_ops:
  assumes "wf_fabric s"
  shows "wf_fabric (set_coordinator_identity s i e)" "wf_fabric (set_gateway_boot s b)"
    "wf_fabric (ff_declare_domain s d)" "wf_fabric (ff_set_membership s m)" "wf_fabric (clear_failure s fi)"
    "wf_fabric (authorize_failback s k)" "wf_fabric (set_checkpoint_path s path)"
    "wf_fabric (set_cutover_barrier s ms)" "wf_fabric (clear_cutover_barrier s)"
    "wf_fabric (record_request s r)" "wf_fabric (mark_outcome_unknown s ri k)"
    "wf_fabric (record_dispatch s)" "wf_fabric (mark_routes_revalidation s)"
    "wf_fabric (fst (bind_route_gateway s k gb))" "wf_fabric (fst (install_route s e' gb))"
  using assms unfolding wf_fabric_def
  by (simp_all add: wf_services_def wf_slots_def wf_targets_def wf_stores_def wf_store_ops
      set_coordinator_identity_def set_gateway_boot_def ff_declare_domain_def ff_set_membership_def
      clear_failure_def authorize_failback_def set_checkpoint_path_def set_cutover_barrier_def
      clear_cutover_barrier_def record_request_def mark_outcome_unknown_def record_dispatch_def
      mark_routes_revalidation_def bind_route_gateway_def install_route_def split_beta)

lemma wf_classify_late: "wf_fabric s \<Longrightarrow> wf_fabric (fst (ff_classify_late_result s i auth))"
proof (rule wf_same_indices)
  have t: "trk_records (fst (classify_late_result (fs_requests s) i auth)) = trk_records (fs_requests s)"
    by (simp add: classify_late_result_def split: option.split)
  show "same_indices s (fst (ff_classify_late_result s i auth))"
    by (simp add: same_indices_def ff_classify_late_result_def split_beta)
  show "wf_fabric s \<Longrightarrow> wf_stores (fst (ff_classify_late_result s i auth))"
    using t by (simp add: ff_classify_late_result_def split_beta wf_fabric_def wf_stores_def wf_tracker_def)
qed

lemma wf_api_step: "api_step s s' \<Longrightarrow> wf_fabric s \<Longrightarrow> wf_fabric s'"
  by (induction rule: api_step.induct)
    (auto intro: wf_simple_ops wf_classify_late wf_publish_failure elim: wf_create_service
      wf_set_initial_assignment wf_register_target wf_publish_candidate_facts
      wf_publish_candidate_state wf_publish_candidate_resources wf_snapshot_locked)

end
