(* ===== verification/Fabric_Props.thy ===== *)
theory Fabric_Props
  imports Fabric_Invariant
begin

text \<open>
  What the operations of the core promise: the dispatch gate decides exactly the current
  authority, planning reads without changing it, the failback gate is the conjunction of its
  policies, and published facts and initial assignments behave as declared. A small fabric,
  built by the operations themselves, carries the witnesses.
\<close>

section \<open>An example fabric\<close>

text \<open>
  Coordinator epoch 5, service 1 with slot 1 served by target 10 (boot 40) over an
  acknowledged route, and a ready replacement on target 20 (boot 41).
\<close>

abbreviation example_slot :: ServiceSlotKey where
  "example_slot \<equiv> SlotKey (Id 1) (Id 1)"

definition example_epoch :: CoordinatorEpoch where
  "example_epoch = \<lparr>ep_epoch = 5, ep_id = Id 1, ep_boot = Id 1\<rparr>"

definition example_facts :: "u64 \<Rightarrow> u64 \<Rightarrow> CandidateFacts" where
  "example_facts t boot = default_CandidateFacts\<lparr>cf_target := Id t, cf_service := Id 1,
     cf_worker_boot := Id boot, cf_ready := True, cf_readiness_generation := gen_first\<rparr>"

definition example_assignment :: Assignment where
  "example_assignment = default_Assignment\<lparr>asg_id := Id 100, asg_slot := example_slot,
     asg_target := Id 10, asg_worker_boot := Id 40, asg_route := Id 1\<rparr>"

definition example_route :: RouteEntry where
  "example_route = default_RouteEntry\<lparr>re_route := Id 1, re_slot := example_slot, re_target := Id 10,
     re_permitted_boot := Id 40, re_assignment := Id 100, re_epoch := example_epoch\<rparr>"

definition example_setup :: "FabricState result" where
  "example_setup =
     bindE (create_service (set_coordinator_identity (init_fabric default_RuntimeConfig) (Id 1) 5)
              (default_ServiceDefinition\<lparr>sd_service := Id 1, sd_failback := FailbackPolicy.RETURN_AFTER_VALIDATION\<rparr>))
       (\<lambda>s. bindE (register_target s (Id 10) ''a'')
       (\<lambda>s. bindE (register_target s (Id 20) ''b'')
       (\<lambda>s. bindE (publish_candidate_facts s 0 (example_facts 10 40))
       (\<lambda>s. bindE (publish_candidate_facts s 0 (example_facts 20 41))
       (\<lambda>s. set_initial_assignment s 0 example_assignment)))))"

definition example_fabric :: FabricState where
  "example_fabric = (case example_setup of
     Inr s \<Rightarrow> fst (install_route s example_route (Id 7)) | Inl _ \<Rightarrow> init_fabric default_RuntimeConfig)"

lemma wf_example_fabric: "wf_fabric example_fabric"
proof -
  have "wf_fabric s" if su: "example_setup = Inr s" for s
  proof -
    obtain s1 s2 s3 s4 s5 where steps:
      "create_service (set_coordinator_identity (init_fabric default_RuntimeConfig) (Id 1) 5)
         (default_ServiceDefinition\<lparr>sd_service := Id 1,
            sd_failback := FailbackPolicy.RETURN_AFTER_VALIDATION\<rparr>) = Inr s1"
      "register_target s1 (Id 10) ''a'' = Inr s2" "register_target s2 (Id 20) ''b'' = Inr s3"
      "publish_candidate_facts s3 0 (example_facts 10 40) = Inr s4"
      "publish_candidate_facts s4 0 (example_facts 20 41) = Inr s5"
      "set_initial_assignment s5 0 example_assignment = Inr s"
      using su unfolding example_setup_def bindE_eq_Inr_iff by blast
    have "wf_fabric s1" by (rule wf_create_service [OF wf_simple_ops(1) [OF wf_init_fabric] steps(1)])
    then have "wf_fabric s3" using steps(2,3) wf_register_target by blast
    then have "wf_fabric s5" using steps(4,5) wf_publish_candidate_facts by blast
    then show ?thesis using steps(6) wf_set_initial_assignment by blast
  qed
  then show ?thesis
    by (auto simp: example_fabric_def split: sum.split intro: wf_simple_ops)
qed

definition example_auth :: WorkerAuthorization where
  "example_auth = \<lparr>wa_epoch = example_epoch, wa_slot = example_slot, wa_assignment = Id 100,
     wa_assignment_generation = gen_first, wa_route_generation = gen_first, wa_incarnation = id_null,
     wa_request = Id 1, wa_execution = Id 1, wa_operation = ''serve'', wa_worker_boot = Id 40\<rparr>"

section \<open>The dispatch gate\<close>

definition holds_authority :: "FabricState \<Rightarrow> WorkerAuthorization \<Rightarrow> bool" where
  "holds_authority s auth \<longleftrightarrow>
     (\<exists>cur. current_assignment s (wa_slot auth) = Some cur \<and> asg_state cur = AssignmentState.ACTIVE \<and>
        wa_epoch auth = fs_epoch s \<and> wa_assignment auth = asg_id cur \<and>
        wa_assignment_generation auth = asg_generation cur \<and>
        wa_route_generation auth = asg_route_generation cur \<and>
        wa_worker_boot auth = asg_worker_boot cur) \<and>
     wa_worker_boot auth \<notin> set (fs_fenced_boots s) \<and>
     (\<forall>rt. current_route (fs_routes s) (wa_slot auth) = Some rt \<longrightarrow> \<not> route_blocks_dispatch (re_state rt))"

lemma deny_allow_simps [simp]:
  "\<not> gd_allowed (deny w)" "gd_fail_closed (deny w)" "gd_allowed (allow w)" "\<not> gd_fail_closed (allow w)"
  by (simp_all add: deny_def allow_def)

lemma dispatch_allowed_iff: "gd_allowed (dispatch_allowed_locked s auth) \<longleftrightarrow> holds_authority s auth"
proof (cases "current_assignment s (wa_slot auth)")
  case None
  then show ?thesis by (simp add: dispatch_allowed_locked_def holds_authority_def)
next
  case (Some cur)
  have route: "(case current_route (fs_routes s) (wa_slot auth) of
        None \<Rightarrow> False | Some rt \<Rightarrow> route_blocks_dispatch (re_state rt)) \<longleftrightarrow>
      \<not> (\<forall>rt. current_route (fs_routes s) (wa_slot auth) = Some rt \<longrightarrow> \<not> route_blocks_dispatch (re_state rt))"
    by (simp split: option.split)
  show ?thesis
    unfolding dispatch_allowed_locked_def holds_authority_def Some boot_fenced_def route by auto
qed

text \<open>
  C5. The gate admits exactly the current authority: a dispatch is allowed if and only if the
  slot has an active assignment, the authorization names the current coordinator epoch and
  that assignment's id, generation, route generation and worker boot, the boot is not fenced
  and the slot's route does not wait for revalidation. A result is accepted if and only if,
  moreover, its request is known and its response not yet committed. Every refusal is fail
  closed.
\<close>

theorem gate_exact:
  "(gd_allowed (authorize_dispatch s auth) \<longleftrightarrow> holds_authority s auth) \<and>
   (gd_allowed (authorize_result s auth) \<longleftrightarrow> holds_authority s auth \<and>
      (\<exists>r. request_state s (wa_request auth) = Some r \<and>
           rq_disposition r \<noteq> RequestDisposition.RESPONSE_COMMITTED)) \<and>
   (gd_fail_closed (authorize_dispatch s auth) \<longleftrightarrow> \<not> gd_allowed (authorize_dispatch s auth)) \<and>
   (gd_fail_closed (authorize_result s auth) \<longleftrightarrow> \<not> gd_allowed (authorize_result s auth))"
proof -
  have closed: "gd_fail_closed (dispatch_allowed_locked s auth) \<longleftrightarrow> \<not> gd_allowed (dispatch_allowed_locked s auth)"
    by (simp add: dispatch_allowed_locked_def split: option.split)
  then show ?thesis
    by (auto simp: authorize_dispatch_def authorize_result_def request_state_def Let_def
        dispatch_allowed_iff split: option.split)
qed

text \<open>
  Authority over a slot is exclusive: two authorizations that the gate admits for the
  same slot name the same epoch, assignment, assignment generation, route generation and
  worker boot, so at no time can two worker boots both be dispatched to.
\<close>

theorem exclusive_authority:
  assumes "gd_allowed (authorize_dispatch s a)" and "gd_allowed (authorize_dispatch s b)"
    and "wa_slot a = wa_slot b"
  shows "wa_worker_boot a = wa_worker_boot b \<and> wa_assignment a = wa_assignment b \<and>
    wa_assignment_generation a = wa_assignment_generation b \<and>
    wa_route_generation a = wa_route_generation b \<and> wa_epoch a = wa_epoch b"
  using assms by (auto simp: authorize_dispatch_def dispatch_allowed_iff holds_authority_def)

theorem exclusive_authority_witness:
  "gd_allowed (authorize_dispatch example_fabric example_auth) \<and>
   gd_allowed (authorize_dispatch example_fabric (example_auth\<lparr>wa_request := Id 2\<rparr>)) \<and>
   wa_worker_boot example_auth = wa_worker_boot (example_auth\<lparr>wa_request := Id 2\<rparr>)"
proof -
  have a: "gd_allowed (authorize_dispatch example_fabric example_auth)" by code_simp
  have b: "gd_allowed (authorize_dispatch example_fabric (example_auth\<lparr>wa_request := Id 2\<rparr>))" by code_simp
  have "wa_slot example_auth = wa_slot (example_auth\<lparr>wa_request := Id 2\<rparr>)" by simp
  from exclusive_authority [OF a b this] a b show ?thesis by blast
qed

section \<open>Planning\<close>

lemma snapshot_counter_frame [simp, frame_simps]:
  "build_context (s\<lparr>fs_snapshot_counter := g\<rparr>) k = build_context s k"
  "current_assignment (s\<lparr>fs_snapshot_counter := g\<rparr>) k = current_assignment s k"
  "plan_route (s\<lparr>fs_snapshot_counter := g\<rparr>) k = plan_route s k"
  "service_for_slot (s\<lparr>fs_snapshot_counter := g\<rparr>) k = service_for_slot s k"
  "find_slot (s\<lparr>fs_snapshot_counter := g\<rparr>) k = find_slot s k"
  "find_target (s\<lparr>fs_snapshot_counter := g\<rparr>) t = find_target s t"
  by (simp_all add: build_context_def current_assignment_def find_slot_def plan_route_def
      service_for_slot_def find_service_def find_target_def Let_def split: option.split)

lemma plan_failover_pref_state:
  "\<exists>g. fst (plan_failover_pref s k pref) = s\<lparr>fs_snapshot_counter := g\<rparr>"
proof (cases "service_for_slot s k")
  case None
  then show ?thesis by (auto simp: plan_failover_pref_def intro: exI [of _ "fs_snapshot_counter s"])
next
  case (Some svc)
  show ?thesis
  proof (cases "snapshot_locked s k")
    case (Inl e)
    with Some show ?thesis by (auto simp: plan_failover_pref_def intro: exI [of _ "fs_snapshot_counter s"])
  next
    case (Inr r)
    obtain s1 snap where r: "r = (s1, snap)" by (cases r)
    then obtain g where "s1 = s\<lparr>fs_snapshot_counter := g\<rparr>"
      using Inr snapshot_locked_state by blast
    with Some Inr r show ?thesis
      by (simp add: plan_failover_pref_def Let_def split: option.split) blast
  qed
qed

lemma plan_route_newer:
  assumes "plan_route s k = Inr (route, g)" and "current_route (fs_routes s) k = Some r"
  shows "re_generation r < g"
  using assms by (auto simp: plan_route_def bindE_eq_Inr_iff dest: gen_next_greater)

lemma plan_sound:
  assumes "snd (plan_failover_pref s k pref) = Inr (Some p)"
  shows "fp_slot p = k \<and> fp_source_assignment p = current_assignment s k \<and>
    (\<forall>m. reached p m \<longleftrightarrow> m = Milestone.INTENT_ONLY) \<and>
    (case current_route (fs_routes s) k of None \<Rightarrow> True
     | Some r \<Rightarrow> re_generation r < fp_requested_route_generation p) \<and>
    (\<exists>svc c. service_for_slot s k = Some svc \<and> c \<in> set (snap_candidates (fp_snapshot p)) \<and>
       fp_selected p = Some (annotated c) \<and>
       eligible svc (fs_domains s) ((build_context s k)\<lparr>ctx_preferred_target := pref\<rparr>) c)"
proof -
  obtain svc s1 snap where svc: "service_for_slot s k = Some svc"
    and snap: "snapshot_locked s k = Inr (s1, snap)"
    using assms by (auto simp: plan_failover_pref_def split: option.splits sum.splits)
  obtain g where s1: "s1 = s\<lparr>fs_snapshot_counter := g\<rparr>"
    using snapshot_locked_state [OF snap] by blast
  let ?ctx = "(build_context s k)\<lparr>ctx_preferred_target := pref\<rparr>"
  obtain c pg rg where c: "sel_selected (select snap svc (fs_domains s) ?ctx) = Some c"
    and route: "plan_route s k = Inr rg"
    and p': "fp_slot p = k" "fp_source_assignment p = current_assignment s k" "fp_snapshot p = snap"
      "fp_selected p = Some c" "fp_requested_route_generation p = snd rg"
      "\<forall>m. reached p m \<longleftrightarrow> m = Milestone.INTENT_ONLY"
    using assms svc snap
    by (auto simp: plan_failover_pref_def Let_def s1 bindE_eq_Inr_iff reached_def record_milestone_def
        split: option.splits if_splits)
  have "\<exists>b \<in> set (snap_candidates snap). eligible svc (fs_domains s) ?ctx b \<and> c = annotated b"
    using c set_ranked [of snap svc "fs_domains s" ?ctx]
    by (cases "ranked snap svc (fs_domains s) ?ctx") (auto simp: select_ranked)
  moreover have "case current_route (fs_routes s) k of None \<Rightarrow> True
       | Some r \<Rightarrow> re_generation r < fp_requested_route_generation p"
    using plan_route_newer [of s k "fst rg" "snd rg"] route p' by (auto split: option.split)
  ultimately show ?thesis using p' svc by auto
qed

text \<open>
  Planning does not mutate authority: whatever it returns or throws, the snapshot counter
  is the only part of the state that can change. A plan that is returned is for the slot
  asked for, names the assignment it would replace, has reached its intent only, would install
  a route newer than the current one, and selects a candidate of its own coherent snapshot
  that passes every hard check in the context of that state.
\<close>

theorem planning_reads_only:
  "(\<exists>g. fst (plan_failover_pref s k pref) = s\<lparr>fs_snapshot_counter := g\<rparr>) \<and>
   (case snd (plan_failover_pref s k pref) of
      Inr (Some p) \<Rightarrow>
        fp_slot p = k \<and> fp_source_assignment p = current_assignment s k \<and>
        (\<forall>m. reached p m \<longleftrightarrow> m = Milestone.INTENT_ONLY) \<and>
        (case current_route (fs_routes s) k of None \<Rightarrow> True
         | Some r \<Rightarrow> re_generation r < fp_requested_route_generation p) \<and>
        (\<exists>svc c. service_for_slot s k = Some svc \<and> c \<in> set (snap_candidates (fp_snapshot p)) \<and>
           fp_selected p = Some (annotated c) \<and>
           eligible svc (fs_domains s) ((build_context s k)\<lparr>ctx_preferred_target := pref\<rparr>) c)
    | _ \<Rightarrow> True)"
  using plan_failover_pref_state [of s k pref] plan_sound [of s k pref]
  by (simp split: sum.split option.split)

section \<open>Failback\<close>

definition window_passed :: "int \<Rightarrow> int \<Rightarrow> u32 \<Rightarrow> bool" where
  "window_passed since now ms \<longleftrightarrow> duration_ms (now - since) < 0 \<or> uint ms \<le> duration_ms (now - since)"

definition failback_permitted :: "FabricState \<Rightarrow> int \<Rightarrow> int \<Rightarrow> ServiceSlotKey \<Rightarrow> bool" where
  "failback_permitted s now now' k \<longleftrightarrow>
     (\<exists>svc cur pref. service_for_slot s k = Some svc \<and> current_assignment s k = Some cur \<and>
        fs_preferred s k = Some pref \<and> asg_target cur \<noteq> pref \<and>
        (sd_failback svc = FailbackPolicy.RETURN_AFTER_VALIDATION \<or>
         sd_failback svc = FailbackPolicy.MANUAL \<and> k \<in> fs_manual_failback_authorized s) \<and>
        target_fresh_ready s pref \<and>
        (\<forall>t. fs_last_transition s k = Some t \<longrightarrow> window_passed t now (afp_cooldown_ms (sd_anti_flapping svc))) \<and>
        (0 < afp_hysteresis_ms (sd_anti_flapping svc) \<longrightarrow>
           (\<exists>t. fs_ready_since s pref = Some t \<and> window_passed t now' (afp_hysteresis_ms (sd_anti_flapping svc)))) \<and>
        (\<forall>n. fs_failback_attempts s k = Some n \<longrightarrow> n < afp_max_auto_attempts (sd_anti_flapping svc)))"

lemma failback_budget_authorized:
  "fbd_authorized (failback_budget s k afp) \<longleftrightarrow>
     (\<forall>n. fs_failback_attempts s k = Some n \<longrightarrow> n < afp_max_auto_attempts afp)"
  by (auto simp: failback_budget_def default_FailbackDecision_def not_le split: option.splits)

lemma failback_hysteresis_authorized:
  "fbd_authorized (failback_hysteresis s k afp pref now) \<longleftrightarrow>
     (0 < afp_hysteresis_ms afp \<longrightarrow>
        (\<exists>t. fs_ready_since s pref = Some t \<and> window_passed t now (afp_hysteresis_ms afp))) \<and>
     fbd_authorized (failback_budget s k afp)"
  by (auto simp: failback_hysteresis_def default_FailbackDecision_def window_passed_def Let_def
      split: option.split)

lemma failback_cooldown_authorized:
  "fbd_authorized (failback_cooldown s k afp pref now now') \<longleftrightarrow>
     (\<forall>t. fs_last_transition s k = Some t \<longrightarrow> window_passed t now (afp_cooldown_ms afp)) \<and>
     fbd_authorized (failback_hysteresis s k afp pref now')"
  by (auto simp: failback_cooldown_def default_FailbackDecision_def window_passed_def Let_def
      split: option.split)

text \<open>The chain of gates is the conjunction of its conditions.\<close>

lemma failback_authorized_iff:
  "fbd_authorized (evaluate_failback s now now' k) \<longleftrightarrow> failback_permitted s now now' k"
proof (cases "\<exists>svc cur pref. service_for_slot s k = Some svc \<and> current_assignment s k = Some cur \<and>
    fs_preferred s k = Some pref")
  case True
  then obtain svc cur pref where found: "service_for_slot s k = Some svc"
      "current_assignment s k = Some cur" "fs_preferred s k = Some pref" by blast
  have policy: "policy_refusal s k (sd_failback svc) = None \<longleftrightarrow>
      sd_failback svc = FailbackPolicy.RETURN_AFTER_VALIDATION \<or>
      sd_failback svc = FailbackPolicy.MANUAL \<and> k \<in> fs_manual_failback_authorized s"
    by (auto simp: policy_refusal_def split: FailbackPolicy.split)
  have "fbd_authorized (evaluate_failback s now now' k) \<longleftrightarrow>
      asg_target cur \<noteq> pref \<and> policy_refusal s k (sd_failback svc) = None \<and> target_fresh_ready s pref \<and>
      fbd_authorized (failback_cooldown s k (sd_anti_flapping svc) pref now now')"
    by (simp add: evaluate_failback_def found default_FailbackDecision_def split: option.split)
  moreover have "failback_permitted s now now' k \<longleftrightarrow>
      asg_target cur \<noteq> pref \<and> policy_refusal s k (sd_failback svc) = None \<and> target_fresh_ready s pref \<and>
      fbd_authorized (failback_cooldown s k (sd_anti_flapping svc) pref now now')"
    unfolding failback_permitted_def found policy failback_cooldown_authorized
      failback_hysteresis_authorized failback_budget_authorized option.inject by blast
  ultimately show ?thesis by blast
next
  case False
  then show ?thesis
    by (cases "service_for_slot s k"; cases "current_assignment s k"; cases "fs_preferred s k")
      (simp_all add: evaluate_failback_def failback_permitted_def default_FailbackDecision_def)
qed

section \<open>Initial assignments and published facts\<close>

definition null_slot :: "ServiceSlotKey \<Rightarrow> bool" where
  "null_slot k \<longleftrightarrow> sk_service k = id_null \<or> sk_slot k = id_null"

lemma current_assignment_upd_slot:
  "wf_slots s \<Longrightarrow> current_assignment (upd_slot s k f) k' =
     (if k' = k then (case find_slot s k of None \<Rightarrow> None | Some st \<Rightarrow> ss_current (f st))
      else current_assignment s k')"
  by (simp add: current_assignment_def find_slot_upd_slot split: option.split)

text \<open>
  An initial assignment is exclusive: it is refused for a null slot or a slot that
  already has a current assignment; otherwise the slot's current assignment becomes the given
  one, active and with an authority generation, its target becomes the preferred target, and
  no other slot changes.
\<close>

theorem initial_assignment_exclusive:
  assumes "wf_fabric s"
  shows "case set_initial_assignment s now a of
      Inl e \<Rightarrow> null_slot (asg_slot a) \<and> e = InvalidArgument ''assignment slot is null'' \<or>
        \<not> null_slot (asg_slot a) \<and> current_assignment s (asg_slot a) \<noteq> None \<and>
        e = LogicError ''slot already has a current assignment''
    | Inr s' \<Rightarrow> \<not> null_slot (asg_slot a) \<and> current_assignment s (asg_slot a) = None \<and>
        fs_preferred s' (asg_slot a) = Some (asg_target a) \<and>
        (\<forall>k. current_assignment s' k =
           (if k = asg_slot a then Some (initial_assignment s a) else current_assignment s k))"
proof -
  define k where "k = asg_slot a"
  define s1 where "s1 = (if find_slot s k = None then add_slot s k else s)"
  define s2 where "s2 = s1\<lparr>fs_preferred := (fs_preferred s1)(k \<mapsto> asg_target a),
          fs_last_transition := (fs_last_transition s1)(k \<mapsto> now),
          fs_failback_attempts := (fs_failback_attempts s1)(k \<mapsto> 0)\<rparr>"
  have wf: "wf_slots s" using assms by (simp add: wf_fabric_def)
  have wf2: "wf_slots s2"
    using wf wf_slots_add_slot [OF wf, of k] by (simp add: s2_def s1_def wf_slots_def)
  have find2: "find_slot s2 k' = (if k' = k \<and> find_slot s k = None then Some (empty_slot k) else find_slot s k')" for k'
  proof -
    have "find_slot s2 k' = find_slot s1 k'" by (simp add: s2_def find_slot_def)
    then show ?thesis by (simp add: s1_def find_slot_add_slot [OF wf])
  qed
  have init: "initial_assignment s2 a = initial_assignment s a"
  proof -
    have "fs_last_authority_gen s2 = fs_last_authority_gen s" by (simp add: s2_def s1_def)
    then show ?thesis by (simp add: initial_assignment_def Let_def)
  qed
  have cur: "current_assignment (upd_slot s2 k (\<lambda>st. st\<lparr>ss_current := Some (initial_assignment s2 a)\<rparr>)) k' =
      (if k' = k then Some (initial_assignment s a) else current_assignment s k')" for k'
  proof (cases "k' = k")
    case True
    then show ?thesis by (simp add: current_assignment_upd_slot [OF wf2] find2 init split: option.split)
  next
    case False
    then have "current_assignment s2 k' = current_assignment s k'" by (simp add: current_assignment_def find2)
    with False show ?thesis by (simp add: current_assignment_upd_slot [OF wf2])
  qed
  have busy: "(case find_slot s k of Some st \<Rightarrow> ss_current st \<noteq> None | None \<Rightarrow> False) \<longleftrightarrow>
      current_assignment s k \<noteq> None"
    by (simp add: current_assignment_def split: option.split)
  show ?thesis
    unfolding set_initial_assignment_def Let_def k_def [symmetric] s1_def [symmetric] s2_def [symmetric] busy
    using cur by (auto simp: null_slot_def s2_def)
qed

theorem initial_assignment_exclusive_witness:
  "wf_fabric example_fabric \<and>
   set_initial_assignment example_fabric 9 example_assignment =
     Inl (LogicError ''slot already has a current assignment'')"
proof -
  have cur: "current_assignment example_fabric example_slot = Some (initial_assignment example_fabric example_assignment)"
    by code_simp
  have slot: "asg_slot example_assignment = example_slot" by code_simp
  have err: "set_initial_assignment example_fabric 9 example_assignment =
     Inl (LogicError ''slot already has a current assignment'')"
    using initial_assignment_exclusive [OF wf_example_fabric, of example_assignment 9] cur slot
    by (auto simp: null_slot_def id_null_def split: sum.splits)
  then show ?thesis using wf_example_fabric by simp
qed

definition facts_of :: "FabricState \<Rightarrow> TargetId \<Rightarrow> CandidateFacts option" where
  "facts_of s t = (case find_target s t of None \<Rightarrow> None | Some r \<Rightarrow> tr_facts r)"

definition facts_current :: "FabricState \<Rightarrow> CandidateFacts \<Rightarrow> bool" where
  "facts_current s f \<longleftrightarrow> (case facts_of s (cf_target f) of None \<Rightarrow> True
     | Some g \<Rightarrow> cf_readiness_generation g \<le> cf_readiness_generation f)"

lemma find_target_cong:
  "fs_targets s' = fs_targets s \<Longrightarrow> fs_target_index s' = fs_target_index s \<Longrightarrow>
   find_target (upd_target s' t f) = find_target (upd_target s t f)"
  by (auto simp: find_target_def upd_target_def fun_eq_iff split: option.split)

lemma facts_published:
  assumes "fs_target_index s (cf_target f) = Some n"
    and "case tr_facts (fs_targets s ! n) of None \<Rightarrow> True
      | Some g \<Rightarrow> gen_value (cf_readiness_generation g) \<le> gen_value (cf_readiness_generation f)"
  shows "\<exists>s3. fs_targets s3 = fs_targets s \<and> fs_target_index s3 = fs_target_index s \<and>
    publish_candidate_facts s now f =
      Inr (upd_target s3 (cf_target f) (\<lambda>t. t\<lparr>tr_facts := Some (f\<lparr>cf_evidence_fresh := True\<rparr>)\<rparr>))"
  unfolding publish_candidate_facts_def Let_def assms(1) option.case if_P [OF assms(2)]
  by (intro exI conjI refl [of "Inr (upd_target _ _ _)"]) simp_all

text \<open>
  Published facts never go back in readiness generation: facts for an unregistered target
  are refused; facts older than those held change nothing; otherwise the target's facts become
  the published ones, marked fresh, and no other target's facts change.
\<close>

theorem published_facts_monotonic:
  assumes "wf_fabric s"
  shows "case publish_candidate_facts s now f of
      Inl e \<Rightarrow> find_target s (cf_target f) = None \<and> e = InvalidArgument ''target not registered''
    | Inr s' \<Rightarrow> find_target s (cf_target f) \<noteq> None \<and> (\<not> facts_current s f \<longrightarrow> s' = s) \<and>
        (\<forall>t. facts_of s' t = (if t = cf_target f \<and> facts_current s f
                             then Some (f\<lparr>cf_evidence_fresh := True\<rparr>) else facts_of s t))"
proof (cases "fs_target_index s (cf_target f)")
  case None
  then show ?thesis by (simp add: publish_candidate_facts_def find_target_def)
next
  case (Some n)
  then obtain r where r: "find_target s (cf_target f) = Some r" "r = fs_targets s ! n"
    by (simp add: find_target_def)
  have wf: "wf_targets s" using assms by (simp add: wf_fabric_def)
  have acc: "(case tr_facts (fs_targets s ! n) of None \<Rightarrow> True
      | Some g \<Rightarrow> gen_value (cf_readiness_generation g) \<le> gen_value (cf_readiness_generation f)) \<longleftrightarrow>
      facts_current s f"
    using r by (simp add: facts_current_def facts_of_def less_eq_Gen_def split: option.split)
  show ?thesis
  proof (cases "facts_current s f")
    case False
    then have "publish_candidate_facts s now f = Inr s"
      by (simp add: publish_candidate_facts_def Some acc)
    with r False show ?thesis by simp
  next
    case True
    then obtain s3 where s3: "fs_targets s3 = fs_targets s" "fs_target_index s3 = fs_target_index s"
      and pub: "publish_candidate_facts s now f =
        Inr (upd_target s3 (cf_target f) (\<lambda>t. t\<lparr>tr_facts := Some (f\<lparr>cf_evidence_fresh := True\<rparr>)\<rparr>))"
      using facts_published [OF Some] acc by blast
    show ?thesis
      unfolding pub using r True
      by (simp add: facts_of_def find_target_cong [OF s3] find_target_upd_target [OF wf])
  qed
qed

theorem published_facts_monotonic_witness:
  "wf_fabric example_fabric \<and>
   publish_candidate_facts example_fabric 9 ((example_facts 20 99)\<lparr>cf_readiness_generation := gen_null\<rparr>) =
     Inr example_fabric"
proof -
  let ?f = "(example_facts 20 99)\<lparr>cf_readiness_generation := gen_null\<rparr>"
  have "find_target example_fabric (cf_target ?f) \<noteq> None" by code_simp
  moreover have "\<not> facts_current example_fabric ?f" by code_simp
  ultimately show ?thesis
    using published_facts_monotonic [OF wf_example_fabric, of ?f 9] wf_example_fabric
    by (auto split: sum.splits)
qed

end
