(* ===== verification/Cutover.thy ===== *)
theory Cutover
  imports Fabric_Props
begin

text \<open>
  \<open>execute_plan\<close> and \<open>execute_failback\<close> of \<^verbatim>\<open>fabric.cpp\<close>: the cutover transaction. The core
  holds its mutex in short regions and calls the \<open>CutoverOps\<close> adapter between them, so other
  threads run in between. The environment record stands for everything outside the core: the
  four adapter calls (each may throw) and the checkpoint file act on a world of their own, the clock reads it,
  and \<open>env_yield\<close> is whatever other threads do to the fabric whenever the mutex is free.
  Each locked region is one definition; a region either ends the attempt or goes on.
\<close>

section \<open>Environment and sequencing\<close>

record 'w CutoverEnv =
  env_fence_old :: "Assignment \<Rightarrow> WorkerBootId \<Rightarrow> 'w \<Rightarrow> FenceOutcome result \<times> 'w"
  env_activate :: "Candidate \<Rightarrow> WorkerAuthorization \<Rightarrow> ServiceAuthorityGeneration \<Rightarrow> 'w \<Rightarrow> ActivateOutcome result \<times> 'w"
  env_install_route :: "RouteEntry \<Rightarrow> GatewayBootId \<Rightarrow> 'w \<Rightarrow> RouteOutcome result \<times> 'w"
  env_verify :: "RouteEntry \<Rightarrow> WorkerAuthorization \<Rightarrow> 'w \<Rightarrow> VerifyOutcome result \<times> 'w"
  env_save_file :: "string \<Rightarrow> PersistenceSnapshot \<Rightarrow> 'w \<Rightarrow> 'w \<times> unit result"
  env_now :: "'w \<Rightarrow> int"
  env_yield :: "'w \<times> FabricState \<Rightarrow> 'w \<times> FabricState"

text \<open>How a region can leave \<open>execute_plan\<close>: by an exception or by \<^verbatim>\<open>return result\<close>.\<close>

datatype exit = Threw exn | Returned AttemptResult

type_synonym ('w, 'a) prog = "'w \<times> FabricState \<Rightarrow> ('w \<times> FabricState) \<times> (exit + 'a)"

definition and_then :: "('w, 'a) prog \<Rightarrow> ('a \<Rightarrow> ('w, 'b) prog) \<Rightarrow> ('w, 'b) prog" where
  "and_then m f \<sigma> = (case m \<sigma> of (\<sigma>', Inl x) \<Rightarrow> (\<sigma>', Inl x) | (\<sigma>', Inr a) \<Rightarrow> f a \<sigma>')"

definition locked :: "'w CutoverEnv \<Rightarrow> (FabricState \<Rightarrow> FabricState \<times> (exit + 'a)) \<Rightarrow> ('w, 'a) prog" where
  "locked env f \<sigma> = (case f (snd \<sigma>) of (s', r) \<Rightarrow> (env_yield env (fst \<sigma>, s'), r))"

text \<open>The local variables of the attempt once it is under way.\<close>

record Txn =
  tx_new :: Assignment
  tx_old :: "Assignment option"
  tx_selected :: Candidate
  tx_result :: AttemptResult

abbreviation tx_slot :: "Txn \<Rightarrow> ServiceSlotKey" where
  "tx_slot tx \<equiv> asg_slot (tx_new tx)"

definition push_attempt :: "FabricState \<Rightarrow> AttemptState \<Rightarrow> FabricState" where
  "push_attempt s st = s\<lparr>fs_attempt_states := fs_attempt_states s @ [st]\<rparr>"

text \<open>Push the final attempt state and return the result with it and a detail.\<close>

definition finish :: "FabricState \<Rightarrow> AttemptResult \<Rightarrow> AttemptState \<Rightarrow> string \<Rightarrow> FabricState \<times> (exit + 'a)" where
  "finish s r st why = (push_attempt s st, Inl (Returned (r\<lparr>ar_state := st, ar_detail := why\<rparr>)))"

section \<open>The locked regions\<close>

definition source_changed :: "FailoverPlan \<Rightarrow> Assignment option \<Rightarrow> bool" where
  "source_changed p old =
     (case fp_source_assignment p of
        None \<Rightarrow> False
      | Some src \<Rightarrow> (case old of None \<Rightarrow> True
                    | Some a \<Rightarrow> asg_id a \<noteq> asg_id src \<or> asg_generation a \<noteq> asg_generation src))"

text \<open>The candidate of the fresh snapshot that the plan selected, if it still is eligible.\<close>

definition revalidate ::
    "CandidateSnapshot \<Rightarrow> ServiceDefinition \<Rightarrow> DomainRegistry \<Rightarrow> SelectionContext \<Rightarrow> Candidate \<Rightarrow> Candidate option" where
  "revalidate snap svc reg ctx sel =
     (case List.find (\<lambda>c. cand_target c = cand_target sel \<and> cand_boot c = cand_boot sel) (snap_candidates snap) of
        None \<Rightarrow> None
      | Some c \<Rightarrow> if snd (hard_eligible c svc reg ctx) then Some c else None)"

definition new_assignment ::
    "FailoverPlan \<Rightarrow> Candidate \<Rightarrow> AssignmentId \<Rightarrow> AssignmentGeneration \<Rightarrow> ServiceAuthorityGeneration \<Rightarrow>
     ActivationId \<Rightarrow> ActivationGeneration \<Rightarrow> Assignment" where
  "new_assignment p c i g auth act actg =
     (let f = cand_facts c
      in default_Assignment\<lparr>asg_id := i, asg_generation := g, asg_slot := fp_slot p,
           asg_target := cf_target f, asg_target_generation := cf_target_generation f,
           asg_replica := cf_replica f, asg_replica_generation := cf_replica_generation f,
           asg_engine := cf_engine f, asg_engine_incarnation := cf_engine_incarnation f,
           asg_readiness_profile := cf_profile f, asg_authority_generation := auth,
           asg_activation := act, asg_activation_generation := actg,
           asg_route := fp_requested_route p, asg_route_generation := fp_requested_route_generation p,
           asg_worker_boot := cf_worker_boot f, asg_state := AssignmentState.AUTHORIZED, asg_provisory := True,
           asg_resource_claims := (if list_ex (\<lambda>cr. cres_resource_class cr = ''cuda_device'') (cand_resources c)
                                   then [min_id] else [])\<rparr>)"

text \<open>The generations the new assignment draws, in the order of the calls.\<close>

definition draw_generations ::
    "FabricState \<Rightarrow> (AssignmentGeneration \<times> ServiceAuthorityGeneration \<times> ActivationGeneration) result" where
  "draw_generations s =
     bindE (gen_next (fs_assignment_gen_counter s)) (\<lambda>g.
     bindE (gen_next (fs_last_authority_gen s)) (\<lambda>auth.
     bindE (gen_next (fs_activation_gen_counter s)) (\<lambda>act. Inr (g, auth, act))))"

definition begin_attempt :: "FailoverPlan \<Rightarrow> FabricState \<Rightarrow> FabricState \<times> (exit + Txn)" where
  "begin_attempt p s =
     (case gen_next (fs_attempt_gen_counter s) of
        Inl e \<Rightarrow> (s, Inl (Threw e))
      | Inr ag \<Rightarrow>
     (let r = default_AttemptResult\<lparr>ar_attempt := id_next (fs_attempt_counter s), ar_generation := ag,
                ar_state := AttemptState.REQUESTED\<rparr>;
          old = current_assignment s (fp_slot p)
      in case service_for_slot s (fp_slot p) of
           None \<Rightarrow> finish s r AttemptState.FAILED ''service not registered''
         | Some svc \<Rightarrow>
        (case fp_selected p of
           None \<Rightarrow> finish s r AttemptState.FAILED ''plan has no selected candidate''
         | Some sel \<Rightarrow>
             if source_changed p old
             then finish s r AttemptState.FAILED ''source assignment changed since planning''
             else
        (case snapshot_locked s (fp_slot p) of
           Inl e \<Rightarrow> (s, Inl (Threw e))
         | Inr (s1, snap) \<Rightarrow>
        (case revalidate snap svc (fs_domains s1) (build_context s1 (fp_slot p)) sel of
           None \<Rightarrow> finish s1 r AttemptState.FAILED ''selected candidate failed fresh revalidation''
         | Some c \<Rightarrow>
             (let s2 = s1\<lparr>fs_assignment_counter := id_next (fs_assignment_counter s1)\<rparr>
              in case draw_generations s2 of
                   Inl e \<Rightarrow> (s2, Inl (Threw e))
                 | Inr (g, auth, actg) \<Rightarrow>
                     (push_attempt s2 AttemptState.EVALUATING,
                      Inr \<lparr>tx_new = new_assignment p c (fs_assignment_counter s1) g auth
                                      (id_next (fs_activation_counter s2)) actg,
                           tx_old = old, tx_selected = c,
                           tx_result = r\<lparr>ar_reached := Milestone.INTENT_ONLY\<rparr>\<rparr>)))))))"

text \<open>The locked part of \<open>checkpoint\<close>: record the pending transaction.\<close>

definition record_txn :: "Milestone \<Rightarrow> Txn \<Rightarrow> RouteEntry option \<Rightarrow> FabricState \<Rightarrow> FabricState" where
  "record_txn m tx rt s = s\<lparr>fs_has_txn := True, fs_txn_milestone := m,
     fs_pending_assignment := Some (tx_new tx), fs_source_assignment := tx_old tx, fs_pending_route := rt\<rparr>"

definition after_fence :: "FenceOutcome \<Rightarrow> Txn \<Rightarrow> FabricState \<Rightarrow> FabricState \<times> (exit + Txn)" where
  "after_fence fo tx s =
     (if fo_fencing_unproven fo
      then finish s (tx_result tx) AttemptState.FAILED
             ''FENCING_UNPROVEN: cannot enforce fencing at a mandated boundary''
      else if \<not> fo_applied fo
      then finish s (tx_result tx) AttemptState.FAILED (''fence not applied: '' @ fo_detail fo)
      else ((case tx_old tx of None \<Rightarrow> s | Some old \<Rightarrow> add_fenced_boot s (asg_worker_boot old)),
            Inr (tx\<lparr>tx_result := (tx_result tx)\<lparr>ar_reached := Milestone.OLD_ADMISSION_FENCED,
                                               ar_state := AttemptState.FENCING\<rparr>\<rparr>)))"

definition after_activate :: "ActivateOutcome \<Rightarrow> Txn \<Rightarrow> FabricState \<Rightarrow> FabricState \<times> (exit + Txn)" where
  "after_activate ao tx s =
     (if \<not> ao_acknowledged ao
      then finish s (tx_result tx) AttemptState.RECOVERY_REQUIRED (''activation not acknowledged: '' @ ao_detail ao)
      else (s, Inr (tx\<lparr>tx_result := (tx_result tx)\<lparr>ar_reached := Milestone.ACTIVATION_ACKNOWLEDGED,
                                               ar_state := AttemptState.CUTTING_OVER\<rparr>\<rparr>)))"

definition after_route :: "RouteOutcome \<Rightarrow> RouteEntry \<Rightarrow> Txn \<Rightarrow> FabricState \<Rightarrow> FabricState \<times> (exit + Txn)" where
  "after_route ro re tx s =
     (if \<not> ro_acknowledged ro
      then finish s (tx_result tx) AttemptState.RECOVERY_REQUIRED (''route not acknowledged: '' @ ro_detail ro)
      else (s\<lparr>fs_routes := fst (rt_install (fs_routes s) re)\<rparr>,
            Inr (tx\<lparr>tx_result := (tx_result tx)\<lparr>ar_reached := Milestone.ROUTE_INSTALLED,
                                               ar_state := AttemptState.VERIFYING\<rparr>\<rparr>)))"

text \<open>
  The commit. A slot that has no entry is pushed without an entry in the index, and the
  pointer goes to that last element.
\<close>

definition commit_position :: "FabricState \<Rightarrow> ServiceSlotKey \<Rightarrow> FabricState \<times> nat" where
  "commit_position s k =
     (case fs_slot_index s k of
        Some n \<Rightarrow> (s, n)
      | None \<Rightarrow> (s\<lparr>fs_slots := fs_slots s @ [empty_slot k]\<rparr>, length (fs_slots s)))"

definition superseded :: "Assignment option \<Rightarrow> SlotState \<Rightarrow> bool" where
  "superseded old st =
     (case old of
        None \<Rightarrow> False
      | Some o' \<Rightarrow> (case ss_current st of None \<Rightarrow> False
          | Some cur \<Rightarrow> \<not> (asg_id cur = asg_id o' \<and> asg_generation cur = asg_generation o')))"

definition fenced_predecessor :: "Assignment option \<Rightarrow> SlotState \<Rightarrow> Assignment list" where
  "fenced_predecessor old st =
     (case ss_current st of
        Some cur \<Rightarrow> [cur\<lparr>asg_state := AssignmentState.FENCED\<rparr>]
      | None \<Rightarrow> (case old of Some o' \<Rightarrow> [o'\<lparr>asg_state := AssignmentState.FENCED\<rparr>] | None \<Rightarrow> []))"

definition commit :: "VerifyOutcome \<Rightarrow> int \<Rightarrow> Txn \<Rightarrow> FabricState \<Rightarrow> FabricState \<times> (exit + AttemptResult)" where
  "commit vo now tx s =
     (if \<not> vo_verified vo
      then finish s (tx_result tx) AttemptState.RECOVERY_REQUIRED (''verification failed: '' @ vo_detail vo)
      else
        (let (s1, n) = commit_position s (tx_slot tx); st = fs_slots s1 ! n
         in if superseded (tx_old tx) st
            then finish s1 (tx_result tx) AttemptState.SUPERSEDED ''attempt superseded by a newer promotion''
            else
              (let s2 = (case tx_old tx of None \<Rightarrow> s1 | Some old \<Rightarrow> add_fenced_boot s1 (asg_worker_boot old));
                   new = (tx_new tx)\<lparr>asg_state := AssignmentState.ACTIVE, asg_provisory := False\<rparr>;
                   st' = st\<lparr>ss_history := ss_history st @ fenced_predecessor (tx_old tx) st, ss_current := Some new\<rparr>;
                   s3 = s2\<lparr>fs_slots := (fs_slots s2)[n := st'],
                          fs_last_authority_gen := asg_authority_generation new,
                          fs_last_transition := (fs_last_transition s2)(tx_slot tx \<mapsto> now),
                          fs_has_txn := False\<rparr>
               in (push_attempt s3 AttemptState.COMPLETED,
                   Inr ((tx_result tx)\<lparr>ar_reached := Milestone.VERIFICATION_COMPLETE,
                          ar_state := AttemptState.COMPLETED, ar_recovery_verified := True,
                          ar_committed_assignment := Some new\<rparr>)))))"

section \<open>The transaction\<close>

definition route_for :: "Txn \<Rightarrow> FabricState \<Rightarrow> RouteEntry" where
  "route_for tx s =
     (let a = tx_new tx; f = cand_facts (tx_selected tx)
      in default_RouteEntry\<lparr>re_route := asg_route a, re_generation := asg_route_generation a,
           re_slot := asg_slot a, re_target := asg_target a, re_target_generation := asg_target_generation a,
           re_incarnation := cf_engine_incarnation f, re_permitted_boot := cf_worker_boot f,
           re_assignment := asg_id a, re_assignment_generation := asg_generation a, re_epoch := fs_epoch s,
           re_gateway_boot := fs_gateway_boot s, re_state := RouteState.ACKNOWLEDGED,
           re_transport := ''pipes/'' @ decimal (unat (id_value (cf_target f)))\<rparr>)"

text \<open>
  \<open>checkpoint\<close>: record the transaction, save it when a path is set (which may throw), and stop
  the attempt when the barrier is at this milestone.
\<close>

definition save_checkpoint :: "'w CutoverEnv \<Rightarrow> 'w \<times> FabricState \<Rightarrow> 'w \<times> unit result" where
  "save_checkpoint env \<sigma> =
     (if fs_checkpoint_path (snd \<sigma>) \<noteq> []
      then env_save_file env (fs_checkpoint_path (snd \<sigma>)) (save_snapshot (snd \<sigma>)) (fst \<sigma>)
      else (fst \<sigma>, Inr ()))"

definition stop_at_barrier :: "'w CutoverEnv \<Rightarrow> Milestone \<Rightarrow> Txn \<Rightarrow> ('w, Txn) prog" where
  "stop_at_barrier env m tx \<sigma> =
     (case save_checkpoint env \<sigma> of
        (w, Inl e) \<Rightarrow> (env_yield env (w, snd \<sigma>), Inl (Threw e))
      | (w, Inr _) \<Rightarrow>
          (let \<sigma>1 = env_yield env (w, snd \<sigma>)
           in (env_yield env \<sigma>1,
               if fs_barrier_milestone (snd \<sigma>1) = m
               then Inl (Returned ((tx_result tx)\<lparr>ar_state := AttemptState.RECOVERY_REQUIRED,
                      ar_detail := ''cutover interrupted at '' @ to_string_Milestone m @ '' (checkpointed)''\<rparr>))
               else Inr tx)))"

definition checkpoint :: "'w CutoverEnv \<Rightarrow> Milestone \<Rightarrow> RouteEntry option \<Rightarrow> Txn \<Rightarrow> ('w, Txn) prog" where
  "checkpoint env m rt tx =
     and_then (locked env (\<lambda>s. (record_txn m tx rt s, Inr ()))) (\<lambda>_. stop_at_barrier env m tx)"

text \<open>A call of the adapter, made with the mutex free; an exception leaves \<open>execute_plan\<close>.\<close>

definition ext_call :: "'w CutoverEnv \<Rightarrow> ('w \<Rightarrow> 'a result \<times> 'w) \<Rightarrow> ('w, 'a) prog" where
  "ext_call env f \<sigma> =
     (case f (fst \<sigma>) of
        (Inl e, w) \<Rightarrow> (env_yield env (w, snd \<sigma>), Inl (Threw e))
      | (Inr x, w) \<Rightarrow> (env_yield env (w, snd \<sigma>), Inr x))"

definition call_fence :: "'w CutoverEnv \<Rightarrow> Txn \<Rightarrow> ('w, FenceOutcome) prog" where
  "call_fence env tx \<sigma> =
     (case tx_old tx of
        Some old \<Rightarrow> ext_call env (env_fence_old env old (cand_boot (tx_selected tx))) \<sigma>
      | None \<Rightarrow> (\<sigma>, Inr (default_FenceOutcome\<lparr>fo_applied := True, fo_detail := ''no old assignment to fence''\<rparr>)))"

definition call_activate :: "'w CutoverEnv \<Rightarrow> Txn \<Rightarrow> WorkerAuthorization \<Rightarrow> ('w, ActivateOutcome) prog" where
  "call_activate env tx auth =
     ext_call env (env_activate env (tx_selected tx) auth (asg_authority_generation (tx_new tx)))"

definition call_install_route :: "'w CutoverEnv \<Rightarrow> RouteEntry \<Rightarrow> ('w, RouteOutcome) prog" where
  "call_install_route env re \<sigma> =
     ext_call env (env_install_route env re (fs_gateway_boot (snd \<sigma>))) \<sigma>"

definition call_verify :: "'w CutoverEnv \<Rightarrow> RouteEntry \<Rightarrow> WorkerAuthorization \<Rightarrow> ('w, VerifyOutcome) prog" where
  "call_verify env re auth = ext_call env (env_verify env re auth)"

text \<open>The authorization the replacement serves under, for the epoch read at that moment.\<close>

definition auth_for :: "Txn \<Rightarrow> FabricState \<Rightarrow> WorkerAuthorization" where
  "auth_for tx s = make_auth (fs_epoch s) (tx_new tx) (tx_selected tx) (Id 1) (Id 1) ''serve''"

definition fence_phase :: "'w CutoverEnv \<Rightarrow> Txn \<Rightarrow> ('w, Txn) prog" where
  "fence_phase env tx =
     and_then (call_fence env tx) (\<lambda>fo.
     and_then (locked env (after_fence fo tx)) (checkpoint env Milestone.OLD_ADMISSION_FENCED None))"

definition activate_phase :: "'w CutoverEnv \<Rightarrow> WorkerAuthorization \<Rightarrow> Txn \<Rightarrow> ('w, Txn) prog" where
  "activate_phase env auth tx =
     and_then (call_activate env tx auth) (\<lambda>ao.
     and_then (locked env (after_activate ao tx)) (checkpoint env Milestone.ACTIVATION_ACKNOWLEDGED None))"

definition route_phase :: "'w CutoverEnv \<Rightarrow> RouteEntry \<Rightarrow> Txn \<Rightarrow> ('w, Txn) prog" where
  "route_phase env re tx =
     and_then (call_install_route env re) (\<lambda>ro.
     and_then (locked env (after_route ro re tx)) (checkpoint env Milestone.ROUTE_INSTALLED (Some re)))"

definition verify_phase :: "'w CutoverEnv \<Rightarrow> RouteEntry \<Rightarrow> WorkerAuthorization \<Rightarrow> Txn \<Rightarrow> ('w, AttemptResult) prog" where
  "verify_phase env re auth tx =
     and_then (call_verify env re auth) (\<lambda>vo \<sigma>. locked env (commit vo (env_now env (fst \<sigma>)) tx) \<sigma>)"

text \<open>The rest of the transaction from each phase on, with what was read before it.\<close>

definition from_verify ::
    "'w CutoverEnv \<Rightarrow> RouteEntry \<Rightarrow> WorkerAuthorization \<Rightarrow> int \<Rightarrow> Txn \<Rightarrow> ('w, AttemptResult) prog" where
  "from_verify env re auth t0 tx =
     and_then (verify_phase env re auth tx) (\<lambda>r \<sigma>.
       (\<sigma>, Inr (r\<lparr>ar_elapsed_ms := of_int (duration_ms (env_now env (fst \<sigma>) - t0))\<rparr>)))"

definition from_route :: "'w CutoverEnv \<Rightarrow> WorkerAuthorization \<Rightarrow> int \<Rightarrow> Txn \<Rightarrow> ('w, AttemptResult) prog" where
  "from_route env auth t0 tx \<sigma> =
     (let re = route_for tx (snd \<sigma>) in and_then (route_phase env re tx) (from_verify env re auth t0) \<sigma>)"

definition from_activate :: "'w CutoverEnv \<Rightarrow> int \<Rightarrow> Txn \<Rightarrow> ('w, AttemptResult) prog" where
  "from_activate env t0 tx \<sigma> =
     (let auth = auth_for tx (snd \<sigma>) in and_then (activate_phase env auth tx) (from_route env auth t0) \<sigma>)"

definition from_fence :: "'w CutoverEnv \<Rightarrow> Txn \<Rightarrow> ('w, AttemptResult) prog" where
  "from_fence env tx \<sigma> = and_then (fence_phase env tx) (from_activate env (env_now env (fst \<sigma>))) \<sigma>"

definition begin_phase :: "'w CutoverEnv \<Rightarrow> FailoverPlan \<Rightarrow> ('w, Txn) prog" where
  "begin_phase env p = and_then (locked env (begin_attempt p)) (checkpoint env Milestone.INTENT_ONLY None)"

definition run_attempt :: "'w CutoverEnv \<Rightarrow> FailoverPlan \<Rightarrow> ('w, AttemptResult) prog" where
  "run_attempt env p = and_then (begin_phase env p) (from_fence env)"

definition execute_plan ::
    "'w CutoverEnv \<Rightarrow> FailoverPlan \<Rightarrow> 'w \<times> FabricState \<Rightarrow> ('w \<times> FabricState) \<times> AttemptResult result" where
  "execute_plan env p \<sigma> =
     (case run_attempt env p \<sigma> of
        (\<sigma>', Inl (Threw e)) \<Rightarrow> (\<sigma>', Inl e)
      | (\<sigma>', Inl (Returned r)) \<Rightarrow> (\<sigma>', Inr r)
      | (\<sigma>', Inr r) \<Rightarrow> (\<sigma>', Inr r))"

section \<open>Failback\<close>

definition failed_result :: "string \<Rightarrow> AttemptResult" where
  "failed_result why = default_AttemptResult\<lparr>ar_state := AttemptState.FAILED, ar_detail := why\<rparr>"

text \<open>The bookkeeping after a failback attempt.\<close>

definition settle_failback :: "ServiceSlotKey \<Rightarrow> int \<Rightarrow> AttemptResult \<Rightarrow> FabricState \<Rightarrow> FabricState" where
  "settle_failback k now r s =
     (if ar_state r = AttemptState.COMPLETED
      then s\<lparr>fs_last_transition := (fs_last_transition s)(k \<mapsto> now),
             fs_failback_attempts := (fs_failback_attempts s)(k \<mapsto> 0)\<rparr>
      else s\<lparr>fs_failback_attempts := (fs_failback_attempts s)
               (k \<mapsto> (case fs_failback_attempts s k of None \<Rightarrow> 0 | Some n \<Rightarrow> n) + 1)\<rparr>)"

text \<open>
  Both reads of the clock in \<open>evaluate_failback\<close> see the same time here: the world does not move
  while the lock is held.
\<close>

definition execute_failback ::
    "'w CutoverEnv \<Rightarrow> ServiceSlotKey \<Rightarrow> 'w \<times> FabricState \<Rightarrow> ('w \<times> FabricState) \<times> AttemptResult result" where
  "execute_failback env k \<sigma> =
     (let now = env_now env (fst \<sigma>);
          d = evaluate_failback (snd \<sigma>) now now k;
          \<sigma>1 = env_yield env \<sigma>
      in if \<not> fbd_authorized d
         then (\<sigma>1, Inr (failed_result (''failback not authorized: '' @ fbd_reason d)))
         else
           (let pref = fs_preferred (snd \<sigma>1) k; \<sigma>2 = env_yield env \<sigma>1
            in case pref of
                 None \<Rightarrow> (\<sigma>2, Inr (failed_result ''no preferred target''))
               | Some t \<Rightarrow>
                   (case plan_failover_pref (snd \<sigma>2) k (Some t) of
                      (s3, Inl e) \<Rightarrow> (env_yield env (fst \<sigma>2, s3), Inl e)
                    | (s3, Inr None) \<Rightarrow>
                        (env_yield env (fst \<sigma>2, s3), Inr (failed_result ''no eligible preferred target for failback''))
                    | (s3, Inr (Some p)) \<Rightarrow>
                        if fp_selected p = None
                        then (env_yield env (fst \<sigma>2, s3), Inr (failed_result ''no eligible preferred target for failback''))
                        else
                          (case execute_plan env p (env_yield env (fst \<sigma>2, s3)) of
                             (\<sigma>4, Inl e) \<Rightarrow> (\<sigma>4, Inl e)
                           | (\<sigma>4, Inr r) \<Rightarrow>
                               (env_yield env (fst \<sigma>4, settle_failback k (env_now env (fst \<sigma>4)) r (snd \<sigma>4)), Inr r)))))"

end
