(* ===== verification/Cutover_Props.thy ===== *)
theory Cutover_Props
  imports Cutover
begin

text \<open>
  Correctness of the cutover transaction. The locale \<open>cutover_invariant\<close> carries a property of
  the fabric through a whole attempt once every locked region and the interference keep it;
  the theorems use it for the representation invariant, for the fenced boots and for the
  authority an unfinished attempt must leave alone. A completed attempt is taken apart into
  the outcomes it was given.
\<close>

section \<open>Sequencing\<close>

lemma and_then_Inr_iff:
  "and_then m f \<sigma> = (\<sigma>'', Inr b) \<longleftrightarrow> (\<exists>\<sigma>' a. m \<sigma> = (\<sigma>', Inr a) \<and> f a \<sigma>' = (\<sigma>'', Inr b))"
  by (auto simp: and_then_def split: prod.splits sum.splits)

lemma and_then_Inl_iff:
  "and_then m f \<sigma> = (\<sigma>'', Inl x) \<longleftrightarrow>
     m \<sigma> = (\<sigma>'', Inl x) \<or> (\<exists>\<sigma>' a. m \<sigma> = (\<sigma>', Inr a) \<and> f a \<sigma>' = (\<sigma>'', Inl x))"
  by (auto simp: and_then_def split: prod.splits sum.splits)

lemma locked_eq_iff:
  "locked env f \<sigma> = (\<sigma>', r) \<longleftrightarrow> (\<exists>s'. f (snd \<sigma>) = (s', r) \<and> \<sigma>' = env_yield env (fst \<sigma>, s'))"
  by (auto simp: locked_def split: prod.splits)

text \<open>\<open>prog_keeps P m\<close>: whatever \<open>m\<close> does, it keeps \<open>P\<close>.\<close>

definition prog_keeps :: "(FabricState \<Rightarrow> bool) \<Rightarrow> ('w, 'a) prog \<Rightarrow> bool" where
  "prog_keeps P m \<longleftrightarrow> (\<forall>\<sigma>. P (snd \<sigma>) \<longrightarrow> P (snd (fst (m \<sigma>))))"

lemma prog_keepsD: "prog_keeps P m \<Longrightarrow> P (snd \<sigma>) \<Longrightarrow> m \<sigma> = (\<sigma>', r) \<Longrightarrow> P (snd \<sigma>')"
  by (metis fst_conv prog_keeps_def)

lemma prog_keeps_and_then:
  assumes "prog_keeps P m" and "\<And>a. prog_keeps P (f a)"
  shows "prog_keeps P (and_then m f)"
  unfolding prog_keeps_def
proof (intro allI impI)
  fix \<sigma> :: "'a \<times> FabricState"
  assume "P (snd \<sigma>)"
  obtain \<sigma>' r where m: "m \<sigma> = (\<sigma>', r)" by fastforce
  then have P': "P (snd \<sigma>')" using assms(1) \<open>P (snd \<sigma>)\<close> prog_keepsD by blast
  show "P (snd (fst (and_then m f \<sigma>)))"
  proof (cases r)
    case (Inr a)
    with m P' assms(2) [of a] show ?thesis by (simp add: and_then_def prog_keeps_def del: split_paired_All)
  qed (simp add: and_then_def m P')
qed

text \<open>\<open>exit_keeps P m\<close>: where \<open>m\<close> leaves the attempt, it has kept \<open>P\<close>.\<close>

definition exit_keeps :: "(FabricState \<Rightarrow> bool) \<Rightarrow> ('w, 'a) prog \<Rightarrow> bool" where
  "exit_keeps P m \<longleftrightarrow> (\<forall>\<sigma> \<sigma>' x. P (snd \<sigma>) \<longrightarrow> m \<sigma> = (\<sigma>', Inl x) \<longrightarrow> P (snd \<sigma>'))"

lemma exit_keeps_and_then:
  "prog_keeps P m \<Longrightarrow> (\<And>a. exit_keeps P (f a)) \<Longrightarrow> exit_keeps P (and_then m f)"
  unfolding exit_keeps_def and_then_Inl_iff using prog_keepsD by blast

text \<open>\<open>exits_incomplete m\<close>: a \<^verbatim>\<open>return\<close> from inside \<open>m\<close> never reports a completed attempt.\<close>

definition exits_incomplete :: "('w, 'a) prog \<Rightarrow> bool" where
  "exits_incomplete m \<longleftrightarrow> (\<forall>\<sigma> \<sigma>' r. m \<sigma> = (\<sigma>', Inl (Returned r)) \<longrightarrow>
     ar_state r \<in> {AttemptState.FAILED, AttemptState.RECOVERY_REQUIRED, AttemptState.SUPERSEDED})"

lemma exits_incomplete_and_then:
  "exits_incomplete m \<Longrightarrow> (\<And>a. exits_incomplete (f a)) \<Longrightarrow> exits_incomplete (and_then m f)"
  unfolding exits_incomplete_def and_then_Inl_iff by blast

lemma exits_incomplete_locked:
  assumes "\<And>s s' r. f s = (s', Inl (Returned r)) \<Longrightarrow>
     ar_state r \<in> {AttemptState.FAILED, AttemptState.RECOVERY_REQUIRED, AttemptState.SUPERSEDED}"
  shows "exits_incomplete (locked env f)"
  using assms unfolding exits_incomplete_def locked_eq_iff by blast

section \<open>What the regions keep\<close>

text \<open>The parts of the state that carry authority over the slots.\<close>

definition authority_view ::
    "FabricState \<Rightarrow> SlotState list \<times> (ServiceSlotKey \<Rightarrow> nat option) \<times> ServiceAuthorityGeneration \<times> CoordinatorEpoch" where
  "authority_view s = (fs_slots s, fs_slot_index s, fs_last_authority_gen s, fs_epoch s)"

lemma push_attempt_view [simp]: "authority_view (push_attempt s st) = authority_view s"
  by (simp add: authority_view_def push_attempt_def)

lemma add_fenced_boot_view [simp]: "authority_view (add_fenced_boot s b) = authority_view s"
  by (simp add: authority_view_def add_fenced_boot_def)

lemma record_txn_view [simp]: "authority_view (record_txn m tx rt s) = authority_view s"
  by (simp add: authority_view_def record_txn_def)

lemma finish_view: "finish s r st why = (s', x) \<Longrightarrow> authority_view s' = authority_view s"
  by (auto simp: finish_def)

lemma snapshot_locked_view: "snapshot_locked s k = Inr (s', snap) \<Longrightarrow> authority_view s' = authority_view s"
  by (auto dest!: snapshot_locked_state simp: authority_view_def)

lemma begin_attempt_view: "authority_view (fst (begin_attempt p s)) = authority_view s"
  unfolding begin_attempt_def Let_def
  by (auto simp: finish_def snapshot_locked_view split: sum.split option.split prod.split)
    (auto simp: authority_view_def dest!: snapshot_locked_state)

lemma after_fence_view: "authority_view (fst (after_fence fo tx s)) = authority_view s"
  by (simp add: after_fence_def finish_def split: option.split)

lemma after_activate_view: "authority_view (fst (after_activate ao tx s)) = authority_view s"
  by (simp add: after_activate_def finish_def)

lemma after_route_view: "authority_view (fst (after_route ro re tx s)) = authority_view s"
  by (simp add: after_route_def finish_def) (simp add: authority_view_def)

lemma commit_exit_view:
  assumes "commit vo now tx s = (s', Inl x)"
  shows "authority_view s' = authority_view s"
proof (cases "vo_verified vo")
  case False
  then show ?thesis using assms by (auto simp: commit_def finish_def)
next
  case True
  show ?thesis
  proof (cases "fs_slot_index s (tx_slot tx)")
    case None
    then have "\<not> superseded (tx_old tx) (fs_slots (fst (commit_position s (tx_slot tx))) ! snd (commit_position s (tx_slot tx)))"
      by (simp add: commit_position_def superseded_def empty_slot_def split: option.split)
    with True assms show ?thesis by (simp add: commit_def Let_def split_beta)
  next
    case (Some n)
    with True assms show ?thesis
      by (auto simp: commit_def commit_position_def finish_def Let_def split: if_splits)
  qed
qed

section \<open>What a phase that goes on was told\<close>

definition same_txn :: "Txn \<Rightarrow> Txn \<Rightarrow> bool" where
  "same_txn a b \<longleftrightarrow> tx_new a = tx_new b \<and> tx_old a = tx_old b \<and> tx_selected a = tx_selected b"

lemma same_txn_trans: "same_txn a b \<Longrightarrow> same_txn b c \<Longrightarrow> same_txn a c"
  by (simp add: same_txn_def)

lemma stop_at_barrier_Inr: "stop_at_barrier env m tx \<sigma> = (\<sigma>', Inr tx') \<Longrightarrow> tx' = tx"
  by (cases "save_checkpoint env \<sigma>"; cases "snd (save_checkpoint env \<sigma>)")
    (auto simp: stop_at_barrier_def Let_def split: if_splits)

lemma checkpoint_Inr: "checkpoint env m rt tx \<sigma> = (\<sigma>', Inr tx') \<Longrightarrow> tx' = tx"
  unfolding checkpoint_def and_then_Inr_iff using stop_at_barrier_Inr by blast

lemma after_fence_Inr:
  "after_fence fo tx s = (s', Inr tx') \<Longrightarrow> same_txn tx tx' \<and> fo_applied fo \<and> \<not> fo_fencing_unproven fo"
  by (auto simp: after_fence_def finish_def same_txn_def split: if_splits)

lemma after_activate_Inr: "after_activate ao tx s = (s', Inr tx') \<Longrightarrow> same_txn tx tx' \<and> ao_acknowledged ao"
  by (auto simp: after_activate_def finish_def same_txn_def split: if_splits)

lemma after_route_Inr: "after_route ro re tx s = (s', Inr tx') \<Longrightarrow> same_txn tx tx' \<and> ro_acknowledged ro"
  by (auto simp: after_route_def finish_def same_txn_def split: if_splits)

definition fence_succeeded :: "'w CutoverEnv \<Rightarrow> Txn \<Rightarrow> bool" where
  "fence_succeeded env tx \<longleftrightarrow> (case tx_old tx of None \<Rightarrow> True | Some old \<Rightarrow>
     (\<exists>w fo w'. env_fence_old env old (cand_boot (tx_selected tx)) w = (Inr fo, w') \<and>
        fo_applied fo \<and> \<not> fo_fencing_unproven fo))"

definition activation_succeeded :: "'w CutoverEnv \<Rightarrow> Txn \<Rightarrow> WorkerAuthorization \<Rightarrow> bool" where
  "activation_succeeded env tx auth \<longleftrightarrow>
     (\<exists>w ao w'. env_activate env (tx_selected tx) auth (asg_authority_generation (tx_new tx)) w = (Inr ao, w') \<and>
        ao_acknowledged ao)"

lemma activation_succeeded_cong:
  "same_txn tx tx' \<Longrightarrow> activation_succeeded env tx' auth \<Longrightarrow> activation_succeeded env tx auth"
  by (simp add: activation_succeeded_def same_txn_def)

definition route_succeeded :: "'w CutoverEnv \<Rightarrow> RouteEntry \<Rightarrow> bool" where
  "route_succeeded env re \<longleftrightarrow> (\<exists>gw w ro w'. env_install_route env re gw w = (Inr ro, w') \<and> ro_acknowledged ro)"

definition verify_succeeded :: "'w CutoverEnv \<Rightarrow> RouteEntry \<Rightarrow> WorkerAuthorization \<Rightarrow> bool" where
  "verify_succeeded env re auth \<longleftrightarrow> (\<exists>w vo w'. env_verify env re auth w = (Inr vo, w') \<and> vo_verified vo)"

lemma ext_call_Inr:
  "ext_call env f \<sigma> = (\<sigma>', Inr x) \<longleftrightarrow> (\<exists>w. f (fst \<sigma>) = (Inr x, w) \<and> \<sigma>' = env_yield env (w, snd \<sigma>))"
  by (auto simp: ext_call_def split: prod.splits sum.splits)

lemma fence_phase_Inr:
  assumes "fence_phase env tx \<sigma> = (\<sigma>', Inr tx')"
  shows "same_txn tx tx' \<and> fence_succeeded env tx"
proof -
  obtain \<sigma>1 fo \<sigma>2 tx1 where call: "call_fence env tx \<sigma> = (\<sigma>1, Inr fo)"
    and lock: "locked env (after_fence fo tx) \<sigma>1 = (\<sigma>2, Inr tx1)"
    and chk: "checkpoint env Milestone.OLD_ADMISSION_FENCED None tx1 \<sigma>2 = (\<sigma>', Inr tx')"
    using assms unfolding fence_phase_def and_then_Inr_iff by blast
  have "same_txn tx tx' \<and> fo_applied fo \<and> \<not> fo_fencing_unproven fo"
    using lock after_fence_Inr checkpoint_Inr [OF chk] unfolding locked_eq_iff by blast
  with call show ?thesis
    by (auto simp: call_fence_def ext_call_Inr fence_succeeded_def split: option.splits)
qed

lemma activate_phase_Inr:
  assumes "activate_phase env auth tx \<sigma> = (\<sigma>', Inr tx')"
  shows "same_txn tx tx' \<and> activation_succeeded env tx auth"
proof -
  obtain \<sigma>1 ao \<sigma>2 tx1 where call: "call_activate env tx auth \<sigma> = (\<sigma>1, Inr ao)"
    and lock: "locked env (after_activate ao tx) \<sigma>1 = (\<sigma>2, Inr tx1)"
    and chk: "checkpoint env Milestone.ACTIVATION_ACKNOWLEDGED None tx1 \<sigma>2 = (\<sigma>', Inr tx')"
    using assms unfolding activate_phase_def and_then_Inr_iff by blast
  have "same_txn tx tx' \<and> ao_acknowledged ao"
    using lock after_activate_Inr checkpoint_Inr [OF chk] unfolding locked_eq_iff by blast
  with call show ?thesis
    by (auto simp: call_activate_def ext_call_Inr activation_succeeded_def)
qed

lemma route_phase_Inr:
  assumes "route_phase env re tx \<sigma> = (\<sigma>', Inr tx')"
  shows "same_txn tx tx' \<and> route_succeeded env re"
proof -
  obtain \<sigma>1 ro \<sigma>2 tx1 where call: "call_install_route env re \<sigma> = (\<sigma>1, Inr ro)"
    and lock: "locked env (after_route ro re tx) \<sigma>1 = (\<sigma>2, Inr tx1)"
    and chk: "checkpoint env Milestone.ROUTE_INSTALLED (Some re) tx1 \<sigma>2 = (\<sigma>', Inr tx')"
    using assms unfolding route_phase_def and_then_Inr_iff by blast
  have "same_txn tx tx' \<and> ro_acknowledged ro"
    using lock after_route_Inr checkpoint_Inr [OF chk] unfolding locked_eq_iff by blast
  with call show ?thesis
    by (auto simp: call_install_route_def ext_call_Inr route_succeeded_def)
qed

lemma commit_Inr_verified: "commit vo now tx s = (s', Inr r) \<Longrightarrow> vo_verified vo"
  by (auto simp: commit_def finish_def split: if_splits)

lemma verify_phase_Inr:
  assumes "verify_phase env re auth tx \<sigma> = (\<sigma>', Inr r)"
  shows "verify_succeeded env re auth \<and> (\<exists>vo now \<sigma>1 s'. call_verify env re auth \<sigma> = (\<sigma>1, Inr vo) \<and>
    commit vo now tx (snd \<sigma>1) = (s', Inr r) \<and> \<sigma>' = env_yield env (fst \<sigma>1, s'))"
proof -
  obtain \<sigma>1 vo where call: "call_verify env re auth \<sigma> = (\<sigma>1, Inr vo)"
    and lock: "locked env (commit vo (env_now env (fst \<sigma>1)) tx) \<sigma>1 = (\<sigma>', Inr r)"
    using assms unfolding verify_phase_def and_then_Inr_iff by blast
  then obtain s' where c: "commit vo (env_now env (fst \<sigma>1)) tx (snd \<sigma>1) = (s', Inr r)"
    and y: "\<sigma>' = env_yield env (fst \<sigma>1, s')"
    unfolding locked_eq_iff by blast
  have "verify_succeeded env re auth"
    using call commit_Inr_verified [OF c] by (auto simp: call_verify_def ext_call_Inr verify_succeeded_def)
  with call c y show ?thesis by blast
qed

section \<open>Invariants of an attempt\<close>

locale cutover_invariant =
  fixes env :: "'w CutoverEnv"
    and P :: "FabricState \<Rightarrow> bool"
  assumes keep_yield: "P (snd \<sigma>) \<Longrightarrow> P (snd (env_yield env \<sigma>))"
    and keep_begin: "P s \<Longrightarrow> P (fst (begin_attempt p s))"
    and keep_txn: "P s \<Longrightarrow> P (record_txn m tx rt s)"
    and keep_fence: "P s \<Longrightarrow> P (fst (after_fence fo tx s))"
    and keep_activate: "P s \<Longrightarrow> P (fst (after_activate ao tx s))"
    and keep_route: "P s \<Longrightarrow> P (fst (after_route ro re tx s))"
    and keep_commit_exit: "P s \<Longrightarrow> commit vo now tx s = (s', Inl x) \<Longrightarrow> P s'"
begin

lemma keeps_locked: "(\<And>s. P s \<Longrightarrow> P (fst (f s))) \<Longrightarrow> prog_keeps P (locked env f)"
  by (auto simp: prog_keeps_def locked_def split: prod.split intro!: keep_yield) (metis fst_conv)

lemma keeps_checkpoint: "prog_keeps P (checkpoint env m rt tx)"
  unfolding checkpoint_def
  by (intro prog_keeps_and_then keeps_locked)
    (auto simp: prog_keeps_def keep_txn stop_at_barrier_def Let_def split: prod.split sum.split intro!: keep_yield)

lemma keeps_ext_call: "prog_keeps P (ext_call env f)"
  by (auto simp: prog_keeps_def ext_call_def split: prod.split sum.split intro!: keep_yield)

lemma keeps_fence_phase: "prog_keeps P (fence_phase env tx)"
  unfolding fence_phase_def
  by (intro prog_keeps_and_then keeps_locked keeps_checkpoint keep_fence)
    (auto simp: call_fence_def [abs_def] prog_keeps_def split: option.split
      intro: keeps_ext_call [unfolded prog_keeps_def, rule_format])

lemma keeps_activate_phase: "prog_keeps P (activate_phase env auth tx)"
  unfolding activate_phase_def
  by (intro prog_keeps_and_then keeps_locked keeps_checkpoint keep_activate)
    (simp add: call_activate_def keeps_ext_call)

lemma keeps_route_phase: "prog_keeps P (route_phase env re tx)"
  unfolding route_phase_def
  by (intro prog_keeps_and_then keeps_locked keeps_checkpoint keep_route)
    (auto simp: call_install_route_def [abs_def] prog_keeps_def
      intro: keeps_ext_call [unfolded prog_keeps_def, rule_format])

lemma keeps_call_verify: "prog_keeps P (call_verify env re auth)"
  by (simp add: call_verify_def keeps_ext_call)

lemma keeps_begin_phase: "prog_keeps P (begin_phase env p)"
  unfolding begin_phase_def by (intro prog_keeps_and_then keeps_locked keeps_checkpoint keep_begin)

text \<open>An attempt that is left early, by an exception or a \<^verbatim>\<open>return\<close>, keeps \<open>P\<close>.\<close>

lemma exit_keeps_verify_phase: "exit_keeps P (verify_phase env re auth tx)"
  unfolding verify_phase_def
proof (rule exit_keeps_and_then [OF keeps_call_verify])
  fix vo
  show "exit_keeps P (\<lambda>\<sigma>. locked env (commit vo (env_now env (fst \<sigma>)) tx) \<sigma>)"
    unfolding exit_keeps_def locked_eq_iff using keep_commit_exit keep_yield by (metis snd_conv)
qed

lemma exit_keeps_from_verify: "exit_keeps P (from_verify env re auth t0 tx)"
  using exit_keeps_verify_phase unfolding from_verify_def exit_keeps_def and_then_Inl_iff by blast

lemma exit_keeps_from_route: "exit_keeps P (from_route env auth t0 tx)"
proof -
  have "exit_keeps P (and_then (route_phase env re tx) (from_verify env re auth t0))" for re
    by (rule exit_keeps_and_then [OF keeps_route_phase]) (rule exit_keeps_from_verify)
  then show ?thesis unfolding exit_keeps_def from_route_def Let_def by blast
qed

lemma exit_keeps_from_activate: "exit_keeps P (from_activate env t0 tx)"
proof -
  have "exit_keeps P (and_then (activate_phase env auth tx) (from_route env auth t0))" for auth
    by (rule exit_keeps_and_then [OF keeps_activate_phase]) (rule exit_keeps_from_route)
  then show ?thesis unfolding exit_keeps_def from_activate_def Let_def by blast
qed

lemma exit_keeps_from_fence: "exit_keeps P (from_fence env tx)"
proof -
  have "exit_keeps P (and_then (fence_phase env tx) (from_activate env t0))" for t0
    by (rule exit_keeps_and_then [OF keeps_fence_phase]) (rule exit_keeps_from_activate)
  then show ?thesis unfolding exit_keeps_def from_fence_def by blast
qed

lemma exit_keeps_run_attempt: "exit_keeps P (run_attempt env p)"
  unfolding run_attempt_def
  by (rule exit_keeps_and_then [OF keeps_begin_phase]) (rule exit_keeps_from_fence)

text \<open>A completed attempt, taken apart.\<close>

lemma run_attempt_commit:
  assumes "P (snd \<sigma>)" and "run_attempt env p \<sigma> = (\<sigma>', Inr r)"
  shows "\<exists>tx tx' auth re vo now sc sc' w r0. snd (begin_attempt p (snd \<sigma>)) = Inr tx \<and> same_txn tx tx' \<and>
    fence_succeeded env tx \<and> activation_succeeded env tx auth \<and> route_succeeded env re \<and>
    verify_succeeded env re auth \<and> P sc \<and> commit vo now tx' sc = (sc', Inr r0) \<and>
    \<sigma>' = env_yield env (w, sc') \<and> r = r0\<lparr>ar_elapsed_ms := ar_elapsed_ms r\<rparr>"
proof -
  obtain \<sigma>b tx \<sigma>0 tx0 where b: "locked env (begin_attempt p) \<sigma> = (\<sigma>b, Inr tx)"
    and c: "checkpoint env Milestone.INTENT_ONLY None tx \<sigma>b = (\<sigma>0, Inr tx0)"
    and f: "from_fence env tx0 \<sigma>0 = (\<sigma>', Inr r)"
    using assms(2) unfolding run_attempt_def begin_phase_def and_then_Inr_iff by blast
  have P0: "P (snd \<sigma>0)"
    using b c assms(1) keeps_locked [of "begin_attempt p"] keep_begin keeps_checkpoint prog_keepsD by metis
  have tx0: "tx0 = tx" by (rule checkpoint_Inr [OF c])
  have begun: "snd (begin_attempt p (snd \<sigma>)) = Inr tx" using b by (auto simp: locked_eq_iff)
  obtain \<sigma>1 tx1 where f1: "fence_phase env tx \<sigma>0 = (\<sigma>1, Inr tx1)"
    and a: "from_activate env (env_now env (fst \<sigma>0)) tx1 \<sigma>1 = (\<sigma>', Inr r)"
    using f unfolding from_fence_def and_then_Inr_iff tx0 by blast
  define auth where "auth = auth_for tx1 (snd \<sigma>1)"
  obtain \<sigma>2 tx2 where a1: "activate_phase env auth tx1 \<sigma>1 = (\<sigma>2, Inr tx2)"
    and ro: "from_route env auth (env_now env (fst \<sigma>0)) tx2 \<sigma>2 = (\<sigma>', Inr r)"
    using a unfolding from_activate_def and_then_Inr_iff Let_def auth_def by blast
  define re where "re = route_for tx2 (snd \<sigma>2)"
  obtain \<sigma>3 tx3 where r1: "route_phase env re tx2 \<sigma>2 = (\<sigma>3, Inr tx3)"
    and v: "from_verify env re auth (env_now env (fst \<sigma>0)) tx3 \<sigma>3 = (\<sigma>', Inr r)"
    using ro unfolding from_route_def and_then_Inr_iff Let_def re_def by blast
  obtain r0 where v1: "verify_phase env re auth tx3 \<sigma>3 = (\<sigma>', Inr r0)"
    and r: "r = r0\<lparr>ar_elapsed_ms := ar_elapsed_ms r\<rparr>"
    using v unfolding from_verify_def and_then_Inr_iff by auto
  have P3: "P (snd \<sigma>3)"
    using P0 f1 a1 r1 keeps_fence_phase keeps_activate_phase keeps_route_phase prog_keepsD by metis
  obtain vo now \<sigma>4 s' where cv: "call_verify env re auth \<sigma>3 = (\<sigma>4, Inr vo)"
    and cm: "commit vo now tx3 (snd \<sigma>4) = (s', Inr r0)" and y: "\<sigma>' = env_yield env (fst \<sigma>4, s')"
    and vs: "verify_succeeded env re auth"
    using verify_phase_Inr [OF v1] by blast
  have P4: "P (snd \<sigma>4)" using P3 cv keeps_call_verify prog_keepsD by metis
  note fs = fence_phase_Inr [OF f1] activate_phase_Inr [OF a1] route_phase_Inr [OF r1]
  have "same_txn tx tx3" using fs same_txn_trans by blast
  moreover have "activation_succeeded env tx auth"
    using fs activation_succeeded_cong by blast
  ultimately show ?thesis using begun fs vs P4 cm y r by blast
qed

end

text \<open>Where the commit keeps the property too, so does every attempt.\<close>

locale cutover_invariant_all = cutover_invariant env P
  for env :: "'w CutoverEnv" and P :: "FabricState \<Rightarrow> bool" +
  assumes keep_commit: "P s \<Longrightarrow> P (fst (commit vo now tx s))"
begin

lemma keeps_verify_phase: "prog_keeps P (verify_phase env re auth tx)"
  unfolding verify_phase_def
proof (rule prog_keeps_and_then [OF keeps_call_verify])
  fix vo
  have "prog_keeps P (locked env (commit vo now tx))" for now
    by (rule keeps_locked) (rule keep_commit)
  then show "prog_keeps P (\<lambda>\<sigma>. locked env (commit vo (env_now env (fst \<sigma>)) tx) \<sigma>)"
    unfolding prog_keeps_def by blast
qed

lemma keeps_from_verify: "prog_keeps P (from_verify env re auth t0 tx)"
  unfolding from_verify_def by (rule prog_keeps_and_then [OF keeps_verify_phase]) (simp add: prog_keeps_def)

lemma keeps_from_route: "prog_keeps P (from_route env auth t0 tx)"
proof -
  have "prog_keeps P (and_then (route_phase env re tx) (from_verify env re auth t0))" for re
    by (rule prog_keeps_and_then [OF keeps_route_phase]) (rule keeps_from_verify)
  then show ?thesis unfolding prog_keeps_def from_route_def Let_def by blast
qed

lemma keeps_from_activate: "prog_keeps P (from_activate env t0 tx)"
proof -
  have "prog_keeps P (and_then (activate_phase env auth tx) (from_route env auth t0))" for auth
    by (rule prog_keeps_and_then [OF keeps_activate_phase]) (rule keeps_from_route)
  then show ?thesis unfolding prog_keeps_def from_activate_def Let_def by blast
qed

lemma keeps_from_fence: "prog_keeps P (from_fence env tx)"
proof -
  have "prog_keeps P (and_then (fence_phase env tx) (from_activate env t0))" for t0
    by (rule prog_keeps_and_then [OF keeps_fence_phase]) (rule keeps_from_activate)
  then show ?thesis unfolding prog_keeps_def from_fence_def by blast
qed

lemma keeps_run_attempt: "prog_keeps P (run_attempt env p)"
  unfolding run_attempt_def by (rule prog_keeps_and_then [OF keeps_begin_phase]) (rule keeps_from_fence)

lemma execute_plan_keeps: "P (snd \<sigma>) \<Longrightarrow> P (snd (fst (execute_plan env p \<sigma>)))"
proof -
  assume "P (snd \<sigma>)"
  then have "P (snd (fst (run_attempt env p \<sigma>)))" using keeps_run_attempt by (simp add: prog_keeps_def del: split_paired_All)
  then show ?thesis by (auto simp: execute_plan_def split: prod.split sum.split exit.split)
qed

end

section \<open>The representation invariant\<close>

lemma wf_frame [simp]:
  "wf_fabric (push_attempt s st) = wf_fabric s" "wf_fabric (add_fenced_boot s b) = wf_fabric s"
  "wf_fabric (record_txn m tx rt s) = wf_fabric s"
  "wf_fabric (s\<lparr>fs_assignment_counter := i\<rparr>) = wf_fabric s"
  by (simp_all add: wf_fabric_defs push_attempt_def add_fenced_boot_def record_txn_def)

lemma wf_begin_attempt: "wf_fabric s \<Longrightarrow> wf_fabric (fst (begin_attempt p s))"
  unfolding begin_attempt_def Let_def
  by (auto simp: finish_def wf_snapshot_locked split: sum.split option.split prod.split)

lemma wf_after_fence: "wf_fabric s \<Longrightarrow> wf_fabric (fst (after_fence fo tx s))"
  by (simp add: after_fence_def finish_def split: option.split)

lemma wf_after_activate: "wf_fabric s \<Longrightarrow> wf_fabric (fst (after_activate ao tx s))"
  by (simp add: after_activate_def finish_def)

lemma wf_after_route: "wf_fabric s \<Longrightarrow> wf_fabric (fst (after_route ro re tx s))"
  by (simp add: after_route_def finish_def) (simp add: wf_fabric_defs wf_rt_install)

lemma wf_slots_list_update:
  assumes "wf_slots s" and "n < length (fs_slots s)" and "ss_slot st = ss_slot (fs_slots s ! n)"
    and "\<And>a. ss_current st = Some a \<Longrightarrow> asg_slot a = ss_slot st"
  shows "wf_slots (s\<lparr>fs_slots := (fs_slots s)[n := st]\<rparr>)"
proof -
  have "m < length (fs_slots s) \<and> ss_slot ((fs_slots s)[n := st] ! m) = k" if "fs_slot_index s k = Some m" for k m
    using assms(1-3) that by (cases "m = n") (auto simp: wf_slots_def)
  moreover have "asg_slot a = ss_slot st'" if "st' \<in> set ((fs_slots s)[n := st])" "ss_current st' = Some a" for st' a
    using assms(1,4) that set_update_subset_insert [of "fs_slots s" n st] by (auto simp: wf_slots_def)
  ultimately show ?thesis by (simp add: wf_slots_def)
qed

lemma commit_position_wf:
  assumes "wf_fabric s" and "commit_position s k = (s1, n)"
  shows "wf_fabric s1 \<and> n < length (fs_slots s1) \<and> ss_slot (fs_slots s1 ! n) = k"
proof (cases "fs_slot_index s k")
  case None
  have "m < Suc (length (fs_slots s)) \<and> ss_slot ((fs_slots s @ [empty_slot k]) ! m) = k'"
    if "fs_slot_index s k' = Some m" for k' m
  proof -
    have "m < length (fs_slots s) \<and> ss_slot (fs_slots s ! m) = k'"
      using assms(1) that by (simp add: wf_fabric_def wf_slots_def)
    then show ?thesis by (simp add: nth_append)
  qed
  moreover have "asg_slot a = ss_slot st"
    if "st \<in> set (fs_slots s @ [empty_slot k])" "ss_current st = Some a" for st a
    using assms(1) that by (auto simp: wf_fabric_def wf_slots_def empty_slot_def)
  ultimately have "wf_slots (s\<lparr>fs_slots := fs_slots s @ [empty_slot k]\<rparr>)" by (simp add: wf_slots_def)
  moreover have "s1 = s\<lparr>fs_slots := fs_slots s @ [empty_slot k]\<rparr>" "n = length (fs_slots s)"
    using None assms(2) by (simp_all add: commit_position_def)
  ultimately show ?thesis
    using assms(1) by (simp add: wf_fabric_def wf_services_def wf_targets_def wf_stores_def empty_slot_def)
next
  case (Some m)
  then show ?thesis using assms by (auto simp: commit_position_def wf_fabric_def wf_slots_def)
qed

lemma wf_commit:
  assumes "wf_fabric s"
  shows "wf_fabric (fst (commit vo now tx s))"
proof -
  obtain s1 n where pos: "commit_position s (tx_slot tx) = (s1, n)" by fastforce
  define s2 where "s2 = (case tx_old tx of None \<Rightarrow> s1 | Some old \<Rightarrow> add_fenced_boot s1 (asg_worker_boot old))"
  have wf1: "wf_fabric s1" "n < length (fs_slots s1)" "ss_slot (fs_slots s1 ! n) = tx_slot tx"
    using commit_position_wf [OF assms pos] by auto
  have wf2: "wf_fabric s2" using wf1 by (simp add: s2_def split: option.split)
  have slots2: "fs_slots s2 = fs_slots s1" by (simp add: s2_def add_fenced_boot_def split: option.split)
  define st' where "st' = (fs_slots s1 ! n)\<lparr>ss_history := ss_history (fs_slots s1 ! n) @
        fenced_predecessor (tx_old tx) (fs_slots s1 ! n),
      ss_current := Some ((tx_new tx)\<lparr>asg_state := AssignmentState.ACTIVE, asg_provisory := False\<rparr>)\<rparr>"
  have "wf_slots (s2\<lparr>fs_slots := (fs_slots s2)[n := st']\<rparr>)"
    using wf1 wf2 slots2 by (intro wf_slots_list_update) (auto simp: wf_fabric_def st'_def)
  then have "wf_fabric (s2\<lparr>fs_slots := (fs_slots s2)[n := st'], fs_last_authority_gen := g,
      fs_last_transition := lt, fs_has_txn := False\<rparr>)" for g lt
    using wf2 by (simp add: wf_fabric_defs)
  then show ?thesis
    using assms wf1(1)
    by (simp add: commit_def finish_def pos Let_def s2_def [symmetric] st'_def [symmetric])
qed

text \<open>
  Interference by other threads that is any number of calls of operations which hold the mutex
  once. (\<open>Runtime_Steps\<close> adds the regions of other attempts and \<open>load\<close>.)
\<close>

definition api_interference :: "'w CutoverEnv \<Rightarrow> bool" where
  "api_interference env \<longleftrightarrow> (\<forall>\<sigma>. api_step\<^sup>*\<^sup>* (snd \<sigma>) (snd (env_yield env \<sigma>)))"

lemma wf_api_steps: "api_step\<^sup>*\<^sup>* s s' \<Longrightarrow> wf_fabric s \<Longrightarrow> wf_fabric s'"
  by (induction rule: rtranclp_induct) (auto intro: wf_api_step)

lemma wf_cutover_invariant: "api_interference env \<Longrightarrow> cutover_invariant_all env wf_fabric"
proof unfold_locales
  show "wf_fabric s \<Longrightarrow> commit vo now tx s = (s', Inl x) \<Longrightarrow> wf_fabric s'" for s vo now tx s' x
    using wf_commit by (metis fst_conv)
qed (auto simp: api_interference_def wf_begin_attempt wf_after_fence wf_after_activate wf_after_route
    wf_commit intro: wf_api_steps simp del: split_paired_All)

section \<open>Early returns\<close>

lemma begin_attempt_exit:
  "begin_attempt p s = (s', Inl (Returned r)) \<Longrightarrow> ar_state r = AttemptState.FAILED"
  unfolding begin_attempt_def Let_def
  by (auto simp: finish_def split: sum.splits option.splits prod.splits if_splits)

lemma commit_exit:
  "commit vo now tx s = (s', Inl (Returned r)) \<Longrightarrow>
   ar_state r \<in> {AttemptState.RECOVERY_REQUIRED, AttemptState.SUPERSEDED}"
  by (auto simp: commit_def finish_def Let_def split: if_splits prod.splits)

lemma exits_checkpoint: "exits_incomplete (checkpoint env m rt tx)"
  unfolding checkpoint_def
proof (rule exits_incomplete_and_then)
  show "exits_incomplete (locked env (\<lambda>s. (record_txn m tx rt s, Inr ())))"
    by (rule exits_incomplete_locked) simp
  show "exits_incomplete (stop_at_barrier env m tx)"
    unfolding exits_incomplete_def
  proof (intro allI impI)
    fix \<sigma> \<sigma>' r
    assume "stop_at_barrier env m tx \<sigma> = (\<sigma>', Inl (Returned r))"
    then show "ar_state r \<in> {AttemptState.FAILED, AttemptState.RECOVERY_REQUIRED, AttemptState.SUPERSEDED}"
      by (cases "save_checkpoint env \<sigma>"; cases "snd (save_checkpoint env \<sigma>)")
        (auto simp: stop_at_barrier_def Let_def split: if_splits)
  qed
qed

lemma exits_calls:
  "exits_incomplete (call_fence env tx)" "exits_incomplete (call_activate env tx auth)"
  "exits_incomplete (call_install_route env re)" "exits_incomplete (call_verify env re auth)"
  by (auto simp: exits_incomplete_def call_fence_def call_activate_def call_install_route_def
      call_verify_def ext_call_def split: option.splits prod.splits sum.splits)

lemma exits_phases:
  "exits_incomplete (begin_phase env p)" "exits_incomplete (fence_phase env tx)"
  "exits_incomplete (activate_phase env auth tx)" "exits_incomplete (route_phase env re tx)"
  "exits_incomplete (verify_phase env re auth tx)"
proof -
  show "exits_incomplete (begin_phase env p)"
    unfolding begin_phase_def
    by (intro exits_incomplete_and_then exits_incomplete_locked exits_checkpoint) (auto dest: begin_attempt_exit)
  show "exits_incomplete (fence_phase env tx)"
    unfolding fence_phase_def
    by (intro exits_incomplete_and_then exits_incomplete_locked exits_checkpoint exits_calls)
      (auto simp: after_fence_def finish_def split: if_splits)
  show "exits_incomplete (activate_phase env auth tx)"
    unfolding activate_phase_def
    by (intro exits_incomplete_and_then exits_incomplete_locked exits_checkpoint exits_calls)
      (auto simp: after_activate_def finish_def split: if_splits)
  show "exits_incomplete (route_phase env re tx)"
    unfolding route_phase_def
    by (intro exits_incomplete_and_then exits_incomplete_locked exits_checkpoint exits_calls)
      (auto simp: after_route_def finish_def split: if_splits)
  have "exits_incomplete (locked env (commit vo now tx))" for vo now
    by (rule exits_incomplete_locked) (auto dest: commit_exit)
  then have "exits_incomplete (\<lambda>\<sigma>. locked env (commit vo (env_now env (fst \<sigma>)) tx) \<sigma>)" for vo
    unfolding exits_incomplete_def by blast
  then show "exits_incomplete (verify_phase env re auth tx)"
    unfolding verify_phase_def by (intro exits_incomplete_and_then exits_calls)
qed

lemma exits_run_attempt: "exits_incomplete (run_attempt env p)"
proof -
  have "exits_incomplete (from_verify env re auth t0 tx)" for re auth t0 tx
    using exits_phases(5) unfolding from_verify_def exits_incomplete_def and_then_Inl_iff by blast
  then have "exits_incomplete (and_then (route_phase env re tx) (from_verify env re auth t0))" for re auth t0 tx
    by (intro exits_incomplete_and_then exits_phases)
  then have "exits_incomplete (from_route env auth t0 tx)" for auth t0 tx
    unfolding exits_incomplete_def from_route_def Let_def by blast
  then have "exits_incomplete (and_then (activate_phase env auth tx) (from_route env auth t0))" for auth t0 tx
    by (intro exits_incomplete_and_then exits_phases)
  then have "exits_incomplete (from_activate env t0 tx)" for t0 tx
    unfolding exits_incomplete_def from_activate_def Let_def by blast
  then have "exits_incomplete (and_then (fence_phase env tx) (from_activate env t0))" for t0 tx
    by (intro exits_incomplete_and_then exits_phases)
  then have "exits_incomplete (from_fence env tx)" for tx
    unfolding exits_incomplete_def from_fence_def by blast
  then show ?thesis unfolding run_attempt_def by (intro exits_incomplete_and_then exits_phases)
qed

lemma run_attempt_Inr_completed: "run_attempt env p \<sigma> = (\<sigma>', Inr r) \<Longrightarrow> ar_state r = AttemptState.COMPLETED"
proof -
  assume "run_attempt env p \<sigma> = (\<sigma>', Inr r)"
  then obtain r0 where "ar_state r = ar_state r0" and "\<exists>vo now tx s s'. commit vo now tx s = (s', Inr r0)"
    by (fastforce simp: run_attempt_def and_then_Inr_iff from_fence_def from_activate_def from_route_def
        from_verify_def Let_def dest!: verify_phase_Inr)
  then show ?thesis by (auto simp: commit_def finish_def Let_def split: if_splits prod.splits)
qed

lemma execute_plan_completed_iff:
  "execute_plan env p \<sigma> = (\<sigma>', Inr r) \<and> ar_state r = AttemptState.COMPLETED \<longleftrightarrow>
   run_attempt env p \<sigma> = (\<sigma>', Inr r)"
proof -
  have "ar_state r \<noteq> AttemptState.COMPLETED" if "run_attempt env p \<sigma> = (\<sigma>', Inl (Returned r))"
    using exits_run_attempt that unfolding exits_incomplete_def by fastforce
  then show ?thesis
    by (auto simp: execute_plan_def run_attempt_Inr_completed split: prod.splits sum.splits exit.splits)
qed

section \<open>What a started attempt and a commit establish\<close>

lemma snd_hard_eligible: "snd (hard_eligible c svc reg ctx) \<longleftrightarrow> eligible svc reg ctx c"
  by (auto simp: hard_eligible_def simp flip: hard_check_None_iff split: option.split)

text \<open>What \<open>begin_attempt\<close> has checked and drawn when it goes on.\<close>

definition admitted :: "FailoverPlan \<Rightarrow> FabricState \<Rightarrow> Txn \<Rightarrow> bool" where
  "admitted p s tx \<longleftrightarrow>
     (\<exists>svc sel. service_for_slot s (fp_slot p) = Some svc \<and> fp_selected p = Some sel \<and>
        cand_target (tx_selected tx) = cand_target sel \<and> cand_boot (tx_selected tx) = cand_boot sel \<and>
        eligible svc (fs_domains s) (build_context s (fp_slot p)) (tx_selected tx)) \<and>
     tx_old tx = current_assignment s (fp_slot p) \<and> \<not> source_changed p (tx_old tx) \<and>
     asg_slot (tx_new tx) = fp_slot p \<and> asg_target (tx_new tx) = cand_target (tx_selected tx) \<and>
     asg_worker_boot (tx_new tx) = cand_boot (tx_selected tx) \<and>
     asg_id (tx_new tx) = fs_assignment_counter s \<and>
     fs_last_authority_gen s < asg_authority_generation (tx_new tx)"

lemma revalidate_Some:
  assumes "revalidate snap svc reg ctx sel = Some c"
  shows "eligible svc reg ctx c \<and> cand_target c = cand_target sel \<and> cand_boot c = cand_boot sel"
  using assms by (auto simp: revalidate_def snd_hard_eligible split: option.splits if_splits dest: find_SomeD)

lemma new_assignment_simps [simp]:
  "asg_slot (new_assignment p c i g a x y) = fp_slot p"
  "asg_target (new_assignment p c i g a x y) = cand_target c"
  "asg_worker_boot (new_assignment p c i g a x y) = cand_boot c"
  "asg_id (new_assignment p c i g a x y) = i"
  "asg_authority_generation (new_assignment p c i g a x y) = a"
  "asg_route_generation (new_assignment p c i g a x y) = fp_requested_route_generation p"
  by (simp_all add: new_assignment_def Let_def)

lemma begin_attempt_admitted:
  assumes "snd (begin_attempt p s) = Inr tx"
  shows "admitted p s tx"
proof -
  obtain svc where svc: "service_for_slot s (fp_slot p) = Some svc"
    using assms by (auto simp: begin_attempt_def finish_def Let_def split: sum.splits option.splits)
  obtain sel where sel: "fp_selected p = Some sel"
    using assms svc by (auto simp: begin_attempt_def finish_def Let_def split: sum.splits option.splits)
  have src: "\<not> source_changed p (current_assignment s (fp_slot p))"
    using assms svc sel by (auto simp: begin_attempt_def finish_def Let_def split: sum.splits if_splits)
  obtain s1 snap where snap: "snapshot_locked s (fp_slot p) = Inr (s1, snap)"
    using assms svc sel src
    by (auto simp: begin_attempt_def finish_def Let_def split: sum.splits if_splits)
  obtain n where s1: "s1 = s\<lparr>fs_snapshot_counter := n\<rparr>" using snapshot_locked_state [OF snap] by blast
  obtain c where c: "revalidate snap svc (fs_domains s) (build_context s (fp_slot p)) sel = Some c"
    using assms svc sel src snap
    by (auto simp: begin_attempt_def finish_def Let_def s1 split: sum.splits option.splits)
  obtain g a y where d: "draw_generations (s1\<lparr>fs_assignment_counter := id_next (fs_assignment_counter s1)\<rparr>) = Inr (g, a, y)"
    using assms svc sel src snap c
    by (auto simp: begin_attempt_def finish_def Let_def s1 split: sum.splits)
  then have "fs_last_authority_gen s < a"
    by (auto simp: draw_generations_def bindE_eq_Inr_iff s1 dest: gen_next_greater)
  moreover have "tx_new tx = new_assignment p c (fs_assignment_counter s) g a (id_next (fs_activation_counter s)) y"
      "tx_old tx = current_assignment s (fp_slot p)" "tx_selected tx = c"
    using assms svc sel src snap c d
    by (auto simp: begin_attempt_def finish_def Let_def s1 split: sum.splits)
  ultimately show ?thesis
    using revalidate_Some [OF c] svc sel src by (simp add: admitted_def)
qed

definition committed :: "Txn \<Rightarrow> Assignment" where
  "committed tx = (tx_new tx)\<lparr>asg_state := AssignmentState.ACTIVE, asg_provisory := False\<rparr>"

definition fence_old :: "Txn \<Rightarrow> FabricState \<Rightarrow> FabricState" where
  "fence_old tx s = (case tx_old tx of None \<Rightarrow> s | Some old \<Rightarrow> add_fenced_boot s (asg_worker_boot old))"

lemma fence_old_slots [simp]:
  "fs_slots (fence_old tx s) = fs_slots s" "fs_slot_index (fence_old tx s) = fs_slot_index s"
  by (simp_all add: fence_old_def add_fenced_boot_def split: option.split)

lemma fence_old_fences:
  "tx_old tx = Some old \<Longrightarrow> asg_worker_boot old \<noteq> id_null \<Longrightarrow>
   asg_worker_boot old \<in> set (fs_fenced_boots (fence_old tx s))"
  by (simp add: fence_old_def add_fenced_boot_def boot_fenced_def)

text \<open>A commit on a slot the index knows.\<close>

lemma commit_Inr_indexed:
  assumes "commit vo now tx s = (s', Inr r)" and n: "fs_slot_index s (tx_slot tx) = Some n"
  defines "st \<equiv> fs_slots s ! n"
  shows "\<not> superseded (tx_old tx) st \<and> ar_committed_assignment r = Some (committed tx) \<and>
    ar_reached r = Milestone.VERIFICATION_COMPLETE \<and> ar_recovery_verified r \<and>
    s' = push_attempt ((fence_old tx s)\<lparr>
      fs_slots := (fs_slots s)[n := st\<lparr>ss_history := ss_history st @ fenced_predecessor (tx_old tx) st,
                                      ss_current := Some (committed tx)\<rparr>],
      fs_last_authority_gen := asg_authority_generation (tx_new tx),
      fs_last_transition := (fs_last_transition (fence_old tx s))(tx_slot tx \<mapsto> now),
      fs_has_txn := False\<rparr>) AttemptState.COMPLETED"
  using assms(1)
  by (auto simp: commit_def commit_position_def n st_def finish_def Let_def committed_def
      fence_old_def [symmetric] split: if_splits)

end
