(* ===== verification/Cutover_Theorems.thy ===== *)
theory Cutover_Theorems
  imports Cutover_Props
begin

text \<open>
  The properties of the cutover transaction: what a completed attempt was told and leaves
  behind, that an attempt that does not complete leaves the authority alone, that a refused
  fence stops it before any other effect, that a superseded attempt cannot commit, and that
  the fenced predecessor is never admitted again.
\<close>

section \<open>Interference and interpretations\<close>

text \<open>The environment in which no other thread runs.\<close>

definition serial_env :: "'w CutoverEnv \<Rightarrow> 'w CutoverEnv" where
  "serial_env env = env\<lparr>env_yield := (\<lambda>\<sigma>. \<sigma>)\<rparr>"

lemma serial_env_simps [simp]:
  "env_yield (serial_env env) = (\<lambda>\<sigma>. \<sigma>)" "env_now (serial_env env) = env_now env"
  "env_fence_old (serial_env env) = env_fence_old env" "env_activate (serial_env env) = env_activate env"
  "env_install_route (serial_env env) = env_install_route env" "env_verify (serial_env env) = env_verify env"
  "env_save_file (serial_env env) = env_save_file env"
  by (simp_all add: serial_env_def)

lemma serial_env_api [simp]: "api_interference (serial_env env)"
  by (simp add: api_interference_def)

interpretation serial_wf: cutover_invariant_all "serial_env env" wf_fabric
  by (rule wf_cutover_invariant) simp

lemma authority_cutover_invariant:
  assumes "\<And>\<sigma>. authority_view (snd (env_yield env \<sigma>)) = authority_view (snd \<sigma>)"
  shows "cutover_invariant env (\<lambda>s. authority_view s = v)"
proof unfold_locales
  show "authority_view s = v \<Longrightarrow> commit vo now tx s = (s', Inl x) \<Longrightarrow> authority_view s' = v" for s vo now tx s' x
    using commit_exit_view by metis
qed (simp_all add: assms begin_attempt_view after_fence_view after_activate_view after_route_view)

interpretation serial_authority: cutover_invariant "serial_env env" "\<lambda>s. authority_view s = v"
  by (rule authority_cutover_invariant) simp

lemma trivial_cutover_invariant: "cutover_invariant env (\<lambda>_. True)"
  by unfold_locales simp_all

text \<open>Fenced boots stay fenced.\<close>

lemma api_step_fenced: "api_step s s' \<Longrightarrow> fs_fenced_boots s' = fs_fenced_boots s"
proof (induction rule: api_step.induct)
  case (st_initial s now a s')
  then show ?case
    by (auto simp: set_initial_assignment_def Let_def split: if_splits)
next
  case (st_facts s now f s')
  then show ?case by (auto simp: publish_candidate_facts_def Let_def split: option.splits if_splits)
next
  case (st_late s i auth)
  then show ?case by (simp add: ff_classify_late_result_def split_beta)
next
  case (st_snapshot s k s' snap)
  then show ?case by (auto dest: snapshot_locked_state)
qed (auto simp: set_coordinator_identity_def set_gateway_boot_def create_service_def ff_declare_domain_def
    ff_set_membership_def register_target_def publish_candidate_state_def publish_candidate_resources_def
    publish_failure_def Let_def clear_failure_def authorize_failback_def set_checkpoint_path_def
    set_cutover_barrier_def clear_cutover_barrier_def record_request_def mark_outcome_unknown_def
    record_dispatch_def install_route_def bind_route_gateway_def mark_routes_revalidation_def split_beta
    split: if_splits option.split)

lemma api_steps_fenced: "api_step\<^sup>*\<^sup>* s s' \<Longrightarrow> fs_fenced_boots s' = fs_fenced_boots s"
  by (induction rule: rtranclp_induct) (auto dest: api_step_fenced)

lemma fenced_boot_refused:
  "wa_worker_boot auth \<in> set (fs_fenced_boots s) \<Longrightarrow> \<not> gd_allowed (authorize_dispatch s auth)"
  by (simp add: authorize_dispatch_def dispatch_allowed_iff holds_authority_def)

lemma commit_fences_old:
  assumes "commit vo now tx s = (s', Inr r)" and "tx_old tx = Some old" and "asg_worker_boot old \<noteq> id_null"
  shows "asg_worker_boot old \<in> set (fs_fenced_boots s')"
  using assms
  by (auto simp: commit_def commit_position_def finish_def push_attempt_def Let_def add_fenced_boot_def
      boot_fenced_def split: if_splits option.splits)

lemma find_slot_update:
  assumes "wf_slots s" and "fs_slot_index s k = Some n" and "fs_slots s' = (fs_slots s)[n := st]"
    and "fs_slot_index s' = fs_slot_index s"
  shows "find_slot s' k' = (if k' = k then Some st else find_slot s k')"
proof -
  have "n < length (fs_slots s)" using assms(1,2) by (simp add: wf_slots_def)
  moreover have "fs_slot_index s k' \<noteq> Some n" if "k' \<noteq> k"
    using wf_slots_inj [OF assms(1,2)] that by auto
  ultimately show ?thesis
    using assms(2-4) by (cases "fs_slot_index s k'") (auto simp: find_slot_def)
qed

lemma execute_plan_incomplete:
  assumes "execute_plan env p \<sigma> = (\<sigma>', res)" and "\<And>r. res = Inr r \<Longrightarrow> ar_state r \<noteq> AttemptState.COMPLETED"
  obtains x where "run_attempt env p \<sigma> = (\<sigma>', Inl x)"
proof -
  obtain \<sigma>1 y where run: "run_attempt env p \<sigma> = (\<sigma>1, y)" by fastforce
  show ?thesis
  proof (cases y)
    case (Inl x)
    then have "\<sigma>1 = \<sigma>'" using assms(1) run by (cases x) (simp_all add: execute_plan_def)
    with run Inl that show ?thesis by blast
  next
    case (Inr r)
    then have "res = Inr r" using assms(1) run by (simp add: execute_plan_def)
    with assms(2) run_attempt_Inr_completed run Inr show ?thesis by blast
  qed
qed

lemma begin_attempt_frame:
  "fs_fenced_boots (fst (begin_attempt p s)) = fs_fenced_boots s"
  "fs_routes (fst (begin_attempt p s)) = fs_routes s"
  unfolding begin_attempt_def Let_def
  by (auto simp: finish_def push_attempt_def split: sum.split option.split prod.split
      dest: snapshot_locked_state)

lemma fenced_regions:
  assumes "b \<in> set (fs_fenced_boots s)"
  shows "b \<in> set (fs_fenced_boots (fst (begin_attempt p s)))"
    and "b \<in> set (fs_fenced_boots (record_txn m tx rt s))"
    and "b \<in> set (fs_fenced_boots (fst (after_fence fo tx s)))"
    and "b \<in> set (fs_fenced_boots (fst (after_activate ao tx s)))"
    and "b \<in> set (fs_fenced_boots (fst (after_route ro re tx s)))"
    and "b \<in> set (fs_fenced_boots (fst (commit vo now tx s)))"
    and "b \<in> set (fs_fenced_boots (settle_failback k t r s))"
  using assms
  by (auto simp: begin_attempt_frame record_txn_def after_fence_def after_activate_def after_route_def commit_def
      commit_position_def finish_def push_attempt_def add_fenced_boot_def settle_failback_def Let_def split: option.split)

lemma fenced_cutover_invariant:
  assumes "\<And>\<sigma>. b \<in> set (fs_fenced_boots (snd \<sigma>)) \<Longrightarrow> b \<in> set (fs_fenced_boots (snd (env_yield env \<sigma>)))"
  shows "cutover_invariant_all env (\<lambda>s. b \<in> set (fs_fenced_boots s))"
proof unfold_locales
  show "b \<in> set (fs_fenced_boots s) \<Longrightarrow> commit vo now tx s = (s', Inl x) \<Longrightarrow> b \<in> set (fs_fenced_boots s')"
    for s vo now tx s' x using fenced_regions(6) by (metis fst_conv)
qed (use assms in \<open>simp_all add: fenced_regions\<close>)

interpretation serial_fences: cutover_invariant_all "serial_env env" "\<lambda>s. b \<in> set (fs_fenced_boots s)"
  by (rule fenced_cutover_invariant) simp

section \<open>An example environment\<close>

text \<open>A world that records how many external effects were asked for, all of which succeed.\<close>

definition ok_env :: "nat CutoverEnv" where
  "ok_env = \<lparr>env_fence_old = (\<lambda>_ _ n. (Inr (default_FenceOutcome\<lparr>fo_applied := True\<rparr>), n + 1)),
     env_activate = (\<lambda>_ _ _ n. (Inr \<lparr>ao_acknowledged = True, ao_activation_note = [], ao_detail = []\<rparr>, n + 1)),
     env_install_route = (\<lambda>re _ n. (Inr \<lparr>ro_acknowledged = True, ro_route = re_route re,
        ro_generation = re_generation re, ro_detail = []\<rparr>, n + 1)),
     env_verify = (\<lambda>_ _ n. (Inr \<lparr>vo_verified = True, vo_result = [], vo_ambiguous = False, vo_detail = []\<rparr>, n + 1)),
     env_save_file = (\<lambda>_ _ n. (n, Inr ())), env_now = int, env_yield = (\<lambda>\<sigma>. \<sigma>)\<rparr>"

text \<open>The same world in which the fence cannot be proven.\<close>

definition unproven_env :: "nat CutoverEnv" where
  "unproven_env = ok_env\<lparr>env_fence_old :=
     (\<lambda>_ _ n. (Inr (default_FenceOutcome\<lparr>fo_fencing_unproven := True\<rparr>), n + 1))\<rparr>"

definition example_plan :: FailoverPlan where
  "example_plan = \<lparr>fp_plan = Id 2, fp_generation = Gen 2, fp_slot = example_slot,
     fp_source_assignment = Some example_assignment, fp_triggering_evidence = [],
     fp_snapshot = default_CandidateSnapshot,
     fp_selected = Some (example_candidate 20 41 True), fp_continuity = ContinuityClass.REPLAY_SAFE_REQUESTS,
     fp_resource_commitments_domain = [], fp_fencing_requirement = plan_fencing,
     fp_requested_route = Id 1, fp_requested_route_generation = Gen 2,
     fp_recovery_objective = default_RecoveryObjective, fp_estimated_stages = default_RecoveryEstimate,
     fp_rollback_boundaries = [], fp_policy_gen = gen_first, fp_reached_milestones = [Milestone.INTENT_ONLY],
     fp_provenance = Provenance.DERIVED\<rparr>"

lemma serial_ok_env [simp]: "serial_env ok_env = ok_env" "serial_env unproven_env = unproven_env"
  by (simp_all add: serial_env_def ok_env_def unproven_env_def)

section \<open>Progress\<close>

text \<open>
  The adapter's calls for the attempt \<open>tx\<close> all succeed: \<open>W n\<close> holds of the world after \<open>n\<close> of the
  four calls.
\<close>

definition cooperative :: "(nat \<Rightarrow> 'w \<Rightarrow> bool) \<Rightarrow> Txn \<Rightarrow> GatewayBootId \<Rightarrow> 'w CutoverEnv \<Rightarrow> bool" where
  "cooperative W tx gw env \<longleftrightarrow>
     (\<forall>w. tx_old tx = None \<longrightarrow> W 0 w \<longrightarrow> W 1 w) \<and>
     (\<forall>old b w. tx_old tx = Some old \<longrightarrow> W 0 w \<longrightarrow>
        (\<exists>fo w'. env_fence_old env old b w = (Inr fo, w') \<and> W 1 w' \<and> fo_applied fo \<and> \<not> fo_fencing_unproven fo)) \<and>
     (\<forall>auth g w. W 1 w \<longrightarrow> (\<exists>ao w'. env_activate env (tx_selected tx) auth g w = (Inr ao, w') \<and> W 2 w' \<and> ao_acknowledged ao)) \<and>
     (\<forall>s w. W 2 w \<longrightarrow> (\<exists>ro w'. env_install_route env (route_for tx s) gw w = (Inr ro, w') \<and> W 3 w' \<and> ro_acknowledged ro)) \<and>
     (\<forall>s auth w. W 3 w \<longrightarrow> (\<exists>vo w'. env_verify env (route_for tx s) auth w = (Inr vo, w') \<and> W 4 w' \<and> vo_verified vo))"

lemma cooperativeD:
  assumes "cooperative W tx gw env"
  shows "tx_old tx = None \<Longrightarrow> W 0 w \<Longrightarrow> W 1 w"
    and "tx_old tx = Some old \<Longrightarrow> W 0 w \<Longrightarrow>
      \<exists>fo w'. env_fence_old env old b w = (Inr fo, w') \<and> W 1 w' \<and> fo_applied fo \<and> \<not> fo_fencing_unproven fo"
    and "W 1 w \<Longrightarrow> \<exists>ao w'. env_activate env (tx_selected tx) auth g w = (Inr ao, w') \<and> W 2 w' \<and> ao_acknowledged ao"
    and "W 2 w \<Longrightarrow> \<exists>ro w'. env_install_route env (route_for tx s) gw w = (Inr ro, w') \<and> W 3 w' \<and> ro_acknowledged ro"
    and "W 3 w \<Longrightarrow> \<exists>vo w'. env_verify env (route_for tx s) auth w = (Inr vo, w') \<and> W 4 w' \<and> vo_verified vo"
  using assms unfolding cooperative_def by simp_all

lemma cooperative_cong: "same_txn tx tx' \<Longrightarrow> cooperative W tx' gw env = cooperative W tx gw env"
  by (simp add: cooperative_def same_txn_def route_for_def)

text \<open>No checkpoint file, no barrier before the end, and the given authority and gateway.\<close>

definition unhindered ::
    "SlotState list \<times> (ServiceSlotKey \<Rightarrow> nat option) \<times> ServiceAuthorityGeneration \<times> CoordinatorEpoch \<Rightarrow>
     GatewayBootId \<Rightarrow> FabricState \<Rightarrow> bool" where
  "unhindered v gw s \<longleftrightarrow> fs_checkpoint_path s = [] \<and> fs_barrier_milestone s = Milestone.VERIFICATION_COMPLETE \<and>
     authority_view s = v \<and> fs_gateway_boot s = gw"

lemma unhindered_frame [simp]:
  "unhindered v gw (record_txn m tx rt s) = unhindered v gw s" "unhindered v gw (push_attempt s st) = unhindered v gw s"
  "unhindered v gw (add_fenced_boot s b) = unhindered v gw s"
  "unhindered v gw (s\<lparr>fs_routes := t\<rparr>) = unhindered v gw s"
  by (simp_all add: unhindered_def authority_view_def record_txn_def push_attempt_def add_fenced_boot_def)

lemma serial_checkpoint:
  assumes "unhindered v gw s" and "m \<noteq> Milestone.VERIFICATION_COMPLETE"
  shows "checkpoint (serial_env env) m rt tx (w, s) = ((w, record_txn m tx rt s), Inr tx)"
  using assms
  by (simp add: checkpoint_def and_then_def locked_def stop_at_barrier_def Let_def save_checkpoint_def unhindered_def
      record_txn_def)

lemma serial_fence_phase:
  assumes "cooperative W tx gw env" and "unhindered v gw s" and "W 0 w"
  shows "\<exists>w' s' tx'. fence_phase (serial_env env) tx (w, s) = ((w', s'), Inr tx') \<and> unhindered v gw s' \<and> W 1 w'"
proof -
  obtain w' fo where call: "call_fence (serial_env env) tx (w, s) = ((w', s), Inr fo)" and W: "W 1 w'"
    and fo: "fo_applied fo" "\<not> fo_fencing_unproven fo"
  proof (cases "tx_old tx")
    case (Some old)
    obtain fo w' where "env_fence_old env old (cand_boot (tx_selected tx)) w = (Inr fo, w')" "W 1 w'"
      "fo_applied fo" "\<not> fo_fencing_unproven fo"
      using cooperativeD(2) [OF assms(1) Some assms(3)] by blast
    then show ?thesis using that Some by (simp add: call_fence_def ext_call_def)
  qed (use that assms(1,3) in \<open>simp add: call_fence_def default_FenceOutcome_def cooperative_def\<close>)
  obtain s1 tx1 where "after_fence fo tx s = (s1, Inr tx1)" "unhindered v gw s1"
    using fo assms(2) by (simp add: after_fence_def split: option.split)
  then show ?thesis
    using W by (auto simp: fence_phase_def and_then_def call locked_def serial_checkpoint)
qed

lemma serial_activate_phase:
  assumes "cooperative W tx gw env" and "unhindered v gw s" and "W 1 w"
  shows "\<exists>w' s' tx'. activate_phase (serial_env env) auth tx (w, s) = ((w', s'), Inr tx') \<and> unhindered v gw s' \<and> W 2 w'"
proof -
  obtain ao w' where "env_activate env (tx_selected tx) auth (asg_authority_generation (tx_new tx)) w = (Inr ao, w')"
    "W 2 w'" "ao_acknowledged ao" using cooperativeD(3) [OF assms(1,3)] by blast
  then show ?thesis
    using assms(2) by (simp add: activate_phase_def and_then_def call_activate_def ext_call_def locked_def
        after_activate_def serial_checkpoint)
qed

lemma serial_route_phase:
  assumes "cooperative W tx gw env" and "unhindered v gw s" and "W 2 w"
  shows "\<exists>w' s' tx'. route_phase (serial_env env) (route_for tx s) tx (w, s) = ((w', s'), Inr tx') \<and> unhindered v gw s' \<and> W 3 w'"
proof -
  obtain ro w' where "env_install_route env (route_for tx s) (fs_gateway_boot s) w = (Inr ro, w')" "W 3 w'" "ro_acknowledged ro"
    using cooperativeD(4) [OF assms(1,3)] assms(2) unfolding unhindered_def by blast
  then show ?thesis
    using assms(2) by (simp add: route_phase_def and_then_def call_install_route_def ext_call_def locked_def
        after_route_def serial_checkpoint)
qed

lemma serial_verify_phase:
  assumes "cooperative W tx gw env" and "W 3 w" and "authority_view sc = authority_view s"
    and "tx_old tx = current_assignment s (tx_slot tx)"
  shows "\<exists>w' s' r. verify_phase (serial_env env) (route_for tx s1) auth tx (w, sc) = ((w', s'), Inr r) \<and> W 4 w'"
proof -
  have "\<not> superseded (tx_old tx) (fs_slots (fst (commit_position sc (tx_slot tx))) ! snd (commit_position sc (tx_slot tx)))"
    using assms(3,4) by (auto simp: commit_position_def superseded_def empty_slot_def authority_view_def
        current_assignment_def find_slot_def split: option.splits)
  moreover obtain vo w' where "env_verify env (route_for tx s1) auth w = (Inr vo, w')" "W 4 w'" "vo_verified vo"
    using cooperativeD(5) [OF assms(1,2)] by blast
  ultimately show ?thesis
    by (simp add: verify_phase_def and_then_def call_verify_def ext_call_def split_beta locked_def commit_def Let_def)
qed

lemma unhindered_begin:
  assumes "unhindered v gw s"
  shows "unhindered v gw (fst (begin_attempt p s))"
proof -
  have "unhindered v gw s'" if "snapshot_locked s k = Inr (s', snap)" for k s' snap
    using snapshot_locked_state [OF that] assms by (auto simp: unhindered_def authority_view_def)
  moreover have "unhindered v gw (s'\<lparr>fs_assignment_counter := i\<rparr>) = unhindered v gw s'" for s' i
    by (simp add: unhindered_def authority_view_def)
  ultimately show ?thesis
    using assms unfolding begin_attempt_def Let_def
    by (auto simp: finish_def split: sum.split option.split prod.split)
qed

lemma serial_run_attempt:
  assumes "snd (begin_attempt p s) = Inr tx" and "cooperative W tx (fs_gateway_boot s) env" and "W 0 w"
    and "unhindered (authority_view s) (fs_gateway_boot s) s"
  shows "\<exists>w' s' r. run_attempt (serial_env env) p (w, s) = ((w', s'), Inr r) \<and> W 4 w'"
proof -
  let ?e = "serial_env env" and ?v = "authority_view s" and ?gw = "fs_gateway_boot s"
  define s0 where "s0 = record_txn Milestone.INTENT_ONLY tx None (fst (begin_attempt p s))"
  have u: "unhindered ?v ?gw (fst (begin_attempt p s))" using assms(4) by (rule unhindered_begin)
  have b: "begin_phase ?e p (w, s) = ((w, s0), Inr tx)"
    using assms(1) serial_checkpoint [OF u, of Milestone.INTENT_ONLY env None tx w]
    by (simp add: begin_phase_def and_then_def locked_def split_beta s0_def)
  have u0: "unhindered ?v ?gw s0" using u by (simp add: s0_def)
  obtain w1 s1 tx1 where f: "fence_phase ?e tx (w, s0) = ((w1, s1), Inr tx1)" and u1: "unhindered ?v ?gw s1" "W 1 w1"
    using serial_fence_phase [OF assms(2) u0 assms(3)] by blast
  have c1: "cooperative W tx1 ?gw env"
    using assms(2) cooperative_cong fence_phase_Inr [OF f] by blast
  obtain w2 s2 tx2 where a: "activate_phase ?e (auth_for tx1 s1) tx1 (w1, s1) = ((w2, s2), Inr tx2)"
    and u2: "unhindered ?v ?gw s2" "W 2 w2"
    using serial_activate_phase [OF c1 u1] by blast
  have c2: "cooperative W tx2 ?gw env" using c1 cooperative_cong activate_phase_Inr [OF a] by blast
  obtain w3 s3 tx3 where r: "route_phase ?e (route_for tx2 s2) tx2 (w2, s2) = ((w3, s3), Inr tx3)"
    and u3: "unhindered ?v ?gw s3" "W 3 w3"
    using serial_route_phase [OF c2 u2] by blast
  have s3: "same_txn tx2 tx3" using route_phase_Inr [OF r] by blast
  then have c3: "cooperative W tx3 ?gw env" and r3: "route_for tx2 s2 = route_for tx3 s2"
    using c2 cooperative_cong by (blast, simp add: route_for_def same_txn_def)
  have same: "same_txn tx tx3"
    using fence_phase_Inr [OF f] activate_phase_Inr [OF a] route_phase_Inr [OF r] same_txn_trans by blast
  have old: "tx_old tx3 = current_assignment s (tx_slot tx3)"
    using begin_attempt_admitted [OF assms(1)] same by (simp add: admitted_def same_txn_def)
  obtain w' s' r' where v: "verify_phase ?e (route_for tx2 s2) (auth_for tx1 s1) tx3 (w3, s3) = ((w', s'), Inr r')" "W 4 w'"
    using serial_verify_phase [OF c3 u3(2) _ old] u3(1) unfolding unhindered_def r3 by blast
  show ?thesis
    by (simp add: run_attempt_def and_then_def b from_fence_def f from_activate_def a from_route_def r
        from_verify_def v Let_def)
qed

section \<open>Properties\<close>

text \<open>
  C1. Nothing is committed on trust. If an attempt reports COMPLETED, whatever other threads
  did in between, then at its start the service was registered, the plan's source assignment
  was still current and the selected candidate passed every hard check again; the fence of the
  old assignment was applied and proven, the activation and the route were acknowledged and
  the verification through that route, under the same authorization, succeeded.
\<close>

theorem completed_cutover_proven:
  assumes "execute_plan env p (w, s) = (\<sigma>', Inr r)" and "ar_state r = AttemptState.COMPLETED"
  shows "\<exists>tx auth re. admitted p s tx \<and> fence_succeeded env tx \<and> activation_succeeded env tx auth \<and>
    route_succeeded env re \<and> verify_succeeded env re auth"
proof -
  have "run_attempt env p (w, s) = (\<sigma>', Inr r)" using assms execute_plan_completed_iff by blast
  from cutover_invariant.run_attempt_commit [OF trivial_cutover_invariant TrueI this]
  show ?thesis using begin_attempt_admitted [of p s] by (metis snd_conv)
qed

lemma example_begins: "\<not> isl (snd (begin_attempt example_plan example_fabric))"
  by code_simp

lemma cooperative_ok_env: "cooperative (\<lambda>_ _. True) tx gw ok_env"
  by (simp add: cooperative_def ok_env_def default_FenceOutcome_def)

lemma example_completes:
  obtains \<sigma>' r where "execute_plan ok_env example_plan (0, example_fabric) = (\<sigma>', Inr r)"
    and "ar_state r = AttemptState.COMPLETED"
proof -
  obtain tx where tx: "snd (begin_attempt example_plan example_fabric) = Inr tx"
    using example_begins by (metis sum.collapse(2))
  have "fs_checkpoint_path example_fabric = []" "fs_barrier_milestone example_fabric = Milestone.VERIFICATION_COMPLETE"
    by code_simp+
  then have "unhindered (authority_view example_fabric) (fs_gateway_boot example_fabric) example_fabric"
    by (simp add: unhindered_def)
  from serial_run_attempt [OF tx cooperative_ok_env TrueI this, of 0] show ?thesis
    using that execute_plan_completed_iff by (metis serial_ok_env(1))
qed

theorem completed_cutover_proven_witness:
  "\<exists>tx auth re. admitted example_plan example_fabric tx \<and> fence_succeeded ok_env tx \<and>
     activation_succeeded ok_env tx auth \<and> route_succeeded ok_env re \<and> verify_succeeded ok_env re auth"
  by (rule example_completes) (rule completed_cutover_proven)

text \<open>
  C9. A cutover that nothing hinders completes: if the attempt is admitted, no other thread
  interferes, no checkpoint file and no barrier is set, and the adapter reports success for each
  of its four calls in turn, then the attempt returns COMPLETED, and the world is as the last
  call left it.
\<close>

theorem unhindered_cutover_completes:
  assumes "snd (begin_attempt p s) = Inr tx" and "cooperative W tx (fs_gateway_boot s) env" and "W 0 w"
    and "fs_checkpoint_path s = []"
    and "fs_barrier_milestone s = Milestone.VERIFICATION_COMPLETE"
  shows "\<exists>w' s' r. execute_plan (serial_env env) p (w, s) = ((w', s'), Inr r) \<and> ar_state r = AttemptState.COMPLETED \<and> W 4 w'"
proof -
  have "unhindered (authority_view s) (fs_gateway_boot s) s" using assms(4,5) by (simp add: unhindered_def)
  then show ?thesis
    using serial_run_attempt [OF assms(1-3)] execute_plan_completed_iff by blast
qed

theorem unhindered_cutover_completes_witness:
  "\<exists>\<sigma>' r. execute_plan ok_env example_plan (0, example_fabric) = (\<sigma>', Inr r) \<and>
     ar_state r = AttemptState.COMPLETED"
proof -
  obtain tx where tx: "snd (begin_attempt example_plan example_fabric) = Inr tx"
    using example_begins by (metis sum.collapse(2))
  have "fs_checkpoint_path example_fabric = []" by code_simp
  moreover have "fs_barrier_milestone example_fabric = Milestone.VERIFICATION_COMPLETE" by code_simp
  ultimately show ?thesis
    using unhindered_cutover_completes [OF tx cooperative_ok_env TrueI] by simp
qed

text \<open>When no other thread interferes, a completed attempt is its commit on the authority it started from.\<close>

lemma serial_completed:
  assumes "execute_plan (serial_env env) p (w, s) = ((w', s'), Inr r)" and "ar_state r = AttemptState.COMPLETED"
  obtains tx vo now sc r0 where "admitted p s tx" "authority_view sc = authority_view s"
    "commit vo now tx sc = (s', Inr r0)" "ar_committed_assignment r = ar_committed_assignment r0"
proof -
  have run: "run_attempt (serial_env env) p (w, s) = ((w', s'), Inr r)"
    using assms execute_plan_completed_iff by blast
  obtain tx tx' vo now sc sc' r0 where tx: "snd (begin_attempt p s) = Inr tx" "same_txn tx tx'"
    and sc: "authority_view sc = authority_view s" "commit vo now tx' sc = (sc', Inr r0)"
    and fin: "s' = sc'" "r = r0\<lparr>ar_elapsed_ms := ar_elapsed_ms r\<rparr>"
    using serial_authority.run_attempt_commit [of "(w, s)" "authority_view s" env p, OF _ run] by auto
  have "admitted p s tx'"
    using begin_attempt_admitted [OF tx(1)] tx(2) by (auto simp: admitted_def same_txn_def)
  moreover have "ar_committed_assignment r = ar_committed_assignment r0" by (subst fin(2)) simp
  ultimately show ?thesis using that sc fin(1) by blast
qed

text \<open>
  C7. A completed cutover hands over exactly one slot. When no other thread interferes and
  the slot had a current assignment, completion makes the replacement the slot's current,
  active assignment, at the target and boot that the plan selected and under a strictly
  greater authority generation; the predecessor ends the slot's history as FENCED and its
  boot is fenced; no other slot's current assignment changes and no transaction is pending.
\<close>

theorem completed_cutover_transfers_authority:
  assumes "execute_plan (serial_env env) p (w, s) = ((w', s'), Inr r)" and "ar_state r = AttemptState.COMPLETED"
    and "wf_fabric s" and "current_assignment s (fp_slot p) = Some old"
  shows "\<exists>new sel. ar_committed_assignment r = Some new \<and> fp_selected p = Some sel \<and>
    (\<forall>k. current_assignment s' k = (if k = fp_slot p then Some new else current_assignment s k)) \<and>
    asg_state new = AssignmentState.ACTIVE \<and> asg_target new = cand_target sel \<and>
    asg_worker_boot new = cand_boot sel \<and> fs_last_authority_gen s < asg_authority_generation new \<and>
    fs_last_authority_gen s' = asg_authority_generation new \<and>
    (\<exists>st st'. find_slot s (fp_slot p) = Some st \<and> find_slot s' (fp_slot p) = Some st' \<and>
       ss_history st' = ss_history st @ [old\<lparr>asg_state := AssignmentState.FENCED\<rparr>]) \<and>
    (asg_worker_boot old = id_null \<or> boot_fenced s' (asg_worker_boot old)) \<and> \<not> fs_has_txn s'"
proof -
  obtain tx' vo now sc r0 where adm: "admitted p s tx'" and view: "authority_view sc = authority_view s"
    and cm: "commit vo now tx' sc = (s', Inr r0)" and r: "ar_committed_assignment r = ar_committed_assignment r0"
    using assms(1,2) by (rule serial_completed)
  then have slot: "tx_slot tx' = fp_slot p" and old: "tx_old tx' = Some old"
    using assms(4) by (auto simp: admitted_def)
  obtain n where n: "fs_slot_index s (fp_slot p) = Some n" "ss_current (fs_slots s ! n) = Some old"
    using assms(4) by (auto simp: current_assignment_def find_slot_def split: option.splits)
  have wf: "wf_slots s" using assms(3) by (simp add: wf_fabric_def)
  have sc: "fs_slots sc = fs_slots s" "fs_slot_index sc = fs_slot_index s"
    using view by (auto simp: authority_view_def)
  define st' where "st' = (fs_slots s ! n)\<lparr>ss_history := ss_history (fs_slots s ! n) @
      [old\<lparr>asg_state := AssignmentState.FENCED\<rparr>], ss_current := Some (committed tx')\<rparr>"
  have pred: "fenced_predecessor (tx_old tx') (fs_slots s ! n) = [old\<lparr>asg_state := AssignmentState.FENCED\<rparr>]"
    using n(2) by (simp add: fenced_predecessor_def)
  have index: "fs_slot_index sc (tx_slot tx') = Some n" using n(1) slot sc by simp
  note c = commit_Inr_indexed [OF cm index, unfolded sc pred]
  have find: "find_slot s' k = (if k = fp_slot p then Some st' else find_slot s k)" for k
    using c sc by (intro find_slot_update [OF wf n(1)]) (simp_all add: push_attempt_def st'_def)
  have "asg_worker_boot old = id_null \<or> boot_fenced s' (asg_worker_boot old)"
    using commit_fences_old [OF cm old] by (auto simp: boot_fenced_def)
  moreover have "fs_last_authority_gen s' = asg_authority_generation (committed tx')" "\<not> fs_has_txn s'"
      "ar_committed_assignment r = Some (committed tx')"
    using c r by (simp_all add: push_attempt_def committed_def)
  moreover have "asg_state (committed tx') = AssignmentState.ACTIVE" by (simp add: committed_def)
  moreover obtain sel where "fp_selected p = Some sel" "asg_target (committed tx') = cand_target sel"
      "asg_worker_boot (committed tx') = cand_boot sel"
      "fs_last_authority_gen s < asg_authority_generation (committed tx')"
    using adm by (auto simp: admitted_def committed_def)
  moreover have "current_assignment s' k = (if k = fp_slot p then Some (committed tx') else current_assignment s k)" for k
    by (simp add: current_assignment_def find st'_def)
  moreover have "find_slot s (fp_slot p) = Some (fs_slots s ! n)" using n(1) by (simp add: find_slot_def)
  ultimately show ?thesis using find by (simp add: st'_def)
qed

lemma example_current: "current_assignment example_fabric example_slot \<noteq> None"
  by code_simp

lemma example_plan_slot: "fp_slot example_plan = example_slot"
  by (simp add: example_plan_def)

theorem completed_cutover_transfers_authority_witness:
  "\<exists>w' s' r new. execute_plan ok_env example_plan (0, example_fabric) = ((w', s'), Inr r) \<and>
     ar_committed_assignment r = Some new \<and> current_assignment s' example_slot = Some new \<and>
     asg_state new = AssignmentState.ACTIVE \<and>
     fs_last_authority_gen example_fabric < asg_authority_generation new"
proof -
  obtain \<sigma>' r where ex: "execute_plan ok_env example_plan (0, example_fabric) = (\<sigma>', Inr r)"
    and st: "ar_state r = AttemptState.COMPLETED" by (rule example_completes)
  obtain w' s' where \<sigma>': "\<sigma>' = (w', s')" by (cases \<sigma>')
  obtain old where old: "current_assignment example_fabric (fp_slot example_plan) = Some old"
    using example_current by (auto simp: example_plan_slot)
  have ex': "execute_plan (serial_env ok_env) example_plan (0, example_fabric) = ((w', s'), Inr r)"
    using ex \<sigma>' by simp
  from completed_cutover_transfers_authority [OF ex' st wf_example_fabric old] show ?thesis
    using ex \<sigma>' by (auto simp: example_plan_slot)
qed

text \<open>
  C8. An attempt that does not complete moves no authority: whether it returns FAILED,
  RECOVERY_REQUIRED or SUPERSEDED or throws, every slot keeps its current assignment and its
  history, and the last authority generation and the coordinator epoch stay as they were,
  provided that other threads leave these alone meanwhile.
\<close>

theorem incomplete_cutover_keeps_authority:
  assumes "\<And>\<sigma>. authority_view (snd (env_yield env \<sigma>)) = authority_view (snd \<sigma>)"
    and "execute_plan env p (w, s) = ((w', s'), res)"
    and "\<And>r. res = Inr r \<Longrightarrow> ar_state r \<noteq> AttemptState.COMPLETED"
  shows "fs_slots s' = fs_slots s \<and> fs_slot_index s' = fs_slot_index s \<and>
    fs_last_authority_gen s' = fs_last_authority_gen s \<and> fs_epoch s' = fs_epoch s \<and>
    current_assignment s' = current_assignment s"
proof -
  obtain x where x: "run_attempt env p (w, s) = ((w', s'), Inl x)"
    using assms(2,3) by (rule execute_plan_incomplete)
  have "cutover_invariant env (\<lambda>t. authority_view t = authority_view s)"
    by (rule authority_cutover_invariant [OF assms(1)])
  then have "exit_keeps (\<lambda>t. authority_view t = authority_view s) (run_attempt env p)"
    by (rule cutover_invariant.exit_keeps_run_attempt)
  then have "authority_view s' = authority_view s"
    using x unfolding exit_keeps_def by (metis snd_conv)
  then show ?thesis
    by (auto simp: authority_view_def current_assignment_def find_slot_def fun_eq_iff)
qed

theorem incomplete_cutover_keeps_authority_witness:
  "\<exists>w' s' res. execute_plan unproven_env example_plan (0, example_fabric) = ((w', s'), res) \<and>
     current_assignment s' = current_assignment example_fabric"
proof -
  obtain w' s' res where ex: "execute_plan unproven_env example_plan (0, example_fabric) = ((w', s'), res)"
    by (metis prod.collapse)
  have "ar_state r \<noteq> AttemptState.COMPLETED" if "res = Inr r" for r
  proof
    assume "ar_state r = AttemptState.COMPLETED"
    then have run: "run_attempt unproven_env example_plan (0, example_fabric) = ((w', s'), Inr r)"
      using ex that execute_plan_completed_iff by blast
    from cutover_invariant.run_attempt_commit [OF trivial_cutover_invariant TrueI run]
    obtain tx where tx: "snd (begin_attempt example_plan example_fabric) = Inr tx"
      and fence: "fence_succeeded unproven_env tx" by auto
    have "tx_old tx \<noteq> None"
      using begin_attempt_admitted [OF tx] example_current by (simp add: admitted_def example_plan_slot)
    with fence show False
      by (auto simp: fence_succeeded_def unproven_env_def default_FenceOutcome_def split: option.splits)
  qed
  moreover have "authority_view (snd (env_yield unproven_env \<sigma>)) = authority_view (snd \<sigma>)" for \<sigma>
    by (simp add: unproven_env_def ok_env_def)
  ultimately show ?thesis
    using incomplete_cutover_keeps_authority [of unproven_env, OF _ ex] ex by blast
qed

text \<open>
  A fence that is unproven or not applied stops the cutover before any other effect: the
  attempt returns FAILED, the outside world is as the fence call left it (nothing is activated,
  no route is installed, nothing is verified), no boot is fenced, no route changes and the
  authority stays where it was.
\<close>

theorem refused_fence_stops:
  assumes "snd (begin_attempt p s) = Inr tx" and "fs_checkpoint_path s = []"
    and "fs_barrier_milestone s = Milestone.VERIFICATION_COMPLETE" and "tx_old tx = Some old"
    and "env_fence_old env old (cand_boot (tx_selected tx)) w = (Inr fo, w1)"
    and "fo_fencing_unproven fo \<or> \<not> fo_applied fo"
  shows "\<exists>s' r. execute_plan (serial_env env) p (w, s) = ((w1, s'), Inr r) \<and>
    ar_state r = AttemptState.FAILED \<and> authority_view s' = authority_view s \<and>
    fs_fenced_boots s' = fs_fenced_boots s \<and> fs_routes s' = fs_routes s"
proof -
  have u: "unhindered (authority_view s) (fs_gateway_boot s) (fst (begin_attempt p s))"
    using assms(2,3) by (intro unhindered_begin) (simp add: unhindered_def)
  define s0 where "s0 = record_txn Milestone.INTENT_ONLY tx None (fst (begin_attempt p s))"
  have b: "begin_phase (serial_env env) p (w, s) = ((w, s0), Inr tx)"
    using assms(1) serial_checkpoint [OF u, of Milestone.INTENT_ONLY env None tx w]
    by (simp add: begin_phase_def and_then_def locked_def split_beta s0_def)
  have call: "call_fence (serial_env env) tx (w, s0) = ((w1, s0), Inr fo)"
    using assms(4,5) by (simp add: call_fence_def ext_call_def)
  obtain why where "after_fence fo tx s0 = finish s0 (tx_result tx) AttemptState.FAILED why"
    using assms(6) by (cases "fo_fencing_unproven fo") (simp_all add: after_fence_def)
  then obtain r where "run_attempt (serial_env env) p (w, s) =
      ((w1, push_attempt s0 AttemptState.FAILED), Inl (Returned r))" and r: "ar_state r = AttemptState.FAILED"
    by (simp add: run_attempt_def and_then_def b from_fence_def fence_phase_def call locked_def finish_def)
  then have "execute_plan (serial_env env) p (w, s) = ((w1, push_attempt s0 AttemptState.FAILED), Inr r)"
    by (simp add: execute_plan_def)
  moreover have "authority_view s0 = authority_view s" by (simp add: s0_def begin_attempt_view)
  moreover have "fs_fenced_boots s0 = fs_fenced_boots s" "fs_routes s0 = fs_routes s"
    using begin_attempt_frame [of p s] by (simp_all add: s0_def record_txn_def)
  ultimately show ?thesis using r by (simp add: push_attempt_def authority_view_def)
qed

theorem refused_fence_stops_witness:
  "\<exists>s' r. execute_plan unproven_env example_plan (0, example_fabric) = ((1, s'), Inr r) \<and>
     ar_state r = AttemptState.FAILED \<and> authority_view s' = authority_view example_fabric"
proof -
  obtain tx where tx: "snd (begin_attempt example_plan example_fabric) = Inr tx"
    using example_begins by (metis sum.collapse(2))
  obtain old where old: "tx_old tx = Some old"
    using begin_attempt_admitted [OF tx] example_current by (auto simp: admitted_def example_plan_slot)
  have "fs_checkpoint_path example_fabric = []" "fs_barrier_milestone example_fabric = Milestone.VERIFICATION_COMPLETE"
    by code_simp+
  moreover have "env_fence_old unproven_env old (cand_boot (tx_selected tx)) 0 =
      (Inr (default_FenceOutcome\<lparr>fo_fencing_unproven := True\<rparr>), 1)"
    by (simp add: unproven_env_def)
  moreover have "fo_fencing_unproven (default_FenceOutcome\<lparr>fo_fencing_unproven := True\<rparr>)" by simp
  ultimately show ?thesis using refused_fence_stops [OF tx _ _ old, of unproven_env 0] by fastforce
qed

end
