(* ===== verification/Codec.thy ===== *)
theory Codec
  imports FF_Types IEEE_Double
begin

text \<open>
  The primitive writers and readers of \<^verbatim>\<open>persistence.cpp\<close>. A writer appends bytes to the
  blob or throws: it is a function to the bytes it appends. The \<^verbatim>\<open>Reader\<close> is a cursor into a
  buffer: its state is the bytes that are left, and a read returns the value with the bytes
  left after it, or throws. The locale \<open>codec\<close> is the contract of a writer and its reader: the
  reader accepts exactly the bytes the writer produces for a valid value.
\<close>

section \<open>Little-endian words\<close>

definition le_bytes :: "nat \<Rightarrow> 'a::len word \<Rightarrow> bytes" where
  "le_bytes n v = map (\<lambda>i. ucast (drop_bit (8 * i) v)) [0..<n]"

definition le_word :: "bytes \<Rightarrow> 'a::len word" where
  "le_word bs = foldl (\<lambda>v k. or v (push_bit (8 * k) (ucast (bs ! k)))) 0 [0..<length bs]"

lemma length_le_bytes [simp]: "length (le_bytes n v) = n"
  by (simp add: le_bytes_def)

lemma bit_byte_at:
  "8 * n \<le> m \<and> bit (w :: u8) (m - 8 * n) \<longleftrightarrow> m div 8 = n \<and> bit w (m mod 8)"
proof (cases "m div 8 = n")
  case True
  then have "8 * n \<le> m" "m - 8 * n = m mod 8" by (auto simp: minus_mult_div_eq_mod)
  with True show ?thesis by simp
next
  case False
  then have "8 \<le> m - 8 * n" if "8 * n \<le> m" using that by linarith
  with False show ?thesis using bit_imp_le_length [of w "m - 8 * n"] by force
qed

lemma bit_le_word_prefix:
  "bit (foldl (\<lambda>v k. or v (push_bit (8 * k) (ucast (bs ! k)))) 0 [0..<n] :: 'a::len word) m \<longleftrightarrow>
     m < LENGTH('a) \<and> m div 8 < n \<and> bit (bs ! (m div 8) :: u8) (m mod 8)"
proof (induction n)
  case (Suc n)
  have "bit (push_bit (8 * n) (ucast (bs ! n)) :: 'a word) m \<longleftrightarrow>
      m < LENGTH('a) \<and> m div 8 = n \<and> bit (bs ! n) (m mod 8)"
    unfolding bit_push_bit_iff bit_ucast_iff bit_byte_at [symmetric] by auto
  then show ?case using Suc by (auto simp: bit_or_iff less_Suc_eq)
qed simp

lemma bit_le_word:
  "bit (le_word bs :: 'a::len word) m \<longleftrightarrow>
     m < LENGTH('a) \<and> m div 8 < length bs \<and> bit (bs ! (m div 8)) (m mod 8)"
  by (simp add: le_word_def bit_le_word_prefix)

lemma le_word_bytes:
  assumes "LENGTH('a) \<le> 8 * n"
  shows "le_word (le_bytes n (v :: 'a::len word)) = v"
proof (rule bit_word_eqI)
  fix m assume m: "m < LENGTH('a)"
  then have "m div 8 < n" using assms by (simp add: div_less_iff_less_mult mult.commute)
  then show "bit (le_word (le_bytes n v) :: 'a word) m = bit v m"
    using m by (simp add: bit_le_word le_bytes_def bit_simps)
qed

lemma le_bytes_word:
  assumes "length bs = n" and "8 * n \<le> LENGTH('a)"
  shows "le_bytes n (le_word bs :: 'a::len word) = bs"
proof (rule nth_equalityI)
  fix i assume "i < length (le_bytes n (le_word bs :: 'a word))"
  then have i: "i < n" by simp
  show "le_bytes n (le_word bs :: 'a word) ! i = bs ! i"
  proof (rule bit_word_eqI)
    fix m assume "m < LENGTH(8)"
    then have "m < 8" "(8 * i + m) div 8 = i" "(8 * i + m) mod 8 = m" by simp_all
    moreover have "8 * i + m < LENGTH('a)" using \<open>m < 8\<close> i assms by linarith
    ultimately show "bit (le_bytes n (le_word bs :: 'a word) ! i) m = bit (bs ! i) m"
      using i assms by (simp add: le_bytes_def bit_simps bit_le_word)
  qed
qed (simp add: assms)

lemma le_bytes_inject:
  assumes "LENGTH('a) \<le> 8 * n"
  shows "le_bytes n (v :: 'a::len word) = le_bytes n w \<longleftrightarrow> v = w"
  using le_word_bytes [OF assms] by metis

section \<open>Readers and writers\<close>

type_synonym 'a reader = "bytes \<Rightarrow> ('a \<times> bytes) result"
type_synonym 'a writer = "'a \<Rightarrow> bytes result"

definition rd_return :: "'a \<Rightarrow> 'a reader" where
  "rd_return x bs = Inr (x, bs)"

definition rd_throw :: "string \<Rightarrow> 'a reader" where
  "rd_throw msg bs = Inl (RuntimeError msg)"

definition rd_bind :: "'a reader \<Rightarrow> ('a \<Rightarrow> 'b reader) \<Rightarrow> 'b reader" where
  "rd_bind d k bs = bindE (d bs) (\<lambda>(x, rest). k x rest)"

text \<open>Appending one piece after the other; the first piece that throws ends the writing.\<close>

fun cat :: "bytes result list \<Rightarrow> bytes result" where
  "cat [] = Inr []"
| "cat (r # rs) = bindE r (\<lambda>b. bindE (cat rs) (\<lambda>bs. Inr (b @ bs)))"

text \<open>\<^verbatim>\<open>Reader::need\<close> and the read of that many bytes.\<close>

definition rd_take :: "nat \<Rightarrow> bytes reader" where
  "rd_take k bs = (if length bs < k then Inl (RuntimeError ''truncated persistence blob'')
                   else Inr (take k bs, drop k bs))"

definition rd_u8 :: "u8 reader" where
  "rd_u8 = rd_bind (rd_take 1) (\<lambda>b. rd_return (b ! 0))"

definition rd_u32 :: "u32 reader" where
  "rd_u32 = rd_bind (rd_take 4) (\<lambda>b. rd_return (le_word b))"

definition rd_u64 :: "u64 reader" where
  "rd_u64 = rd_bind (rd_take 8) (\<lambda>b. rd_return (le_word b))"

definition rd_boolean :: "bool reader" where
  "rd_boolean = rd_bind rd_u8 (\<lambda>v. if 1 < v then rd_throw ''invalid bool'' else rd_return (v = 1))"

definition rd_dbl :: "double reader" where
  "rd_dbl = rd_bind rd_u64 (\<lambda>v. if \<not> d_isfinite v then rd_throw ''non-finite value'' else rd_return v)"

definition kMaxCount :: u32 where
  "kMaxCount = push_bit 22 1"

definition kMaxString :: u32 where
  "kMaxString = push_bit 22 1"

definition rd_str :: "string reader" where
  "rd_str = rd_bind rd_u32 (\<lambda>len.
     if kMaxString < len then rd_throw ''string too large''
     else rd_bind (rd_take (unat len)) (\<lambda>b. rd_return (map (\<lambda>w. char_of (unat w)) b)))"

definition rd_count :: "u32 reader" where
  "rd_count = rd_bind rd_u32 (\<lambda>c. if kMaxCount < c then rd_throw ''count too large'' else rd_return c)"

definition rd_opt :: "'a reader \<Rightarrow> 'a option reader" where
  "rd_opt d = rd_bind rd_boolean (\<lambda>b. if \<not> b then rd_return None else rd_bind d (\<lambda>x. rd_return (Some x)))"

fun rd_times :: "nat \<Rightarrow> 'a reader \<Rightarrow> 'a list reader" where
  "rd_times 0 d = rd_return []"
| "rd_times (Suc n) d = rd_bind d (\<lambda>x. rd_bind (rd_times n d) (\<lambda>xs. rd_return (x # xs)))"

definition rd_vec :: "'a reader \<Rightarrow> 'a list reader" where
  "rd_vec d = rd_bind rd_count (\<lambda>n. rd_times (unat n) d)"

definition rd_enum :: "'a list \<Rightarrow> string \<Rightarrow> 'a reader" where
  "rd_enum vals msg = rd_bind rd_u8 (\<lambda>v.
     case enum_of_byte vals v of None \<Rightarrow> rd_throw msg | Some x \<Rightarrow> rd_return x)"

definition dec_id :: "'t Id reader" where
  "dec_id = rd_bind rd_u64 (\<lambda>v. rd_return (Id v))"

definition dec_gen :: "'t Gen reader" where
  "dec_gen = rd_bind rd_u64 (\<lambda>v. rd_return (Gen v))"

definition put_u8 :: "u8 writer" where
  "put_u8 v = Inr [v]"

definition put_u32 :: "u32 writer" where
  "put_u32 v = Inr (le_bytes 4 v)"

definition put_u64 :: "u64 writer" where
  "put_u64 v = Inr (le_bytes 8 v)"

definition put_bool :: "bool writer" where
  "put_bool v = Inr [if v then 1 else 0]"

definition put_double :: "double writer" where
  "put_double v = (if \<not> d_isfinite v then Inl (RuntimeError ''non-finite value in persistence'') else put_u64 v)"

definition put_string :: "string writer" where
  "put_string s = (if unat kMaxString < length s then Inl (RuntimeError ''string too large'')
     else cat [put_u32 (of_nat (length s)), Inr (map (\<lambda>c. of_nat (of_char c)) s)])"

definition put_opt :: "'a writer \<Rightarrow> 'a option writer" where
  "put_opt ser v = cat (put_bool (v \<noteq> None) # (case v of None \<Rightarrow> [] | Some x \<Rightarrow> [ser x]))"

text \<open>The size is cast to 32 bits and not checked.\<close>

definition put_vec :: "'a writer \<Rightarrow> 'a list writer" where
  "put_vec ser xs = cat (put_u32 (of_nat (length xs)) # map ser xs)"

definition put_enum :: "'a list \<Rightarrow> 'a writer" where
  "put_enum vals x = put_u8 (enum_byte vals x)"

definition put_id :: "'t Id writer" where
  "put_id i = put_u64 (id_value i)"

definition put_gen :: "'t Gen writer" where
  "put_gen g = put_u64 (gen_value g)"

section \<open>The contract of a writer and its reader\<close>

named_theorems codec_simps

locale codec =
  fixes enc :: "'a writer" and dec :: "'a reader" and valid :: "'a \<Rightarrow> bool"
  assumes exact: "dec bs = Inr (x, rest) \<longleftrightarrow> (\<exists>b. bs = b @ rest \<and> enc x = Inr b \<and> valid x)"
    and total: "valid x \<Longrightarrow> \<exists>b. enc x = Inr b"
begin

lemma roundtrip: "valid x \<Longrightarrow> enc x = Inr b \<Longrightarrow> dec (b @ rest) = Inr (x, rest)"
  by (auto simp: exact)

lemma canonical: "dec bs = Inr (x, rest) \<Longrightarrow> enc x = Inr b \<Longrightarrow> bs = b @ rest"
  by (auto simp: exact)

lemma dec_prefix_free:
  "enc x = Inr b \<Longrightarrow> valid x \<Longrightarrow> enc y = Inr c \<Longrightarrow> valid y \<Longrightarrow> b @ r = c @ s \<Longrightarrow> x = y"
  using roundtrip [of x b r] roundtrip [of y c s] by simp

end

lemma all_True [simp]: "list_all (\<lambda>_. True) xs" "pred_option (\<lambda>_. True) v"
  by (induction xs) (simp_all add: option.pred_True)

lemma rd_bind_Inr [codec_simps]:
  "rd_bind d k bs = Inr (y, rest) \<longleftrightarrow> (\<exists>x mid. d bs = Inr (x, mid) \<and> k x mid = Inr (y, rest))"
  by (auto simp: rd_bind_def exn_simps)

lemma rd_return_Inr [codec_simps]: "rd_return x bs = Inr (y, rest) \<longleftrightarrow> x = y \<and> bs = rest"
  by (simp add: rd_return_def)

lemma rd_throw_Inr [codec_simps]: "rd_throw msg bs = Inr r \<longleftrightarrow> False"
  by (simp add: rd_throw_def)

lemma rd_guard_Inr [codec_simps]:
  "(if c then rd_throw msg else d) bs = Inr r \<longleftrightarrow> \<not> c \<and> d bs = Inr r"
  by (simp add: rd_throw_def)

lemma rd_case_Inr [codec_simps]:
  "(case v of None \<Rightarrow> rd_throw msg | Some x \<Rightarrow> k x) bs = Inr r \<longleftrightarrow> (\<exists>x. v = Some x \<and> k x bs = Inr r)"
  by (cases v) (simp_all add: rd_throw_def)

lemma cat_Cons_Inr [codec_simps]:
  "cat (r # rs) = Inr b \<longleftrightarrow> (\<exists>b1 b2. b = b1 @ b2 \<and> r = Inr b1 \<and> cat rs = Inr b2)"
  by (auto simp: exn_simps)

lemma cat_Nil_Inr [codec_simps]: "cat [] = Inr b \<longleftrightarrow> b = []"
  by auto

lemma rd_take_Inr [codec_simps]: "rd_take k bs = Inr (b, rest) \<longleftrightarrow> bs = b @ rest \<and> length b = k"
  by (auto simp: rd_take_def)

interpretation c_u8: codec put_u8 rd_u8 "\<lambda>_. True"
proof unfold_locales
  fix bs rest x
  show "rd_u8 bs = Inr (x, rest) \<longleftrightarrow> (\<exists>b. bs = b @ rest \<and> put_u8 x = Inr b \<and> True)"
    by (auto simp: rd_u8_def put_u8_def codec_simps length_Suc_conv)
qed (simp add: put_u8_def)

interpretation c_u32: codec put_u32 rd_u32 "\<lambda>_. True"
proof unfold_locales
  fix bs rest x
  show "rd_u32 bs = Inr (x, rest) \<longleftrightarrow> (\<exists>b. bs = b @ rest \<and> put_u32 x = Inr b \<and> True)"
    by (auto simp: rd_u32_def put_u32_def codec_simps le_bytes_word le_word_bytes)
qed (simp add: put_u32_def)

interpretation c_u64: codec put_u64 rd_u64 "\<lambda>_. True"
proof unfold_locales
  fix bs rest x
  show "rd_u64 bs = Inr (x, rest) \<longleftrightarrow> (\<exists>b. bs = b @ rest \<and> put_u64 x = Inr b \<and> True)"
    by (auto simp: rd_u64_def put_u64_def codec_simps le_bytes_word le_word_bytes)
qed (simp add: put_u64_def)

lemmas codec_words [codec_simps] = c_u8.exact c_u32.exact c_u64.exact

lemma u8_not_greater_one: "\<not> 1 < v \<longleftrightarrow> v = 0 \<or> v = (1 :: u8)"
proof -
  have "\<not> 1 < v \<longleftrightarrow> unat v = 0 \<or> unat v = 1" unfolding word_less_nat_alt by auto
  then show ?thesis by (auto simp: word_unat_eq_iff)
qed

lemma bool_byte: "(v = 0 \<or> v = 1) \<and> x = (v = 1) \<longleftrightarrow> v = (if x then 1 else (0 :: u8))"
  by (cases x) auto

interpretation c_bool: codec put_bool rd_boolean "\<lambda>_. True"
proof unfold_locales
  fix bs rest x
  have "rd_boolean bs = Inr (x, rest) \<longleftrightarrow> (\<exists>v. bs = [v] @ rest \<and> \<not> 1 < v \<and> x = (v = 1))"
    unfolding rd_boolean_def codec_simps put_u8_def by fastforce
  then show "rd_boolean bs = Inr (x, rest) \<longleftrightarrow> (\<exists>b. bs = b @ rest \<and> put_bool x = Inr b \<and> True)"
    unfolding u8_not_greater_one bool_byte put_bool_def by simp
qed (simp add: put_bool_def)

interpretation c_double: codec put_double rd_dbl d_isfinite
proof unfold_locales
  fix bs rest x
  show "rd_dbl bs = Inr (x, rest) \<longleftrightarrow> (\<exists>b. bs = b @ rest \<and> put_double x = Inr b \<and> d_isfinite x)"
    by (simp add: rd_dbl_def put_double_def codec_simps)
qed (simp add: put_double_def put_u64_def)

lemma char_byte_inverse [simp]:
  "char_of (unat (of_nat (of_char c) :: u8)) = c"
  "of_nat (of_char (char_of (unat w))) = (w :: u8)"
proof -
  have "(of_char c :: nat) < 256" by simp
  then show "char_of (unat (of_nat (of_char c) :: u8)) = c" by (simp add: unat_of_nat)
  have "unat w < 256" using unsigned_less [of w] by simp
  then show "of_nat (of_char (char_of (unat w))) = (w :: u8)" by (simp add: of_char_of)
qed

lemma unat_kMax [simp]: "unat kMaxString = 4194304" "unat kMaxCount = 4194304"
  by (simp_all add: kMaxString_def kMaxCount_def)

lemma small_count:
  assumes "n \<le> 4194304"
  shows "unat (of_nat n :: u32) = n" "\<not> kMaxCount < of_nat n" "\<not> kMaxString < of_nat n"
proof -
  show n: "unat (of_nat n :: u32) = n" using assms by (simp add: unat_of_nat)
  show "\<not> kMaxCount < of_nat n" "\<not> kMaxString < of_nat n"
    using assms n by (simp_all add: word_less_nat_alt)
qed

interpretation c_string: codec put_string rd_str "\<lambda>s. length s \<le> 4194304"
proof unfold_locales
  fix bs rest x
  have "rd_str bs = Inr (x, rest) \<longleftrightarrow>
     (\<exists>len w. \<not> kMaxString < len \<and> length w = unat len \<and> x = map (\<lambda>w. char_of (unat w)) w \<and>
        bs = le_bytes 4 len @ w @ rest)" (is "_ \<longleftrightarrow> ?R")
    by (auto simp: rd_str_def put_u32_def codec_simps)
  also have "?R \<longleftrightarrow> length x \<le> 4194304 \<and>
     bs = le_bytes 4 (of_nat (length x) :: u32) @ map (\<lambda>c. of_nat (of_char c)) x @ rest" (is "_ \<longleftrightarrow> ?S")
  proof
    assume ?R
    then obtain len w where w: "\<not> kMaxString < len" "length w = unat len"
      "x = map (\<lambda>w. char_of (unat w)) w" "bs = le_bytes 4 len @ w @ rest" by blast
    then have "unat len \<le> 4194304" by (simp add: word_less_nat_alt)
    then have "length x \<le> 4194304" "of_nat (length x) = len" using w by simp_all
    moreover have "map (\<lambda>c. of_nat (of_char c)) x = w"
      unfolding w(3) map_map comp_def char_byte_inverse by simp
    ultimately show ?S using w(4) by simp
  next
    assume S: ?S
    then show ?R
      using small_count [of "length x"]
      by (intro exI [of _ "of_nat (length x)"] exI [of _ "map (\<lambda>c. of_nat (of_char c)) x"])
        (simp add: comp_def)
  qed
  finally show "rd_str bs = Inr (x, rest) \<longleftrightarrow>
      (\<exists>b. bs = b @ rest \<and> put_string x = Inr b \<and> length x \<le> 4194304)"
    by (auto simp: put_string_def put_u32_def)
qed (simp add: put_string_def put_u32_def)

context byte_enum
begin

lemma codec_enum: "codec (put_enum vals) (rd_enum vals msg) (\<lambda>_. True)"
proof unfold_locales
  fix bs rest x
  show "rd_enum vals msg bs = Inr (x, rest) \<longleftrightarrow> (\<exists>b. bs = b @ rest \<and> put_enum vals x = Inr b \<and> True)"
    by (simp add: rd_enum_def put_enum_def put_u8_def codec_simps enum_of_byte_Some_iff)
qed (simp add: put_enum_def put_u8_def)

end

interpretation c_id: codec "put_id :: 't Id writer" dec_id "\<lambda>_. True"
proof unfold_locales
  fix bs rest and x :: "'t Id"
  show "dec_id bs = Inr (x, rest) \<longleftrightarrow> (\<exists>b. bs = b @ rest \<and> put_id x = Inr b \<and> True)"
    by (cases x) (auto simp: dec_id_def put_id_def codec_simps)
qed (simp add: put_id_def put_u64_def)

interpretation c_gen: codec "put_gen :: 't Gen writer" dec_gen "\<lambda>_. True"
proof unfold_locales
  fix bs rest and x :: "'t Gen"
  show "dec_gen bs = Inr (x, rest) \<longleftrightarrow> (\<exists>b. bs = b @ rest \<and> put_gen x = Inr b \<and> True)"
    by (cases x) (auto simp: dec_gen_def put_gen_def codec_simps)
qed (simp add: put_gen_def put_u64_def)

lemmas codec_prims [codec_simps] = c_bool.exact c_double.exact c_string.exact c_id.exact c_gen.exact

lemma rd_opt_step:
  "(if \<not> b then rd_return None else rd_bind d (\<lambda>x. rd_return (Some x))) bs = Inr (v, rest) \<longleftrightarrow>
     (b = (v \<noteq> None) \<and> (case v of None \<Rightarrow> bs = rest | Some x \<Rightarrow> d bs = Inr (x, rest)))"
  by (cases v) (auto simp: rd_return_def rd_bind_Inr)

lemma codec_opt:
  assumes "codec enc dec valid"
  shows "codec (put_opt enc) (rd_opt dec) (pred_option valid)"
proof -
  note ex = codec.exact [OF assms] and tot = codec.total [OF assms]
  show ?thesis
  proof unfold_locales
    fix bs rest x
    show "rd_opt dec bs = Inr (x, rest) \<longleftrightarrow>
        (\<exists>b. bs = b @ rest \<and> put_opt enc x = Inr b \<and> pred_option valid x)"
      by (cases x; simp add: rd_opt_def put_opt_def rd_opt_step put_bool_def codec_simps ex ex_bool_eq
            del: cat.simps)
        (metis append_Cons)
  next
    fix x assume "pred_option valid x"
    then show "\<exists>b. put_opt enc x = Inr b"
      using tot by (cases x) (auto simp: put_opt_def put_bool_def exn_simps)
  qed
qed

lemma cat_map_total:
  assumes "codec enc dec valid" and "list_all valid xs"
  shows "\<exists>b. cat (map enc xs) = Inr b"
  using assms(2) codec.total [OF assms(1)] by (induction xs) (auto simp: exn_simps)

lemma rd_times_exact:
  assumes "codec enc dec valid"
  shows "rd_times n dec bs = Inr (xs, rest) \<longleftrightarrow>
     length xs = n \<and> list_all valid xs \<and> (\<exists>b. bs = b @ rest \<and> cat (map enc xs) = Inr b)"
proof (induction n arbitrary: bs xs)
  case (Suc n)
  then show ?case
    by (cases xs) (auto simp: codec_simps codec.exact [OF assms] simp del: cat.simps)
qed (auto simp: codec_simps simp del: cat.simps)

lemma codec_vec:
  assumes "codec enc dec valid"
  shows "codec (put_vec enc) (rd_vec dec) (\<lambda>xs. length xs \<le> 4194304 \<and> list_all valid xs)"
proof unfold_locales
  fix bs rest xs
  have "rd_vec dec bs = Inr (xs, rest) \<longleftrightarrow>
     (\<exists>c b. \<not> kMaxCount < c \<and> unat c = length xs \<and> list_all valid xs \<and>
        bs = le_bytes 4 c @ b @ rest \<and> cat (map enc xs) = Inr b)" (is "_ \<longleftrightarrow> ?R")
    by (simp add: rd_vec_def rd_count_def put_u32_def codec_simps rd_times_exact [OF assms]
        del: cat.simps) metis
  also have "?R \<longleftrightarrow> length xs \<le> 4194304 \<and> list_all valid xs \<and>
     (\<exists>b. bs = le_bytes 4 (of_nat (length xs) :: u32) @ b @ rest \<and> cat (map enc xs) = Inr b)" (is "_ \<longleftrightarrow> ?S")
  proof
    assume ?R
    then obtain c b where c: "\<not> kMaxCount < c" "unat c = length xs" "list_all valid xs"
      "bs = le_bytes 4 c @ b @ rest" "cat (map enc xs) = Inr b" by blast
    from c(1,2) have "length xs \<le> 4194304" by (simp add: word_less_nat_alt)
    moreover have "c = of_nat (length xs)" using c(2) by (simp flip: c(2))
    ultimately show ?S using c by blast
  next
    assume ?S then show ?R using small_count [of "length xs"] by metis
  qed
  finally show "rd_vec dec bs = Inr (xs, rest) \<longleftrightarrow>
     (\<exists>b. bs = b @ rest \<and> put_vec enc xs = Inr b \<and> length xs \<le> 4194304 \<and> list_all valid xs)"
    by (auto simp: put_vec_def put_u32_def codec_simps simp del: cat.simps)
next
  fix xs assume "length xs \<le> 4194304 \<and> list_all valid xs"
  then show "\<exists>b. put_vec enc xs = Inr b"
    using cat_map_total [OF assms, of xs] by (auto simp: put_vec_def put_u32_def)
qed

end
