(* ===== verification/Persistence.thy ===== *)
theory Persistence
  imports Codec Plans
begin

text \<open>
  \<^verbatim>\<open>persistence.cpp\<close>: the durable form of a snapshot. Each \<open>enc_\<close> and \<open>dec_\<close> function of the
  source has its definition, \<open>encode\<close> and \<open>decode\<close> add the header, the FNV-1a checksum and the
  semantic validation, and \<open>save_file\<close> and \<open>load_file\<close> work on an explicit file system. Every
  pair of functions interprets the locale \<open>codec\<close>.

  Two constructor calls (\<open>dec_epoch\<close> and the epoch of \<open>dec_route\<close>) read their three arguments
  from the reader inside one argument list. C++ leaves the order of these reads to the
  compiler, so the readers take it as an argument.
\<close>

section \<open>Records\<close>

datatype eval_order = LeftToRight | RightToLeft

definition enc_ts :: "Timestamp writer" where
  "enc_ts t = cat [put_u64 (ts_wall_ns t), put_u64 (ts_seq t)]"

definition dec_ts :: "Timestamp reader" where
  "dec_ts = rd_bind rd_u64 (\<lambda>w. rd_bind rd_u64 (\<lambda>q. rd_return \<lparr>ts_wall_ns = w, ts_seq = q\<rparr>))"

definition enc_slotkey :: "ServiceSlotKey writer" where
  "enc_slotkey s = cat [put_id (sk_service s), put_id (sk_slot s)]"

definition dec_slotkey :: "ServiceSlotKey reader" where
  "dec_slotkey = rd_bind dec_id (\<lambda>a. rd_bind dec_id (\<lambda>b. rd_return (SlotKey a b)))"

definition enc_compat :: "CompatibilityRequirement writer" where
  "enc_compat c = cat [put_string (compat_model_key c), put_string (compat_runtime_abi c),
     put_opt put_id (compat_readiness_profile c), put_vec put_id (compat_dependencies c),
     put_vec put_id (compat_required_capabilities c)]"

definition dec_compat :: "CompatibilityRequirement reader" where
  "dec_compat =
     rd_bind rd_str (\<lambda>model. rd_bind rd_str (\<lambda>abi. rd_bind (rd_opt dec_id) (\<lambda>prof.
     rd_bind (rd_vec dec_id) (\<lambda>deps. rd_bind (rd_vec dec_id) (\<lambda>caps.
     rd_return \<lparr>compat_model_key = model, compat_runtime_abi = abi, compat_readiness_profile = prof,
       compat_dependencies = deps, compat_required_capabilities = caps\<rparr>)))))"

definition enc_domreq :: "DomainRequirement writer" where
  "enc_domreq d = cat [put_bool (dreq_require_domain_independence d), put_u32 (dreq_min_distinct_hosts d),
     put_u32 (dreq_min_distinct_devices d),
     put_vec (put_enum DomainClass_values) (dreq_forbidden_overlap_classes d)]"

definition dec_domreq :: "DomainRequirement reader" where
  "dec_domreq =
     rd_bind rd_boolean (\<lambda>ind. rd_bind rd_u32 (\<lambda>hosts. rd_bind rd_u32 (\<lambda>devs.
     rd_bind (rd_vec (rd_enum DomainClass_values ''invalid DomainClass'')) (\<lambda>cls.
     rd_return \<lparr>dreq_require_domain_independence = ind, dreq_min_distinct_hosts = hosts,
       dreq_min_distinct_devices = devs, dreq_forbidden_overlap_classes = cls\<rparr>))))"

definition enc_resreq :: "ResourceRequirement writer" where
  "enc_resreq r = cat [put_string (rreq_resource_class r), put_double (rreq_amount r),
     put_bool (rreq_exactly_one_target r)]"

definition dec_resreq :: "ResourceRequirement reader" where
  "dec_resreq =
     rd_bind rd_str (\<lambda>c. rd_bind rd_dbl (\<lambda>a. rd_bind rd_boolean (\<lambda>x.
     rd_return \<lparr>rreq_resource_class = c, rreq_amount = a, rreq_exactly_one_target = x\<rparr>)))"

definition enc_reco :: "RecoveryObjective writer" where
  "enc_reco r = cat [put_u64 (obj_rto_ms r), put_enum RtoAnchor_values (obj_rto_anchor r),
     put_enum ContinuityClass_values (obj_continuity r), put_u64 (obj_max_state_loss_sequences r),
     put_opt put_gen (obj_min_checkpoint_gen r), put_bool (obj_requires_verified_recovery r)]"

definition dec_reco :: "RecoveryObjective reader" where
  "dec_reco =
     rd_bind rd_u64 (\<lambda>rto. rd_bind (rd_enum RtoAnchor_values ''invalid RtoAnchor'') (\<lambda>anchor.
     rd_bind (rd_enum ContinuityClass_values ''invalid ContinuityClass'') (\<lambda>cont.
     rd_bind rd_u64 (\<lambda>loss. rd_bind (rd_opt dec_gen) (\<lambda>ckpt. rd_bind rd_boolean (\<lambda>verified.
     rd_return \<lparr>obj_rto_ms = rto, obj_rto_anchor = anchor, obj_continuity = cont,
       obj_max_state_loss_sequences = loss, obj_min_checkpoint_gen = ckpt,
       obj_requires_verified_recovery = verified\<rparr>))))))"

definition enc_afp :: "AntiFlappingPolicy writer" where
  "enc_afp p = cat [put_u32 (afp_max_auto_attempts p), put_u32 (afp_cooldown_ms p),
     put_u32 (afp_hysteresis_ms p), put_bool (afp_manual_intervention_required p)]"

definition dec_afp :: "AntiFlappingPolicy reader" where
  "dec_afp =
     rd_bind rd_u32 (\<lambda>a. rd_bind rd_u32 (\<lambda>c. rd_bind rd_u32 (\<lambda>h. rd_bind rd_boolean (\<lambda>m.
     rd_return \<lparr>afp_max_auto_attempts = a, afp_cooldown_ms = c, afp_hysteresis_ms = h,
       afp_manual_intervention_required = m\<rparr>))))"

definition enc_svc :: "ServiceDefinition writer" where
  "enc_svc s = cat [put_id (sd_service s), put_gen (sd_generation s), put_gen (sd_config_generation s),
     put_string (sd_name s), put_enum ServingRole_values (sd_role s), put_u32 (srng_first (sd_slots s)),
     put_u32 (srng_count (sd_slots s)), enc_compat (sd_compatibility s),
     enc_domreq (sd_domain_requirement s), put_vec enc_resreq (sd_resources s),
     enc_reco (sd_recovery s), put_enum FailbackPolicy_values (sd_failback s),
     enc_afp (sd_anti_flapping s), put_vec put_id (sd_required_state s),
     put_enum Provenance_values (sd_provenance s), put_gen (sd_policy_generation s)]"

definition dec_svc :: "ServiceDefinition reader" where
  "dec_svc =
     rd_bind dec_id (\<lambda>svc. rd_bind dec_gen (\<lambda>gen. rd_bind dec_gen (\<lambda>cgen. rd_bind rd_str (\<lambda>name.
     rd_bind (rd_enum ServingRole_values ''invalid ServingRole'') (\<lambda>role.
     rd_bind rd_u32 (\<lambda>first. rd_bind rd_u32 (\<lambda>count.
     rd_bind dec_compat (\<lambda>compat. rd_bind dec_domreq (\<lambda>domreq. rd_bind (rd_vec dec_resreq) (\<lambda>res.
     rd_bind dec_reco (\<lambda>reco. rd_bind (rd_enum FailbackPolicy_values ''invalid FailbackPolicy'') (\<lambda>fb.
     rd_bind dec_afp (\<lambda>afp. rd_bind (rd_vec dec_id) (\<lambda>states.
     rd_bind (rd_enum Provenance_values ''invalid Provenance'') (\<lambda>prov. rd_bind dec_gen (\<lambda>pgen.
     rd_return \<lparr>sd_service = svc, sd_generation = gen, sd_config_generation = cgen, sd_name = name,
       sd_role = role, sd_slots = \<lparr>srng_first = first, srng_count = count\<rparr>, sd_compatibility = compat,
       sd_domain_requirement = domreq, sd_resources = res, sd_recovery = reco, sd_failback = fb,
       sd_anti_flapping = afp, sd_required_state = states, sd_provenance = prov,
       sd_policy_generation = pgen\<rparr>))))))))))))))))"

definition enc_assign :: "Assignment writer" where
  "enc_assign a = cat [put_id (asg_id a), put_gen (asg_generation a), enc_slotkey (asg_slot a),
     put_id (asg_target a), put_gen (asg_target_generation a), put_id (asg_replica a),
     put_gen (asg_replica_generation a), put_id (asg_engine a), put_id (asg_engine_incarnation a),
     put_id (asg_readiness_profile a), put_gen (asg_authority_generation a), put_id (asg_activation a),
     put_gen (asg_activation_generation a), put_id (asg_route a), put_gen (asg_route_generation a),
     put_id (asg_worker_boot a), put_vec put_id (asg_resource_claims a),
     put_vec put_id (asg_continuity_state a), put_enum AssignmentState_values (asg_state a),
     put_bool (asg_provisory a), put_enum Provenance_values (asg_provenance a)]"

definition dec_assign :: "Assignment reader" where
  "dec_assign =
     rd_bind dec_id (\<lambda>ident. rd_bind dec_gen (\<lambda>gen. rd_bind dec_slotkey (\<lambda>slot.
     rd_bind dec_id (\<lambda>target. rd_bind dec_gen (\<lambda>tgen. rd_bind dec_id (\<lambda>replica. rd_bind dec_gen (\<lambda>rgen.
     rd_bind dec_id (\<lambda>engine. rd_bind dec_id (\<lambda>incarnation. rd_bind dec_id (\<lambda>profile.
     rd_bind dec_gen (\<lambda>authority. rd_bind dec_id (\<lambda>activation. rd_bind dec_gen (\<lambda>agen.
     rd_bind dec_id (\<lambda>route. rd_bind dec_gen (\<lambda>rtgen. rd_bind dec_id (\<lambda>boot.
     rd_bind (rd_vec dec_id) (\<lambda>claims. rd_bind (rd_vec dec_id) (\<lambda>states.
     rd_bind (rd_enum AssignmentState_values ''invalid AssignmentState'') (\<lambda>st.
     rd_bind rd_boolean (\<lambda>prov. rd_bind (rd_enum Provenance_values ''invalid Provenance'') (\<lambda>pv.
     rd_return \<lparr>asg_id = ident, asg_generation = gen, asg_slot = slot, asg_target = target,
       asg_target_generation = tgen, asg_replica = replica, asg_replica_generation = rgen,
       asg_engine = engine, asg_engine_incarnation = incarnation, asg_readiness_profile = profile,
       asg_authority_generation = authority, asg_activation = activation,
       asg_activation_generation = agen, asg_route = route, asg_route_generation = rtgen,
       asg_worker_boot = boot, asg_resource_claims = claims, asg_continuity_state = states,
       asg_state = st, asg_provisory = prov, asg_provenance = pv\<rparr>)))))))))))))))))))))"

definition enc_domdecl :: "DomainDecl writer" where
  "enc_domdecl d = cat [put_id (dd_id d), put_gen (dd_generation d), put_enum DomainClass_values (dd_cls d),
     put_string (dd_name d), put_opt put_id (dd_parent d), put_enum Provenance_values (dd_provenance d)]"

definition dec_domdecl :: "DomainDecl reader" where
  "dec_domdecl =
     rd_bind dec_id (\<lambda>i. rd_bind dec_gen (\<lambda>g.
     rd_bind (rd_enum DomainClass_values ''invalid DomainClass'') (\<lambda>c. rd_bind rd_str (\<lambda>n.
     rd_bind (rd_opt dec_id) (\<lambda>par. rd_bind (rd_enum Provenance_values ''invalid Provenance'') (\<lambda>pv.
     rd_return \<lparr>dd_id = i, dd_generation = g, dd_cls = c, dd_name = n, dd_parent = par,
       dd_provenance = pv\<rparr>))))))"

definition enc_memb :: "DomainMembership writer" where
  "enc_memb m = cat [put_id (dm_target m), put_id (dm_domain m), put_bool (dm_known m)]"

definition dec_memb :: "DomainMembership reader" where
  "dec_memb =
     rd_bind dec_id (\<lambda>t. rd_bind dec_id (\<lambda>d. rd_bind rd_boolean (\<lambda>k.
     rd_return \<lparr>dm_target = t, dm_domain = d, dm_known = k\<rparr>)))"

definition enc_ev :: "FailureEvent writer" where
  "enc_ev e = cat [put_id (ev_event_id e), put_gen (ev_generation e), put_id (ev_source e),
     put_id (ev_source_boot e), put_enum FailureCategory_values (ev_category e),
     put_enum EvidenceStatus_values (ev_status e), put_enum Provenance_values (ev_provenance e),
     put_enum Severity_values (ev_severity e), put_double (ev_confidence e),
     put_opt put_id (ev_target e), put_opt put_gen (ev_target_generation e), put_opt put_id (ev_domain e),
     enc_ts (ev_observed e), enc_ts (ev_received e), put_string (ev_mechanism e), put_string (ev_detail e),
     put_vec put_id (ev_affected_domains e), put_bool (ev_revalidates_existing e)]"

definition dec_ev :: "FailureEvent reader" where
  "dec_ev =
     rd_bind dec_id (\<lambda>ident. rd_bind dec_gen (\<lambda>gen. rd_bind dec_id (\<lambda>src. rd_bind dec_id (\<lambda>boot.
     rd_bind (rd_enum FailureCategory_values ''invalid FailureCategory'') (\<lambda>cat.
     rd_bind (rd_enum EvidenceStatus_values ''invalid EvidenceStatus'') (\<lambda>st.
     rd_bind (rd_enum Provenance_values ''invalid Provenance'') (\<lambda>pv.
     rd_bind (rd_enum Severity_values ''invalid Severity'') (\<lambda>sev. rd_bind rd_dbl (\<lambda>conf.
     rd_bind (rd_opt dec_id) (\<lambda>target. rd_bind (rd_opt dec_gen) (\<lambda>tgen. rd_bind (rd_opt dec_id) (\<lambda>dm.
     rd_bind dec_ts (\<lambda>observed. rd_bind dec_ts (\<lambda>received. rd_bind rd_str (\<lambda>mech. rd_bind rd_str (\<lambda>det.
     rd_bind (rd_vec dec_id) (\<lambda>affected. rd_bind rd_boolean (\<lambda>reval.
     rd_return \<lparr>ev_event_id = ident, ev_generation = gen, ev_source = src, ev_source_boot = boot,
       ev_category = cat, ev_status = st, ev_provenance = pv, ev_severity = sev, ev_confidence = conf,
       ev_target = target, ev_target_generation = tgen, ev_domain = dm, ev_observed = observed,
       ev_received = received, ev_mechanism = mech, ev_detail = det, ev_affected_domains = affected,
       ev_revalidates_existing = reval\<rparr>))))))))))))))))))"

definition enc_epoch :: "CoordinatorEpoch writer" where
  "enc_epoch e = cat [put_u64 (ep_epoch e), put_id (ep_id e), put_id (ep_boot e)]"

definition dec_epoch :: "eval_order \<Rightarrow> CoordinatorEpoch reader" where
  "dec_epoch ord = (case ord of
       LeftToRight \<Rightarrow> rd_bind rd_u64 (\<lambda>e. rd_bind dec_id (\<lambda>i. rd_bind dec_id (\<lambda>b.
         rd_return \<lparr>ep_epoch = e, ep_id = i, ep_boot = b\<rparr>)))
     | RightToLeft \<Rightarrow> rd_bind dec_id (\<lambda>b. rd_bind dec_id (\<lambda>i. rd_bind rd_u64 (\<lambda>e.
         rd_return \<lparr>ep_epoch = e, ep_id = i, ep_boot = b\<rparr>))))"

definition enc_route :: "RouteEntry writer" where
  "enc_route e = cat [put_id (re_route e), put_gen (re_generation e), enc_slotkey (re_slot e),
     put_id (re_target e), put_gen (re_target_generation e), put_id (re_incarnation e),
     put_id (re_permitted_boot e), put_id (re_assignment e), put_gen (re_assignment_generation e),
     put_u64 (ep_epoch (re_epoch e)), put_id (ep_id (re_epoch e)), put_id (ep_boot (re_epoch e)),
     put_id (re_gateway_boot e), put_enum RouteState_values (re_state e), put_string (re_transport e),
     put_enum Provenance_values (re_provenance e)]"

definition dec_route :: "eval_order \<Rightarrow> RouteEntry reader" where
  "dec_route ord =
     rd_bind dec_id (\<lambda>route. rd_bind dec_gen (\<lambda>gen. rd_bind dec_slotkey (\<lambda>slot. rd_bind dec_id (\<lambda>target.
     rd_bind dec_gen (\<lambda>tgen. rd_bind dec_id (\<lambda>inc. rd_bind dec_id (\<lambda>boot. rd_bind dec_id (\<lambda>asg.
     rd_bind dec_gen (\<lambda>agen. rd_bind (dec_epoch ord) (\<lambda>epoch. rd_bind dec_id (\<lambda>gw.
     rd_bind (rd_enum RouteState_values ''invalid RouteState'') (\<lambda>st. rd_bind rd_str (\<lambda>transport.
     rd_bind (rd_enum Provenance_values ''invalid Provenance'') (\<lambda>pv.
     rd_return \<lparr>re_route = route, re_generation = gen, re_slot = slot, re_target = target,
       re_target_generation = tgen, re_incarnation = inc, re_permitted_boot = boot,
       re_assignment = asg, re_assignment_generation = agen, re_epoch = epoch, re_state = st,
       re_gateway_boot = gw, re_transport = transport, re_provenance = pv\<rparr>))))))))))))))"

section \<open>The blob\<close>

definition fnv1a :: "bytes \<Rightarrow> u64" where
  "fnv1a bs = foldl (\<lambda>h b. xor h (ucast b) * 1099511628211) 1469598103934665603 bs"

definition kMagic :: bytes where
  "kMagic = [0x46, 0x46, 0x52, 0x53, 0x54, 0x30, 0x30, 0x31]"

definition kVersion :: u32 where
  "kVersion = 2"

definition kMaxBlob :: u64 where
  "kMaxBlob = push_bit 30 1"

definition enc_txn :: "PersistenceSnapshot writer" where
  "enc_txn s = cat (put_bool (ps_has_txn s) #
     (if ps_has_txn s
      then [put_enum Milestone_values (ps_txn_milestone s), put_opt enc_assign (ps_pending_assignment s),
            put_opt enc_assign (ps_source_assignment s), put_opt enc_route (ps_pending_route s)]
      else []))"

definition enc_payload :: "PersistenceSnapshot writer" where
  "enc_payload s = cat [put_u32 (ps_format_version s), enc_epoch (ps_epoch s),
     put_gen (ps_policy_generation s), put_gen (ps_last_authority_gen s),
     put_vec enc_svc (ps_services s), put_vec enc_assign (ps_assignments s),
     put_vec enc_domdecl (ps_domains s), put_vec enc_memb (ps_memberships s),
     put_vec enc_ev (ps_evidence s), put_vec enc_route (ps_routes s),
     put_vec put_id (ps_fenced_boots s), enc_txn s]"

definition encode :: "PersistenceSnapshot writer" where
  "encode s =
     bindE (guardE (ps_format_version s = kVersion) (RuntimeError ''unsupported format version'')) (\<lambda>_.
     bindE (enc_payload s) (\<lambda>payload.
     bindE (cat [Inr kMagic, put_u32 kVersion, put_u64 (of_nat (length payload)), Inr payload]) (\<lambda>blob.
     cat [Inr blob, put_u64 (fnv1a blob)])))"

text \<open>The transaction record; without one its fields keep the defaults of the struct.\<close>

type_synonym txn_record = "Milestone \<times> Assignment option \<times> Assignment option \<times> RouteEntry option"

definition dec_txn_record :: "eval_order \<Rightarrow> txn_record reader" where
  "dec_txn_record ord =
     rd_bind (rd_enum Milestone_values ''invalid Milestone'') (\<lambda>ms.
     rd_bind (rd_opt dec_assign) (\<lambda>pending. rd_bind (rd_opt dec_assign) (\<lambda>src.
     rd_bind (rd_opt (dec_route ord)) (\<lambda>route.
     if pending \<noteq> None \<and> map_option asg_state pending \<noteq> Some AssignmentState.AUTHORIZED
     then rd_throw ''pending assignment must be authorized''
     else rd_return (ms, pending, src, route)))))"

definition dec_txn :: "eval_order \<Rightarrow> (bool \<times> txn_record) reader" where
  "dec_txn ord =
     rd_bind rd_boolean (\<lambda>has.
       if has then rd_bind (dec_txn_record ord) (\<lambda>t. rd_return (True, t))
       else rd_return (False, Milestone.VERIFICATION_COMPLETE, None, None, None))"

definition dec_payload :: "eval_order \<Rightarrow> PersistenceSnapshot reader" where
  "dec_payload ord =
     rd_bind rd_u32 (\<lambda>ver.
     if ver \<noteq> kVersion then rd_throw ''unsupported snapshot format_version''
     else
     rd_bind (dec_epoch ord) (\<lambda>epoch. rd_bind dec_gen (\<lambda>policy. rd_bind dec_gen (\<lambda>authority.
     rd_bind (rd_vec dec_svc) (\<lambda>svcs. rd_bind (rd_vec dec_assign) (\<lambda>asgs.
     rd_bind (rd_vec dec_domdecl) (\<lambda>doms. rd_bind (rd_vec dec_memb) (\<lambda>mems.
     rd_bind (rd_vec dec_ev) (\<lambda>evs. rd_bind (rd_vec (dec_route ord)) (\<lambda>routes.
     rd_bind (rd_vec dec_id) (\<lambda>boots. rd_bind (dec_txn ord) (\<lambda>(has, ms, pending, src, route).
     rd_return \<lparr>ps_format_version = ver, ps_epoch = epoch, ps_policy_generation = policy,
       ps_last_authority_gen = authority, ps_services = svcs, ps_assignments = asgs,
       ps_domains = doms, ps_memberships = mems, ps_evidence = evs, ps_routes = routes,
       ps_fenced_boots = boots, ps_has_txn = has, ps_txn_milestone = ms,
       ps_pending_assignment = pending, ps_source_assignment = src, ps_pending_route = route\<rparr>))))))))))))"

text \<open>The loops of the semantic validation.\<close>

fun check_assignments :: "ServiceId set \<Rightarrow> ServiceSlotKey set \<Rightarrow> Assignment list \<Rightarrow> unit result" where
  "check_assignments svc_ids seen_active [] = Inr ()"
| "check_assignments svc_ids seen_active (a # as) =
     (if sk_service (asg_slot a) \<notin> svc_ids
      then Inl (RuntimeError ''assignment references unknown service'')
      else if asg_state a = AssignmentState.ACTIVE \<and> asg_slot a \<in> seen_active
      then Inl (RuntimeError ''duplicate exclusive active assignment'')
      else if gen_is_null (asg_authority_generation a)
      then Inl (RuntimeError ''null authority generation'')
      else check_assignments svc_ids
             (if asg_state a = AssignmentState.ACTIVE then insert (asg_slot a) seen_active else seen_active) as)"

definition check_semantics :: "PersistenceSnapshot \<Rightarrow> unit result" where
  "check_semantics s =
     bindE (guardE (distinct (map sd_service (ps_services s))) (RuntimeError ''duplicate service identity'')) (\<lambda>_.
     bindE (guardE (list_all (\<lambda>d. srng_count (sd_slots d) \<noteq> 0) (ps_services s))
              (RuntimeError ''service has zero slots'')) (\<lambda>_.
     check_assignments (set (map sd_service (ps_services s))) {} (ps_assignments s)))"

definition decode :: "eval_order \<Rightarrow> bytes \<Rightarrow> PersistenceSnapshot result" where
  "decode ord blob =
     bindE (guardE (8 + 4 + 8 + 8 + 8 \<le> length blob) (RuntimeError ''persistence blob too short'')) (\<lambda>_.
     bindE (guardE (take 8 blob = kMagic) (RuntimeError ''bad persistence magic'')) (\<lambda>_.
     bindE (rd_u32 (drop 8 blob)) (\<lambda>(ver, hdr).
     bindE (guardE (ver = kVersion) (RuntimeError ''unsupported persistence version'')) (\<lambda>_.
     bindE (rd_u64 hdr) (\<lambda>(plen, _).
     bindE (guardE (plen \<le> kMaxBlob) (RuntimeError ''persistence payload too large'')) (\<lambda>_.
     bindE (guardE (20 + unat plen + 8 = length blob) (RuntimeError ''persistence length mismatch'')) (\<lambda>_.
     bindE (guardE (fnv1a (take (20 + unat plen) blob) = le_word (take 8 (drop (20 + unat plen) blob)))
              (RuntimeError ''persistence checksum mismatch'')) (\<lambda>_.
     bindE (dec_payload ord (take (unat plen) (drop 20 blob))) (\<lambda>(s, rest).
     bindE (guardE (rest = []) (RuntimeError ''trailing garbage in persistence payload'')) (\<lambda>_.
     bindE (check_semantics s) (\<lambda>_. Inr s)))))))))))"

definition what :: "exn \<Rightarrow> string" where
  "what e = (case e of GenerationExhausted m \<Rightarrow> m | CapacityExceeded m \<Rightarrow> m | InvalidArgument m \<Rightarrow> m
     | LogicError m \<Rightarrow> m | RuntimeError m \<Rightarrow> m | ProtocolError m \<Rightarrow> m)"

definition validate :: "eval_order \<Rightarrow> bytes \<Rightarrow> string list" where
  "validate ord blob = (case decode ord blob of Inl e \<Rightarrow> [what e] | Inr _ \<Rightarrow> [])"

section \<open>Files\<close>

text \<open>
  The file system maps paths to contents. What the operating system does to a call (whether a
  file opens, how much of a write reaches the disk, whether \<open>remove\<close> and \<open>rename\<close> succeed) is an
  argument of the operations.
\<close>

type_synonym files = "string \<rightharpoonup> bytes"

record WriteOutcome =
  io_open_ok :: bool
  io_short_write :: "nat option"
  io_remove_ok :: bool
  io_rename_ok :: bool

datatype ReadOutcome = ReadComplete | OpenFailed | StatFailed | ShortRead

definition tmp_path :: "string \<Rightarrow> string" where
  "tmp_path path = path @ ''.tmp''"

definition save_file :: "WriteOutcome \<Rightarrow> files \<Rightarrow> string \<Rightarrow> PersistenceSnapshot \<Rightarrow> files \<times> unit result" where
  "save_file io fs path s =
     (case encode s of
        Inl e \<Rightarrow> (fs, Inl e)
      | Inr blob \<Rightarrow>
          if \<not> io_open_ok io
          then (fs, Inl (RuntimeError (''cannot open persistence file for write: '' @ path)))
          else (case io_short_write io of
              Some n \<Rightarrow> (fs(tmp_path path \<mapsto> take n blob), Inl (RuntimeError ''persistence write failed''))
            | None \<Rightarrow>
                (let fs1 = fs(tmp_path path \<mapsto> blob);
                     fs2 = (if io_remove_ok io then fs1(path := None) else fs1)
                 in if \<not> io_rename_ok io then (fs2, Inl (RuntimeError ''persistence rename failed''))
                    else (fs2(path \<mapsto> blob, tmp_path path := None), Inr ()))))"

definition load_file :: "ReadOutcome \<Rightarrow> eval_order \<Rightarrow> files \<Rightarrow> string \<Rightarrow> PersistenceSnapshot result" where
  "load_file io ord fs path =
     (case fs path of
        None \<Rightarrow> Inl (RuntimeError (''cannot open persistence file: '' @ path))
      | Some blob \<Rightarrow>
          (case io of
             OpenFailed \<Rightarrow> Inl (RuntimeError (''cannot open persistence file: '' @ path))
           | StatFailed \<Rightarrow> Inl (RuntimeError ''cannot stat persistence file'')
           | ShortRead \<Rightarrow> Inl (RuntimeError ''short read on persistence file'')
           | ReadComplete \<Rightarrow> decode ord blob))"

definition validate_file :: "ReadOutcome \<Rightarrow> eval_order \<Rightarrow> files \<Rightarrow> string \<Rightarrow> string list" where
  "validate_file io ord fs path =
     (case fs path of
        None \<Rightarrow> [''cannot open persistence file: '' @ path]
      | Some blob \<Rightarrow>
          (case io of
             OpenFailed \<Rightarrow> [''cannot open persistence file: '' @ path]
           | StatFailed \<Rightarrow> [''cannot stat persistence file'']
           | ShortRead \<Rightarrow> [''short read on persistence file'']
           | ReadComplete \<Rightarrow> validate ord blob))"

end
