(* ===== verification/Persistence_Props.thy ===== *)
theory Persistence_Props
  imports Persistence
begin

text \<open>
  The writers and readers of \<^verbatim>\<open>persistence.cpp\<close> against each other: each record's pair
  interprets the locale \<open>codec\<close>, and what that gives for whole blobs.
\<close>

section \<open>What each writer can represent\<close>

text \<open>The limit of the counts and of the string lengths is \<open>1 << 22\<close>.\<close>

definition fits :: "'a list \<Rightarrow> bool" where
  "fits xs \<longleftrightarrow> length xs \<le> 4194304"

definition valid_compat :: "CompatibilityRequirement \<Rightarrow> bool" where
  "valid_compat c \<longleftrightarrow> fits (compat_model_key c) \<and> fits (compat_runtime_abi c) \<and>
     fits (compat_dependencies c) \<and> fits (compat_required_capabilities c)"

definition valid_domreq :: "DomainRequirement \<Rightarrow> bool" where
  "valid_domreq d \<longleftrightarrow> fits (dreq_forbidden_overlap_classes d)"

definition valid_resreq :: "ResourceRequirement \<Rightarrow> bool" where
  "valid_resreq r \<longleftrightarrow> fits (rreq_resource_class r) \<and> d_isfinite (rreq_amount r)"

definition valid_svc :: "ServiceDefinition \<Rightarrow> bool" where
  "valid_svc s \<longleftrightarrow> fits (sd_name s) \<and> valid_compat (sd_compatibility s) \<and>
     valid_domreq (sd_domain_requirement s) \<and> fits (sd_resources s) \<and>
     list_all valid_resreq (sd_resources s) \<and> fits (sd_required_state s)"

definition valid_assign :: "Assignment \<Rightarrow> bool" where
  "valid_assign a \<longleftrightarrow> fits (asg_resource_claims a) \<and> fits (asg_continuity_state a)"

definition valid_domdecl :: "DomainDecl \<Rightarrow> bool" where
  "valid_domdecl d \<longleftrightarrow> fits (dd_name d)"

definition valid_ev :: "FailureEvent \<Rightarrow> bool" where
  "valid_ev e \<longleftrightarrow> d_isfinite (ev_confidence e) \<and> fits (ev_mechanism e) \<and> fits (ev_detail e) \<and>
     fits (ev_affected_domains e)"

definition valid_route :: "RouteEntry \<Rightarrow> bool" where
  "valid_route e \<longleftrightarrow> fits (re_transport e)"

section \<open>Record codecs\<close>

named_theorems total_simps

lemma codec_enums:
  "codec (put_enum DomainClass_values) (rd_enum DomainClass_values msg) (\<lambda>_. True)"
  "codec (put_enum RtoAnchor_values) (rd_enum RtoAnchor_values msg) (\<lambda>_. True)"
  "codec (put_enum ContinuityClass_values) (rd_enum ContinuityClass_values msg) (\<lambda>_. True)"
  "codec (put_enum ServingRole_values) (rd_enum ServingRole_values msg) (\<lambda>_. True)"
  "codec (put_enum FailbackPolicy_values) (rd_enum FailbackPolicy_values msg) (\<lambda>_. True)"
  "codec (put_enum Provenance_values) (rd_enum Provenance_values msg) (\<lambda>_. True)"
  "codec (put_enum AssignmentState_values) (rd_enum AssignmentState_values msg) (\<lambda>_. True)"
  "codec (put_enum FailureCategory_values) (rd_enum FailureCategory_values msg) (\<lambda>_. True)"
  "codec (put_enum EvidenceStatus_values) (rd_enum EvidenceStatus_values msg) (\<lambda>_. True)"
  "codec (put_enum Severity_values) (rd_enum Severity_values msg) (\<lambda>_. True)"
  "codec (put_enum RouteState_values) (rd_enum RouteState_values msg) (\<lambda>_. True)"
  "codec (put_enum Milestone_values) (rd_enum Milestone_values msg) (\<lambda>_. True)"
  by (rule DomainClass_bytes.codec_enum RtoAnchor_bytes.codec_enum ContinuityClass_bytes.codec_enum
      ServingRole_bytes.codec_enum FailbackPolicy_bytes.codec_enum Provenance_bytes.codec_enum
      AssignmentState_bytes.codec_enum FailureCategory_bytes.codec_enum EvidenceStatus_bytes.codec_enum
      Severity_bytes.codec_enum RouteState_bytes.codec_enum Milestone_bytes.codec_enum)+

lemmas exact_enums [codec_simps] = codec_enums [THEN codec.exact]

lemmas exact_containers [codec_simps] =
  codec_opt [OF c_id.codec_axioms, THEN codec.exact]
  codec_opt [OF c_gen.codec_axioms, THEN codec.exact]
  codec_vec [OF c_id.codec_axioms, THEN codec.exact]
  codec_vec [OF codec_enums(1), THEN codec.exact]

lemma put_total [total_simps]:
  "\<exists>b. put_u8 v8 = Inr b" "\<exists>b. put_u32 v32 = Inr b" "\<exists>b. put_u64 v64 = Inr b" "\<exists>b. put_bool v = Inr b"
  "\<exists>b. put_id i = Inr b" "\<exists>b. put_gen g = Inr b" "\<exists>b. put_enum vals x = Inr b"
  by (simp_all add: put_u8_def put_u32_def put_u64_def put_bool_def put_id_def put_gen_def put_enum_def)

lemma cat_total [total_simps]:
  "(\<exists>b. cat (r # rs) = Inr b) \<longleftrightarrow> (\<exists>b. r = Inr b) \<and> (\<exists>b. cat rs = Inr b)"
  "\<exists>b. cat [] = Inr b"
  by (auto simp: exn_simps)

lemma put_string_total [total_simps]: "(\<exists>b. put_string s = Inr b) \<longleftrightarrow> fits s"
  by (auto simp: put_string_def put_u32_def fits_def)

lemma put_double_total [total_simps]: "(\<exists>b. put_double v = Inr b) \<longleftrightarrow> d_isfinite v"
  by (auto simp: put_double_def put_u64_def)

lemma put_opt_total [total_simps]:
  "(\<exists>b. put_opt ser v = Inr b) \<longleftrightarrow> pred_option (\<lambda>x. \<exists>b. ser x = Inr b) v"
  by (cases v) (auto simp: put_opt_def put_bool_def exn_simps)

lemma put_vec_total [total_simps]:
  "(\<exists>b. put_vec ser xs = Inr b) \<longleftrightarrow> list_all (\<lambda>x. \<exists>b. ser x = Inr b) xs"
proof -
  have "(\<exists>b. cat (map ser xs) = Inr b) \<longleftrightarrow> list_all (\<lambda>x. \<exists>b. ser x = Inr b) xs"
    by (induction xs) (simp_all only: total_simps list.map list.pred_inject)
  then show ?thesis by (simp add: put_vec_def total_simps del: cat.simps)
qed

interpretation c_ts: codec enc_ts dec_ts "\<lambda>_. True"
proof unfold_locales
  fix bs rest and x :: Timestamp
  show "dec_ts bs = Inr (x, rest) \<longleftrightarrow> (\<exists>b. bs = b @ rest \<and> enc_ts x = Inr b \<and> True)"
    unfolding dec_ts_def enc_ts_def codec_simps by (cases x) auto
qed (simp add: enc_ts_def total_simps del: cat.simps)

interpretation c_slotkey: codec enc_slotkey dec_slotkey "\<lambda>_. True"
proof unfold_locales
  fix bs rest and x :: ServiceSlotKey
  show "dec_slotkey bs = Inr (x, rest) \<longleftrightarrow> (\<exists>b. bs = b @ rest \<and> enc_slotkey x = Inr b \<and> True)"
    unfolding dec_slotkey_def enc_slotkey_def codec_simps by (cases x) auto
qed (simp add: enc_slotkey_def total_simps del: cat.simps)

interpretation c_compat: codec enc_compat dec_compat valid_compat
proof unfold_locales
  fix bs rest and x :: CompatibilityRequirement
  show "dec_compat bs = Inr (x, rest) \<longleftrightarrow> (\<exists>b. bs = b @ rest \<and> enc_compat x = Inr b \<and> valid_compat x)"
    unfolding dec_compat_def enc_compat_def codec_simps valid_compat_def fits_def
    by (cases x) auto
qed (simp add: enc_compat_def valid_compat_def total_simps del: cat.simps)

interpretation c_domreq: codec enc_domreq dec_domreq valid_domreq
proof unfold_locales
  fix bs rest and x :: DomainRequirement
  show "dec_domreq bs = Inr (x, rest) \<longleftrightarrow> (\<exists>b. bs = b @ rest \<and> enc_domreq x = Inr b \<and> valid_domreq x)"
    unfolding dec_domreq_def enc_domreq_def codec_simps valid_domreq_def fits_def
    by (cases x) auto
qed (simp add: enc_domreq_def valid_domreq_def total_simps del: cat.simps)

interpretation c_resreq: codec enc_resreq dec_resreq valid_resreq
proof unfold_locales
  fix bs rest and x :: ResourceRequirement
  show "dec_resreq bs = Inr (x, rest) \<longleftrightarrow> (\<exists>b. bs = b @ rest \<and> enc_resreq x = Inr b \<and> valid_resreq x)"
    unfolding dec_resreq_def enc_resreq_def codec_simps valid_resreq_def fits_def
    by (cases x) auto
qed (simp add: enc_resreq_def valid_resreq_def total_simps del: cat.simps)

interpretation c_reco: codec enc_reco dec_reco "\<lambda>_. True"
proof unfold_locales
  fix bs rest and x :: RecoveryObjective
  show "dec_reco bs = Inr (x, rest) \<longleftrightarrow> (\<exists>b. bs = b @ rest \<and> enc_reco x = Inr b \<and> True)"
    unfolding dec_reco_def enc_reco_def codec_simps fits_def
    by (cases x) auto
qed (simp add: enc_reco_def total_simps del: cat.simps)

interpretation c_afp: codec enc_afp dec_afp "\<lambda>_. True"
proof unfold_locales
  fix bs rest and x :: AntiFlappingPolicy
  show "dec_afp bs = Inr (x, rest) \<longleftrightarrow> (\<exists>b. bs = b @ rest \<and> enc_afp x = Inr b \<and> True)"
    unfolding dec_afp_def enc_afp_def codec_simps fits_def
    by (cases x) auto
qed (simp add: enc_afp_def total_simps del: cat.simps)

interpretation c_domdecl: codec enc_domdecl dec_domdecl valid_domdecl
proof unfold_locales
  fix bs rest and x :: DomainDecl
  show "dec_domdecl bs = Inr (x, rest) \<longleftrightarrow> (\<exists>b. bs = b @ rest \<and> enc_domdecl x = Inr b \<and> valid_domdecl x)"
    unfolding dec_domdecl_def enc_domdecl_def codec_simps valid_domdecl_def fits_def
    by (cases x) auto
qed (simp add: enc_domdecl_def valid_domdecl_def total_simps del: cat.simps)

interpretation c_memb: codec enc_memb dec_memb "\<lambda>_. True"
proof unfold_locales
  fix bs rest and x :: DomainMembership
  show "dec_memb bs = Inr (x, rest) \<longleftrightarrow> (\<exists>b. bs = b @ rest \<and> enc_memb x = Inr b \<and> True)"
    unfolding dec_memb_def enc_memb_def codec_simps fits_def
    by (cases x) auto
qed (simp add: enc_memb_def total_simps del: cat.simps)

lemmas exact_records [codec_simps] =
  c_ts.exact c_slotkey.exact c_compat.exact c_domreq.exact c_reco.exact c_afp.exact
  codec_vec [OF c_resreq.codec_axioms, THEN codec.exact]

lemma record_total [total_simps]:
  "\<exists>b. enc_ts t = Inr b" "\<exists>b. enc_slotkey k = Inr b" "\<exists>b. enc_reco r = Inr b" "\<exists>b. enc_afp p = Inr b"
  "\<exists>b. enc_domreq d = Inr b"
  by (simp_all add: enc_ts_def enc_slotkey_def enc_reco_def enc_afp_def enc_domreq_def total_simps
      del: cat.simps)

lemma record_totalI:
  "valid_compat c \<Longrightarrow> \<exists>b. enc_compat c = Inr b" "list_all valid_resreq rs \<Longrightarrow> list_all (\<lambda>x. \<exists>b. enc_resreq x = Inr b) rs"
  by (rule c_compat.total, assumption) (auto simp: list_all_iff intro: c_resreq.total)

interpretation c_assign: codec enc_assign dec_assign valid_assign
proof unfold_locales
  fix bs rest and x :: Assignment
  show "dec_assign bs = Inr (x, rest) \<longleftrightarrow> (\<exists>b. bs = b @ rest \<and> enc_assign x = Inr b \<and> valid_assign x)"
    unfolding dec_assign_def enc_assign_def codec_simps valid_assign_def fits_def
    by (cases x) auto
qed (simp add: enc_assign_def total_simps del: cat.simps)

interpretation c_svc: codec enc_svc dec_svc valid_svc
proof unfold_locales
  fix bs rest and x :: ServiceDefinition
  show "dec_svc bs = Inr (x, rest) \<longleftrightarrow> (\<exists>b. bs = b @ rest \<and> enc_svc x = Inr b \<and> valid_svc x)"
    unfolding dec_svc_def enc_svc_def codec_simps valid_svc_def fits_def
    by (cases x; cases "sd_slots x") auto
qed (simp add: enc_svc_def valid_svc_def total_simps record_totalI del: cat.simps)

interpretation c_ev: codec enc_ev dec_ev valid_ev
proof unfold_locales
  fix bs rest and x :: FailureEvent
  show "dec_ev bs = Inr (x, rest) \<longleftrightarrow> (\<exists>b. bs = b @ rest \<and> enc_ev x = Inr b \<and> valid_ev x)"
    unfolding dec_ev_def enc_ev_def codec_simps valid_ev_def fits_def
    by (cases x) auto
qed (simp add: enc_ev_def valid_ev_def total_simps del: cat.simps)

interpretation c_epoch: codec enc_epoch "dec_epoch LeftToRight" "\<lambda>_. True"
proof unfold_locales
  fix bs rest and x :: CoordinatorEpoch
  show "dec_epoch LeftToRight bs = Inr (x, rest) \<longleftrightarrow> (\<exists>b. bs = b @ rest \<and> enc_epoch x = Inr b \<and> True)"
    unfolding dec_epoch_def enc_epoch_def eval_order.case codec_simps by (cases x) auto
qed (simp add: enc_epoch_def total_simps del: cat.simps)

lemma enc_route_epoch:
  "enc_route e = Inr b \<longleftrightarrow>
     cat [put_id (re_route e), put_gen (re_generation e), enc_slotkey (re_slot e),
       put_id (re_target e), put_gen (re_target_generation e), put_id (re_incarnation e),
       put_id (re_permitted_boot e), put_id (re_assignment e), put_gen (re_assignment_generation e),
       enc_epoch (re_epoch e), put_id (re_gateway_boot e), put_enum RouteState_values (re_state e),
       put_string (re_transport e), put_enum Provenance_values (re_provenance e)] = Inr b"
  unfolding enc_route_def enc_epoch_def codec_simps by auto

interpretation c_route: codec enc_route "dec_route LeftToRight" valid_route
proof unfold_locales
  fix bs rest and x :: RouteEntry
  show "dec_route LeftToRight bs = Inr (x, rest) \<longleftrightarrow>
      (\<exists>b. bs = b @ rest \<and> enc_route x = Inr b \<and> valid_route x)"
    unfolding dec_route_def enc_route_epoch codec_simps c_epoch.exact valid_route_def fits_def
    by (cases x) auto
qed (simp add: enc_route_def valid_route_def total_simps del: cat.simps)

section \<open>The payload\<close>

text \<open>
  What a snapshot must satisfy to survive a save: the sizes of its vectors and strings and its
  doubles are representable, a transaction record is absent with default fields or present with
  an \<open>AUTHORIZED\<close> pending assignment.
\<close>

definition valid_txn :: "PersistenceSnapshot \<Rightarrow> bool" where
  "valid_txn s \<longleftrightarrow>
     (if ps_has_txn s
      then pred_option valid_assign (ps_pending_assignment s) \<and>
           pred_option (\<lambda>a. asg_state a = AssignmentState.AUTHORIZED) (ps_pending_assignment s) \<and>
           pred_option valid_assign (ps_source_assignment s) \<and> pred_option valid_route (ps_pending_route s)
      else ps_txn_milestone s = Milestone.VERIFICATION_COMPLETE \<and> ps_pending_assignment s = None \<and>
           ps_source_assignment s = None \<and> ps_pending_route s = None)"

definition valid_payload :: "PersistenceSnapshot \<Rightarrow> bool" where
  "valid_payload s \<longleftrightarrow> ps_format_version s = kVersion \<and>
     fits (ps_services s) \<and> list_all valid_svc (ps_services s) \<and>
     fits (ps_assignments s) \<and> list_all valid_assign (ps_assignments s) \<and>
     fits (ps_domains s) \<and> list_all valid_domdecl (ps_domains s) \<and> fits (ps_memberships s) \<and>
     fits (ps_evidence s) \<and> list_all valid_ev (ps_evidence s) \<and>
     fits (ps_routes s) \<and> list_all valid_route (ps_routes s) \<and> fits (ps_fenced_boots s) \<and> valid_txn s"

lemmas exact_payload =
  codec_vec [OF c_svc.codec_axioms, THEN codec.exact] codec_vec [OF c_assign.codec_axioms, THEN codec.exact]
  codec_vec [OF c_domdecl.codec_axioms, THEN codec.exact] codec_vec [OF c_memb.codec_axioms, THEN codec.exact]
  codec_vec [OF c_ev.codec_axioms, THEN codec.exact] codec_vec [OF c_route.codec_axioms, THEN codec.exact]
  codec_opt [OF c_assign.codec_axioms, THEN codec.exact] codec_opt [OF c_route.codec_axioms, THEN codec.exact]
  c_epoch.exact

lemma authorized_iff:
  "\<not> (p \<noteq> None \<and> map_option asg_state p \<noteq> Some st) \<longleftrightarrow> pred_option (\<lambda>a. asg_state a = st) p"
  by (cases p) auto

lemma dec_txn_record_exact:
  "dec_txn_record LeftToRight bs = Inr ((ms, p, q, r), rest) \<longleftrightarrow>
     (\<exists>b. bs = b @ rest \<and> cat [put_enum Milestone_values ms, put_opt enc_assign p,
          put_opt enc_assign q, put_opt enc_route r] = Inr b \<and>
        pred_option valid_assign p \<and> pred_option (\<lambda>a. asg_state a = AssignmentState.AUTHORIZED) p \<and>
        pred_option valid_assign q \<and> pred_option valid_route r)"
  unfolding dec_txn_record_def codec_simps exact_payload authorized_iff by auto

lemma dec_txn_iff:
  "dec_txn LeftToRight bs = Inr ((has, t), rest) \<longleftrightarrow>
     (\<exists>b mid. bs = b @ mid \<and> put_bool has = Inr b \<and>
        (if has then dec_txn_record LeftToRight mid = Inr (t, rest)
         else t = (Milestone.VERIFICATION_COMPLETE, None, None, None) \<and> mid = rest))"
proof -
  have "(if c then rd_bind d (\<lambda>t. rd_return (True, t)) else rd_return (False, u)) mid = Inr ((has, t), rest) \<longleftrightarrow>
      c = has \<and> (if has then d mid = Inr (t, rest) else t = u \<and> mid = rest)"
    for c d u mid by (cases has; cases t rule: prod_cases4) (auto simp: codec_simps)
  then show ?thesis unfolding dec_txn_def rd_bind_Inr [of rd_boolean] c_bool.exact by auto
qed

lemma dec_txn_exact:
  "dec_txn LeftToRight bs =
     Inr ((ps_has_txn s, ps_txn_milestone s, ps_pending_assignment s, ps_source_assignment s,
           ps_pending_route s), rest) \<longleftrightarrow>
     (\<exists>b. bs = b @ rest \<and> enc_txn s = Inr b \<and> valid_txn s)"
proof (cases "ps_has_txn s")
  case True
  then show ?thesis
    unfolding dec_txn_iff dec_txn_record_exact enc_txn_def valid_txn_def
    by (auto simp: cat_Cons_Inr [of "Inr [1]"] put_bool_def simp del: cat.simps)
next
  case False
  then show ?thesis
    unfolding dec_txn_iff enc_txn_def valid_txn_def by (simp add: codec_simps del: cat.simps)
qed

lemma dec_payload_exact:
  "dec_payload LeftToRight bs = Inr (s, rest) \<longleftrightarrow>
     (\<exists>b. bs = b @ rest \<and> enc_payload s = Inr b \<and> valid_payload s)"
proof -
  have "(case t of (has, ms, p, q, r) \<Rightarrow> rd_return (f has ms p q r)) mid = Inr (s, rest) \<longleftrightarrow>
      f (fst t) (fst (snd t)) (fst (snd (snd t))) (fst (snd (snd (snd t)))) (snd (snd (snd (snd t)))) = s \<and>
      mid = rest" for t mid and f :: "bool \<Rightarrow> Milestone \<Rightarrow> Assignment option \<Rightarrow> Assignment option \<Rightarrow>
        RouteEntry option \<Rightarrow> PersistenceSnapshot"
    by (cases t rule: prod_cases5) (simp add: codec_simps)
  moreover have "\<And>mid. dec_txn LeftToRight mid =
      Inr ((ps_has_txn s, ps_txn_milestone s, ps_pending_assignment s, ps_source_assignment s,
            ps_pending_route s), rest) \<longleftrightarrow> (\<exists>b. mid = b @ rest \<and> enc_txn s = Inr b \<and> valid_txn s)"
    by (rule dec_txn_exact)
  ultimately show ?thesis
    unfolding dec_payload_def enc_payload_def valid_payload_def codec_simps exact_payload fits_def
    by (cases s) auto
qed

section \<open>The blob\<close>

definition blob_body :: "bytes \<Rightarrow> bytes" where
  "blob_body payload = kMagic @ le_bytes 4 kVersion @ le_bytes 8 (of_nat (length payload) :: u64) @ payload"

definition sound_snapshot :: "PersistenceSnapshot \<Rightarrow> bool" where
  "sound_snapshot s \<longleftrightarrow> distinct (map sd_service (ps_services s)) \<and>
     list_all (\<lambda>d. srng_count (sd_slots d) \<noteq> 0) (ps_services s) \<and>
     list_all (\<lambda>a. sk_service (asg_slot a) \<in> sd_service ` set (ps_services s) \<and>
                   asg_authority_generation a \<noteq> gen_null) (ps_assignments s) \<and>
     distinct (map asg_slot (filter (\<lambda>a. asg_state a = AssignmentState.ACTIVE) (ps_assignments s)))"

lemma gen_is_null_iff: "gen_is_null g \<longleftrightarrow> g = gen_null"
  by (cases g) (simp add: gen_is_null_def gen_null_def)

lemma check_assignments_ok:
  "check_assignments ids seen as = Inr u \<longleftrightarrow>
     list_all (\<lambda>a. sk_service (asg_slot a) \<in> ids \<and> asg_authority_generation a \<noteq> gen_null) as \<and>
     distinct (map asg_slot (filter (\<lambda>a. asg_state a = AssignmentState.ACTIVE) as)) \<and>
     asg_slot ` set (filter (\<lambda>a. asg_state a = AssignmentState.ACTIVE) as) \<inter> seen = {}"
  by (induction ids seen as rule: check_assignments.induct) (auto simp: gen_is_null_iff)

lemma check_semantics_ok: "check_semantics s = Inr u \<longleftrightarrow> sound_snapshot s"
  by (auto simp: check_semantics_def exn_simps check_assignments_ok sound_snapshot_def)

lemma length_kMagic [simp]: "length kMagic = 8"
  by (simp add: kMagic_def)

lemma length_blob_body [simp]: "length (blob_body payload) = 20 + length payload"
  by (simp add: blob_body_def)

lemma enc_payload_length: "enc_payload s = Inr b \<Longrightarrow> 8 \<le> length b"
  by (auto simp: enc_payload_def enc_epoch_def put_u32_def put_u64_def put_id_def codec_simps simp del: cat.simps)

lemma encode_Inr_iff:
  "encode s = Inr blob \<longleftrightarrow> ps_format_version s = kVersion \<and>
     (\<exists>payload. enc_payload s = Inr payload \<and>
        blob = blob_body payload @ le_bytes 8 (fnv1a (blob_body payload)))"
  by (auto simp: encode_def exn_simps put_u32_def put_u64_def blob_body_def)

lemma kMaxBlob_le: "plen \<le> kMaxBlob \<longleftrightarrow> unat plen \<le> 1073741824"
  by (simp add: word_le_nat_alt kMaxBlob_def)

lemma blob_header:
  "take 8 blob = kMagic \<and> rd_u32 (drop 8 blob) = Inr (kVersion, hdr) \<and> rd_u64 hdr = Inr (plen, r) \<longleftrightarrow>
     blob = kMagic @ le_bytes 4 kVersion @ le_bytes 8 plen @ r \<and> hdr = le_bytes 8 plen @ r"
proof -
  have "take 8 blob = kMagic \<and> drop 8 blob = xs \<longleftrightarrow> blob = kMagic @ xs" for xs
    by (metis append_eq_conv_conj append_take_drop_id length_kMagic)
  then show ?thesis unfolding codec_simps by (auto simp: put_u32_def put_u64_def)
qed

lemma decode_Inr_iff:
  "decode ord blob = Inr s \<longleftrightarrow>
     (\<exists>payload. blob = blob_body payload @ le_bytes 8 (fnv1a (blob_body payload)) \<and>
        8 \<le> length payload \<and> length payload \<le> 1073741824 \<and>
        dec_payload ord payload = Inr (s, []) \<and> sound_snapshot s)" (is "?L \<longleftrightarrow> ?R")
proof
  assume ?L
  then obtain hdr plen r where h: "take 8 blob = kMagic" "rd_u32 (drop 8 blob) = Inr (kVersion, hdr)"
      "rd_u64 hdr = Inr (plen, r)"
    and l: "36 \<le> length blob" "unat plen \<le> 1073741824" "28 + unat plen = length blob"
    and c: "fnv1a (take (20 + unat plen) blob) = le_word (take 8 (drop (20 + unat plen) blob))"
    and d: "dec_payload ord (take (unat plen) (drop 20 blob)) = Inr (s, [])" "sound_snapshot s"
    by (auto simp: decode_def exn_simps check_semantics_ok kMaxBlob_le)
  let ?p = "take (unat plen) (drop 20 blob)"
  have b: "blob = kMagic @ le_bytes 4 kVersion @ le_bytes 8 plen @ r" using h blob_header by blast
  then have r: "drop 20 blob = r" by simp
  have p: "length ?p = unat plen" using l by simp
  have "of_nat (length ?p) = plen" unfolding p by simp
  then have body: "take (20 + unat plen) blob = blob_body ?p" unfolding blob_body_def r by (simp add: b)
  have tl: "take 8 (drop (20 + unat plen) blob) = drop (20 + unat plen) blob"
    "length (drop (20 + unat plen) blob) = 8" using l by simp_all
  have "le_bytes 8 (fnv1a (blob_body ?p)) = drop (20 + unat plen) blob"
    using c unfolding body tl(1) using le_bytes_word [OF tl(2), where 'a = 64] by simp
  then have "blob = blob_body ?p @ le_bytes 8 (fnv1a (blob_body ?p))"
    using body append_take_drop_id [of "20 + unat plen" blob] by simp
  then show ?R using p l d by (intro exI [of _ ?p]) simp
next
  assume ?R
  then obtain p where b: "blob = blob_body p @ le_bytes 8 (fnv1a (blob_body p))"
    and l: "8 \<le> length p" "length p \<le> 1073741824"
    and d: "dec_payload ord p = Inr (s, [])" "sound_snapshot s" by blast
  have u: "unat (of_nat (length p) :: u64) = length p" using l by (simp add: unat_of_nat)
  have b': "blob = kMagic @ le_bytes 4 kVersion @ le_bytes 8 (of_nat (length p) :: u64) @
      p @ le_bytes 8 (fnv1a (blob_body p))"
    unfolding b by (simp add: blob_body_def)
  obtain hdr where h: "take 8 blob = kMagic" "rd_u32 (drop 8 blob) = Inr (kVersion, hdr)"
      "rd_u64 hdr = Inr (of_nat (length p), p @ le_bytes 8 (fnv1a (blob_body p)))"
    using blob_header [of blob _ "of_nat (length p)" "p @ le_bytes 8 (fnv1a (blob_body p))"] b' by auto
  have t: "take (20 + length p) blob = blob_body p" "drop (20 + length p) blob = le_bytes 8 (fnv1a (blob_body p))"
    "take (length p) (drop 20 blob) = p" "length blob = 28 + length p"
    by (simp_all add: b) (simp add: blob_body_def)
  show ?L
    using h l d by (simp add: decode_def kMaxBlob_le u t le_word_bytes check_semantics_ok exn_simps)
qed

section \<open>Damage to one byte\<close>

text \<open>Both inputs of a step of the hash can be recovered from the other one and the result.\<close>

lemma fnv_prime_inverse: "1099511628211 * 14886173955864302971 = (1 :: u64)"
  by simp

lemma fnv_step_inject:
  fixes h h' :: u64
  shows "xor h x * 1099511628211 = xor h' x' * 1099511628211 \<longleftrightarrow> xor h x = xor h' x'"
proof
  assume "xor h x * 1099511628211 = xor h' x' * 1099511628211"
  then have "xor h x * (1099511628211 * 14886173955864302971) = xor h' x' * (1099511628211 * 14886173955864302971)"
    unfolding mult.assoc [symmetric] by simp
  then show "xor h x = xor h' x'" unfolding fnv_prime_inverse by simp
qed simp

lemma xor_cancel:
  fixes h x :: u64
  shows "xor h x = xor h' x \<longleftrightarrow> h = h'" and "xor h x = xor h x' \<longleftrightarrow> x = x'"
proof -
  have inj: "h = h'" if "xor h x = xor h' x" for h h' x :: u64
    using arg_cong [OF that, of "\<lambda>w. xor w x"] by (simp add: xor.assoc)
  show "xor h x = xor h' x \<longleftrightarrow> h = h'" using inj by blast
  show "xor h x = xor h x' \<longleftrightarrow> x = x'" using inj [of x h x'] by (auto simp: xor.commute)
qed

lemma fnv_foldl_inject:
  fixes h h' :: u64 and bs :: bytes
  shows "foldl (\<lambda>h b. xor h (ucast b) * 1099511628211) h bs = foldl (\<lambda>h b. xor h (ucast b) * 1099511628211) h' bs \<longleftrightarrow>
    h = h'"
  by (induction bs arbitrary: h h') (simp_all only: foldl_Nil foldl_Cons fnv_step_inject xor_cancel)

lemma fnv1a_update:
  assumes "i < length bs" and "fnv1a (bs[i := b]) = fnv1a bs"
  shows "bs ! i = b"
proof -
  have "fnv1a (take i bs @ b # drop (Suc i) bs) = fnv1a (take i bs @ bs ! i # drop (Suc i) bs)"
    using assms by (simp add: upd_conv_take_nth_drop id_take_nth_drop [OF assms(1), symmetric])
  then have "(ucast b :: u64) = ucast (bs ! i)"
    unfolding fnv1a_def foldl_append foldl_Cons fnv_foldl_inject fnv_step_inject xor_cancel .
  then have "ucast (ucast b :: u64) = (ucast (ucast (bs ! i) :: u64) :: u8)" by simp
  then show ?thesis by (simp add: ucast_up_ucast_id is_up.rep_eq)
qed

lemma decoded_checksum:
  assumes "decode ord blob = Inr s"
  shows "28 \<le> length blob" and "drop (length blob - 8) blob = le_bytes 8 (fnv1a (take (length blob - 8) blob))"
  using assms by (auto simp: decode_Inr_iff)

lemma damaged_checksum:
  assumes "decode ord blob = Inr s" and "decode ord' (blob[i := b]) = Inr s'" and "i < length blob"
  shows "blob ! i = b"
proof (cases "i < length blob - 8")
  case True
  then have "take (length blob - 8) (blob[i := b]) = (take (length blob - 8) blob)[i := b]"
    "drop (length blob - 8) (blob[i := b]) = drop (length blob - 8) blob"
    by (simp_all add: take_update_swap)
  then have "fnv1a ((take (length blob - 8) blob)[i := b]) = fnv1a (take (length blob - 8) blob)"
    using decoded_checksum(2) [OF assms(1)] decoded_checksum(2) [OF assms(2)]
    by (simp add: le_bytes_inject)
  then have "take (length blob - 8) blob ! i = b" using True by (intro fnv1a_update) simp_all
  then show ?thesis using True by simp
next
  case False
  then have "take (length blob - 8) (blob[i := b]) = take (length blob - 8) blob" by simp
  then have "drop (length blob - 8) (blob[i := b]) = drop (length blob - 8) blob"
    using decoded_checksum(2) [OF assms(1)] decoded_checksum(2) [OF assms(2)] by simp
  then have "drop (length blob - 8) (blob[i := b]) ! (i - (length blob - 8)) =
      drop (length blob - 8) blob ! (i - (length blob - 8))" by simp
  then show ?thesis using False assms(3) by simp
qed

section \<open>Properties\<close>

text \<open>What a snapshot must satisfy to be written and read back.\<close>

definition durable :: "PersistenceSnapshot \<Rightarrow> bool" where
  "durable s \<longleftrightarrow> valid_payload s \<and> sound_snapshot s"

lemma decode_encoded:
  assumes "encode s = Inr blob" and "durable s" and "length blob \<le> 2 ^ 30 + 28"
  shows "decode LeftToRight blob = Inr s"
proof -
  obtain p where p: "enc_payload s = Inr p" "blob = blob_body p @ le_bytes 8 (fnv1a (blob_body p))"
    using assms(1) by (auto simp: encode_Inr_iff)
  then have "dec_payload LeftToRight p = Inr (s, [])" using assms(2) by (simp add: dec_payload_exact durable_def)
  then show ?thesis
    unfolding decode_Inr_iff using p assms enc_payload_length [OF p(1)]
    by (intro exI [of _ p]) (simp add: durable_def)
qed

lemma encode_durable: "durable s \<Longrightarrow> \<exists>blob. encode s = Inr blob"
proof -
  assume d: "durable s"
  have "\<exists>b. enc_txn s = Inr b"
    using d by (auto simp: durable_def valid_payload_def valid_txn_def enc_txn_def total_simps
        enc_assign_def enc_route_def valid_route_def [abs_def] split: option.splits simp del: cat.simps)
  moreover have "list_all (\<lambda>x. \<exists>b. enc_svc x = Inr b) (ps_services s)" "list_all (\<lambda>x. \<exists>b. enc_assign x = Inr b) (ps_assignments s)"
    "list_all (\<lambda>x. \<exists>b. enc_domdecl x = Inr b) (ps_domains s)" "list_all (\<lambda>x. \<exists>b. enc_memb x = Inr b) (ps_memberships s)"
    "list_all (\<lambda>x. \<exists>b. enc_ev x = Inr b) (ps_evidence s)" "list_all (\<lambda>x. \<exists>b. enc_route x = Inr b) (ps_routes s)"
    using d c_svc.total c_assign.total c_domdecl.total c_memb.total c_ev.total c_route.total
    by (auto simp: durable_def valid_payload_def list_all_iff)
  moreover have "\<exists>b. enc_epoch (ps_epoch s) = Inr b" by (rule c_epoch.total) simp
  ultimately have "\<exists>p. enc_payload s = Inr p"
    by (simp add: enc_payload_def total_simps del: cat.simps)
  then show ?thesis using d by (auto simp: encode_Inr_iff durable_def valid_payload_def)
qed

text \<open>
  C25. The durable format is exact in both directions, provided that constructor arguments are
  evaluated from left to right: a blob decodes to a snapshot if and only if it is the very blob
  that \<open>encode\<close> writes for it, its payload is at most 1 GiB, and the snapshot is durable. Durable
  means exactly this: the format version is 2; every vector and string has at most \<open>2 ^ 22\<close>
  elements; resource amounts and confidences are finite; services have distinct ids and at least
  one slot; every assignment is of a listed service and has a non-null authority generation; at
  most one assignment of a slot is \<open>ACTIVE\<close>; the pending assignment of a transaction under way is
  \<open>AUTHORIZED\<close>, and without a transaction its fields have their default values. So encoding and
  decoding is the identity on durable snapshots and no two blobs decode to the same snapshot.
  Nothing else is checked: snapshots with regressing generations, with impossible milestones,
  with domains whose parents are missing, or with memberships, evidence and routes that refer to
  nothing decode, although \<^verbatim>\<open>persistence.hpp\<close> promises that they are rejected.
\<close>

theorem snapshot_codec_exact:
  "decode LeftToRight blob = Inr s \<longleftrightarrow>
     encode s = Inr blob \<and> durable s \<and> length blob \<le> 2 ^ 30 + 28"
proof -
  have "dec_payload LeftToRight p = Inr (s, []) \<longleftrightarrow> enc_payload s = Inr p \<and> valid_payload s" for p
    by (simp add: dec_payload_exact)
  then show ?thesis
    by (auto simp: decode_Inr_iff encode_Inr_iff durable_def valid_payload_def enc_payload_length)
qed

definition example_durable :: PersistenceSnapshot where
  "example_durable = default_PersistenceSnapshot\<lparr>
     ps_epoch := \<lparr>ep_epoch = 7, ep_id = Id 1, ep_boot = Id 3\<rparr>,
     ps_services := [default_ServiceDefinition\<lparr>sd_service := Id 5, sd_name := ''svc''\<rparr>],
     ps_assignments := [default_Assignment\<lparr>asg_slot := SlotKey (Id 5) (Id 1),
                          asg_state := AssignmentState.ACTIVE\<rparr>]\<rparr>"

lemmas writer_defs = enc_payload_def enc_epoch_def enc_svc_def enc_assign_def enc_compat_def
  enc_domreq_def enc_reco_def enc_afp_def enc_slotkey_def enc_txn_def put_vec_def put_opt_def
  put_enum_def put_string_def put_u8_def put_u32_def put_u64_def put_bool_def put_id_def put_gen_def

lemmas example_durable_defs = example_durable_def default_PersistenceSnapshot_def
  default_ServiceDefinition_def default_Assignment_def default_CompatibilityRequirement_def
  default_DomainRequirement_def default_RecoveryObjective_def default_AntiFlappingPolicy_def

lemma durable_example: "durable example_durable"
  by (simp add: durable_def valid_payload_def sound_snapshot_def valid_svc_def valid_assign_def
      valid_compat_def valid_domreq_def valid_txn_def fits_def kVersion_def gen_null_def gen_first_def
      example_durable_defs)

lemma example_blob:
  obtains blob where "encode example_durable = Inr blob" "decode LeftToRight blob = Inr example_durable"
    "9 < length blob"
proof -
  have "\<exists>p. enc_payload example_durable = Inr p \<and> length p \<le> 1073741824"
    by (simp add: writer_defs example_durable_defs)
  then obtain p where p: "enc_payload example_durable = Inr p" "length p \<le> 1073741824" by blast
  then have "dec_payload LeftToRight p = Inr (example_durable, [])"
    using durable_example by (simp add: dec_payload_exact durable_def)
  then have d: "decode LeftToRight (blob_body p @ le_bytes 8 (fnv1a (blob_body p))) = Inr example_durable"
    unfolding decode_Inr_iff using p durable_example
    by (intro exI [of _ p]) (simp add: enc_payload_length durable_def)
  have "encode example_durable = Inr (blob_body p @ le_bytes 8 (fnv1a (blob_body p)))"
    using p durable_example by (simp add: encode_Inr_iff durable_def valid_payload_def)
  then show ?thesis using d by (rule that) simp
qed

text \<open>
  C26. Damage to a single byte is always detected: if a blob is accepted, then the blob with any
  one of its bytes changed to another value, in the header, the payload or the checksum, is
  refused.
\<close>

theorem damaged_blob_refused:
  assumes "decode ord blob = Inr s" and "i < length blob" and "b \<noteq> blob ! i"
  shows "\<exists>e. decode ord (blob[i := b]) = Inl e"
  using damaged_checksum [OF assms(1) _ assms(2), of ord b] assms(3)
  by (cases "decode ord (blob[i := b])") auto

theorem damaged_blob_refused_witness:
  "\<exists>blob e. decode LeftToRight blob = Inr example_durable \<and> 9 < length blob \<and>
     decode LeftToRight (blob[9 := blob ! 9 + 1]) = Inl e"
proof (rule example_blob)
  fix blob assume "decode LeftToRight blob = Inr example_durable" "9 < length blob"
  then show ?thesis using damaged_blob_refused [of LeftToRight blob example_durable 9 "blob ! 9 + 1"] by auto
qed

text \<open>
  The order in which the arguments of a constructor call are evaluated matters to the
  reader of the coordinator epoch: evaluated from left to right the epoch that was written is
  read back, evaluated from right to left its number and its boot identity are exchanged.
\<close>

theorem epoch_depends_on_evaluation_order:
  "(case enc_epoch e of Inl _ \<Rightarrow> False
    | Inr b \<Rightarrow> dec_epoch LeftToRight (b @ rest) = Inr (e, rest) \<and>
        dec_epoch RightToLeft (b @ rest) =
          Inr (\<lparr>ep_epoch = id_value (ep_boot e), ep_id = ep_id e, ep_boot = Id (ep_epoch e)\<rparr>, rest))"
proof -
  have swap: "put_u64 x = put_id (Id x)" "put_id i = put_u64 (id_value i)" for x i
    by (simp_all add: put_id_def)
  obtain b where b: "enc_epoch e = Inr b" using c_epoch.total by blast
  have l: "dec_epoch LeftToRight (b @ rest) = Inr (e, rest)" using c_epoch.roundtrip b by blast
  have "dec_epoch RightToLeft bs = Inr (e', r) \<longleftrightarrow> (\<exists>b. bs = b @ r \<and>
      cat [put_id (ep_boot e'), put_id (ep_id e'), put_u64 (ep_epoch e')] = Inr b)" for bs e' r
    unfolding dec_epoch_def eval_order.case codec_simps by (cases e') auto
  then have "dec_epoch RightToLeft (b @ rest) =
      Inr (\<lparr>ep_epoch = id_value (ep_boot e), ep_id = ep_id e, ep_boot = Id (ep_epoch e)\<rparr>, rest)"
    using b by (auto simp: enc_epoch_def put_id_def)
  then show ?thesis using b l by simp
qed

text \<open>
  C27. Saving never leaves a torn snapshot under its path. If \<open>save_file\<close> returns, the path
  holds exactly the encoding of the snapshot, so that a complete read gives what \<open>decode\<close> makes of
  that encoding, and the temporary file is gone. If it throws, the path holds what it held
  before, or nothing at all: that happens only when the target was removed and the rename then
  failed, and the temporary file holds the whole encoding. (So the replacement is not the
  atomic one that \<^verbatim>\<open>persistence.hpp\<close> documents: a failed rename loses the old snapshot from its
  path.) No other file is touched.
\<close>

theorem save_file_never_tears:
  assumes "save_file io fs path s = (fs', res)"
  shows "(case res of
      Inr _ \<Rightarrow> (\<exists>blob. encode s = Inr blob \<and> fs' path = Some blob \<and>
        (\<forall>ord. load_file ReadComplete ord fs' path = decode ord blob)) \<and> fs' (tmp_path path) = None
    | Inl _ \<Rightarrow> fs' path = fs path \<or>
        fs' path = None \<and> (\<exists>blob. encode s = Inr blob \<and> fs' (tmp_path path) = Some blob) \<and>
        io_remove_ok io \<and> \<not> io_rename_ok io) \<and>
    (\<forall>q. q \<noteq> path \<and> q \<noteq> tmp_path path \<longrightarrow> fs' q = fs q)"
proof -
  have n: "path \<noteq> tmp_path path" by (simp add: tmp_path_def)
  show ?thesis
    using assms n
    by (auto simp: save_file_def load_file_def Let_def split: option.splits if_splits sum.splits)
qed

definition all_io_ok :: WriteOutcome where
  "all_io_ok = \<lparr>io_open_ok = True, io_short_write = None, io_remove_ok = True, io_rename_ok = True\<rparr>"

theorem save_file_never_tears_witness:
  "\<exists>fs'. save_file all_io_ok Map.empty ''state'' example_durable = (fs', Inr ()) \<and>
     load_file ReadComplete LeftToRight fs' ''state'' = Inr example_durable"
proof (rule example_blob)
  fix blob assume b: "encode example_durable = Inr blob" "decode LeftToRight blob = Inr example_durable"
  obtain fs' where s: "save_file all_io_ok Map.empty ''state'' example_durable = (fs', Inr ())"
    by (auto simp: save_file_def b all_io_ok_def Let_def)
  then show ?thesis using save_file_never_tears [OF s] b by fastforce
qed

end
