(* ===== verification/Restart.thy ===== *)
theory Restart
  imports Fabric_Props Persistence_Props
begin

text \<open>
  \<open>save\<close> and \<open>load\<close> of \<^verbatim>\<open>fabric.cpp\<close> over the files of \<^verbatim>\<open>persistence.cpp\<close>: what a restarted
  coordinator believes. Loading restores the durable state, requires every route to be
  revalidated, and withdraws the authority an interrupted cutover may have fenced.
\<close>

section \<open>Saving and loading through a file\<close>

definition ff_save :: "WriteOutcome \<Rightarrow> files \<Rightarrow> string \<Rightarrow> FabricState \<Rightarrow> files \<times> unit result" where
  "ff_save io fs path s = save_file io fs path (save_snapshot s)"

definition ff_load :: "ReadOutcome \<Rightarrow> eval_order \<Rightarrow> files \<Rightarrow> string \<Rightarrow> FabricState \<Rightarrow> FabricState result" where
  "ff_load io ord fs path s = bindE (load_file io ord fs path) (\<lambda>snap. Inr (load_snapshot s snap))"

section \<open>The assignments\<close>

lemma load_assignment_frame [simp, frame_simps]:
  "fs_services (load_assignment s a) = fs_services s" "fs_service_index (load_assignment s a) = fs_service_index s"
  "fs_targets (load_assignment s a) = fs_targets s" "fs_target_index (load_assignment s a) = fs_target_index s"
  "fs_targets_by_service (load_assignment s a) = fs_targets_by_service s"
  "fs_requests (load_assignment s a) = fs_requests s" "fs_epoch (load_assignment s a) = fs_epoch s"
  "fs_fenced_boots (load_assignment s a) = fs_fenced_boots s"
  "fs_last_authority_gen (load_assignment s a) = fs_last_authority_gen s"
  by (simp_all add: load_assignment_def Let_def)

lemma wf_slots_load_assignment: "wf_slots s \<Longrightarrow> wf_slots (load_assignment s a)"
  unfolding load_assignment_def Let_def
  by (rule wf_slots_upd_slot) (auto intro: wf_slots_add_slot)

lemma current_load_assignment:
  assumes "wf_slots s"
  shows "current_assignment (load_assignment s a) k =
    (if k = asg_slot a \<and> asg_state a = AssignmentState.ACTIVE then Some a else current_assignment s k)"
proof -
  let ?s = "if find_slot s (asg_slot a) = None then add_slot s (asg_slot a) else s"
  have w: "wf_slots ?s" using assms by (simp add: wf_slots_add_slot)
  have f: "find_slot ?s k' = (if k' = asg_slot a \<and> find_slot s k' = None then Some (empty_slot k') else find_slot s k')" for k'
    using assms by (auto simp: find_slot_add_slot)
  show ?thesis
    unfolding load_assignment_def Let_def current_assignment_def find_slot_upd_slot [OF w] f
    by (auto simp: empty_slot_def split: option.split)
qed

lemma wf_slots_load_assignments: "wf_slots s \<Longrightarrow> wf_slots (foldl load_assignment s as)"
  by (induction as arbitrary: s) (simp_all add: wf_slots_load_assignment)

lemma load_assignments_frame [simp, frame_simps]:
  "fs_services (foldl load_assignment s as) = fs_services s"
  "fs_service_index (foldl load_assignment s as) = fs_service_index s"
  "fs_targets (foldl load_assignment s as) = fs_targets s"
  "fs_target_index (foldl load_assignment s as) = fs_target_index s"
  "fs_targets_by_service (foldl load_assignment s as) = fs_targets_by_service s"
  "fs_requests (foldl load_assignment s as) = fs_requests s"
  "fs_epoch (foldl load_assignment s as) = fs_epoch s"
  "fs_fenced_boots (foldl load_assignment s as) = fs_fenced_boots s"
  "fs_last_authority_gen (foldl load_assignment s as) = fs_last_authority_gen s"
  by (induction as arbitrary: s) simp_all

text \<open>The last \<open>ACTIVE\<close> assignment of a slot becomes its current one.\<close>

definition active_in :: "Assignment list \<Rightarrow> ServiceSlotKey \<Rightarrow> Assignment option" where
  "active_in as k = List.find (\<lambda>a. asg_slot a = k \<and> asg_state a = AssignmentState.ACTIVE) (rev as)"

lemma current_load_assignments:
  assumes "wf_slots s"
  shows "current_assignment (foldl load_assignment s as) k =
    (case active_in as k of Some a \<Rightarrow> Some a | None \<Rightarrow> current_assignment s k)"
  using assms
proof (induction as arbitrary: s)
  case (Cons a as)
  have "active_in (a # as) k = (case active_in as k of Some b \<Rightarrow> Some b
      | None \<Rightarrow> if asg_slot a = k \<and> asg_state a = AssignmentState.ACTIVE then Some a else None)"
    by (simp add: active_in_def split: option.split)
  then show ?case
    using Cons.IH [OF wf_slots_load_assignment [OF Cons.prems]] current_load_assignment [OF Cons.prems]
    by (auto split: option.split)
qed (simp add: active_in_def)

section \<open>The loaded state\<close>

text \<open>The cutover that was under way when the snapshot was written, if any.\<close>

definition interrupted :: "PersistenceSnapshot \<Rightarrow> bool" where
  "interrupted snap \<longleftrightarrow> ps_has_txn snap \<and> ps_txn_milestone snap < Milestone.VERIFICATION_COMPLETE"

definition reconciled :: "PersistenceSnapshot \<Rightarrow> Assignment \<Rightarrow> Assignment" where
  "reconciled snap a =
     (if interrupted snap \<and> asg_state a = AssignmentState.ACTIVE \<and>
         (asg_worker_boot a \<in> set (ps_fenced_boots snap) \<or> ps_pending_assignment snap \<noteq> None)
      then a\<lparr>asg_state := AssignmentState.REVALIDATION_REQUIRED\<rparr> else a)"

definition load_base :: "FabricState \<Rightarrow> PersistenceSnapshot \<Rightarrow> FabricState" where
  "load_base s snap = s\<lparr>fs_services := ps_services snap, fs_service_index := index_services (ps_services snap),
     fs_epoch := ps_epoch snap, fs_policy_gen := ps_policy_generation snap,
     fs_last_authority_gen := ps_last_authority_gen snap,
     fs_fenced_boots := ps_fenced_boots snap, fs_slots := [], fs_slot_index := Map.empty,
     fs_target_index := Map.empty, fs_targets_by_service := Map.empty\<rparr>"

lemma wf_slots_load_base: "wf_slots (load_base s snap)"
  by (simp add: load_base_def wf_slots_def)

lemma load_snapshot_fields [simp]:
  "fs_services (load_snapshot s snap) = ps_services snap"
  "fs_service_index (load_snapshot s snap) = index_services (ps_services snap)"
  "fs_epoch (load_snapshot s snap) = ps_epoch snap"
  "fs_fenced_boots (load_snapshot s snap) = ps_fenced_boots snap"
  "fs_last_authority_gen (load_snapshot s snap) = ps_last_authority_gen snap"
  "fs_target_index (load_snapshot s snap) = Map.empty"
  "fs_targets_by_service (load_snapshot s snap) = Map.empty"
  "fs_requests (load_snapshot s snap) = fs_requests s"
  "fs_routes (load_snapshot s snap) =
     mark_revalidation_required (foldl (\<lambda>t r. fst (rt_install t r)) empty_routes (ps_routes snap))"
  "fs_domains (load_snapshot s snap) =
     foldl set_membership (foldl declare_domain empty_registry (ps_domains snap)) (ps_memberships snap)"
  "fs_evidence (load_snapshot s snap) = foldl (\<lambda>es e. fst (ev_publish es e)) empty_evidence (ps_evidence snap)"
  by (simp_all add: load_snapshot_def Let_def)

lemma load_snapshot_slots:
  "fs_slot_index (load_snapshot s snap) =
     fs_slot_index (foldl load_assignment (load_base s snap) (ps_assignments snap))"
  "fs_slots (load_snapshot s snap) =
     map (\<lambda>st. st\<lparr>ss_current := map_option (reconciled snap) (ss_current st)\<rparr>)
       (fs_slots (foldl load_assignment (load_base s snap) (ps_assignments snap)))"
proof -
  have upd_same: "st\<lparr>ss_current := c\<rparr> = st" if "ss_current st = c" for st :: SlotState and c
    using that by (cases st) simp
  have r: "reconcile_slot s' st = st\<lparr>ss_current := map_option (reconciled snap) (ss_current st)\<rparr>"
    if "interrupted snap" "fs_fenced_boots s' = ps_fenced_boots snap"
      "fs_pending_assignment s' = ps_pending_assignment snap" for s' st
  proof (cases "ss_current st")
    case None
    then show ?thesis by (simp add: reconcile_slot_def upd_same)
  next
    case (Some a)
    then show ?thesis using that by (simp add: reconcile_slot_def reconciled_def boot_fenced_def upd_same)
  qed
  have n: "st\<lparr>ss_current := map_option (reconciled snap) (ss_current st)\<rparr> = st" if "\<not> interrupted snap" for st
    using that by (cases "ss_current st") (simp_all add: reconciled_def upd_same)
  show "fs_slot_index (load_snapshot s snap) =
      fs_slot_index (foldl load_assignment (load_base s snap) (ps_assignments snap))"
    by (simp add: load_snapshot_def Let_def load_base_def)
  show "fs_slots (load_snapshot s snap) =
      map (\<lambda>st. st\<lparr>ss_current := map_option (reconciled snap) (ss_current st)\<rparr>)
        (fs_slots (foldl load_assignment (load_base s snap) (ps_assignments snap)))"
  proof (cases "interrupted snap")
    case True
    then show ?thesis
      by (simp add: load_snapshot_def Let_def load_base_def [symmetric] interrupted_def [symmetric] r)
        (simp add: load_base_def r)
  next
    case False
    then show ?thesis
      by (simp add: load_snapshot_def Let_def load_base_def [symmetric] interrupted_def [symmetric] n)
  qed
qed

lemma current_load_snapshot:
  "current_assignment (load_snapshot s snap) k =
     map_option (reconciled snap) (active_in (ps_assignments snap) k)"
proof -
  let ?s = "foldl load_assignment (load_base s snap) (ps_assignments snap)"
  have w: "wf_slots ?s" by (rule wf_slots_load_assignments [OF wf_slots_load_base])
  have "current_assignment (load_snapshot s snap) k = map_option (reconciled snap) (current_assignment ?s k)"
    using w by (auto simp: current_assignment_def find_slot_def load_snapshot_slots wf_slots_def split: option.split)
  moreover have "current_assignment (load_base s snap) k = None"
    by (simp add: current_assignment_def find_slot_def load_base_def)
  ultimately show ?thesis
    using current_load_assignments [OF wf_slots_load_base, of s snap "ps_assignments snap" k]
    by (simp split: option.split)
qed

section \<open>Reloading the stores\<close>

lemma reload_domains:
  assumes "distinct (map dd_id (reg_domains r @ ds))" and "id_null \<notin> set (map dd_id ds)"
  shows "foldl declare_domain r ds = r\<lparr>reg_domains := reg_domains r @ ds\<rparr>"
  using assms
proof (induction ds arbitrary: r)
  case (Cons d ds)
  then have "find_domain r (dd_id d) = None" by (auto simp: find_domain_None_iff)
  then have "declare_domain r d = r\<lparr>reg_domains := reg_domains r @ [d]\<rparr>"
    using Cons.prems by (auto simp: declare_domain_def id_is_null_iff)
  then show ?case using Cons.IH [of "r\<lparr>reg_domains := reg_domains r @ [d]\<rparr>"] Cons.prems by simp
qed simp

lemma reload_memberships:
  assumes "distinct (map (\<lambda>m. (dm_target m, dm_domain m)) (reg_memberships r @ ms))"
  shows "foldl set_membership r ms = r\<lparr>reg_memberships := reg_memberships r @ ms\<rparr>"
  using assms
proof (induction ms arbitrary: r)
  case (Cons m ms)
  then have "find_membership r (dm_target m, dm_domain m) = None"
    by (auto simp: find_membership_None_iff)
  then have "set_membership r m = r\<lparr>reg_memberships := reg_memberships r @ [m]\<rparr>"
    by (simp add: set_membership_def)
  then show ?case using Cons.IH [of "r\<lparr>reg_memberships := reg_memberships r @ [m]\<rparr>"] Cons.prems by simp
qed simp

lemma reload_registry:
  assumes "wf_registry r"
  shows "foldl set_membership (foldl declare_domain empty_registry (reg_domains r)) (reg_memberships r) = r"
proof -
  have "foldl declare_domain empty_registry (reg_domains r) =
      empty_registry\<lparr>reg_domains := reg_domains empty_registry @ reg_domains r\<rparr>"
    using assms by (intro reload_domains) (auto simp: wf_registry_def empty_registry_def)
  then show ?thesis
    using assms reload_memberships [of "empty_registry\<lparr>reg_domains := reg_domains r\<rparr>" "reg_memberships r"]
    by (simp add: wf_registry_def empty_registry_def)
qed

definition reloaded_entry :: "FailureEvent \<Rightarrow> EvidenceEntry" where
  "reloaded_entry e = \<lparr>ent_event = e, ent_cleared = (ev_status e = EvidenceStatus.CLEARED)\<rparr>"

lemma reload_evidence:
  assumes "wf_evidence es" and "distinct (map (ev_event_id \<circ> ent_event) (es_events es) @ map ev_event_id evs)"
  shows "es_events (foldl (\<lambda>es e. fst (ev_publish es e)) es evs) = es_events es @ map reloaded_entry evs \<and>
    wf_evidence (foldl (\<lambda>es e. fst (ev_publish es e)) es evs)"
  using assms
proof (induction evs arbitrary: es)
  case (Cons e evs)
  have "es_id_index es (ev_event_id e) = None"
  proof (rule ccontr)
    assume "es_id_index es (ev_event_id e) \<noteq> None"
    then obtain n where "n < length (es_events es)" "ev_event_id (ent_event (es_events es ! n)) = ev_event_id e"
      using Cons.prems(1) by (auto simp: wf_evidence_def)
    then have "ev_event_id e \<in> set (map (ev_event_id \<circ> ent_event) (es_events es))"
      unfolding in_set_conv_nth by (intro exI [of _ n]) simp
    then show False using Cons.prems(2) by auto
  qed
  then have ev: "es_events (fst (ev_publish es e)) = es_events es @ [reloaded_entry e]"
    by (simp add: ev_publish_def reloaded_entry_def)
  have "distinct (map (ev_event_id \<circ> ent_event) (es_events (fst (ev_publish es e))) @ map ev_event_id evs)"
    unfolding ev using Cons.prems(2) by (simp add: reloaded_entry_def comp_def)
  from Cons.IH [OF wf_ev_publish [OF Cons.prems(1)] this] show ?case unfolding ev by simp
qed simp

lemma wf_evidence_distinct:
  assumes "wf_evidence es"
  shows "distinct (map (ev_event_id \<circ> ent_event) (es_events es))"
proof (rule distinct_conv_nth [THEN iffD2], intro allI impI)
  fix i j assume ij: "i < length (map (ev_event_id \<circ> ent_event) (es_events es))"
    "j < length (map (ev_event_id \<circ> ent_event) (es_events es))" "i \<noteq> j"
  have "es_id_index es (ev_event_id (ent_event (es_events es ! n))) = Some n" if "n < length (es_events es)" for n
    using assms that by (simp add: wf_evidence_def)
  then show "map (ev_event_id \<circ> ent_event) (es_events es) ! i \<noteq> map (ev_event_id \<circ> ent_event) (es_events es) ! j"
    using ij by (metis comp_apply length_map nth_map option.inject)
qed

lemma reload_routes:
  assumes "list_all (\<lambda>r. sk_service (re_slot r) \<noteq> id_null) rs" and "distinct (map re_slot rs)"
    and "\<And>r. r \<in> set rs \<Longrightarrow> find_route t (re_slot r) = None"
  shows "find_route (foldl (\<lambda>t r. fst (rt_install t r)) t rs) k =
    (case List.find (\<lambda>r. re_slot r = k) rs of
       Some r \<Rightarrow> Some \<lparr>slr_current = r, slr_history = []\<rparr> | None \<Rightarrow> find_route t k)"
  using assms
proof (induction rs arbitrary: t)
  case (Cons r rs)
  have none: "find_route t (re_slot r) = None" using Cons.prems(3) by simp
  then have f: "find_route (fst (rt_install t r)) k' =
      (if k' = re_slot r then Some \<lparr>slr_current = r, slr_history = []\<rparr> else find_route t k')" for k'
    using Cons.prems(1) by (simp add: find_route_install route_accepts_def)
  have "find_route (fst (rt_install t r)) (re_slot q) = None" if "q \<in> set rs" for q
    using that Cons.prems(2,3) by (auto simp: f image_iff)
  then have IH: "find_route (foldl (\<lambda>t r. fst (rt_install t r)) (fst (rt_install t r)) rs) k =
      (case List.find (\<lambda>r. re_slot r = k) rs of
         Some r \<Rightarrow> Some \<lparr>slr_current = r, slr_history = []\<rparr> | None \<Rightarrow> find_route (fst (rt_install t r)) k)"
    using Cons.IH [of "fst (rt_install t r)"] Cons.prems(1,2) by simp
  show ?case
  proof (cases "k = re_slot r")
    case True
    then have "List.find (\<lambda>r. re_slot r = k) rs = None"
      using Cons.prems(2) by (auto simp: find_None_iff_none image_iff)
    then show ?thesis using IH True by (simp add: f)
  next
    case False
    then show ?thesis using IH by (simp add: f cong: option.case_cong)
  qed
qed simp

lemma loaded_route_blocks:
  "current_route (mark_revalidation_required t) k = Some r \<Longrightarrow> route_blocks_dispatch (re_state r)"
  by (cases "find_route t k"; cases "re_state (slr_current (the (find_route t k)))")
    (auto simp: current_route_def find_route_revalidate revalidate_entry_def live_state_def route_blocks_dispatch_def
      split: if_splits)

text \<open>A slot with a route in the snapshot has a route in the loaded table.\<close>

lemma loaded_route_present:
  assumes "list_all (\<lambda>r. re_state r \<noteq> RouteState.EMPTY) rs" and "r \<in> set rs" and "sk_service (re_slot r) \<noteq> id_null"
  shows "current_route (mark_revalidation_required (foldl (\<lambda>t r. fst (rt_install t r)) empty_routes rs)) (re_slot r) \<noteq> None"
proof -
  define good where "good = (\<lambda>t. \<forall>k sr. find_route t k = Some sr \<longrightarrow> re_state (slr_current sr) \<noteq> RouteState.EMPTY)"
  have step: "good (fst (rt_install t q))" if "good t" "re_state q \<noteq> RouteState.EMPTY" for t q
    using that by (auto simp: good_def find_route_install)
  have good: "good (foldl (\<lambda>t r. fst (rt_install t r)) t rs)" if "good t" for t
    using that assms(1) by (induction rs arbitrary: t) (auto simp: step)
  have keep: "find_route (foldl (\<lambda>t r. fst (rt_install t r)) t rs) k \<noteq> None" if "find_route t k \<noteq> None" for t k rs
    using that by (induction rs arbitrary: t) (simp_all add: find_route_install)
  have "find_route (foldl (\<lambda>t r. fst (rt_install t r)) t rs) (re_slot r) \<noteq> None" for t
    using assms(2)
  proof (induction rs arbitrary: t)
    case (Cons q rs)
    have "find_route (fst (rt_install t r)) (re_slot r) \<noteq> None"
      using assms(3) by (auto simp: find_route_install route_accepts_def split: option.splits)
    then show ?case using Cons keep by (cases "q = r") auto
  qed simp
  moreover have "good empty_routes" by (simp add: good_def find_route_def empty_routes_def)
  ultimately show ?thesis
    using good unfolding good_def
    by (fastforce simp: current_route_def find_route_revalidate revalidate_entry_def)
qed

lemma wf_reloaded_routes: "wf_routes t \<Longrightarrow> wf_routes (foldl (\<lambda>t r. fst (rt_install t r)) t rs)"
  by (induction rs arbitrary: t) (simp_all add: wf_rt_install)

lemma wf_reloaded_evidence: "wf_evidence es \<Longrightarrow> wf_evidence (foldl (\<lambda>es e. fst (ev_publish es e)) es evs)"
  by (induction evs arbitrary: es) (simp_all add: wf_ev_publish)

lemma wf_reloaded_registry:
  "wf_registry r \<Longrightarrow> wf_registry (foldl set_membership (foldl declare_domain r ds) ms)"
proof -
  assume r: "wf_registry r"
  then have "wf_registry (foldl declare_domain r ds)" by (induction ds arbitrary: r) (simp_all add: wf_declare_domain)
  then show ?thesis by (induction ms arbitrary: r ds rule: rev_induct) (simp_all add: wf_set_membership)
qed

lemma index_services_Some:
  assumes "distinct (map sd_service svcs)"
  shows "index_services svcs i = Some n \<longleftrightarrow> n < length svcs \<and> sd_service (svcs ! n) = i"
proof -
  have "foldl (\<lambda>m n. m(sd_service (svcs ! n) \<mapsto> n)) Map.empty [0..<j] i = Some n \<longleftrightarrow>
      n < j \<and> sd_service (svcs ! n) = i" if "j \<le> length svcs" for j
    using that
  proof (induction j)
    case (Suc j)
    have "sd_service (svcs ! n) \<noteq> sd_service (svcs ! j)" if "n < j" for n
      using assms Suc.prems that by (simp add: distinct_conv_nth)
    then show ?case using Suc by (auto simp: less_Suc_eq)
  qed simp
  then show ?thesis by (simp add: index_services_def)
qed

lemma reconciled_slot: "asg_slot (reconciled snap a) = asg_slot a"
  by (simp add: reconciled_def)

lemma wf_slots_load_snapshot: "wf_slots (load_snapshot s snap)"
proof -
  let ?s = "foldl load_assignment (load_base s snap) (ps_assignments snap)"
  have w: "wf_slots ?s" by (rule wf_slots_load_assignments [OF wf_slots_load_base])
  have "n < length (fs_slots ?s) \<and> ss_slot (fs_slots ?s ! n) = k" if "fs_slot_index ?s k = Some n" for k n
    using w that by (simp add: wf_slots_def)
  moreover have "asg_slot a = ss_slot st" if "st \<in> set (fs_slots ?s)" "ss_current st = Some a" for st a
    using w that by (simp add: wf_slots_def)
  ultimately show ?thesis
    unfolding wf_slots_def load_snapshot_slots by (simp add: map_option_case reconciled_slot split: option.split)
qed

section \<open>Properties\<close>

text \<open>
  C22. A restart invents no authority. Whatever a worker presents to the restarted coordinator,
  if the gate admits it then its epoch is the saved epoch, its boot is not among the saved fenced
  boots, it names an assignment that was saved as \<open>ACTIVE\<close> for that slot with the same
  generations and boot, the snapshot had no route for the slot (a saved route is unusable until
  it is revalidated), and no cutover with a pending replacement was interrupted.
\<close>

theorem restart_invents_no_authority:
  assumes "gd_allowed (authorize_dispatch (load_snapshot s snap) auth)"
    and "list_all (\<lambda>r. re_state r \<noteq> RouteState.EMPTY) (ps_routes snap)"
    and "sk_service (wa_slot auth) \<noteq> id_null"
  shows "wa_epoch auth = ps_epoch snap \<and> wa_worker_boot auth \<notin> set (ps_fenced_boots snap) \<and>
    (\<exists>a \<in> set (ps_assignments snap). asg_slot a = wa_slot auth \<and> asg_state a = AssignmentState.ACTIVE \<and>
       asg_id a = wa_assignment auth \<and> asg_generation a = wa_assignment_generation auth \<and>
       asg_route_generation a = wa_route_generation auth \<and> asg_worker_boot a = wa_worker_boot auth) \<and>
    wa_slot auth \<notin> re_slot ` set (ps_routes snap) \<and>
    \<not> (interrupted snap \<and> ps_pending_assignment snap \<noteq> None)"
proof -
  have h: "holds_authority (load_snapshot s snap) auth"
    using assms(1) by (simp add: authorize_dispatch_def dispatch_allowed_iff)
  then obtain cur where cur: "current_assignment (load_snapshot s snap) (wa_slot auth) = Some cur"
      "asg_state cur = AssignmentState.ACTIVE" "wa_assignment auth = asg_id cur"
      "wa_assignment_generation auth = asg_generation cur"
      "wa_route_generation auth = asg_route_generation cur" "wa_worker_boot auth = asg_worker_boot cur"
    by (auto simp: holds_authority_def)
  then obtain a where a: "active_in (ps_assignments snap) (wa_slot auth) = Some a" "cur = reconciled snap a"
    by (auto simp: current_load_snapshot)
  then have m: "a \<in> set (ps_assignments snap)" "asg_slot a = wa_slot auth" "asg_state a = AssignmentState.ACTIVE"
    using find_SomeD [of _ "rev (ps_assignments snap)" a] by (auto simp: active_in_def)
  have keep: "reconciled snap a = a" "\<not> (interrupted snap \<and> ps_pending_assignment snap \<noteq> None)"
    using cur(2) m(3) unfolding a(2) reconciled_def by (auto split: if_splits)
  have "wa_slot auth \<notin> re_slot ` set (ps_routes snap)"
  proof
    assume "wa_slot auth \<in> re_slot ` set (ps_routes snap)"
    then obtain r where r: "r \<in> set (ps_routes snap)" "re_slot r = wa_slot auth" by auto
    then obtain rt where rt: "current_route (fs_routes (load_snapshot s snap)) (wa_slot auth) = Some rt"
      using loaded_route_present [OF assms(2), of r] assms(3) by auto
    then have "route_blocks_dispatch (re_state rt)" using loaded_route_blocks by simp
    then show False using h rt by (simp add: holds_authority_def)
  qed
  then show ?thesis using h cur m keep a(2) by (auto simp: holds_authority_def)
qed

definition example_saved :: PersistenceSnapshot where
  "example_saved = (save_snapshot example_fabric)\<lparr>ps_routes := []\<rparr>"

theorem restart_invents_no_authority_witness:
  "gd_allowed (authorize_dispatch (load_snapshot (init_fabric default_RuntimeConfig) example_saved) example_auth) \<and>
   wa_epoch example_auth = ps_epoch example_saved"
proof -
  have a: "gd_allowed (authorize_dispatch (load_snapshot (init_fabric default_RuntimeConfig) example_saved) example_auth)"
    by code_simp
  have "list_all (\<lambda>r. re_state r \<noteq> RouteState.EMPTY) (ps_routes example_saved)" "sk_service (wa_slot example_auth) \<noteq> id_null"
    by (simp_all add: example_saved_def example_auth_def id_null_def)
  from restart_invents_no_authority [OF a this] a show ?thesis by blast
qed

lemma wf_ff_load:
  assumes "ff_load io ord fs path s = Inr s'" and "wf_tracker (fs_requests s)"
  shows "wf_fabric s'"
proof -
  obtain snap where snap: "load_file io ord fs path = Inr snap" "s' = load_snapshot s snap"
    using assms(1) by (auto simp: ff_load_def exn_simps)
  then have "distinct (map sd_service (ps_services snap))"
    by (auto simp: load_file_def decode_Inr_iff sound_snapshot_def split: option.splits ReadOutcome.splits)
  then have "wf_services s'" by (simp add: wf_services_def snap index_services_Some)
  moreover have "wf_slots s'"
    unfolding snap(2) by (rule wf_slots_load_snapshot)
  moreover have "wf_targets s'" by (simp add: wf_targets_def snap)
  moreover have "wf_stores s'"
    using assms(2) by (simp add: wf_stores_def snap wf_reloaded_evidence wf_reloaded_registry
        wf_mark_revalidation wf_reloaded_routes)
  ultimately show ?thesis by (simp add: wf_fabric_def)
qed

text \<open>
  Loading restores the representation invariant: whatever state the coordinator is in, after
  it loads a file that decodes, every index of the fabric points at the element it names and the
  stores are well formed.
\<close>

theorem load_restores_invariant:
  assumes "ff_load io ord fs path s = Inr s'" and "wf_tracker (fs_requests s)"
  shows "wf_fabric s'"
  using assms by (rule wf_ff_load)

theorem load_restores_invariant_witness:
  "\<exists>fs s'. ff_load ReadComplete LeftToRight fs ''state'' (init_fabric default_RuntimeConfig) = Inr s' \<and> wf_fabric s'"
proof (rule example_blob)
  fix blob assume b: "decode LeftToRight blob = Inr example_durable"
  have l: "ff_load ReadComplete LeftToRight [''state'' \<mapsto> blob] ''state'' (init_fabric default_RuntimeConfig) =
      Inr (load_snapshot (init_fabric default_RuntimeConfig) example_durable)"
    by (simp add: ff_load_def load_file_def b)
  have "wf_tracker (fs_requests (init_fabric default_RuntimeConfig))"
    using wf_init_fabric by (simp add: wf_fabric_def wf_stores_def)
  from load_restores_invariant [OF l this] l show ?thesis by blast
qed

text \<open>
  The states \<open>save\<close> can represent: every slot has one \<open>SlotState\<close>, which its index finds, and the
  history of a slot holds assignments of that slot that are no longer \<open>ACTIVE\<close>.
\<close>

definition restorable :: "FabricState \<Rightarrow> bool" where
  "restorable s \<longleftrightarrow> wf_fabric s \<and> distinct (map ss_slot (fs_slots s)) \<and>
     list_all (\<lambda>st. fs_slot_index s (ss_slot st) \<noteq> None \<and>
        list_all (\<lambda>a. asg_slot a = ss_slot st \<and> asg_state a \<noteq> AssignmentState.ACTIVE) (ss_history st)) (fs_slots s)"

lemma find_unique:
  assumes "x \<in> set xs" and "P x" and "\<And>y. y \<in> set xs \<Longrightarrow> P y \<Longrightarrow> y = x"
  shows "List.find P xs = Some x"
proof (cases "List.find P xs")
  case None
  then show ?thesis using assms(1,2) by (auto simp: find_None_iff_none)
next
  case (Some y)
  then show ?thesis using find_SomeD [OF Some] assms(3) by simp
qed

lemma saved_assignments:
  "set (ps_assignments (save_snapshot s)) =
     (\<Union>st \<in> set (fs_slots s). set_option (ss_current st) \<union> set (ss_history st))"
proof -
  have "set (case c of None \<Rightarrow> [] | Some a \<Rightarrow> [a]) = set_option c" for c :: "Assignment option"
    by (cases c) auto
  then show ?thesis by (simp add: save_snapshot_def)
qed

lemma restorable_find:
  assumes "restorable s" and st: "st \<in> set (fs_slots s)"
  shows "find_slot s (ss_slot st) = Some st"
proof -
  have wf: "wf_slots s" and d: "distinct (map ss_slot (fs_slots s))"
    using assms(1) by (auto simp: restorable_def wf_fabric_def)
  obtain n where n: "fs_slot_index s (ss_slot st) = Some n"
    using assms st unfolding restorable_def list_all_iff by blast
  then have "n < length (fs_slots s)" "ss_slot (fs_slots s ! n) = ss_slot st"
    using wf by (auto simp: wf_slots_def)
  moreover from this have "fs_slots s ! n \<in> set (fs_slots s)" by simp
  ultimately have "fs_slots s ! n = st" using d st unfolding distinct_map inj_on_def by blast
  then show ?thesis using n by (simp add: find_slot_def)
qed

lemma saved_active:
  assumes "restorable s"
  shows "asg_slot a = k \<and> asg_state a = AssignmentState.ACTIVE \<and> a \<in> set (ps_assignments (save_snapshot s)) \<longleftrightarrow>
    current_assignment s k = Some a \<and> asg_state a = AssignmentState.ACTIVE"
proof -
  have wf: "wf_slots s" using assms by (simp add: restorable_def wf_fabric_def)
  show ?thesis
  proof
    assume a: "asg_slot a = k \<and> asg_state a = AssignmentState.ACTIVE \<and> a \<in> set (ps_assignments (save_snapshot s))"
    then obtain st where st: "st \<in> set (fs_slots s)" "ss_current st = Some a \<or> a \<in> set (ss_history st)"
      unfolding saved_assignments by auto
    then have "ss_current st = Some a" using assms a by (auto simp: restorable_def list_all_iff)
    moreover from this have "ss_slot st = k" using wf st(1) a by (auto simp: wf_slots_def)
    ultimately show "current_assignment s k = Some a \<and> asg_state a = AssignmentState.ACTIVE"
      using restorable_find [OF assms st(1)] a by (simp add: current_assignment_def)
  next
    assume a: "current_assignment s k = Some a \<and> asg_state a = AssignmentState.ACTIVE"
    then obtain st where st: "find_slot s k = Some st" "ss_current st = Some a"
      by (auto simp: current_assignment_def split: option.splits)
    then have "st \<in> set (fs_slots s)" using wf by (auto simp: find_slot_def wf_slots_def)
    then show "asg_slot a = k \<and> asg_state a = AssignmentState.ACTIVE \<and> a \<in> set (ps_assignments (save_snapshot s))"
      unfolding saved_assignments using a st current_assignment_slot [OF wf] by auto
  qed
qed

lemma active_saved:
  assumes "restorable s"
  shows "active_in (ps_assignments (save_snapshot s)) k =
    (case current_assignment s k of
       Some a \<Rightarrow> if asg_state a = AssignmentState.ACTIVE then Some a else None | None \<Rightarrow> None)"
proof -
  note act = saved_active [OF assms, of _ k]
  show ?thesis
  proof (cases "\<exists>a. current_assignment s k = Some a \<and> asg_state a = AssignmentState.ACTIVE")
    case True
    then obtain a where a: "current_assignment s k = Some a" "asg_state a = AssignmentState.ACTIVE" by blast
    have "active_in (ps_assignments (save_snapshot s)) k = Some a"
      unfolding active_in_def
    proof (rule find_unique)
      show "y = a" if "y \<in> set (rev (ps_assignments (save_snapshot s)))"
        "asg_slot y = k \<and> asg_state y = AssignmentState.ACTIVE" for y
        using act [of y] a(1) that by simp
    qed (use act [of a] a in simp_all)
    then show ?thesis using a by simp
  next
    case False
    then have "active_in (ps_assignments (save_snapshot s)) k = None"
      unfolding active_in_def find_None_iff_none using act by auto
    then show ?thesis using False by (auto split: option.split)
  qed
qed

lemma reloaded_current_route:
  assumes "wf_routes t"
  shows "current_route (mark_revalidation_required (foldl (\<lambda>t r. fst (rt_install t r)) empty_routes (all_routes t))) k =
    map_option (\<lambda>r. r\<lparr>re_state := (if live_state (re_state r) then RouteState.REVALIDATION_REQUIRED else re_state r)\<rparr>)
      (current_route t k)"
proof -
  have d: "distinct (map re_slot (map slr_current (rt_current t)))"
    and n: "sk_service (re_slot (slr_current sr)) \<noteq> id_null" if "sr \<in> set (rt_current t)" for sr
    using assms that by (auto simp: wf_routes_def wf_slot_route_def comp_def)
  have d': "distinct (map re_slot (all_routes t))"
    using assms by (auto simp: all_routes_def wf_routes_def comp_def intro: distinct_map_filter)
  have f: "find_route (foldl (\<lambda>t r. fst (rt_install t r)) empty_routes (all_routes t)) k =
      (case List.find (\<lambda>r. re_slot r = k) (all_routes t) of
         Some r \<Rightarrow> Some \<lparr>slr_current = r, slr_history = []\<rparr> | None \<Rightarrow> find_route empty_routes k)"
    by (rule reload_routes) (use d' n in \<open>auto simp: all_routes_def list_all_iff find_route_def empty_routes_def\<close>)
  have "List.find (\<lambda>r. re_slot r = k) (all_routes t) = current_route t k"
  proof (cases "find_route t k")
    case None
    then have "List.find (\<lambda>r. re_slot r = k) (all_routes t) = None"
      by (auto simp: find_route_def all_routes_def find_None_iff_none)
    then show ?thesis using None by (simp add: current_route_def)
  next
    case (Some sr)
    note sr = find_route_slot [OF Some]
    have u: "sr' = sr" if "sr' \<in> set (rt_current t)" "slr_slot sr' = k" for sr'
      using assms that sr by (auto simp: wf_routes_def distinct_map dest: inj_onD)
    show ?thesis
    proof (cases "re_state (slr_current sr) = RouteState.EMPTY")
      case True
      then show ?thesis using Some u
        by (auto simp: current_route_def all_routes_def find_None_iff_none)
    next
      case False
      then have "List.find (\<lambda>r. re_slot r = k) (all_routes t) = Some (slr_current sr)"
        using sr u by (intro find_unique) (auto simp: all_routes_def)
      then show ?thesis using Some False by (simp add: current_route_def)
    qed
  qed
  moreover have "find_route empty_routes k = None" by (simp add: find_route_def empty_routes_def)
  ultimately have g: "find_route (foldl (\<lambda>t r. fst (rt_install t r)) empty_routes (all_routes t)) k =
      map_option (\<lambda>r. \<lparr>slr_current = r, slr_history = []\<rparr>) (current_route t k)"
    unfolding f by (cases "current_route t k") simp_all
  have "re_state r \<noteq> RouteState.EMPTY" if "current_route t k = Some r" for r
    using that by (auto simp: current_route_def split: option.splits if_splits)
  then show ?thesis
    unfolding current_route_def [of "mark_revalidation_required _"] find_route_revalidate g
    by (cases "current_route t k") (simp_all add: revalidate_entry_def)
qed

text \<open>
  A restart restores what was durable. Saving a fabric and loading the snapshot, into
  whatever fabric, gives back the services, the epoch, the authority generation, the fenced
  boots, the failure domains and the failure events; the current assignment of every slot that
  was \<open>ACTIVE\<close>, reconciled if a cutover was interrupted; and the current route of every slot,
  with every usable route marked as requiring revalidation.
\<close>

lemma restart_restores:
  assumes "restorable s"
  shows "let snap = save_snapshot s; s' = load_snapshot s0 snap in
    fs_services s' = fs_services s \<and> fs_epoch s' = fs_epoch s \<and>
    fs_last_authority_gen s' = fs_last_authority_gen s \<and> fs_fenced_boots s' = fs_fenced_boots s \<and>
    fs_domains s' = fs_domains s \<and> all_evidence (fs_evidence s') = all_evidence (fs_evidence s) \<and>
    (\<forall>k. current_assignment s' k =
       (case current_assignment s k of None \<Rightarrow> None
        | Some a \<Rightarrow> if asg_state a = AssignmentState.ACTIVE then Some (reconciled snap a) else None)) \<and>
    (\<forall>k. current_route (fs_routes s') k =
       map_option (\<lambda>r. r\<lparr>re_state := (if live_state (re_state r) then RouteState.REVALIDATION_REQUIRED
                                       else re_state r)\<rparr>) (current_route (fs_routes s) k))"
proof -
  have st: "wf_evidence (fs_evidence s)" "wf_registry (fs_domains s)" "wf_routes (fs_routes s)"
    using assms by (auto simp: restorable_def wf_fabric_def wf_stores_def)
  have snap: "ps_services (save_snapshot s) = fs_services s" "ps_epoch (save_snapshot s) = fs_epoch s"
    "ps_last_authority_gen (save_snapshot s) = fs_last_authority_gen s"
    "ps_fenced_boots (save_snapshot s) = fs_fenced_boots s"
    "ps_domains (save_snapshot s) = reg_domains (fs_domains s)"
    "ps_memberships (save_snapshot s) = reg_memberships (fs_domains s)"
    "ps_evidence (save_snapshot s) = all_evidence (fs_evidence s)"
    "ps_routes (save_snapshot s) = all_routes (fs_routes s)"
    by (simp_all add: save_snapshot_def)
  have "all_evidence (foldl (\<lambda>es e. fst (ev_publish es e)) empty_evidence (all_evidence (fs_evidence s))) =
      all_evidence (fs_evidence s)"
    using reload_evidence [of empty_evidence "all_evidence (fs_evidence s)"] wf_evidence_distinct [OF st(1)]
    by (simp add: all_evidence_def reloaded_entry_def comp_def empty_evidence_def [THEN arg_cong [of _ _ es_events]])
  then show ?thesis
    by (simp add: Let_def snap reload_registry st reloaded_current_route current_load_snapshot active_saved [OF assms]
        split: option.split)
qed

lemma restorable_example: "restorable example_fabric"
proof -
  have "distinct (map ss_slot (fs_slots example_fabric)) \<and>
     list_all (\<lambda>st. fs_slot_index example_fabric (ss_slot st) \<noteq> None \<and>
        list_all (\<lambda>a. asg_slot a = ss_slot st \<and> asg_state a \<noteq> AssignmentState.ACTIVE) (ss_history st))
       (fs_slots example_fabric)"
    by code_simp
  then show ?thesis by (simp add: restorable_def wf_example_fabric)
qed

end
