(* ===== verification/Checkpoint.thy ===== *)
theory Checkpoint
  imports Cutover_Theorems Restart
begin

text \<open>
  The checkpoint file of a cutover and the restart from it: every snapshot that \<open>execute_plan\<close>
  writes records an interrupted cutover, so a coordinator that restarts from the file admits
  nobody until a fresh recovery. The locale states what a predicate on the files needs in order
  to hold after a whole attempt: the adapter calls and the writes of such snapshots keep it.
\<close>

section \<open>Snapshots of an interrupted cutover\<close>

definition blocking :: "PersistenceSnapshot \<Rightarrow> bool" where
  "blocking snap \<longleftrightarrow> interrupted snap \<and> ps_pending_assignment snap \<noteq> None"

lemma blocking_denies:
  assumes "blocking snap"
  shows "\<not> gd_allowed (authorize_dispatch (load_snapshot s snap) auth)"
proof -
  have "asg_state (reconciled snap a) \<noteq> AssignmentState.ACTIVE" for a
    using assms by (simp add: reconciled_def blocking_def)
  then have "asg_state cur \<noteq> AssignmentState.ACTIVE"
    if "current_assignment (load_snapshot s snap) k = Some cur" for k cur
    using that by (auto simp: current_load_snapshot)
  then show ?thesis by (auto simp: authorize_dispatch_def dispatch_allowed_iff holds_authority_def)
qed

lemma blocking_record:
  assumes "m < Milestone.VERIFICATION_COMPLETE"
  shows "blocking (save_snapshot (record_txn m tx rt s))"
  using assms by (simp add: blocking_def interrupted_def save_snapshot_def record_txn_def)

lemma milestones_below [simp]:
  "Milestone.INTENT_ONLY < Milestone.VERIFICATION_COMPLETE"
  "Milestone.OLD_ADMISSION_FENCED < Milestone.VERIFICATION_COMPLETE"
  "Milestone.ACTIVATION_ACKNOWLEDGED < Milestone.VERIFICATION_COMPLETE"
  "Milestone.ROUTE_INSTALLED < Milestone.VERIFICATION_COMPLETE"
  by code_simp+

section \<open>Attempts and the files they write\<close>

definition keeps_joint :: "('w \<times> FabricState \<Rightarrow> bool) \<Rightarrow> ('w, 'a) prog \<Rightarrow> bool" where
  "keeps_joint J m \<longleftrightarrow> (\<forall>\<sigma>. J \<sigma> \<longrightarrow> J (fst (m \<sigma>)))"

lemma keeps_joint_and_then:
  assumes "keeps_joint J m" and "\<And>a. keeps_joint J (f a)"
  shows "keeps_joint J (and_then m f)"
  using assms unfolding keeps_joint_def and_then_def
  by (auto split: prod.split sum.split) (metis fst_conv)+

definition writing :: "string \<Rightarrow> ('w \<Rightarrow> bool) \<Rightarrow> 'w \<times> FabricState \<Rightarrow> bool" where
  "writing path Q \<sigma> \<longleftrightarrow> Q (fst \<sigma>) \<and> fs_checkpoint_path (snd \<sigma>) = path"

text \<open>No region of the transaction changes the checkpoint path.\<close>

lemma path_frame [simp, frame_simps]:
  "fs_checkpoint_path (push_attempt s st) = fs_checkpoint_path s"
  "fs_checkpoint_path (add_fenced_boot s b) = fs_checkpoint_path s"
  "fs_checkpoint_path (fst (finish s r st why)) = fs_checkpoint_path s"
  "fs_checkpoint_path (record_txn m tx rt s) = fs_checkpoint_path s"
  by (simp_all add: push_attempt_def add_fenced_boot_def finish_def record_txn_def)

lemma path_begin:
  "fs_checkpoint_path (fst (begin_attempt p s)) = fs_checkpoint_path s"
  "fs_barrier_milestone (fst (begin_attempt p s)) = fs_barrier_milestone s"
proof -
  have "fs_checkpoint_path s1 = fs_checkpoint_path s \<and> fs_barrier_milestone s1 = fs_barrier_milestone s"
    if "snapshot_locked s k = Inr (s1, snap)" for k s1 snap
    using snapshot_locked_state [OF that] by auto
  then show "fs_checkpoint_path (fst (begin_attempt p s)) = fs_checkpoint_path s"
    "fs_barrier_milestone (fst (begin_attempt p s)) = fs_barrier_milestone s"
    by (auto simp: begin_attempt_def finish_def Let_def push_attempt_def split: sum.split option.split prod.split)
qed

lemma path_regions:
  "fs_checkpoint_path (fst (after_fence fo tx s)) = fs_checkpoint_path s"
  "fs_checkpoint_path (fst (after_activate ao tx s)) = fs_checkpoint_path s"
  "fs_checkpoint_path (fst (after_route ro re tx s)) = fs_checkpoint_path s"
  by (simp_all add: after_fence_def after_activate_def after_route_def Let_def split: option.split)

lemma path_commit: "fs_checkpoint_path (fst (commit vo now tx s)) = fs_checkpoint_path s"
  by (auto simp: commit_def commit_position_def Let_def finish_def split: prod.split option.split)

locale checkpoint_writer =
  fixes env :: "'w CutoverEnv" and path :: string and Q :: "'w \<Rightarrow> bool"
  assumes no_interference: "env_yield env = (\<lambda>\<sigma>. \<sigma>)"
    and keep_fence_call: "Q w \<Longrightarrow> Q (snd (env_fence_old env old boot w))"
    and keep_activate_call: "Q w \<Longrightarrow> Q (snd (env_activate env c auth g w))"
    and keep_route_call: "Q w \<Longrightarrow> Q (snd (env_install_route env re gw w))"
    and keep_verify_call: "Q w \<Longrightarrow> Q (snd (env_verify env re auth w))"
    and keep_save: "Q w \<Longrightarrow> blocking snap \<Longrightarrow> Q (fst (env_save_file env path snap w))"
begin

lemma J_locked:
  assumes "\<And>s. fs_checkpoint_path (fst (f s)) = fs_checkpoint_path s"
  shows "keeps_joint (writing path Q) (locked env f)"
  using assms by (auto simp: keeps_joint_def writing_def locked_def no_interference split: prod.split) (metis fst_conv)

lemma J_checkpoint:
  assumes "m < Milestone.VERIFICATION_COMPLETE"
  shows "keeps_joint (writing path Q) (checkpoint env m rt tx)"
  unfolding keeps_joint_def
proof (intro allI impI)
  fix \<sigma> assume j: "writing path Q \<sigma>"
  have "Q (fst (save_checkpoint env (fst \<sigma>, record_txn m tx rt (snd \<sigma>))))"
    using j keep_save [OF _ blocking_record [OF assms]]
    by (auto simp: save_checkpoint_def writing_def record_txn_def)
  then show "writing path Q (fst (checkpoint env m rt tx \<sigma>))"
    using j by (auto simp: checkpoint_def and_then_def locked_def no_interference stop_at_barrier_def Let_def writing_def
        record_txn_def split: prod.split sum.split)
qed

lemmas keep_calls = keep_fence_call keep_activate_call keep_route_call keep_verify_call

lemma J_calls:
  "keeps_joint (writing path Q) (call_fence env tx)" "keeps_joint (writing path Q) (call_activate env tx auth)"
  "keeps_joint (writing path Q) (call_install_route env re)" "keeps_joint (writing path Q) (call_verify env re auth)"
  using keep_calls
  by (auto simp: keeps_joint_def writing_def call_fence_def call_activate_def call_install_route_def
      call_verify_def ext_call_def no_interference split: option.split prod.split sum.split) (metis snd_conv)+

lemma J_phases:
  "keeps_joint (writing path Q) (fence_phase env tx)"
  "keeps_joint (writing path Q) (activate_phase env auth tx)"
  "keeps_joint (writing path Q) (route_phase env re tx)"
  "keeps_joint (writing path Q) (begin_phase env p)"
  unfolding fence_phase_def activate_phase_def route_phase_def begin_phase_def
  by (intro keeps_joint_and_then J_calls J_locked J_checkpoint path_regions path_begin(1) milestones_below)+

lemma J_verify_phase: "keeps_joint (writing path Q) (verify_phase env re auth tx)"
  unfolding verify_phase_def
proof (rule keeps_joint_and_then [OF J_calls(4)])
  fix vo
  have "keeps_joint (writing path Q) (locked env (commit vo now tx))" for now
    by (rule J_locked) (rule path_commit)
  then show "keeps_joint (writing path Q) (\<lambda>\<sigma>. locked env (commit vo (env_now env (fst \<sigma>)) tx) \<sigma>)"
    unfolding keeps_joint_def by blast
qed

lemma J_from_verify: "keeps_joint (writing path Q) (from_verify env re auth t0 tx)"
  unfolding from_verify_def by (rule keeps_joint_and_then [OF J_verify_phase]) (simp add: keeps_joint_def)

lemma J_from_route: "keeps_joint (writing path Q) (from_route env auth t0 tx)"
proof -
  have "keeps_joint (writing path Q) (and_then (route_phase env re tx) (from_verify env re auth t0))" for re
    by (rule keeps_joint_and_then [OF J_phases(3)]) (rule J_from_verify)
  then show ?thesis unfolding keeps_joint_def from_route_def Let_def by blast
qed

lemma J_from_activate: "keeps_joint (writing path Q) (from_activate env t0 tx)"
proof -
  have "keeps_joint (writing path Q) (and_then (activate_phase env auth tx) (from_route env auth t0))" for auth
    by (rule keeps_joint_and_then [OF J_phases(2)]) (rule J_from_route)
  then show ?thesis unfolding keeps_joint_def from_activate_def Let_def by blast
qed

lemma J_from_fence: "keeps_joint (writing path Q) (from_fence env tx)"
proof -
  have "keeps_joint (writing path Q) (and_then (fence_phase env tx) (from_activate env t0))" for t0
    by (rule keeps_joint_and_then [OF J_phases(1)]) (rule J_from_activate)
  then show ?thesis unfolding keeps_joint_def from_fence_def by blast
qed

lemma J_run_attempt: "keeps_joint (writing path Q) (run_attempt env p)"
  unfolding run_attempt_def by (rule keeps_joint_and_then [OF J_phases(4)]) (rule J_from_fence)

lemma execute_plan_writes:
  assumes "execute_plan env p (w, s) = ((w', s'), res)" and "Q w" and "fs_checkpoint_path s = path"
  shows "Q w'"
proof -
  have "writing path Q (fst (run_attempt env p (w, s)))"
    using J_run_attempt assms(2,3) by (auto simp: keeps_joint_def writing_def)
  moreover have "fst (run_attempt env p (w, s)) = (w', s')"
    using assms(1) by (auto simp: execute_plan_def split: prod.splits sum.splits exit.splits)
  ultimately show ?thesis by (simp add: writing_def)
qed

text \<open>
  An attempt that is admitted and does not throw has written its first checkpoint; when that
  write establishes \<open>Q\<close>, it holds at the end, whatever was there before.
\<close>

lemma admitted_plan_writes:
  assumes "execute_plan env p (w, s) = ((w', s'), Inr r)" and "snd (begin_attempt p s) = Inr tx"
    and "fs_checkpoint_path s = path" and "path \<noteq> []"
    and "\<And>snap w1. blocking snap \<Longrightarrow> env_save_file env path snap w = (w1, Inr ()) \<Longrightarrow> Q w1"
  shows "Q w'"
proof -
  define s1 where "s1 = record_txn Milestone.INTENT_ONLY tx None (fst (begin_attempt p s))"
  have s1: "fs_checkpoint_path s1 = path" using assms(3) by (simp add: s1_def path_begin)
  obtain w1 y where save: "env_save_file env path (save_snapshot s1) w = (w1, y)" by fastforce
  have b: "begin_phase env p (w, s) = stop_at_barrier env Milestone.INTENT_ONLY tx (w, s1)"
    using assms(2) by (simp add: begin_phase_def checkpoint_def and_then_def locked_def no_interference split_beta s1_def)
  obtain x where run: "run_attempt env p (w, s) = ((w', s'), x)" and x: "\<And>e. x \<noteq> Inl (Threw e)"
    using assms(1) by (auto simp: execute_plan_def split: prod.splits sum.splits exit.splits)
  then have "y = Inr ()"
    using save s1 assms(4) b
    by (cases y) (auto simp: run_attempt_def and_then_def stop_at_barrier_def save_checkpoint_def no_interference)
  have "blocking (save_snapshot s1)" unfolding s1_def by (rule blocking_record) simp
  then have Q1: "Q w1" by (rule assms(5)) (simp add: save \<open>y = Inr ()\<close>)
  have "(w', s') = (w1, s1) \<or> (\<exists>x. from_fence env tx (w1, s1) = ((w', s'), x))"
    using run save s1 assms(4) b \<open>y = Inr ()\<close>
    by (auto simp: run_attempt_def and_then_def stop_at_barrier_def Let_def save_checkpoint_def no_interference split: if_splits)
  then show ?thesis
    using Q1 s1 J_from_fence [of tx] by (auto simp: keeps_joint_def writing_def) (metis fst_conv snd_conv)
qed

end

section \<open>Checkpoints in a file system\<close>

text \<open>
  The world is the file system and whatever else there is. The core writes its checkpoints with
  \<open>save_file\<close>, and the rest of the world decides anew at each write how it fares.
\<close>

definition file_env :: "('x \<Rightarrow> WriteOutcome \<times> 'x) \<Rightarrow> (files \<times> 'x) CutoverEnv \<Rightarrow> (files \<times> 'x) CutoverEnv" where
  "file_env fate env = serial_env (env\<lparr>env_save_file := (\<lambda>path snap (fs, x).
     case fate x of (io, x') \<Rightarrow> (case save_file io fs path snap of (fs', r) \<Rightarrow> ((fs', x'), r)))\<rparr>)"

text \<open>The adapter leaves the file alone.\<close>

definition leaves_file :: "(files \<times> 'x) CutoverEnv \<Rightarrow> string \<Rightarrow> bool" where
  "leaves_file env path \<longleftrightarrow>
     (\<forall>w old boot. fst (snd (env_fence_old env old boot w)) path = fst w path) \<and>
     (\<forall>w c auth g. fst (snd (env_activate env c auth g w)) path = fst w path) \<and>
     (\<forall>w re gw. fst (snd (env_install_route env re gw w)) path = fst w path) \<and>
     (\<forall>w re auth. fst (snd (env_verify env re auth w)) path = fst w path)"

text \<open>The path holds nothing, its old content, or the checkpoint of an interrupted cutover.\<close>

definition holds_checkpoint :: "bytes option \<Rightarrow> string \<Rightarrow> files \<times> 'x \<Rightarrow> bool" where
  "holds_checkpoint old path w \<longleftrightarrow>
     (\<forall>blob. fst w path = Some blob \<longrightarrow> old = Some blob \<or> (\<exists>snap. encode snap = Inr blob \<and> blocking snap))"

lemma save_file_checkpoint:
  assumes "save_file io fs path snap = (fs', r)" and "blocking snap"
  shows "holds_checkpoint old path (fs, x) \<Longrightarrow> holds_checkpoint old path (fs', x')"
    and "r = Inr () \<Longrightarrow> holds_checkpoint old path (fs', x')"
proof -
  have "path \<noteq> tmp_path path" by (simp add: tmp_path_def)
  then show "holds_checkpoint old path (fs, x) \<Longrightarrow> holds_checkpoint old path (fs', x')"
    "r = Inr () \<Longrightarrow> holds_checkpoint old path (fs', x')"
    using assms
    by (auto simp: holds_checkpoint_def save_file_def Let_def split: sum.splits option.splits if_splits)
qed

lemma file_writer:
  assumes "leaves_file env path"
  shows "checkpoint_writer (file_env fate env) path (holds_checkpoint old path)"
proof
  show "holds_checkpoint old path (fst (env_save_file (file_env fate env) path snap w))"
    if "holds_checkpoint old path w" "blocking snap" for w snap
    using that by (auto simp: file_env_def split: prod.split intro: save_file_checkpoint(1))
qed (use assms in \<open>simp_all add: file_env_def leaves_file_def holds_checkpoint_def del: split_paired_All\<close>)

text \<open>An adapter that succeeds and touches no file.\<close>

definition quiet_env :: "(files \<times> unit) CutoverEnv" where
  "quiet_env = \<lparr>env_fence_old = (\<lambda>_ _ fs. (Inr (default_FenceOutcome\<lparr>fo_applied := True\<rparr>), fs)),
     env_activate = (\<lambda>_ _ _ fs. (Inr \<lparr>ao_acknowledged = True, ao_activation_note = [], ao_detail = []\<rparr>, fs)),
     env_install_route = (\<lambda>re _ fs. (Inr \<lparr>ro_acknowledged = True, ro_route = re_route re,
        ro_generation = re_generation re, ro_detail = []\<rparr>, fs)),
     env_verify = (\<lambda>_ _ fs. (Inr \<lparr>vo_verified = True, vo_result = [], vo_ambiguous = False, vo_detail = []\<rparr>, fs)),
     env_save_file = (\<lambda>_ _ fs. (fs, Inr ())), env_now = (\<lambda>_. 0), env_yield = (\<lambda>\<sigma>. \<sigma>)\<rparr>"

lemma quiet_leaves_file: "leaves_file quiet_env path"
  by (simp add: leaves_file_def quiet_env_def)

interpretation quiet_files: checkpoint_writer "file_env fate quiet_env" path "holds_checkpoint old path"
  by (rule file_writer [OF quiet_leaves_file])

section \<open>Properties\<close>

text \<open>
  C24. A coordinator that restarts from the checkpoint of a cutover admits nobody. Take an
  attempt that runs without interference by other threads, with a checkpoint path set and an
  adapter that leaves the file at that path alone, while each write of the file may fare
  differently. If there is a file at the path afterwards, then it holds the encoding of a
  snapshot from which any restarted coordinator refuses every authorization: the fenced
  authority is not revived and the pending replacement is not promoted. The one exception is a
  file that was there before with the same content, and that only if the attempt was refused
  before its first checkpoint or threw. When the snapshot is durable, \<open>load\<close> reads it back, with
  constructor arguments evaluated from left to right and a complete read.
\<close>

theorem checkpoint_restart_admits_nobody:
  assumes "leaves_file env path" and "fs_checkpoint_path s = path" and "path \<noteq> []"
    and "execute_plan (file_env fate env) p ((fs, x), s) = (((fs', x'), s'), res)" and "fs' path = Some blob"
  shows "fs path = Some blob \<and> (isl (snd (begin_attempt p s)) \<or> isl res) \<or>
    (\<exists>snap. encode snap = Inr blob \<and>
      (\<forall>s0 auth. \<not> gd_allowed (authorize_dispatch (load_snapshot s0 snap) auth)) \<and>
      (\<forall>s0. durable snap \<and> length blob \<le> 2 ^ 30 + 28 \<longrightarrow>
         ff_load ReadComplete LeftToRight fs' path s0 = Inr (load_snapshot s0 snap)))"
proof -
  note writer = file_writer [OF assms(1), of fate]
  have "holds_checkpoint (fs path) path (fs', x')"
    using checkpoint_writer.execute_plan_writes [OF writer assms(4) _ assms(2)] by (simp add: holds_checkpoint_def)
  moreover have "holds_checkpoint None path (fs', x')" if ok: "\<not> isl (snd (begin_attempt p s))" "\<not> isl res"
  proof -
    obtain tx r where b: "snd (begin_attempt p s) = Inr tx" "res = Inr r" using ok by (metis sum.collapse(2))
    show ?thesis
    proof (rule checkpoint_writer.admitted_plan_writes [OF writer assms(4) [unfolded b(2)] b(1) assms(2,3)])
      fix snap w1
      assume "blocking snap" and "env_save_file (file_env fate env) path snap (fs, x) = (w1, Inr ())"
      then show "holds_checkpoint None path w1"
        by (auto simp: file_env_def split: prod.splits intro: save_file_checkpoint(2))
    qed
  qed
  ultimately consider "fs path = Some blob" "isl (snd (begin_attempt p s)) \<or> isl res"
    | snap where "encode snap = Inr blob" "blocking snap"
    using assms(5) unfolding holds_checkpoint_def by (metis fst_conv option.distinct(1))
  then show ?thesis
  proof cases
    case (2 snap)
    then show ?thesis
      using assms(5) blocking_denies decode_encoded [OF 2(1)]
      by (intro disjI2 exI [of _ snap]) (auto simp: ff_load_def load_file_def)
  qed simp
qed

text \<open>A file system in which every call succeeds and the path already holds a file.\<close>

abbreviation lucky_env :: "(files \<times> unit) CutoverEnv" where
  "lucky_env \<equiv> file_env (\<lambda>_. (all_io_ok, ())) quiet_env"

abbreviation old_files :: files where
  "old_files \<equiv> [''ckpt'' \<mapsto> []]"

definition example_interrupted :: FabricState where
  "example_interrupted = set_cutover_barrier (set_checkpoint_path example_fabric ''ckpt'') Milestone.INTENT_ONLY"

lemma durable_record:
  assumes "valid_payload ((save_snapshot s)\<lparr>ps_has_txn := False, ps_txn_milestone := Milestone.VERIFICATION_COMPLETE,
      ps_pending_assignment := None, ps_source_assignment := None, ps_pending_route := None\<rparr>)"
    and "sound_snapshot (save_snapshot s)" and "valid_assign (tx_new tx)"
    and "asg_state (tx_new tx) = AssignmentState.AUTHORIZED" and "list_all valid_assign (case_option [] (\<lambda>a. [a]) (tx_old tx))"
  shows "durable (save_snapshot (record_txn m tx None s))"
  using assms
  by (auto simp: durable_def valid_payload_def sound_snapshot_def valid_txn_def save_snapshot_def record_txn_def
      split: option.splits)

lemma example_interrupted_begins:
  "case begin_attempt example_plan example_interrupted of (s, r) \<Rightarrow>
     valid_payload ((save_snapshot s)\<lparr>ps_has_txn := False, ps_txn_milestone := Milestone.VERIFICATION_COMPLETE,
       ps_pending_assignment := None, ps_source_assignment := None, ps_pending_route := None\<rparr>) \<and>
     sound_snapshot (save_snapshot s)"
  "case snd (begin_attempt example_plan example_interrupted) of Inl _ \<Rightarrow> False
   | Inr tx \<Rightarrow> valid_assign (tx_new tx) \<and> asg_state (tx_new tx) = AssignmentState.AUTHORIZED"
  "case snd (begin_attempt example_plan example_interrupted) of Inl _ \<Rightarrow> False
   | Inr tx \<Rightarrow> list_all valid_assign (case_option [] (\<lambda>a. [a]) (tx_old tx))"
  by code_simp+

lemma example_interrupted_writes:
  obtains fs' s' r blob where
    "execute_plan lucky_env example_plan ((old_files, ()), example_interrupted) = (((fs', ()), s'), Inr r)"
    "ar_state r = AttemptState.RECOVERY_REQUIRED" "fs' ''ckpt'' = Some blob"
proof -
  obtain s tx where s: "begin_attempt example_plan example_interrupted = (s, Inr tx)"
    "durable (save_snapshot (record_txn Milestone.INTENT_ONLY tx None s))"
    using example_interrupted_begins durable_record by (fastforce split: prod.splits sum.splits)
  have path: "fs_checkpoint_path s = ''ckpt''" and "fs_barrier_milestone s = Milestone.INTENT_ONLY"
    using path_begin [of example_plan example_interrupted] s(1)
    by (simp_all add: example_interrupted_def set_cutover_barrier_def set_checkpoint_path_def)
  then have b: "fs_barrier_milestone (record_txn Milestone.INTENT_ONLY tx None s) = Milestone.INTENT_ONLY"
    by (simp add: record_txn_def)
  obtain blob where blob: "encode (save_snapshot (record_txn Milestone.INTENT_ONLY tx None s)) = Inr blob"
    using encode_durable s(2) by blast
  have sv: "save_file all_io_ok old_files ''ckpt'' (save_snapshot (record_txn Milestone.INTENT_ONLY tx None s)) =
      (old_files(''ckpt'' \<mapsto> blob, tmp_path ''ckpt'' := None), Inr ())"
    by (auto simp: save_file_def blob all_io_ok_def Let_def tmp_path_def)
  have "run_attempt lucky_env example_plan ((old_files, ()), example_interrupted) =
      (((old_files(''ckpt'' \<mapsto> blob, tmp_path ''ckpt'' := None), ()), record_txn Milestone.INTENT_ONLY tx None s),
       Inl (Returned ((tx_result tx)\<lparr>ar_state := AttemptState.RECOVERY_REQUIRED,
         ar_detail := ''cutover interrupted at '' @ to_string_Milestone Milestone.INTENT_ONLY @ '' (checkpointed)''\<rparr>)))"
    by (simp add: run_attempt_def begin_phase_def and_then_def locked_def checkpoint_def stop_at_barrier_def Let_def
        save_checkpoint_def file_env_def s path sv b)
  then show ?thesis
    using that by (simp add: execute_plan_def tmp_path_def)
qed

theorem checkpoint_restart_admits_nobody_witness:
  "\<exists>fs' s' r blob snap.
     execute_plan lucky_env example_plan ((old_files, ()), example_interrupted) = (((fs', ()), s'), Inr r) \<and>
     ar_state r = AttemptState.RECOVERY_REQUIRED \<and> fs' ''ckpt'' = Some blob \<and> encode snap = Inr blob \<and>
     \<not> gd_allowed (authorize_dispatch (load_snapshot (init_fabric default_RuntimeConfig) snap) example_auth)"
proof (rule example_interrupted_writes)
  fix fs' s' r blob
  assume x: "execute_plan lucky_env example_plan ((old_files, ()), example_interrupted) = (((fs', ()), s'), Inr r)"
    and r: "ar_state r = AttemptState.RECOVERY_REQUIRED" and b: "fs' ''ckpt'' = Some blob"
  have "fs_checkpoint_path example_interrupted = ''ckpt''"
    by (simp add: example_interrupted_def set_cutover_barrier_def set_checkpoint_path_def)
  moreover have "\<not> isl (snd (begin_attempt example_plan example_interrupted))"
    using example_interrupted_begins(2) by (auto split: sum.splits)
  ultimately show ?thesis
    using checkpoint_restart_admits_nobody [OF quiet_leaves_file _ _ x b] x r b by auto
qed

end
