(* ===== verification/Crc.thy ===== *)
theory Crc
  imports Codec
begin

text \<open>
  The CRC-32 of \<^verbatim>\<open>protocol.cpp\<close>, which \<^verbatim>\<open>worker_main.cpp\<close> repeats for its checkpoint files, computed
  bit by bit over a 32-bit register. The register step is linear and injective, so four
  consecutive bytes act on the register like one injective function of the 32-bit word they
  form: a message followed by its checksum always leaves the same residue, and no change that
  is confined to four consecutive bytes keeps it.
\<close>

section \<open>The checksum\<close>

definition crc_bit :: "u32 \<Rightarrow> u32" where
  "crc_bit crc = xor (drop_bit 1 crc) (and 0xEDB88320 (not (and crc 1 - 1)))"

definition crc_byte :: "u32 \<Rightarrow> u8 \<Rightarrow> u32" where
  "crc_byte crc b = (crc_bit ^^ 8) (xor crc (ucast b))"

definition crc32 :: "bytes \<Rightarrow> u32" where
  "crc32 p = not (foldl crc_byte 0xFFFFFFFF p)"

section \<open>The register step\<close>

lemma word_xor_inject: "xor a b = xor a c \<Longrightarrow> b = c" "xor b a = xor c a \<Longrightarrow> b = c" for a b c :: "'a::len word"
proof -
  show r: "xor a b = xor a c \<Longrightarrow> b = c"
    by (metis xor.assoc xor_self_eq xor.left_neutral)
  show "xor b a = xor c a \<Longrightarrow> b = c"
    by (metis r xor.commute)
qed

lemma crc_bit_cases: "crc_bit c = (if bit c 0 then xor (drop_bit 1 c) 0xEDB88320 else drop_bit 1 c)"
proof -
  have "and c 1 = (if bit c 0 then 1 else 0)"
    by (simp add: and_one_eq mod_2_eq_odd bit_0)
  then show ?thesis by (simp add: crc_bit_def)
qed

lemma crc_bit_0 [simp]: "crc_bit 0 = 0"
  by (simp add: crc_bit_cases)

lemma crc_bit_xor: "crc_bit (xor a b) = xor (crc_bit a) (crc_bit b)"
  by (rule bit_word_eqI) (auto simp: crc_bit_cases bit_simps)

lemma crc_bits_xor: "(crc_bit ^^ n) (xor a b) = xor ((crc_bit ^^ n) a) ((crc_bit ^^ n) b)"
  by (induction n) (simp_all add: crc_bit_xor)

lemma bit_poly_top: "bit (0xEDB88320 :: u32) 31"
  by simp

lemma crc_bit_eq_0: "crc_bit c = 0 \<Longrightarrow> c = 0"
proof -
  assume z: "crc_bit c = 0"
  have "\<not> bit (crc_bit c) 31" using z by simp
  then have low: "\<not> bit c 0"
    using bit_imp_le_length [of c 32] by (auto simp: crc_bit_cases bit_simps)
  then have d: "drop_bit 1 c = 0" using z by (simp add: crc_bit_cases)
  show "c = 0"
  proof (rule bit_word_eqI)
    fix n assume "n < LENGTH(32)"
    show "bit c n = bit 0 n"
    proof (cases n)
      case (Suc m)
      have "bit (drop_bit 1 c) m = bit c (Suc m)" by (simp add: bit_simps)
      then show ?thesis using d Suc by simp
    qed (use low in simp)
  qed
qed

lemma inj_crc_bits: "inj (crc_bit ^^ n)"
proof -
  have "inj crc_bit"
  proof (rule injI)
    fix a b assume "crc_bit a = crc_bit b"
    then have "crc_bit (xor a b) = 0" by (simp add: crc_bit_xor)
    then have "xor a b = 0" by (rule crc_bit_eq_0)
    then show "a = b" using word_xor_inject(1) [of a b a] by simp
  qed
  then show ?thesis by (rule inj_fn)
qed

text \<open>Bits above the lowest ones wait until they have been shifted down.\<close>

lemma crc_bits_high: "(\<And>m. m < n \<Longrightarrow> \<not> bit c m) \<Longrightarrow> (crc_bit ^^ n) c = drop_bit n c"
proof (induction n arbitrary: c)
  case (Suc n)
  have "\<not> bit (drop_bit 1 c) m" if "m < n" for m
    using Suc.prems [of "Suc m"] that by (simp add: bit_simps)
  moreover have "crc_bit c = drop_bit 1 c" using Suc.prems [of 0] by (simp add: crc_bit_cases)
  ultimately show ?case
    using Suc.IH [of "drop_bit 1 c"] by (simp add: funpow_Suc_right drop_bit_drop_bit del: funpow.simps)
qed simp

lemma crc_bits_byte:
  assumes "8 * k + 8 \<le> 32"
  shows "(crc_bit ^^ (8 * k)) (push_bit (8 * k) (ucast (b :: u8))) = ucast b"
proof -
  have "(crc_bit ^^ (8 * k)) (push_bit (8 * k) (ucast b)) = drop_bit (8 * k) (push_bit (8 * k) (ucast b))"
    by (rule crc_bits_high) (simp add: bit_simps)
  also have "\<dots> = (ucast b :: u32)"
  proof (rule bit_word_eqI)
    fix m assume "m < LENGTH(32)"
    show "bit (drop_bit (8 * k) (push_bit (8 * k) (ucast b)) :: u32) m = bit (ucast b :: u32) m"
      using assms bit_imp_le_length [of b m] by (auto simp: bit_simps)
  qed
  finally show ?thesis .
qed

lemma le_word_snoc:
  "le_word (bs @ [b]) = (xor (le_word bs) (push_bit (8 * length bs) (ucast b)) :: 'a::len word)"
proof (rule bit_word_eqI)
  fix m assume m: "m < LENGTH('a)"
  have "bit (push_bit (8 * length bs) (ucast b) :: 'a word) m \<longleftrightarrow> m div 8 = length bs \<and> bit b (m mod 8)"
    unfolding bit_push_bit_iff bit_ucast_iff bit_byte_at [symmetric] using m by auto
  then show "bit (le_word (bs @ [b]) :: 'a word) m =
      bit (xor (le_word bs) (push_bit (8 * length bs) (ucast b)) :: 'a word) m"
    using m by (auto simp: bit_le_word bit_xor_iff nth_append less_Suc_eq)
qed

lemma crc_bytes: "length bs \<le> 4 \<Longrightarrow> foldl crc_byte c bs = (crc_bit ^^ (8 * length bs)) (xor c (le_word bs))"
proof (induction bs rule: rev_induct)
  case (snoc b bs)
  let ?n = "8 * length bs"
  have "(crc_bit ^^ ?n) (xor c (le_word (bs @ [b]))) = xor (foldl crc_byte c bs) (ucast b)"
    using snoc by (simp add: le_word_snoc crc_bits_xor crc_bits_byte xor.assoc)
  moreover have "8 * length (bs @ [b]) = 8 + ?n" by simp
  ultimately show ?case by (simp only: funpow_add comp_def foldl_append foldl.simps crc_byte_def [of _ b])
qed (simp add: le_word_def)

section \<open>Damage\<close>

text \<open>The register is an injective function of its value before a run of bytes.\<close>

lemma crc_fold_inject: "foldl crc_byte c bs = foldl crc_byte d bs \<longleftrightarrow> c = d"
proof (induction bs arbitrary: c d)
  case (Cons b bs)
  have "crc_byte c b = crc_byte d b \<longleftrightarrow> c = d"
    using inj_crc_bits [THEN injD] by (auto simp: crc_byte_def dest: word_xor_inject)
  then show ?case using Cons by simp
qed simp

lemma le_word_inject:
  assumes "length bs = length cs" and "8 * length bs \<le> LENGTH('a)"
  shows "le_word bs = (le_word cs :: 'a::len word) \<longleftrightarrow> bs = cs"
  using le_bytes_word [of bs "length bs", where 'a = 'a] le_bytes_word [of cs "length bs", where 'a = 'a] assms
  by metis

lemma crc_window:
  assumes "length bs = length cs" and "length bs \<le> 4"
  shows "foldl crc_byte c (pre @ bs @ post) = foldl crc_byte c (pre @ cs @ post) \<longleftrightarrow> bs = cs"
proof -
  have "foldl crc_byte d bs = foldl crc_byte d cs \<longleftrightarrow> bs = cs" for d
    using assms inj_crc_bits [THEN injD] le_word_inject [of bs cs, where 'a = 32]
    by (auto simp: crc_bytes dest: word_xor_inject)
  then show ?thesis by (simp add: crc_fold_inject)
qed

text \<open>The residue that a message followed by its own checksum leaves in the register.\<close>

definition crc_residue :: u32 where
  "crc_residue = (crc_bit ^^ 32) 0xFFFFFFFF"

lemma crc_residue_iff:
  assumes "length t = 4"
  shows "foldl crc_byte 0xFFFFFFFF (p @ t) = crc_residue \<longleftrightarrow> le_word t = crc32 p"
proof -
  let ?c = "foldl crc_byte 0xFFFFFFFF p"
  have "foldl crc_byte 0xFFFFFFFF (p @ t) = (crc_bit ^^ 32) (xor ?c (le_word t))"
    using assms by (simp add: crc_bytes)
  then have "foldl crc_byte 0xFFFFFFFF (p @ t) = crc_residue \<longleftrightarrow> xor ?c (le_word t) = 0xFFFFFFFF"
    using inj_crc_bits [THEN injD] by (auto simp: crc_residue_def)
  also have "\<dots> \<longleftrightarrow> le_word t = not ?c"
  proof -
    have "xor ?c (not ?c) = 0xFFFFFFFF" by simp
    then show ?thesis using word_xor_inject(1) [of ?c "le_word t" "not ?c"] by auto
  qed
  finally show ?thesis by (simp add: crc32_def)
qed

text \<open>
  No change of at most four consecutive bytes, checksum included, yields another message with
  its checksum.
\<close>

lemma crc_detects_burst:
  assumes "pre @ bs @ post = p @ t" and "pre @ cs @ post = q @ u"
    and "length t = 4" and "length u = 4" and "length bs = length cs" and "length bs \<le> 4"
    and "le_word t = crc32 p" and "le_word u = crc32 q"
  shows "bs = cs"
proof -
  have "foldl crc_byte 0xFFFFFFFF (pre @ bs @ post) = crc_residue"
    "foldl crc_byte 0xFFFFFFFF (pre @ cs @ post) = crc_residue"
    using assms(1-4,7,8) by (simp_all only: crc_residue_iff)
  then show ?thesis using crc_window [OF assms(5,6)] by metis
qed

end
