(* ===== verification/Protocol.thy ===== *)
theory Protocol
  imports Crc Routes
begin

text \<open>
  The control protocol of \<^verbatim>\<open>protocol.hpp\<close>, \<^verbatim>\<open>protocol.cpp\<close> and \<^verbatim>\<open>net/common.hpp\<close>: message types,
  checksummed frames, the tagged fields of a payload with their typed writers and readers, and
  the route entry sent to a gateway. A \<open>PayloadWriter\<close> is a function on its buffer that may
  throw; a \<open>PayloadReader\<close> is the list of fields its constructor parses.
\<close>

section \<open>Frames\<close>

datatype MsgType =
    HELLO
  | REGISTER
  | PUBLISH_TARGET
  | PUBLISH_READINESS
  | PUBLISH_FAILURE
  | PUBLISH_CAPACITY
  | PLAN_FAILOVER
  | EXECUTE_FAILOVER
  | PREPARE_TARGET
  | PREPARE_RESULT
  | FENCE_ASSIGNMENT
  | ACTIVATE_TARGET
  | ACTIVATE_RESULT
  | INSTALL_ROUTE
  | ROUTE_ACK
  | QUERY_ROUTE
  | AUTHORIZE_REQUEST
  | AUTHORIZE_RESULT
  | EXECUTION_RESULT
  | VERIFY_SERVICE
  | REQUEST_FAILBACK
  | REVALIDATE
  | SAVE
  | SHUTDOWN
  | CHECK_ROUTE_ACK
  | CLASSIFY_REQUEST
  | ERROR_MSG

definition MsgType_values :: "MsgType list" where
  "MsgType_values =
    [MsgType.HELLO, MsgType.REGISTER, MsgType.PUBLISH_TARGET, MsgType.PUBLISH_READINESS,
     MsgType.PUBLISH_FAILURE, MsgType.PUBLISH_CAPACITY, MsgType.PLAN_FAILOVER,
     MsgType.EXECUTE_FAILOVER, MsgType.PREPARE_TARGET, MsgType.PREPARE_RESULT,
     MsgType.FENCE_ASSIGNMENT, MsgType.ACTIVATE_TARGET, MsgType.ACTIVATE_RESULT,
     MsgType.INSTALL_ROUTE, MsgType.ROUTE_ACK, MsgType.QUERY_ROUTE, MsgType.AUTHORIZE_REQUEST,
     MsgType.AUTHORIZE_RESULT, MsgType.EXECUTION_RESULT, MsgType.VERIFY_SERVICE,
     MsgType.REQUEST_FAILBACK, MsgType.REVALIDATE, MsgType.SAVE, MsgType.SHUTDOWN,
     MsgType.CHECK_ROUTE_ACK, MsgType.CLASSIFY_REQUEST, MsgType.ERROR_MSG]"

fun to_string_MsgType :: "MsgType \<Rightarrow> string" where
  "to_string_MsgType MsgType.HELLO = ''HELLO''"
| "to_string_MsgType MsgType.REGISTER = ''REGISTER''"
| "to_string_MsgType MsgType.PUBLISH_TARGET = ''PUBLISH_TARGET''"
| "to_string_MsgType MsgType.PUBLISH_READINESS = ''PUBLISH_READINESS''"
| "to_string_MsgType MsgType.PUBLISH_FAILURE = ''PUBLISH_FAILURE''"
| "to_string_MsgType MsgType.PUBLISH_CAPACITY = ''PUBLISH_CAPACITY''"
| "to_string_MsgType MsgType.PLAN_FAILOVER = ''PLAN_FAILOVER''"
| "to_string_MsgType MsgType.EXECUTE_FAILOVER = ''EXECUTE_FAILOVER''"
| "to_string_MsgType MsgType.PREPARE_TARGET = ''PREPARE_TARGET''"
| "to_string_MsgType MsgType.PREPARE_RESULT = ''PREPARE_RESULT''"
| "to_string_MsgType MsgType.FENCE_ASSIGNMENT = ''FENCE_ASSIGNMENT''"
| "to_string_MsgType MsgType.ACTIVATE_TARGET = ''ACTIVATE_TARGET''"
| "to_string_MsgType MsgType.ACTIVATE_RESULT = ''ACTIVATE_RESULT''"
| "to_string_MsgType MsgType.INSTALL_ROUTE = ''INSTALL_ROUTE''"
| "to_string_MsgType MsgType.ROUTE_ACK = ''ROUTE_ACK''"
| "to_string_MsgType MsgType.QUERY_ROUTE = ''QUERY_ROUTE''"
| "to_string_MsgType MsgType.AUTHORIZE_REQUEST = ''AUTHORIZE_REQUEST''"
| "to_string_MsgType MsgType.AUTHORIZE_RESULT = ''AUTHORIZE_RESULT''"
| "to_string_MsgType MsgType.EXECUTION_RESULT = ''EXECUTION_RESULT''"
| "to_string_MsgType MsgType.VERIFY_SERVICE = ''VERIFY_SERVICE''"
| "to_string_MsgType MsgType.REQUEST_FAILBACK = ''REQUEST_FAILBACK''"
| "to_string_MsgType MsgType.REVALIDATE = ''REVALIDATE''"
| "to_string_MsgType MsgType.SAVE = ''SAVE''"
| "to_string_MsgType MsgType.SHUTDOWN = ''SHUTDOWN''"
| "to_string_MsgType MsgType.CHECK_ROUTE_ACK = ''CHECK_ROUTE_ACK''"
| "to_string_MsgType MsgType.CLASSIFY_REQUEST = ''CLASSIFY_REQUEST''"
| "to_string_MsgType MsgType.ERROR_MSG = ''ERROR''"

definition msg_byte :: "MsgType \<Rightarrow> u8" where
  "msg_byte t = of_nat (Suc (index_of t MsgType_values))"

definition msg_of_byte :: "u8 \<Rightarrow> MsgType option" where
  "msg_of_byte t = (if t < msg_byte MsgType.HELLO \<or> msg_byte MsgType.ERROR_MSG < t then None
                    else Some (MsgType_values ! (unat t - 1)))"

definition kMaxFramePayload :: u32 where
  "kMaxFramePayload = push_bit 20 16"

record Frame =
  fr_type :: MsgType
  fr_msg_id :: u32
  fr_epoch :: u64
  fr_payload :: bytes

definition default_Frame :: Frame where
  "default_Frame = \<lparr>fr_type = MsgType.ERROR_MSG, fr_msg_id = 0, fr_epoch = 0, fr_payload = []\<rparr>"

definition frame_magic :: bytes where
  "frame_magic = map (\<lambda>c. of_nat (of_char c)) ''FFP1''"

definition frame_version :: u8 where
  "frame_version = 1"

definition get32 :: "bytes \<Rightarrow> nat \<Rightarrow> u32" where
  "get32 data off = le_word (take 4 (drop off data))"

definition get64 :: "bytes \<Rightarrow> nat \<Rightarrow> u64" where
  "get64 data off = le_word (take 8 (drop off data))"

definition encode_frame :: "Frame \<Rightarrow> bytes result" where
  "encode_frame f =
     (if unat kMaxFramePayload < length (fr_payload f) then Inl (ProtocolError ''frame payload too large'')
      else (let b = frame_magic @ [frame_version, msg_byte (fr_type f)] @ le_bytes 4 (fr_msg_id f) @
                    le_bytes 8 (fr_epoch f) @ le_bytes 4 (of_nat (length (fr_payload f)) :: u32) @ fr_payload f
            in Inr (b @ le_bytes 4 (crc32 b))))"

definition decode_frame :: "bytes \<Rightarrow> Frame result" where
  "decode_frame data =
     bindE (guardE (31 \<le> length data) (ProtocolError ''frame too short'')) (\<lambda>_.
     bindE (guardE (take 4 data = frame_magic) (ProtocolError ''bad frame magic'')) (\<lambda>_.
     bindE (guardE (data ! 4 = frame_version) (ProtocolError ''unsupported frame version'')) (\<lambda>_.
     case msg_of_byte (data ! 5) of None \<Rightarrow> Inl (ProtocolError ''invalid message type'') | Some t \<Rightarrow>
     (let plen = get32 data 18; n = unat plen in
     bindE (guardE (\<not> kMaxFramePayload < plen) (ProtocolError ''frame payload too large'')) (\<lambda>_.
     bindE (guardE (22 + n + 4 = length data) (ProtocolError ''frame length mismatch'')) (\<lambda>_.
     bindE (guardE (crc32 (take (22 + n) data) = get32 data (22 + n))
              (ProtocolError ''frame checksum mismatch'')) (\<lambda>_.
     Inr \<lparr>fr_type = t, fr_msg_id = get32 data 6, fr_epoch = get64 data 10,
          fr_payload = take n (drop 22 data)\<rparr>)))))))"

subsection \<open>What the decoder accepts\<close>

lemma unat_kMaxFramePayload [simp]: "unat kMaxFramePayload = 16777216"
  by (simp add: kMaxFramePayload_def)

interpretation MsgType_bytes: byte_enum MsgType_values
proof unfold_locales
  fix x :: MsgType
  show "x \<in> set MsgType_values" by (cases x) (simp_all add: MsgType_values_def)
qed (simp_all add: MsgType_values_def)

lemma length_MsgType_values [simp]: "length MsgType_values = 27"
  by (simp add: MsgType_values_def)

lemma unat_msg_byte: "unat (msg_byte t) = Suc (index_of t MsgType_values)"
proof -
  have "index_of t MsgType_values < 27"
    using index_of_less [OF MsgType_bytes.complete_vals] by simp
  then show ?thesis by (simp add: msg_byte_def unat_of_nat del: of_nat_Suc)
qed

lemma msg_of_byte_Some_iff: "msg_of_byte b = Some t \<longleftrightarrow> b = msg_byte t"
proof -
  have ends: "unat (msg_byte MsgType.HELLO) = 1" "unat (msg_byte MsgType.ERROR_MSG) = 27"
    by (simp_all add: unat_msg_byte MsgType_values_def)
  have "msg_of_byte b = Some t \<longleftrightarrow> 1 \<le> unat b \<and> unat b \<le> 27 \<and> MsgType_values ! (unat b - 1) = t"
    by (auto simp: msg_of_byte_def word_less_nat_alt ends not_less)
  also have "\<dots> \<longleftrightarrow> unat b = Suc (index_of t MsgType_values)"
  proof
    assume "1 \<le> unat b \<and> unat b \<le> 27 \<and> MsgType_values ! (unat b - 1) = t"
    then show "unat b = Suc (index_of t MsgType_values)"
      using index_of_nth [OF MsgType_bytes.distinct_vals, of "unat b - 1"] by auto
  next
    assume "unat b = Suc (index_of t MsgType_values)"
    then show "1 \<le> unat b \<and> unat b \<le> 27 \<and> MsgType_values ! (unat b - 1) = t"
      using index_of_less [OF MsgType_bytes.complete_vals, of t]
        nth_index_of [OF MsgType_bytes.complete_vals, of t] by simp
  qed
  finally show ?thesis by (simp add: word_unat_eq_iff unat_msg_byte)
qed

definition frame_head :: "Frame \<Rightarrow> bytes" where
  "frame_head f = frame_magic @ [frame_version, msg_byte (fr_type f)] @ le_bytes 4 (fr_msg_id f) @
     le_bytes 8 (fr_epoch f) @ le_bytes 4 (of_nat (length (fr_payload f)) :: u32) @ fr_payload f"

lemma encode_frame_Inr:
  "encode_frame f = Inr bs \<longleftrightarrow> length (fr_payload f) \<le> 16777216 \<and>
     bs = frame_head f @ le_bytes 4 (crc32 (frame_head f))"
  by (auto simp: encode_frame_def frame_head_def Let_def)

lemma length_frame_magic [simp]: "length frame_magic = 4"
  by (simp add: frame_magic_def)

lemma length_frame_head [simp]: "length (frame_head f) = 22 + length (fr_payload f)"
  by (simp add: frame_head_def)

text \<open>Cutting a buffer at the offsets of the header.\<close>

lemma split_at:
  assumes "n \<le> length bs"
  obtains a r where "bs = a @ r" "length a = n" "length r = length bs - n"
  using assms that [of "take n bs" "drop n bs"] by simp

lemma frame_parts:
  assumes "22 + n + 4 = length bs"
  obtains m v t i e l p c where "bs = m @ [v, t] @ i @ e @ l @ p @ c"
    "length m = 4" "length i = 4" "length e = 8" "length l = 4" "length p = n" "length c = 4"
proof -
  have "4 \<le> length bs" using assms by simp
  then obtain m r1 where 1: "bs = m @ r1" "length m = 4" "length r1 = length bs - 4" by (rule split_at)
  have "2 \<le> length r1" using 1(3) assms by linarith
  then obtain x r2 where 2: "r1 = x @ r2" "length x = 2" "length r2 = length r1 - 2" by (rule split_at)
  have "4 \<le> length r2" using 1(3) 2(3) assms by linarith
  then obtain i r3 where 3: "r2 = i @ r3" "length i = 4" "length r3 = length r2 - 4" by (rule split_at)
  have "8 \<le> length r3" using 1(3) 2(3) 3(3) assms by linarith
  then obtain e r4 where 4: "r3 = e @ r4" "length e = 8" "length r4 = length r3 - 8" by (rule split_at)
  have "4 \<le> length r4" using 1(3) 2(3) 3(3) 4(3) assms by linarith
  then obtain l r5 where 5: "r4 = l @ r5" "length l = 4" "length r5 = length r4 - 4" by (rule split_at)
  have "n \<le> length r5" using 1(3) 2(3) 3(3) 4(3) 5(3) assms by linarith
  then obtain p c where 6: "r5 = p @ c" "length p = n" "length c = length r5 - n" by (rule split_at)
  have "length c = 4" using 1(3) 2(3) 3(3) 4(3) 5(3) 6(3) assms by linarith
  obtain v t where "x = [v, t]" using 2(2) by (auto simp: length_Suc_conv numeral_2_eq_2)
  then show thesis using that [of m v t i e l p c] 1(1,2) 2(1) 3(1,2) 4(1,2) 5(1,2) 6(1,2) \<open>length c = 4\<close> by simp
qed

lemma decode_frame_fields:
  "decode_frame data = Inr f \<longleftrightarrow> 31 \<le> length data \<and> take 4 data = frame_magic \<and> data ! 4 = frame_version \<and>
     msg_of_byte (data ! 5) = Some (fr_type f) \<and> \<not> kMaxFramePayload < get32 data 18 \<and>
     22 + unat (get32 data 18) + 4 = length data \<and>
     crc32 (take (22 + unat (get32 data 18)) data) = get32 data (22 + unat (get32 data 18)) \<and>
     fr_msg_id f = get32 data 6 \<and> fr_epoch f = get64 data 10 \<and>
     fr_payload f = take (unat (get32 data 18)) (drop 22 data)"
  unfolding decode_frame_def Let_def by (cases f) (auto simp: exn_simps split: option.splits)

lemma decode_frame_parts:
  assumes "length m = 4" "length i = 4" "length e = 8" "length l = 4" "length c = 4"
  shows "decode_frame (m @ [v, t] @ i @ e @ l @ p @ c) = Inr f \<longleftrightarrow>
    5 \<le> length p \<and> m = frame_magic \<and> v = frame_version \<and> t = msg_byte (fr_type f) \<and>
    le_word i = fr_msg_id f \<and> le_word e = fr_epoch f \<and> \<not> kMaxFramePayload < (le_word l :: u32) \<and>
    unat (le_word l :: u32) = length p \<and> crc32 (m @ [v, t] @ i @ e @ l @ p) = le_word c \<and> fr_payload f = p"
    (is "?L \<longleftrightarrow> ?R")
proof -
  let ?bs = "m @ [v, t] @ i @ e @ l @ p @ c"
  have at: "take 4 ?bs = m" "?bs ! 4 = v" "?bs ! 5 = t" "get32 ?bs 6 = le_word i" "get64 ?bs 10 = le_word e"
    "get32 ?bs 18 = le_word l" "length ?bs = 26 + length p"
    using assms by (simp_all add: get32_def get64_def nth_append)
  have tail: "take (22 + length p) ?bs = m @ [v, t] @ i @ e @ l @ p" "get32 ?bs (22 + length p) = le_word c"
    "take (length p) (drop 22 ?bs) = p"
  proof -
    have b: "?bs = (m @ [v, t] @ i @ e @ l @ p) @ c" "length (m @ [v, t] @ i @ e @ l @ p) = 22 + length p"
      using assms by simp_all
    show "take (22 + length p) ?bs = m @ [v, t] @ i @ e @ l @ p" "get32 ?bs (22 + length p) = le_word c"
      unfolding get32_def b(1) b(2) [symmetric] using assms by (simp_all del: append_assoc)
  qed (use assms in simp)
  have "?L \<longleftrightarrow> 31 \<le> 26 + length p \<and> m = frame_magic \<and> v = frame_version \<and>
      msg_of_byte t = Some (fr_type f) \<and> \<not> kMaxFramePayload < (le_word l :: u32) \<and>
      unat (le_word l :: u32) = length p \<and>
      crc32 (take (22 + length p) ?bs) = get32 ?bs (22 + length p) \<and>
      fr_msg_id f = le_word i \<and> fr_epoch f = le_word e \<and> fr_payload f = take (length p) (drop 22 ?bs)"
    unfolding decode_frame_fields at by (rule iffI; elim conjE; intro conjI) simp_all
  then show ?thesis unfolding tail msg_of_byte_Some_iff by auto
qed

lemma unat_le_word: "unat (le_word l :: u32) = n \<longleftrightarrow> l = le_bytes 4 (of_nat n :: u32)"
  if "length l = 4" "n < 4294967296" for l :: bytes
proof -
  have "unat (of_nat n :: u32) = n" using that(2) by (simp add: unat_of_nat)
  then have "unat (le_word l :: u32) = n \<longleftrightarrow> le_word l = (of_nat n :: u32)"
    by (auto simp: word_unat_eq_iff)
  also have "\<dots> \<longleftrightarrow> l = le_bytes 4 (of_nat n :: u32)"
    using that(1) le_bytes_word [of l 4, where 'a = 32] le_word_bytes [of 4 "of_nat n :: u32"] by auto
  finally show ?thesis .
qed

lemma unat_le_length: "length l = 4 \<Longrightarrow> n \<le> 16777216 \<Longrightarrow>
    unat (le_word l :: u32) = n \<longleftrightarrow> l = le_bytes 4 (of_nat n :: u32)"
  by (rule unat_le_word) simp_all

lemma decode_frame_length: "decode_frame bs = Inr f \<Longrightarrow> 22 + length (fr_payload f) + 4 = length bs"
  unfolding decode_frame_fields by auto

lemma decode_frame_Inr:
  "decode_frame bs = Inr f \<longleftrightarrow> encode_frame f = Inr bs \<and> 5 \<le> length (fr_payload f)"
proof (cases "22 + length (fr_payload f) + 4 = length bs")
  case True
  obtain m v t i e l p c where bs: "bs = m @ [v, t] @ i @ e @ l @ p @ c" and len: "length m = 4" "length i = 4"
    "length e = 8" "length l = 4" "length p = length (fr_payload f)" "length c = 4"
    using frame_parts [OF True] .
  have w: "le_word i = fr_msg_id f \<longleftrightarrow> i = le_bytes 4 (fr_msg_id f)"
    "le_word e = fr_epoch f \<longleftrightarrow> e = le_bytes 8 (fr_epoch f)"
    "x = le_word c \<longleftrightarrow> c = le_bytes 4 x" for x :: u32
    using len le_bytes_word [of i 4, where 'a = 32] le_bytes_word [of e 8, where 'a = 64]
      le_bytes_word [of c 4, where 'a = 32] by (auto simp: le_word_bytes)
  have l: "\<not> kMaxFramePayload < (le_word l :: u32) \<and> unat (le_word l :: u32) = length p \<longleftrightarrow>
      length p \<le> 16777216 \<and> l = le_bytes 4 (of_nat (length p) :: u32)"
    using unat_le_length [OF len(4), of "length p"] by (auto simp: word_less_nat_alt)
  have "encode_frame f = Inr bs \<longleftrightarrow> length p \<le> 16777216 \<and> m = frame_magic \<and> v = frame_version \<and>
      t = msg_byte (fr_type f) \<and> i = le_bytes 4 (fr_msg_id f) \<and> e = le_bytes 8 (fr_epoch f) \<and>
      l = le_bytes 4 (of_nat (length p) :: u32) \<and> p = fr_payload f \<and>
      c = le_bytes 4 (crc32 (m @ [v, t] @ i @ e @ l @ p))"
    unfolding encode_frame_Inr bs frame_head_def using len by auto
  then show ?thesis
    unfolding bs decode_frame_parts [OF len(1-4,6)] w using l by auto
next
  case False
  then show ?thesis
    using decode_frame_length [of bs f] by (auto simp: encode_frame_Inr)
qed

text \<open>
  C35. The frame decoder accepts exactly the frames the encoder produces, with the frame that
  was encoded, except those with fewer than five bytes of payload: they are encoded and then
  refused as too short.
\<close>

theorem frame_codec_exact:
  "decode_frame bs = Inr f \<longleftrightarrow> encode_frame f = Inr bs \<and> 5 \<le> length (fr_payload f)"
  by (rule decode_frame_Inr)

text \<open>
  C36. Corruption on the wire is detected: when a frame is accepted, every change of at most
  four consecutive bytes of it, header and checksum included, is refused.
\<close>

theorem damaged_frame_refused:
  assumes "decode_frame (pre @ bs @ post) = Inr f"
    and "length cs = length bs" and "length bs \<le> 4" and "cs \<noteq> bs"
  shows "\<exists>e. decode_frame (pre @ cs @ post) = Inl e"
proof (rule ccontr)
  assume "\<nexists>e. decode_frame (pre @ cs @ post) = Inl e"
  then obtain g where g: "decode_frame (pre @ cs @ post) = Inr g"
    by (cases "decode_frame (pre @ cs @ post)") auto
  have "pre @ bs @ post = frame_head f @ le_bytes 4 (crc32 (frame_head f))"
    "pre @ cs @ post = frame_head g @ le_bytes 4 (crc32 (frame_head g))"
    using assms(1) g by (simp_all add: decode_frame_Inr encode_frame_Inr)
  then have "bs = cs"
    by (rule crc_detects_burst) (use assms in \<open>simp_all add: le_word_bytes\<close>)
  with assms(4) show False by simp
qed

definition example_frame :: Frame where
  "example_frame = \<lparr>fr_type = MsgType.SAVE, fr_msg_id = 7, fr_epoch = 3, fr_payload = [16, 6, 1, 0, 0, 0, 97]\<rparr>"

lemma example_frame_accepted: "\<exists>bs. decode_frame bs = Inr example_frame \<and> length bs = 33"
  by (simp add: decode_frame_Inr encode_frame_Inr) (simp add: example_frame_def)

theorem damaged_frame_refused_witness:
  "\<exists>bs e. decode_frame bs = Inr example_frame \<and> decode_frame (take 9 bs @ [bs ! 9 + 1] @ drop 10 bs) = Inl e"
proof -
  obtain bs where bs: "decode_frame bs = Inr example_frame" "length bs = 33"
    using example_frame_accepted by blast
  then have d: "decode_frame (take 9 bs @ [bs ! 9] @ drop 10 bs) = Inr example_frame"
    using id_take_nth_drop [of 9 bs] by simp
  show ?thesis using bs(1) damaged_frame_refused [OF d, of "[bs ! 9 + 1]"] by auto
qed

end
