(* ===== verification/Connection.thy ===== *)
theory Connection
  imports Protocol "HOL-Library.AList"
begin

text \<open>
  \<^verbatim>\<open>net/conn.hpp\<close>: one socket shared by the threads that send requests and wait for their
  responses, and the reader thread that owns inbound decoding. Every region that holds a lock,
  and every atomic load or store on which a decision rests, is one step; the threads interleave
  in any order. The objects that waiting threads share with the reader live in a store, so that
  two requests with the same message id really overwrite each other's entry. Which frames
  arrive, and whether a write succeeds, is chosen by the environment.
\<close>

section \<open>State\<close>

definition kMaxPending :: nat where
  "kMaxPending = 64"

record Pending =
  pd_done :: bool
  pd_response :: "Frame option"

text \<open>Where a call of \<open>request\<close> stands; it holds its message id and the address of its \<open>Pending\<close>.\<close>

datatype RequestCall =
    Entered u32
  | Registered u32 nat
  | SendFailed u32 nat
  | Waiting u32 nat
  | Returned u32 "Frame option"

text \<open>Where the reader thread stands: in the loop, past it, after marking, after resolving.\<close>

datatype ReaderPhase = Reading | Left | Marked | Exited

datatype ShutdownPhase = Running | Closed | ShutDown

record Conn =
  cn_open :: bool
  cn_dead :: bool
  cn_frames_sent :: u64
  cn_frames_recv :: u64
  cn_unsolicited_dropped :: u64
  cn_pending :: "(u32 \<times> nat) list"
  cn_objects :: "Pending list"
  cn_calls :: "RequestCall list"
  cn_events :: "Frame list"
  cn_reader :: ReaderPhase
  cn_shutdown :: ShutdownPhase

definition new_Conn :: Conn where
  "new_Conn = \<lparr>cn_open = True, cn_dead = False, cn_frames_sent = 0, cn_frames_recv = 0,
     cn_unsolicited_dropped = 0, cn_pending = [], cn_objects = [], cn_calls = [], cn_events = [],
     cn_reader = Reading, cn_shutdown = Running\<rparr>"

section \<open>The regions\<close>

definition set_call :: "nat \<Rightarrow> RequestCall \<Rightarrow> Conn \<Rightarrow> Conn" where
  "set_call i p c = c\<lparr>cn_calls := (cn_calls c)[i := p]\<rparr>"

text \<open>A new call: the unlocked test at the start of \<open>request\<close>.\<close>

definition enter_request :: "u32 \<Rightarrow> Conn \<Rightarrow> Conn" where
  "enter_request mid c =
     c\<lparr>cn_calls := cn_calls c @ [if cn_dead c \<or> \<not> cn_open c then Returned mid None else Entered mid]\<rparr>"

text \<open>The first locked region of \<open>request\<close>.\<close>

definition register_request :: "nat \<Rightarrow> u32 \<Rightarrow> Conn \<Rightarrow> Conn" where
  "register_request i mid c =
     (if kMaxPending \<le> length (cn_pending c) then set_call i (Returned mid None) c
      else set_call i (Registered mid (length (cn_objects c)))
             (c\<lparr>cn_objects := cn_objects c @ [\<lparr>pd_done = False, pd_response = None\<rparr>],
                cn_pending := AList.update mid (length (cn_objects c)) (cn_pending c)\<rparr>))"

text \<open>\<open>send_frame\<close>; \<open>ok\<close> is what the socket makes of the write.\<close>

definition conn_send_frame :: "bool \<Rightarrow> Conn \<Rightarrow> Conn \<times> bool" where
  "conn_send_frame ok c =
     (if \<not> cn_open c \<or> cn_dead c then (c, False)
      else (if ok then c\<lparr>cn_frames_sent := cn_frames_sent c + 1\<rparr> else c, ok))"

definition send_request :: "bool \<Rightarrow> nat \<Rightarrow> u32 \<Rightarrow> nat \<Rightarrow> Conn \<Rightarrow> Conn" where
  "send_request ok i mid n c =
     (case conn_send_frame ok c of (c', sent) \<Rightarrow> set_call i (if sent then Waiting mid n else SendFailed mid n) c')"

text \<open>The locked region after a write that failed.\<close>

definition abandon_request :: "nat \<Rightarrow> u32 \<Rightarrow> Conn \<Rightarrow> Conn" where
  "abandon_request i mid c = set_call i (Returned mid None)
     (case map_of (cn_pending c) mid of
        None \<Rightarrow> c
      | Some m \<Rightarrow> c\<lparr>cn_objects := (cn_objects c)[m := (cn_objects c ! m)\<lparr>pd_done := True\<rparr>],
                    cn_pending := AList.delete mid (cn_pending c)\<rparr>)"

text \<open>The last locked region of \<open>request\<close>, once the condition variable has been signalled.\<close>

definition collect_response :: "nat \<Rightarrow> u32 \<Rightarrow> nat \<Rightarrow> Conn \<Rightarrow> Conn" where
  "collect_response i mid n c = set_call i (Returned mid (pd_response (cn_objects c ! n)))
     (c\<lparr>cn_pending := AList.delete mid (cn_pending c)\<rparr>)"

definition resolve_pending :: "Frame option \<Rightarrow> Conn \<Rightarrow> Conn" where
  "resolve_pending r c =
     c\<lparr>cn_objects := foldl (\<lambda>os m. os[m := \<lparr>pd_done = True, pd_response = r\<rparr>]) (cn_objects c) (map snd (cn_pending c)),
       cn_pending := []\<rparr>"

text \<open>One turn of \<open>read_loop\<close>; \<open>handler\<close> says whether the connection has an \<open>on_unsolicited\<close>.\<close>

definition receive_frame :: "bool \<Rightarrow> Frame \<Rightarrow> Conn \<Rightarrow> Conn" where
  "receive_frame handler f c =
     (let c1 = c\<lparr>cn_frames_recv := cn_frames_recv c + 1\<rparr>
      in case map_of (cn_pending c) (fr_msg_id f) of
           Some m \<Rightarrow> c1\<lparr>cn_objects := (cn_objects c)[m := \<lparr>pd_done = True, pd_response = Some f\<rparr>]\<rparr>
         | None \<Rightarrow> if handler then c1\<lparr>cn_events := cn_events c @ [f]\<rparr>
                   else c1\<lparr>cn_unsolicited_dropped := cn_unsolicited_dropped c + 1\<rparr>)"

section \<open>Interleavings\<close>

inductive conn_step :: "bool \<Rightarrow> Conn \<Rightarrow> Conn \<Rightarrow> bool" for handler where
  enter: "conn_step handler c (enter_request mid c)"
| register: "i < length (cn_calls c) \<Longrightarrow> cn_calls c ! i = Entered mid \<Longrightarrow>
    conn_step handler c (register_request i mid c)"
| send: "i < length (cn_calls c) \<Longrightarrow> cn_calls c ! i = Registered mid n \<Longrightarrow>
    conn_step handler c (send_request ok i mid n c)"
| abandon: "i < length (cn_calls c) \<Longrightarrow> cn_calls c ! i = SendFailed mid n \<Longrightarrow>
    conn_step handler c (abandon_request i mid c)"
| collect: "i < length (cn_calls c) \<Longrightarrow> cn_calls c ! i = Waiting mid n \<Longrightarrow> pd_done (cn_objects c ! n) \<Longrightarrow>
    conn_step handler c (collect_response i mid n c)"
| receive: "cn_reader c = Reading \<Longrightarrow> conn_step handler c (receive_frame handler f c)"
| leave: "cn_reader c = Reading \<Longrightarrow> conn_step handler c (c\<lparr>cn_reader := Left\<rparr>)"
| mark: "cn_reader c = Left \<Longrightarrow> conn_step handler c (c\<lparr>cn_reader := Marked, cn_dead := True\<rparr>)"
| resolve: "cn_reader c = Marked \<Longrightarrow> conn_step handler c ((resolve_pending None c)\<lparr>cn_reader := Exited\<rparr>)"
| close: "cn_shutdown c = Running \<Longrightarrow> conn_step handler c (c\<lparr>cn_shutdown := Closed, cn_open := False\<rparr>)"
| shut: "cn_shutdown c = Closed \<Longrightarrow> conn_step handler c ((resolve_pending None c)\<lparr>cn_shutdown := ShutDown\<rparr>)"

inductive conn_reach :: "bool \<Rightarrow> Conn \<Rightarrow> bool" for handler where
  start: "conn_reach handler new_Conn"
| step: "conn_reach handler c \<Longrightarrow> conn_step handler c c' \<Longrightarrow> conn_reach handler c'"

text \<open>The message id and the object of a call that has registered and not returned.\<close>

fun call_key :: "RequestCall \<Rightarrow> (u32 \<times> nat) option" where
  "call_key (Registered mid n) = Some (mid, n)"
| "call_key (SendFailed mid n) = Some (mid, n)"
| "call_key (Waiting mid n) = Some (mid, n)"
| "call_key _ = None"

definition has_key :: "Conn \<Rightarrow> nat \<Rightarrow> u32 \<Rightarrow> nat \<Rightarrow> bool" where
  "has_key c i mid n \<longleftrightarrow> i < length (cn_calls c) \<and> call_key (cn_calls c ! i) = Some (mid, n)"

definition distinct_ids :: "Conn \<Rightarrow> bool" where
  "distinct_ids c \<longleftrightarrow> (\<forall>i j mid n m. has_key c i mid n \<and> has_key c j mid m \<longrightarrow> i = j)"

text \<open>Runs in which no two outstanding requests carry the same message id.\<close>

inductive conn_reach_distinct :: "bool \<Rightarrow> Conn \<Rightarrow> bool" for handler where
  start: "conn_reach_distinct handler new_Conn"
| step: "conn_reach_distinct handler c \<Longrightarrow> conn_step handler c c' \<Longrightarrow> distinct_ids c' \<Longrightarrow>
    conn_reach_distinct handler c'"

section \<open>Invariants\<close>

text \<open>What holds however the threads interleave and whatever ids they use.\<close>

definition conn_ok :: "Conn \<Rightarrow> bool" where
  "conn_ok c \<longleftrightarrow>
     distinct (map fst (cn_pending c)) \<and> length (cn_pending c) \<le> kMaxPending \<and>
     (\<forall>mid n. map_of (cn_pending c) mid = Some n \<longrightarrow> (\<exists>i. has_key c i mid n)) \<and>
     (\<forall>i mid n. has_key c i mid n \<longrightarrow> n < length (cn_objects c) \<and>
        (\<forall>f. pd_response (cn_objects c ! n) = Some f \<longrightarrow> fr_msg_id f = mid)) \<and>
     (\<forall>i j mid mid' n. has_key c i mid n \<and> has_key c j mid' n \<longrightarrow> i = j) \<and>
     (\<forall>mid f. Returned mid (Some f) \<in> set (cn_calls c) \<longrightarrow> fr_msg_id f = mid)"

lemma conn_okI:
  assumes "distinct (map fst (cn_pending c))" "length (cn_pending c) \<le> kMaxPending"
    "\<And>mid n. map_of (cn_pending c) mid = Some n \<Longrightarrow> \<exists>i. has_key c i mid n"
    "\<And>i mid n. has_key c i mid n \<Longrightarrow> n < length (cn_objects c)"
    "\<And>i mid n f. has_key c i mid n \<Longrightarrow> pd_response (cn_objects c ! n) = Some f \<Longrightarrow> fr_msg_id f = mid"
    "\<And>i j mid mid' n. has_key c i mid n \<Longrightarrow> has_key c j mid' n \<Longrightarrow> i = j"
    "\<And>mid f. Returned mid (Some f) \<in> set (cn_calls c) \<Longrightarrow> fr_msg_id f = mid"
  shows "conn_ok c"
  using assms unfolding conn_ok_def by blast

lemma conn_okD:
  assumes "conn_ok c"
  shows "distinct (map fst (cn_pending c))" "length (cn_pending c) \<le> kMaxPending"
    "\<And>mid n. map_of (cn_pending c) mid = Some n \<Longrightarrow> \<exists>i. has_key c i mid n"
    "\<And>i mid n. has_key c i mid n \<Longrightarrow> n < length (cn_objects c)"
    "\<And>i mid n f. has_key c i mid n \<Longrightarrow> pd_response (cn_objects c ! n) = Some f \<Longrightarrow> fr_msg_id f = mid"
    "\<And>i j mid mid' n. has_key c i mid n \<Longrightarrow> has_key c j mid' n \<Longrightarrow> i = j"
    "\<And>mid f. Returned mid (Some f) \<in> set (cn_calls c) \<Longrightarrow> fr_msg_id f = mid"
  using assms unfolding conn_ok_def by blast+

lemma has_key_set_call [simp]:
  "has_key (set_call i p c) j mid n \<longleftrightarrow>
     (if j = i then i < length (cn_calls c) \<and> call_key p = Some (mid, n) else has_key c j mid n)"
  by (auto simp: has_key_def set_call_def)

lemma has_key_cong:
  "has_key (c\<lparr>cn_objects := os\<rparr>) = has_key c" "has_key (c\<lparr>cn_pending := ps\<rparr>) = has_key c"
  "has_key (c\<lparr>cn_frames_sent := x\<rparr>) = has_key c" "has_key (c\<lparr>cn_frames_recv := x\<rparr>) = has_key c"
  "has_key (c\<lparr>cn_events := es\<rparr>) = has_key c" "has_key (c\<lparr>cn_unsolicited_dropped := x\<rparr>) = has_key c"
  "has_key (c\<lparr>cn_reader := r\<rparr>) = has_key c" "has_key (c\<lparr>cn_dead := d\<rparr>) = has_key c"
  "has_key (c\<lparr>cn_open := d\<rparr>) = has_key c" "has_key (c\<lparr>cn_shutdown := sd\<rparr>) = has_key c"
  by (simp_all add: has_key_def fun_eq_iff)

lemma set_call_fields [simp]:
  "cn_pending (set_call i p c) = cn_pending c" "cn_objects (set_call i p c) = cn_objects c"
  "cn_reader (set_call i p c) = cn_reader c" "cn_dead (set_call i p c) = cn_dead c"
  "cn_open (set_call i p c) = cn_open c" "cn_calls (set_call i p c) = (cn_calls c)[i := p]"
  by (simp_all add: set_call_def)

text \<open>
  A region that only fills objects which are still pending, each with a response of its own
  message id, and drops entries, keeps the invariant when the calls stay.
\<close>

lemma conn_ok_objects:
  assumes "conn_ok c" and "cn_calls c' = cn_calls c" and "length (cn_objects c') = length (cn_objects c)"
    and "distinct (map fst (cn_pending c'))" and "length (cn_pending c') \<le> length (cn_pending c)"
    and "map_of (cn_pending c') \<subseteq>\<^sub>m map_of (cn_pending c)"
    and "\<And>i mid n f. has_key c i mid n \<Longrightarrow> pd_response (cn_objects c' ! n) = Some f \<Longrightarrow> fr_msg_id f = mid"
  shows "conn_ok c'"
proof -
  have k: "has_key c' = has_key c" using assms(2) by (simp add: has_key_def fun_eq_iff)
  note d = conn_okD [OF assms(1)]
  show ?thesis
  proof (rule conn_okI)
    fix mid n assume "map_of (cn_pending c') mid = Some n"
    then have "map_of (cn_pending c) mid = Some n" using assms(6) by (auto simp: map_le_def dom_def)
    then show "\<exists>i. has_key c' i mid n" using d(3) k by simp
  qed (use assms d k in auto)
qed

text \<open>A call that leaves its key and removes the entry of its message id.\<close>

lemma conn_ok_return:
  assumes "conn_ok c" and "has_key c i mid n" and "\<And>f. r = Some f \<Longrightarrow> fr_msg_id f = mid"
  shows "conn_ok (set_call i (Returned mid r) (c\<lparr>cn_pending := AList.delete mid (cn_pending c)\<rparr>))" (is "conn_ok ?c")
proof -
  note d = conn_okD [OF assms(1)]
  show ?thesis
  proof (rule conn_okI)
    fix m k assume "map_of (cn_pending ?c) m = Some k"
    then have m: "m \<noteq> mid" "map_of (cn_pending c) m = Some k"
      by (auto simp: delete_conv' split: if_splits)
    then obtain j where j: "has_key c j m k" using d(3) by blast
    then have "j \<noteq> i" using m(1) assms(2) by (auto simp: has_key_def)
    then show "\<exists>i. has_key ?c i m k" using j by (auto simp: has_key_cong)
  next
    fix m f assume "Returned m (Some f) \<in> set (cn_calls ?c)"
    then have "Returned m (Some f) \<in> set (cn_calls c) \<or> m = mid \<and> r = Some f"
      using set_update_subset_insert [of "cn_calls c" i "Returned mid r"] by auto
    then show "fr_msg_id f = m" using d(7) assms(3) by blast
  qed (use d in \<open>auto simp: has_key_cong distinct_delete split: if_splits intro: le_trans [OF length_delete_le]\<close>)
qed

text \<open>A call that goes on and keeps its key.\<close>

lemma conn_ok_move:
  assumes "conn_ok c" and "i < length (cn_calls c)" and "call_key p = call_key (cn_calls c ! i)"
    and "\<And>mid f. p \<noteq> Returned mid (Some f)"
  shows "conn_ok (set_call i p c)"
proof -
  note d = conn_okD [OF assms(1)]
  have k: "has_key (set_call i p c) = has_key c"
    using assms(2,3) by (auto simp: fun_eq_iff has_key_def nth_list_update)
  show ?thesis
  proof (rule conn_okI)
    fix m f assume "Returned m (Some f) \<in> set (cn_calls (set_call i p c))"
    then have "Returned m (Some f) \<in> set (cn_calls c)"
      using set_update_subset_insert [of "cn_calls c" i p] assms(4) by fastforce
    then show "fr_msg_id f = m" by (rule d(7))
  qed (use d k in auto)
qed

lemma delete_absent: "map_of ps k = None \<Longrightarrow> AList.delete k ps = ps"
  by (force simp: AList.delete_eq filter_id_conv map_of_eq_None_iff)

lemma conn_ok_enter: "conn_ok c \<Longrightarrow> conn_ok (enter_request mid c)"
proof -
  assume c: "conn_ok c"
  note d = conn_okD [OF c]
  have k: "has_key (enter_request mid c) = has_key c"
    by (auto simp: fun_eq_iff has_key_def enter_request_def nth_append less_Suc_eq split: if_splits)
  show ?thesis
    by (rule conn_okI) (use d k in \<open>auto simp: enter_request_def split: if_splits\<close>)
qed

lemma conn_ok_register:
  assumes "conn_ok c" and "i < length (cn_calls c)" and "cn_calls c ! i = Entered mid"
  shows "conn_ok (register_request i mid c)"
proof (cases "kMaxPending \<le> length (cn_pending c)")
  case True
  then show ?thesis using conn_ok_move [OF assms(1,2)] assms(3) by (simp add: register_request_def)
next
  case False
  note d = conn_okD [OF assms(1)]
  let ?n = "length (cn_objects c)" and ?c = "register_request i mid c"
  have f: "cn_pending ?c = AList.update mid ?n (cn_pending c)"
    "cn_objects ?c = cn_objects c @ [\<lparr>pd_done = False, pd_response = None\<rparr>]"
    "cn_calls ?c = (cn_calls c)[i := Registered mid ?n]"
    using False by (simp_all add: register_request_def)
  have k: "has_key ?c j m n \<longleftrightarrow> (if j = i then m = mid \<and> n = ?n else has_key c j m n)" for j m n
    using False assms(2) by (auto simp: register_request_def has_key_cong)
  have "length (AList.update mid ?n ps) \<le> Suc (length ps)" for ps :: "(u32 \<times> nat) list"
    by (induction ps) auto
  then have "length (cn_pending ?c) \<le> kMaxPending"
    unfolding f using False by (meson not_less_eq_eq order_trans)
  moreover have "\<exists>i. has_key ?c i m n" if mn: "map_of (cn_pending ?c) m = Some n" for m n
  proof (cases "m = mid")
    case True
    then show ?thesis using mn unfolding f update_conv' k by auto
  next
    case False
    then obtain j where j: "has_key c j m n" using mn d(3) [of m n] unfolding f update_conv' by auto
    then have "j \<noteq> i" using assms(3) by (auto simp: has_key_def)
    then show ?thesis using j k by metis
  qed
  moreover have "fr_msg_id g = m" if "Returned m (Some g) \<in> set (cn_calls ?c)" for m g
    using that d(7) set_update_subset_insert [of "cn_calls c" i "Registered mid ?n"] unfolding f by blast
  moreover have "j = j'" if "has_key ?c j m n" "has_key ?c j' m' n" for j j' m m' n
    using that d(4,6) unfolding k by (fastforce split: if_splits)
  moreover have "n < length (cn_objects ?c)" "pd_response (cn_objects ?c ! n) = Some g \<Longrightarrow> fr_msg_id g = m"
    if "has_key ?c j m n" for j m n g
    using that d(4) [of j m n] d(5) [of j m n g] unfolding k f
    by (auto simp: nth_append split: if_splits)
  moreover have "distinct (map fst (cn_pending ?c))"
    unfolding f using d(1) by (simp add: distinct_update)
  ultimately show ?thesis by (intro conn_okI) blast+
qed

lemma conn_ok_objects_done:
  assumes "conn_ok c"
  shows "conn_ok (c\<lparr>cn_objects := (cn_objects c)[m := (cn_objects c ! m)\<lparr>pd_done := True\<rparr>]\<rparr>)"
proof (rule conn_ok_objects [OF assms])
  fix i mid n f
  assume "has_key c i mid n" and "pd_response (cn_objects (c\<lparr>cn_objects :=
    (cn_objects c)[m := (cn_objects c ! m)\<lparr>pd_done := True\<rparr>]\<rparr>) ! n) = Some f"
  then show "fr_msg_id f = mid"
    using conn_okD(4) [OF assms, of i mid n] conn_okD(5) [OF assms, of i mid n f] by (cases "m = n") auto
qed (use conn_okD(1) [OF assms] in auto)

lemma conn_ok_abandon:
  assumes "conn_ok c" and "has_key c i mid n"
  shows "conn_ok (abandon_request i mid c)"
proof (cases "map_of (cn_pending c) mid")
  case None
  then show ?thesis
    using conn_ok_return [OF assms, of None] by (simp add: abandon_request_def delete_absent)
next
  case (Some m)
  have "has_key (c\<lparr>cn_objects := (cn_objects c)[m := (cn_objects c ! m)\<lparr>pd_done := True\<rparr>]\<rparr>) i mid n"
    using assms(2) by (simp add: has_key_cong)
  from conn_ok_return [OF conn_ok_objects_done [OF assms(1)] this, of None] show ?thesis
    using Some by (simp add: abandon_request_def)
qed

lemma nth_foldl_update:
  "n < length os \<Longrightarrow> foldl (\<lambda>os m. os[m := x]) os ms ! n = (if n \<in> set ms then x else os ! n)"
  by (induction ms arbitrary: os) auto

lemma length_foldl_update [simp]: "length (foldl (\<lambda>os m. os[m := x]) os ms) = length os"
  by (induction ms arbitrary: os) auto

lemma conn_ok_resolve: "conn_ok c \<Longrightarrow> conn_ok (resolve_pending None c)"
proof (rule conn_ok_objects, assumption)
  fix i mid n f
  assume c: "conn_ok c" and k: "has_key c i mid n"
    and r: "pd_response (cn_objects (resolve_pending None c) ! n) = Some f"
  then show "fr_msg_id f = mid"
    using conn_okD(4,5) [OF c k] by (auto simp: resolve_pending_def nth_foldl_update split: if_splits)
qed (simp_all add: resolve_pending_def)

lemma conn_ok_receive:
  assumes "conn_ok c"
  shows "conn_ok (receive_frame h f c)"
proof (rule conn_ok_objects [OF assms])
  fix i mid n g
  assume k: "has_key c i mid n" and r: "pd_response (cn_objects (receive_frame h f c) ! n) = Some g"
  show "fr_msg_id g = mid"
  proof (cases "map_of (cn_pending c) (fr_msg_id f) = Some n")
    case True
    then obtain j where "has_key c j (fr_msg_id f) n" using conn_okD(3) [OF assms] by blast
    moreover from this have "mid = fr_msg_id f"
      using conn_okD(6) [OF assms k] k by (auto simp: has_key_def)
    ultimately show ?thesis
      using r True conn_okD(4) [OF assms k] by (simp add: receive_frame_def Let_def)
  next
    case False
    then show ?thesis
      using r conn_okD(4,5) [OF assms k] by (auto simp: receive_frame_def Let_def nth_list_update split: option.splits if_splits)
  qed
qed (use conn_okD(1) [OF assms] in \<open>auto simp: receive_frame_def Let_def split: option.split\<close>)

lemma conn_ok_frame [simp]:
  "conn_ok (c\<lparr>cn_frames_sent := x\<rparr>) = conn_ok c" "conn_ok (c\<lparr>cn_reader := r\<rparr>) = conn_ok c"
  "conn_ok (c\<lparr>cn_dead := d\<rparr>) = conn_ok c" "conn_ok (c\<lparr>cn_open := d\<rparr>) = conn_ok c"
  "conn_ok (c\<lparr>cn_shutdown := sd\<rparr>) = conn_ok c"
  by (simp_all add: conn_ok_def has_key_def)

lemma conn_ok_step: "conn_step h c c' \<Longrightarrow> conn_ok c \<Longrightarrow> conn_ok c'"
proof (induction rule: conn_step.induct)
  case (send i c mid n ok)
  have "conn_ok (fst (conn_send_frame ok c))"
    using send.prems by (auto simp: conn_send_frame_def)
  moreover have "cn_calls (fst (conn_send_frame ok c)) = cn_calls c" by (simp add: conn_send_frame_def)
  ultimately show ?case
    using send.hyps by (auto simp: send_request_def split: prod.split intro!: conn_ok_move)
next
  case (collect i c mid n)
  then have "has_key c i mid n" by (simp add: has_key_def)
  then show ?case
    using conn_ok_return [OF collect.prems, of i mid n "pd_response (cn_objects c ! n)"]
      conn_okD(5) [OF collect.prems] by (simp add: collect_response_def)
next
  case (abandon i c mid n)
  then show ?case by (intro conn_ok_abandon) (simp_all add: has_key_def)
qed (simp_all add: conn_ok_enter conn_ok_register conn_ok_receive conn_ok_resolve)

lemma conn_ok_new: "conn_ok new_Conn"
  by (rule conn_okI) (simp_all add: new_Conn_def has_key_def)

text \<open>What holds as long as no two outstanding requests share a message id.\<close>

definition conn_live :: "Conn \<Rightarrow> bool" where
  "conn_live c \<longleftrightarrow>
     (cn_reader c \<in> {Marked, Exited} \<longrightarrow> cn_dead c) \<and>
     (\<forall>i mid n. has_key c i mid n \<and> \<not> pd_done (cn_objects c ! n) \<longrightarrow> map_of (cn_pending c) mid = Some n) \<and>
     (\<forall>i mid n. cn_reader c = Exited \<and> i < length (cn_calls c) \<and> cn_calls c ! i = Waiting mid n \<longrightarrow>
        pd_done (cn_objects c ! n))"

lemma conn_liveI:
  assumes "cn_reader c \<in> {Marked, Exited} \<Longrightarrow> cn_dead c"
    and "\<And>i mid n. has_key c i mid n \<Longrightarrow> \<not> pd_done (cn_objects c ! n) \<Longrightarrow> map_of (cn_pending c) mid = Some n"
    and "\<And>i mid n. cn_reader c = Exited \<Longrightarrow> i < length (cn_calls c) \<Longrightarrow> cn_calls c ! i = Waiting mid n \<Longrightarrow>
      pd_done (cn_objects c ! n)"
  shows "conn_live c"
  using assms unfolding conn_live_def by blast

lemma conn_liveD:
  assumes "conn_live c"
  shows "cn_reader c \<in> {Marked, Exited} \<Longrightarrow> cn_dead c"
    and "\<And>i mid n. has_key c i mid n \<Longrightarrow> \<not> pd_done (cn_objects c ! n) \<Longrightarrow> map_of (cn_pending c) mid = Some n"
    and "\<And>i mid n. cn_reader c = Exited \<Longrightarrow> i < length (cn_calls c) \<Longrightarrow> cn_calls c ! i = Waiting mid n \<Longrightarrow>
      pd_done (cn_objects c ! n)"
  using assms unfolding conn_live_def by blast+

lemma waiting_has_key: "i < length (cn_calls c) \<Longrightarrow> cn_calls c ! i = Waiting mid n \<Longrightarrow> has_key c i mid n"
  by (simp add: has_key_def)

text \<open>Marking objects as done, with the calls and the pending entries as they are.\<close>

lemma conn_live_objects:
  assumes "conn_live c" and "conn_ok c" and "cn_calls c' = cn_calls c" and "cn_pending c' = cn_pending c"
    and "cn_reader c' = cn_reader c" and "cn_dead c' = cn_dead c"
    and "\<And>n. n < length (cn_objects c) \<Longrightarrow> pd_done (cn_objects c ! n) \<Longrightarrow> pd_done (cn_objects c' ! n)"
  shows "conn_live c'"
proof -
  have k: "has_key c' = has_key c" using assms(3) by (simp add: has_key_def fun_eq_iff)
  have kept: "pd_done (cn_objects c' ! n)" if "has_key c i mid n" "pd_done (cn_objects c ! n)" for i mid n
    using conn_okD(4) [OF assms(2) that(1)] that(2) by (rule assms(7))
  show ?thesis
  proof (rule conn_liveI)
    fix i mid n assume "has_key c' i mid n" "\<not> pd_done (cn_objects c' ! n)"
    then show "map_of (cn_pending c') mid = Some n"
      using kept conn_liveD(2) [OF assms(1)] assms(4) k by metis
  next
    fix i mid n assume "cn_reader c' = Exited" "i < length (cn_calls c')" "cn_calls c' ! i = Waiting mid n"
    then show "pd_done (cn_objects c' ! n)"
      using kept waiting_has_key conn_liveD(3) [OF assms(1)] assms(3,5) by metis
  qed (use conn_liveD(1) [OF assms(1)] assms(5,6) in simp)
qed

lemma conn_live_return:
  assumes "conn_live c" and "distinct_ids c" and "has_key c i mid n"
  shows "conn_live (set_call i (Returned mid r) (c\<lparr>cn_pending := AList.delete mid (cn_pending c)\<rparr>))" (is "conn_live ?c")
proof (rule conn_liveI)
  fix j m k assume key: "has_key ?c j m k" and nd: "\<not> pd_done (cn_objects ?c ! k)"
  from key have j: "j \<noteq> i" "has_key c j m k" by (auto simp: has_key_cong split: if_splits)
  then have "m \<noteq> mid" using assms(2,3) unfolding distinct_ids_def by blast
  then show "map_of (cn_pending ?c) m = Some k"
    using conn_liveD(2) [OF assms(1) j(2)] nd by simp
next
  fix j m k assume "cn_reader ?c = Exited" "j < length (cn_calls ?c)" "cn_calls ?c ! j = Waiting m k"
  then show "pd_done (cn_objects ?c ! k)"
    using conn_liveD(3) [OF assms(1), of j m k] by (cases "j = i") auto
qed (use conn_liveD(1) [OF assms(1)] in simp)

lemma conn_live_resolve:
  assumes "conn_live c" and "conn_ok c"
  shows "conn_live (resolve_pending None c)" "cn_dead c \<Longrightarrow> conn_live ((resolve_pending None c)\<lparr>cn_reader := Exited\<rparr>)"
proof -
  let ?os = "foldl (\<lambda>os m. os[m := \<lparr>pd_done = True, pd_response = None\<rparr>]) (cn_objects c) (map snd (cn_pending c))"
  have all: "pd_done (?os ! n)" if "has_key c i mid n" for i mid n
  proof (cases "pd_done (cn_objects c ! n)")
    case False
    then have "(mid, n) \<in> set (cn_pending c)" using conn_liveD(2) [OF assms(1) that] map_of_SomeD by metis
    then show ?thesis using conn_okD(4) [OF assms(2) that] by (force simp: nth_foldl_update)
  qed (use conn_okD(4) [OF assms(2) that] in \<open>simp add: nth_foldl_update\<close>)
  have k: "has_key (resolve_pending None c) = has_key c" by (simp add: resolve_pending_def has_key_cong)
  have w: "pd_done (?os ! n)" if "i < length (cn_calls c)" "cn_calls c ! i = Waiting mid n" for i mid n
    using all waiting_has_key [OF that] .
  show "conn_live (resolve_pending None c)"
    by (intro conn_liveI) (use all w k conn_liveD(1) [OF assms(1)] in \<open>auto simp: resolve_pending_def\<close>)
  show "conn_live ((resolve_pending None c)\<lparr>cn_reader := Exited\<rparr>)" if "cn_dead c"
    by (intro conn_liveI)
      (use that all w k in \<open>auto simp: resolve_pending_def has_key_cong\<close>)
qed

lemma conn_live_register:
  assumes "conn_live c" and "conn_ok c" and "i < length (cn_calls c)" and "cn_calls c ! i = Entered mid"
    and "distinct_ids (register_request i mid c)"
  shows "conn_live (register_request i mid c)"
proof (cases "kMaxPending \<le> length (cn_pending c)")
  case True
  have "conn_live (set_call i (Returned mid None) c)"
    using conn_liveD [OF assms(1)] assms(3,4)
    by (intro conn_liveI) (auto simp: nth_list_update split: if_splits)
  then show ?thesis using True by (simp add: register_request_def)
next
  case False
  let ?n = "length (cn_objects c)" and ?c = "register_request i mid c"
  have f: "cn_pending ?c = AList.update mid ?n (cn_pending c)" "cn_reader ?c = cn_reader c" "cn_dead ?c = cn_dead c"
    "cn_objects ?c = cn_objects c @ [\<lparr>pd_done = False, pd_response = None\<rparr>]"
    "cn_calls ?c = (cn_calls c)[i := Registered mid ?n]"
    using False by (simp_all add: register_request_def)
  have k: "has_key ?c j m n \<longleftrightarrow> (if j = i then m = mid \<and> n = ?n else has_key c j m n)" for j m n
    using False assms(3) by (auto simp: register_request_def has_key_cong)
  show ?thesis
  proof (rule conn_liveI)
    fix j m n assume key: "has_key ?c j m n" and nd: "\<not> pd_done (cn_objects ?c ! n)"
    show "map_of (cn_pending ?c) m = Some n"
    proof (cases "j = i")
      case True
      then show ?thesis using key k by (simp add: f update_conv')
    next
      case False
      then have j: "has_key c j m n" using key k by simp
      have "has_key ?c i mid ?n" using k by simp
      then have "m \<noteq> mid" using assms(5) key False unfolding distinct_ids_def by blast
      moreover have "\<not> pd_done (cn_objects c ! n)"
        using nd conn_okD(4) [OF assms(2) j] by (simp add: f nth_append)
      ultimately show ?thesis using conn_liveD(2) [OF assms(1) j] by (simp add: f update_conv')
    qed
  next
    fix j m n assume "cn_reader ?c = Exited" "j < length (cn_calls ?c)" "cn_calls ?c ! j = Waiting m n"
    then have w: "j \<noteq> i" "cn_reader c = Exited" "j < length (cn_calls c)" "cn_calls c ! j = Waiting m n"
      using assms(3) by (auto simp: f nth_list_update split: if_splits)
    then show "pd_done (cn_objects ?c ! n)"
      using conn_liveD(3) [OF assms(1) w(2-4)] conn_okD(4) [OF assms(2) waiting_has_key [OF w(3,4)]]
      by (simp add: f nth_append)
  qed (use conn_liveD(1) [OF assms(1)] f in simp)
qed

lemma done_update: "n < length os \<Longrightarrow> pd_done (os ! n) \<Longrightarrow> pd_done x \<Longrightarrow> pd_done (os[m := x] ! n)"
  by (cases "m = n") auto

lemma conn_live_send:
  assumes "conn_live c" and "i < length (cn_calls c)" and "cn_calls c ! i = Registered mid n"
  shows "conn_live (send_request ok i mid n c)"
proof -
  let ?sent = "cn_open c \<and> \<not> cn_dead c \<and> ok"
  have c': "send_request ok i mid n c = set_call i (if ?sent then Waiting mid n else SendFailed mid n)
      (if ?sent then c\<lparr>cn_frames_sent := cn_frames_sent c + 1\<rparr> else c)"
    by (auto simp: send_request_def conn_send_frame_def)
  have k: "has_key (send_request ok i mid n c) = has_key c"
    using assms(2,3) by (auto simp: c' fun_eq_iff has_key_def nth_list_update)
  note live = conn_liveD [OF assms(1)]
  show ?thesis
  proof (rule conn_liveI)
    fix j m p
    assume a: "cn_reader (send_request ok i mid n c) = Exited" "j < length (cn_calls (send_request ok i mid n c))"
      "cn_calls (send_request ok i mid n c) ! j = Waiting m p"
    then have "\<not> ?sent" using live(1) by (auto simp: c' split: if_splits)
    then show "pd_done (cn_objects (send_request ok i mid n c) ! p)"
      using a live(3) [of j m p] assms(2,3) by (auto simp: c' nth_list_update split: if_splits)
  next
    fix j m p assume "has_key (send_request ok i mid n c) j m p" "\<not> pd_done (cn_objects (send_request ok i mid n c) ! p)"
    then show "map_of (cn_pending (send_request ok i mid n c)) m = Some p"
      using live(2) [of j m p] unfolding k by (simp add: c' split: if_splits)
  qed (use live(1) in \<open>simp add: c' split: if_splits\<close>)
qed

lemma conn_live_abandon:
  assumes "conn_live c" and "conn_ok c" and "distinct_ids c" and "i < length (cn_calls c)" and "cn_calls c ! i = SendFailed mid n"
  shows "conn_live (abandon_request i mid c)"
proof (cases "map_of (cn_pending c) mid")
  case None
  then show ?thesis
    using conn_live_return [OF assms(1,3), of i mid n None] assms(4,5)
    by (simp add: abandon_request_def delete_absent has_key_def)
next
  case (Some m)
  let ?c = "c\<lparr>cn_objects := (cn_objects c)[m := (cn_objects c ! m)\<lparr>pd_done := True\<rparr>]\<rparr>"
  have "conn_live ?c"
    by (rule conn_live_objects [OF assms(1,2)]) (auto simp: done_update)
  moreover have "distinct_ids ?c" "has_key ?c i mid n"
    using assms(3) assms(4,5) by (simp_all add: distinct_ids_def has_key_cong) (simp add: has_key_def)
  ultimately show ?thesis
    using conn_live_return [of ?c i mid n None] Some by (simp add: abandon_request_def)
qed

lemma conn_live_step:
  "conn_step h c c' \<Longrightarrow> conn_live c \<Longrightarrow> conn_ok c \<Longrightarrow> distinct_ids c \<Longrightarrow> distinct_ids c' \<Longrightarrow> conn_live c'"
proof (induction rule: conn_step.induct)
  case (enter c mid)
  have k: "has_key (enter_request mid c) = has_key c"
    by (auto simp: fun_eq_iff has_key_def enter_request_def nth_append less_Suc_eq split: if_splits)
  show ?case
    by (rule conn_liveI) (use conn_liveD [OF enter.prems(1)] k in
        \<open>auto simp: enter_request_def nth_append less_Suc_eq split: if_splits\<close>)
next
  case (collect i c mid n)
  then show ?case
    using conn_live_return [OF collect.prems(1,3), of i mid n] by (simp add: collect_response_def has_key_def)
next
  case (receive c f)
  show ?case
    by (rule conn_live_objects [OF receive.prems(1,2)])
      (auto simp: receive_frame_def Let_def done_update split: option.split)
next
  case (resolve c)
  then show ?case using conn_live_resolve(2) conn_liveD(1) by simp
next
  case (shut c)
  then have "conn_live (resolve_pending None c)" using conn_live_resolve(1) by blast
  then show ?case by (auto simp: conn_live_def has_key_cong)
qed (auto simp: conn_live_register conn_live_send conn_live_abandon, auto simp: conn_live_def has_key_cong)

lemma conn_reach_ok: "conn_reach h c \<Longrightarrow> conn_ok c"
  by (induction rule: conn_reach.induct) (auto simp: conn_ok_new conn_ok_step)

lemma conn_reach_distinct_ok: "conn_reach_distinct h c \<Longrightarrow> conn_ok c \<and> conn_live c \<and> distinct_ids c"
proof (induction rule: conn_reach_distinct.induct)
  case start
  then show ?case by (simp add: conn_ok_new) (simp add: conn_live_def distinct_ids_def has_key_def new_Conn_def)
qed (blast intro: conn_ok_step conn_live_step)

section \<open>Properties\<close>

text \<open>
  C32. Responses are correlated with their requests and pending requests are bounded, however
  the threads interleave: a call of \<open>request\<close> that returns a frame returns one with its own
  message id, and at most 64 requests are pending.
\<close>

theorem responses_correlated:
  assumes "conn_reach h c"
  shows "length (cn_pending c) \<le> 64 \<and> (\<forall>mid f. Returned mid (Some f) \<in> set (cn_calls c) \<longrightarrow> fr_msg_id f = mid)"
  using conn_okD(2,7) [OF conn_reach_ok [OF assms]] by (auto simp: kMaxPending_def)

lemmas region_defs = new_Conn_def enter_request_def register_request_def send_request_def conn_send_frame_def
  set_call_def collect_response_def receive_frame_def abandon_request_def resolve_pending_def kMaxPending_def

text \<open>One request that is answered.\<close>

definition asked :: Conn where
  "asked = send_request True 0 7 0 (register_request 0 7 (enter_request 7 new_Conn))"

lemma asked_reached: "conn_reach h asked" "conn_reach_distinct h asked"
proof -
  let ?c1 = "enter_request 7 new_Conn" and ?c2 = "register_request 0 7 (enter_request 7 new_Conn)"
  have c: "cn_calls ?c1 = [Entered 7]" "cn_calls ?c2 = [Registered 7 0]" "cn_calls asked = [Waiting 7 0]"
    by (simp_all add: asked_def region_defs)
  have s: "conn_step h new_Conn ?c1" "conn_step h ?c1 ?c2" "conn_step h ?c2 asked"
    unfolding asked_def by (rule conn_step.enter, rule conn_step.register, simp_all add: c, rule conn_step.send, simp_all add: c)
  have d: "distinct_ids ?c1" "distinct_ids ?c2" "distinct_ids asked"
    by (auto simp: distinct_ids_def has_key_def c)
  show "conn_reach h asked" using s conn_reach.intros by metis
  show "conn_reach_distinct h asked" using s d conn_reach_distinct.intros by metis
qed

lemma asked_calls: "cn_calls asked = [Waiting 7 0]" "cn_reader asked = Reading" "cn_pending asked = [(7, 0)]"
  "cn_objects asked = [\<lparr>pd_done = False, pd_response = None\<rparr>]" "cn_dead asked = False"
  by (simp_all add: asked_def region_defs)

definition answered :: Conn where
  "answered = collect_response 0 7 0 (receive_frame False (default_Frame\<lparr>fr_msg_id := 7\<rparr>) asked)"

lemma answered_reached: "conn_reach False answered"
proof -
  let ?c = "receive_frame False (default_Frame\<lparr>fr_msg_id := 7\<rparr>) asked"
  have "cn_calls ?c = [Waiting 7 0]" "pd_done (cn_objects ?c ! 0)"
    by (simp_all add: receive_frame_def Let_def asked_calls)
  then have "conn_step False ?c answered"
    unfolding answered_def by (intro conn_step.collect) simp_all
  moreover have "conn_step False asked ?c" by (rule conn_step.receive) (simp add: asked_calls)
  ultimately show ?thesis using asked_reached conn_reach.step by metis
qed

theorem responses_correlated_witness:
  "conn_reach False answered \<and> cn_calls answered = [Returned 7 (Some (default_Frame\<lparr>fr_msg_id := 7\<rparr>))] \<and>
     length (cn_pending answered) \<le> 64"
  using responses_correlated [OF answered_reached] answered_reached
  by (simp add: answered_def collect_response_def set_call_def receive_frame_def Let_def asked_calls)

text \<open>
  The steps of call \<open>i\<close> itself: the regions of \<open>request\<close> that its own thread executes. A waiting
  call has such a step only once its object is done.
\<close>

inductive own_step :: "nat \<Rightarrow> Conn \<Rightarrow> Conn \<Rightarrow> bool" for i where
  own_register: "i < length (cn_calls c) \<Longrightarrow> cn_calls c ! i = Entered mid \<Longrightarrow>
    own_step i c (register_request i mid c)"
| own_send: "i < length (cn_calls c) \<Longrightarrow> cn_calls c ! i = Registered mid n \<Longrightarrow>
    own_step i c (send_request ok i mid n c)"
| own_abandon: "i < length (cn_calls c) \<Longrightarrow> cn_calls c ! i = SendFailed mid n \<Longrightarrow>
    own_step i c (abandon_request i mid c)"
| own_collect: "i < length (cn_calls c) \<Longrightarrow> cn_calls c ! i = Waiting mid n \<Longrightarrow> pd_done (cn_objects c ! n) \<Longrightarrow>
    own_step i c (collect_response i mid n c)"

text \<open>A run in which \<open>k\<close> steps are steps of call \<open>i\<close> and all the others are not.\<close>

inductive conn_run :: "bool \<Rightarrow> nat \<Rightarrow> nat \<Rightarrow> Conn \<Rightarrow> Conn \<Rightarrow> bool" for h i where
  run_here: "conn_run h i 0 c c"
| run_own: "conn_run h i k c d \<Longrightarrow> own_step i d e \<Longrightarrow> conn_run h i (Suc k) c e"
| run_other: "conn_run h i k c d \<Longrightarrow> conn_step h d e \<Longrightarrow> \<not> own_step i d e \<Longrightarrow> conn_run h i k c e"

text \<open>The runs of the connection are these runs, with the steps of call \<open>i\<close> counted.\<close>

lemma own_step_is_step: "own_step i c d \<Longrightarrow> conn_step h c d"
  by (induction rule: own_step.induct) (simp_all add: conn_step.intros)

lemma steps_are_runs: "(conn_step h)\<^sup>*\<^sup>* c d \<longleftrightarrow> (\<exists>k. conn_run h i k c d)"
proof
  assume "(conn_step h)\<^sup>*\<^sup>* c d"
  then show "\<exists>k. conn_run h i k c d"
    by (induction rule: rtranclp_induct) (use conn_run.intros in blast)+
next
  assume "\<exists>k. conn_run h i k c d"
  then obtain k where "conn_run h i k c d" ..
  then show "(conn_step h)\<^sup>*\<^sup>* c d"
    by (induction rule: conn_run.induct) (auto intro: rtranclp.rtrancl_into_rtrancl own_step_is_step)
qed

text \<open>How many steps of its own a call has left once the connection is dead.\<close>

fun call_rank :: "RequestCall \<Rightarrow> nat" where
  "call_rank (Entered _) = 3"
| "call_rank (Registered _ _) = 2"
| "call_rank (SendFailed _ _) = 1"
| "call_rank (Waiting _ _) = 1"
| "call_rank (Returned _ _) = 0"

lemma call_rank_0: "call_rank p = 0 \<longleftrightarrow> (\<exists>mid r. p = Returned mid r)"
  by (cases p) auto

text \<open>A connection whose reader is gone and whose waiters have all been signalled stays so.\<close>

definition settled :: "Conn \<Rightarrow> bool" where
  "settled c \<longleftrightarrow> cn_reader c = Exited \<and> cn_dead c \<and>
     (\<forall>mid n. Waiting mid n \<in> set (cn_calls c) \<longrightarrow> n < length (cn_objects c) \<and> pd_done (cn_objects c ! n))"

lemma settledI:
  assumes "settled c" and "cn_reader c' = cn_reader c" and "cn_dead c' = cn_dead c"
    and "\<And>mid n. Waiting mid n \<in> set (cn_calls c') \<Longrightarrow> Waiting mid n \<in> set (cn_calls c)"
    and "length (cn_objects c) \<le> length (cn_objects c')"
    and "\<And>n. n < length (cn_objects c) \<Longrightarrow> pd_done (cn_objects c ! n) \<Longrightarrow> pd_done (cn_objects c' ! n)"
  shows "settled c'"
  using assms unfolding settled_def by (metis order_less_le_trans)

lemma waiting_update: "Waiting m k \<in> set (ps[i := p]) \<Longrightarrow> (\<And>a b. p \<noteq> Waiting a b) \<Longrightarrow> Waiting m k \<in> set ps"
  using set_update_subset_insert [of ps i p] by auto

lemma settled_send: "settled c \<Longrightarrow> send_request ok i mid n c = set_call i (SendFailed mid n) c"
  by (simp add: settled_def send_request_def conn_send_frame_def)

lemma settled_step: "conn_step h c c' \<Longrightarrow> settled c \<Longrightarrow> settled c'"
proof (induction rule: conn_step.induct)
  case (send i c mid n ok)
  show ?case
    unfolding settled_send [OF send.prems]
    by (rule settledI [OF send.prems]) (auto dest: waiting_update)
next
  case (register i c mid)
  show ?case
    by (rule settledI [OF register.prems])
      (auto simp: register_request_def nth_append dest: waiting_update split: if_splits)
next
  case (abandon i c mid n)
  show ?case
    by (rule settledI [OF abandon.prems])
      (auto simp: abandon_request_def done_update dest: waiting_update split: option.splits)
next
  case (collect i c mid n)
  show ?case
    by (rule settledI [OF collect.prems]) (auto simp: collect_response_def dest: waiting_update)
next
  case (enter c mid)
  show ?case
    by (rule settledI [OF enter.prems]) (auto simp: enter_request_def split: if_splits)
next
  case (shut c)
  show ?case
    by (rule settledI [OF shut.prems]) (auto simp: resolve_pending_def nth_foldl_update)
qed (auto simp: settled_def)

lemma exited_settled:
  assumes "conn_reach_distinct h c" and "cn_reader c = Exited"
  shows "settled c"
proof -
  have c: "conn_ok c" "conn_live c" using conn_reach_distinct_ok [OF assms(1)] by auto
  have "n < length (cn_objects c) \<and> pd_done (cn_objects c ! n)" if w: "Waiting mid n \<in> set (cn_calls c)" for mid n
  proof -
    obtain i where i: "i < length (cn_calls c)" "cn_calls c ! i = Waiting mid n"
      using w by (auto simp: in_set_conv_nth)
    show ?thesis using conn_okD(4) [OF c(1) waiting_has_key [OF i]] conn_liveD(3) [OF c(2) assms(2) i] by simp
  qed
  then show ?thesis using conn_liveD(1) [OF c(2)] assms(2) by (simp add: settled_def)
qed

text \<open>A step that is not one of call \<open>i\<close> leaves it where it is.\<close>

lemma other_step_keeps:
  "conn_step h c c' \<Longrightarrow> \<not> own_step i c c' \<Longrightarrow> i < length (cn_calls c) \<Longrightarrow>
     i < length (cn_calls c') \<and> cn_calls c' ! i = cn_calls c ! i"
proof (induction rule: conn_step.induct)
  case (register j c mid)
  then have "j \<noteq> i" using own_register by blast
  then show ?case using register.prems by (simp add: register_request_def)
next
  case (send j c mid n ok)
  then have "j \<noteq> i" using own_send by blast
  then show ?case using send.prems by (simp add: send_request_def conn_send_frame_def)
next
  case (abandon j c mid n)
  then have "j \<noteq> i" using own_abandon by blast
  then show ?case using abandon.prems by (simp add: abandon_request_def split: option.split)
next
  case (collect j c mid n)
  then have "j \<noteq> i" using own_collect by blast
  then show ?case using collect.prems by (simp add: collect_response_def)
qed (simp_all add: enter_request_def nth_append receive_frame_def Let_def resolve_pending_def split: option.split)

text \<open>Each step of a call of a settled connection brings it nearer to its return, and it has one.\<close>

lemma own_step_nearer:
  "own_step i c d \<Longrightarrow> settled c \<Longrightarrow>
     i < length (cn_calls d) \<and> call_rank (cn_calls d ! i) < call_rank (cn_calls c ! i)"
  by (induction rule: own_step.induct)
    (simp_all add: register_request_def settled_send abandon_request_def collect_response_def split: option.split)

lemma own_step_enabled:
  assumes "settled c" and "i < length (cn_calls c)" and "0 < call_rank (cn_calls c ! i)"
  shows "\<exists>d. own_step i c d"
proof (cases "cn_calls c ! i")
  case (Entered mid)
  show ?thesis using own_register [OF assms(2) Entered] ..
next
  case (Registered mid n)
  show ?thesis using own_send [OF assms(2) Registered] ..
next
  case (SendFailed mid n)
  show ?thesis using own_abandon [OF assms(2) SendFailed] ..
next
  case (Waiting mid n)
  then have "pd_done (cn_objects c ! n)" using assms(1,2) nth_mem unfolding settled_def by metis
  then show ?thesis using own_collect [OF assms(2) Waiting] by blast
qed (use assms(3) in simp)

lemma own_steps_return:
  assumes "settled c" and "i < length (cn_calls c)"
  shows "\<exists>n d mid r. n \<le> call_rank (cn_calls c ! i) \<and> (own_step i ^^ n) c d \<and> cn_calls d ! i = Returned mid r"
  using assms
proof (induction "call_rank (cn_calls c ! i)" arbitrary: c rule: less_induct)
  case less
  show ?case
  proof (cases "call_rank (cn_calls c ! i) = 0")
    case True
    then obtain mid r where "cn_calls c ! i = Returned mid r" unfolding call_rank_0 by blast
    then show ?thesis by (intro exI [of _ "0 :: nat"] exI [of _ c]) simp
  next
    case False
    then obtain d where d: "own_step i c d" using own_step_enabled less.prems by blast
    from own_step_nearer [OF d less.prems(1)] settled_step [OF own_step_is_step [OF d] less.prems(1)]
    obtain n e mid r where e: "n \<le> call_rank (cn_calls d ! i)" "(own_step i ^^ n) d e" "cn_calls e ! i = Returned mid r"
      using less.hyps by blast
    have "(own_step i ^^ Suc n) c e" using d e(2) by (rule relpowp_Suc_I2)
    moreover have "Suc n \<le> call_rank (cn_calls c ! i)" using own_step_nearer [OF d less.prems(1)] e(1) by simp
    ultimately show ?thesis using e(3) by blast
  qed
qed

lemma settled_run:
  assumes "conn_run h i k c c'" and "settled c" and "i < length (cn_calls c)"
  shows "settled c' \<and> i < length (cn_calls c') \<and> k + call_rank (cn_calls c' ! i) \<le> call_rank (cn_calls c ! i)"
  using assms
proof (induction rule: conn_run.induct)
  case (run_own k c d e)
  then show ?case using own_step_nearer [of i d e] settled_step [OF own_step_is_step] by fastforce
next
  case (run_other k c d e)
  then show ?case using other_step_keeps [of h d e i] settled_step by fastforce
qed simp

text \<open>
  C31. After a disconnect no request hangs, as long as outstanding requests carried different
  message ids up to then. Take any state in which the reader thread has left its loop and
  resolved the pending requests, any call of \<open>request\<close>, and any continuation, whatever the other
  threads do in it and however their steps interleave with the \<open>k\<close> steps the call itself has
  taken: the call then returns by steps of its own alone, the regions its own thread executes,
  and needs at most three of them in all, those already taken included. So it is never
  blocked, and no other thread has to do anything more for it.
\<close>

theorem disconnected_requests_return:
  assumes "conn_reach_distinct h c" and "cn_reader c = Exited" and "i < length (cn_calls c)"
    and "conn_run h i k c c'"
  shows "\<exists>n d mid r. k + n \<le> 3 \<and> (own_step i ^^ n) c' d \<and> cn_calls d ! i = Returned mid r"
proof -
  have c': "settled c'" "i < length (cn_calls c')" "k + call_rank (cn_calls c' ! i) \<le> call_rank (cn_calls c ! i)"
    using settled_run [OF assms(4) exited_settled [OF assms(1,2)] assms(3)] by auto
  have "call_rank (cn_calls c ! i) \<le> 3" by (cases "cn_calls c ! i") auto
  then show ?thesis using own_steps_return [OF c'(1,2)] c'(3) by (meson add_left_mono order_trans)
qed

definition disconnected :: Conn where
  "disconnected = (resolve_pending None (asked\<lparr>cn_reader := Marked, cn_dead := True\<rparr>))\<lparr>cn_reader := Exited\<rparr>"

lemma disconnected_reached: "conn_reach_distinct h disconnected"
proof -
  let ?l = "asked\<lparr>cn_reader := Left\<rparr>" and ?m = "asked\<lparr>cn_reader := Marked, cn_dead := True\<rparr>"
  have "conn_step h asked ?l" "conn_step h ?m disconnected"
    using conn_step.leave [of asked h] conn_step.resolve [of ?m h] by (simp_all add: asked_calls disconnected_def)
  moreover have "conn_step h ?l ?m" using conn_step.mark [of ?l h] by simp
  moreover have "distinct_ids ?l" "distinct_ids ?m" "distinct_ids disconnected"
    by (auto simp: distinct_ids_def has_key_def disconnected_def resolve_pending_def asked_calls)
  ultimately show ?thesis using asked_reached(2) conn_reach_distinct.step by metis
qed

theorem disconnected_requests_return_witness:
  "cn_calls disconnected ! 0 = Waiting 7 0 \<and> conn_run False 0 0 disconnected (enter_request 9 disconnected) \<and>
     (\<exists>n d mid r. n \<le> 3 \<and> (own_step 0 ^^ n) (enter_request 9 disconnected) d \<and> cn_calls d ! 0 = Returned mid r)"
proof -
  have c: "cn_reader disconnected = Exited" "0 < length (cn_calls disconnected)" "cn_calls disconnected ! 0 = Waiting 7 0"
    "cn_calls disconnected = [Waiting 7 0]"
    by (simp_all add: disconnected_def resolve_pending_def asked_calls)
  have "cn_calls (enter_request 9 disconnected) ! 0 = Waiting 7 0" by (simp add: enter_request_def c)
  moreover have "cn_calls d ! 0 \<noteq> Waiting 7 0" if "own_step 0 disconnected d" for d
    using that by (cases rule: own_step.cases) (use c in \<open>auto simp: collect_response_def\<close>)
  ultimately have r: "conn_run False 0 0 disconnected (enter_request 9 disconnected)"
    using conn_run.run_other [OF conn_run.run_here conn_step.enter] by metis
  then show ?thesis using disconnected_requests_return [OF disconnected_reached [of False] c(1,2) r] c(3) by simp
qed

text \<open>A waiter whose object nobody will signal any more.\<close>

definition stuck :: "Conn \<Rightarrow> bool" where
  "stuck c \<longleftrightarrow> 0 < length (cn_calls c) \<and> cn_calls c ! 0 = Waiting 7 0 \<and> 0 < length (cn_objects c) \<and>
     \<not> pd_done (cn_objects c ! 0) \<and> 0 \<notin> snd ` set (cn_pending c)"

lemma snd_update: "snd ` set (AList.update k v ps) \<subseteq> insert v (snd ` set ps)"
  by (induction ps) auto

lemma snd_delete: "snd ` set (AList.delete k ps) \<subseteq> snd ` set ps"
  by (auto simp: AList.delete_eq)

lemma stuck_step: "conn_step h c c' \<Longrightarrow> stuck c \<Longrightarrow> stuck c'"
proof (induction rule: conn_step.induct)
  case (register i c mid)
  then have "i \<noteq> 0" by (auto simp: stuck_def)
  then show ?case
    using register snd_update [of mid "length (cn_objects c)" "cn_pending c"]
    by (auto simp: stuck_def register_request_def nth_append)
next
  case (abandon i c mid n)
  then have "i \<noteq> 0" by (auto simp: stuck_def)
  moreover have "m \<noteq> 0" if "map_of (cn_pending c) mid = Some m" for m
    using map_of_SomeD [OF that] abandon.prems by (force simp: stuck_def)
  ultimately show ?case
    using abandon snd_delete [of mid "cn_pending c"] by (auto simp: stuck_def abandon_request_def split: option.split)
next
  case (collect i c mid n)
  then have "i \<noteq> 0" by (auto simp: stuck_def)
  then show ?case
    using collect snd_delete [of mid "cn_pending c"] by (auto simp: stuck_def collect_response_def)
next
  case (send i c mid n ok)
  then have "i \<noteq> 0" by (auto simp: stuck_def)
  then show ?case using send.prems by (auto simp: stuck_def send_request_def conn_send_frame_def)
next
  case (receive c f)
  have "m \<noteq> 0" if "map_of (cn_pending c) (fr_msg_id f) = Some m" for m
    using map_of_SomeD [OF that] receive.prems by (force simp: stuck_def)
  then show ?case using receive by (auto simp: stuck_def receive_frame_def Let_def split: option.split)
qed (auto simp: stuck_def enter_request_def nth_append resolve_pending_def nth_foldl_update)

text \<open>
  C33. Two outstanding requests with the same message id break the promise that a disconnect
  completes every pending request: the second one overwrites the entry of the first in
  \<open>pending_\<close>, and there is a run in which the reader has exited and resolved what was pending
  while the first call waits, in that state and in every state that can follow.
\<close>

theorem duplicate_ids_hang:
  "\<exists>c. conn_reach h c \<and> cn_reader c = Exited \<and> cn_pending c = [] \<and>
     {c'. (conn_step h)\<^sup>*\<^sup>* c c' \<and> cn_calls c' ! 0 \<noteq> Waiting 7 0} = {}"
proof -
  let ?c1 = "enter_request 7 asked"
  let ?c2 = "register_request 1 7 ?c1"
  let ?c3 = "?c2\<lparr>cn_reader := ReaderPhase.Left\<rparr>"
  let ?c4 = "?c3\<lparr>cn_reader := Marked, cn_dead := True\<rparr>"
  let ?c5 = "(resolve_pending None ?c4)\<lparr>cn_reader := Exited\<rparr>"
  have c1: "cn_calls ?c1 = [Waiting 7 0, Entered 7]" "cn_pending ?c1 = [(7, 0)]" "cn_reader ?c1 = Reading"
    "cn_objects ?c1 = [\<lparr>pd_done = False, pd_response = None\<rparr>]"
    by (simp_all add: asked_def region_defs)
  have c2: "cn_calls ?c2 = [Waiting 7 0, Registered 7 1]" "cn_pending ?c2 = [(7, 1)]" "cn_reader ?c2 = Reading"
    "cn_objects ?c2 = replicate 2 \<lparr>pd_done = False, pd_response = None\<rparr>"
    by (simp_all add: register_request_def kMaxPending_def numeral_2_eq_2 c1)
  have "conn_step h asked ?c1" by (rule conn_step.enter)
  moreover have "conn_step h ?c1 ?c2" by (rule conn_step.register) (simp_all add: c1)
  moreover have "conn_step h ?c2 ?c3" by (rule conn_step.leave) (use c2 in simp)
  moreover have "conn_step h ?c3 ?c4" by (rule conn_step.mark) simp
  moreover have "conn_step h ?c4 ?c5" by (rule conn_step.resolve) simp
  ultimately have reach: "conn_reach h ?c5" using asked_reached(1) conn_reach.step by metis
  have st: "stuck ?c5" using c2 by (simp add: stuck_def resolve_pending_def numeral_2_eq_2)
  have "stuck c'" if "(conn_step h)\<^sup>*\<^sup>* ?c5 c'" for c'
    using that st by (induction rule: rtranclp_induct) (auto intro: stuck_step)
  then have "{c'. (conn_step h)\<^sup>*\<^sup>* ?c5 c' \<and> cn_calls c' ! 0 \<noteq> Waiting 7 0} = {}"
    by (auto simp: stuck_def)
  moreover have "cn_pending ?c5 = []" "cn_reader ?c5 = Exited" by (simp_all add: resolve_pending_def)
  ultimately show ?thesis using reach by (intro exI [of _ ?c5] conjI)
qed

end
