(* ===== verification/Sockets.thy ===== *)
theory Sockets
  imports Protocol "HOL-Library.Sublist"
begin

text \<open>
  The framing of the byte stream (\<open>socket_util.hpp\<close>): the loops that write and read a given
  number of bytes, and the length-prefixed frames over them. The operating system's part is a
  parameter: the value that the \<open>i\<close>-th call of \<open>send\<close> or \<open>recv\<close> returns, for each \<open>i\<close>. A call
  of \<open>recv\<close> never returns more than was asked for or is there, and returns 0 at the end of the
  stream.
\<close>

section \<open>Whole buffers\<close>

type_synonym os_returns = "nat \<Rightarrow> int"

text \<open>What reaches the stream, whether all of it did, and the number of the next call.\<close>

function send_all :: "os_returns \<Rightarrow> nat \<Rightarrow> bytes \<Rightarrow> bytes \<times> bool \<times> nat" where
  "send_all os i data =
     (if data = [] then ([], True, i)
      else if os i \<le> 0 then ([], False, Suc i)
      else (case send_all os (Suc i) (drop (nat (os i)) data) of
              (out, ok, j) \<Rightarrow> (take (nat (os i)) data @ out, ok, j)))"
  by pat_completeness auto
termination
  by (relation "measure (\<lambda>(os, i, data). length data)") auto

text \<open>The buffer, if it was filled, the number of the next call, and what is left of the stream.\<close>

function recv_all :: "os_returns \<Rightarrow> nat \<Rightarrow> nat \<Rightarrow> bytes \<Rightarrow> bytes option \<times> nat \<times> bytes" where
  "recv_all os i n inp =
     (if n = 0 then (Some [], i, inp)
      else if os i \<le> 0 \<or> inp = [] then (None, Suc i, inp)
      else (let r = min (nat (os i)) (min n (length inp))
            in case recv_all os (Suc i) (n - r) (drop r inp) of
                 (got, j, rest) \<Rightarrow> (map_option (\<lambda>b. take r inp @ b) got, j, rest)))"
  by pat_completeness auto
termination
  by (relation "measure (\<lambda>(os, i, n, inp). n)") (auto simp: min_def)

declare send_all.simps [simp del] recv_all.simps [simp del]

section \<open>Frames\<close>

definition send_frame :: "os_returns \<Rightarrow> nat \<Rightarrow> Frame \<Rightarrow> (bytes \<times> bool \<times> nat) result" where
  "send_frame os i f =
     bindE (encode_frame f) (\<lambda>b.
       let len = of_nat (length b) :: u32
       in case send_all os i (le_bytes 4 len) of
            (out, False, j) \<Rightarrow> Inr (out, False, j)
          | (out, True, j) \<Rightarrow> (case send_all os j b of (out', ok, k) \<Rightarrow> Inr (out @ out', ok, k)))"

definition recv_frame :: "os_returns \<Rightarrow> nat \<Rightarrow> bytes \<Rightarrow> Frame option \<times> nat \<times> bytes" where
  "recv_frame os i inp =
     (case recv_all os i 4 inp of
        (None, j, rest) \<Rightarrow> (None, j, rest)
      | (Some hdr, j, rest) \<Rightarrow>
          (let len = le_word hdr :: u32
           in if kMaxFramePayload + 64 < len then (None, j, rest)
              else (case recv_all os j (unat len) rest of
                      (None, k, rest') \<Rightarrow> (None, k, rest')
                    | (Some b, k, rest') \<Rightarrow> (case decode_frame b of Inl _ \<Rightarrow> (None, k, rest') | Inr f \<Rightarrow> (Some f, k, rest')))))"

subsection \<open>What the loops do\<close>

lemma send_all_prefix:
  "send_all os i data = (out, ok, j) \<Longrightarrow> prefix out data \<and> (ok \<longrightarrow> out = data)"
proof (induction os i data arbitrary: out ok j rule: send_all.induct)
  case (1 os i data)
  show ?case
  proof (cases "data = [] \<or> os i \<le> 0")
    case True
    then show ?thesis using 1(2) by (subst (asm) send_all.simps) (auto split: if_splits)
  next
    case False
    then obtain out' where o': "send_all os (Suc i) (drop (nat (os i)) data) = (out', ok, j)" "out = take (nat (os i)) data @ out'"
      using 1(2) by (subst (asm) send_all.simps) (auto split: prod.splits)
    have "prefix out' (drop (nat (os i)) data) \<and> (ok \<longrightarrow> out' = drop (nat (os i)) data)"
      using 1(1) False o'(1) by blast
    then show ?thesis unfolding o'(2) by (metis append_take_drop_id same_prefix_prefix)
  qed
qed

lemma send_all_healthy: "(\<And>i. 0 < os i) \<Longrightarrow> \<exists>j. send_all os i data = (data, True, j)"
proof (induction os i data rule: send_all.induct)
  case (1 os i data)
  show ?case
  proof (cases "data = []")
    case False
    moreover have "\<not> os i \<le> 0" using 1(2) [of i] by simp
    ultimately show ?thesis using 1 by (subst send_all.simps) auto
  qed (simp add: send_all.simps)
qed

lemma recv_all_step:
  assumes "n \<noteq> 0" and "\<not> (os i \<le> 0 \<or> inp = [])"
  shows "recv_all os i n inp =
    (let r = min (nat (os i)) (min n (length inp))
     in case recv_all os (Suc i) (n - r) (drop r inp) of
          (got, j, rest) \<Rightarrow> (map_option (\<lambda>b. take r inp @ b) got, j, rest))"
  by (subst recv_all.simps) (use assms in simp)

lemma recv_all_Some: "recv_all os i n inp = (Some b, j, rest) \<Longrightarrow> n \<le> length inp \<and> b = take n inp \<and> rest = drop n inp"
proof (induction os i n inp arbitrary: b j rest rule: recv_all.induct)
  case (1 os i n inp)
  show ?case
  proof (cases "n = 0 \<or> os i \<le> 0 \<or> inp = []")
    case True
    then show ?thesis using 1(2) by (subst (asm) recv_all.simps) (auto split: if_splits)
  next
    case False
    define r where "r = min (nat (os i)) (min n (length inp))"
    obtain b' where b': "recv_all os (Suc i) (n - r) (drop r inp) = (Some b', j, rest)" "b = take r inp @ b'"
      using 1(2) recv_all_step [of n os i inp] False unfolding Let_def r_def [symmetric]
      by (auto split: prod.splits) (metis map_option_eq_Some)
    then have "n - r \<le> length (drop r inp) \<and> b' = take (n - r) (drop r inp) \<and> rest = drop (n - r) (drop r inp)"
      using 1(1) [OF _ _ r_def] False by blast
    moreover have "r \<le> n" "r \<le> length inp" by (simp_all add: r_def)
    moreover have "take n inp = take r inp @ take (n - r) (drop r inp)" using \<open>r \<le> n\<close> by (metis le_add_diff_inverse take_add)
    ultimately show ?thesis unfolding b'(2) by auto
  qed
qed

lemma recv_all_healthy:
  "(\<And>i. 0 < os i) \<Longrightarrow> n \<le> length inp \<Longrightarrow> \<exists>j. recv_all os i n inp = (Some (take n inp), j, drop n inp)"
proof (induction os i n inp rule: recv_all.induct)
  case (1 os i n inp)
  show ?case
  proof (cases "n = 0")
    case False
    define r where "r = min (nat (os i)) (min n (length inp))"
    have os: "0 < os i" and ne: "inp \<noteq> []" using 1(2,3) False by auto
    have r: "r \<le> n" "r \<le> length inp" by (simp_all add: r_def)
    have "\<not> (os i \<le> 0 \<or> inp = [])" using os ne by simp
    from 1(1) [OF False this r_def 1(2)] obtain j where
      "recv_all os (Suc i) (n - r) (drop r inp) = (Some (take (n - r) (drop r inp)), j, drop (n - r) (drop r inp))"
      using 1(3) diff_le_mono [OF 1(3), of r] by auto
    moreover have "take r inp @ take (n - r) (drop r inp) = take n inp" using r(1) by (metis le_add_diff_inverse take_add)
    ultimately show ?thesis
      using recv_all_step [of n os i inp] False os ne r(1) unfolding Let_def r_def [symmetric] by simp
  qed (simp add: recv_all.simps)
qed

section \<open>The stream of a connection\<close>

text \<open>A frame as it is on the stream.\<close>

definition on_wire :: "bytes \<Rightarrow> bytes" where
  "on_wire b = le_bytes 4 (of_nat (length b) :: u32) @ b"

lemma encoded_length:
  assumes "encode_frame f = Inr b"
  shows "length b \<le> 16777242" "unat (of_nat (length b) :: u32) = length b"
proof -
  show "length b \<le> 16777242" using assms by (auto simp: encode_frame_Inr)
  then show "unat (of_nat (length b) :: u32) = length b" by (simp add: unat_of_nat)
qed

lemma wire_split:
  assumes "on_wire b @ xs = on_wire c @ ys" and "length b \<le> 16777242" and "length c \<le> 16777242"
  shows "b = c \<and> xs = ys"
proof -
  have "le_bytes 4 (of_nat (length b) :: u32) = le_bytes 4 (of_nat (length c) :: u32)" and r: "b @ xs = c @ ys"
    using assms(1) by (auto simp: on_wire_def)
  then have "(of_nat (length b) :: u32) = of_nat (length c)" using le_bytes_inject [where 'a = 32 and n = 4] by simp
  then have "unat (of_nat (length b) :: u32) = unat (of_nat (length c) :: u32)" by simp
  then have "length b = length c" using assms(2,3) by (simp add: unat_of_nat)
  then show ?thesis using r by simp
qed

text \<open>Whatever the system calls return, a frame that is received is on the stream, whole.\<close>

lemma recv_frame_Some:
  assumes "recv_frame os i inp = (Some f, j, rest)"
  obtains b where "encode_frame f = Inr b" "5 \<le> length (fr_payload f)" "inp = on_wire b @ rest"
proof -
  obtain hdr k more where h: "recv_all os i 4 inp = (Some hdr, k, more)"
    using assms by (auto simp: recv_frame_def split: prod.splits option.splits)
  define len where "len = (le_word hdr :: u32)"
  obtain b where b: "recv_all os k (unat len) more = (Some b, j, rest)" "decode_frame b = Inr f"
    using assms h by (auto simp: recv_frame_def Let_def len_def split: prod.splits option.splits sum.splits if_splits)
  have inp: "inp = hdr @ b @ rest" "length hdr = 4" "length b = unat len"
    using recv_all_Some [OF h] recv_all_Some [OF b(1)] by (metis append_take_drop_id, auto)
  have "hdr = le_bytes 4 (of_nat (length b) :: u32)"
    using inp(2) le_bytes_word [of hdr 4, where 'a = 32] unfolding inp(3) len_def by simp
  then show ?thesis using that b(2) inp(1) by (simp add: decode_frame_Inr on_wire_def)
qed

lemma recv_frame_shrinks: "recv_frame os i inp = (Some f, j, rest) \<Longrightarrow> length rest < length inp"
  by (erule recv_frame_Some) (simp add: on_wire_def)

lemma recv_frame_healthy:
  assumes "encode_frame f = Inr b" and "5 \<le> length (fr_payload f)" and "\<And>i. 0 < os i"
  shows "\<exists>j. recv_frame os i (on_wire b @ rest) = (Some f, j, rest)"
proof -
  let ?len = "of_nat (length b) :: u32"
  obtain j where j: "recv_all os i 4 (on_wire b @ rest) = (Some (le_bytes 4 ?len), j, b @ rest)"
    using recv_all_healthy [of os 4 "on_wire b @ rest" i, OF assms(3)] by (auto simp: on_wire_def)
  have len: "le_word (le_bytes 4 ?len) = ?len" by (rule le_word_bytes) simp
  obtain k where k: "recv_all os j (unat ?len) (b @ rest) = (Some b, k, rest)"
    using recv_all_healthy [of os "unat ?len" "b @ rest" j, OF assms(3)] encoded_length(2) [OF assms(1)] by auto
  have "\<not> kMaxFramePayload + 64 < ?len"
    using encoded_length [OF assms(1)] by (simp add: word_less_nat_alt kMaxFramePayload_def)
  moreover have "decode_frame b = Inr f" using assms(1,2) by (simp add: decode_frame_Inr)
  ultimately show ?thesis using j k len by (simp add: recv_frame_def)
qed

text \<open>The frames the reader of a connection gets, until the first it cannot have.\<close>

function read_frames :: "os_returns \<Rightarrow> nat \<Rightarrow> bytes \<Rightarrow> Frame list" where
  "read_frames os i inp =
     (case recv_frame os i inp of (None, _) \<Rightarrow> [] | (Some f, j, rest) \<Rightarrow> f # read_frames os j rest)"
  by pat_completeness auto
termination
  by (relation "measure (\<lambda>(os, i, inp). length inp)") (auto dest: recv_frame_shrinks [OF sym])

declare read_frames.simps [simp del]

text \<open>
  Frames written one after the other by a writer that stops at its first failed write. (A \<open>Conn\<close>
  stays usable after one, so that a later frame may follow a torn one.)
\<close>

fun send_frames :: "os_returns \<Rightarrow> nat \<Rightarrow> Frame list \<Rightarrow> (bytes \<times> bool \<times> nat) result" where
  "send_frames os i [] = Inr ([], True, i)"
| "send_frames os i (f # fs) =
     bindE (send_frame os i f) (\<lambda>(out, ok, j).
       if ok then bindE (send_frames os j fs) (\<lambda>(out', ok', k). Inr (out @ out', ok', k)) else Inr (out, False, j))"

fun stream :: "Frame list \<Rightarrow> bytes" where
  "stream [] = []"
| "stream (f # fs) = (case encode_frame f of Inr b \<Rightarrow> on_wire b | Inl _ \<Rightarrow> []) @ stream fs"

lemma send_frame_prefix:
  assumes "send_frame os i f = Inr (out, ok, j)" and "encode_frame f = Inr b"
  shows "prefix out (on_wire b) \<and> (ok \<longrightarrow> out = on_wire b)"
proof -
  obtain o1 k1 n1 where s1: "send_all os i (le_bytes 4 (of_nat (length b) :: u32)) = (o1, k1, n1)" by (metis prod_cases3)
  obtain o2 k2 n2 where s2: "send_all os n1 b = (o2, k2, n2)" by (metis prod_cases3)
  show ?thesis
    using assms send_all_prefix [OF s1] send_all_prefix [OF s2] s1 s2
    by (cases k1) (auto simp: send_frame_def on_wire_def intro: prefix_prefix)
qed

lemma send_frames_prefix:
  assumes "send_frames os i fs = Inr (out, ok, k)"
    and "\<And>f. f \<in> set fs \<Longrightarrow> \<exists>b. encode_frame f = Inr b"
  shows "prefix out (stream fs) \<and> (ok \<longrightarrow> out = stream fs)"
  using assms
proof (induction fs arbitrary: i out ok k)
  case (Cons f fs)
  obtain b where b: "encode_frame f = Inr b" using Cons.prems(2) by auto
  obtain o1 k1 j where s: "send_frame os i f = Inr (o1, k1, j)"
    using Cons.prems(1) by (auto simp: bindE_eq_Inr_iff)
  note w = send_frame_prefix [OF s b]
  show ?case
  proof (cases k1)
    case True
    then obtain o2 k2 n where r: "send_frames os j fs = Inr (o2, k2, n)" "out = o1 @ o2" "ok = k2"
      using Cons.prems(1) s by (auto simp: bindE_eq_Inr_iff)
    then show ?thesis using Cons.IH [OF r(1)] Cons.prems(2) w True b by auto
  next
    case False
    then show ?thesis using Cons.prems(1) s w b by (auto intro: prefix_prefix)
  qed
qed simp

lemma read_frames_None: "recv_frame os i inp = (None, r) \<Longrightarrow> read_frames os i inp = []"
  by (simp add: read_frames.simps)

lemma read_frames_Some: "recv_frame os i inp = (Some f, j, rest) \<Longrightarrow> read_frames os i inp = f # read_frames os j rest"
  by (subst read_frames.simps) simp

definition sendable :: "Frame \<Rightarrow> bool" where
  "sendable f \<longleftrightarrow> 5 \<le> length (fr_payload f) \<and> length (fr_payload f) \<le> 16777216"

lemma sendable_encodes: "sendable f \<Longrightarrow> \<exists>b. encode_frame f = Inr b"
  by (auto simp: sendable_def encode_frame_Inr)

lemma next_frame:
  assumes "recv_frame os i inp = (Some g, j, rest)" and "prefix inp (on_wire b @ tail)"
    and "encode_frame f = Inr b" and "sendable f"
  shows "g = f \<and> prefix rest tail"
proof -
  obtain c where c: "encode_frame g = Inr c" "5 \<le> length (fr_payload g)" "inp = on_wire c @ rest"
    using recv_frame_Some [OF assms(1)] .
  obtain ys where "on_wire c @ (rest @ ys) = on_wire b @ tail"
    using assms(2) c(3) by (auto simp: prefix_def)
  then have "c = b \<and> rest @ ys = tail"
    using wire_split encoded_length(1) c(1) assms(3) by blast
  then show ?thesis
    using c(1,2) assms(3,4) decode_frame_Inr [of b] by (metis prefixI sendable_def sum.inject(2))
qed

lemma read_prefix:
  assumes "prefix inp (stream fs)" and "list_all sendable fs"
  shows "prefix (read_frames os i inp) fs"
  using assms
proof (induction fs arbitrary: i inp)
  case Nil
  then have "fst (recv_frame os i inp) = None"
    using recv_frame_shrinks [of os i inp] by (cases "recv_frame os i inp") fastforce
  then show ?case by (metis prod.collapse read_frames_None prefix_order.refl)
next
  case (Cons f fs)
  obtain b where b: "encode_frame f = Inr b" using Cons.prems(2) sendable_encodes by auto
  obtain r j rest where r: "recv_frame os i inp = (r, j, rest)" by (metis prod_cases3)
  show ?case
  proof (cases r)
    case None
    then show ?thesis using r read_frames_None by simp
  next
    case (Some g)
    then have "g = f \<and> prefix rest (stream fs)"
      using next_frame [of os i inp g j rest b "stream fs" f] r b Cons.prems by simp
    then show ?thesis using Cons.IH Cons.prems(2) r Some read_frames_Some by simp
  qed
qed

lemma read_all:
  assumes "list_all sendable fs" and "\<And>n. 0 < os n"
  shows "read_frames os i (stream fs) = fs"
  using assms(1)
proof (induction fs arbitrary: i)
  case Nil
  have "fst (recv_frame os i []) = None"
    using recv_frame_shrinks [of os i "[]"] by (cases "recv_frame os i []") fastforce
  then show ?case by (metis prod.collapse read_frames_None stream.simps(1))
next
  case (Cons f fs)
  obtain b where b: "encode_frame f = Inr b" using Cons.prems sendable_encodes by auto
  have "5 \<le> length (fr_payload f)" using Cons.prems by (simp add: sendable_def)
  then obtain j where "recv_frame os i (on_wire b @ stream fs) = (Some f, j, stream fs)"
    using recv_frame_healthy [of f b os i "stream fs", OF b _ assms(2)] by blast
  then show ?case using Cons b read_frames_Some by simp
qed

text \<open>
  C34. The framing carries a sequence of frames exactly, however the operating system cuts the
  stream into pieces. Whatever the calls of \<open>send\<close> and \<open>recv\<close> return, and wherever the writer
  fails, the reader gets a prefix of the frames that were written, never a torn, altered or
  reordered one; if the writes succeeded and no read fails, it gets all of them. (Frames with
  fewer than five bytes of payload are excepted: the decoder refuses them, which ends the
  connection.)
\<close>

theorem stream_carries_frames:
  assumes "send_frames os i fs = Inr (out, ok, k)" and "list_all sendable fs"
  shows "prefix (read_frames os' j out) fs \<and> (ok \<longrightarrow> (\<forall>n. 0 < os' n) \<longrightarrow> read_frames os' j out = fs)"
proof -
  have "prefix out (stream fs) \<and> (ok \<longrightarrow> out = stream fs)"
    using send_frames_prefix [OF assms(1)] assms(2) sendable_encodes by (metis list_all_iff)
  then show ?thesis using read_prefix [OF _ assms(2)] read_all [OF assms(2)] by blast
qed

text \<open>Two frames, written seven bytes at a time and read three bytes at a time.\<close>

lemma example_stream:
  obtains out k where "send_frames (\<lambda>_. 7) 0 [example_frame, example_frame] = Inr (out, True, k)"
proof -
  obtain b where b: "encode_frame example_frame = Inr b"
    using sendable_encodes [of example_frame] by (auto simp: sendable_def example_frame_def)
  have h: "\<exists>j. send_all (\<lambda>_. 7) i d = (d, True, j)" for i d by (rule send_all_healthy) simp
  have s: "\<exists>out j. send_frame (\<lambda>_. 7) i example_frame = Inr (out, True, j)" for i
  proof -
    obtain j1 where "send_all (\<lambda>_. 7) i (le_bytes 4 (of_nat (length b) :: u32)) = (le_bytes 4 (of_nat (length b) :: u32), True, j1)"
      using h by blast
    moreover obtain j2 where "send_all (\<lambda>_. 7) j1 b = (b, True, j2)" using h by blast
    ultimately show ?thesis using b by (simp add: send_frame_def)
  qed
  obtain o1 j1 where 1: "send_frame (\<lambda>_. 7) 0 example_frame = Inr (o1, True, j1)" using s by blast
  obtain o2 j2 where "send_frame (\<lambda>_. 7) j1 example_frame = Inr (o2, True, j2)" using s by blast
  with 1 show ?thesis using that by simp
qed

theorem stream_carries_frames_witness:
  "\<exists>out k. send_frames (\<lambda>_. 7) 0 [example_frame, example_frame] = Inr (out, True, k) \<and>
     read_frames (\<lambda>_. 3) 0 out = [example_frame, example_frame]"
proof (rule example_stream)
  fix out k
  assume s: "send_frames (\<lambda>_. 7) 0 [example_frame, example_frame] = Inr (out, True, k)"
  have "list_all sendable [example_frame, example_frame]" by (simp add: sendable_def example_frame_def)
  from stream_carries_frames [OF s this, of "\<lambda>_. 3" 0] s show ?thesis by simp
qed

end
