(* ===== verification/Payload.thy ===== *)
theory Payload
  imports Protocol
begin

text \<open>
  Payloads of the control protocol: \<open>PayloadWriter\<close> and \<open>PayloadReader\<close> of \<^verbatim>\<open>protocol.cpp\<close>, and the
  helpers of \<^verbatim>\<open>net/common.hpp\<close>. A payload is a sequence of fields, each with an identity byte, a
  type byte, a 32-bit length and a value. The locale \<open>typed_field\<close> is the contract of a typed
  writer and its reader; every field type of the protocol interprets it.
\<close>

section \<open>Writing\<close>

text \<open>A writer method takes the buffer to the extended buffer, or throws.\<close>

type_synonym field_writer = "bytes \<Rightarrow> bytes result"

definition field_header :: "u8 \<Rightarrow> u8 \<Rightarrow> u32 \<Rightarrow> field_writer" where
  "field_header i ty sz b =
     (let b' = b @ [i, ty] @ le_bytes 4 sz
      in if unat kMaxFramePayload < length b' then Inl (ProtocolError ''payload too large'') else Inr b')"

definition pw_u8 :: "u8 \<Rightarrow> u8 \<Rightarrow> field_writer" where
  "pw_u8 field v b = bindE (field_header field 0 1 b) (\<lambda>b. Inr (b @ [v]))"

definition pw_u32 :: "u8 \<Rightarrow> u32 \<Rightarrow> field_writer" where
  "pw_u32 field v b = bindE (field_header field 1 4 b) (\<lambda>b. Inr (b @ le_bytes 4 v))"

definition pw_u64 :: "u8 \<Rightarrow> u64 \<Rightarrow> field_writer" where
  "pw_u64 field v b = bindE (field_header field 2 8 b) (\<lambda>b. Inr (b @ le_bytes 8 v))"

definition pw_bool :: "u8 \<Rightarrow> bool \<Rightarrow> field_writer" where
  "pw_bool field v b = bindE (field_header field 3 1 b) (\<lambda>b. Inr (b @ [if v then 1 else 0]))"

text \<open>A signed 64-bit integer is its two's complement word.\<close>

definition pw_i64 :: "u8 \<Rightarrow> u64 \<Rightarrow> field_writer" where
  "pw_i64 field v b = bindE (field_header field 4 8 b) (\<lambda>b. Inr (b @ le_bytes 8 v))"

definition pw_f64 :: "u8 \<Rightarrow> double \<Rightarrow> field_writer" where
  "pw_f64 field v b = bindE (field_header field 5 8 b) (\<lambda>b. Inr (b @ le_bytes 8 v))"

definition pw_str :: "u8 \<Rightarrow> string \<Rightarrow> field_writer" where
  "pw_str field v b =
     (if unat kMaxFramePayload < length v then Inl (ProtocolError ''string too large'')
      else bindE (field_header field 6 (of_nat (length v)) b) (\<lambda>b. Inr (b @ map (\<lambda>c. of_nat (of_char c)) v)))"

definition pw_bytes :: "u8 \<Rightarrow> bytes \<Rightarrow> field_writer" where
  "pw_bytes field v b =
     (if unat kMaxFramePayload < length v then Inl (ProtocolError ''bytes too large'')
      else bindE (field_header field 7 (of_nat (length v)) b) (\<lambda>b. Inr (b @ v)))"

text \<open>Successive calls on a fresh writer, and \<open>finish\<close>.\<close>

fun pw_seq :: "field_writer list \<Rightarrow> field_writer" where
  "pw_seq [] b = Inr b"
| "pw_seq (w # ws) b = bindE (w b) (pw_seq ws)"

definition pw_finish :: "field_writer list \<Rightarrow> bytes result" where
  "pw_finish ws = pw_seq ws []"

section \<open>Reading\<close>

record Field =
  fld_id :: u8
  fld_type :: u8
  fld_value :: bytes

text \<open>The constructor of \<open>PayloadReader\<close>: every turn of the loop takes a field off the bytes left.\<close>

function payload_fields :: "bytes \<Rightarrow> Field list result" where
  "payload_fields data =
     (if data = [] then Inr []
      else if length data < 6 then Inl (ProtocolError ''truncated TLV field'')
      else (let ty = data ! 1; sz = get32 data 2; rest = drop 6 data in
        if 7 < ty then Inl (ProtocolError ''invalid TLV field type'')
        else if kMaxFramePayload < sz then Inl (ProtocolError ''TLV field too large'')
        else if length rest < unat sz then Inl (ProtocolError ''TLV field length exceeds payload'')
        else bindE (payload_fields (drop (unat sz) rest)) (\<lambda>fs.
               Inr (\<lparr>fld_id = data ! 0, fld_type = ty, fld_value = take (unat sz) rest\<rparr> # fs))))"
  by auto
termination
  by (relation "measure length") auto

declare payload_fields.simps [simp del]

definition find_field :: "Field list \<Rightarrow> u8 \<Rightarrow> Field option" where
  "find_field fs field = List.find (\<lambda>f. fld_id f = field) fs"

definition pr_has :: "Field list \<Rightarrow> u8 \<Rightarrow> bool" where
  "pr_has fs field = (find_field fs field \<noteq> None)"

text \<open>The guard every typed reader starts with.\<close>

definition field_value :: "u8 \<Rightarrow> nat option \<Rightarrow> string \<Rightarrow> Field list \<Rightarrow> u8 \<Rightarrow> bytes result" where
  "field_value ty sz name fs field =
     (case find_field fs field of
        None \<Rightarrow> Inl (ProtocolError (''missing/incorrect '' @ name @ '' field''))
      | Some f \<Rightarrow> if fld_type f \<noteq> ty \<or> (case sz of None \<Rightarrow> False | Some n \<Rightarrow> length (fld_value f) \<noteq> n)
                  then Inl (ProtocolError (''missing/incorrect '' @ name @ '' field''))
                  else Inr (fld_value f))"

definition pr_u8 :: "Field list \<Rightarrow> u8 \<Rightarrow> u8 result" where
  "pr_u8 fs field = bindE (field_value 0 (Some 1) ''u8'' fs field) (\<lambda>v. Inr (v ! 0))"

definition pr_u32 :: "Field list \<Rightarrow> u8 \<Rightarrow> u32 result" where
  "pr_u32 fs field = bindE (field_value 1 (Some 4) ''u32'' fs field) (\<lambda>v. Inr (le_word v))"

definition pr_u64 :: "Field list \<Rightarrow> u8 \<Rightarrow> u64 result" where
  "pr_u64 fs field = bindE (field_value 2 (Some 8) ''u64'' fs field) (\<lambda>v. Inr (le_word v))"

definition pr_bool :: "Field list \<Rightarrow> u8 \<Rightarrow> bool result" where
  "pr_bool fs field = bindE (field_value 3 (Some 1) ''bool'' fs field) (\<lambda>v.
     if 1 < v ! 0 then Inl (ProtocolError ''invalid bool value'') else Inr (v ! 0 = 1))"

definition pr_i64 :: "Field list \<Rightarrow> u8 \<Rightarrow> u64 result" where
  "pr_i64 fs field = bindE (field_value 4 (Some 8) ''i64'' fs field) (\<lambda>v. Inr (le_word v))"

definition pr_f64 :: "Field list \<Rightarrow> u8 \<Rightarrow> double result" where
  "pr_f64 fs field = bindE (field_value 5 (Some 8) ''f64'' fs field) (\<lambda>v. Inr (le_word v))"

definition pr_str :: "Field list \<Rightarrow> u8 \<Rightarrow> string result" where
  "pr_str fs field = bindE (field_value 6 None ''string'' fs field) (\<lambda>v. Inr (map (\<lambda>w. char_of (unat w)) v))"

definition pr_bytes :: "Field list \<Rightarrow> u8 \<Rightarrow> bytes result" where
  "pr_bytes fs field = field_value 7 None ''bytes'' fs field"

section \<open>What the reader accepts\<close>

definition field_bytes :: "Field \<Rightarrow> bytes" where
  "field_bytes f = [fld_id f, fld_type f] @ le_bytes 4 (of_nat (length (fld_value f)) :: u32) @ fld_value f"

definition valid_field :: "Field \<Rightarrow> bool" where
  "valid_field f \<longleftrightarrow> fld_type f \<le> 7 \<and> length (fld_value f) \<le> 16777216"

lemma length_field_bytes [simp]: "length (field_bytes f) = 6 + length (fld_value f)"
  by (simp add: field_bytes_def)

lemma field_parts:
  assumes "6 \<le> length data"
  obtains i ty l r where "data = i # ty # l @ r" "length l = 4"
proof -
  obtain i ty d where "data = i # ty # d" "4 \<le> length d"
    using assms by (cases data; cases "tl data") auto
  then show thesis using that [of i ty "take 4 d" "drop 4 d"] by simp
qed

lemma payload_fields_Cons:
  assumes "length l = 4"
  shows "payload_fields (i # ty # l @ r) = Inr (f # fs) \<longleftrightarrow> valid_field f \<and>
    (\<exists>rest. i # ty # l @ r = field_bytes f @ rest \<and> payload_fields rest = Inr fs)"
proof -
  let ?n = "unat (le_word l :: u32)"
  have "payload_fields (i # ty # l @ r) = Inr (f # fs) \<longleftrightarrow>
      \<not> 7 < ty \<and> \<not> kMaxFramePayload < (le_word l :: u32) \<and> ?n \<le> length r \<and>
      payload_fields (drop ?n r) = Inr fs \<and> f = \<lparr>fld_id = i, fld_type = ty, fld_value = take ?n r\<rparr>"
    by (subst payload_fields.simps) (auto simp: assms Let_def get32_def exn_simps)
  also have "\<dots> \<longleftrightarrow> valid_field f \<and> (\<exists>rest. i # ty # l @ r = field_bytes f @ rest \<and> payload_fields rest = Inr fs)"
    (is "?L \<longleftrightarrow> ?R")
  proof
    assume L: ?L
    then have n: "?n \<le> 16777216" by (auto simp: word_less_nat_alt)
    then have "l = le_bytes 4 (of_nat ?n :: u32)" using unat_le_length [OF assms n] by simp
    then show ?R using L n by (auto simp: valid_field_def field_bytes_def not_less intro: exI [of _ "drop ?n r"])
  next
    assume ?R
    then obtain rest where v: "valid_field f" "i # ty # l @ r = field_bytes f @ rest" "payload_fields rest = Inr fs"
      by blast
    then have e: "i = fld_id f" "ty = fld_type f" "l = le_bytes 4 (of_nat (length (fld_value f)) :: u32)"
      "r = fld_value f @ rest"
      using assms by (auto simp: field_bytes_def)
    then have "?n = length (fld_value f)"
      using unat_le_length [OF assms] v(1) by (simp add: valid_field_def)
    moreover from this have "\<not> kMaxFramePayload < (le_word l :: u32)"
      using v(1) by (simp add: valid_field_def word_less_nat_alt)
    ultimately show ?L using v e by (simp add: valid_field_def not_less)
  qed
  finally show ?thesis .
qed

lemma payload_fields_Nil: "payload_fields data = Inr [] \<longleftrightarrow> data = []"
  by (subst payload_fields.simps) (auto simp: Let_def exn_simps)

lemma payload_fields_short: "payload_fields data = Inr (f # fs) \<Longrightarrow> 6 \<le> length data"
  by (subst (asm) payload_fields.simps) (auto split: if_splits)

lemma payload_fields_Inr:
  "payload_fields data = Inr fs \<longleftrightarrow> data = concat (map field_bytes fs) \<and> list_all valid_field fs"
proof (induction fs arbitrary: data)
  case (Cons f fs)
  show ?case
  proof (cases "6 \<le> length data")
    case True
    then obtain i ty l r where d: "data = i # ty # l @ r" "length l = 4" by (rule field_parts)
    show ?thesis unfolding d(1) payload_fields_Cons [OF d(2)] Cons.IH by auto
  next
    case False
    then show ?thesis using payload_fields_short [of data f fs] by auto
  qed
qed (simp add: payload_fields_Nil)

text \<open>
  The payload parser ends on every input and accepts exactly the concatenations of encoded
  fields with a known type and a length within the frame limit; every other payload is refused,
  and the fields it returns are the ones that were written, in order.
\<close>

theorem payload_codec_exact:
  "payload_fields data = Inr fs \<longleftrightarrow> data = concat (map field_bytes fs) \<and> list_all valid_field fs"
  by (rule payload_fields_Inr)

section \<open>Typed fields\<close>

text \<open>Writing any field.\<close>

definition put_field :: "Field \<Rightarrow> field_writer" where
  "put_field f b = (if 16777216 < length b + 6 then Inl (ProtocolError ''payload too large'') else Inr (b @ field_bytes f))"

locale typed_field =
  fixes put :: "u8 \<Rightarrow> 'a \<Rightarrow> field_writer" and get :: "Field list \<Rightarrow> u8 \<Rightarrow> 'a result"
    and ty :: u8 and enc :: "'a \<Rightarrow> bytes" and valid :: "'a \<Rightarrow> bool"
  assumes put_is_field: "valid v \<Longrightarrow>
      put i v = put_field \<lparr>fld_id = i, fld_type = ty, fld_value = enc v\<rparr>"
    and get_is_field: "find_field fs i = Some f \<Longrightarrow> valid_field f \<Longrightarrow>
      get fs i = Inr v \<longleftrightarrow> fld_type f = ty \<and> fld_value f = enc v \<and> valid v"
    and get_missing: "find_field fs i = None \<Longrightarrow> \<exists>e. get fs i = Inl e"
    and type_known: "ty \<le> 7"
    and value_fits: "valid v \<Longrightarrow> length (enc v) \<le> 16777216"
begin

lemma valid_typed: "valid v \<Longrightarrow> valid_field \<lparr>fld_id = i, fld_type = ty, fld_value = enc v\<rparr>"
  by (simp add: valid_field_def type_known value_fits)

lemma get_first:
  "valid v \<Longrightarrow> i \<notin> fld_id ` set fs \<Longrightarrow>
     get (fs @ \<lparr>fld_id = i, fld_type = ty, fld_value = enc v\<rparr> # gs) i = Inr v"
  by (subst get_is_field [of _ _ "\<lparr>fld_id = i, fld_type = ty, fld_value = enc v\<rparr>"])
    (auto simp: find_field_def find_None_iff_none valid_typed split: option.split dest: find_SomeD)

lemma get_Inr_has: "get fs i = Inr v \<Longrightarrow> pr_has fs i"
  using get_missing [of fs i] by (auto simp: pr_has_def)

end

lemma field_value_Some:
  assumes "find_field fs i = Some f"
  shows "field_value ty sz name fs i = Inr v \<longleftrightarrow>
    fld_type f = ty \<and> (case sz of None \<Rightarrow> True | Some n \<Rightarrow> length v = n) \<and> v = fld_value f"
  using assms by (auto simp: field_value_def split: option.split)

lemma field_value_None:
  "find_field fs i = None \<Longrightarrow>
     field_value ty sz name fs i = Inl (ProtocolError (''missing/incorrect '' @ name @ '' field''))"
  by (simp add: field_value_def)

lemma field_header_put:
  assumes "unat (sz :: u32) = length v"
  shows "bindE (field_header i ty sz b) (\<lambda>b. Inr (b @ v)) = put_field \<lparr>fld_id = i, fld_type = ty, fld_value = v\<rparr> b"
proof -
  have "sz = of_nat (length v)" by (simp flip: assms)
  then show ?thesis by (simp add: field_header_def put_field_def field_bytes_def Let_def)
qed

lemmas reader_simps = field_value_Some field_value_None exn_simps

interpretation f_u8: typed_field pw_u8 pr_u8 0 "\<lambda>v. [v]" "\<lambda>_. True"
proof unfold_locales
  fix fs i f v assume f: "find_field fs i = Some f" "valid_field f"
  show "pr_u8 fs i = Inr v \<longleftrightarrow> fld_type f = 0 \<and> fld_value f = [v] \<and> True"
    using f by (auto simp: pr_u8_def reader_simps length_Suc_conv)
qed (auto simp: pw_u8_def field_header_put pr_u8_def reader_simps)

lemma le_word_eq:
  assumes "8 * n = LENGTH('a)"
  shows "length bs = n \<and> le_word bs = (v :: 'a::len word) \<longleftrightarrow> bs = le_bytes n v"
  using assms le_bytes_word [of bs n, where 'a = 'a] le_word_bytes [of n v] by auto

interpretation f_u32: typed_field pw_u32 pr_u32 1 "le_bytes 4" "\<lambda>_. True"
proof unfold_locales
  fix fs i f v assume f: "find_field fs i = Some f" "valid_field f"
  show "pr_u32 fs i = Inr v \<longleftrightarrow> fld_type f = 1 \<and> fld_value f = le_bytes 4 v \<and> True"
    using f le_word_eq [of 4 "fld_value f" v] by (auto simp: pr_u32_def reader_simps)
qed (auto simp: pw_u32_def field_header_put pr_u32_def reader_simps)

interpretation f_u64: typed_field pw_u64 pr_u64 2 "le_bytes 8" "\<lambda>_. True"
proof unfold_locales
  fix fs i f v assume f: "find_field fs i = Some f" "valid_field f"
  show "pr_u64 fs i = Inr v \<longleftrightarrow> fld_type f = 2 \<and> fld_value f = le_bytes 8 v \<and> True"
    using f le_word_eq [of 8 "fld_value f" v] by (auto simp: pr_u64_def reader_simps)
qed (auto simp: pw_u64_def field_header_put pr_u64_def reader_simps)

interpretation f_i64: typed_field pw_i64 pr_i64 4 "le_bytes 8" "\<lambda>_. True"
proof unfold_locales
  fix fs i f v assume f: "find_field fs i = Some f" "valid_field f"
  show "pr_i64 fs i = Inr v \<longleftrightarrow> fld_type f = 4 \<and> fld_value f = le_bytes 8 v \<and> True"
    using f le_word_eq [of 8 "fld_value f" v] by (auto simp: pr_i64_def reader_simps)
qed (auto simp: pw_i64_def field_header_put pr_i64_def reader_simps)

interpretation f_f64: typed_field pw_f64 pr_f64 5 "le_bytes 8" "\<lambda>_. True"
proof unfold_locales
  fix fs i f v assume f: "find_field fs i = Some f" "valid_field f"
  show "pr_f64 fs i = Inr v \<longleftrightarrow> fld_type f = 5 \<and> fld_value f = le_bytes 8 v \<and> True"
    using f le_word_eq [of 8 "fld_value f" v] by (auto simp: pr_f64_def reader_simps)
qed (auto simp: pw_f64_def field_header_put pr_f64_def reader_simps)

interpretation f_bool: typed_field pw_bool pr_bool 3 "\<lambda>v. [if v then 1 else 0]" "\<lambda>_. True"
proof unfold_locales
  fix fs i f v assume f: "find_field fs i = Some f" "valid_field f"
  have "pr_bool fs i = Inr v \<longleftrightarrow> fld_type f = 3 \<and> (\<exists>x. fld_value f = [x] \<and> (\<not> 1 < x \<and> v = (x = 1)))"
    using f by (auto simp: pr_bool_def reader_simps length_Suc_conv)
  also have "\<dots> \<longleftrightarrow> fld_type f = 3 \<and> fld_value f = [if v then 1 else 0] \<and> True"
    unfolding u8_not_greater_one bool_byte by auto
  finally show "pr_bool fs i = Inr v \<longleftrightarrow> fld_type f = 3 \<and> fld_value f = [if v then 1 else 0] \<and> True" .
qed (auto simp: pw_bool_def field_header_put pr_bool_def reader_simps)

lemma unat_small_length: "length v \<le> 16777216 \<Longrightarrow> unat (of_nat (length v) :: u32) = length v"
  by (simp add: unat_of_nat)

lemma chars_of_bytes: "v = map (\<lambda>w. char_of (unat w)) bs \<longleftrightarrow> bs = map (\<lambda>c. of_nat (of_char c)) v" for bs :: bytes
proof
  assume v: "v = map (\<lambda>w. char_of (unat w)) bs"
  show "bs = map (\<lambda>c. of_nat (of_char c)) v"
    unfolding v map_map comp_def char_byte_inverse by simp
qed (simp add: comp_def)

interpretation f_str: typed_field pw_str pr_str 6 "map (\<lambda>c. of_nat (of_char c))" "\<lambda>v. length v \<le> 16777216"
proof unfold_locales
  fix fs i f v assume f: "find_field fs i = Some f" "valid_field f"
  show "pr_str fs i = Inr v \<longleftrightarrow> fld_type f = 6 \<and> fld_value f = map (\<lambda>c. of_nat (of_char c)) v \<and> length v \<le> 16777216"
    using f chars_of_bytes [of v "fld_value f"] by (auto simp: pr_str_def reader_simps valid_field_def)
qed (auto simp: pw_str_def field_header_put pr_str_def reader_simps unat_small_length)

interpretation f_bytes: typed_field pw_bytes pr_bytes 7 "\<lambda>v. v" "\<lambda>v. length v \<le> 16777216"
proof unfold_locales
  fix fs i f v assume f: "find_field fs i = Some f" "valid_field f"
  show "pr_bytes fs i = Inr v \<longleftrightarrow> fld_type f = 7 \<and> fld_value f = v \<and> length v \<le> 16777216"
    using f by (auto simp: pr_bytes_def reader_simps valid_field_def)
qed (auto simp: pw_bytes_def field_header_put pr_bytes_def reader_simps unat_small_length)

end
