(* ===== verification/Wire.thy ===== *)
theory Wire
  imports Payload
begin

text \<open>
  The helpers of \<^verbatim>\<open>net/common.hpp\<close> that the reference processes share: the identities of the
  payload fields, the route entry on the wire, the transport string of a worker and the
  deterministic reference workload.
\<close>

section \<open>Field identities\<close>

abbreviation fid_role :: u8 where "fid_role \<equiv> 1"
abbreviation fid_boot :: u8 where "fid_boot \<equiv> 2"
abbreviation fid_target :: u8 where "fid_target \<equiv> 3"
abbreviation fid_service :: u8 where "fid_service \<equiv> 4"
abbreviation fid_slot :: u8 where "fid_slot \<equiv> 5"
abbreviation fid_seq :: u8 where "fid_seq \<equiv> 6"
abbreviation fid_ready :: u8 where "fid_ready \<equiv> 7"
abbreviation fid_model :: u8 where "fid_model \<equiv> 8"
abbreviation fid_abi :: u8 where "fid_abi \<equiv> 9"
abbreviation fid_profile :: u8 where "fid_profile \<equiv> 10"
abbreviation fid_capacity :: u8 where "fid_capacity \<equiv> 11"
abbreviation fid_category :: u8 where "fid_category \<equiv> 12"
abbreviation fid_status :: u8 where "fid_status \<equiv> 13"
abbreviation fid_source :: u8 where "fid_source \<equiv> 14"
abbreviation fid_ok :: u8 where "fid_ok \<equiv> 15"
abbreviation fid_detail :: u8 where "fid_detail \<equiv> 16"
abbreviation fid_epoch :: u8 where "fid_epoch \<equiv> 17"
abbreviation fid_route_gen :: u8 where "fid_route_gen \<equiv> 18"
abbreviation fid_assignment_gen :: u8 where "fid_assignment_gen \<equiv> 19"
abbreviation fid_request_id :: u8 where "fid_request_id \<equiv> 20"
abbreviation fid_execution_id :: u8 where "fid_execution_id \<equiv> 21"
abbreviation fid_payload :: u8 where "fid_payload \<equiv> 22"
abbreviation fid_state :: u8 where "fid_state \<equiv> 23"
abbreviation fid_transport :: u8 where "fid_transport \<equiv> 24"
abbreviation fid_operation :: u8 where "fid_operation \<equiv> 25"
abbreviation fid_incarnation :: u8 where "fid_incarnation \<equiv> 26"
abbreviation fid_host :: u8 where "fid_host \<equiv> 27"
abbreviation fid_assignment_id :: u8 where "fid_assignment_id \<equiv> 28"
abbreviation fid_gate_port :: u8 where "fid_gate_port \<equiv> 29"
abbreviation fid_req_port :: u8 where "fid_req_port \<equiv> 30"
abbreviation fid_input_a :: u8 where "fid_input_a \<equiv> 31"
abbreviation fid_input_b :: u8 where "fid_input_b \<equiv> 32"
abbreviation fid_epoch_id :: u8 where "fid_epoch_id \<equiv> 33"
abbreviation fid_epoch_boot :: u8 where "fid_epoch_boot \<equiv> 34"
abbreviation fid_failback :: u8 where "fid_failback \<equiv> 35"
abbreviation fid_cooldown_ms :: u8 where "fid_cooldown_ms \<equiv> 36"
abbreviation fid_max_auto_attempts :: u8 where "fid_max_auto_attempts \<equiv> 37"
abbreviation fid_authorize :: u8 where "fid_authorize \<equiv> 38"
abbreviation fid_checkpoint :: u8 where "fid_checkpoint \<equiv> 39"
abbreviation fid_checkpoint_seq :: u8 where "fid_checkpoint_seq \<equiv> 40"
abbreviation fid_session :: u8 where "fid_session \<equiv> 41"
abbreviation fid_withheld :: u8 where "fid_withheld \<equiv> 42"
abbreviation fid_retry :: u8 where "fid_retry \<equiv> 43"
abbreviation fid_idempotent :: u8 where "fid_idempotent \<equiv> 44"
abbreviation fid_externally_effectful :: u8 where "fid_externally_effectful \<equiv> 45"
abbreviation fid_txn_incomplete :: u8 where "fid_txn_incomplete \<equiv> 46"
abbreviation fid_milestone :: u8 where "fid_milestone \<equiv> 47"
abbreviation fid_state_avail :: u8 where "fid_state_avail \<equiv> 48"
abbreviation fid_checkpoint_gen :: u8 where "fid_checkpoint_gen \<equiv> 49"
abbreviation fid_committed_seq :: u8 where "fid_committed_seq \<equiv> 50"
abbreviation fid_session_ok :: u8 where "fid_session_ok \<equiv> 51"
abbreviation fid_tenant_ok :: u8 where "fid_tenant_ok \<equiv> 52"
abbreviation fid_model_ok :: u8 where "fid_model_ok \<equiv> 53"
abbreviation fid_format_ok :: u8 where "fid_format_ok \<equiv> 54"
abbreviation fid_integrity_ok :: u8 where "fid_integrity_ok \<equiv> 55"
abbreviation fid_replay_safe :: u8 where "fid_replay_safe \<equiv> 56"
abbreviation fid_continuity :: u8 where "fid_continuity \<equiv> 57"
abbreviation fid_min_checkpoint :: u8 where "fid_min_checkpoint \<equiv> 58"
abbreviation fid_dispatch_count :: u8 where "fid_dispatch_count \<equiv> 59"
abbreviation fid_hysteresis_ms :: u8 where "fid_hysteresis_ms \<equiv> 60"
abbreviation fidr_id :: u8 where "fidr_id \<equiv> 40"
abbreviation fidr_gen :: u8 where "fidr_gen \<equiv> 41"
abbreviation fidr_target :: u8 where "fidr_target \<equiv> 42"
abbreviation fidr_tgtgen :: u8 where "fidr_tgtgen \<equiv> 43"
abbreviation fidr_inc :: u8 where "fidr_inc \<equiv> 44"
abbreviation fidr_boot :: u8 where "fidr_boot \<equiv> 45"
abbreviation fidr_assign :: u8 where "fidr_assign \<equiv> 46"
abbreviation fidr_assigngen :: u8 where "fidr_assigngen \<equiv> 47"
abbreviation fidr_routegen :: u8 where "fidr_routegen \<equiv> 48"
abbreviation fidr_slot_service :: u8 where "fidr_slot_service \<equiv> 49"
abbreviation fidr_slot_id :: u8 where "fidr_slot_id \<equiv> 50"
abbreviation fidr_transport :: u8 where "fidr_transport \<equiv> 51"
abbreviation fidr_state :: u8 where "fidr_state \<equiv> 52"

abbreviation kRoleWorker :: u8 where "kRoleWorker \<equiv> 1"
abbreviation kRoleGateway :: u8 where "kRoleGateway \<equiv> 2"
abbreviation kRoleClient :: u8 where "kRoleClient \<equiv> 3"

section \<open>The reference workload\<close>

definition encode_workload :: "u64 \<Rightarrow> u64 \<Rightarrow> string" where
  "encode_workload a b = decimal (unat a) @ '':'' @ decimal (unat b) @ '':'' @
     decimal (unat (xor a b * 2654435761))"

definition reference_result :: "u64 \<Rightarrow> u64 \<Rightarrow> u64" where
  "reference_result a b =
     foldl (\<lambda>acc i. and (acc * 31 + a * of_nat i + b * (of_nat i + 1)) 0x3FFFFFFF) 0 [0..<32]"

section \<open>Transport strings\<close>

text \<open>\<^verbatim>\<open>std::strtoull(s, nullptr, 10)\<close> on a C string.\<close>

definition is_space :: "char \<Rightarrow> bool" where
  "is_space c = (of_char c \<in> {9, 10, 11, 12, 13, 32 :: nat})"

definition is_digit :: "char \<Rightarrow> bool" where
  "is_digit c = (48 \<le> (of_char c :: nat) \<and> of_char c \<le> (57 :: nat))"

definition digits_value :: "string \<Rightarrow> nat" where
  "digits_value ds = foldl (\<lambda>n c. 10 * n + (of_char c - 48)) 0 ds"

definition strtoull :: "string \<Rightarrow> u64" where
  "strtoull s =
     (let t = dropWhile is_space (takeWhile (\<lambda>c. c \<noteq> char_of (0 :: nat)) s);
          neg = (t \<noteq> [] \<and> hd t = CHR ''-'');
          u = (if t \<noteq> [] \<and> (hd t = CHR ''-'' \<or> hd t = CHR ''+'') then tl t else t);
          n = digits_value (takeWhile is_digit u)
      in if 2 ^ 64 \<le> n then - 1 else if neg then - of_nat n else of_nat n)"

text \<open>\<^verbatim>\<open>s.rfind(":")\<close>\<close>

definition last_colon :: "string \<Rightarrow> nat option" where
  "last_colon s = (let hits = filter (\<lambda>i. s ! i = CHR '':'') [0..<length s]
                   in if hits = [] then None else Some (last hits))"

text \<open>
  The result, the host and the port. For a colon inside the scheme the length \<^verbatim>\<open>p - 6\<close> wraps
  around, and \<^verbatim>\<open>substr\<close> then takes the rest of the string.
\<close>

definition parse_tcp_transport :: "string \<Rightarrow> bool \<times> string \<times> 16 word" where
  "parse_tcp_transport transport =
     (case last_colon transport of
        Some p \<Rightarrow> if take 6 transport = ''tcp://''
                  then (True, if p < 6 then drop 6 transport else take (p - 6) (drop 6 transport),
                        ucast (strtoull (drop (p + 1) transport)))
                  else (False, ''127.0.0.1'', 0)
      | None \<Rightarrow> (False, ''127.0.0.1'', 0))"

definition tcp_transport :: "16 word \<Rightarrow> string" where
  "tcp_transport port = ''tcp://127.0.0.1:'' @ decimal (unat port)"

section \<open>Route entries on the wire\<close>

definition encode_route_entry :: "RouteEntry \<Rightarrow> field_writer list" where
  "encode_route_entry e =
     [pw_u64 fidr_id (id_value (re_route e)),
      pw_u64 fidr_gen (gen_value (re_generation e)),
      pw_u64 fidr_target (id_value (re_target e)),
      pw_u64 fidr_tgtgen (gen_value (re_target_generation e)),
      pw_u64 fidr_inc (id_value (re_incarnation e)),
      pw_u64 fidr_boot (id_value (re_permitted_boot e)),
      pw_u64 fidr_assign (id_value (re_assignment e)),
      pw_u64 fidr_assigngen (gen_value (re_assignment_generation e)),
      pw_u64 fidr_routegen (gen_value (re_generation e)),
      pw_u64 fidr_slot_service (id_value (sk_service (re_slot e))),
      pw_u64 fidr_slot_id (id_value (sk_slot (re_slot e))),
      pw_str fidr_transport (re_transport e),
      pw_u8 fidr_state (enum_byte RouteState_values (re_state e))]"

text \<open>
  The state byte is cast without a check, so it may be no enumerator: it is returned beside the
  entry, whose own state stays at its default.
\<close>

definition decode_route_entry :: "Field list \<Rightarrow> (RouteEntry \<times> u8) result" where
  "decode_route_entry r =
     bindE (pr_u64 r fidr_id) (\<lambda>route.
     bindE (pr_u64 r fidr_gen) (\<lambda>_.
     bindE (pr_u64 r fidr_target) (\<lambda>target.
     bindE (pr_u64 r fidr_tgtgen) (\<lambda>tgtgen.
     bindE (pr_u64 r fidr_inc) (\<lambda>inc.
     bindE (pr_u64 r fidr_boot) (\<lambda>boot.
     bindE (pr_u64 r fidr_assign) (\<lambda>assign.
     bindE (pr_u64 r fidr_assigngen) (\<lambda>assigngen.
     bindE (pr_u64 r fidr_routegen) (\<lambda>routegen.
     bindE (pr_u64 r fidr_slot_service) (\<lambda>service.
     bindE (pr_u64 r fidr_slot_id) (\<lambda>slot.
     bindE (pr_str r fidr_transport) (\<lambda>transport.
     bindE (pr_u8 r fidr_state) (\<lambda>state.
     Inr (default_RouteEntry\<lparr>re_route := Id route, re_generation := Gen routegen, re_target := Id target,
            re_target_generation := Gen tgtgen, re_incarnation := Id inc, re_permitted_boot := Id boot,
            re_assignment := Id assign, re_assignment_generation := Gen assigngen,
            re_slot := SlotKey (Id service) (Id slot), re_transport := transport\<rparr>, state))))))))))))))"

section \<open>Reading what was written\<close>

abbreviation field_u8 :: "u8 \<Rightarrow> u8 \<Rightarrow> Field" where
  "field_u8 i v \<equiv> \<lparr>fld_id = i, fld_type = 0, fld_value = [v]\<rparr>"

abbreviation field_u32 :: "u8 \<Rightarrow> u32 \<Rightarrow> Field" where
  "field_u32 i v \<equiv> \<lparr>fld_id = i, fld_type = 1, fld_value = le_bytes 4 v\<rparr>"

abbreviation field_u64 :: "u8 \<Rightarrow> u64 \<Rightarrow> Field" where
  "field_u64 i v \<equiv> \<lparr>fld_id = i, fld_type = 2, fld_value = le_bytes 8 v\<rparr>"

abbreviation field_bool :: "u8 \<Rightarrow> bool \<Rightarrow> Field" where
  "field_bool i v \<equiv> \<lparr>fld_id = i, fld_type = 3, fld_value = [if v then 1 else 0]\<rparr>"

abbreviation field_f64 :: "u8 \<Rightarrow> double \<Rightarrow> Field" where
  "field_f64 i v \<equiv> \<lparr>fld_id = i, fld_type = 5, fld_value = le_bytes 8 v\<rparr>"

abbreviation field_str :: "u8 \<Rightarrow> string \<Rightarrow> Field" where
  "field_str i v \<equiv> \<lparr>fld_id = i, fld_type = 6, fld_value = map (\<lambda>c. of_nat (of_char c)) v\<rparr>"

abbreviation field_bytes_of :: "u8 \<Rightarrow> bytes \<Rightarrow> Field" where
  "field_bytes_of i v \<equiv> \<lparr>fld_id = i, fld_type = 7, fld_value = v\<rparr>"

lemmas writer_fields = f_u8.put_is_field [OF TrueI] f_u32.put_is_field [OF TrueI] f_u64.put_is_field [OF TrueI]
  f_bool.put_is_field [OF TrueI] f_f64.put_is_field [OF TrueI] f_str.put_is_field f_bytes.put_is_field

lemma pw_seq_fields:
  "pw_seq (map put_field fs) b = Inr b' \<Longrightarrow> b' = b @ concat (map field_bytes fs)"
proof (induction fs arbitrary: b)
  case (Cons f fs)
  then have "pw_seq (map put_field fs) (b @ field_bytes f) = Inr b'"
    by (auto simp: put_field_def [of f] exn_simps split: if_splits)
  from Cons.IH [OF this] show ?case by simp
qed simp

lemma pw_seq_small:
  "length b + length (concat (map field_bytes fs)) \<le> 16777216 \<Longrightarrow>
     pw_seq (map put_field fs) b = Inr (b @ concat (map field_bytes fs))"
  by (induction fs arbitrary: b) (auto simp: put_field_def)

lemma finish_readable:
  assumes "pw_finish (map put_field fs) = Inr b" and "list_all valid_field fs"
  shows "payload_fields b = Inr fs"
  using pw_seq_fields [of fs "[]" b] assms by (simp add: pw_finish_def payload_fields_Inr)

text \<open>A reader looks at the first field with the identity it asks for.\<close>

named_theorems pr_simps

lemma find_field_Cons [pr_simps]:
  "find_field (f # fs) i = (if fld_id f = i then Some f else find_field fs i)"
  "find_field [] i = None"
  by (simp_all add: find_field_def)

lemma pr_at [pr_simps]:
  "find_field fs i = Some (field_u8 i a) \<Longrightarrow> pr_u8 fs i = Inr a"
  "find_field fs i = Some (field_u32 i b) \<Longrightarrow> pr_u32 fs i = Inr b"
  "find_field fs i = Some (field_u64 i c) \<Longrightarrow> pr_u64 fs i = Inr c"
  "find_field fs i = Some (field_bool i d) \<Longrightarrow> pr_bool fs i = Inr d"
  "find_field fs i = Some (field_f64 i c) \<Longrightarrow> pr_f64 fs i = Inr c"
  using f_u8.valid_typed f_u32.valid_typed f_u64.valid_typed f_bool.valid_typed f_f64.valid_typed
  by (simp_all add: f_u8.get_is_field f_u32.get_is_field f_u64.get_is_field f_bool.get_is_field
      f_f64.get_is_field)

lemma pr_bool_at [pr_simps]:
  "find_field fs i = Some \<lparr>fld_id = i, fld_type = 3, fld_value = [0]\<rparr> \<Longrightarrow> pr_bool fs i = Inr False"
  "find_field fs i = Some \<lparr>fld_id = i, fld_type = 3, fld_value = [1]\<rparr> \<Longrightarrow> pr_bool fs i = Inr True"
  using pr_at(4) [of fs i False] pr_at(4) [of fs i True] by simp_all

lemma pr_str_at [pr_simps]:
  "find_field fs i = Some (field_str i v) \<Longrightarrow> pr_str fs i = Inr v"
  by (simp add: pr_str_def field_value_def comp_def)

lemma pr_str_head: "pr_str (field_str i v # fs) i = Inr v"
  by (rule pr_str_at) (simp add: find_field_Cons)

lemma pr_bytes_at [pr_simps]:
  "find_field fs i = Some (field_bytes_of i v) \<Longrightarrow> pr_bytes fs i = Inr v"
  by (simp add: pr_bytes_def field_value_def)

lemma pr_has_iff [pr_simps]: "pr_has fs i \<longleftrightarrow> find_field fs i \<noteq> None"
  by (simp add: pr_has_def)

text \<open>The fields of a route entry.\<close>

definition route_fields :: "RouteEntry \<Rightarrow> Field list" where
  "route_fields e =
     [field_u64 fidr_id (id_value (re_route e)), field_u64 fidr_gen (gen_value (re_generation e)),
      field_u64 fidr_target (id_value (re_target e)), field_u64 fidr_tgtgen (gen_value (re_target_generation e)),
      field_u64 fidr_inc (id_value (re_incarnation e)), field_u64 fidr_boot (id_value (re_permitted_boot e)),
      field_u64 fidr_assign (id_value (re_assignment e)),
      field_u64 fidr_assigngen (gen_value (re_assignment_generation e)),
      field_u64 fidr_routegen (gen_value (re_generation e)),
      field_u64 fidr_slot_service (id_value (sk_service (re_slot e))),
      field_u64 fidr_slot_id (id_value (sk_slot (re_slot e))), field_str fidr_transport (re_transport e),
      field_u8 fidr_state (enum_byte RouteState_values (re_state e))]"

lemma route_fields_written:
  assumes "length (re_transport e) \<le> 16777216"
  shows "encode_route_entry e = map put_field (route_fields e)" and "list_all valid_field (route_fields e)"
  using assms by (simp_all add: encode_route_entry_def route_fields_def writer_fields valid_field_def)

lemma route_fields_read:
  "decode_route_entry (route_fields e) = Inr (e\<lparr>re_epoch := re_epoch default_RouteEntry,
     re_gateway_boot := re_gateway_boot default_RouteEntry, re_provenance := re_provenance default_RouteEntry,
     re_state := re_state default_RouteEntry\<rparr>, enum_byte RouteState_values (re_state e))"
  by (cases e; cases "re_slot e") (simp add: route_fields_def decode_route_entry_def pr_simps default_RouteEntry_def)

text \<open>
  A route entry survives the wire: the payload that carries it is parsed, and reading the
  entry back gives its route, generation, slot, target, boot, assignment and transport and the
  byte of its state. The coordinator epoch, the gateway boot and the provenance are not sent and
  come back as their defaults.
\<close>

theorem route_entry_wire:
  assumes "pw_finish (encode_route_entry e) = Inr b"
  shows "\<exists>fs. payload_fields b = Inr fs \<and> decode_route_entry fs =
    Inr (e\<lparr>re_epoch := re_epoch default_RouteEntry, re_gateway_boot := re_gateway_boot default_RouteEntry,
           re_provenance := re_provenance default_RouteEntry, re_state := re_state default_RouteEntry\<rparr>,
         enum_byte RouteState_values (re_state e))"
proof -
  have len: "length (re_transport e) \<le> 16777216"
    using assms by (auto simp: pw_finish_def encode_route_entry_def pw_str_def exn_simps split: if_splits)
  have "payload_fields b = Inr (route_fields e)"
    using finish_readable [OF _ route_fields_written(2) [OF len]] assms route_fields_written(1) [OF len] by simp
  then show ?thesis using route_fields_read by blast
qed

theorem route_entry_wire_witness:
  "\<exists>b fs. pw_finish (encode_route_entry default_RouteEntry) = Inr b \<and> payload_fields b = Inr fs \<and>
     decode_route_entry fs = Inr (default_RouteEntry, 0)"
proof -
  obtain b where b: "pw_finish (encode_route_entry default_RouteEntry) = Inr b"
    by (simp add: pw_finish_def encode_route_entry_def writer_fields put_field_def default_RouteEntry_def)
  have "default_RouteEntry\<lparr>re_epoch := re_epoch default_RouteEntry, re_gateway_boot := re_gateway_boot default_RouteEntry,
      re_provenance := re_provenance default_RouteEntry, re_state := re_state default_RouteEntry\<rparr> = default_RouteEntry"
    "enum_byte RouteState_values (re_state default_RouteEntry) = 0"
    by (simp_all add: default_RouteEntry_def enum_byte_def RouteState_values_def)
  then show ?thesis using route_entry_wire [OF b] b by auto
qed

section \<open>Ports\<close>

lemma decimal_digits: "list_all is_digit (decimal n)"
proof (induction n rule: decimal.induct)
  case (1 n)
  then show ?case by (subst decimal.simps) (auto simp: is_digit_def [of "char_of _"])
qed

lemma digits_value_snoc: "digits_value (ds @ [c]) = 10 * digits_value ds + (of_char c - 48)"
  by (simp add: digits_value_def)

lemma digits_value_decimal [simp]: "digits_value (decimal n) = n"
proof (induction n rule: decimal.induct)
  case (1 n)
  show ?case
  proof (cases "n < 10")
    case True
    then show ?thesis by (subst decimal.simps) (simp add: digits_value_def)
  next
    case False
    then show ?thesis
      using 1 by (subst decimal.simps) (simp add: digits_value_snoc)
  qed
qed

lemma digit_facts:
  assumes "is_digit c"
  shows "\<not> is_space c" "c \<noteq> char_of (0 :: nat)" "c \<noteq> CHR ''-''" "c \<noteq> CHR ''+''" "c \<noteq> CHR '':''"
  using assms by (auto simp: is_digit_def is_space_def)

lemma strtoull_digits:
  assumes "list_all is_digit ds"
  shows "strtoull ds = (if 2 ^ 64 \<le> digits_value ds then - 1 else of_nat (digits_value ds))"
proof -
  have w: "takeWhile (\<lambda>c. c \<noteq> char_of (0 :: nat)) ds = ds" "takeWhile is_digit ds = ds"
    using assms digit_facts by (auto simp: list_all_iff)
  have d: "dropWhile is_space ds = ds" "(ds \<noteq> [] \<and> hd ds = CHR ''-'') = False"
    "(ds \<noteq> [] \<and> (hd ds = CHR ''-'' \<or> hd ds = CHR ''+'')) = False"
    using assms digit_facts by (cases ds; auto)+
  show ?thesis unfolding strtoull_def Let_def w d if_False by simp
qed

lemma last_colon_append:
  assumes "CHR '':'' \<notin> set t"
  shows "last_colon (s @ CHR '':'' # t) = Some (length s)"
proof -
  have "filter (\<lambda>i. (s @ CHR '':'' # t) ! i = CHR '':'') [Suc (length s)..<length (s @ CHR '':'' # t)] = []"
    using assms by (auto simp: filter_empty_conv nth_append nth_Cons' in_set_conv_nth)
  moreover have "[0..<length (s @ CHR '':'' # t)] =
      [0..<length s] @ length s # [Suc (length s)..<length (s @ CHR '':'' # t)]"
    using upt_add_eq_append [of 0 "length s" "Suc (length t)"] upt_conv_Cons [of "length s" "length s + Suc (length t)"]
    by (simp del: upt_Suc)
  ultimately show ?thesis by (simp add: last_colon_def Let_def)
qed

lemma parse_tcp_transport_tcp:
  "parse_tcp_transport (tcp_transport port) = (True, ''127.0.0.1'', port)"
proof -
  have d: "list_all is_digit (decimal (unat port))" by (rule decimal_digits)
  then have c: "CHR '':'' \<notin> set (decimal (unat port))" using digit_facts(5) by (auto simp: list_all_iff)
  have t: "tcp_transport port = ''tcp://127.0.0.1'' @ CHR '':'' # decimal (unat port)"
    by (simp add: tcp_transport_def)
  have u: "ucast (ucast port :: u64) = port" by (rule bit_word_eqI) (simp add: bit_simps)
  have "unat port < 2 ^ 16" using unsigned_less [of port] by simp
  then have "strtoull (decimal (unat port)) = of_nat (unat port)"
    using strtoull_digits [OF d] by simp
  then show ?thesis
    unfolding t parse_tcp_transport_def last_colon_append [OF c] using u by simp
qed

end
