(* ===== verification/Worker.thy ===== *)
theory Worker
  imports Wire Persistence_Props
begin

text \<open>
  The reference worker process, \<^verbatim>\<open>worker_main.cpp\<close>: its command line, its checkpoint file, the
  registration it publishes, the control loop that activates and fences it, and the handling of
  one request. An exception that leaves a thread ends the process: such a step is an error of
  the model's result type.
\<close>

section \<open>Command line\<close>

record WorkerConfig =
  wc_coord_host :: string
  wc_coord_port :: "16 word"
  wc_port :: "16 word"
  wc_target :: u64
  wc_boot :: u64
  wc_state_path :: string
  wc_session :: u64
  wc_withhold_activate :: bool
  wc_reconnect :: bool

definition default_WorkerConfig :: WorkerConfig where
  "default_WorkerConfig = \<lparr>wc_coord_host = ''127.0.0.1'', wc_coord_port = 0, wc_port = 0, wc_target = 1,
     wc_boot = 1, wc_state_path = [], wc_session = 0, wc_withhold_activate = False, wc_reconnect = False\<rparr>"

text \<open>
  \<^verbatim>\<open>HOST:PORT\<close> cut at the first colon. Without a colon the position is \<^verbatim>\<open>npos\<close>, whose successor
  wraps around to zero, so host and port are both read from the whole string.
\<close>

definition split_host_port :: "string \<Rightarrow> string \<times> 16 word" where
  "split_host_port p =
     (takeWhile (\<lambda>c. c \<noteq> CHR '':'') p,
      ucast (strtoull (if CHR '':'' \<in> set p then tl (dropWhile (\<lambda>c. c \<noteq> CHR '':'') p) else p)))"

text \<open>An option that takes a value takes the next argument; at the end of the line it is ignored.\<close>

fun worker_args :: "string list \<Rightarrow> WorkerConfig \<Rightarrow> WorkerConfig" where
  "worker_args [] c = c"
| "worker_args (k # rest) c =
     (if k \<in> {''--coordinator'', ''--port'', ''--target'', ''--boot'', ''--state'', ''--session''}
      then (case rest of
              [] \<Rightarrow> c
            | v # rest' \<Rightarrow> worker_args rest'
                (if k = ''--coordinator'' then c\<lparr>wc_coord_host := fst (split_host_port v), wc_coord_port := snd (split_host_port v)\<rparr>
                 else if k = ''--port'' then c\<lparr>wc_port := ucast (strtoull v)\<rparr>
                 else if k = ''--target'' then c\<lparr>wc_target := strtoull v\<rparr>
                 else if k = ''--boot'' then c\<lparr>wc_boot := strtoull v\<rparr>
                 else if k = ''--state'' then c\<lparr>wc_state_path := v\<rparr>
                 else c\<lparr>wc_session := strtoull v\<rparr>))
      else worker_args rest
             (if k = ''--withhold-activate'' then c\<lparr>wc_withhold_activate := True\<rparr>
              else if k = ''--reconnect'' then c\<lparr>wc_reconnect := True\<rparr> else c))"

section \<open>Checkpoint files\<close>

definition checkpoint_magic :: bytes where
  "checkpoint_magic = map (\<lambda>c. of_nat (of_char c)) ''FFCK'' @ [1]"

definition checkpoint_bytes :: "u64 \<Rightarrow> u64 \<Rightarrow> string \<Rightarrow> bytes" where
  "checkpoint_bytes session seq model =
     (let body = checkpoint_magic @ le_bytes 8 session @ le_bytes 8 seq @ le_bytes 4 (of_nat (length model) :: u32) @
                 map (\<lambda>c. of_nat (of_char c)) model
      in body @ le_bytes 4 (crc32 body))"

text \<open>\<open>save_checkpoint\<close> of the worker truncates and rewrites the file in place.\<close>

definition worker_save_checkpoint :: "WriteOutcome \<Rightarrow> files \<Rightarrow> string \<Rightarrow> u64 \<Rightarrow> u64 \<Rightarrow> string \<Rightarrow> files \<times> bool" where
  "worker_save_checkpoint io fs path session seq model =
     (let body = checkpoint_bytes session seq model
      in if \<not> io_open_ok io then (fs, False)
         else case io_short_write io of
                Some n \<Rightarrow> (fs(path \<mapsto> take n body), False)
              | None \<Rightarrow> (fs(path \<mapsto> body), True))"

record LoadedCheckpoint =
  lc_ok :: bool
  lc_seq :: u64
  lc_model :: string
  lc_correct_session :: bool
  lc_integrity_ok :: bool

definition no_checkpoint :: LoadedCheckpoint where
  "no_checkpoint = \<lparr>lc_ok = False, lc_seq = 0, lc_model = [], lc_correct_session = False, lc_integrity_ok = False\<rparr>"

text \<open>
  The fields are read at fixed offsets after a test for 20 bytes only, so a file of 20 to 24 bytes
  is read past its end; \<open>junk\<close> is what is found there.
\<close>

definition byte_at :: "(nat \<Rightarrow> u8) \<Rightarrow> bytes \<Rightarrow> nat \<Rightarrow> u8" where
  "byte_at junk blob i = (if i < length blob then blob ! i else junk i)"

definition checkpoint_word :: "(nat \<Rightarrow> u8) \<Rightarrow> bytes \<Rightarrow> nat \<Rightarrow> nat \<Rightarrow> 'a::len word" where
  "checkpoint_word junk blob off n = le_word (map (byte_at junk blob) [off..<off + n])"

definition load_checkpoint ::
    "(nat \<Rightarrow> u8) \<Rightarrow> ReadOutcome \<Rightarrow> files \<Rightarrow> string \<Rightarrow> u64 \<Rightarrow> LoadedCheckpoint" where
  "load_checkpoint junk io fs path want_session =
     (case fs path of
        None \<Rightarrow> no_checkpoint
      | Some blob \<Rightarrow>
          if io \<noteq> ReadComplete \<or> length blob < 20 \<or> take 5 blob \<noteq> checkpoint_magic then no_checkpoint
          else (let session = checkpoint_word junk blob 5 8; seq = checkpoint_word junk blob 13 8;
                    mlen = unat (checkpoint_word junk blob 21 4 :: u32) in
            if length blob < 25 + mlen + 4 then no_checkpoint\<lparr>lc_seq := seq\<rparr>
            else (let crc_stored = checkpoint_word junk blob (25 + mlen) 4
                  in \<lparr>lc_ok = (29 + mlen = length blob), lc_seq = seq,
                      lc_model = map (\<lambda>w. char_of (unat w)) (take mlen (drop 25 blob)),
                      lc_correct_session = (session = want_session),
                      lc_integrity_ok = (crc32 (take (length blob - 4) blob) = crc_stored)\<rparr>)))"

section \<open>The process\<close>

record WorkerState =
  wk_active :: bool
  wk_activated_once :: bool
  wk_committed_seq :: u64
  wk_model_key :: string
  wk_restored :: bool
  wk_ctrl_open :: bool

abbreviation wk_stateful :: "WorkerConfig \<Rightarrow> bool" where
  "wk_stateful c \<equiv> wc_state_path c \<noteq> []"

text \<open>The state the process starts with, from what its checkpoint file gives.\<close>

definition worker_start :: "WorkerConfig \<Rightarrow> LoadedCheckpoint \<Rightarrow> WorkerState" where
  "worker_start c lc =
     (let s = \<lparr>wk_active = False, wk_activated_once = False, wk_committed_seq = 0,
               wk_model_key = ''ref-det-sequence-v1'', wk_restored = \<not> wk_stateful c, wk_ctrl_open = True\<rparr>
      in if wk_stateful c \<and> lc_ok lc
         then s\<lparr>wk_committed_seq := lc_seq lc,
                wk_model_key := (if lc_model lc \<noteq> [] then lc_model lc else wk_model_key s),
                wk_restored := lc_integrity_ok lc \<and> lc_correct_session lc\<rparr>
         else s)"

definition worker_hello :: "WorkerConfig \<Rightarrow> 16 word \<Rightarrow> field_writer list" where
  "worker_hello c actual_port =
     [pw_u8 fid_role kRoleWorker, pw_u64 fid_target (wc_target c), pw_u64 fid_boot (wc_boot c),
      pw_u64 fid_req_port (ucast actual_port)]"

definition send_registration :: "WorkerConfig \<Rightarrow> WorkerState \<Rightarrow> field_writer list" where
  "send_registration c s =
     [pw_u64 fid_target (wc_target c), pw_u64 fid_boot (wc_boot c), pw_bool fid_ready True,
      pw_str fid_model (wk_model_key s), pw_str fid_abi ''ff-ref-v1'', pw_f64 fid_capacity 0x4000000000000000] @
     (if wk_stateful c
      then [pw_bool fid_state_avail (wk_restored s), pw_u64 fid_checkpoint_gen (wk_committed_seq s + 1),
            pw_u64 fid_committed_seq (wk_committed_seq s), pw_bool fid_session_ok (wk_restored s),
            pw_bool fid_tenant_ok True, pw_bool fid_model_ok True, pw_bool fid_format_ok (wk_restored s),
            pw_bool fid_integrity_ok (wk_restored s), pw_bool fid_replay_safe True]
      else [])"

text \<open>\<open>send_msg\<close>: a frame that cannot be encoded throws.\<close>

definition send_msg :: "MsgType \<Rightarrow> u32 \<Rightarrow> u64 \<Rightarrow> field_writer list \<Rightarrow> Frame result" where
  "send_msg t mid ep ws =
     bindE (pw_finish ws) (\<lambda>p.
     let f = \<lparr>fr_type = t, fr_msg_id = mid, fr_epoch = ep, fr_payload = p\<rparr>
     in bindE (encode_frame f) (\<lambda>_. Inr f))"

text \<open>
  One frame of the control connection: the new state, the acknowledgment sent back, and whether
  the marker file of a withheld acknowledgment is written.
\<close>

definition worker_control :: "WorkerConfig \<Rightarrow> Frame \<Rightarrow> WorkerState \<Rightarrow> (WorkerState \<times> Frame option \<times> bool) result" where
  "worker_control c f s =
     (if fr_type f = MsgType.ACTIVATE_TARGET then
        (let s1 = s\<lparr>wk_active := True\<rparr>
         in if wc_withhold_activate c \<and> \<not> wk_activated_once s
            then Inr (s1\<lparr>wk_activated_once := True\<rparr>, None, True)
            else bindE (send_msg MsgType.ACTIVATE_RESULT (fr_msg_id f) (fr_epoch f) [pw_bool fid_ok True]) (\<lambda>r.
                   Inr (s1, Some r, False)))
      else if fr_type f = MsgType.FENCE_ASSIGNMENT then Inr (s\<lparr>wk_active := False\<rparr>, None, False)
      else Inr (s, None, False))"

text \<open>
  The loop that looks for the coordinator again: \<open>connects a\<close> says whether attempt \<open>a\<close> connects.
  The result is the number of the attempt that does.
\<close>

definition worker_reconnect :: "WorkerConfig \<Rightarrow> (nat \<Rightarrow> bool) \<Rightarrow> nat option" where
  "worker_reconnect c connects = (if wc_reconnect c then List.find connects [0..<120] else None)"

definition opt_field :: "(Field list \<Rightarrow> u8 \<Rightarrow> 'a result) \<Rightarrow> Field list \<Rightarrow> u8 \<Rightarrow> 'a \<Rightarrow> 'a result" where
  "opt_field get r i d = (if pr_has r i then get r i else Inr d)"

text \<open>The operands and the boot that a request names.\<close>

definition request_inputs :: "Frame option \<Rightarrow> (u64 \<times> u64 \<times> u64) result" where
  "request_inputs f =
     (case f of None \<Rightarrow> Inr (0, 0, 0)
      | Some f \<Rightarrow> bindE (payload_fields (fr_payload f)) (\<lambda>r.
          bindE (opt_field pr_u64 r fid_input_a 0) (\<lambda>a.
          bindE (opt_field pr_u64 r fid_input_b 0) (\<lambda>b.
          bindE (opt_field pr_u64 r fid_boot 0) (\<lambda>boot. Inr (a, b, boot))))))"

definition result_fields :: "u64 \<Rightarrow> field_writer list" where
  "result_fields res = [pw_bool fid_ok True, pw_bytes fid_payload (map (\<lambda>c. of_nat (of_char c)) (decimal (unat res)))]"

text \<open>What a request does: the new state and files, and the fields of the answer, if one is given.\<close>

definition serve_request ::
    "WorkerConfig \<Rightarrow> WriteOutcome \<Rightarrow> u64 \<Rightarrow> u64 \<Rightarrow> u64 \<Rightarrow> files \<Rightarrow> WorkerState \<Rightarrow> files \<times> WorkerState \<times> field_writer list option" where
  "serve_request c io a b req_boot fs s =
     (if wk_active s \<and> req_boot = wc_boot c then
        (if a = 0xDBAD then (fs, s\<lparr>wk_ctrl_open := False\<rparr>, Some [pw_bool fid_ok True])
         else if a = 0xBEEF then
           ((if io_open_ok io
             then fs(''ambig_'' @ decimal (unat (wc_target c)) @ ''.out'' \<mapsto>
                     map (\<lambda>c. of_nat (of_char c)) (decimal (unat (reference_result (and a 0xFFFFFFFFFFFF) b))) @ [10])
             else fs), s, None)
         else if a = 0xC0FFEE then
           ((if wk_stateful c
             then fst (worker_save_checkpoint io fs (wc_state_path c) (wc_session c) (wk_committed_seq s) (wk_model_key s))
             else fs), s, Some (result_fields (reference_result (and a 0xFFFFFFFFFFFF) b)))
         else (fs, s\<lparr>wk_committed_seq := wk_committed_seq s + 1\<rparr>, Some (result_fields (reference_result a b))))
      else (fs, s, Some [pw_bool fid_ok False, pw_str fid_detail ''not active or stale boot'']))"

definition worker_request ::
    "WorkerConfig \<Rightarrow> WriteOutcome \<Rightarrow> Frame option \<Rightarrow> files \<Rightarrow> WorkerState \<Rightarrow> (files \<times> WorkerState \<times> Frame option) result" where
  "worker_request c io f fs s =
     bindE (request_inputs f) (\<lambda>(a, b, req_boot).
     case serve_request c io a b req_boot fs s of
       (fs', s', None) \<Rightarrow> Inr (fs', s', None)
     | (fs', s', Some ws) \<Rightarrow>
         bindE (send_msg MsgType.EXECUTION_RESULT (case f of None \<Rightarrow> 0 | Some f \<Rightarrow> fr_msg_id f)
                  (case f of None \<Rightarrow> 0 | Some f \<Rightarrow> fr_epoch f) ws) (\<lambda>r. Inr (fs', s', Some r)))"

section \<open>The checkpoint file\<close>

lemma checkpoint_word_inside:
  assumes "off + n \<le> length blob"
  shows "checkpoint_word junk blob off n = le_word (take n (drop off blob))"
proof -
  have "map (byte_at junk blob) [off..<off + n] = take n (drop off blob)"
    using assms by (intro nth_equalityI) (simp_all add: byte_at_def)
  then show ?thesis by (simp add: checkpoint_word_def)
qed

lemma length_checkpoint_magic [simp]: "length checkpoint_magic = 5"
  by (simp add: checkpoint_magic_def)

lemma length_checkpoint_bytes [simp]: "length (checkpoint_bytes session seq model) = 29 + length model"
  by (simp add: checkpoint_bytes_def Let_def)

lemma checkpoint_parts:
  assumes "29 + n = length blob"
  obtains m s q l p c where "blob = m @ s @ q @ l @ p @ c"
    "length m = 5" "length s = 8" "length q = 8" "length l = 4" "length p = n" "length c = 4"
proof -
  have "5 \<le> length blob" using assms by simp
  then obtain m r1 where 1: "blob = m @ r1" "length m = 5" "length r1 = length blob - 5" by (rule split_at)
  have "8 \<le> length r1" using 1(3) assms by linarith
  then obtain s r2 where 2: "r1 = s @ r2" "length s = 8" "length r2 = length r1 - 8" by (rule split_at)
  have "8 \<le> length r2" using 1(3) 2(3) assms by linarith
  then obtain q r3 where 3: "r2 = q @ r3" "length q = 8" "length r3 = length r2 - 8" by (rule split_at)
  have "4 \<le> length r3" using 1(3) 2(3) 3(3) assms by linarith
  then obtain l r4 where 4: "r3 = l @ r4" "length l = 4" "length r4 = length r3 - 4" by (rule split_at)
  have "n \<le> length r4" using 1(3) 2(3) 3(3) 4(3) assms by linarith
  then obtain p c where 5: "r4 = p @ c" "length p = n" "length c = length r4 - n" by (rule split_at)
  have "length c = 4" using 1(3) 2(3) 3(3) 4(3) 5(3) assms by linarith
  then show thesis using that [of m s q l p c] 1(1,2) 2(1,2) 3(1,2) 4(1,2) 5(1,2) by simp
qed

lemma load_intact_checkpoint:
  assumes "fs path = Some (checkpoint_bytes session seq model)" and "length model < 2 ^ 32"
  shows "load_checkpoint junk ReadComplete fs path w =
    \<lparr>lc_ok = True, lc_seq = seq, lc_model = model, lc_correct_session = (session = w), lc_integrity_ok = True\<rparr>"
proof -
  have "unat (of_nat (length model) :: u32) = length model" using assms(2) by (simp add: unat_of_nat)
  then show ?thesis
    using assms(1) by (simp add: load_checkpoint_def Let_def checkpoint_word_inside)
      (simp add: checkpoint_bytes_def Let_def le_word_bytes comp_def)
qed

text \<open>The loader takes a file for an intact checkpoint only when it is the encoding of one.\<close>

lemma load_checkpoint_intact:
  assumes "lc_ok (load_checkpoint junk ReadComplete fs path w)"
    and "lc_integrity_ok (load_checkpoint junk ReadComplete fs path w)"
  shows "\<exists>session seq model. fs path = Some (checkpoint_bytes session seq model) \<and> length model < 2 ^ 32"
proof -
  obtain blob where blob: "fs path = Some blob"
    using assms(1) by (cases "fs path") (simp_all add: load_checkpoint_def no_checkpoint_def)
  let ?n = "unat (checkpoint_word junk blob 21 4 :: u32)"
  from assms blob have f: "take 5 blob = checkpoint_magic" "29 + ?n = length blob"
    "crc32 (take (length blob - 4) blob) = checkpoint_word junk blob (25 + ?n) 4"
    by (auto simp: load_checkpoint_def no_checkpoint_def Let_def split: if_splits)
  obtain m s q l p c where b: "blob = m @ s @ q @ l @ p @ c" and len: "length m = 5" "length s = 8" "length q = 8"
    "length l = 4" "length p = ?n" "length c = 4"
    using checkpoint_parts [OF f(2)] .
  have m: "m = checkpoint_magic" using f(1) b len by simp
  have n: "?n = unat (le_word l :: u32)" using len b by (subst checkpoint_word_inside) simp_all
  then have l: "l = le_bytes 4 (of_nat (length p) :: u32)"
    using unat_le_word [OF len(4), of "length p"] len(5) unsigned_less [of "le_word l :: u32"] by simp
  have "take (length blob - 4) blob = m @ s @ q @ l @ p" "checkpoint_word junk blob (25 + ?n) 4 = (le_word c :: u32)"
    using len f(2) by (simp_all add: b checkpoint_word_inside flip: len(5))
  then have c: "c = le_bytes 4 (crc32 (m @ s @ q @ l @ p))"
    using f(3) le_bytes_word [of c 4, where 'a = 32] len(6) by simp
  have "length p < 2 ^ 32" using n len(5) unsigned_less [of "le_word l :: u32"] by simp
  moreover have "blob = checkpoint_bytes (le_word s) (le_word q) (map (\<lambda>w. char_of (unat w)) p)"
  proof -
    have sq: "le_bytes 8 (le_word s :: u64) = s" "le_bytes 8 (le_word q :: u64) = q"
      "map (\<lambda>c. of_nat (of_char c)) (map (\<lambda>w. char_of (unat w)) p) = p"
      using le_bytes_word [OF len(2), where 'a = 64] le_bytes_word [OF len(3), where 'a = 64]
        chars_of_bytes [of "map (\<lambda>w. char_of (unat w)) p" p] by simp_all
    have "checkpoint_magic @ s @ q @ le_bytes 4 (of_nat (length p) :: u32) @ p = m @ s @ q @ l @ p"
      by (simp only: m l)
    then show ?thesis unfolding checkpoint_bytes_def Let_def sq length_map unfolding b by (simp only: c append_assoc)
  qed
  ultimately show ?thesis using blob by (metis length_map)
qed

section \<open>Properties\<close>

text \<open>
  C37. A stateful worker claims restored state exactly when its checkpoint file is, byte for
  byte, the encoding of a checkpoint of its own session, and then it serves from the sequence
  number and the model recorded there; no other content of the file, nor the bytes that happen
  to lie behind a short file, makes it claim so.
\<close>

theorem worker_restores_exactly:
  assumes "wk_stateful c" and "s = worker_start c (load_checkpoint junk ReadComplete fs (wc_state_path c) (wc_session c))"
  shows "wk_restored s \<longleftrightarrow> (\<exists>seq model. fs (wc_state_path c) = Some (checkpoint_bytes (wc_session c) seq model) \<and>
    length model < 2 ^ 32 \<and> wk_committed_seq s = seq \<and>
    wk_model_key s = (if model = [] then ''ref-det-sequence-v1'' else model))"
proof
  let ?lc = "load_checkpoint junk ReadComplete fs (wc_state_path c) (wc_session c)"
  assume "wk_restored s"
  then have ok: "lc_ok ?lc" "lc_integrity_ok ?lc" "lc_correct_session ?lc"
    using assms by (auto simp: worker_start_def Let_def split: if_splits)
  then obtain session seq model where f: "fs (wc_state_path c) = Some (checkpoint_bytes session seq model)" "length model < 2 ^ 32"
    using load_checkpoint_intact by blast
  note l = load_intact_checkpoint [where fs = fs and path = "wc_state_path c" and w = "wc_session c" and junk = junk, OF f]
  have "session = wc_session c" using ok(3) l by simp
  then show "\<exists>seq model. fs (wc_state_path c) = Some (checkpoint_bytes (wc_session c) seq model) \<and>
      length model < 2 ^ 32 \<and> wk_committed_seq s = seq \<and>
      wk_model_key s = (if model = [] then ''ref-det-sequence-v1'' else model)"
    using f l assms by (intro exI [of _ seq] exI [of _ model]) (simp add: worker_start_def Let_def)
next
  assume "\<exists>seq model. fs (wc_state_path c) = Some (checkpoint_bytes (wc_session c) seq model) \<and>
      length model < 2 ^ 32 \<and> wk_committed_seq s = seq \<and>
      wk_model_key s = (if model = [] then ''ref-det-sequence-v1'' else model)"
  then obtain seq model where f: "fs (wc_state_path c) = Some (checkpoint_bytes (wc_session c) seq model)" "length model < 2 ^ 32"
    by blast
  show "wk_restored s"
    using assms load_intact_checkpoint [where fs = fs and path = "wc_state_path c" and w = "wc_session c" and junk = junk, OF f]
    by (simp add: worker_start_def Let_def)
qed

definition example_worker :: WorkerConfig where
  "example_worker = default_WorkerConfig\<lparr>wc_state_path := ''w.ck'', wc_session := 9\<rparr>"

definition example_worker_files :: files where
  "example_worker_files = [''w.ck'' \<mapsto> checkpoint_bytes 9 41 ''m'']"

theorem worker_restores_exactly_witness:
  "wk_stateful example_worker \<and>
   wk_restored (worker_start example_worker (load_checkpoint (\<lambda>_. 0) ReadComplete example_worker_files ''w.ck'' 9))"
proof -
  let ?s = "worker_start example_worker (load_checkpoint (\<lambda>_. 0) ReadComplete example_worker_files ''w.ck'' 9)"
  have p: "wc_state_path example_worker = ''w.ck''" "wc_session example_worker = 9"
    "example_worker_files ''w.ck'' = Some (checkpoint_bytes 9 41 ''m'')"
    by (simp_all add: example_worker_def example_worker_files_def)
  have l: "load_checkpoint (\<lambda>_. 0) ReadComplete example_worker_files ''w.ck'' 9 =
      \<lparr>lc_ok = True, lc_seq = 41, lc_model = ''m'', lc_correct_session = True, lc_integrity_ok = True\<rparr>"
    using load_intact_checkpoint [where fs = example_worker_files and path = "''w.ck''", OF p(3)] by simp
  have "wk_committed_seq ?s = 41" "wk_model_key ?s = ''m''"
    unfolding l by (simp_all add: worker_start_def Let_def p)
  then have "\<exists>seq model. example_worker_files (wc_state_path example_worker) =
        Some (checkpoint_bytes (wc_session example_worker) seq model) \<and> length model < 2 ^ 32 \<and>
      wk_committed_seq ?s = seq \<and> wk_model_key ?s = (if model = [] then ''ref-det-sequence-v1'' else model)"
    using p by (intro exI [of _ 41] exI [of _ "''m''"]) simp
  then show ?thesis
    using worker_restores_exactly [of example_worker ?s "\<lambda>_. 0" example_worker_files] unfolding p by simp
qed

section \<open>Serving\<close>

text \<open>Frames whose fields fit are sent, and their fields are what the receiver parses.\<close>

lemma send_msg_fields:
  assumes "list_all valid_field fl" and "length (concat (map field_bytes fl)) \<le> 16777216"
  shows "send_msg t mid ep (map put_field fl) =
      Inr \<lparr>fr_type = t, fr_msg_id = mid, fr_epoch = ep, fr_payload = concat (map field_bytes fl)\<rparr>"
    and "payload_fields (concat (map field_bytes fl)) = Inr fl"
proof -
  have "pw_finish (map put_field fl) = Inr (concat (map field_bytes fl))"
    using pw_seq_small [of "[]" fl] assms(2) by (simp add: pw_finish_def)
  then show "send_msg t mid ep (map put_field fl) =
      Inr \<lparr>fr_type = t, fr_msg_id = mid, fr_epoch = ep, fr_payload = concat (map field_bytes fl)\<rparr>"
    using assms(2) by (simp add: send_msg_def encode_frame_def Let_def)
  show "payload_fields (concat (map field_bytes fl)) = Inr fl"
    using assms(1) by (simp add: payload_fields_Inr)
qed

lemma decimal_length: "n < 10 ^ Suc k \<Longrightarrow> length (decimal n) \<le> Suc k"
proof (induction k arbitrary: n)
  case 0
  then show ?case by (subst decimal.simps) simp
next
  case (Suc k)
  then have "n div 10 < 10 ^ Suc k" by (simp add: div_less_iff_less_mult)
  with Suc.IH [of "n div 10"] show ?case by (subst decimal.simps) simp
qed

lemma decimal_word_length: "length (decimal (unat (x :: u64))) \<le> 20"
proof -
  have "unat x < 18446744073709551616" using unsigned_less [of x] by simp
  then have "unat x < 10 ^ Suc 19" by simp
  from decimal_length [OF this] show ?thesis by simp
qed

lemma reply_readable:
  assumes "list_all valid_field fl" and "length (concat (map field_bytes fl)) \<le> 16777216"
  obtains r where "send_msg t mid ep (map put_field fl) = Inr r" "fr_type r = t" "fr_msg_id r = mid" "fr_epoch r = ep"
    "payload_fields (fr_payload r) = Inr fl"
  using that [OF send_msg_fields(1) [OF assms]] send_msg_fields(2) [OF assms] by simp

lemma serve_ordinary:
  assumes "a \<notin> {0xDBAD, 0xBEEF, 0xC0FFEE}"
  obtains fl where "serve_request c io a b boot fs s =
      (fs, if wk_active s \<and> boot = wc_boot c then s\<lparr>wk_committed_seq := wk_committed_seq s + 1\<rparr> else s,
       Some (map put_field fl))"
    "list_all valid_field fl" "length (concat (map field_bytes fl)) \<le> 16777216"
    "pr_bool fl fid_ok = Inr (wk_active s \<and> boot = wc_boot c)"
    "if wk_active s \<and> boot = wc_boot c
     then pr_bytes fl fid_payload = Inr (map (\<lambda>c. of_nat (of_char c)) (decimal (unat (reference_result a b))))
     else \<not> pr_has fl fid_payload"
proof (cases "wk_active s \<and> boot = wc_boot c")
  case True
  let ?d = "map (\<lambda>c. of_nat (of_char c)) (decimal (unat (reference_result a b))) :: bytes"
  have "result_fields (reference_result a b) = map put_field [field_bool fid_ok True, field_bytes_of fid_payload ?d]"
    using decimal_word_length [of "reference_result a b"] by (simp add: result_fields_def writer_fields)
  then have "serve_request c io a b boot fs s = (fs, s\<lparr>wk_committed_seq := wk_committed_seq s + 1\<rparr>,
      Some (map put_field [field_bool fid_ok True, field_bytes_of fid_payload ?d]))"
    using True assms by (simp add: serve_request_def)
  then show thesis
    using True decimal_word_length [of "reference_result a b"]
    by (intro that [of "[field_bool fid_ok True, field_bytes_of fid_payload ?d]"])
      (simp_all add: valid_field_def pr_simps)
next
  case False
  let ?why = "''not active or stale boot''"
  have "serve_request c io a b boot fs s = (fs, s, Some (map put_field [field_bool fid_ok False, field_str fid_detail ?why]))"
    using False by (auto simp: serve_request_def writer_fields)
  then show thesis
    using False by (intro that [of "[field_bool fid_ok False, field_str fid_detail ?why]"])
      (auto simp: valid_field_def pr_simps)
qed

text \<open>An active worker asked under its own boot answers with the reference result.\<close>

lemma active_worker_result:
  assumes "request_inputs (Some f) = Inr (a, b, wc_boot c)" and "a \<notin> {0xDBAD, 0xBEEF, 0xC0FFEE}" and "wk_active s"
  obtains r where "worker_request c io (Some f) fs s = Inr (fs, s\<lparr>wk_committed_seq := wk_committed_seq s + 1\<rparr>, Some r)"
    "fr_type r = MsgType.EXECUTION_RESULT" "payload_fields (fr_payload r) = Inr [field_bool fid_ok True,
      field_bytes_of fid_payload (map (\<lambda>c. of_nat (of_char c)) (decimal (unat (reference_result a b))))]"
proof -
  let ?fl = "[field_bool fid_ok True, field_bytes_of fid_payload (map (\<lambda>c. of_nat (of_char c)) (decimal (unat (reference_result a b))))]"
  have w: "result_fields (reference_result a b) = map put_field ?fl"
    using decimal_word_length [of "reference_result a b"] by (simp add: result_fields_def writer_fields)
  obtain r where r: "send_msg MsgType.EXECUTION_RESULT (fr_msg_id f) (fr_epoch f) (map put_field ?fl) = Inr r"
    "fr_type r = MsgType.EXECUTION_RESULT" "payload_fields (fr_payload r) = Inr ?fl"
    using reply_readable [of ?fl MsgType.EXECUTION_RESULT "fr_msg_id f" "fr_epoch f"]
      decimal_word_length [of "reference_result a b"] by (auto simp: valid_field_def)
  have "worker_request c io (Some f) fs s = Inr (fs, s\<lparr>wk_committed_seq := wk_committed_seq s + 1\<rparr>, Some r)"
    using assms(2,3) r(1) by (simp add: worker_request_def assms(1) serve_request_def w del: list.map)
  then show ?thesis using that r(2,3) by blast
qed

text \<open>
  C29. What an ordinary request gets from a worker. If the worker is active and the request names
  its boot, the answer is positive and carries the reference result of the operands, and one
  more operation counts as committed. Otherwise the answer is negative and nothing changes.
\<close>

theorem worker_answers:
  assumes "request_inputs (Some f) = Inr (a, b, boot)" and "a \<notin> {0xDBAD, 0xBEEF, 0xC0FFEE}"
  shows "\<exists>r fl. worker_request c io (Some f) fs s =
      Inr (fs, if wk_active s \<and> boot = wc_boot c then s\<lparr>wk_committed_seq := wk_committed_seq s + 1\<rparr> else s, Some r) \<and>
    fr_type r = MsgType.EXECUTION_RESULT \<and> fr_msg_id r = fr_msg_id f \<and> payload_fields (fr_payload r) = Inr fl \<and>
    pr_bool fl fid_ok = Inr (wk_active s \<and> boot = wc_boot c) \<and>
    (if wk_active s \<and> boot = wc_boot c
     then pr_bytes fl fid_payload = Inr (map (\<lambda>c. of_nat (of_char c)) (decimal (unat (reference_result a b))))
     else \<not> pr_has fl fid_payload)"
proof -
  obtain fl where fl: "serve_request c io a b boot fs s =
      (fs, if wk_active s \<and> boot = wc_boot c then s\<lparr>wk_committed_seq := wk_committed_seq s + 1\<rparr> else s,
       Some (map put_field fl))"
    "list_all valid_field fl" "length (concat (map field_bytes fl)) \<le> 16777216"
    and ok: "pr_bool fl fid_ok = Inr (wk_active s \<and> boot = wc_boot c)"
    "if wk_active s \<and> boot = wc_boot c
     then pr_bytes fl fid_payload = Inr (map (\<lambda>c. of_nat (of_char c)) (decimal (unat (reference_result a b))))
     else \<not> pr_has fl fid_payload"
    using serve_ordinary [OF assms(2)] .
  obtain r where r: "send_msg MsgType.EXECUTION_RESULT (fr_msg_id f) (fr_epoch f) (map put_field fl) = Inr r"
    "fr_type r = MsgType.EXECUTION_RESULT" "fr_msg_id r = fr_msg_id f" "payload_fields (fr_payload r) = Inr fl"
    using reply_readable [OF fl(2,3)] by metis
  have "worker_request c io (Some f) fs s = Inr (fs, if wk_active s \<and> boot = wc_boot c
      then s\<lparr>wk_committed_seq := wk_committed_seq s + 1\<rparr> else s, Some r)"
    by (simp only: worker_request_def assms(1) bindE_Inr prod.case fl(1) option.case r(1))
  then show ?thesis using r ok by blast
qed

definition example_request :: Frame where
  "example_request = default_Frame\<lparr>fr_msg_id := 5,
     fr_payload := concat (map field_bytes [field_u64 fid_input_a 7, field_u64 fid_input_b 11, field_u64 fid_boot 1])\<rparr>"

lemma example_request_inputs: "request_inputs (Some example_request) = Inr (7, 11, 1)"
proof -
  have "payload_fields (fr_payload example_request) =
      Inr [field_u64 fid_input_a 7, field_u64 fid_input_b 11, field_u64 fid_boot 1]"
    by (simp add: payload_fields_Inr example_request_def valid_field_def)
  then show ?thesis by (simp add: request_inputs_def opt_field_def pr_simps)
qed

definition active_worker :: WorkerState where
  "active_worker = (worker_start default_WorkerConfig no_checkpoint)\<lparr>wk_active := True\<rparr>"

theorem worker_answers_witness:
  "\<exists>r fl. worker_request default_WorkerConfig all_io_ok (Some example_request) Map.empty active_worker =
       Inr (Map.empty, active_worker\<lparr>wk_committed_seq := wk_committed_seq active_worker + 1\<rparr>, Some r) \<and>
     payload_fields (fr_payload r) = Inr fl \<and> pr_bool fl fid_ok = Inr True"
proof -
  have "wk_active active_worker \<and> 1 = wc_boot default_WorkerConfig" "(7 :: u64) \<notin> {0xDBAD, 0xBEEF, 0xC0FFEE}"
    by (simp_all add: active_worker_def default_WorkerConfig_def)
  then show ?thesis
    using worker_answers [OF example_request_inputs, of default_WorkerConfig all_io_ok Map.empty active_worker]
    by auto
qed

text \<open>The control connection over a sequence of frames.\<close>

fun worker_controls :: "WorkerConfig \<Rightarrow> Frame list \<Rightarrow> WorkerState \<Rightarrow> WorkerState result" where
  "worker_controls c [] s = Inr s"
| "worker_controls c (f # fs) s = bindE (worker_control c f s) (\<lambda>(s', _). worker_controls c fs s')"

lemma worker_controls_append:
  "worker_controls c (fs @ gs) s = bindE (worker_controls c fs s) (worker_controls c gs)"
  by (induction fs arbitrary: s) (auto simp: bindE_def split: sum.split)

lemma stays_inactive:
  "worker_controls c fs s = Inr s' \<Longrightarrow> \<not> wk_active s \<Longrightarrow> MsgType.ACTIVATE_TARGET \<notin> fr_type ` set fs \<Longrightarrow> \<not> wk_active s'"
  by (induction fs arbitrary: s) (auto simp: worker_control_def split: if_splits)

text \<open>
  A fenced worker serves nobody: from a FENCE_ASSIGNMENT on, and until the next
  ACTIVATE_TARGET, every request that can be read leaves the worker and its files unchanged and
  is answered negatively, whatever it asks for and whatever boot it names.
\<close>

theorem fenced_worker_refuses:
  assumes "worker_controls c (before @ fence # after) s0 = Inr s" and "fr_type fence = MsgType.FENCE_ASSIGNMENT"
    and "MsgType.ACTIVATE_TARGET \<notin> fr_type ` set after" and "request_inputs (Some f) = Inr x"
  shows "\<exists>r fl. worker_request c io (Some f) fs s = Inr (fs, s, Some r) \<and>
    payload_fields (fr_payload r) = Inr fl \<and> pr_bool fl fid_ok = Inr False"
proof -
  obtain s1 where "worker_controls c after (s1\<lparr>wk_active := False\<rparr>) = Inr s"
    using assms(1,2) by (auto simp: worker_controls_append exn_simps worker_control_def)
  then have inactive: "\<not> wk_active s" using stays_inactive [OF _ _ assms(3)] by simp
  obtain a b boot where x: "x = (a, b, boot)" by (cases x)
  let ?fl = "[field_bool fid_ok False, field_str fid_detail ''not active or stale boot'']"
  have v: "list_all valid_field ?fl" "length (concat (map field_bytes ?fl)) \<le> 16777216"
    by (simp_all add: valid_field_def)
  obtain r where r: "send_msg MsgType.EXECUTION_RESULT (fr_msg_id f) (fr_epoch f) (map put_field ?fl) = Inr r"
    "payload_fields (fr_payload r) = Inr ?fl"
    using reply_readable [OF v] by metis
  have "serve_request c io a b boot fs s = (fs, s, Some (map put_field ?fl))"
    using inactive by (simp add: serve_request_def writer_fields)
  then have "worker_request c io (Some f) fs s = Inr (fs, s, Some r)"
    by (simp only: worker_request_def assms(4) x bindE_Inr prod.case option.case r(1))
  moreover have "pr_bool ?fl fid_ok = Inr False" by (simp add: pr_simps)
  ultimately show ?thesis using r(2) by blast
qed

theorem fenced_worker_refuses_witness:
  "\<exists>s r fl. worker_controls default_WorkerConfig [default_Frame\<lparr>fr_type := MsgType.FENCE_ASSIGNMENT\<rparr>] active_worker = Inr s \<and>
     worker_request default_WorkerConfig all_io_ok (Some example_request) Map.empty s = Inr (Map.empty, s, Some r) \<and>
     payload_fields (fr_payload r) = Inr fl \<and> pr_bool fl fid_ok = Inr False"
proof -
  let ?f = "default_Frame\<lparr>fr_type := MsgType.FENCE_ASSIGNMENT\<rparr>"
  obtain s where "worker_controls default_WorkerConfig [?f] active_worker = Inr s"
    by (simp add: worker_control_def)
  then show ?thesis
    using fenced_worker_refuses [of default_WorkerConfig "[]" ?f "[]" active_worker s example_request _ all_io_ok Map.empty]
      example_request_inputs by auto
qed

end
