(* ===== verification/Options.thy ===== *)
theory Options
  imports Worker
begin

text \<open>
  The command lines of the coordinator and the gateway. Both look at every argument but the last
  as a possible option and take the next argument as its value, without skipping it: a value is
  looked at as an option as well. (The worker's, in \<open>Worker\<close>, skips the value.)
\<close>

record CoordinatorOptions =
  oc_port :: "16 word"
  oc_load :: string
  oc_checkpoint :: string

record GatewayOptions =
  og_coord_host :: string
  og_coord_port :: "16 word"
  og_port :: "16 word"
  og_boot :: u64

definition coordinator_option :: "string \<times> string \<Rightarrow> CoordinatorOptions \<Rightarrow> CoordinatorOptions" where
  "coordinator_option = (\<lambda>(k, v) c.
     if k = ''--port'' then c\<lparr>oc_port := ucast (strtoull v)\<rparr>
     else if k = ''--load'' then c\<lparr>oc_load := v\<rparr>
     else if k = ''--checkpoint'' then c\<lparr>oc_checkpoint := v\<rparr> else c)"

definition coordinator_args :: "string list \<Rightarrow> CoordinatorOptions" where
  "coordinator_args args =
     fold coordinator_option (zip args (tl args)) \<lparr>oc_port = 0, oc_load = [], oc_checkpoint = []\<rparr>"

definition gateway_option :: "string \<times> string \<Rightarrow> GatewayOptions \<Rightarrow> GatewayOptions" where
  "gateway_option = (\<lambda>(k, v) c.
     if k = ''--coordinator'' then c\<lparr>og_coord_host := fst (split_host_port v), og_coord_port := snd (split_host_port v)\<rparr>
     else if k = ''--port'' then c\<lparr>og_port := ucast (strtoull v)\<rparr>
     else if k = ''--boot'' then c\<lparr>og_boot := strtoull v\<rparr> else c)"

definition gateway_args :: "string list \<Rightarrow> GatewayOptions" where
  "gateway_args args =
     fold gateway_option (zip args (tl args))
       \<lparr>og_coord_host = ''127.0.0.1'', og_coord_port = 0, og_port = 0, og_boot = 1\<rparr>"

text \<open>The last option of a command line wins, whatever precedes it.\<close>

lemma last_pair: "zip (args @ [k, v]) (tl (args @ [k, v])) = zip (args @ [k]) (tl (args @ [k])) @ [(k, v)]"
proof (induction args)
  case (Cons a args)
  then show ?case by (cases args) auto
qed simp

lemma coordinator_last_option:
  "oc_load (coordinator_args (args @ [''--load'', path])) = path"
  "oc_checkpoint (coordinator_args (args @ [''--checkpoint'', path])) = path"
  "oc_port (coordinator_args (args @ [''--port'', v])) = ucast (strtoull v)"
  by (simp_all add: coordinator_args_def last_pair coordinator_option_def del: zip_append2)

lemma gateway_last_boot: "og_boot (gateway_args (args @ [''--boot'', v])) = strtoull v"
  by (simp add: gateway_args_def last_pair gateway_option_def)

text \<open>A value that spells an option is taken as both.\<close>

lemma value_is_option:
  "coordinator_args [''--load'', ''--port'', ''7''] = \<lparr>oc_port = 7, oc_load = ''--port'', oc_checkpoint = []\<rparr>"
  by code_simp

end
