(* ===== verification/Runtime_Steps.thy ===== *)
theory Runtime_Steps
  imports Cutover_Theorems Restart
begin

text \<open>
  The whole public interface of \<^verbatim>\<open>failover_fabric.hpp\<close> as steps of any number of threads. A call
  that holds the mutex once is one step; \<open>execute_plan\<close> and \<open>execute_failback\<close> hold it several
  times and are one step per locked region; \<open>load\<close> replaces most of the state. Whatever calls
  are made, and however their regions interleave, the state of the fabric moves by these steps.
\<close>

section \<open>Steps\<close>

text \<open>Every call other than \<open>load\<close>.\<close>

inductive region_step :: "FabricState \<Rightarrow> FabricState \<Rightarrow> bool" where
  rg_call: "api_step s s' \<Longrightarrow> region_step s s'"
| rg_begin: "region_step s (fst (begin_attempt p s))"
| rg_txn: "region_step s (record_txn m tx rt s)"
| rg_fence: "region_step s (fst (after_fence fo tx s))"
| rg_activate: "region_step s (fst (after_activate ao tx s))"
| rg_route: "region_step s (fst (after_route ro re tx s))"
| rg_commit: "region_step s (fst (commit vo now tx s))"
| rg_settle: "region_step s (settle_failback k now r s)"

text \<open>Every call.\<close>

inductive runtime_step :: "FabricState \<Rightarrow> FabricState \<Rightarrow> bool" where
  rs_region: "region_step s s' \<Longrightarrow> runtime_step s s'"
| rs_load: "ff_load io ord fs path s = Inr s' \<Longrightarrow> runtime_step s s'"

text \<open>What other threads may do while an attempt has released the mutex.\<close>

definition region_interference :: "'w CutoverEnv \<Rightarrow> bool" where
  "region_interference env \<longleftrightarrow> (\<forall>\<sigma>. region_step\<^sup>*\<^sup>* (snd \<sigma>) (snd (env_yield env \<sigma>)))"

definition runtime_interference :: "'w CutoverEnv \<Rightarrow> bool" where
  "runtime_interference env \<longleftrightarrow> (\<forall>\<sigma>. runtime_step\<^sup>*\<^sup>* (snd \<sigma>) (snd (env_yield env \<sigma>)))"

lemma region_runtime: "region_step\<^sup>*\<^sup>* s s' \<Longrightarrow> runtime_step\<^sup>*\<^sup>* s s'"
  by (rule rtranclp_mono [THEN predicate2D]) (auto intro: rs_region)

lemma api_regions: "api_step\<^sup>*\<^sup>* s s' \<Longrightarrow> region_step\<^sup>*\<^sup>* s s'"
  by (rule rtranclp_mono [THEN predicate2D]) (auto intro: rg_call)

lemma interference_levels:
  "api_interference env \<Longrightarrow> region_interference env" "region_interference env \<Longrightarrow> runtime_interference env"
  by (simp_all add: api_interference_def region_interference_def runtime_interference_def api_regions region_runtime
      del: split_paired_All)

lemma ok_env_interference: "region_interference ok_env" "runtime_interference ok_env"
  using serial_env_api [of ok_env] by (simp_all add: interference_levels)

section \<open>Attempts and failbacks are sequences of steps\<close>

text \<open>Planning for a failback only takes a snapshot, and its outcome is settled in a region of its own.\<close>

locale failback_invariant = cutover_invariant_all env P
  for env :: "'w CutoverEnv" and P :: "FabricState \<Rightarrow> bool" +
  assumes keep_plan: "P s \<Longrightarrow> P (fst (plan_failover_pref s k pref))"
    and keep_settle: "P s \<Longrightarrow> P (settle_failback k now r s)"
begin

lemma execute_failback_keeps:
  assumes "P (snd \<sigma>)"
  shows "P (snd (fst (execute_failback env k \<sigma>)))"
proof -
  let ?y = "env_yield env"
  let ?\<sigma>2 = "?y (?y \<sigma>)"
  have 1: "P (snd (?y \<sigma>))" and 2: "P (snd ?\<sigma>2)" using assms keep_yield by blast+
  show ?thesis
  proof (cases "fs_preferred (snd (?y \<sigma>)) k")
    case None
    then show ?thesis using 1 2 by (simp add: execute_failback_def Let_def)
  next
    case (Some t)
    obtain s3 pr where plan: "plan_failover_pref (snd ?\<sigma>2) k (Some t) = (s3, pr)" by fastforce
    have 3: "P (snd (?y (fst ?\<sigma>2, s3)))" using keep_plan [OF 2, of k "Some t"] plan by (intro keep_yield) simp
    have 4: "P (snd (fst (execute_plan env p (?y (fst ?\<sigma>2, s3)))))" for p by (rule execute_plan_keeps [OF 3])
    have 5: "P (snd (?y (w, settle_failback k now r s)))" if "P s" for w now r s
      using keep_settle [OF that] by (intro keep_yield) simp
    show ?thesis
      using 1 3 4 5 Some plan
      by (auto simp: execute_failback_def Let_def split: sum.split option.split prod.split) (metis fst_conv snd_conv)+
  qed
qed

end

lemma plan_region: "region_step\<^sup>*\<^sup>* s (fst (plan_failover_pref s k pref))"
  by (auto simp: plan_failover_pref_def Let_def split: option.split sum.split
      intro!: r_into_rtranclp rg_call st_snapshot dest: snapshot_locked_state)

lemma plan_runtime: "runtime_step\<^sup>*\<^sup>* s (fst (plan_failover_pref s k pref))"
  by (rule region_runtime) (rule plan_region)

lemma region_failback_invariant: "region_interference env \<Longrightarrow> failback_invariant env (region_step\<^sup>*\<^sup>* s)"
proof unfold_locales
  show "region_step\<^sup>*\<^sup>* s t \<Longrightarrow> commit vo now tx t = (t', Inl x) \<Longrightarrow> region_step\<^sup>*\<^sup>* s t'" for t vo now tx t' x
    using rg_commit [of t vo now tx] by (metis fst_conv rtranclp.rtrancl_into_rtrancl)
qed (auto simp: region_interference_def simp del: split_paired_All
    intro: rtranclp.rtrancl_into_rtrancl region_step.intros rtranclp_trans plan_region)

lemma runtime_failback_invariant: "runtime_interference env \<Longrightarrow> failback_invariant env (runtime_step\<^sup>*\<^sup>* s)"
proof unfold_locales
  show "runtime_step\<^sup>*\<^sup>* s t \<Longrightarrow> commit vo now tx t = (t', Inl x) \<Longrightarrow> runtime_step\<^sup>*\<^sup>* s t'" for t vo now tx t' x
    using rs_region [OF rg_commit [of t vo now tx]] by (metis fst_conv rtranclp.rtrancl_into_rtrancl)
qed (auto simp: runtime_interference_def simp del: split_paired_All
    intro: rtranclp.rtrancl_into_rtrancl rs_region region_step.intros rtranclp_trans plan_runtime)

interpretation serial_regions: failback_invariant "serial_env env" "region_step\<^sup>*\<^sup>* s"
  by (rule region_failback_invariant) (simp add: interference_levels)

lemma attempt_runs:
  assumes "runtime_interference env"
  shows "runtime_step\<^sup>*\<^sup>* (snd \<sigma>) (snd (fst (execute_plan env p \<sigma>)))"
    and "runtime_step\<^sup>*\<^sup>* (snd \<sigma>) (snd (fst (execute_failback env k \<sigma>)))"
proof -
  show "runtime_step\<^sup>*\<^sup>* (snd \<sigma>) (snd (fst (execute_failback env k \<sigma>)))"
    by (rule failback_invariant.execute_failback_keeps [OF runtime_failback_invariant [OF assms]]) simp
  have "cutover_invariant_all env (runtime_step\<^sup>*\<^sup>* (snd \<sigma>))"
    using runtime_failback_invariant [OF assms] by (rule failback_invariant.axioms(1))
  then show "runtime_step\<^sup>*\<^sup>* (snd \<sigma>) (snd (fst (execute_plan env p \<sigma>)))"
    by (rule cutover_invariant_all.execute_plan_keeps) simp
qed

section \<open>What every step keeps\<close>

lemma wf_settle: "wf_fabric s \<Longrightarrow> wf_fabric (settle_failback k now r s)"
  by (simp add: settle_failback_def wf_fabric_defs)

lemma wf_region_step: "region_step s s' \<Longrightarrow> wf_fabric s \<Longrightarrow> wf_fabric s'"
  by (induction rule: region_step.induct)
    (simp_all add: wf_api_step wf_begin_attempt wf_after_fence wf_after_activate wf_after_route wf_commit wf_settle)

lemma wf_runtime_step: "runtime_step s s' \<Longrightarrow> wf_fabric s \<Longrightarrow> wf_fabric s'"
proof (induction rule: runtime_step.induct)
  case (rs_load io ord fs path s s')
  then have "wf_tracker (fs_requests s)" by (simp add: wf_fabric_def wf_stores_def)
  with rs_load show ?case by (blast intro: wf_ff_load)
qed (rule wf_region_step)

lemma wf_runtime_steps: "runtime_step\<^sup>*\<^sup>* s s' \<Longrightarrow> wf_fabric s \<Longrightarrow> wf_fabric s'"
  by (induction rule: rtranclp_induct) (auto intro: wf_runtime_step)

lemma region_step_fenced: "region_step s s' \<Longrightarrow> b \<in> set (fs_fenced_boots s) \<Longrightarrow> b \<in> set (fs_fenced_boots s')"
  by (induction rule: region_step.induct) (simp_all add: fenced_regions api_step_fenced)

lemma region_steps_fenced: "region_step\<^sup>*\<^sup>* s s' \<Longrightarrow> b \<in> set (fs_fenced_boots s) \<Longrightarrow> b \<in> set (fs_fenced_boots s')"
  by (induction rule: rtranclp_induct) (auto intro: region_step_fenced)

section \<open>Properties\<close>

text \<open>
  C15. The representation invariant holds throughout. Every state that a fabric reaches from the
  empty one by calls of its whole public interface is well formed: the operations that hold the
  mutex once, the locked regions of any number of failover attempts and failbacks in any
  interleaving, and \<open>load\<close> of any file that decodes. A whole \<open>execute_plan\<close> or \<open>execute_failback\<close>,
  completed or not, with other threads making any of these calls whenever it releases the
  mutex, is a sequence of such steps, so it ends in a reachable, well-formed state too. In
  particular no index ever points outside its vector or at another key.
\<close>

theorem invariant_throughout:
  assumes "runtime_step\<^sup>*\<^sup>* (init_fabric cfg) s" and "runtime_interference env"
  shows "wf_fabric s \<and>
    runtime_step\<^sup>*\<^sup>* s (snd (fst (execute_plan env p (w, s)))) \<and> wf_fabric (snd (fst (execute_plan env p (w, s)))) \<and>
    runtime_step\<^sup>*\<^sup>* s (snd (fst (execute_failback env k (w, s)))) \<and> wf_fabric (snd (fst (execute_failback env k (w, s))))"
proof -
  have "wf_fabric s" using wf_runtime_steps [OF assms(1)] by simp
  moreover have "runtime_step\<^sup>*\<^sup>* s (snd (fst (execute_plan env p (w, s))))"
    "runtime_step\<^sup>*\<^sup>* s (snd (fst (execute_failback env k (w, s))))"
    using attempt_runs [OF assms(2), of "(w, s)"] by simp_all
  ultimately show ?thesis using wf_runtime_steps by blast
qed

text \<open>A fabric that has taken calls and loaded a file.\<close>

theorem invariant_throughout_witness:
  "\<exists>s. runtime_step\<^sup>*\<^sup>* (init_fabric default_RuntimeConfig) s \<and>
     fs_services s = ps_services example_durable \<and> wf_fabric s \<and>
     wf_fabric (snd (fst (execute_plan ok_env example_plan (0, s)))) \<and>
     wf_fabric (snd (fst (execute_failback ok_env example_slot (0, s))))"
proof (rule example_blob)
  fix blob assume b: "decode LeftToRight blob = Inr example_durable"
  let ?s1 = "set_gateway_boot (init_fabric default_RuntimeConfig) (Id 7)" and ?s2 = "load_snapshot
    (set_gateway_boot (init_fabric default_RuntimeConfig) (Id 7)) example_durable"
  have "runtime_step (init_fabric default_RuntimeConfig) ?s1" by (intro rs_region rg_call st_gateway)
  moreover have "runtime_step ?s1 ?s2"
    by (rule rs_load [of ReadComplete LeftToRight "[''state'' \<mapsto> blob]" "''state''"]) (simp add: ff_load_def load_file_def b)
  ultimately have r: "runtime_step\<^sup>*\<^sup>* (init_fabric default_RuntimeConfig) ?s2" by simp
  then show ?thesis
    using invariant_throughout [OF r ok_env_interference(2), of example_plan 0 example_slot]
    by (intro exI [of _ ?s2]) simp
qed



section \<open>Supersession\<close>

lemma wf_runtime_invariant:
  assumes "runtime_interference env"
  shows "cutover_invariant env wf_fabric"
proof unfold_locales
  show "wf_fabric s \<Longrightarrow> commit vo now tx s = (s', Inl x) \<Longrightarrow> wf_fabric s'" for s vo now tx s' x
    using wf_commit by (metis fst_conv)
  show "wf_fabric (snd \<sigma>) \<Longrightarrow> wf_fabric (snd (env_yield env \<sigma>))" for \<sigma>
    using assms wf_runtime_steps unfolding runtime_interference_def by blast
qed (simp_all add: wf_begin_attempt wf_after_fence wf_after_activate wf_after_route)

text \<open>What a commit leaves in its slot: the replacement, and before it the assignment the attempt saw.\<close>

lemma commit_slot:
  assumes "commit vo now tx s = (s', Inr r)" and "wf_fabric s" and "tx_old tx = Some old"
  shows "\<exists>st \<in> set (fs_slots s'). ss_slot st = tx_slot tx \<and> ss_current st = ar_committed_assignment r \<and>
    ss_history st \<noteq> [] \<and> asg_state (last (ss_history st)) = AssignmentState.FENCED \<and>
    asg_id (last (ss_history st)) = asg_id old \<and> asg_generation (last (ss_history st)) = asg_generation old"
proof -
  obtain s1 n where pos: "commit_position s (tx_slot tx) = (s1, n)" by fastforce
  have n: "n < length (fs_slots s1)" "ss_slot (fs_slots s1 ! n) = tx_slot tx"
    using commit_position_wf [OF assms(2) pos] by auto
  define st where "st = fs_slots s1 ! n"
  have ns: "\<not> superseded (Some old) st"
    using assms(1,3) pos by (auto simp: commit_def finish_def Let_def st_def split: if_splits)
  have s': "fs_slots s' = (fs_slots s1)[n := st\<lparr>ss_history := ss_history st @ fenced_predecessor (Some old) st,
      ss_current := ar_committed_assignment r\<rparr>]"
    using assms(1,3) pos
    by (auto simp: commit_def finish_def Let_def st_def push_attempt_def add_fenced_boot_def split: if_splits)
  obtain prev where prev: "fenced_predecessor (Some old) st = [prev]" "asg_state prev = AssignmentState.FENCED"
    "asg_id prev = asg_id old" "asg_generation prev = asg_generation old"
    using ns by (cases "ss_current st") (auto simp: fenced_predecessor_def superseded_def)
  let ?st' = "st\<lparr>ss_history := ss_history st @ [prev], ss_current := ar_committed_assignment r\<rparr>"
  have "?st' \<in> set (fs_slots s')" unfolding s' prev(1) using n(1) by (rule set_update_memI)
  then show ?thesis using n(2) prev by (intro bexI [of _ ?st']) (simp_all add: st_def)
qed



section \<open>Failback\<close>

lemma failback_gate_closed:
  assumes "\<not> failback_permitted s (env_now env w) (env_now env w) k"
  shows "execute_failback (serial_env env) k (w, s) =
    ((w, s), Inr (failed_result (''failback not authorized: '' @
       fbd_reason (evaluate_failback s (env_now env w) (env_now env w) k))))"
  using assms failback_authorized_iff [of s "env_now env w" "env_now env w" k]
  by (simp add: execute_failback_def Let_def)

lemma completed_failback_settles:
  assumes "execute_failback (serial_env env) k (w, s) = ((w', s'), Inr r)" and "ar_state r = AttemptState.COMPLETED"
  shows "fs_failback_attempts s' k = Some 0"
  using assms
  by (auto simp: execute_failback_def Let_def failed_result_def settle_failback_def
      split: if_splits option.splits prod.splits sum.splits)

text \<open>An operator's authorization is recorded for good: no region of an attempt or of a failback touches it.\<close>

lemma authorized_regions:
  "fs_manual_failback_authorized (fst (begin_attempt p s)) = fs_manual_failback_authorized s"
  "fs_manual_failback_authorized (record_txn m tx rt s) = fs_manual_failback_authorized s"
  "fs_manual_failback_authorized (fst (after_fence fo tx s)) = fs_manual_failback_authorized s"
  "fs_manual_failback_authorized (fst (after_activate ao tx s)) = fs_manual_failback_authorized s"
  "fs_manual_failback_authorized (fst (after_route ro re tx s)) = fs_manual_failback_authorized s"
  "fs_manual_failback_authorized (fst (commit vo now tx s)) = fs_manual_failback_authorized s"
  "fs_manual_failback_authorized (settle_failback k now r s) = fs_manual_failback_authorized s"
proof -
  show "fs_manual_failback_authorized (fst (begin_attempt p s)) = fs_manual_failback_authorized s"
    unfolding begin_attempt_def Let_def
    by (auto simp: finish_def push_attempt_def split: sum.split option.split prod.split dest: snapshot_locked_state)
qed (auto simp: record_txn_def after_fence_def after_activate_def after_route_def commit_def commit_position_def
    finish_def push_attempt_def add_fenced_boot_def settle_failback_def Let_def split: option.split)

interpretation serial_authorizations: failback_invariant "serial_env env" "\<lambda>s. fs_manual_failback_authorized s = v"
proof unfold_locales
  show "fs_manual_failback_authorized s' = v"
    if "fs_manual_failback_authorized s = v" "commit vo now tx s = (s', Inl x)" for s vo now tx s' x
    using that authorized_regions(6) by (metis fst_conv)
  show "fs_manual_failback_authorized (fst (plan_failover_pref s k pref)) = v"
    if "fs_manual_failback_authorized s = v" for s k pref
    using that plan_failover_pref_state [of s k pref] by auto
qed (simp_all add: authorized_regions)

text \<open>
  C18. A failback runs only under its gate. The gate is open exactly when the slot's service is
  registered and the slot is served away from its preferred target; the policy is
  \<open>RETURN_AFTER_VALIDATION\<close>, or it is \<open>MANUAL\<close> and the slot has been authorized at some time (an
  authorization counts under no other policy, and it is not used up by an attempt, although
  \<^verbatim>\<open>failover_fabric.hpp\<close> speaks of authorizing one attempt); the preferred target is registered with
  fresh, ready facts; the cooldown since the last transition has passed, and so has a non-zero
  hysteresis window since the target became ready (a clock behind the recorded time counts as
  passed); and the attempt budget is not used up. Without interference a closed gate leaves the
  fabric and the outside world exactly as they were, a failback that completes was permitted and
  resets the budget, and no failback, completed or not, takes an authorization back.
\<close>

theorem failback_only_when_permitted:
  "(fbd_authorized (evaluate_failback s now now' k) \<longleftrightarrow> failback_permitted s now now' k) \<and>
   (\<not> failback_permitted s (env_now env w) (env_now env w) k \<longrightarrow>
      fst (execute_failback (serial_env env) k (w, s)) = (w, s)) \<and>
   (execute_failback (serial_env env) k (w, s) = ((w', s'), Inr r) \<longrightarrow> ar_state r = AttemptState.COMPLETED \<longrightarrow>
      failback_permitted s (env_now env w) (env_now env w) k \<and> fs_failback_attempts s' k = Some 0) \<and>
   fs_manual_failback_authorized (snd (fst (execute_failback (serial_env env) k (w, s)))) = fs_manual_failback_authorized s"
proof (intro conjI impI)
  assume ex: "execute_failback (serial_env env) k (w, s) = ((w', s'), Inr r)"
    and st: "ar_state r = AttemptState.COMPLETED"
  show "failback_permitted s (env_now env w) (env_now env w) k"
  proof (rule ccontr)
    assume "\<not> failback_permitted s (env_now env w) (env_now env w) k"
    from failback_gate_closed [OF this] ex have "ar_state r = AttemptState.FAILED"
      by (auto simp: failed_result_def)
    with st show False by simp
  qed
  show "fs_failback_attempts s' k = Some 0" by (rule completed_failback_settles [OF ex st])
next
  show "fs_manual_failback_authorized (snd (fst (execute_failback (serial_env env) k (w, s)))) = fs_manual_failback_authorized s"
    by (rule serial_authorizations.execute_failback_keeps) simp
qed (simp_all add: failback_authorized_iff failback_gate_closed)

theorem failback_only_when_permitted_witness:
  "\<not> fbd_authorized (evaluate_failback example_fabric 0 0 example_slot) \<and>
   fst (execute_failback ok_env example_slot (0, example_fabric)) = (0, example_fabric)"
proof -
  have n: "\<not> fbd_authorized (evaluate_failback example_fabric (env_now ok_env 0) (env_now ok_env 0) example_slot)"
    by code_simp
  have "env_now ok_env 0 = 0" by (simp add: ok_env_def)
  then show ?thesis
    using n failback_only_when_permitted [of example_fabric "env_now ok_env 0" "env_now ok_env 0" example_slot ok_env 0]
    by simp
qed

end
