(* ===== verification/Authority_Spec.thy ===== *)
theory Authority_Spec
  imports Runtime_Steps
begin

text \<open>
  What the runtime promises about authority, stated without its registries, attempts, routes or
  persistence: who holds each slot, which worker boots are barred, and how far the authority
  generations have come. Every operation of the public interface other than \<open>load\<close>, every failover
  attempt and every failback is a step of this specification, so what the specification
  guarantees holds of the runtime between two loads.
\<close>

section \<open>The specification\<close>

record Authority =
  au_holder :: "ServiceSlotKey \<Rightarrow> (TargetId \<times> WorkerBootId) option"
  au_barred :: "WorkerBootId set"
  au_newest :: ServiceAuthorityGeneration

text \<open>
  Bars are only added and the newest generation never falls. A free slot may be given to anyone.
  A held slot changes hands only under a greater generation and with its holder's boot barred,
  unless that boot is the null identity, which is never barred.
\<close>

inductive authority_step :: "Authority \<Rightarrow> Authority \<Rightarrow> bool" where
  au_stay: "au_barred a \<subseteq> B \<Longrightarrow> au_newest a \<le> g \<Longrightarrow> authority_step a (a\<lparr>au_barred := B, au_newest := g\<rparr>)"
| au_assign: "au_holder a k = None \<Longrightarrow> au_barred a \<subseteq> B \<Longrightarrow> au_newest a \<le> g \<Longrightarrow>
    authority_step a (a\<lparr>au_holder := (au_holder a)(k \<mapsto> h), au_barred := B, au_newest := g\<rparr>)"
| au_transfer: "au_holder a k = Some (t, b) \<Longrightarrow> b = id_null \<or> b \<in> B \<Longrightarrow> au_barred a \<subseteq> B \<Longrightarrow> au_newest a < g \<Longrightarrow>
    authority_step a (a\<lparr>au_holder := (au_holder a)(k \<mapsto> h), au_barred := B, au_newest := g\<rparr>)"

inductive_cases authority_stepE: "authority_step a a'"

text \<open>What a history of the specification guarantees about a slot that is held.\<close>

definition keeps_promises :: "ServiceSlotKey \<Rightarrow> Authority \<Rightarrow> Authority \<Rightarrow> bool" where
  "keeps_promises k a a' \<longleftrightarrow>
     au_barred a \<subseteq> au_barred a' \<and> au_newest a \<le> au_newest a' \<and>
     (au_holder a k \<noteq> None \<longrightarrow> au_holder a' k \<noteq> None) \<and>
     (\<forall>t b. au_holder a k = Some (t, b) \<longrightarrow> au_holder a' k \<noteq> Some (t, b) \<longrightarrow>
        au_newest a < au_newest a' \<and> (b = id_null \<or> b \<in> au_barred a'))"

lemma authority_step_promises: "authority_step a a' \<Longrightarrow> keeps_promises k a a'"
  by (induction rule: authority_step.induct) (auto simp: keeps_promises_def)

lemma keeps_promises_trans:
  assumes "keeps_promises k a b" and "keeps_promises k b c"
  shows "keeps_promises k a c"
proof -
  have "au_newest a < au_newest c \<and> (y = id_null \<or> y \<in> au_barred c)"
    if "au_holder a k = Some (t, y)" "au_holder c k \<noteq> Some (t, y)" for t y
  proof (cases "au_holder b k = Some (t, y)")
    case True
    then show ?thesis using assms that unfolding keeps_promises_def by (meson order_le_less_trans)
  next
    case False
    then show ?thesis using assms that unfolding keeps_promises_def by (meson less_le_trans subsetD)
  qed
  then show ?thesis using assms unfolding keeps_promises_def by (meson order_trans)
qed

lemma history_promises: "authority_step\<^sup>*\<^sup>* a a' \<Longrightarrow> keeps_promises k a a'"
proof (induction rule: rtranclp_induct)
  case base
  show ?case by (simp add: keeps_promises_def)
next
  case (step y z)
  then show ?case using authority_step_promises keeps_promises_trans by blast
qed

section \<open>The runtime implements it\<close>

definition authority_of :: "FabricState \<Rightarrow> Authority" where
  "authority_of s =
     \<lparr>au_holder = (\<lambda>k. map_option (\<lambda>a. (asg_target a, asg_worker_boot a)) (current_assignment s k)),
      au_barred = set (fs_fenced_boots s), au_newest = fs_last_authority_gen s\<rparr>"

text \<open>
  One operation of the runtime other than \<open>load\<close>, run to its end before the next one starts: a
  call that holds the mutex once, a failover attempt over the adapter, or a failback.
\<close>

inductive fabric_op :: "'w CutoverEnv \<Rightarrow> FabricState \<Rightarrow> FabricState \<Rightarrow> bool" for env where
  op_call: "api_step s s' \<Longrightarrow> fabric_op env s s'"
| op_failover: "execute_plan (serial_env env) p (w, s) = ((w', s'), res) \<Longrightarrow> fabric_op env s s'"
| op_failback: "execute_failback (serial_env env) k (w, s) = ((w', s'), res) \<Longrightarrow> fabric_op env s s'"

text \<open>These operations are sequences of the steps of \<open>Runtime_Steps\<close>.\<close>

lemma fabric_op_regions: "fabric_op env s s' \<Longrightarrow> region_step\<^sup>*\<^sup>* s s'"
proof (induction rule: fabric_op.induct)
  case (op_failover p w s w' s' res)
  then show ?case using serial_regions.execute_plan_keeps [of s "(w, s)" env p] by simp
next
  case (op_failback k w s w' s' res)
  then show ?case using serial_regions.execute_failback_keeps [of s "(w, s)" env k] by simp
qed (auto intro: rg_call)

lemma fabric_ops_regions: "(fabric_op env)\<^sup>*\<^sup>* s s' \<Longrightarrow> region_step\<^sup>*\<^sup>* s s'"
  by (induction rule: rtranclp_induct) (auto dest: fabric_op_regions)

lemma same_authority:
  assumes "current_assignment s' = current_assignment s" and "fs_last_authority_gen s' = fs_last_authority_gen s"
    and "set (fs_fenced_boots s) \<subseteq> set (fs_fenced_boots s')"
  shows "authority_step (authority_of s) (authority_of s')"
  using au_stay [of "authority_of s" "set (fs_fenced_boots s')" "fs_last_authority_gen s"] assms
  by (simp add: authority_of_def)

lemma handed_over:
  assumes "current_assignment s' = (current_assignment s)(k \<mapsto> new)"
    and "set (fs_fenced_boots s) \<subseteq> set (fs_fenced_boots s')" and "fs_last_authority_gen s < fs_last_authority_gen s'"
    and "\<And>old. current_assignment s k = Some old \<Longrightarrow>
      asg_worker_boot old = id_null \<or> asg_worker_boot old \<in> set (fs_fenced_boots s')"
  shows "authority_step (authority_of s) (authority_of s')"
proof -
  let ?h = "(asg_target new, asg_worker_boot new)"
  have eq: "authority_of s' = (authority_of s)\<lparr>au_holder := (au_holder (authority_of s))(k \<mapsto> ?h),
      au_barred := set (fs_fenced_boots s'), au_newest := fs_last_authority_gen s'\<rparr>"
    using assms(1) by (auto simp: authority_of_def fun_eq_iff)
  show ?thesis
  proof (cases "current_assignment s k")
    case None
    then show ?thesis unfolding eq
      by (intro au_assign) (use assms(2,3) in \<open>simp_all add: authority_of_def\<close>)
  next
    case (Some old)
    then show ?thesis unfolding eq
      by (intro au_transfer [of _ _ "asg_target old" "asg_worker_boot old"])
        (use assms(2-4) in \<open>simp_all add: authority_of_def\<close>)
  qed
qed

lemma upd_target_authority [simp, frame_simps]: "fs_last_authority_gen (upd_target s t f) = fs_last_authority_gen s"
  by (simp add: upd_target_def split: option.split)

lemma api_step_slots:
  assumes "api_step s s'" and "\<And>now a. set_initial_assignment s now a \<noteq> Inr s'"
  shows "fs_slots s' = fs_slots s \<and> fs_slot_index s' = fs_slot_index s \<and> fs_last_authority_gen s' = fs_last_authority_gen s"
  using assms
proof (induction rule: api_step.induct)
  case (st_facts s now f s')
  then show ?case by (auto simp: publish_candidate_facts_def Let_def split: option.splits if_splits)
next
  case (st_late s i auth)
  then show ?case by (simp add: ff_classify_late_result_def split_beta)
next
  case (st_snapshot s k s' snap)
  then show ?case by (auto dest: snapshot_locked_state)
qed (auto simp: set_coordinator_identity_def set_gateway_boot_def create_service_def ff_declare_domain_def
    ff_set_membership_def register_target_def publish_candidate_state_def publish_candidate_resources_def
    publish_failure_def Let_def clear_failure_def authorize_failback_def set_checkpoint_path_def
    set_cutover_barrier_def clear_cutover_barrier_def record_request_def mark_outcome_unknown_def
    record_dispatch_def install_route_def bind_route_gateway_def mark_routes_revalidation_def split_beta
    split: if_splits option.split)

lemma initial_assignment_step:
  assumes "wf_fabric s" and "set_initial_assignment s now a = Inr s'"
  shows "authority_step (authority_of s) (authority_of s')"
proof -
  have free: "current_assignment s (asg_slot a) = None"
    and cur: "current_assignment s' = (current_assignment s)(asg_slot a \<mapsto> initial_assignment s a)"
    using initial_assignment_exclusive [OF assms(1), of a now] assms(2) by (auto simp: fun_eq_iff)
  have "fs_last_authority_gen s' = fs_last_authority_gen s" "fs_fenced_boots s' = fs_fenced_boots s"
    using assms(2) by (auto simp: set_initial_assignment_def Let_def split: if_splits)
  with cur have "authority_of s' = (authority_of s)\<lparr>au_holder := (au_holder (authority_of s))(asg_slot a \<mapsto>
      (asg_target (initial_assignment s a), asg_worker_boot (initial_assignment s a))),
      au_barred := au_barred (authority_of s), au_newest := au_newest (authority_of s)\<rparr>"
    by (auto simp: authority_of_def fun_eq_iff)
  moreover have "au_holder (authority_of s) (asg_slot a) = None" using free by (simp add: authority_of_def)
  ultimately show ?thesis by (metis au_assign order_refl)
qed

lemma call_refines:
  assumes "api_step s s'" and "wf_fabric s"
  shows "authority_step (authority_of s) (authority_of s')"
proof (cases "\<exists>now a. set_initial_assignment s now a = Inr s'")
  case True
  then show ?thesis using initial_assignment_step [OF assms(2)] by blast
next
  case False
  then have "current_assignment s' = current_assignment s" "fs_last_authority_gen s' = fs_last_authority_gen s"
    using api_step_slots [OF assms(1)] by (auto simp: current_assignment_def find_slot_def fun_eq_iff)
  then show ?thesis by (rule same_authority) (simp add: api_step_fenced [OF assms(1)])
qed

text \<open>A commit: on a slot the index knows the holder changes, otherwise only the generation moves.\<close>

lemma commit_current:
  assumes "commit vo now tx s = (s', Inr r)" and "wf_slots s"
  shows "fs_last_authority_gen s' = asg_authority_generation (tx_new tx) \<and>
    (current_assignment s' = (current_assignment s)(tx_slot tx \<mapsto> committed tx) \<or>
     current_assignment s (tx_slot tx) = None \<and> current_assignment s' = current_assignment s)"
proof (cases "fs_slot_index s (tx_slot tx)")
  case (Some n)
  from commit_Inr_indexed [OF assms(1) Some]
  have "find_slot s' k = (if k = tx_slot tx then Some ((fs_slots s ! n)\<lparr>ss_history := ss_history (fs_slots s ! n) @
      fenced_predecessor (tx_old tx) (fs_slots s ! n), ss_current := Some (committed tx)\<rparr>) else find_slot s k)" for k
    by (intro find_slot_update [OF assms(2) Some]) (simp_all add: push_attempt_def)
  then show ?thesis
    using commit_Inr_indexed [OF assms(1) Some] by (auto simp: current_assignment_def fun_eq_iff push_attempt_def)
next
  case None
  then have "fs_slot_index s' = fs_slot_index s" "fs_last_authority_gen s' = asg_authority_generation (tx_new tx)"
    "\<And>n. n < length (fs_slots s) \<Longrightarrow> fs_slots s' ! n = fs_slots s ! n"
    using assms(1)
    by (auto simp: commit_def commit_position_def finish_def push_attempt_def add_fenced_boot_def Let_def nth_append
        split: if_splits option.splits)
  moreover have "n < length (fs_slots s)" if "fs_slot_index s k = Some n" for k n
    using assms(2) that by (simp add: wf_slots_def)
  ultimately show ?thesis
    using None by (auto simp: current_assignment_def find_slot_def fun_eq_iff split: option.splits)
qed

lemma failover_refines:
  assumes "execute_plan (serial_env env) p (w, s) = ((w', s'), res)" and "wf_fabric s"
  shows "authority_step (authority_of s) (authority_of s')"
proof -
  have bars: "set (fs_fenced_boots s) \<subseteq> set (fs_fenced_boots s')"
    using serial_fences.execute_plan_keeps [of _ "(w, s)" env p] assms(1) by auto
  show ?thesis
  proof (cases "\<exists>r. res = Inr r \<and> ar_state r = AttemptState.COMPLETED")
    case True
    then obtain tx vo now sc r where tx: "admitted p s tx" "authority_view sc = authority_view s"
      "commit vo now tx sc = (s', Inr r)" using serial_completed assms(1) by metis
    have sc: "current_assignment sc = current_assignment s" "wf_slots sc" "fs_last_authority_gen sc = fs_last_authority_gen s"
      using tx(2) assms(2) by (auto simp: authority_view_def current_assignment_def find_slot_def fun_eq_iff wf_fabric_def wf_slots_def)
    have gen: "fs_last_authority_gen s < asg_authority_generation (tx_new tx)" and slot: "tx_slot tx = fp_slot p"
      and old: "tx_old tx = current_assignment s (fp_slot p)" using tx(1) by (auto simp: admitted_def)
    have fenced: "asg_worker_boot o' = id_null \<or> asg_worker_boot o' \<in> set (fs_fenced_boots s')"
      if "current_assignment s (fp_slot p) = Some o'" for o'
      using commit_fences_old [OF tx(3)] old that by auto
    from commit_current [OF tx(3) sc(2)] show ?thesis
      unfolding sc slot
    proof (elim conjE disjE)
      assume g: "fs_last_authority_gen s' = asg_authority_generation (tx_new tx)"
      show ?thesis if "current_assignment s' = (current_assignment s)(fp_slot p \<mapsto> committed tx)"
        using handed_over [OF that bars _ fenced] gen g by simp
      show ?thesis if "current_assignment s' = current_assignment s"
        using au_stay [of "authority_of s" "set (fs_fenced_boots s')" "fs_last_authority_gen s'"] that bars gen g
        by (simp add: authority_of_def)
    qed
  next
    case False
    then obtain x where "run_attempt (serial_env env) p (w, s) = ((w', s'), Inl x)"
      using execute_plan_incomplete [OF assms(1)] by metis
    then have "authority_view s' = authority_view s"
      using serial_authority.exit_keeps_run_attempt unfolding exit_keeps_def by (metis snd_conv)
    then show ?thesis
      by (intro same_authority bars) (auto simp: authority_view_def current_assignment_def find_slot_def fun_eq_iff)
  qed
qed

text \<open>A failback that runs an attempt plans before it and settles after it, without touching authority.\<close>

lemma authority_of_same:
  assumes "fs_slots s' = fs_slots s" and "fs_slot_index s' = fs_slot_index s"
    and "fs_fenced_boots s' = fs_fenced_boots s" and "fs_last_authority_gen s' = fs_last_authority_gen s"
  shows "authority_of s' = authority_of s"
  using assms by (auto simp: authority_of_def current_assignment_def find_slot_def fun_eq_iff)

lemma plan_authority: "authority_of (fst (plan_failover_pref s k pref)) = authority_of s"
proof -
  obtain g where "fst (plan_failover_pref s k pref) = s\<lparr>fs_snapshot_counter := g\<rparr>"
    using plan_failover_pref_state by blast
  then show ?thesis by (intro authority_of_same) simp_all
qed

lemma settle_authority: "authority_of (settle_failback k now r s) = authority_of s"
  by (rule authority_of_same) (simp_all add: settle_failback_def)

lemma wf_plan: "wf_fabric s \<Longrightarrow> wf_fabric (fst (plan_failover_pref s k pref))"
  using wf_runtime_steps [OF plan_runtime] .

lemma authority_step_refl: "authority_step a a"
  using au_stay [of a "au_barred a" "au_newest a"] by simp

text \<open>The states in which a failback without interference can end.\<close>

lemma serial_failback_ends:
  assumes "execute_failback (serial_env env) k (w, s) = ((w', s'), res)"
  obtains "s' = s"
  | t where "s' = fst (plan_failover_pref s k (Some t))"
  | t p w4 s4 r where "execute_plan (serial_env env) p (w, fst (plan_failover_pref s k (Some t))) = ((w4, s4), r)"
      "s' = s4 \<or> (\<exists>now r'. s' = settle_failback k now r' s4)"
proof (cases "fbd_authorized (evaluate_failback s (env_now env w) (env_now env w) k)")
  case auth: True
  show ?thesis
  proof (cases "fs_preferred s k")
    case None
    then show ?thesis using assms auth that(1) by (simp add: execute_failback_def Let_def)
  next
    case (Some t)
    obtain s3 pr where plan: "plan_failover_pref s k (Some t) = (s3, pr)" by fastforce
    show ?thesis
    proof (cases "\<exists>p. pr = Inr (Some p) \<and> fp_selected p \<noteq> None")
      case False
      then have "s' = s3"
        using assms auth Some plan by (auto simp: execute_failback_def Let_def split: sum.splits option.splits)
      then show ?thesis using that(2) [of t] plan by simp
    next
      case True
      then obtain p where p: "pr = Inr (Some p)" "fp_selected p \<noteq> None" by blast
      obtain w4 s4 r where run: "execute_plan (serial_env env) p (w, s3) = ((w4, s4), r)" by (metis surj_pair)
      have "s' = s4 \<or> (\<exists>now r'. s' = settle_failback k now r' s4)"
        using assms auth Some plan p run by (cases r) (auto simp: execute_failback_def Let_def)
      then show ?thesis using that(3) [of p t w4 s4 r] run plan by simp
    qed
  qed
qed (use assms that(1) in \<open>simp add: execute_failback_def Let_def\<close>)

lemma failback_refines:
  assumes "execute_failback (serial_env env) k (w, s) = ((w', s'), res)" and "wf_fabric s"
  shows "authority_step (authority_of s) (authority_of s')"
  using assms(1)
proof (cases rule: serial_failback_ends)
  case (3 t p w4 s4 r)
  have "authority_step (authority_of (fst (plan_failover_pref s k (Some t)))) (authority_of s4)"
    by (rule failover_refines [OF 3(1) wf_plan [OF assms(2)]])
  then show ?thesis using 3(2) by (auto simp: plan_authority settle_authority)
qed (simp_all add: plan_authority authority_step_refl)

lemma wf_fabric_op: "fabric_op env s s' \<Longrightarrow> wf_fabric s \<Longrightarrow> wf_fabric s'"
  using wf_runtime_steps region_runtime fabric_op_regions by metis

lemma fabric_op_refines: "fabric_op env s s' \<Longrightarrow> wf_fabric s \<Longrightarrow> authority_step (authority_of s) (authority_of s')"
  by (induction rule: fabric_op.induct) (auto intro: call_refines failover_refines failback_refines)

lemma fabric_ops_refine:
  assumes "(fabric_op env)\<^sup>*\<^sup>* s s'" and "wf_fabric s"
  shows "authority_step\<^sup>*\<^sup>* (authority_of s) (authority_of s') \<and> wf_fabric s'"
  using assms
proof (induction rule: rtranclp_induct)
  case (step y z)
  then show ?case using fabric_op_refines wf_fabric_op by (meson rtranclp.rtrancl_into_rtrancl)
qed simp

text \<open>
  C3. The runtime implements the authority specification between two loads. Every sequence of
  operations other than \<open>load\<close> from a well-formed state, calls, failover attempts and failbacks,
  completed or not and each ended before the next starts, is a history of the specification, in
  which a held slot never becomes free and changes hands only under a strictly greater
  generation and with the holder's boot barred, unless that boot is null. So once the runtime
  shows a slot held by a target under a worker boot, it either still does at the end, or the
  authority generation has risen and that boot is fenced, or null (the null boot is never
  fenced).
\<close>

theorem runtime_refines_authority:
  assumes "(fabric_op env)\<^sup>*\<^sup>* s s'" and "wf_fabric s"
  shows "authority_step\<^sup>*\<^sup>* (authority_of s) (authority_of s') \<and>
    (\<forall>k old. current_assignment s k = Some old \<longrightarrow>
       (\<exists>new. current_assignment s' k = Some new \<and>
          (asg_target new = asg_target old \<and> asg_worker_boot new = asg_worker_boot old \<or>
           fs_last_authority_gen s < fs_last_authority_gen s' \<and>
           (asg_worker_boot old = id_null \<or> boot_fenced s' (asg_worker_boot old)))))"
proof (intro conjI allI impI)
  show hist: "authority_step\<^sup>*\<^sup>* (authority_of s) (authority_of s')" using fabric_ops_refine [OF assms] by blast
  fix k old
  assume old: "current_assignment s k = Some old"
  have "keeps_promises k (authority_of s) (authority_of s')" by (rule history_promises [OF hist])
  then have "current_assignment s' k \<noteq> None"
    "au_holder (authority_of s') k \<noteq> Some (asg_target old, asg_worker_boot old) \<Longrightarrow>
       fs_last_authority_gen s < fs_last_authority_gen s' \<and>
       (asg_worker_boot old = id_null \<or> boot_fenced s' (asg_worker_boot old))"
    using old by (auto simp: keeps_promises_def authority_of_def boot_fenced_def)
  then show "\<exists>new. current_assignment s' k = Some new \<and>
      (asg_target new = asg_target old \<and> asg_worker_boot new = asg_worker_boot old \<or>
       fs_last_authority_gen s < fs_last_authority_gen s' \<and>
       (asg_worker_boot old = id_null \<or> boot_fenced s' (asg_worker_boot old)))"
    by (auto simp: authority_of_def)
qed

lemma example_failover_op:
  obtains s' where "fabric_op ok_env example_fabric s'"
proof -
  obtain \<sigma>' r where "execute_plan ok_env example_plan (0, example_fabric) = (\<sigma>', Inr r)" by (rule example_completes)
  then have "execute_plan (serial_env ok_env) example_plan (0, example_fabric) = ((fst \<sigma>', snd \<sigma>'), Inr r)" by simp
  then show ?thesis by (rule that [OF op_failover])
qed

theorem runtime_refines_authority_witness:
  "\<exists>s' new. fabric_op ok_env example_fabric s' \<and> authority_step\<^sup>*\<^sup>* (authority_of example_fabric) (authority_of s') \<and>
     current_assignment s' example_slot = Some new"
proof (rule example_failover_op)
  fix s'
  assume op: "fabric_op ok_env example_fabric s'"
  then have ops: "(fabric_op ok_env)\<^sup>*\<^sup>* example_fabric s'" by (rule r_into_rtranclp)
  obtain old where "current_assignment example_fabric example_slot = Some old" using example_current by blast
  then show ?thesis using runtime_refines_authority [OF ops wf_example_fabric] op by blast
qed

end
