(* ===== verification/Capacity.thy ===== *)
theory Capacity
  imports Runtime_Steps
begin

text \<open>
  The limits of \<open>RuntimeConfig\<close> that the runtime enforces: the registered services, the
  registered targets, and the candidates of a snapshot. (The other limits are declared and
  never consulted, and \<open>load\<close> does not consult the limit on services.)
\<close>

text \<open>Targets are within their limit, and services within the greater of theirs and \<open>n\<close>.\<close>

definition within_capacity :: "RuntimeConfig \<Rightarrow> nat \<Rightarrow> FabricState \<Rightarrow> bool" where
  "within_capacity cfg n s \<longleftrightarrow> fs_cfg s = cfg \<and> length (fs_targets s) \<le> cfg_max_targets cfg \<and>
     length (fs_services s) \<le> max (cfg_max_services cfg) n"

text \<open>The regions of an attempt touch neither the registries nor the configuration.\<close>

definition registries :: "FabricState \<Rightarrow> ServiceDefinition list \<times> TargetRecord list \<times> RuntimeConfig" where
  "registries s = (fs_services s, fs_targets s, fs_cfg s)"

lemma registries_begin: "registries (fst (begin_attempt p s)) = registries s"
  unfolding begin_attempt_def Let_def
  by (auto simp: registries_def finish_def push_attempt_def split: sum.split option.split prod.split dest: snapshot_locked_state)

lemma registries_regions:
  "registries (record_txn m tx rt s) = registries s" "registries (fst (after_fence fo tx s)) = registries s"
  "registries (fst (after_activate ao tx s)) = registries s" "registries (fst (after_route ro re tx s)) = registries s"
  "registries (fst (commit vo now tx s)) = registries s" "registries (settle_failback k t r s) = registries s"
  by (auto simp: registries_def record_txn_def after_fence_def after_activate_def after_route_def commit_def
      commit_position_def finish_def push_attempt_def add_fenced_boot_def settle_failback_def Let_def
      split: option.split)

lemma upd_target_sizes [simp, frame_simps]:
  "length (fs_targets (upd_target s t f)) = length (fs_targets s)" "fs_services (upd_target s t f) = fs_services s"
  "fs_cfg (upd_target s t f) = fs_cfg s"
  by (simp_all add: upd_target_def split: option.split)

lemma slot_cfg [simp, frame_simps]: "fs_cfg (upd_slot s k g) = fs_cfg s" "fs_cfg (add_slot s k) = fs_cfg s"
  by (simp_all add: upd_slot_def add_slot_def split: option.split)

lemma within_capacity_api_step: "api_step s s' \<Longrightarrow> within_capacity cfg n s \<Longrightarrow> within_capacity cfg n s'"
proof (induction rule: api_step.induct)
  case (st_create s def s')
  then show ?case by (auto simp: within_capacity_def create_service_def split: if_splits option.splits)
next
  case (st_initial s now a s')
  then show ?case by (auto simp: within_capacity_def set_initial_assignment_def Let_def split: if_splits)
next
  case (st_facts s now f s')
  then show ?case
    by (auto simp: within_capacity_def publish_candidate_facts_def Let_def split: option.splits if_splits)
next
  case (st_late s i auth)
  then show ?case by (simp add: within_capacity_def ff_classify_late_result_def split_beta)
next
  case (st_snapshot s k s' snap)
  then show ?case by (auto simp: within_capacity_def dest: snapshot_locked_state)
qed (auto simp: within_capacity_def set_coordinator_identity_def set_gateway_boot_def
    ff_declare_domain_def ff_set_membership_def register_target_def publish_candidate_state_def
    publish_candidate_resources_def publish_failure_def Let_def clear_failure_def authorize_failback_def
    set_checkpoint_path_def set_cutover_barrier_def clear_cutover_barrier_def record_request_def
    mark_outcome_unknown_def record_dispatch_def install_route_def bind_route_gateway_def
    mark_routes_revalidation_def split_beta split: if_splits option.splits)

lemma registries_capacity: "registries s' = registries s \<Longrightarrow> within_capacity cfg n s' = within_capacity cfg n s"
  by (simp add: registries_def within_capacity_def)

lemma within_capacity_region: "region_step s s' \<Longrightarrow> within_capacity cfg n s \<Longrightarrow> within_capacity cfg n s'"
proof (induction rule: region_step.induct)
  case (rg_call s s')
  then show ?case by (rule within_capacity_api_step)
qed (use registries_capacity registries_begin registries_regions in metis)+

lemma within_capacity_regions: "region_step\<^sup>*\<^sup>* s s' \<Longrightarrow> within_capacity cfg n s \<Longrightarrow> within_capacity cfg n s'"
  by (induction rule: rtranclp_induct) (auto intro: within_capacity_region)

text \<open>\<open>load\<close> keeps the targets and takes the services of its file.\<close>

lemma load_assignments_cfg: "fs_cfg (foldl load_assignment s as) = fs_cfg s"
  by (induction as arbitrary: s) (simp_all add: load_assignment_def Let_def)

lemma load_snapshot_sizes:
  "length (fs_targets (load_snapshot s snap)) = length (fs_targets s)" "fs_cfg (load_snapshot s snap) = fs_cfg s"
  by (simp_all add: load_snapshot_def Let_def load_assignments_cfg)

lemma within_capacity_runtime:
  assumes "runtime_step\<^sup>*\<^sup>* (init_fabric cfg) s"
  shows "within_capacity cfg (length (fs_services s)) s"
  using assms
proof (induction rule: rtranclp_induct)
  case base
  show ?case by (simp add: within_capacity_def init_fabric_def)
next
  case (step y z)
  from step.hyps(2) show ?case
  proof (cases rule: runtime_step.cases)
    case rs_region
    then show ?thesis using within_capacity_region [OF _ step.IH] by (simp add: within_capacity_def)
  next
    case (rs_load io ord fs path)
    then obtain snap where "z = load_snapshot y snap" by (auto simp: ff_load_def exn_simps)
    then show ?thesis using step.IH load_snapshot_sizes [of y snap] by (simp add: within_capacity_def)
  qed
qed

lemma snapshot_bounded:
  assumes "snapshot_locked s k = Inr (s', snap)"
  shows "length (snap_candidates snap) \<le> cfg_max_candidates_per_snapshot (fs_cfg s)"
  using assms by (auto simp: snapshot_locked_def bindE_eq_Inr_iff)

text \<open>
  C21. The registries stay within their configured capacity. Whatever calls of the whole
  interface a runtime has taken, \<open>load\<close> and the locked regions of failover attempts and failbacks
  included, it holds at most \<open>max_targets\<close> targets, and no snapshot it takes has more than
  \<open>max_candidates_per_snapshot\<close> candidates. Services stay within \<open>max_services\<close> except through
  \<open>load\<close>, which takes over the services of its file without consulting the limit: from any
  state on, calls other than \<open>load\<close> never bring their number above the limit, or above what it
  was in that state if it was above the limit already. Without a \<open>load\<close> (from the empty
  fabric) that is \<open>max_services\<close>.
\<close>

theorem capacity_respected:
  assumes "runtime_step\<^sup>*\<^sup>* (init_fabric cfg) s0" and "region_step\<^sup>*\<^sup>* s0 s"
  shows "length (fs_targets s) \<le> cfg_max_targets cfg \<and>
    length (fs_services s) \<le> max (cfg_max_services cfg) (length (fs_services s0)) \<and>
    (case snapshot_locked s k of Inl _ \<Rightarrow> True
     | Inr (_, snap) \<Rightarrow> length (snap_candidates snap) \<le> cfg_max_candidates_per_snapshot cfg)"
  using within_capacity_regions [OF assms(2) within_capacity_runtime [OF assms(1)]] snapshot_bounded [of s k]
  by (auto simp: within_capacity_def split: sum.split)

text \<open>The example fabric, with its service and two targets, is reached by calls of the interface.\<close>

lemma example_fabric_reached: "region_step\<^sup>*\<^sup>* (init_fabric default_RuntimeConfig) example_fabric"
proof (cases example_setup)
  case (Inr s)
  then obtain s1 s2 s3 s4 s5 where steps:
      "create_service (set_coordinator_identity (init_fabric default_RuntimeConfig) (Id 1) 5)
         (default_ServiceDefinition\<lparr>sd_service := Id 1,
            sd_failback := FailbackPolicy.RETURN_AFTER_VALIDATION\<rparr>) = Inr s1"
      "register_target s1 (Id 10) ''a'' = Inr s2" "register_target s2 (Id 20) ''b'' = Inr s3"
      "publish_candidate_facts s3 0 (example_facts 10 40) = Inr s4"
      "publish_candidate_facts s4 0 (example_facts 20 41) = Inr s5"
      "set_initial_assignment s5 0 example_assignment = Inr s"
    unfolding example_setup_def bindE_eq_Inr_iff by blast
  note calls = st_identity [of "init_fabric default_RuntimeConfig" "Id 1" 5] st_create [OF steps(1)]
    st_register [OF steps(2)] st_register [OF steps(3)] st_facts [OF steps(4)] st_facts [OF steps(5)]
    st_initial [OF steps(6)] st_route [of s example_route "Id 7"]
  have "example_fabric = fst (install_route s example_route (Id 7))" unfolding example_fabric_def Inr by simp
  moreover have "api_step\<^sup>*\<^sup>* (init_fabric default_RuntimeConfig) (fst (install_route s example_route (Id 7)))"
    by (intro calls [THEN converse_rtranclp_into_rtranclp [of api_step]] rtranclp.rtrancl_refl)
  ultimately have "api_step\<^sup>*\<^sup>* (init_fabric default_RuntimeConfig) example_fabric" by simp
  then show ?thesis by (rule api_regions)
next
  case (Inl e)
  show ?thesis unfolding example_fabric_def Inl by simp
qed

theorem capacity_respected_witness:
  "region_step\<^sup>*\<^sup>* (init_fabric default_RuntimeConfig) example_fabric \<and>
   length (fs_services example_fabric) = 1 \<and> length (fs_targets example_fabric) = 2 \<and>
   length (fs_services example_fabric) \<le> cfg_max_services default_RuntimeConfig"
proof -
  have "length (fs_services example_fabric) = 1" "length (fs_targets example_fabric) = 2" by code_simp+
  moreover have "length (fs_services example_fabric) \<le> cfg_max_services default_RuntimeConfig"
    using capacity_respected [OF rtranclp.rtrancl_refl example_fabric_reached] by (simp add: init_fabric_def)
  ultimately show ?thesis using example_fabric_reached by blast
qed

end
