(* ===== verification/Gateway.thy ===== *)
theory Gateway
  imports Worker
begin

text \<open>
  The reference gateway process, \<^verbatim>\<open>gateway_main.cpp\<close>: the control connection that installs routes
  and runs verifications, and the handling of one client request, which asks the coordinator
  for the dispatch, asks the routed worker for the result and asks the coordinator again before
  it gives the result out. The exchanges over the sockets are arguments: \<open>rpc\<close> takes the frame
  sent to the coordinator to the frame received, and \<open>ask\<close> does the same for a worker's address.
  An exception leaves its thread and ends the process: it is an error of the result type.
\<close>

section \<open>State\<close>

text \<open>\<^verbatim>\<open>std::map\<close> as an association list in the order of its keys: insert or assign.\<close>

fun map_put :: "'k::linorder \<Rightarrow> 'v \<Rightarrow> ('k \<times> 'v) list \<Rightarrow> ('k \<times> 'v) list" where
  "map_put k v [] = [(k, v)]"
| "map_put k v ((k', v') # m) =
     (if k < k' then (k, v) # (k', v') # m else if k = k' then (k, v) # m else (k', v') # map_put k v m)"

lemma map_of_map_put: "sorted (map fst m) \<Longrightarrow> distinct (map fst m) \<Longrightarrow> map_of (map_put k v m) = (map_of m)(k \<mapsto> v)"
  by (induction m) (auto simp: fun_eq_iff)

lemma set_map_put: "fst ` set (map_put k v m) = insert k (fst ` set m)"
  by (induction k v m rule: map_put.induct) (simp_all add: insert_commute)

lemma map_put_sorted:
  "sorted (map fst m) \<Longrightarrow> distinct (map fst m) \<Longrightarrow> sorted (map fst (map_put k v m)) \<and> distinct (map fst (map_put k v m))"
proof (induction k v m rule: map_put.induct)
  case (2 k v k' v' m)
  have "set (map fst (map_put k v m)) = insert k (set (map fst m))" using set_map_put [of k v m] by simp
  then show ?case using 2 by (auto simp del: set_map)
qed simp

text \<open>A route with the byte of its state, which nothing checks.\<close>

record GatewayState =
  gw_routes :: "(u64 \<times> RouteEntry \<times> u8) list"
  gw_epoch :: u64

definition gateway_start :: GatewayState where
  "gateway_start = \<lparr>gw_routes = [], gw_epoch = 0\<rparr>"

section \<open>Asking a worker\<close>

text \<open>No connection, a frame that could not be sent, end of file, or a frame.\<close>

datatype WorkerReply = NoConnection | NotSent | NoResponse | Response Frame

type_synonym worker_call = "string \<Rightarrow> 16 word \<Rightarrow> Frame \<Rightarrow> WorkerReply"

definition compute_fields :: "RouteEntry \<Rightarrow> u64 \<Rightarrow> u64 \<Rightarrow> field_writer list" where
  "compute_fields route a b =
     [pw_u64 fid_input_a a, pw_u64 fid_input_b b, pw_u64 fid_boot (id_value (re_permitted_boot route)),
      pw_str fid_operation ''serve'']"

text \<open>The worker's answer: whether it is positive, and its payload.\<close>

definition read_result :: "Frame \<Rightarrow> (bool \<times> string) result" where
  "read_result f =
     bindE (payload_fields (fr_payload f)) (\<lambda>r.
     bindE (if pr_has r fid_ok then pr_bool r fid_ok else Inr False) (\<lambda>ok.
     if ok \<and> pr_has r fid_payload
     then bindE (pr_bytes r fid_payload) (\<lambda>bv. Inr (ok, map (\<lambda>w. char_of (unat w)) bv))
     else Inr (ok, [])))"

text \<open>The result, whether the worker answered positively, and whether it withheld its answer.\<close>

definition compute_on_worker :: "worker_call \<Rightarrow> u64 \<Rightarrow> RouteEntry \<Rightarrow> u64 \<Rightarrow> u64 \<Rightarrow> (string \<times> bool \<times> bool) result" where
  "compute_on_worker ask epoch route a b =
     (case parse_tcp_transport (re_transport route) of (_, host, port) \<Rightarrow>
      bindE (send_msg MsgType.VERIFY_SERVICE 1001 epoch (compute_fields route a b)) (\<lambda>f.
      case ask host port f of
        Response resp \<Rightarrow>
          (if fr_type resp = MsgType.EXECUTION_RESULT
           then bindE (read_result resp) (\<lambda>(ok, result). Inr (result, ok, False))
           else Inr ([], False, False))
      | NoResponse \<Rightarrow> Inr ([], False, True)
      | _ \<Rightarrow> Inr ([], False, False)))"

definition parity :: "bool \<Rightarrow> string \<Rightarrow> u64 \<Rightarrow> u64 \<Rightarrow> bool" where
  "parity wok result a b \<longleftrightarrow> wok \<and> result = decimal (unat (reference_result a b))"

definition payload_of :: "string \<Rightarrow> field_writer list" where
  "payload_of result = (if result = [] then [] else [pw_bytes fid_payload (map (\<lambda>c. of_nat (of_char c)) result)])"

section \<open>The control connection\<close>

definition gateway_hello :: "u8 \<Rightarrow> u64 \<Rightarrow> field_writer list" where
  "gateway_hello role boot = [pw_u8 fid_role role, pw_u64 fid_boot boot]"

definition gateway_install :: "Frame \<Rightarrow> GatewayState \<Rightarrow> (GatewayState \<times> Frame option) result" where
  "gateway_install f s =
     bindE (payload_fields (fr_payload f)) (\<lambda>r.
     bindE (decode_route_entry r) (\<lambda>(re, state).
     bindE (send_msg MsgType.ROUTE_ACK (fr_msg_id f) (fr_epoch f) [pw_bool fid_ok True]) (\<lambda>ack.
     Inr (s\<lparr>gw_routes := map_put (id_value (sk_slot (re_slot re))) (re, state) (gw_routes s)\<rparr>, Some ack))))"

definition gateway_verify :: "worker_call \<Rightarrow> Frame \<Rightarrow> GatewayState \<Rightarrow> (GatewayState \<times> Frame option) result" where
  "gateway_verify ask f s =
     bindE (payload_fields (fr_payload f)) (\<lambda>r.
     bindE (pr_u64 r fid_input_a) (\<lambda>a.
     bindE (pr_u64 r fid_input_b) (\<lambda>b.
     bindE (case gw_routes s of
              [] \<Rightarrow> Inr ([], False, False)
            | (_, route, _) # _ \<Rightarrow> compute_on_worker ask (gw_epoch s) route a b) (\<lambda>(result, wok, withheld).
     bindE (send_msg MsgType.VERIFY_SERVICE (fr_msg_id f) (fr_epoch f)
              (pw_bool fid_ok (parity wok result a b) # payload_of result)) (\<lambda>reply.
     Inr (s, Some reply))))))"

definition gateway_control :: "worker_call \<Rightarrow> Frame \<Rightarrow> GatewayState \<Rightarrow> (GatewayState \<times> Frame option) result" where
  "gateway_control ask f s =
     (let s1 = s\<lparr>gw_epoch := fr_epoch f\<rparr>
      in if fr_type f = MsgType.INSTALL_ROUTE then gateway_install f s1
         else if fr_type f = MsgType.VERIFY_SERVICE then gateway_verify ask f s1
         else Inr (s1, None))"

section \<open>A client request\<close>

record ClientRequest =
  cr_a :: u64
  cr_b :: u64
  cr_slot :: u64
  cr_service :: u64
  cr_idempotent :: bool
  cr_externally_effectful :: bool

definition client_request :: "Frame \<Rightarrow> ClientRequest result" where
  "client_request f =
     bindE (payload_fields (fr_payload f)) (\<lambda>r.
     bindE (opt_field pr_u64 r fid_input_a 0) (\<lambda>a.
     bindE (opt_field pr_u64 r fid_input_b 0) (\<lambda>b.
     bindE (opt_field pr_u64 r fid_slot 1) (\<lambda>slot.
     bindE (opt_field pr_u64 r fid_service 1) (\<lambda>service.
     bindE (opt_field pr_bool r fid_idempotent False) (\<lambda>idempotent.
     bindE (opt_field pr_bool r fid_externally_effectful False) (\<lambda>effectful.
     Inr \<lparr>cr_a = a, cr_b = b, cr_slot = slot, cr_service = service, cr_idempotent = idempotent,
          cr_externally_effectful = effectful\<rparr>)))))))"

definition authorize_fields :: "Frame \<Rightarrow> ClientRequest \<Rightarrow> field_writer list" where
  "authorize_fields f q =
     [pw_u64 fid_service (cr_service q), pw_u64 fid_slot (cr_slot q), pw_u64 fid_request_id (ucast (fr_msg_id f)),
      pw_bool fid_idempotent (cr_idempotent q), pw_bool fid_externally_effectful (cr_externally_effectful q)]"

text \<open>The authority the coordinator grants a dispatch.\<close>

record Grant =
  gr_epoch :: u64
  gr_epoch_id :: u64
  gr_epoch_boot :: u64
  gr_assignment :: u64
  gr_assignment_gen :: u64
  gr_route_gen :: u64
  gr_boot :: u64
  gr_incarnation :: u64

definition read_grant :: "Frame option \<Rightarrow> Grant option result" where
  "read_grant rr =
     (case rr of
        None \<Rightarrow> Inr None
      | Some rr \<Rightarrow>
          if fr_type rr \<noteq> MsgType.AUTHORIZE_REQUEST then Inr None
          else bindE (payload_fields (fr_payload rr)) (\<lambda>q.
               bindE (if pr_has q fid_ok then pr_bool q fid_ok else Inr False) (\<lambda>ok.
               if \<not> ok then Inr None
               else bindE (pr_u64 q fid_epoch) (\<lambda>epoch.
                    bindE (pr_u64 q fid_epoch_id) (\<lambda>epoch_id.
                    bindE (pr_u64 q fid_epoch_boot) (\<lambda>epoch_boot.
                    bindE (pr_u64 q fid_assignment_id) (\<lambda>asg.
                    bindE (pr_u64 q fid_assignment_gen) (\<lambda>asggen.
                    bindE (pr_u64 q fid_route_gen) (\<lambda>rgen.
                    bindE (pr_u64 q fid_boot) (\<lambda>boot.
                    bindE (pr_u64 q fid_incarnation) (\<lambda>inc.
                    Inr (Some \<lparr>gr_epoch = epoch, gr_epoch_id = epoch_id, gr_epoch_boot = epoch_boot,
                               gr_assignment = asg, gr_assignment_gen = asggen, gr_route_gen = rgen,
                               gr_boot = boot, gr_incarnation = inc\<rparr>))))))))))))"

definition result_query :: "Frame \<Rightarrow> ClientRequest \<Rightarrow> Grant \<Rightarrow> bool \<Rightarrow> field_writer list" where
  "result_query f q g withheld =
     [pw_u64 fid_service (cr_service q), pw_u64 fid_slot (cr_slot q),
      pw_u64 fid_epoch (gr_epoch g), pw_u64 fid_epoch_id (gr_epoch_id g), pw_u64 fid_epoch_boot (gr_epoch_boot g),
      pw_u64 fid_assignment_id (gr_assignment g), pw_u64 fid_assignment_gen (gr_assignment_gen g),
      pw_u64 fid_route_gen (gr_route_gen g), pw_u64 fid_boot (gr_boot g), pw_u64 fid_incarnation (gr_incarnation g),
      pw_u64 fid_request_id (ucast (fr_msg_id f)), pw_u64 fid_execution_id (ucast (fr_msg_id f)),
      pw_bool fid_withheld withheld]"

text \<open>Whether the coordinator accepts the result, and the detail it gives.\<close>

definition read_acceptance :: "Frame option \<Rightarrow> (bool \<times> string) result" where
  "read_acceptance rr =
     (case rr of
        None \<Rightarrow> Inr (False, [])
      | Some rr \<Rightarrow>
          if fr_type rr \<noteq> MsgType.AUTHORIZE_RESULT then Inr (False, [])
          else bindE (payload_fields (fr_payload rr)) (\<lambda>q.
               bindE (if pr_has q fid_ok then pr_bool q fid_ok else Inr False) (\<lambda>ok.
               bindE (opt_field pr_str q fid_detail []) (\<lambda>detail. Inr (ok, detail)))))"

text \<open>
  The threads of the gateway share the routes and the epoch: \<open>epoch n\<close> is the value the \<open>n\<close>-th
  read of \<^verbatim>\<open>g_epoch\<close> gives, and \<open>routes\<close> is what the table holds when it is looked up. Every
  reply starts with the detail that the writer was created with.
\<close>

definition client_reply :: "u64 \<Rightarrow> Frame \<Rightarrow> field_writer list \<Rightarrow> Frame result" where
  "client_reply epoch f ws =
     send_msg MsgType.EXECUTION_RESULT (fr_msg_id f) epoch (pw_str fid_detail ''unknown'' # ws)"

definition refuse_client :: "u64 \<Rightarrow> Frame \<Rightarrow> string \<Rightarrow> Frame result" where
  "refuse_client epoch f why = client_reply epoch f [pw_bool fid_ok False, pw_str fid_detail why]"

definition finish_client ::
    "(Frame \<Rightarrow> Frame option) \<Rightarrow> (nat \<Rightarrow> u64) \<Rightarrow> Frame \<Rightarrow> ClientRequest \<Rightarrow> Grant \<Rightarrow> string \<Rightarrow> bool \<Rightarrow> bool \<Rightarrow> Frame result" where
  "finish_client rpc epoch f q g result wok withheld =
     bindE (send_msg MsgType.AUTHORIZE_RESULT (fr_msg_id f) (epoch 3) (result_query f q g withheld)) (\<lambda>m.
     bindE (read_acceptance (rpc m)) (\<lambda>(res_ok, res_detail).
     let par = parity wok result (cr_a q) (cr_b q)
     in client_reply (epoch 4) f
          ([pw_bool fid_ok (res_ok \<and> par \<and> \<not> withheld), pw_bool fid_state par] @
           (if res_detail = [] then [] else [pw_str fid_detail res_detail]) @ payload_of result)))"

definition handle_client ::
    "(Frame \<Rightarrow> Frame option) \<Rightarrow> worker_call \<Rightarrow> (nat \<Rightarrow> u64) \<Rightarrow> (u64 \<times> RouteEntry \<times> u8) list \<Rightarrow> Frame \<Rightarrow> Frame result" where
  "handle_client rpc ask epoch routes f =
     bindE (client_request f) (\<lambda>q.
     bindE (send_msg MsgType.AUTHORIZE_REQUEST (fr_msg_id f) (epoch 0) (authorize_fields f q)) (\<lambda>m.
     bindE (read_grant (rpc m)) (\<lambda>g.
     case g of
       None \<Rightarrow> refuse_client (epoch 1) f ''dispatch not authorized''
     | Some g \<Rightarrow>
         (case map_of routes (cr_slot q) of
            None \<Rightarrow> refuse_client (epoch 1) f ''no route installed''
          | Some (route, _) \<Rightarrow>
              bindE (compute_on_worker ask (epoch 2) route (cr_a q) (cr_b q)) (\<lambda>(result, wok, withheld).
              finish_client rpc epoch f q g result wok withheld)))))"

section \<open>Properties\<close>

lemma client_reply_Inr:
  assumes "client_reply ep f (map put_field fl) = Inr r" and "list_all valid_field fl"
  shows "payload_fields (fr_payload r) = Inr (field_str fid_detail ''unknown'' # fl)"
proof -
  let ?fl = "field_str fid_detail ''unknown'' # fl"
  have "pw_str fid_detail ''unknown'' # map put_field fl = map put_field ?fl" by (simp add: writer_fields)
  then have "pw_finish (map put_field ?fl) = Inr (fr_payload r)"
    using assms(1) by (auto simp: client_reply_def send_msg_def exn_simps Let_def)
  moreover have "list_all valid_field ?fl" using assms(2) by (simp add: valid_field_def)
  ultimately show ?thesis by (rule finish_readable)
qed

lemma pw_seq_each: "pw_seq ws b = Inr b' \<Longrightarrow> w \<in> set ws \<Longrightarrow> \<exists>b1 b2. w b1 = Inr b2"
  by (induction ws arbitrary: b) (auto simp: exn_simps)

lemma sent_str_fits: "client_reply ep f ws = Inr r \<Longrightarrow> pw_str i v \<in> set ws \<Longrightarrow> length v \<le> 16777216"
  using pw_seq_each [of "pw_str fid_detail ''unknown'' # ws" "[]" _ "pw_str i v"]
  by (fastforce simp: client_reply_def send_msg_def pw_finish_def exn_simps Let_def pw_str_def split: if_splits)

lemma sent_bytes_fit: "client_reply ep f ws = Inr r \<Longrightarrow> pw_bytes i v \<in> set ws \<Longrightarrow> length v \<le> 16777216"
  using pw_seq_each [of "pw_str fid_detail ''unknown'' # ws" "[]" _ "pw_bytes i v"]
  by (fastforce simp: client_reply_def send_msg_def pw_finish_def exn_simps Let_def pw_bytes_def split: if_splits)

text \<open>The fields of a refusal and of a final answer.\<close>

lemma refuse_client_fields:
  assumes "refuse_client ep f why = Inr r"
  shows "payload_fields (fr_payload r) =
    Inr [field_str fid_detail ''unknown'', field_bool fid_ok False, field_str fid_detail why]"
proof -
  have w: "length why \<le> 16777216"
    using assms sent_str_fits [of ep f _ r fid_detail why] by (simp add: refuse_client_def)
  then have "client_reply ep f (map put_field [field_bool fid_ok False, field_str fid_detail why]) = Inr r"
    using assms by (simp add: refuse_client_def writer_fields)
  then show ?thesis using client_reply_Inr w by (fastforce simp: valid_field_def)
qed

lemma final_reply_fields:
  assumes "client_reply ep f ([pw_bool fid_ok ok, pw_bool fid_state st] @
      (if detail = [] then [] else [pw_str fid_detail detail]) @ payload_of result) = Inr r"
  shows "payload_fields (fr_payload r) = Inr ([field_str fid_detail ''unknown'', field_bool fid_ok ok, field_bool fid_state st] @
      (if detail = [] then [] else [field_str fid_detail detail]) @
      (if result = [] then [] else [field_bytes_of fid_payload (map (\<lambda>c. of_nat (of_char c)) result)]))"
proof -
  let ?fl = "[field_bool fid_ok ok, field_bool fid_state st] @
      (if detail = [] then [] else [field_str fid_detail detail]) @
      (if result = [] then [] else [field_bytes_of fid_payload (map (\<lambda>c. of_nat (of_char c)) result)])"
  have d: "length detail \<le> 16777216"
    using sent_str_fits [OF assms, of fid_detail detail] by (cases "detail = []") auto
  have p: "length result \<le> 16777216"
    using sent_bytes_fit [OF assms, of fid_payload "map (\<lambda>c. of_nat (of_char c)) result"]
    by (cases "result = []") (auto simp: payload_of_def)
  have "client_reply ep f (map put_field ?fl) = Inr r"
    using assms d p by (simp add: payload_of_def writer_fields split: if_splits)
  moreover have "list_all valid_field ?fl" using d p by (simp add: valid_field_def)
  ultimately show ?thesis using client_reply_Inr by fastforce
qed

lemma handle_client_cases:
  assumes "handle_client rpc ask epoch routes f = Inr r"
  obtains (refused) ep why where "refuse_client ep f why = Inr r"
    | (answered) q m g route st result wok withheld where "client_request f = Inr q"
      "send_msg MsgType.AUTHORIZE_REQUEST (fr_msg_id f) (epoch 0) (authorize_fields f q) = Inr m"
      "read_grant (rpc m) = Inr (Some g)" "map_of routes (cr_slot q) = Some (route, st)"
      "compute_on_worker ask (epoch 2) route (cr_a q) (cr_b q) = Inr (result, wok, withheld)"
      "finish_client rpc epoch f q g result wok withheld = Inr r"
proof -
  obtain q m g where q: "client_request f = Inr q"
    "send_msg MsgType.AUTHORIZE_REQUEST (fr_msg_id f) (epoch 0) (authorize_fields f q) = Inr m" "read_grant (rpc m) = Inr g"
    using assms by (auto simp: handle_client_def exn_simps)
  show thesis
  proof (cases g)
    case None
    then show thesis using assms q by (intro refused) (simp add: handle_client_def)
  next
    case (Some gr)
    then show thesis
    proof (cases "map_of routes (cr_slot q)")
      case None
      then show thesis using assms q Some by (intro refused) (simp add: handle_client_def)
    next
      case (Some e)
      then show thesis
        using assms q \<open>g = Some gr\<close> by (cases e) (auto simp: handle_client_def exn_simps intro: answered)
    qed
  qed
qed

lemma positive_reply_parts:
  assumes "handle_client rpc ask epoch routes f = Inr r" and "payload_fields (fr_payload r) = Inr fl"
    and "pr_bool fl fid_ok = Inr True"
  shows "\<exists>q m g route st m' detail. client_request f = Inr q \<and>
    send_msg MsgType.AUTHORIZE_REQUEST (fr_msg_id f) (epoch 0) (authorize_fields f q) = Inr m \<and>
    read_grant (rpc m) = Inr (Some g) \<and> map_of routes (cr_slot q) = Some (route, st) \<and>
    compute_on_worker ask (epoch 2) route (cr_a q) (cr_b q) =
      Inr (decimal (unat (reference_result (cr_a q) (cr_b q))), True, False) \<and>
    send_msg MsgType.AUTHORIZE_RESULT (fr_msg_id f) (epoch 3) (result_query f q g False) = Inr m' \<and>
    read_acceptance (rpc m') = Inr (True, detail) \<and>
    pr_bytes fl fid_payload = Inr (map (\<lambda>c. of_nat (of_char c)) (decimal (unat (reference_result (cr_a q) (cr_b q)))))"
proof -
  have no: "refuse_client ep f why \<noteq> Inr r" for ep why
    using refuse_client_fields [of ep f why r] assms(2,3) by (auto simp: pr_simps)
  obtain q m g route st result wok withheld where h: "client_request f = Inr q"
    "send_msg MsgType.AUTHORIZE_REQUEST (fr_msg_id f) (epoch 0) (authorize_fields f q) = Inr m"
    "read_grant (rpc m) = Inr (Some g)" "map_of routes (cr_slot q) = Some (route, st)"
    "compute_on_worker ask (epoch 2) route (cr_a q) (cr_b q) = Inr (result, wok, withheld)"
    "finish_client rpc epoch f q g result wok withheld = Inr r"
    using handle_client_cases [OF assms(1)] no by metis
  let ?par = "parity wok result (cr_a q) (cr_b q)"
  obtain m' res_ok detail where
    m': "send_msg MsgType.AUTHORIZE_RESULT (fr_msg_id f) (epoch 3) (result_query f q g withheld) = Inr m'"
    "read_acceptance (rpc m') = Inr (res_ok, detail)" and
    rep: "client_reply (epoch 4) f ([pw_bool fid_ok (res_ok \<and> ?par \<and> \<not> withheld), pw_bool fid_state ?par] @
      (if detail = [] then [] else [pw_str fid_detail detail]) @ payload_of result) = Inr r"
    using h(6) by (auto simp: finish_client_def exn_simps Let_def)
  note fields = final_reply_fields [OF rep]
  have "res_ok \<and> ?par \<and> \<not> withheld" using assms(2,3) fields by (auto simp: pr_simps)
  moreover have "decimal n \<noteq> []" for n by (subst decimal.simps) simp
  ultimately have ok: "res_ok" "wok" "\<not> withheld" "result = decimal (unat (reference_result (cr_a q) (cr_b q)))" "result \<noteq> []"
    by (auto simp: parity_def)
  have "pr_bytes fl fid_payload = Inr (map (\<lambda>c. of_nat (of_char c)) result)"
    using assms(2) fields ok(5) by (auto simp: pr_simps)
  then show ?thesis using h m' ok by auto
qed

text \<open>
  C28. A client is told that its request succeeded only when all of it is true: the coordinator
  granted the dispatch, the gateway holds a route for the slot, the worker at that route
  answered positively with exactly the reference result of the operands, and the coordinator,
  asked again with the granted authority, accepted the result. The payload given out is that
  result.
\<close>

theorem positive_reply_is_earned:
  assumes "handle_client rpc ask epoch routes f = Inr r" and "payload_fields (fr_payload r) = Inr fl"
    and "pr_bool fl fid_ok = Inr True"
  shows "\<exists>q m g route st m' detail. client_request f = Inr q \<and>
    send_msg MsgType.AUTHORIZE_REQUEST (fr_msg_id f) (epoch 0) (authorize_fields f q) = Inr m \<and>
    read_grant (rpc m) = Inr (Some g) \<and> map_of routes (cr_slot q) = Some (route, st) \<and>
    compute_on_worker ask (epoch 2) route (cr_a q) (cr_b q) =
      Inr (decimal (unat (reference_result (cr_a q) (cr_b q))), True, False) \<and>
    send_msg MsgType.AUTHORIZE_RESULT (fr_msg_id f) (epoch 3) (result_query f q g False) = Inr m' \<and>
    read_acceptance (rpc m') = Inr (True, detail) \<and>
    pr_bytes fl fid_payload = Inr (map (\<lambda>c. of_nat (of_char c)) (decimal (unat (reference_result (cr_a q) (cr_b q)))))"
  using assms by (rule positive_reply_parts)

text \<open>A coordinator that grants, a worker that answers, and the client's request.\<close>

definition frame_with :: "MsgType \<Rightarrow> Field list \<Rightarrow> Frame" where
  "frame_with t fl = default_Frame\<lparr>fr_type := t, fr_payload := concat (map field_bytes fl)\<rparr>"

lemma frame_with_fields:
  "list_all valid_field fl \<Longrightarrow> payload_fields (fr_payload (frame_with t fl)) = Inr fl" "fr_type (frame_with t fl) = t"
  by (simp_all add: frame_with_def payload_fields_Inr)

definition granting_rpc :: "Frame \<Rightarrow> Frame option" where
  "granting_rpc m = Some (
     if fr_type m = MsgType.AUTHORIZE_REQUEST
     then frame_with MsgType.AUTHORIZE_REQUEST
       [field_bool fid_ok True, field_u64 fid_epoch 1, field_u64 fid_epoch_id 1, field_u64 fid_epoch_boot 0,
        field_u64 fid_assignment_id 1, field_u64 fid_assignment_gen 1, field_u64 fid_route_gen 1,
        field_u64 fid_boot 1, field_u64 fid_incarnation 1]
     else frame_with MsgType.AUTHORIZE_RESULT [field_bool fid_ok True])"

definition example_result :: string where
  "example_result = decimal (unat (reference_result 7 11))"

definition answering_worker :: worker_call where
  "answering_worker _ _ _ = Response (frame_with MsgType.EXECUTION_RESULT
     [field_bool fid_ok True, field_bytes_of fid_payload (map (\<lambda>c. of_nat (of_char c)) example_result)])"

lemma example_result_small: "length example_result \<le> 20"
  unfolding example_result_def by (rule decimal_word_length)

lemma example_client: "client_request example_request =
    Inr \<lparr>cr_a = 7, cr_b = 11, cr_slot = 1, cr_service = 1, cr_idempotent = False, cr_externally_effectful = False\<rparr>"
proof -
  have "payload_fields (fr_payload example_request) =
      Inr [field_u64 fid_input_a 7, field_u64 fid_input_b 11, field_u64 fid_boot 1]"
    by (simp add: payload_fields_Inr example_request_def valid_field_def)
  then show ?thesis by (simp add: client_request_def opt_field_def pr_simps)
qed

lemma small_msg:
  "ws = map put_field fl \<Longrightarrow> list_all valid_field fl \<Longrightarrow> length (concat (map field_bytes fl)) \<le> 16777216 \<Longrightarrow>
     \<exists>m. send_msg t mid ep ws = Inr m \<and> fr_type m = t \<and> payload_fields (fr_payload m) = Inr fl"
  using reply_readable [of fl t mid ep] by metis

lemma example_computed:
  "compute_on_worker answering_worker ep default_RouteEntry 7 11 = Inr (example_result, True, False)"
proof -
  let ?p = "map (\<lambda>c. of_nat (of_char c)) example_result :: bytes"
  have "payload_fields (fr_payload (frame_with MsgType.EXECUTION_RESULT [field_bool fid_ok True, field_bytes_of fid_payload ?p]))
      = Inr [field_bool fid_ok True, field_bytes_of fid_payload ?p]"
    using example_result_small by (intro frame_with_fields) (simp add: valid_field_def)
  then have "read_result (frame_with MsgType.EXECUTION_RESULT [field_bool fid_ok True, field_bytes_of fid_payload ?p])
      = Inr (True, example_result)"
    by (simp add: read_result_def pr_simps comp_def)
  moreover have "\<exists>m. send_msg MsgType.VERIFY_SERVICE 1001 ep (compute_fields default_RouteEntry 7 11) = Inr m \<and>
      fr_type m = MsgType.VERIFY_SERVICE \<and> payload_fields (fr_payload m) = Inr
        [field_u64 fid_input_a 7, field_u64 fid_input_b 11, field_u64 fid_boot (id_value (re_permitted_boot default_RouteEntry)),
         field_str fid_operation ''serve'']"
    by (rule small_msg) (simp_all add: compute_fields_def writer_fields valid_field_def)
  ultimately show ?thesis
    by (auto simp: compute_on_worker_def answering_worker_def frame_with_fields(2) split: prod.split)
qed

lemma example_granted:
  "fr_type m = MsgType.AUTHORIZE_REQUEST \<Longrightarrow> read_grant (granting_rpc m) =
     Inr (Some \<lparr>gr_epoch = 1, gr_epoch_id = 1, gr_epoch_boot = 0, gr_assignment = 1, gr_assignment_gen = 1,
                gr_route_gen = 1, gr_boot = 1, gr_incarnation = 1\<rparr>)"
  "fr_type m = MsgType.AUTHORIZE_RESULT \<Longrightarrow> read_acceptance (granting_rpc m) = Inr (True, [])"
  by (simp_all add: read_grant_def read_acceptance_def granting_rpc_def frame_with_fields valid_field_def
      pr_simps opt_field_def)

definition example_query :: ClientRequest where
  "example_query = \<lparr>cr_a = 7, cr_b = 11, cr_slot = 1, cr_service = 1, cr_idempotent = False, cr_externally_effectful = False\<rparr>"

lemma served_when_authorized:
  assumes "\<And>m. fr_type m = MsgType.AUTHORIZE_REQUEST \<Longrightarrow> read_grant (rpc m) = Inr (Some g)"
    and "\<And>m. send_msg MsgType.AUTHORIZE_RESULT (fr_msg_id example_request) 1 (result_query example_request example_query g False) = Inr m \<Longrightarrow>
      read_acceptance (rpc m) = Inr (True, [])"
  shows "\<exists>r fl. handle_client rpc answering_worker (\<lambda>_. 1) [(1, default_RouteEntry, 0)] example_request = Inr r \<and>
     payload_fields (fr_payload r) = Inr fl \<and> pr_bool fl fid_ok = Inr True"
proof -
  let ?q = example_query and ?g = g
  let ?p = "map (\<lambda>c. of_nat (of_char c)) example_result :: bytes"
  have "\<exists>m. send_msg MsgType.AUTHORIZE_REQUEST (fr_msg_id example_request) 1 (authorize_fields example_request ?q) = Inr m \<and>
      fr_type m = MsgType.AUTHORIZE_REQUEST \<and> payload_fields (fr_payload m) = Inr [field_u64 fid_service 1, field_u64 fid_slot 1,
        field_u64 fid_request_id (ucast (fr_msg_id example_request)), field_bool fid_idempotent False,
        field_bool fid_externally_effectful False]"
    by (rule small_msg) (simp_all add: authorize_fields_def example_query_def writer_fields valid_field_def)
  then obtain m where m: "send_msg MsgType.AUTHORIZE_REQUEST (fr_msg_id example_request) 1 (authorize_fields example_request ?q) = Inr m"
    "fr_type m = MsgType.AUTHORIZE_REQUEST" by blast
  have "\<exists>m. send_msg MsgType.AUTHORIZE_RESULT (fr_msg_id example_request) 1 (result_query example_request ?q ?g False) = Inr m \<and>
      fr_type m = MsgType.AUTHORIZE_RESULT \<and> payload_fields (fr_payload m) = Inr [field_u64 fid_service 1, field_u64 fid_slot 1,
        field_u64 fid_epoch (gr_epoch g), field_u64 fid_epoch_id (gr_epoch_id g), field_u64 fid_epoch_boot (gr_epoch_boot g),
        field_u64 fid_assignment_id (gr_assignment g), field_u64 fid_assignment_gen (gr_assignment_gen g),
        field_u64 fid_route_gen (gr_route_gen g), field_u64 fid_boot (gr_boot g), field_u64 fid_incarnation (gr_incarnation g),
        field_u64 fid_request_id (ucast (fr_msg_id example_request)), field_u64 fid_execution_id (ucast (fr_msg_id example_request)),
        field_bool fid_withheld False]"
    by (rule small_msg) (simp_all add: result_query_def example_query_def writer_fields valid_field_def)
  then obtain m' where m': "send_msg MsgType.AUTHORIZE_RESULT (fr_msg_id example_request) 1
      (result_query example_request ?q ?g False) = Inr m'" "fr_type m' = MsgType.AUTHORIZE_RESULT" by blast
  have par: "parity True example_result 7 11" "example_result \<noteq> []"
    by (simp_all add: parity_def example_result_def) (subst decimal.simps, simp)
  have "\<exists>r. client_reply 1 example_request ([pw_bool fid_ok True, pw_bool fid_state True] @ [] @ payload_of example_result) = Inr r \<and>
      fr_type r = MsgType.EXECUTION_RESULT \<and> payload_fields (fr_payload r) = Inr [field_str fid_detail ''unknown'',
        field_bool fid_ok True, field_bool fid_state True, field_bytes_of fid_payload ?p]"
    unfolding client_reply_def
    by (rule small_msg) (use par(2) example_result_small in \<open>simp_all add: payload_of_def writer_fields valid_field_def\<close>)
  then obtain r where r: "client_reply 1 example_request ([pw_bool fid_ok True, pw_bool fid_state True] @ payload_of example_result) = Inr r"
    "payload_fields (fr_payload r) = Inr [field_str fid_detail ''unknown'',
        field_bool fid_ok True, field_bool fid_state True, field_bytes_of fid_payload ?p]" by auto
  have "finish_client rpc (\<lambda>_. 1) example_request ?q ?g example_result True False = Inr r"
    using m'(1) assms(2) [OF m'(1)] r(1) par by (simp add: finish_client_def Let_def example_query_def)
  then have "handle_client rpc answering_worker (\<lambda>_. 1) [(1, default_RouteEntry, 0)] example_request = Inr r"
    using m(1) assms(1) [OF m(2)] by (simp add: handle_client_def example_client example_computed example_query_def)
  then show ?thesis using r(2) by (auto simp: pr_simps)
qed

lemma example_served:
  "\<exists>r fl. handle_client granting_rpc answering_worker (\<lambda>_. 1) [(1, default_RouteEntry, 0)] example_request = Inr r \<and>
     payload_fields (fr_payload r) = Inr fl \<and> pr_bool fl fid_ok = Inr True"
proof (rule served_when_authorized)
  let ?m = "MsgType.AUTHORIZE_RESULT"
  show "read_acceptance (granting_rpc m) = Inr (True, [])"
    if "send_msg ?m (fr_msg_id example_request) 1 (result_query example_request example_query g False) = Inr m" for g m
    using that by (intro example_granted) (auto simp: send_msg_def exn_simps Let_def)
qed (rule example_granted)

theorem positive_reply_is_earned_witness:
  "\<exists>r fl q m g. handle_client granting_rpc answering_worker (\<lambda>_. 1) [(1, default_RouteEntry, 0)] example_request = Inr r \<and>
     payload_fields (fr_payload r) = Inr fl \<and> pr_bool fl fid_ok = Inr True \<and>
     client_request example_request = Inr q \<and> read_grant (granting_rpc m) = Inr (Some g)"
proof -
  obtain r fl where r: "handle_client granting_rpc answering_worker (\<lambda>_. 1) [(1, default_RouteEntry, 0)] example_request = Inr r"
    "payload_fields (fr_payload r) = Inr fl" "pr_bool fl fid_ok = Inr True" using example_served by blast
  from positive_reply_is_earned [OF r] r show ?thesis by blast
qed

text \<open>
  The reason of a refusal never reaches the client: whatever the gateway answers, reading
  the detail of its reply gives the placeholder written first, because a reader takes the first
  field of an identity and the reply carries the detail twice.
\<close>

theorem client_detail_masked:
  assumes "handle_client rpc ask epoch routes f = Inr r"
  shows "\<exists>fl. payload_fields (fr_payload r) = Inr fl \<and> pr_str fl fid_detail = Inr ''unknown''"
proof -
  have masked: ?thesis if "payload_fields (fr_payload r) = Inr (field_str fid_detail ''unknown'' # fl)" for fl
    using that pr_str_head by blast
  have refused: ?thesis if "refuse_client ep f why = Inr r" for ep why
    by (rule masked [OF refuse_client_fields [OF that]])
  have final: ?thesis if fin: "finish_client rpc epoch f q g result wok withheld = Inr r" for q g result wok withheld
  proof -
    let ?par = "parity wok result (cr_a q) (cr_b q)"
    obtain res_ok detail where
      "client_reply (epoch 4) f ([pw_bool fid_ok (res_ok \<and> ?par \<and> \<not> withheld), pw_bool fid_state ?par] @
        (if detail = [] then [] else [pw_str fid_detail detail]) @ payload_of result) = Inr r"
      using fin by (auto simp: finish_client_def exn_simps Let_def)
    from final_reply_fields [OF this, unfolded append_Cons] show ?thesis by (rule masked)
  qed
  show ?thesis using handle_client_cases [OF assms] refused final by metis
qed

theorem client_detail_masked_witness:
  "\<exists>r fl. handle_client granting_rpc answering_worker (\<lambda>_. 1) [(1, default_RouteEntry, 0)] example_request = Inr r \<and>
     payload_fields (fr_payload r) = Inr fl \<and> pr_str fl fid_detail = Inr ''unknown''"
  using example_served client_detail_masked by blast

end
