(* ===== verification/Coordinator.thy ===== *)
theory Coordinator
  imports Gateway Cutover_Theorems Restart
begin

text \<open>
  The reference coordinator process, \<^verbatim>\<open>coordinator_main.cpp\<close>: its peers, the cutover adapter that
  speaks to them (\<open>SocketOps\<close>), its start, and the handler of each message type. A handler runs
  on the reader thread of the connection the frame came from, so handlers of several connections
  interleave: after each call of the fabric, and after each request that waits for a peer, the
  platform's \<open>pf_yield\<close> is whatever the other handlers do. The connections, the file of a
  snapshot and the clock are arguments as well; a connection is named by its position among the
  accepted ones. An exception keeps the effects that precede it.
\<close>

section \<open>Peers\<close>

record Peer =
  pe_gen :: u64
  pe_role :: u8
  pe_target :: u64
  pe_boot :: u64
  pe_req_port :: "16 word"

text \<open>
  \<open>g_workers\<close> and \<open>g_gateways\<close> hold pointers to peers: here the positions of the connections.
  What lies behind the sockets is of type \<open>'n\<close>.
\<close>

record 'n CoordWorld =
  cw_peers :: "Peer list"
  cw_workers :: "(u64 \<times> nat) list"
  cw_gateways :: "(u64 \<times> nat) list"
  cw_stop :: bool
  cw_net :: 'n

definition worker_conn :: "'n CoordWorld \<Rightarrow> u64 \<Rightarrow> nat option" where
  "worker_conn w t = map_of (cw_workers w) t"

definition worker_req_port :: "'n CoordWorld \<Rightarrow> u64 \<Rightarrow> 16 word" where
  "worker_req_port w t =
     (case map_of (cw_workers w) t of None \<Rightarrow> 0 | Some c \<Rightarrow> pe_req_port (cw_peers w ! c))"

definition any_gateway_conn :: "'n CoordWorld \<Rightarrow> nat option" where
  "any_gateway_conn w = (case cw_gateways w of [] \<Rightarrow> None | (_, c) # _ \<Rightarrow> Some c)"

text \<open>
  The platform: whether a connection is alive, sending a frame on it, a request with its answer,
  writing a snapshot, the clock, the two conversions whose result C++ leaves open (an enumeration
  byte out of range, a \<^verbatim>\<open>double\<close> out of range), and the other threads.
\<close>

record 'n Platform =
  pf_alive :: "nat \<Rightarrow> 'n \<Rightarrow> bool"
  pf_send :: "nat \<Rightarrow> Frame \<Rightarrow> 'n \<Rightarrow> 'n"
  pf_request :: "nat \<Rightarrow> Frame \<Rightarrow> 'n \<Rightarrow> Frame option \<times> 'n"
  pf_save :: "string \<Rightarrow> PersistenceSnapshot \<Rightarrow> 'n \<Rightarrow> 'n \<times> unit result"
  pf_now :: "'n \<Rightarrow> int"
  pf_category :: "u8 \<Rightarrow> FailureCategory"
  pf_double_to_u64 :: "double \<Rightarrow> u64"
  pf_yield :: "'n CoordWorld \<times> FabricState \<Rightarrow> 'n CoordWorld \<times> FabricState"

section \<open>Sending and asking\<close>

text \<open>
  \<open>Conn::send\<close> and \<open>Conn::request\<close> with a payload that is already written: nothing happens on a
  dead connection, and a frame that is too large throws when it is encoded.
\<close>

definition conn_send :: "'n Platform \<Rightarrow> nat \<Rightarrow> Frame \<Rightarrow> 'n CoordWorld \<Rightarrow> unit result \<times> 'n CoordWorld" where
  "conn_send pf c f w =
     (if \<not> pf_alive pf c (cw_net w) then (Inr (), w)
      else case encode_frame f of
             Inl e \<Rightarrow> (Inl e, w)
           | Inr _ \<Rightarrow> (Inr (), w\<lparr>cw_net := pf_send pf c f (cw_net w)\<rparr>))"

definition conn_request :: "'n Platform \<Rightarrow> nat \<Rightarrow> Frame \<Rightarrow> 'n CoordWorld \<Rightarrow> Frame option result \<times> 'n CoordWorld" where
  "conn_request pf c f w =
     (if \<not> pf_alive pf c (cw_net w) then (Inr None, w)
      else case encode_frame f of
             Inl e \<Rightarrow> (Inl e, w)
           | Inr _ \<Rightarrow> (case pf_request pf c f (cw_net w) of (r, n) \<Rightarrow> (Inr r, w\<lparr>cw_net := n\<rparr>)))"

abbreviation mk_frame :: "MsgType \<Rightarrow> u32 \<Rightarrow> u64 \<Rightarrow> bytes \<Rightarrow> Frame" where
  "mk_frame t i ep p \<equiv> \<lparr>fr_type = t, fr_msg_id = i, fr_epoch = ep, fr_payload = p\<rparr>"

definition send_fields ::
    "'n Platform \<Rightarrow> nat \<Rightarrow> MsgType \<Rightarrow> u32 \<Rightarrow> u64 \<Rightarrow> field_writer list \<Rightarrow> 'n CoordWorld \<Rightarrow> unit result \<times> 'n CoordWorld" where
  "send_fields pf c t i ep ws w =
     (case pw_finish ws of Inl e \<Rightarrow> (Inl e, w) | Inr p \<Rightarrow> conn_send pf c (mk_frame t i ep p) w)"

definition request_fields ::
    "'n Platform \<Rightarrow> nat \<Rightarrow> MsgType \<Rightarrow> u32 \<Rightarrow> u64 \<Rightarrow> field_writer list \<Rightarrow> 'n CoordWorld \<Rightarrow> Frame option result \<times> 'n CoordWorld" where
  "request_fields pf c t i ep ws w =
     (case pw_finish ws of Inl e \<Rightarrow> (Inl e, w) | Inr p \<Rightarrow> conn_request pf c (mk_frame t i ep p) w)"

text \<open>The answer to a request of the adapter: of the expected type and with a true \<open>ok\<close>.\<close>

definition answered_ok :: "MsgType \<Rightarrow> Frame option \<Rightarrow> bool result" where
  "answered_ok t resp =
     (case resp of
        None \<Rightarrow> Inr False
      | Some f \<Rightarrow> if fr_type f = t
                 then bindE (payload_fields (fr_payload f)) (\<lambda>rr. opt_field pr_bool rr fid_ok False)
                 else Inr False)"

section \<open>The cutover adapter\<close>

text \<open>
  \<open>SocketOps\<close>. The epoch it stamps on its frames is read from the fabric, which sets it once
  before the first connection is accepted: it is an argument.
\<close>

definition socket_fence_old ::
    "'n Platform \<Rightarrow> u64 \<Rightarrow> Assignment \<Rightarrow> WorkerBootId \<Rightarrow> 'n CoordWorld \<Rightarrow> FenceOutcome result \<times> 'n CoordWorld" where
  "socket_fence_old pf ep old b w =
     (let fo = default_FenceOutcome\<lparr>fo_applied := True, fo_state := FenceState.ENFORCED,
                 fo_detail := ''old worker fenced''\<rparr>
      in case worker_conn w (id_value (asg_target old)) of
           None \<Rightarrow> (Inr fo, w)
         | Some c \<Rightarrow>
             if pf_alive pf c (cw_net w)
             then (case send_fields pf c MsgType.FENCE_ASSIGNMENT 9101 ep [pw_u64 fid_target (id_value (asg_target old))] w of
                     (Inl e, w') \<Rightarrow> (Inl e, w')
                   | (Inr _, w') \<Rightarrow> (Inr fo, w'))
             else (Inr fo, w))"

definition activate_fields :: "Candidate \<Rightarrow> field_writer list" where
  "activate_fields cand =
     [pw_u64 fid_target (id_value (cand_target cand)), pw_u64 fid_boot (id_value (cand_boot cand)),
      pw_u64 fid_incarnation (id_value (cf_engine_incarnation (cand_facts cand)))]"

definition activation_outcome :: "bool \<Rightarrow> ActivateOutcome" where
  "activation_outcome ok = \<lparr>ao_acknowledged = ok, ao_activation_note = [],
     ao_detail = (if ok then [] else ''no activation acknowledgment'')\<rparr>"

definition socket_activate ::
    "'n Platform \<Rightarrow> u64 \<Rightarrow> Candidate \<Rightarrow> WorkerAuthorization \<Rightarrow> ServiceAuthorityGeneration \<Rightarrow> 'n CoordWorld \<Rightarrow>
     ActivateOutcome result \<times> 'n CoordWorld" where
  "socket_activate pf ep cand auth g w =
     (case worker_conn w (id_value (cand_target cand)) of
        None \<Rightarrow> (Inr \<lparr>ao_acknowledged = False, ao_activation_note = [], ao_detail = ''worker not reachable''\<rparr>, w)
      | Some c \<Rightarrow>
          if \<not> pf_alive pf c (cw_net w)
          then (Inr \<lparr>ao_acknowledged = False, ao_activation_note = [], ao_detail = ''worker not reachable''\<rparr>, w)
          else (case request_fields pf c MsgType.ACTIVATE_TARGET 9102 ep (activate_fields cand) w of
                  (Inl e, w') \<Rightarrow> (Inl e, w')
                | (Inr resp, w') \<Rightarrow>
                    (bindE (answered_ok MsgType.ACTIVATE_RESULT resp) (\<lambda>ok. Inr (activation_outcome ok)), w')))"

definition route_outcome :: "bool \<Rightarrow> string \<Rightarrow> RouteOutcome" where
  "route_outcome ok why = \<lparr>ro_acknowledged = ok, ro_route = id_null, ro_generation = gen_null,
     ro_detail = (if ok then [] else why)\<rparr>"

definition socket_install_route ::
    "'n Platform \<Rightarrow> u64 \<Rightarrow> RouteEntry \<Rightarrow> GatewayBootId \<Rightarrow> 'n CoordWorld \<Rightarrow> RouteOutcome result \<times> 'n CoordWorld" where
  "socket_install_route pf ep e boot w =
     (case map_of (cw_gateways w) (id_value boot) of
        None \<Rightarrow> (Inr (route_outcome False ''gateway not reachable''), w)
      | Some c \<Rightarrow>
          if \<not> pf_alive pf c (cw_net w) then (Inr (route_outcome False ''gateway not reachable''), w)
          else (let re = e\<lparr>re_transport := tcp_transport (worker_req_port w (id_value (re_target e)))\<rparr>
                in case request_fields pf c MsgType.INSTALL_ROUTE 9103 ep (encode_route_entry re) w of
                     (Inl x, w') \<Rightarrow> (Inl x, w')
                   | (Inr resp, w') \<Rightarrow>
                       (bindE (answered_ok MsgType.ROUTE_ACK resp) (\<lambda>ok.
                        Inr (route_outcome ok ''no route acknowledgment'')), w')))"

definition read_verification :: "Frame option \<Rightarrow> VerifyOutcome result" where
  "read_verification resp =
     (let refused = \<lparr>vo_verified = False, vo_result = [], vo_ambiguous = False, vo_detail = ''verification rejected''\<rparr>
      in case resp of
           None \<Rightarrow> Inr refused
         | Some f \<Rightarrow>
             if fr_type f \<noteq> MsgType.VERIFY_SERVICE then Inr refused
             else bindE (payload_fields (fr_payload f)) (\<lambda>rr.
                  bindE (opt_field pr_bool rr fid_ok False) (\<lambda>ok.
                  if \<not> ok then Inr refused
                  else bindE (opt_field pr_bytes rr fid_payload []) (\<lambda>b.
                       Inr \<lparr>vo_verified = True, vo_result = map (\<lambda>x. char_of (unat x)) b,
                            vo_ambiguous = False, vo_detail = []\<rparr>))))"

definition socket_verify ::
    "'n Platform \<Rightarrow> u64 \<Rightarrow> RouteEntry \<Rightarrow> WorkerAuthorization \<Rightarrow> 'n CoordWorld \<Rightarrow> VerifyOutcome result \<times> 'n CoordWorld" where
  "socket_verify pf ep re auth w =
     (let unreachable = (Inr \<lparr>vo_verified = False, vo_result = [], vo_ambiguous = False,
                              vo_detail = ''gateway not reachable''\<rparr>, w)
      in case any_gateway_conn w of
           None \<Rightarrow> unreachable
         | Some c \<Rightarrow>
             if \<not> pf_alive pf c (cw_net w) then unreachable
             else (case request_fields pf c MsgType.VERIFY_SERVICE 9104 ep
                          [pw_u64 fid_input_a 7, pw_u64 fid_input_b 11, pw_str fid_operation ''verify''] w of
                     (Inl e, w') \<Rightarrow> (Inl e, w')
                   | (Inr resp, w') \<Rightarrow> (read_verification resp, w')))"

definition save_via :: "'n Platform \<Rightarrow> string \<Rightarrow> PersistenceSnapshot \<Rightarrow> 'n CoordWorld \<Rightarrow> 'n CoordWorld \<times> unit result" where
  "save_via pf path snap w = (case pf_save pf path snap (cw_net w) of (n, r) \<Rightarrow> (w\<lparr>cw_net := n\<rparr>, r))"

definition socket_ops :: "'n Platform \<Rightarrow> u64 \<Rightarrow> 'n CoordWorld CutoverEnv" where
  "socket_ops pf ep = \<lparr>env_fence_old = socket_fence_old pf ep, env_activate = socket_activate pf ep,
     env_install_route = socket_install_route pf ep, env_verify = socket_verify pf ep,
     env_save_file = save_via pf, env_now = (\<lambda>w. pf_now pf (cw_net w)), env_yield = pf_yield pf\<rparr>"

section \<open>Handlers\<close>

text \<open>
  A handler's body as a function of the process and the fabric: the result is an exception or a
  value, and the effects that precede an exception stay.
\<close>

type_synonym ('n, 'a) action = "'n CoordWorld \<times> FabricState \<Rightarrow> ('n CoordWorld \<times> FabricState) \<times> 'a result"

definition co_return :: "'a \<Rightarrow> ('n, 'a) action" where
  "co_return x \<sigma> = (\<sigma>, Inr x)"

definition co_lift :: "'a result \<Rightarrow> ('n, 'a) action" where
  "co_lift r \<sigma> = (\<sigma>, r)"

definition co_bind :: "('n, 'a) action \<Rightarrow> ('a \<Rightarrow> ('n, 'b) action) \<Rightarrow> ('n, 'b) action" where
  "co_bind m k \<sigma> = (case m \<sigma> of (\<sigma>', Inl e) \<Rightarrow> (\<sigma>', Inl e) | (\<sigma>', Inr x) \<Rightarrow> k x \<sigma>')"

definition co_catch :: "('n, 'a) action \<Rightarrow> (exn \<Rightarrow> ('n, 'a) action) \<Rightarrow> ('n, 'a) action" where
  "co_catch m h \<sigma> = (case m \<sigma> of (\<sigma>', Inl e) \<Rightarrow> h e \<sigma>' | (\<sigma>', Inr x) \<Rightarrow> (\<sigma>', Inr x))"

definition co_if :: "bool \<Rightarrow> ('n, unit) action \<Rightarrow> ('n, unit) action" where
  "co_if b m = (if b then m else co_return ())"

text \<open>Reading and writing the process's own tables.\<close>

definition co_look :: "('n CoordWorld \<Rightarrow> 'a) \<Rightarrow> ('n, 'a) action" where
  "co_look g \<sigma> = (\<sigma>, Inr (g (fst \<sigma>)))"

definition co_set :: "('n CoordWorld \<Rightarrow> 'n CoordWorld) \<Rightarrow> ('n, unit) action" where
  "co_set g \<sigma> = ((g (fst \<sigma>), snd \<sigma>), Inr ())"

definition co_peer :: "nat \<Rightarrow> (Peer \<Rightarrow> Peer) \<Rightarrow> ('n, unit) action" where
  "co_peer c g = co_set (\<lambda>w. w\<lparr>cw_peers := (cw_peers w)[c := g (cw_peers w ! c)]\<rparr>)"

text \<open>A call of the fabric, which holds its mutex; other threads run when it is released.\<close>

definition co_call :: "'n Platform \<Rightarrow> (FabricState \<Rightarrow> FabricState \<times> 'a result) \<Rightarrow> ('n, 'a) action" where
  "co_call pf g \<sigma> = (case g (snd \<sigma>) of (s', r) \<Rightarrow> (pf_yield pf (fst \<sigma>, s'), r))"

definition co_read :: "'n Platform \<Rightarrow> (FabricState \<Rightarrow> 'a) \<Rightarrow> ('n, 'a) action" where
  "co_read pf g = co_call pf (\<lambda>s. (s, Inr (g s)))"

definition co_update :: "'n Platform \<Rightarrow> (FabricState \<Rightarrow> FabricState) \<Rightarrow> ('n, unit) action" where
  "co_update pf g = co_call pf (\<lambda>s. (g s, Inr ()))"

definition co_try :: "'n Platform \<Rightarrow> (FabricState \<Rightarrow> FabricState result) \<Rightarrow> ('n, unit) action" where
  "co_try pf g = co_call pf (\<lambda>s. case g s of Inl e \<Rightarrow> (s, Inl e) | Inr s' \<Rightarrow> (s', Inr ()))"

text \<open>Sending, and asking a peer: the reader thread waits, and other handlers run meanwhile.\<close>

definition co_send :: "'n Platform \<Rightarrow> nat \<Rightarrow> MsgType \<Rightarrow> u32 \<Rightarrow> u64 \<Rightarrow> field_writer list \<Rightarrow> ('n, unit) action" where
  "co_send pf c t i ep ws \<sigma> = (case send_fields pf c t i ep ws (fst \<sigma>) of (r, w) \<Rightarrow> ((w, snd \<sigma>), r))"

definition co_ask :: "'n Platform \<Rightarrow> nat \<Rightarrow> MsgType \<Rightarrow> u32 \<Rightarrow> u64 \<Rightarrow> field_writer list \<Rightarrow> ('n, Frame option) action" where
  "co_ask pf c t i ep ws \<sigma> =
     (case request_fields pf c t i ep ws (fst \<sigma>) of (r, w) \<Rightarrow> (pf_yield pf (w, snd \<sigma>), r))"

abbreviation current_epoch :: "FabricState \<Rightarrow> u64" where
  "current_epoch s \<equiv> ep_epoch (fs_epoch s)"

text \<open>\<^verbatim>\<open>c && c->alive()\<close> for a connection that was looked up.\<close>

definition reachable_conn :: "'n Platform \<Rightarrow> 'n CoordWorld \<Rightarrow> nat option \<Rightarrow> nat option" where
  "reachable_conn pf w c = (case c of Some i \<Rightarrow> if pf_alive pf i (cw_net w) then Some i else None | None \<Rightarrow> None)"

text \<open>The answer goes to the peer the frame came from, under the frame's identifier and epoch.\<close>

definition respond :: "'n Platform \<Rightarrow> nat \<Rightarrow> Frame \<Rightarrow> MsgType \<Rightarrow> field_writer list \<Rightarrow> ('n, unit) action" where
  "respond pf c f t ws = co_send pf c t (fr_msg_id f) (fr_epoch f) ws"

definition respond_error :: "'n Platform \<Rightarrow> nat \<Rightarrow> Frame \<Rightarrow> exn \<Rightarrow> ('n, unit) action" where
  "respond_error pf c f e = respond pf c f MsgType.ERROR_MSG [pw_bool fid_ok False, pw_str fid_detail (what e)]"

abbreviation slot_one :: "u64 \<Rightarrow> ServiceSlotKey" where
  "slot_one sid \<equiv> SlotKey (Id sid) (Id 1)"

subsection \<open>HELLO\<close>

text \<open>Push the current route of one service to a gateway, with the transport of its worker if it is known.\<close>

definition push_route :: "'n Platform \<Rightarrow> nat \<Rightarrow> ServiceDefinition \<Rightarrow> ('n, unit) action" where
  "push_route pf c sv =
     (let sl = SlotKey (sd_service sv) (Id 1)
      in co_bind (co_read pf (\<lambda>s. ff_current_route s sl)) (\<lambda>rt.
         case rt of
           None \<Rightarrow> co_return ()
         | Some re \<Rightarrow>
             co_bind (co_look (\<lambda>w. case map_of (cw_workers w) (id_value (re_target re)) of
                                     None \<Rightarrow> re
                                   | Some p \<Rightarrow> re\<lparr>re_transport := tcp_transport (pe_req_port (cw_peers w ! p))\<rparr>)) (\<lambda>re'.
             co_bind (co_read pf current_epoch) (\<lambda>ep.
             co_bind (co_send pf c MsgType.INSTALL_ROUTE 2121 ep (encode_route_entry re')) (\<lambda>_.
             co_bind (co_look (\<lambda>w. pe_boot (cw_peers w ! c))) (\<lambda>b.
             co_update pf (\<lambda>s. fst (bind_route_gateway s sl (Id b)))))))))"

fun push_routes :: "'n Platform \<Rightarrow> nat \<Rightarrow> ServiceDefinition list \<Rightarrow> ('n, unit) action" where
  "push_routes pf c [] = co_return ()"
| "push_routes pf c (sv # svs) = co_bind (push_route pf c sv) (\<lambda>_. push_routes pf c svs)"

text \<open>A field of the peer that the greeting may carry.\<close>

definition hello_field ::
    "nat \<Rightarrow> Field list \<Rightarrow> u8 \<Rightarrow> (Field list \<Rightarrow> u8 \<Rightarrow> 'a result) \<Rightarrow> ('a \<Rightarrow> Peer \<Rightarrow> Peer) \<Rightarrow> ('n, unit) action" where
  "hello_field c r i get upd =
     co_if (pr_has r i) (co_bind (co_lift (get r i)) (\<lambda>v. co_peer c (upd v)))"

definition handle_hello :: "'n Platform \<Rightarrow> nat \<Rightarrow> Field list \<Rightarrow> ('n, unit) action" where
  "handle_hello pf c r =
     co_bind (hello_field c r fid_role pr_u8 (\<lambda>v p. p\<lparr>pe_role := v\<rparr>)) (\<lambda>_.
     co_bind (hello_field c r fid_target pr_u64 (\<lambda>v p. p\<lparr>pe_target := v\<rparr>)) (\<lambda>_.
     co_bind (hello_field c r fid_boot pr_u64 (\<lambda>v p. p\<lparr>pe_boot := v\<rparr>)) (\<lambda>_.
     co_bind (hello_field c r fid_req_port pr_u64 (\<lambda>v p. p\<lparr>pe_req_port := ucast v\<rparr>)) (\<lambda>_.
     co_bind (co_look (\<lambda>w. cw_peers w ! c)) (\<lambda>p.
     if pe_role p = kRoleWorker
     then co_set (\<lambda>w. w\<lparr>cw_workers := map_put (pe_target p) c (cw_workers w)\<rparr>)
     else if pe_role p = kRoleGateway
     then co_bind (co_set (\<lambda>w. w\<lparr>cw_gateways := map_put (pe_boot p) c (cw_gateways w)\<rparr>)) (\<lambda>_.
          co_bind (co_update pf (\<lambda>s. set_gateway_boot s (Id (pe_boot p)))) (\<lambda>_.
          co_bind (co_read pf fs_services) (push_routes pf c)))
     else co_return ())))))"

subsection \<open>PUBLISH_READINESS\<close>

record Readiness =
  rd_target :: u64
  rd_boot :: u64
  rd_ready :: bool
  rd_model :: string
  rd_abi :: string
  rd_capacity :: double

definition read_readiness :: "Field list \<Rightarrow> Readiness result" where
  "read_readiness r =
     bindE (pr_u64 r fid_target) (\<lambda>tgt.
     bindE (pr_u64 r fid_boot) (\<lambda>b.
     bindE (pr_bool r fid_ready) (\<lambda>ready.
     bindE (opt_field pr_str r fid_model ''ref-det-sequence-v1'') (\<lambda>model.
     bindE (opt_field pr_str r fid_abi ''ff-ref-v1'') (\<lambda>abi.
     bindE (opt_field pr_f64 r fid_capacity 0x3FF0000000000000) (\<lambda>cap.
     Inr \<lparr>rd_target = tgt, rd_boot = b, rd_ready = ready, rd_model = model, rd_abi = abi, rd_capacity = cap\<rparr>))))))"

definition readiness_facts :: "Readiness \<Rightarrow> CandidateFacts" where
  "readiness_facts d = default_CandidateFacts\<lparr>cf_target := Id (rd_target d), cf_target_generation := gen_first,
     cf_replica := Id (rd_target d), cf_engine := Id (rd_target d), cf_engine_incarnation := Id (rd_target d),
     cf_worker := Id (rd_target d), cf_worker_boot := Id (rd_boot d), cf_profile := Id 1,
     cf_model_key := rd_model d, cf_runtime_abi := rd_abi d, cf_ready := rd_ready d,
     cf_activation_eligible := rd_ready d, cf_evidence_fresh := True\<rparr>"

definition read_candidate_state :: "Field list \<Rightarrow> CandidateState result" where
  "read_candidate_state r =
     bindE (opt_field pr_bool r fid_state_avail False) (\<lambda>avail.
     bindE (opt_field (\<lambda>r i. bindE (pr_u64 r i) (\<lambda>v. Inr (Some (Gen v)))) r fid_checkpoint_gen None) (\<lambda>ckpt.
     bindE (opt_field pr_u64 r fid_committed_seq 0) (\<lambda>seq.
     bindE (opt_field pr_bool r fid_session_ok False) (\<lambda>session.
     bindE (opt_field pr_bool r fid_tenant_ok False) (\<lambda>tenant.
     bindE (opt_field pr_bool r fid_model_ok False) (\<lambda>model.
     bindE (opt_field pr_bool r fid_format_ok False) (\<lambda>format.
     bindE (opt_field pr_bool r fid_integrity_ok False) (\<lambda>integrity.
     bindE (opt_field pr_bool r fid_replay_safe False) (\<lambda>replay.
     Inr (default_CandidateState\<lparr>cs_state_available := avail, cs_checkpoint_generation := ckpt,
       cs_committed_sequence := seq, cs_correct_session := session, cs_correct_tenant := tenant,
       cs_correct_model_generation := model, cs_state_format_ok := format,
       cs_status_integrity_ok := integrity, cs_replay_safe := replay\<rparr>))))))))))"

definition cpu_resource :: "'n Platform \<Rightarrow> double \<Rightarrow> CandidateResource" where
  "cpu_resource pf cap = \<lparr>cres_resource_class = ''cpu'', cres_amount = cap, cres_capacity_generation = gen_first,
     cres_existing_claims = [], cres_has_conflicting_commitment = False, cres_reservation = None,
     cres_reservation_generation = gen_null, cres_resources_revoked = False, cres_unit = pf_double_to_u64 pf cap\<rparr>"

definition handle_readiness :: "'n Platform \<Rightarrow> nat \<Rightarrow> Field list \<Rightarrow> ('n, unit) action" where
  "handle_readiness pf c r =
     co_bind (co_lift (read_readiness r)) (\<lambda>d.
     co_bind (co_look (\<lambda>w. tcp_transport (pe_req_port (cw_peers w ! c)))) (\<lambda>transport.
     co_bind (co_try pf (\<lambda>s. register_target s (Id (rd_target d)) transport)) (\<lambda>_.
     co_bind (co_look (\<lambda>w. pf_now pf (cw_net w))) (\<lambda>now.
     co_bind (co_try pf (\<lambda>s. publish_candidate_facts s now (readiness_facts d))) (\<lambda>_.
     co_bind (co_lift (read_candidate_state r)) (\<lambda>cs.
     co_bind (co_try pf (\<lambda>s. publish_candidate_state s (Id (rd_target d)) cs)) (\<lambda>_.
     co_try pf (\<lambda>s. publish_candidate_resources s (Id (rd_target d)) [cpu_resource pf (rd_capacity d)]))))))))"

subsection \<open>REGISTER\<close>

definition read_enum :: "'a list \<Rightarrow> 'a \<Rightarrow> 'a \<Rightarrow> Field list \<Rightarrow> u8 \<Rightarrow> 'a result" where
  "read_enum vals greatest d r i =
     (if pr_has r i
      then bindE (pr_u8 r i) (\<lambda>b. Inr (if b \<le> enum_byte vals greatest then vals ! unat b else d))
      else Inr d)"

definition read_service :: "Field list \<Rightarrow> u64 \<Rightarrow> ServiceDefinition result" where
  "read_service r sid =
     bindE (read_enum ContinuityClass_values ContinuityClass.UNKNOWN ContinuityClass.REPLAY_SAFE_REQUESTS r fid_continuity) (\<lambda>continuity.
     bindE (opt_field (\<lambda>r i. bindE (pr_u64 r i) (\<lambda>v. Inr (Some (Gen v)))) r fid_min_checkpoint
              (obj_min_checkpoint_gen default_RecoveryObjective)) (\<lambda>min_ckpt.
     bindE (read_enum FailbackPolicy_values FailbackPolicy.RETURN_AFTER_VALIDATION FailbackPolicy.MANUAL r fid_failback) (\<lambda>failback.
     bindE (opt_field pr_u32 r fid_cooldown_ms (afp_cooldown_ms default_AntiFlappingPolicy)) (\<lambda>cooldown.
     bindE (opt_field pr_u32 r fid_max_auto_attempts (afp_max_auto_attempts default_AntiFlappingPolicy)) (\<lambda>attempts.
     bindE (opt_field pr_u32 r fid_hysteresis_ms (afp_hysteresis_ms default_AntiFlappingPolicy)) (\<lambda>hysteresis.
     Inr (default_ServiceDefinition\<lparr>sd_service := Id sid, sd_generation := gen_first, sd_config_generation := gen_first,
       sd_name := ''ref'', sd_role := ServingRole.EXCLUSIVE_ACTIVE,
       sd_compatibility := default_CompatibilityRequirement\<lparr>compat_model_key := ''ref-det-sequence-v1'',
         compat_runtime_abi := ''ff-ref-v1''\<rparr>,
       sd_domain_requirement := default_DomainRequirement\<lparr>dreq_require_domain_independence := False\<rparr>,
       sd_resources := [\<lparr>rreq_resource_class = ''cpu'', rreq_amount = 0x3FF0000000000000, rreq_exactly_one_target = True\<rparr>],
       sd_recovery := default_RecoveryObjective\<lparr>obj_rto_ms := 10000, obj_requires_verified_recovery := True,
         obj_continuity := continuity, obj_min_checkpoint_gen := min_ckpt\<rparr>,
       sd_policy_generation := gen_first, sd_failback := failback,
       sd_anti_flapping := default_AntiFlappingPolicy\<lparr>afp_cooldown_ms := cooldown,
         afp_max_auto_attempts := attempts, afp_hysteresis_ms := hysteresis\<rparr>\<rparr>)))))))"

definition first_assignment :: "u64 \<Rightarrow> u64 \<Rightarrow> u64 \<Rightarrow> Assignment" where
  "first_assignment sid act ab = default_Assignment\<lparr>asg_id := Id 1, asg_generation := gen_first,
     asg_slot := slot_one sid, asg_target := Id act, asg_target_generation := gen_first, asg_worker_boot := Id ab,
     asg_authority_generation := gen_first, asg_state := AssignmentState.ACTIVE\<rparr>"

definition first_route :: "u64 \<Rightarrow> u64 \<Rightarrow> u64 \<Rightarrow> CoordinatorEpoch \<Rightarrow> GatewayBootId \<Rightarrow> 16 word \<Rightarrow> RouteEntry" where
  "first_route sid act ab ep gw port = default_RouteEntry\<lparr>re_route := Id 1, re_generation := gen_first,
     re_slot := slot_one sid, re_target := Id act, re_target_generation := gen_first,
     re_incarnation := Id act, re_permitted_boot := Id ab, re_assignment := Id 1,
     re_assignment_generation := gen_first, re_epoch := ep, re_gateway_boot := gw,
     re_state := RouteState.ACKNOWLEDGED, re_transport := tcp_transport port\<rparr>"

text \<open>The initial route goes to the first gateway and is installed whatever it answers.\<close>

definition install_first_route :: "'n Platform \<Rightarrow> u64 \<Rightarrow> u64 \<Rightarrow> u64 \<Rightarrow> ('n, unit) action" where
  "install_first_route pf sid act ab =
     co_bind (co_look (\<lambda>w. reachable_conn pf w (any_gateway_conn w))) (\<lambda>gc.
     case gc of
       None \<Rightarrow> co_return ()
     | Some g \<Rightarrow>
         co_bind (co_read pf fs_epoch) (\<lambda>ep.
         co_bind (co_read pf fs_gateway_boot) (\<lambda>gw.
         co_bind (co_look (\<lambda>w. worker_req_port w act)) (\<lambda>port.
         co_bind (co_read pf current_epoch) (\<lambda>epoch.
         co_bind (co_ask pf g MsgType.INSTALL_ROUTE 9111 epoch (encode_route_entry (first_route sid act ab ep gw port))) (\<lambda>_.
         co_bind (co_read pf fs_gateway_boot) (\<lambda>gw'.
         co_update pf (\<lambda>s. fst (install_route s (first_route sid act ab ep gw port) gw')))))))))"

definition activate_first :: "'n Platform \<Rightarrow> u64 \<Rightarrow> u64 \<Rightarrow> ('n, unit) action" where
  "activate_first pf act ab =
     co_bind (co_look (\<lambda>w. reachable_conn pf w (worker_conn w act))) (\<lambda>wc.
     case wc of
       None \<Rightarrow> co_return ()
     | Some x \<Rightarrow>
         co_bind (co_read pf current_epoch) (\<lambda>epoch.
         co_bind (co_ask pf x MsgType.ACTIVATE_TARGET 9110 epoch [pw_u64 fid_target act, pw_u64 fid_boot ab]) (\<lambda>_.
         co_return ())))"

definition handle_register :: "'n Platform \<Rightarrow> nat \<Rightarrow> Frame \<Rightarrow> Field list \<Rightarrow> ('n, unit) action" where
  "handle_register pf c f r =
     co_bind (co_lift (pr_u64 r fid_service)) (\<lambda>sid.
     co_bind (co_lift (pr_u64 r fid_target)) (\<lambda>act.
     co_bind (co_lift (pr_u64 r fid_boot)) (\<lambda>ab.
     co_bind (co_lift (read_service r sid)) (\<lambda>svc.
     co_catch
       (co_bind (co_try pf (\<lambda>s. create_service s svc)) (\<lambda>_.
        co_bind (co_look (\<lambda>w. pf_now pf (cw_net w))) (\<lambda>now.
        co_bind (co_try pf (\<lambda>s. set_initial_assignment s now (first_assignment sid act ab))) (\<lambda>_.
        co_bind (activate_first pf act ab) (\<lambda>_.
        co_bind (install_first_route pf sid act ab) (\<lambda>_.
        respond pf c f MsgType.REGISTER [pw_bool fid_ok True]))))))
       (respond_error pf c f)))))"

subsection \<open>EXECUTE_FAILOVER and REQUEST_FAILBACK\<close>

definition attempt_fields :: "AttemptResult \<Rightarrow> Assignment option \<Rightarrow> field_writer list" where
  "attempt_fields ar cur =
     [pw_bool fid_ok (ar_state ar = AttemptState.COMPLETED \<and> ar_recovery_verified ar),
      pw_u8 fid_state (enum_byte AttemptState_values (ar_state ar)), pw_str fid_detail (ar_detail ar)] @
     (case cur of None \<Rightarrow> [] | Some a \<Rightarrow> [pw_u64 fid_target (id_value (asg_target a))])"

definition handle_failover :: "'n Platform \<Rightarrow> nat \<Rightarrow> Frame \<Rightarrow> Field list \<Rightarrow> ('n, unit) action" where
  "handle_failover pf c f r =
     co_bind (co_lift (pr_u64 r fid_service)) (\<lambda>sid.
     co_bind (co_if (pr_has r fid_state)
       (co_bind (co_lift (pr_u8 r fid_state)) (\<lambda>bm.
        co_if (bm \<le> enum_byte Milestone_values Milestone.VERIFICATION_COMPLETE)
          (co_update pf (\<lambda>s. set_cutover_barrier s (Milestone_values ! unat bm)))))) (\<lambda>_.
     co_bind (co_call pf (\<lambda>s. plan_failover s (slot_one sid))) (\<lambda>plan.
     case plan of
       None \<Rightarrow> respond pf c f MsgType.EXECUTE_FAILOVER [pw_bool fid_ok False, pw_str fid_detail ''no eligible replacement'']
     | Some p \<Rightarrow>
         co_bind (\<lambda>\<sigma>. execute_plan (socket_ops pf (current_epoch (snd \<sigma>))) p \<sigma>) (\<lambda>ar.
         co_bind (co_update pf clear_cutover_barrier) (\<lambda>_.
         co_bind (co_read pf (\<lambda>s. current_assignment s (slot_one sid))) (\<lambda>cur.
         respond pf c f MsgType.EXECUTE_FAILOVER (attempt_fields ar cur)))))))"

definition handle_failback :: "'n Platform \<Rightarrow> nat \<Rightarrow> Frame \<Rightarrow> Field list \<Rightarrow> ('n, unit) action" where
  "handle_failback pf c f r =
     co_bind (co_lift (pr_u64 r fid_service)) (\<lambda>sid.
     co_bind (co_lift (opt_field pr_bool r fid_authorize False)) (\<lambda>authorize.
     co_bind (co_if authorize (co_update pf (\<lambda>s. authorize_failback s (slot_one sid)))) (\<lambda>_.
     co_bind (co_look (\<lambda>w. pf_now pf (cw_net w))) (\<lambda>now.
     co_bind (co_read pf (\<lambda>s. evaluate_failback s now now (slot_one sid))) (\<lambda>d.
     if \<not> fbd_authorized d
     then respond pf c f MsgType.REQUEST_FAILBACK
            [pw_bool fid_ok False, pw_str fid_detail (fbd_reason d), pw_bool fid_state (fbd_in_cooldown d)]
     else
       co_bind (\<lambda>\<sigma>. execute_failback (socket_ops pf (current_epoch (snd \<sigma>))) (slot_one sid) \<sigma>) (\<lambda>ar.
       co_bind (co_read pf (\<lambda>s. current_assignment s (slot_one sid))) (\<lambda>cur.
       respond pf c f MsgType.REQUEST_FAILBACK (attempt_fields ar cur))))))))"

subsection \<open>PUBLISH_FAILURE, QUERY_ROUTE and CHECK_ROUTE_ACK\<close>

definition category_of :: "'n Platform \<Rightarrow> u8 \<Rightarrow> FailureCategory" where
  "category_of pf b = (case enum_of_byte FailureCategory_values b of Some x \<Rightarrow> x | None \<Rightarrow> pf_category pf b)"

text \<open>
  \<^verbatim>\<open>1000 + (int)f.msg_id\<close> converted to 64 bits. (The signed sum overflows for identifiers just
  below \<open>2 ^ 31\<close>, where C++ gives it no value; here it is the mathematical sum.)
\<close>

definition event_identity :: "u32 \<Rightarrow> FailureEventId" where
  "event_identity i = Id (of_int (1000 + sint i))"

definition reported_failure :: "u32 \<Rightarrow> u64 \<Rightarrow> FailureCategory \<Rightarrow> u64 \<Rightarrow> FailureEvent" where
  "reported_failure i tgt category seq = default_FailureEvent\<lparr>ev_event_id := event_identity i, ev_generation := gen_first,
     ev_status := EvidenceStatus.CONFIRMED, ev_category := category, ev_target := Some (Id tgt), ev_source := Id 1,
     ev_received := zero_timestamp\<lparr>ts_seq := seq\<rparr>\<rparr>"

definition handle_failure :: "'n Platform \<Rightarrow> nat \<Rightarrow> Frame \<Rightarrow> Field list \<Rightarrow> ('n, unit) action" where
  "handle_failure pf c f r =
     co_bind (co_lift (pr_u64 r fid_target)) (\<lambda>tgt.
     co_bind (co_lift (pr_u8 r fid_category)) (\<lambda>category.
     co_bind (co_lift (pr_u64 r fid_seq)) (\<lambda>seq.
     co_bind (co_update pf (\<lambda>s. publish_failure s (reported_failure (fr_msg_id f) tgt (category_of pf category) seq))) (\<lambda>_.
     respond pf c f MsgType.PUBLISH_FAILURE [pw_bool fid_ok True]))))"

definition handle_query_route :: "'n Platform \<Rightarrow> nat \<Rightarrow> Frame \<Rightarrow> Field list \<Rightarrow> ('n, unit) action" where
  "handle_query_route pf c f r =
     co_bind (co_lift (pr_u64 r fid_service)) (\<lambda>sid.
     co_bind (co_read pf (\<lambda>s. current_assignment s (slot_one sid) \<noteq> None)) (\<lambda>has.
     co_bind (co_read pf (\<lambda>s. current_assignment s (slot_one sid))) (\<lambda>cur.
     co_bind (co_read pf (\<lambda>s. rt_revalidation_count (fs_routes s))) (\<lambda>reval.
     co_bind (co_read pf (\<lambda>s. trk_ambiguous (fs_requests s))) (\<lambda>amb.
     co_bind (co_read pf has_incomplete_cutover) (\<lambda>incomplete.
     co_bind (co_read pf current_epoch) (\<lambda>ep.
     co_bind (co_read pf (\<lambda>s. ff_current_route s (slot_one sid))) (\<lambda>rt.
     respond pf c f MsgType.QUERY_ROUTE
       ([pw_bool fid_ok has] @
        (case cur of None \<Rightarrow> [] | Some a \<Rightarrow> [pw_u64 fid_target (id_value (asg_target a))]) @
        [pw_bool fid_state (0 < reval), pw_u64 fid_seq (of_nat amb), pw_bool fid_txn_incomplete incomplete, pw_u64 fid_epoch ep] @
        (case rt of None \<Rightarrow> []
         | Some e \<Rightarrow> [pw_u64 fid_route_gen (gen_value (re_generation e)), pw_u64 fid_boot (id_value (re_gateway_boot e))]))))))))))"

text \<open>The verdict on a gateway's acknowledgment, and its detail.\<close>

definition check_ack :: "RouteEntry option \<Rightarrow> u64 \<Rightarrow> u64 \<Rightarrow> bool \<times> string" where
  "check_ack rt gen boot =
     (case rt of
        None \<Rightarrow> (False, ''no current route'')
      | Some e \<Rightarrow> if gen_value (re_generation e) \<noteq> gen then (False, ''stale route generation'')
                 else if id_value (re_gateway_boot e) \<noteq> boot then (False, ''stale gateway boot'')
                 else (True, ''route acknowledgment accepted''))"

definition handle_route_ack :: "'n Platform \<Rightarrow> nat \<Rightarrow> Frame \<Rightarrow> Field list \<Rightarrow> ('n, unit) action" where
  "handle_route_ack pf c f r =
     co_bind (co_lift (pr_u64 r fid_service)) (\<lambda>sid.
     co_bind (co_lift (pr_u64 r fid_route_gen)) (\<lambda>gen.
     co_bind (co_lift (pr_u64 r fid_boot)) (\<lambda>boot.
     co_bind (co_read pf (\<lambda>s. ff_current_route s (slot_one sid))) (\<lambda>rt.
     respond pf c f MsgType.CHECK_ROUTE_ACK
       [pw_bool fid_ok (fst (check_ack rt gen boot)), pw_str fid_detail (snd (check_ack rt gen boot))]))))"

subsection \<open>AUTHORIZE_REQUEST\<close>

definition request_record :: "ServiceSlotKey \<Rightarrow> u64 \<Rightarrow> bool \<Rightarrow> bool \<Rightarrow> WorkerAuthorization \<Rightarrow> RequestRecord" where
  "request_record slot req idempotent effectful auth =
     default_RequestRecord\<lparr>rq_request := Id req, rq_execution := Id req, rq_execution_generation := gen_first,
       rq_slot := slot, rq_disposition := RequestDisposition.DISPATCHED, rq_idempotent := idempotent,
       rq_authority := (if idempotent then IdempotencyAuthority.DETERMINISTIC_REFERENCE else IdempotencyAuthority.NONE),
       rq_externally_effectful := effectful, rq_dispatched_auth := Some auth\<rparr>"

definition granted_auth :: "CoordinatorEpoch \<Rightarrow> ServiceSlotKey \<Rightarrow> Assignment \<Rightarrow> u64 \<Rightarrow> WorkerAuthorization" where
  "granted_auth ep slot cur req = \<lparr>wa_epoch = ep, wa_slot = slot, wa_assignment = asg_id cur,
     wa_assignment_generation = asg_generation cur, wa_route_generation = asg_route_generation cur,
     wa_incarnation = asg_engine_incarnation cur, wa_request = Id req, wa_execution = Id req,
     wa_operation = ''serve'', wa_worker_boot = asg_worker_boot cur\<rparr>"

definition grant_fields :: "CoordinatorEpoch \<Rightarrow> ServiceSlotKey \<Rightarrow> Assignment \<Rightarrow> u64 \<Rightarrow> field_writer list" where
  "grant_fields ep slot cur req =
     [pw_bool fid_ok True, pw_u64 fid_epoch (ep_epoch ep), pw_u64 fid_epoch_id (id_value (ep_id ep)),
      pw_u64 fid_epoch_boot (id_value (ep_boot ep)), pw_u64 fid_slot (id_value (sk_slot slot)),
      pw_u64 fid_assignment_id (id_value (asg_id cur)), pw_u64 fid_assignment_gen (gen_value (asg_generation cur)),
      pw_u64 fid_route_gen (gen_value (asg_route_generation cur)), pw_u64 fid_boot (id_value (asg_worker_boot cur)),
      pw_u64 fid_incarnation (id_value (asg_engine_incarnation cur)), pw_u64 fid_request_id req,
      pw_u64 fid_execution_id req, pw_str fid_operation ''serve'']"

definition replay_forbidden :: "'n Platform \<Rightarrow> u64 \<Rightarrow> ('n, bool) action" where
  "replay_forbidden pf req =
     co_bind (co_read pf (\<lambda>s. request_state s (Id req))) (\<lambda>st.
     case st of
       None \<Rightarrow> co_return False
     | Some rec \<Rightarrow>
         if rq_disposition rec = RequestDisposition.OUTCOME_UNKNOWN
         then co_read pf (\<lambda>s. \<not> retry_allowed s (Id req))
         else co_return False)"

definition grant_dispatch ::
    "'n Platform \<Rightarrow> nat \<Rightarrow> Frame \<Rightarrow> ServiceSlotKey \<Rightarrow> u64 \<Rightarrow> bool \<Rightarrow> bool \<Rightarrow> Assignment \<Rightarrow> ('n, unit) action" where
  "grant_dispatch pf c f slot req idempotent effectful cur =
     co_bind (co_read pf fs_epoch) (\<lambda>ep.
     co_bind (co_update pf (\<lambda>s. record_request s (request_record slot req idempotent effectful (granted_auth ep slot cur req)))) (\<lambda>_.
     co_bind (co_update pf record_dispatch) (\<lambda>_.
     respond pf c f MsgType.AUTHORIZE_REQUEST (grant_fields ep slot cur req))))"

definition handle_authorize_request :: "'n Platform \<Rightarrow> nat \<Rightarrow> Frame \<Rightarrow> Field list \<Rightarrow> ('n, unit) action" where
  "handle_authorize_request pf c f r =
     co_bind (co_lift (pr_u64 r fid_service)) (\<lambda>sid.
     co_bind (co_lift (pr_u64 r fid_request_id)) (\<lambda>req.
     co_bind (co_lift (opt_field pr_bool r fid_idempotent False)) (\<lambda>idempotent.
     co_bind (co_lift (opt_field pr_bool r fid_externally_effectful False)) (\<lambda>effectful.
     co_bind (co_read pf (\<lambda>s. current_assignment s (slot_one sid))) (\<lambda>cur.
     case cur of
       None \<Rightarrow> respond pf c f MsgType.AUTHORIZE_REQUEST [pw_bool fid_ok False, pw_str fid_detail ''no current active assignment'']
     | Some a \<Rightarrow>
         if asg_state a \<noteq> AssignmentState.ACTIVE
         then respond pf c f MsgType.AUTHORIZE_REQUEST [pw_bool fid_ok False, pw_str fid_detail ''no current active assignment'']
         else
           co_bind (replay_forbidden pf req) (\<lambda>forbidden.
           if forbidden
           then respond pf c f MsgType.AUTHORIZE_REQUEST
                  [pw_bool fid_ok False, pw_str fid_detail ''non-retryable request; automatic replay refused'']
           else grant_dispatch pf c f (slot_one sid) req idempotent effectful a))))))"

subsection \<open>AUTHORIZE_RESULT, CLASSIFY_REQUEST and SAVE\<close>

definition read_authorization :: "Field list \<Rightarrow> u64 \<Rightarrow> WorkerAuthorization result" where
  "read_authorization r sid =
     bindE (pr_u64 r fid_epoch) (\<lambda>ep.
     bindE (pr_u64 r fid_epoch_id) (\<lambda>ep_id.
     bindE (pr_u64 r fid_epoch_boot) (\<lambda>ep_boot.
     bindE (pr_u64 r fid_assignment_id) (\<lambda>asg.
     bindE (pr_u64 r fid_assignment_gen) (\<lambda>asggen.
     bindE (pr_u64 r fid_route_gen) (\<lambda>rgen.
     bindE (pr_u64 r fid_boot) (\<lambda>boot.
     bindE (pr_u64 r fid_incarnation) (\<lambda>inc.
     bindE (pr_u64 r fid_request_id) (\<lambda>req.
     bindE (pr_u64 r fid_execution_id) (\<lambda>ex.
     Inr \<lparr>wa_epoch = \<lparr>ep_epoch = ep, ep_id = Id ep_id, ep_boot = Id ep_boot\<rparr>, wa_slot = slot_one sid,
          wa_assignment = Id asg, wa_assignment_generation = Gen asggen, wa_route_generation = Gen rgen,
          wa_incarnation = Id inc, wa_request = Id req, wa_execution = Id ex, wa_operation = [],
          wa_worker_boot = Id boot\<rparr>))))))))))"

definition note_withheld :: "'n Platform \<Rightarrow> WorkerAuthorization \<Rightarrow> ('n, unit) action" where
  "note_withheld pf auth =
     co_bind (co_read pf (\<lambda>s. request_state s (wa_request auth))) (\<lambda>st.
     case st of
       Some rec \<Rightarrow> co_if (rq_disposition rec \<noteq> RequestDisposition.OUTCOME_UNKNOWN)
                    (co_update pf (\<lambda>s. mark_outcome_unknown s (wa_request auth) (wa_slot auth)))
     | None \<Rightarrow> co_update pf (\<lambda>s. record_request s (default_RequestRecord\<lparr>rq_request := wa_request auth,
                 rq_execution := wa_execution auth, rq_slot := wa_slot auth,
                 rq_disposition := RequestDisposition.OUTCOME_UNKNOWN, rq_dispatched_auth := Some auth\<rparr>)))"

definition handle_authorize_result :: "'n Platform \<Rightarrow> nat \<Rightarrow> Frame \<Rightarrow> Field list \<Rightarrow> ('n, unit) action" where
  "handle_authorize_result pf c f r =
     co_bind (co_lift (pr_u64 r fid_service)) (\<lambda>sid.
     co_bind (co_lift (read_authorization r sid)) (\<lambda>auth.
     co_bind (co_lift (opt_field pr_bool r fid_withheld False)) (\<lambda>withheld.
     if withheld
     then co_bind (note_withheld pf auth) (\<lambda>_.
          respond pf c f MsgType.AUTHORIZE_RESULT
            [pw_bool fid_ok False, pw_str fid_detail ''response withheld; outcome unknown''])
     else co_bind (co_read pf (\<lambda>s. authorize_result s auth)) (\<lambda>d.
          respond pf c f MsgType.AUTHORIZE_RESULT
            (pw_bool fid_ok (gd_allowed d) # (if gd_allowed d then [] else [pw_str fid_detail (gd_reason d)]))))))"

definition handle_classify :: "'n Platform \<Rightarrow> nat \<Rightarrow> Frame \<Rightarrow> Field list \<Rightarrow> ('n, unit) action" where
  "handle_classify pf c f r =
     co_bind (co_lift (pr_u64 r fid_request_id)) (\<lambda>req.
     co_bind (co_read pf fs_dispatch_count) (\<lambda>n.
     co_bind (co_read pf (\<lambda>s. request_state s (Id req))) (\<lambda>st.
     respond pf c f MsgType.CLASSIFY_REQUEST
       (pw_u64 fid_dispatch_count (of_nat n) #
        (case st of
           Some rec \<Rightarrow> [pw_bool fid_ok True, pw_u8 fid_state (enum_byte RequestDisposition_values (rq_disposition rec)),
                        pw_str fid_detail (to_string_RequestDisposition (rq_disposition rec))]
         | None \<Rightarrow> [pw_bool fid_ok False, pw_str fid_detail ''unknown request''])))))"

definition co_save :: "'n Platform \<Rightarrow> string \<Rightarrow> ('n, unit) action" where
  "co_save pf path \<sigma> =
     (case save_via pf path (save_snapshot (snd \<sigma>)) (fst \<sigma>) of (w, r) \<Rightarrow> (pf_yield pf (w, snd \<sigma>), r))"

definition handle_save :: "'n Platform \<Rightarrow> nat \<Rightarrow> Frame \<Rightarrow> Field list \<Rightarrow> ('n, unit) action" where
  "handle_save pf c f r =
     co_bind (co_lift (pr_str r fid_detail)) (\<lambda>path.
     co_catch (co_bind (co_save pf path) (\<lambda>_. respond pf c f MsgType.SAVE [pw_bool fid_ok True]))
       (respond_error pf c f))"

section \<open>The dispatcher, connections and the start\<close>

definition handle_frame :: "'n Platform \<Rightarrow> nat \<Rightarrow> Frame \<Rightarrow> Field list \<Rightarrow> ('n, unit) action" where
  "handle_frame pf c f r =
     (case fr_type f of
        MsgType.HELLO \<Rightarrow> handle_hello pf c r
      | MsgType.PUBLISH_READINESS \<Rightarrow> handle_readiness pf c r
      | MsgType.REGISTER \<Rightarrow> handle_register pf c f r
      | MsgType.EXECUTE_FAILOVER \<Rightarrow> handle_failover pf c f r
      | MsgType.REQUEST_FAILBACK \<Rightarrow> handle_failback pf c f r
      | MsgType.PUBLISH_FAILURE \<Rightarrow> handle_failure pf c f r
      | MsgType.QUERY_ROUTE \<Rightarrow> handle_query_route pf c f r
      | MsgType.CHECK_ROUTE_ACK \<Rightarrow> handle_route_ack pf c f r
      | MsgType.AUTHORIZE_REQUEST \<Rightarrow> handle_authorize_request pf c f r
      | MsgType.AUTHORIZE_RESULT \<Rightarrow> handle_authorize_result pf c f r
      | MsgType.CLASSIFY_REQUEST \<Rightarrow> handle_classify pf c f r
      | MsgType.SAVE \<Rightarrow> handle_save pf c f r
      | _ \<Rightarrow> co_return ())"

text \<open>A frame that no request waits for: SHUTDOWN and unknown types read no payload.\<close>

definition reads_payload :: "MsgType \<Rightarrow> bool" where
  "reads_payload t \<longleftrightarrow> t \<in> {MsgType.HELLO, MsgType.PUBLISH_READINESS, MsgType.REGISTER, MsgType.EXECUTE_FAILOVER,
     MsgType.REQUEST_FAILBACK, MsgType.PUBLISH_FAILURE, MsgType.QUERY_ROUTE, MsgType.CHECK_ROUTE_ACK,
     MsgType.AUTHORIZE_REQUEST, MsgType.AUTHORIZE_RESULT, MsgType.CLASSIFY_REQUEST, MsgType.SAVE}"

definition on_unsolicited :: "'n Platform \<Rightarrow> nat \<Rightarrow> Frame \<Rightarrow> ('n, unit) action" where
  "on_unsolicited pf c f =
     co_catch
       (if reads_payload (fr_type f)
        then co_bind (co_lift (payload_fields (fr_payload f))) (handle_frame pf c f)
        else co_if (fr_type f = MsgType.SHUTDOWN) (co_set (\<lambda>w. w\<lparr>cw_stop := True\<rparr>)))
       (respond_error pf c f)"

definition new_Peer :: "u64 \<Rightarrow> Peer" where
  "new_Peer g = \<lparr>pe_gen = g, pe_role = 0, pe_target = 0, pe_boot = 0, pe_req_port = 0\<rparr>"

text \<open>\<^verbatim>\<open>g_next_gen\<close> starts at one and grows with each accepted connection.\<close>

definition accept_connection :: "'n CoordWorld \<Rightarrow> 'n CoordWorld" where
  "accept_connection w = w\<lparr>cw_peers := cw_peers w @ [new_Peer (of_nat (length (cw_peers w)) + 1)]\<rparr>"

definition fresh_world :: "'n \<Rightarrow> 'n CoordWorld" where
  "fresh_world n = \<lparr>cw_peers = [], cw_workers = [], cw_gateways = [], cw_stop = False, cw_net = n\<rparr>"

definition coordinator_start ::
    "ReadOutcome \<Rightarrow> eval_order \<Rightarrow> files \<Rightarrow> string \<Rightarrow> string \<Rightarrow> FabricState result" where
  "coordinator_start io ord fs load_path checkpoint_path =
     (let s0 = init_fabric default_RuntimeConfig;
          s1 = (if checkpoint_path \<noteq> [] then set_checkpoint_path s0 checkpoint_path else s0)
      in if load_path \<noteq> []
         then bindE (ff_load io ord fs load_path s1) (\<lambda>s2.
              Inr (set_coordinator_identity s2 (Id 1) (current_epoch s2 + 1)))
         else Inr (set_coordinator_identity s1 (Id 1) 1))"

text \<open>What the process sees over time: connections that are accepted and frames that arrive.\<close>

datatype CoordEvent = Accepted | Arrived nat Frame

fun coordinator_event :: "'n Platform \<Rightarrow> CoordEvent \<Rightarrow> 'n CoordWorld \<times> FabricState \<Rightarrow> 'n CoordWorld \<times> FabricState" where
  "coordinator_event pf Accepted \<sigma> = (accept_connection (fst \<sigma>), snd \<sigma>)"
| "coordinator_event pf (Arrived c f) \<sigma> = fst (on_unsolicited pf c f \<sigma>)"

definition coordinator_run :: "'n Platform \<Rightarrow> CoordEvent list \<Rightarrow> 'n CoordWorld \<times> FabricState \<Rightarrow> 'n CoordWorld \<times> FabricState" where
  "coordinator_run pf es \<sigma> = fold (coordinator_event pf) es \<sigma>"

end
