(* ===== verification/Coordinator_Props.thy ===== *)
theory Coordinator_Props
  imports Coordinator
begin

text \<open>
  Properties of the coordinator process. A calculus of what an action keeps of the fabric carries
  every handler at once: the locale \<open>coordinator_invariant\<close> states what the other threads and the
  operations of the fabric owe to an invariant, and shows that no message, in whatever order,
  breaks it. It is interpreted for the well-formedness of the fabric, for the fenced boots and
  for the epoch. The rest is about the answers: what the coordinator tells a gateway is exactly
  the verdict of the gate, and an attempt counts as completed only if the peers said so.
\<close>

section \<open>What an action keeps of the fabric\<close>

definition action_keeps :: "(FabricState \<Rightarrow> bool) \<Rightarrow> ('n, 'a) action \<Rightarrow> bool" where
  "action_keeps P m \<longleftrightarrow> (\<forall>\<sigma>. P (snd \<sigma>) \<longrightarrow> P (snd (fst (m \<sigma>))))"

named_theorems keeps

lemma action_keepsD: "action_keeps P m \<Longrightarrow> P (snd \<sigma>) \<Longrightarrow> P (snd (fst (m \<sigma>)))"
  by (simp add: action_keeps_def del: split_paired_All)

lemma keeps_plain [keeps]:
  "action_keeps P (co_return x)" "action_keeps P (co_lift r)" "action_keeps P (co_look g)"
  "action_keeps P (co_set h)" "action_keeps P (co_peer c u)" "action_keeps P (co_send pf c t i ep ws)"
  by (auto simp: action_keeps_def co_return_def co_lift_def co_look_def co_set_def co_peer_def co_send_def
      split: prod.split)

lemma keeps_bind [keeps]:
  assumes "action_keeps P m" and "\<And>x. action_keeps P (k x)"
  shows "action_keeps P (co_bind m k)"
  using assms unfolding action_keeps_def co_bind_def
  by (auto split: prod.split sum.split) (metis fst_conv snd_conv)+

lemma keeps_catch [keeps]:
  assumes "action_keeps P m" and "\<And>e. action_keeps P (h e)"
  shows "action_keeps P (co_catch m h)"
  using assms unfolding action_keeps_def co_catch_def
  by (auto split: prod.split sum.split) (metis fst_conv snd_conv)+

lemma keeps_if [keeps]: "action_keeps P m \<Longrightarrow> action_keeps P (co_if b m)"
  by (simp add: co_if_def keeps_plain)

lemma keeps_ite [keeps]:
  "(b \<Longrightarrow> action_keeps P m) \<Longrightarrow> (\<not> b \<Longrightarrow> action_keeps P n) \<Longrightarrow> action_keeps P (if b then m else n)"
  by simp

lemma keeps_case_option [keeps]:
  "action_keeps P m \<Longrightarrow> (\<And>x. action_keeps P (k x)) \<Longrightarrow> action_keeps P (case v of None \<Rightarrow> m | Some x \<Rightarrow> k x)"
  by (cases v) simp_all

lemma keeps_respond [keeps]: "action_keeps P (respond pf c f t ws)" "action_keeps P (respond_error pf c f e)"
  by (simp_all add: respond_def respond_error_def keeps_plain)

section \<open>Operations that leave the epoch alone\<close>

text \<open>A step of the fabric's interface other than the one that sets the coordinator's identity.\<close>

definition serving_step :: "FabricState \<Rightarrow> FabricState \<Rightarrow> bool" where
  "serving_step s s' \<longleftrightarrow> api_step\<^sup>*\<^sup>* s s' \<and> fs_epoch s' = fs_epoch s"

lemma serving_refl: "serving_step s s"
  by (simp add: serving_step_def)

lemma servingI: "api_step s s' \<Longrightarrow> fs_epoch s' = fs_epoch s \<Longrightarrow> serving_step s s'"
  by (auto simp: serving_step_def)

lemma epoch_frame:
  "fs_epoch (set_gateway_boot s b) = fs_epoch s" "fs_epoch (publish_failure s ev) = fs_epoch s"
  "fs_epoch (authorize_failback s k) = fs_epoch s" "fs_epoch (set_cutover_barrier s m) = fs_epoch s"
  "fs_epoch (clear_cutover_barrier s) = fs_epoch s" "fs_epoch (record_request s q) = fs_epoch s"
  "fs_epoch (mark_outcome_unknown s i k) = fs_epoch s" "fs_epoch (record_dispatch s) = fs_epoch s"
  "fs_epoch (fst (install_route s e b')) = fs_epoch s" "fs_epoch (fst (bind_route_gateway s k b')) = fs_epoch s"
  by (simp_all add: set_gateway_boot_def publish_failure_def Let_def authorize_failback_def
      set_cutover_barrier_def clear_cutover_barrier_def record_request_def mark_outcome_unknown_def
      record_dispatch_def install_route_def bind_route_gateway_def split_beta split: option.split)

lemma epoch_frame_result:
  "create_service s def = Inr s' \<Longrightarrow> fs_epoch s' = fs_epoch s"
  "set_initial_assignment s now a = Inr s' \<Longrightarrow> fs_epoch s' = fs_epoch s"
  "register_target s t tr = Inr s' \<Longrightarrow> fs_epoch s' = fs_epoch s"
  "publish_candidate_facts s now f = Inr s' \<Longrightarrow> fs_epoch s' = fs_epoch s"
  "publish_candidate_state s t cs = Inr s' \<Longrightarrow> fs_epoch s' = fs_epoch s"
  "publish_candidate_resources s t crs = Inr s' \<Longrightarrow> fs_epoch s' = fs_epoch s"
  by (auto simp: create_service_def set_initial_assignment_def register_target_def publish_candidate_facts_def
      publish_candidate_state_def publish_candidate_resources_def Let_def split: if_splits option.splits)

lemma serving_ops:
  "serving_step s (set_gateway_boot s b)" "serving_step s (publish_failure s ev)"
  "serving_step s (authorize_failback s k)" "serving_step s (set_cutover_barrier s m)"
  "serving_step s (clear_cutover_barrier s)" "serving_step s (record_request s q)"
  "serving_step s (mark_outcome_unknown s i k)" "serving_step s (record_dispatch s)"
  "serving_step s (fst (install_route s e b'))" "serving_step s (fst (bind_route_gateway s k b'))"
  by (rule servingI, rule api_step.intros, simp add: epoch_frame)+

lemma serving_results:
  "create_service s def = Inr s' \<Longrightarrow> serving_step s s'" "set_initial_assignment s now a = Inr s' \<Longrightarrow> serving_step s s'"
  "register_target s t tr = Inr s' \<Longrightarrow> serving_step s s'" "publish_candidate_facts s now f = Inr s' \<Longrightarrow> serving_step s s'"
  "publish_candidate_state s t cs = Inr s' \<Longrightarrow> serving_step s s'"
  "publish_candidate_resources s t crs = Inr s' \<Longrightarrow> serving_step s s'"
  by (rule servingI, erule st_create st_initial st_register st_facts st_state st_resources,
      erule epoch_frame_result)+

lemma serving_plan: "serving_step s (fst (plan_failover_pref s k pref))"
  by (auto simp: plan_failover_pref_def Let_def serving_refl split: option.split sum.split
      intro!: servingI st_snapshot dest: snapshot_locked_state)

section \<open>Invariants of the process\<close>

locale coordinator_invariant =
  fixes pf :: "'n Platform"
    and P :: "FabricState \<Rightarrow> bool"
  assumes keep_yield: "P (snd \<sigma>) \<Longrightarrow> P (snd (pf_yield pf \<sigma>))"
    and keep_serving: "P s \<Longrightarrow> serving_step s s' \<Longrightarrow> P s'"
    and keep_cutover: "cutover_invariant_all (socket_ops pf ep) P"
    and keep_settle: "P s \<Longrightarrow> P (settle_failback k now r s)"
begin

lemma keeps_call: "(\<And>s. serving_step s (fst (g s))) \<Longrightarrow> action_keeps P (co_call pf g)"
  unfolding action_keeps_def co_call_def
  by (auto split: prod.split intro!: keep_yield) (metis fst_conv keep_serving)

lemma keeps_read [keeps]: "action_keeps P (co_read pf g)"
  unfolding co_read_def by (rule keeps_call) (simp add: serving_refl)

lemma keeps_update [keeps]: "(\<And>s. serving_step s (g s)) \<Longrightarrow> action_keeps P (co_update pf g)"
  unfolding co_update_def by (rule keeps_call) simp

lemma keeps_try [keeps]: "(\<And>s s'. g s = Inr s' \<Longrightarrow> serving_step s s') \<Longrightarrow> action_keeps P (co_try pf g)"
  unfolding co_try_def by (rule keeps_call) (auto simp: serving_refl split: sum.split)

lemma keeps_ask [keeps]: "action_keeps P (co_ask pf c t i ep ws)"
  by (auto simp: action_keeps_def co_ask_def split: prod.split intro!: keep_yield)

lemma keeps_save [keeps]: "action_keeps P (co_save pf path)"
  by (auto simp: action_keeps_def co_save_def split: prod.split intro!: keep_yield)

lemma keeps_plan [keeps]: "action_keeps P (co_call pf (\<lambda>s. plan_failover s k))"
  by (rule keeps_call) (simp add: plan_failover_def serving_plan)

lemma keeps_execute_plan [keeps]: "action_keeps P (\<lambda>\<sigma>. execute_plan (socket_ops pf (ep \<sigma>)) p \<sigma>)"
  using cutover_invariant_all.execute_plan_keeps [OF keep_cutover] by (auto simp: action_keeps_def)

lemma ops_yield: "env_yield (socket_ops pf ep) = pf_yield pf"
  by (simp add: socket_ops_def)

lemma execute_failback_keeps:
  assumes "P (snd \<sigma>)"
  shows "P (snd (fst (execute_failback (socket_ops pf ep) k \<sigma>)))"
proof -
  let ?y = "pf_yield pf" and ?env = "socket_ops pf ep"
  let ?\<sigma>2 = "?y (?y \<sigma>)"
  have 1: "P (snd (?y \<sigma>))" and 2: "P (snd ?\<sigma>2)" using assms keep_yield by blast+
  show ?thesis
  proof (cases "fs_preferred (snd (?y \<sigma>)) k")
    case None
    then show ?thesis using 1 2 by (simp add: execute_failback_def Let_def ops_yield)
  next
    case (Some t)
    obtain s3 pr where plan: "plan_failover_pref (snd ?\<sigma>2) k (Some t) = (s3, pr)" by fastforce
    have 3: "P (snd (?y (fst ?\<sigma>2, s3)))"
      using keep_serving [OF 2 serving_plan [of _ k "Some t"]] plan by (intro keep_yield) simp
    show ?thesis
    proof (cases "\<exists>p. pr = Inr (Some p) \<and> fp_selected p \<noteq> None")
      case False
      then show ?thesis using 1 3 Some plan
        by (auto simp: execute_failback_def Let_def ops_yield split: sum.split option.split)
    next
      case True
      then obtain p where p: "pr = Inr (Some p)" "fp_selected p \<noteq> None" by blast
      obtain \<sigma>4 r where run: "execute_plan ?env p (?y (fst ?\<sigma>2, s3)) = (\<sigma>4, r)" by fastforce
      have 4: "P (snd \<sigma>4)"
        using action_keepsD [OF keeps_execute_plan [of "\<lambda>_. ep" p], of "?y (fst ?\<sigma>2, s3)"] 3 run by simp
      have "P (snd (?y (fst \<sigma>4, settle_failback k now x (snd \<sigma>4))))" for now x
        using 4 keep_settle by (intro keep_yield) simp
      then show ?thesis using 1 4 Some plan p run
        by (cases r) (auto simp: execute_failback_def Let_def ops_yield)
    qed
  qed
qed

lemma keeps_execute_failback [keeps]: "action_keeps P (\<lambda>\<sigma>. execute_failback (socket_ops pf (ep \<sigma>)) k \<sigma>)"
  using execute_failback_keeps by (auto simp: action_keeps_def)

lemmas keeps_steps = serving_ops serving_results

lemma keeps_push_routes [keeps]: "action_keeps P (push_routes pf c svs)"
  by (induction svs) (auto simp: push_route_def Let_def intro!: keeps keeps_steps)

lemma keeps_hello_field [keeps]: "action_keeps P (hello_field c r i get upd)"
  unfolding hello_field_def by (intro keeps)

lemma keeps_handlers:
  "action_keeps P (handle_hello pf c r)" "action_keeps P (handle_readiness pf c r)"
  "action_keeps P (handle_register pf c f r)" "action_keeps P (handle_failover pf c f r)"
  "action_keeps P (handle_failback pf c f r)" "action_keeps P (handle_failure pf c f r)"
  "action_keeps P (handle_query_route pf c f r)" "action_keeps P (handle_route_ack pf c f r)"
  "action_keeps P (handle_authorize_request pf c f r)" "action_keeps P (handle_authorize_result pf c f r)"
  "action_keeps P (handle_classify pf c f r)" "action_keeps P (handle_save pf c f r)"
  unfolding handle_hello_def handle_readiness_def handle_register_def activate_first_def install_first_route_def
    handle_failover_def handle_failback_def handle_failure_def handle_query_route_def handle_route_ack_def
    handle_authorize_request_def replay_forbidden_def grant_dispatch_def handle_authorize_result_def
    note_withheld_def handle_classify_def handle_save_def
  by (intro keeps | (rule keeps_steps, assumption?))+

lemma keeps_on_unsolicited: "action_keeps P (on_unsolicited pf c f)"
  unfolding on_unsolicited_def handle_frame_def
  by (intro keeps) (auto split: MsgType.split intro: keeps keeps_handlers)

theorem run_keeps: "P (snd \<sigma>) \<Longrightarrow> P (snd (coordinator_run pf es \<sigma>))"
proof (induction es arbitrary: \<sigma>)
  case (Cons e es)
  have "P (snd (coordinator_event pf e \<sigma>))"
    using Cons.prems action_keepsD [OF keeps_on_unsolicited] by (cases e) auto
  then show ?case using Cons.IH by (simp add: coordinator_run_def)
qed (simp add: coordinator_run_def)

end

section \<open>The invariants\<close>

lemma wf_coordinator_invariant:
  assumes "\<And>\<sigma>. wf_fabric (snd \<sigma>) \<Longrightarrow> wf_fabric (snd (pf_yield pf \<sigma>))"
  shows "coordinator_invariant pf wf_fabric"
proof unfold_locales
  show "wf_fabric s \<Longrightarrow> serving_step s s' \<Longrightarrow> wf_fabric s'" for s s'
    using wf_api_steps by (auto simp: serving_step_def)
  show "wf_fabric s \<Longrightarrow> commit vo now tx s = (s', Inl x) \<Longrightarrow> wf_fabric s'" for s vo now tx s' x
    using wf_commit by (metis fst_conv)
  show "wf_fabric s \<Longrightarrow> wf_fabric (settle_failback k now r s)" for s k now r
    by (simp add: settle_failback_def wf_fabric_defs)
qed (use assms in \<open>simp_all add: socket_ops_def wf_begin_attempt wf_after_fence wf_after_activate wf_after_route wf_commit\<close>)

text \<open>The epoch stays.\<close>

lemma epoch_regions:
  "fs_epoch (fst (begin_attempt p s)) = fs_epoch s" "fs_epoch (record_txn m tx rt s) = fs_epoch s"
  "fs_epoch (fst (after_fence fo tx s)) = fs_epoch s" "fs_epoch (fst (after_activate ao tx s)) = fs_epoch s"
  "fs_epoch (fst (after_route ro re tx s)) = fs_epoch s" "fs_epoch (fst (commit vo now tx s)) = fs_epoch s"
  "fs_epoch (settle_failback k t r s) = fs_epoch s"
  using begin_attempt_view [of p s] after_fence_view [of fo tx s]
  by (auto simp: authority_view_def record_txn_def after_activate_def after_route_def commit_def
      commit_position_def finish_def push_attempt_def add_fenced_boot_def settle_failback_def Let_def split: option.split)

lemma fenced_coordinator_invariant:
  assumes "\<And>\<sigma>. b \<in> set (fs_fenced_boots (snd \<sigma>)) \<Longrightarrow> b \<in> set (fs_fenced_boots (snd (pf_yield pf \<sigma>)))"
  shows "coordinator_invariant pf (\<lambda>s. b \<in> set (fs_fenced_boots s))"
proof (rule coordinator_invariant.intro)
  show "cutover_invariant_all (socket_ops pf ep) (\<lambda>s. b \<in> set (fs_fenced_boots s))" for ep
    by (rule fenced_cutover_invariant) (use assms in \<open>simp add: socket_ops_def\<close>)
  show "b \<in> set (fs_fenced_boots s) \<Longrightarrow> serving_step s s' \<Longrightarrow> b \<in> set (fs_fenced_boots s')" for s s'
    using api_steps_fenced by (auto simp: serving_step_def)
qed (use assms in \<open>simp_all add: fenced_regions\<close>)

lemma epoch_coordinator_invariant:
  assumes "\<And>\<sigma>. fs_epoch (snd (pf_yield pf \<sigma>)) = fs_epoch (snd \<sigma>)"
  shows "coordinator_invariant pf (\<lambda>s. fs_epoch s = e)"
proof unfold_locales
  show "fs_epoch s = e \<Longrightarrow> commit vo now tx s = (s', Inl x) \<Longrightarrow> fs_epoch s' = e" for s vo now tx s' x
    using epoch_regions(6) by (metis fst_conv)
qed (use assms in \<open>simp_all add: socket_ops_def epoch_regions serving_step_def\<close>)

text \<open>A process whose handlers run one at a time.\<close>

definition serial_platform :: "'n Platform \<Rightarrow> 'n Platform" where
  "serial_platform pf = pf\<lparr>pf_yield := id\<rparr>"

lemma serial_platform_yield [simp]: "pf_yield (serial_platform pf) \<sigma> = \<sigma>"
  by (simp add: serial_platform_def)

interpretation serial_wf: coordinator_invariant "serial_platform pf" wf_fabric
  by (rule wf_coordinator_invariant) simp

interpretation serial_fenced: coordinator_invariant "serial_platform pf" "\<lambda>s. b \<in> set (fs_fenced_boots s)"
  by (rule fenced_coordinator_invariant) simp

interpretation serial_epoch: coordinator_invariant "serial_platform pf" "\<lambda>s. fs_epoch s = e"
  by (rule epoch_coordinator_invariant) simp

lemma wf_coordinator_start:
  assumes "coordinator_start io ord fs load_path checkpoint_path = Inr s"
  shows "wf_fabric s"
proof -
  let ?s0 = "init_fabric default_RuntimeConfig"
  let ?s1 = "if checkpoint_path \<noteq> [] then set_checkpoint_path ?s0 checkpoint_path else ?s0"
  have id: "wf_fabric (set_coordinator_identity t (Id 1) e)" if "wf_fabric t" for t e
    using wf_api_step [OF st_identity that] .
  have s1: "wf_fabric ?s1" using wf_init_fabric wf_api_step [OF st_path wf_init_fabric] by auto
  show ?thesis
  proof (cases "load_path = []")
    case True
    then have "s = set_coordinator_identity ?s1 (Id 1) 1" using assms by (simp add: coordinator_start_def Let_def)
    then show ?thesis using id [OF s1] by simp
  next
    case False
    then obtain s2 where s2: "ff_load io ord fs load_path ?s1 = Inr s2"
      "s = set_coordinator_identity s2 (Id 1) (current_epoch s2 + 1)"
      using assms by (auto simp: coordinator_start_def Let_def exn_simps)
    have "wf_tracker (fs_requests ?s1)" using s1 by (simp add: wf_fabric_def wf_stores_def)
    from wf_ff_load [OF s2(1) this] id s2(2) show ?thesis by simp
  qed
qed

text \<open>A network that records what is sent, for examples.\<close>

definition log_platform :: "(nat \<times> Frame) list Platform" where
  "log_platform = \<lparr>pf_alive = (\<lambda>_ _. True), pf_send = (\<lambda>c f n. n @ [(c, f)]), pf_request = (\<lambda>_ _ n. (None, n)),
     pf_save = (\<lambda>_ _ n. (n, Inr ())), pf_now = (\<lambda>_. 0), pf_category = (\<lambda>_. FailureCategory.UNKNOWN_FAILURE),
     pf_double_to_u64 = (\<lambda>_. 0), pf_yield = (\<lambda>\<sigma>. \<sigma>)\<rparr>"

lemma log_platform_simps [simp]:
  "pf_yield log_platform \<sigma> = \<sigma>" "pf_alive log_platform c n" "pf_send log_platform c f n = n @ [(c, f)]"
  by (simp_all add: log_platform_def)

text \<open>
  C13. Nothing a peer sends breaks the coordinator's state. From its start, fresh or from any
  snapshot that loads, and through any sequence of accepted connections and received frames,
  well formed or not, the fabric stays well formed, whatever threads of other connections do in
  between as long as they keep it so. This includes the handlers that run a whole cutover or
  failback over the network.
\<close>

theorem coordinator_keeps_invariant:
  assumes "coordinator_start io ord fs load_path checkpoint_path = Inr s"
    and "\<And>\<sigma>. wf_fabric (snd \<sigma>) \<Longrightarrow> wf_fabric (snd (pf_yield pf \<sigma>))"
  shows "wf_fabric (snd (coordinator_run pf es (fresh_world n, s)))"
proof -
  have "coordinator_invariant pf wf_fabric" using assms(2) by (rule wf_coordinator_invariant)
  then show ?thesis using wf_coordinator_start [OF assms(1)] coordinator_invariant.run_keeps by fastforce
qed

lemma fresh_start:
  "coordinator_start io ord fs [] [] = Inr (set_coordinator_identity (init_fabric default_RuntimeConfig) (Id 1) 1)"
  by (simp add: coordinator_start_def)

theorem coordinator_keeps_invariant_witness:
  "\<exists>s. coordinator_start ReadComplete LeftToRight Map.empty [] [] = Inr s \<and>
     wf_fabric (snd (coordinator_run log_platform [Accepted, Arrived 0 example_request] (fresh_world [], s)))"
  using coordinator_keeps_invariant [OF fresh_start, of log_platform] fresh_start by auto

text \<open>
  C14. A restart retires the epoch it loads: no authorization of that epoch is admitted, for a
  dispatch or for a result, at the start or after any sequence of connections and frames, as
  long as the other threads leave the epoch alone. This holds also when the new epoch number
  wraps around.
\<close>

theorem restart_retires_epoch:
  assumes "load_file io ord fs load_path = Inr snap" and "load_path \<noteq> []"
    and "\<And>\<sigma>. fs_epoch (snd (pf_yield pf \<sigma>)) = fs_epoch (snd \<sigma>)"
    and "ep_epoch (wa_epoch auth) = ep_epoch (ps_epoch snap)"
  shows "\<exists>s. coordinator_start io ord fs load_path checkpoint_path = Inr s \<and>
    \<not> gd_allowed (authorize_dispatch (snd (coordinator_run pf es (fresh_world n, s))) auth) \<and>
    \<not> gd_allowed (authorize_result (snd (coordinator_run pf es (fresh_world n, s))) auth)"
proof -
  obtain s where s: "coordinator_start io ord fs load_path checkpoint_path = Inr s"
    "ep_epoch (fs_epoch s) = ep_epoch (ps_epoch snap) + 1"
    using assms(1,2) by (simp add: coordinator_start_def Let_def ff_load_def set_coordinator_identity_def)
  let ?t = "snd (coordinator_run pf es (fresh_world n, s))"
  have "coordinator_invariant pf (\<lambda>t. fs_epoch t = fs_epoch s)"
    using assms(3) by (rule epoch_coordinator_invariant)
  then have "fs_epoch ?t = fs_epoch s" using coordinator_invariant.run_keeps by fastforce
  then have "wa_epoch auth \<noteq> fs_epoch ?t" using s(2) assms(4) by auto
  then have "\<not> gd_allowed (dispatch_allowed_locked ?t auth)"
    by (simp add: dispatch_allowed_iff holds_authority_def)
  then show ?thesis using s(1) by (simp add: authorize_dispatch_def authorize_result_def Let_def)
qed

theorem restart_retires_epoch_witness:
  "\<exists>fs snap s. load_file ReadComplete LeftToRight fs ''state'' = Inr snap \<and>
     coordinator_start ReadComplete LeftToRight fs ''state'' [] = Inr s \<and>
     \<not> gd_allowed (authorize_result (snd (coordinator_run log_platform [Accepted, Arrived 0 example_request] (fresh_world [], s)))
         (granted_auth (ps_epoch snap) (SlotKey (Id 1) (Id 1)) default_Assignment 1))"
proof (rule example_blob)
  fix blob assume "decode LeftToRight blob = Inr example_durable"
  then have l: "load_file ReadComplete LeftToRight [''state'' \<mapsto> blob] ''state'' = Inr example_durable"
    by (simp add: load_file_def)
  have "ep_epoch (wa_epoch (granted_auth (ps_epoch example_durable) (SlotKey (Id 1) (Id 1)) default_Assignment 1)) =
      ep_epoch (ps_epoch example_durable)" by (simp add: granted_auth_def)
  from restart_retires_epoch [OF l _ _ this, of log_platform] l show ?thesis by fastforce
qed

text \<open>
  C12. A boot that is fenced stays out for the life of the process: whatever frames arrive and
  however their handlers interleave with other threads that remove no fence, the gate refuses
  every dispatch and every result that names it.
\<close>

theorem fenced_boot_refused_forever:
  assumes "b \<in> set (fs_fenced_boots s)" and "wa_worker_boot auth = b"
    and "\<And>\<sigma>. b \<in> set (fs_fenced_boots (snd \<sigma>)) \<Longrightarrow> b \<in> set (fs_fenced_boots (snd (pf_yield pf \<sigma>)))"
  shows "\<not> gd_allowed (authorize_dispatch (snd (coordinator_run pf es (w, s))) auth) \<and>
    \<not> gd_allowed (authorize_result (snd (coordinator_run pf es (w, s))) auth)"
proof -
  have "coordinator_invariant pf (\<lambda>t. b \<in> set (fs_fenced_boots t))"
    using assms(3) by (rule fenced_coordinator_invariant)
  then have "b \<in> set (fs_fenced_boots (snd (coordinator_run pf es (w, s))))"
    using coordinator_invariant.run_keeps assms(1) by fastforce
  then have "\<not> gd_allowed (authorize_dispatch (snd (coordinator_run pf es (w, s))) auth)"
    using assms(2) by (intro fenced_boot_refused) simp
  then show ?thesis by (simp add: authorize_dispatch_def authorize_result_def Let_def)
qed

theorem fenced_boot_refused_forever_witness:
  "\<not> gd_allowed (authorize_result (snd (coordinator_run log_platform [Accepted, Arrived 0 example_request]
       (fresh_world [], add_fenced_boot (init_fabric default_RuntimeConfig) (Id 3))))
     (granted_auth default_CoordinatorEpoch (SlotKey (Id 1) (Id 1)) (default_Assignment\<lparr>asg_worker_boot := Id 3\<rparr>) 1))"
proof -
  have f: "Id 3 \<in> set (fs_fenced_boots (add_fenced_boot (init_fabric default_RuntimeConfig) (Id 3)))"
    by (simp add: add_fenced_boot_def boot_fenced_def init_fabric_def id_is_null_def id_null_def)
  have b: "wa_worker_boot (granted_auth ep k (default_Assignment\<lparr>asg_worker_boot := Id 3\<rparr>) q) = Id 3" for ep k q
    by (simp add: granted_auth_def)
  show ?thesis using fenced_boot_refused_forever [OF f b, of log_platform] by simp
qed

end
