(* ===== verification/Coordinator_Answers.thy ===== *)
theory Coordinator_Answers
  imports Coordinator_Props
begin

text \<open>
  What the coordinator answers, read the way its peers read it. The answer to a gateway that
  asks for a dispatch or presents a result is worked out exactly; the composition with the
  gateway's handling of a client shows what a client's success is worth.
\<close>

section \<open>Small answers are sent\<close>

abbreviation reply_frame :: "Frame \<Rightarrow> MsgType \<Rightarrow> Field list \<Rightarrow> Frame" where
  "reply_frame f t fl \<equiv> mk_frame t (fr_msg_id f) (fr_epoch f) (concat (map field_bytes fl))"

definition short_fields :: "Field list \<Rightarrow> bool" where
  "short_fields fl \<longleftrightarrow> list_all valid_field fl \<and> length (concat (map field_bytes fl)) \<le> 16777216"

lemma short_readable: "short_fields fl \<Longrightarrow> payload_fields (fr_payload (reply_frame f t fl)) = Inr fl"
  by (simp add: short_fields_def payload_fields_Inr)

lemma finish_short: "short_fields fl \<Longrightarrow> pw_finish (map put_field fl) = Inr (concat (map field_bytes fl))"
  using pw_seq_small [of "[]" fl] by (simp add: short_fields_def pw_finish_def)

lemma encode_short: "length p \<le> 16777216 \<Longrightarrow> \<exists>bs. encode_frame (mk_frame t i ep p) = Inr bs"
  by (simp add: encode_frame_Inr)

lemma respond_short:
  assumes "ws = map put_field fl" and "short_fields fl" and "pf_alive pf c (cw_net w)"
  shows "respond pf c f t ws (w, s) = ((w\<lparr>cw_net := pf_send pf c (reply_frame f t fl) (cw_net w)\<rparr>, s), Inr ())"
proof -
  obtain bs where "encode_frame (reply_frame f t fl) = Inr bs"
    using encode_short assms(2) unfolding short_fields_def by blast
  then show ?thesis
    using assms finish_short by (simp add: respond_def co_send_def send_fields_def conn_send_def)
qed

lemma on_unsolicited_reads:
  "reads_payload (fr_type f) \<Longrightarrow> payload_fields (fr_payload f) = Inr r \<Longrightarrow> handle_frame pf c f r \<sigma> = (\<sigma>', Inr ()) \<Longrightarrow>
     on_unsolicited pf c f \<sigma> = (\<sigma>', Inr ())"
  by (simp add: on_unsolicited_def co_catch_def co_bind_def co_lift_def)

lemma co_bind_lift [simp]: "co_bind (co_lift (Inr x)) k = k x"
  by (simp add: co_bind_def co_lift_def fun_eq_iff)

lemma co_bind_read [simp]: "co_bind (co_read pf g) k \<sigma> = k (g (snd \<sigma>)) (pf_yield pf \<sigma>)"
  by (simp add: co_bind_def co_read_def co_call_def)

lemma co_bind_update [simp]: "co_bind (co_update pf g) k \<sigma> = k () (pf_yield pf (fst \<sigma>, g (snd \<sigma>)))"
  by (simp add: co_bind_def co_update_def co_call_def)

section \<open>Results\<close>

lemma gate_reason_short: "length (gd_reason (authorize_result s auth)) \<le> 100"
  by (simp add: authorize_result_def dispatch_allowed_locked_def deny_def allow_def Let_def split: option.split)

definition verdict_fields :: "GateDecision \<Rightarrow> Field list" where
  "verdict_fields d = field_bool fid_ok (gd_allowed d) # (if gd_allowed d then [] else [field_str fid_detail (gd_reason d)])"

lemma verdict_short: "length (gd_reason d) \<le> 100 \<Longrightarrow> short_fields (verdict_fields d)"
  by (simp add: short_fields_def verdict_fields_def valid_field_def)

lemma verdict_writers:
  "length (gd_reason d) \<le> 100 \<Longrightarrow>
     pw_bool fid_ok (gd_allowed d) # (if gd_allowed d then [] else [pw_str fid_detail (gd_reason d)]) = map put_field (verdict_fields d)"
  by (simp add: verdict_fields_def writer_fields)

text \<open>
  The whole of a result's handling: the verdict is that of the gate in the state in which the
  frame is handled, and it is sent after whatever the other threads do next.
\<close>

lemma result_answer:
  assumes "fr_type f = MsgType.AUTHORIZE_RESULT" and "payload_fields (fr_payload f) = Inr r"
    and "pr_u64 r fid_service = Inr sid" and "read_authorization r sid = Inr auth"
    and "opt_field pr_bool r fid_withheld False = Inr False" and "pf_yield pf (w, s) = (w', s')"
    and "pf_alive pf c (cw_net w')"
  shows "on_unsolicited pf c f (w, s) =
    ((w'\<lparr>cw_net := pf_send pf c (reply_frame f MsgType.AUTHORIZE_RESULT (verdict_fields (authorize_result s auth))) (cw_net w')\<rparr>, s'), Inr ())"
proof (rule on_unsolicited_reads [OF _ assms(2)])
  show "reads_payload (fr_type f)" by (simp add: assms(1) reads_payload_def)
  let ?d = "authorize_result s auth"
  note short = gate_reason_short [of s auth]
  have "respond pf c f MsgType.AUTHORIZE_RESULT
      (pw_bool fid_ok (gd_allowed ?d) # (if gd_allowed ?d then [] else [pw_str fid_detail (gd_reason ?d)])) (w', s') =
      ((w'\<lparr>cw_net := pf_send pf c (reply_frame f MsgType.AUTHORIZE_RESULT (verdict_fields ?d)) (cw_net w')\<rparr>, s'), Inr ())"
    by (rule respond_short [OF verdict_writers [OF short] verdict_short [OF short] assms(7)])
  then show "handle_frame pf c f r (w, s) =
      ((w'\<lparr>cw_net := pf_send pf c (reply_frame f MsgType.AUTHORIZE_RESULT (verdict_fields ?d)) (cw_net w')\<rparr>, s'), Inr ())"
    by (simp add: handle_frame_def assms(1,3-6) handle_authorize_result_def cong: if_cong split del: if_split)
qed

text \<open>How a gateway reads the verdict.\<close>

lemma read_verdict:
  assumes "length (gd_reason d) \<le> 100"
  shows "read_acceptance (Some (reply_frame f MsgType.AUTHORIZE_RESULT (verdict_fields d))) =
    Inr (gd_allowed d, if gd_allowed d then [] else gd_reason d)"
proof -
  have p: "payload_fields (fr_payload (reply_frame f MsgType.AUTHORIZE_RESULT (verdict_fields d))) = Inr (verdict_fields d)"
    by (rule short_readable [OF verdict_short [OF assms]])
  have str: "pr_str [field_bool fid_ok False, field_str fid_detail v] fid_detail = Inr v" for v
    by (rule pr_str_at) (simp add: find_field_Cons)
  show ?thesis
  proof (cases "gd_allowed d")
    case True
    then have v: "verdict_fields d = [field_bool fid_ok True]" by (simp add: verdict_fields_def)
    show ?thesis using p unfolding v by (simp add: read_acceptance_def True opt_field_def pr_simps)
  next
    case False
    then have v: "verdict_fields d = [field_bool fid_ok False, field_str fid_detail (gd_reason d)]"
      by (simp add: verdict_fields_def)
    have "pr_has (verdict_fields d) fid_ok" "pr_bool (verdict_fields d) fid_ok = Inr False" "pr_has (verdict_fields d) fid_detail"
      unfolding v by (simp_all add: pr_simps)
    moreover have "pr_str (verdict_fields d) fid_detail = Inr (gd_reason d)" unfolding v by (rule str)
    ultimately show ?thesis using p False by (simp add: read_acceptance_def opt_field_def)
  qed
qed

text \<open>
  The coordinator tells a gateway about a result exactly what the authority gate says. When
  a frame asks about a result that was not withheld, one answer is sent on the connection the
  frame came from, under the frame's own identifier and epoch; a gateway that reads it gets the
  gate's verdict in the state in which the frame is handled, with the gate's reason for a
  refusal, and the fabric is left as it was. Other threads may run before the answer is sent.
\<close>

theorem result_verdict_is_gate:
  assumes "fr_type f = MsgType.AUTHORIZE_RESULT" and "payload_fields (fr_payload f) = Inr r"
    and "pr_u64 r fid_service = Inr sid" and "read_authorization r sid = Inr auth"
    and "opt_field pr_bool r fid_withheld False = Inr False" and "pf_yield pf (w, s) = (w', s')"
    and "pf_alive pf c (cw_net w')"
  shows "\<exists>reply. on_unsolicited pf c f (w, s) = ((w'\<lparr>cw_net := pf_send pf c reply (cw_net w')\<rparr>, s'), Inr ()) \<and>
    fr_msg_id reply = fr_msg_id f \<and> fr_epoch reply = fr_epoch f \<and>
    read_acceptance (Some reply) = Inr (gd_allowed (authorize_result s auth),
      if gd_allowed (authorize_result s auth) then [] else gd_reason (authorize_result s auth))"
  using result_answer [OF assms] read_verdict [OF gate_reason_short [of s auth], of f] by fastforce

section \<open>Dispatches\<close>

text \<open>What the handler requires of a dispatch: an active assignment, and no forbidden replay.\<close>

definition dispatchable :: "FabricState \<Rightarrow> u64 \<Rightarrow> u64 \<Rightarrow> Assignment option" where
  "dispatchable s sid req =
     (case current_assignment s (slot_one sid) of
        None \<Rightarrow> None
      | Some a \<Rightarrow>
          if asg_state a = AssignmentState.ACTIVE \<and>
             \<not> (\<exists>rec. request_state s (Id req) = Some rec \<and> rq_disposition rec = RequestDisposition.OUTCOME_UNKNOWN \<and>
                      \<not> retry_allowed s (Id req))
          then Some a else None)"

definition grant_of :: "CoordinatorEpoch \<Rightarrow> Assignment \<Rightarrow> Grant" where
  "grant_of ep a = \<lparr>gr_epoch = ep_epoch ep, gr_epoch_id = id_value (ep_id ep), gr_epoch_boot = id_value (ep_boot ep),
     gr_assignment = id_value (asg_id a), gr_assignment_gen = gen_value (asg_generation a),
     gr_route_gen = gen_value (asg_route_generation a), gr_boot = id_value (asg_worker_boot a),
     gr_incarnation = id_value (asg_engine_incarnation a)\<rparr>"

definition grant_answer :: "CoordinatorEpoch \<Rightarrow> ServiceSlotKey \<Rightarrow> Assignment \<Rightarrow> u64 \<Rightarrow> Field list" where
  "grant_answer ep slot cur req =
     [field_bool fid_ok True, field_u64 fid_epoch (ep_epoch ep), field_u64 fid_epoch_id (id_value (ep_id ep)),
      field_u64 fid_epoch_boot (id_value (ep_boot ep)), field_u64 fid_slot (id_value (sk_slot slot)),
      field_u64 fid_assignment_id (id_value (asg_id cur)), field_u64 fid_assignment_gen (gen_value (asg_generation cur)),
      field_u64 fid_route_gen (gen_value (asg_route_generation cur)), field_u64 fid_boot (id_value (asg_worker_boot cur)),
      field_u64 fid_incarnation (id_value (asg_engine_incarnation cur)), field_u64 fid_request_id req,
      field_u64 fid_execution_id req, field_str fid_operation ''serve'']"

lemma grant_answer_fields:
  "grant_fields ep slot cur req = map put_field (grant_answer ep slot cur req)" "short_fields (grant_answer ep slot cur req)"
  by (simp_all add: grant_fields_def grant_answer_def writer_fields short_fields_def valid_field_def)

lemma read_grant_answer:
  "read_grant (Some (reply_frame f MsgType.AUTHORIZE_REQUEST (grant_answer ep slot cur req))) = Inr (Some (grant_of ep cur))"
proof -
  have "payload_fields (fr_payload (reply_frame f MsgType.AUTHORIZE_REQUEST (grant_answer ep slot cur req))) =
      Inr (grant_answer ep slot cur req)"
    by (rule short_readable [OF grant_answer_fields(2)])
  then show ?thesis by (simp add: read_grant_def) (simp add: grant_answer_def grant_of_def pr_simps)
qed

definition refusal :: "string \<Rightarrow> Field list" where
  "refusal why = [field_bool fid_ok False, field_str fid_detail why]"

lemma refusal_fields:
  "length why \<le> 100 \<Longrightarrow> [pw_bool fid_ok False, pw_str fid_detail why] = map put_field (refusal why)"
  "length why \<le> 100 \<Longrightarrow> short_fields (refusal why)"
  by (simp_all add: refusal_def writer_fields short_fields_def valid_field_def)

lemma read_refusal:
  assumes "length why \<le> 100"
  shows "read_grant (Some (reply_frame f MsgType.AUTHORIZE_REQUEST (refusal why))) = Inr None"
proof -
  have "payload_fields (fr_payload (reply_frame f MsgType.AUTHORIZE_REQUEST (refusal why))) = Inr (refusal why)"
    by (rule short_readable [OF refusal_fields(2) [OF assms]])
  then show ?thesis by (simp add: read_grant_def) (simp add: refusal_def pr_simps)
qed

lemma serial_platform_net [simp]:
  "pf_alive (serial_platform pf) = pf_alive pf" "pf_send (serial_platform pf) = pf_send pf"
  by (simp_all add: serial_platform_def)

lemma replay_forbidden_serial:
  "replay_forbidden (serial_platform pf) req \<sigma> =
     (\<sigma>, Inr (\<exists>rec. request_state (snd \<sigma>) (Id req) = Some rec \<and>
        rq_disposition rec = RequestDisposition.OUTCOME_UNKNOWN \<and> \<not> retry_allowed (snd \<sigma>) (Id req)))"
  unfolding replay_forbidden_def co_bind_read
  by (auto simp: co_return_def co_read_def co_call_def split: option.split)

definition dispatched :: "FabricState \<Rightarrow> u64 \<Rightarrow> u64 \<Rightarrow> bool \<Rightarrow> bool \<Rightarrow> Assignment \<Rightarrow> FabricState" where
  "dispatched s sid req idempotent effectful a =
     record_dispatch (record_request s (request_record (slot_one sid) req idempotent effectful
       (granted_auth (fs_epoch s) (slot_one sid) a req)))"

lemma request_answer:
  assumes "fr_type f = MsgType.AUTHORIZE_REQUEST" and "payload_fields (fr_payload f) = Inr r"
    and "pr_u64 r fid_service = Inr sid" and "pr_u64 r fid_request_id = Inr req"
    and "opt_field pr_bool r fid_idempotent False = Inr idempotent"
    and "opt_field pr_bool r fid_externally_effectful False = Inr effectful" and "pf_alive pf c (cw_net w)"
  shows "\<exists>why. length why \<le> 100 \<and> on_unsolicited (serial_platform pf) c f (w, s) =
    (case dispatchable s sid req of
       Some a \<Rightarrow> ((w\<lparr>cw_net := pf_send pf c (reply_frame f MsgType.AUTHORIZE_REQUEST
          (grant_answer (fs_epoch s) (slot_one sid) a req)) (cw_net w)\<rparr>, dispatched s sid req idempotent effectful a), Inr ())
     | None \<Rightarrow> ((w\<lparr>cw_net := pf_send pf c (reply_frame f MsgType.AUTHORIZE_REQUEST (refusal why)) (cw_net w)\<rparr>, s), Inr ()))"
proof -
  let ?pf = "serial_platform pf" and ?R = MsgType.AUTHORIZE_REQUEST
  let ?sent = "\<lambda>fl t. ((w\<lparr>cw_net := pf_send pf c (reply_frame f ?R fl) (cw_net w)\<rparr>, t), Inr ())"
  have reads: "reads_payload (fr_type f)" by (simp add: assms(1) reads_payload_def)
  have refuse: "respond ?pf c f ?R [pw_bool fid_ok False, pw_str fid_detail why] (w, s) = ?sent (refusal why) s"
    if "length why \<le> 100" for why
    using respond_short [OF refusal_fields(1) [OF that] refusal_fields(2) [OF that], of ?pf c w] assms(7) by simp
  have grant: "respond ?pf c f ?R (grant_fields ep slot a req) (w, t) = ?sent (grant_answer ep slot a req) t" for ep slot a t
    using respond_short [OF grant_answer_fields(1) grant_answer_fields(2), of ?pf c w] assms(7) by simp
  have h: "handle_frame ?pf c f r (w, s) =
      (case dispatchable s sid req of
         Some a \<Rightarrow> ?sent (grant_answer (fs_epoch s) (slot_one sid) a req) (dispatched s sid req idempotent effectful a)
       | None \<Rightarrow> ?sent (refusal (case current_assignment s (slot_one sid) of
           Some a \<Rightarrow> if asg_state a = AssignmentState.ACTIVE then ''non-retryable request; automatic replay refused''
                     else ''no current active assignment''
         | None \<Rightarrow> ''no current active assignment'')) s)"
    using refuse grant
    by (auto simp: handle_frame_def assms(1,3-6) handle_authorize_request_def dispatchable_def grant_dispatch_def
        dispatched_def co_bind_def [of "replay_forbidden _ _"] replay_forbidden_serial split: option.split)
  show ?thesis
  proof (cases "dispatchable s sid req")
    case (Some a)
    then show ?thesis using on_unsolicited_reads [OF reads assms(2)] h by (auto intro: exI [of _ "[]"])
  next
    case None
    let ?why = "case current_assignment s (slot_one sid) of
           Some a \<Rightarrow> if asg_state a = AssignmentState.ACTIVE then ''non-retryable request; automatic replay refused''
                     else ''no current active assignment''
         | None \<Rightarrow> ''no current active assignment''"
    have "length ?why \<le> 100" by (simp split: option.split)
    then show ?thesis using None on_unsolicited_reads [OF reads assms(2)] h by (auto intro!: exI [of _ ?why])
  qed
qed

text \<open>
  What a gateway learns when it asks to dispatch a request. One answer is sent, and a
  gateway that reads it gets a grant exactly when the service's first slot has an active
  assignment and the request is not one of unknown outcome whose replay is forbidden. The grant
  names the present epoch and the assignment, its generation, its route generation and its
  worker boot; the request is recorded as dispatched under that authority and counted. Without a
  grant the fabric does not change, so a refused replay leaves its record as it was. (Fences and
  blocked routes are not looked at here, only when the result is presented.)
\<close>

theorem dispatch_grant_exact:
  assumes "fr_type f = MsgType.AUTHORIZE_REQUEST" and "payload_fields (fr_payload f) = Inr r"
    and "pr_u64 r fid_service = Inr sid" and "pr_u64 r fid_request_id = Inr req"
    and "opt_field pr_bool r fid_idempotent False = Inr idempotent"
    and "opt_field pr_bool r fid_externally_effectful False = Inr effectful" and "pf_alive pf c (cw_net w)"
  shows "\<exists>reply s'. on_unsolicited (serial_platform pf) c f (w, s) = ((w\<lparr>cw_net := pf_send pf c reply (cw_net w)\<rparr>, s'), Inr ()) \<and>
    read_grant (Some reply) = Inr (map_option (grant_of (fs_epoch s)) (dispatchable s sid req)) \<and>
    s' = (case dispatchable s sid req of
            Some a \<Rightarrow> dispatched s sid req idempotent effectful a
          | None \<Rightarrow> s)"
proof -
  obtain why where why: "length why \<le> 100" "on_unsolicited (serial_platform pf) c f (w, s) =
    (case dispatchable s sid req of
       Some a \<Rightarrow> ((w\<lparr>cw_net := pf_send pf c (reply_frame f MsgType.AUTHORIZE_REQUEST
          (grant_answer (fs_epoch s) (slot_one sid) a req)) (cw_net w)\<rparr>, dispatched s sid req idempotent effectful a), Inr ())
     | None \<Rightarrow> ((w\<lparr>cw_net := pf_send pf c (reply_frame f MsgType.AUTHORIZE_REQUEST (refusal why)) (cw_net w)\<rparr>, s), Inr ()))"
    using request_answer [OF assms] by blast
  then show ?thesis
    using read_grant_answer [of f] read_refusal [OF why(1), of f] by (cases "dispatchable s sid req") auto
qed

section \<open>A client's success\<close>

text \<open>The authority a gateway presents with a result, and its fields on the wire.\<close>

definition presented_auth :: "u64 \<Rightarrow> Grant \<Rightarrow> u64 \<Rightarrow> WorkerAuthorization" where
  "presented_auth sid g req = \<lparr>wa_epoch = \<lparr>ep_epoch = gr_epoch g, ep_id = Id (gr_epoch_id g), ep_boot = Id (gr_epoch_boot g)\<rparr>,
     wa_slot = slot_one sid, wa_assignment = Id (gr_assignment g), wa_assignment_generation = Gen (gr_assignment_gen g),
     wa_route_generation = Gen (gr_route_gen g), wa_incarnation = Id (gr_incarnation g), wa_request = Id req,
     wa_execution = Id req, wa_operation = [], wa_worker_boot = Id (gr_boot g)\<rparr>"

definition query_fields :: "Frame \<Rightarrow> ClientRequest \<Rightarrow> Grant \<Rightarrow> Field list" where
  "query_fields f q g =
     [field_u64 fid_service (cr_service q), field_u64 fid_slot (cr_slot q), field_u64 fid_epoch (gr_epoch g),
      field_u64 fid_epoch_id (gr_epoch_id g), field_u64 fid_epoch_boot (gr_epoch_boot g),
      field_u64 fid_assignment_id (gr_assignment g), field_u64 fid_assignment_gen (gr_assignment_gen g),
      field_u64 fid_route_gen (gr_route_gen g), field_u64 fid_boot (gr_boot g), field_u64 fid_incarnation (gr_incarnation g),
      field_u64 fid_request_id (ucast (fr_msg_id f)), field_u64 fid_execution_id (ucast (fr_msg_id f)),
      field_bool fid_withheld False]"

lemma result_query_sent:
  assumes "send_msg MsgType.AUTHORIZE_RESULT (fr_msg_id f) ep (result_query f q g False) = Inr m"
  shows "fr_type m = MsgType.AUTHORIZE_RESULT" and "payload_fields (fr_payload m) = Inr (query_fields f q g)"
proof -
  have "result_query f q g False = map put_field (query_fields f q g)"
    by (simp add: result_query_def query_fields_def writer_fields)
  moreover have "list_all valid_field (query_fields f q g)" "length (concat (map field_bytes (query_fields f q g))) \<le> 16777216"
    by (simp_all add: query_fields_def valid_field_def)
  ultimately show "fr_type m = MsgType.AUTHORIZE_RESULT" "payload_fields (fr_payload m) = Inr (query_fields f q g)"
    using assms send_msg_fields(1) [of "query_fields f q g" MsgType.AUTHORIZE_RESULT "fr_msg_id f" ep]
      send_msg_fields(2) [of "query_fields f q g"] by auto
qed

lemma read_query:
  "pr_u64 (query_fields f q g) fid_service = Inr (cr_service q)"
  "read_authorization (query_fields f q g) sid = Inr (presented_auth sid g (ucast (fr_msg_id f)))"
  "opt_field pr_bool (query_fields f q g) fid_withheld False = Inr False"
  by (simp_all add: query_fields_def read_authorization_def presented_auth_def opt_field_def pr_simps)

text \<open>What a peer on connection \<open>c\<close> receives for a frame, over a network that records.\<close>

definition coordinator_answer :: "nat \<Rightarrow> (nat \<times> Frame) list CoordWorld \<Rightarrow> FabricState \<Rightarrow> Frame \<Rightarrow> Frame option" where
  "coordinator_answer c w s m =
     (case rev (cw_net (fst (fst (on_unsolicited log_platform c m (w\<lparr>cw_net := []\<rparr>, s))))) of
        [] \<Rightarrow> None
      | (_, f) # _ \<Rightarrow> Some f)"

lemma answer_to_query:
  assumes "send_msg MsgType.AUTHORIZE_RESULT (fr_msg_id f) ep (result_query f q g False) = Inr m"
  shows "read_acceptance (coordinator_answer c w s m) =
    (let d = authorize_result s (presented_auth (cr_service q) g (ucast (fr_msg_id f)))
     in Inr (gd_allowed d, if gd_allowed d then [] else gd_reason d))"
proof -
  note q = result_query_sent [OF assms]
  have y: "pf_yield log_platform (w\<lparr>cw_net := []\<rparr>, s) = (w\<lparr>cw_net := []\<rparr>, s)" by simp
  have "coordinator_answer c w s m = Some (reply_frame m MsgType.AUTHORIZE_RESULT
      (verdict_fields (authorize_result s (presented_auth (cr_service q) g (ucast (fr_msg_id f))))))"
    using result_answer [OF q read_query y, where c = c] by (simp add: coordinator_answer_def)
  then show ?thesis using read_verdict [OF gate_reason_short] by (simp add: Let_def)
qed

text \<open>
  C6. A client that is told its request succeeded was served under current authority. If the
  coordinator answers the gateway's second question in some state of its fabric, that state has
  an active assignment for the service's first slot; the grant the gateway presented carries
  exactly its identity, generations and worker boot and the present epoch; the boot is not
  fenced, no route of the slot is blocked, and the request is on record. (The coordinator always
  looks at the first slot, also for a client that named another one.)
\<close>

theorem client_success_under_authority:
  assumes "handle_client rpc ask epoch routes f = Inr r" and "payload_fields (fr_payload r) = Inr fl"
    and "pr_bool fl fid_ok = Inr True"
    and "\<And>m. fr_type m = MsgType.AUTHORIZE_RESULT \<Longrightarrow> rpc m = coordinator_answer c w s m"
  shows "\<exists>q m g cur rec. client_request f = Inr q \<and> read_grant (rpc m) = Inr (Some g) \<and>
    current_assignment s (slot_one (cr_service q)) = Some cur \<and> asg_state cur = AssignmentState.ACTIVE \<and>
    g\<lparr>gr_incarnation := 0\<rparr> = (grant_of (fs_epoch s) cur)\<lparr>gr_incarnation := 0\<rparr> \<and>
    \<not> boot_fenced s (asg_worker_boot cur) \<and>
    (case current_route (fs_routes s) (slot_one (cr_service q)) of
       None \<Rightarrow> True | Some rt \<Rightarrow> \<not> route_blocks_dispatch (re_state rt)) \<and>
    request_state s (Id (ucast (fr_msg_id f))) = Some rec"
proof -
  obtain q m g m' detail where h: "client_request f = Inr q" "read_grant (rpc m) = Inr (Some g)"
    "send_msg MsgType.AUTHORIZE_RESULT (fr_msg_id f) (epoch 3) (result_query f q g False) = Inr m'"
    "read_acceptance (rpc m') = Inr (True, detail)"
    using positive_reply_parts [OF assms(1-3)] by blast
  let ?auth = "presented_auth (cr_service q) g (ucast (fr_msg_id f))"
  have "rpc m' = coordinator_answer c w s m'" using assms(4) result_query_sent(1) [OF h(3)] by blast
  then have ok: "gd_allowed (authorize_result s ?auth)"
    using answer_to_query [OF h(3), of c w s] h(4) by (simp add: Let_def)
  then have hold: "holds_authority s ?auth" and rec: "request_state s (Id (ucast (fr_msg_id f))) \<noteq> None"
    by (auto simp: authorize_result_def Let_def dispatch_allowed_iff request_state_def presented_auth_def
        split: if_splits option.splits)
  from hold obtain cur where cur: "current_assignment s (slot_one (cr_service q)) = Some cur"
    "asg_state cur = AssignmentState.ACTIVE" "wa_epoch ?auth = fs_epoch s" "wa_assignment ?auth = asg_id cur"
    "wa_assignment_generation ?auth = asg_generation cur" "wa_route_generation ?auth = asg_route_generation cur"
    "wa_worker_boot ?auth = asg_worker_boot cur"
    by (auto simp: holds_authority_def presented_auth_def)
  have "g\<lparr>gr_incarnation := 0\<rparr> = (grant_of (fs_epoch s) cur)\<lparr>gr_incarnation := 0\<rparr>"
    using cur(3-7) by (cases g) (auto simp: presented_auth_def grant_of_def simp flip: cur(3-7))
  moreover have "\<not> boot_fenced s (asg_worker_boot cur)" using hold cur(7) by (simp add: holds_authority_def boot_fenced_def)
  ultimately show ?thesis
    using h(1,2) cur(1,2) hold rec by (fastforce simp: holds_authority_def presented_auth_def split: option.split)
qed

text \<open>The example fabric serves the example request under its current assignment.\<close>

lemma example_accepts:
  obtains cur where "dispatchable example_fabric 1 5 = Some cur"
    and "gd_allowed (authorize_result (dispatched example_fabric 1 5 False False cur)
      (presented_auth 1 (grant_of (fs_epoch example_fabric) cur) 5))"
proof -
  have "case current_assignment example_fabric (slot_one 1) of None \<Rightarrow> False
    | Some cur \<Rightarrow> asg_state cur = AssignmentState.ACTIVE \<and> request_state example_fabric (Id 5) = None \<and>
        gd_allowed (authorize_result (dispatched example_fabric 1 5 False False cur)
          (presented_auth 1 (grant_of (fs_epoch example_fabric) cur) 5))"
    by code_simp
  then show ?thesis using that by (auto simp: dispatchable_def split: option.splits)
qed

theorem client_success_under_authority_witness:
  "\<exists>rpc s r fl cur. handle_client rpc answering_worker (\<lambda>_. 1) [(1, default_RouteEntry, 0)] example_request = Inr r \<and>
     payload_fields (fr_payload r) = Inr fl \<and> pr_bool fl fid_ok = Inr True \<and>
     current_assignment s (slot_one 1) = Some cur \<and> asg_state cur = AssignmentState.ACTIVE"
proof (rule example_accepts)
  fix cur
  let ?s = "dispatched example_fabric 1 5 False False cur" and ?ep = "fs_epoch example_fabric"
  define w :: "(nat \<times> Frame) list CoordWorld" where "w = fresh_world []"
  define rpc where "rpc = (\<lambda>m. if fr_type m = MsgType.AUTHORIZE_REQUEST
    then Some (reply_frame m MsgType.AUTHORIZE_REQUEST (grant_answer ?ep (slot_one 1) cur 5))
    else coordinator_answer 0 w ?s m)"
  assume ok: "gd_allowed (authorize_result ?s (presented_auth 1 (grant_of ?ep cur) 5))"
  have "\<exists>r fl. handle_client rpc answering_worker (\<lambda>_. 1) [(1, default_RouteEntry, 0)] example_request = Inr r \<and>
     payload_fields (fr_payload r) = Inr fl \<and> pr_bool fl fid_ok = Inr True"
  proof (rule served_when_authorized)
    show "read_grant (rpc m) = Inr (Some (grant_of ?ep cur))" if "fr_type m = MsgType.AUTHORIZE_REQUEST" for m
      using that read_grant_answer by (simp add: rpc_def)
    show "read_acceptance (rpc m) = Inr (True, [])"
      if "send_msg MsgType.AUTHORIZE_RESULT (fr_msg_id example_request) 1 (result_query example_request example_query (grant_of ?ep cur) False) = Inr m" for m
      using answer_to_query [OF that, of 0 w ?s] result_query_sent(1) [OF that] ok
      by (simp add: rpc_def Let_def example_query_def example_request_def)
  qed
  then obtain r fl where r: "handle_client rpc answering_worker (\<lambda>_. 1) [(1, default_RouteEntry, 0)] example_request = Inr r"
    "payload_fields (fr_payload r) = Inr fl" "pr_bool fl fid_ok = Inr True" by blast
  have "rpc m = coordinator_answer 0 w ?s m" if "fr_type m = MsgType.AUTHORIZE_RESULT" for m
    using that by (simp add: rpc_def)
  from client_success_under_authority [OF r this] r show ?thesis by (auto simp: example_client) blast
qed

text \<open>Frames of a gateway that asks to dispatch the example request, and about its result.\<close>

definition example_dispatch :: Frame where
  "example_dispatch = frame_with MsgType.AUTHORIZE_REQUEST [field_u64 fid_service 1, field_u64 fid_request_id 5]"

definition example_verdict :: Frame where
  "example_verdict = frame_with MsgType.AUTHORIZE_RESULT
     (query_fields default_Frame example_query (grant_of default_CoordinatorEpoch default_Assignment))"

theorem dispatch_grant_exact_witness:
  "\<exists>reply s' g. on_unsolicited (serial_platform log_platform) 0 example_dispatch (fresh_world [], example_fabric) =
       ((fresh_world [(0, reply)], s'), Inr ()) \<and> read_grant (Some reply) = Inr (Some g)"
proof (rule example_accepts)
  fix cur
  assume cur: "dispatchable example_fabric 1 5 = Some cur"
  let ?fl = "[field_u64 fid_service 1, field_u64 fid_request_id 5]"
  have p: "payload_fields (fr_payload example_dispatch) = Inr ?fl" "fr_type example_dispatch = MsgType.AUTHORIZE_REQUEST"
    by (simp_all add: example_dispatch_def frame_with_fields valid_field_def)
  have f: "pr_u64 ?fl fid_service = Inr 1" "pr_u64 ?fl fid_request_id = Inr 5"
    "opt_field pr_bool ?fl fid_idempotent False = Inr False" "opt_field pr_bool ?fl fid_externally_effectful False = Inr False"
    by (simp_all add: opt_field_def pr_simps)
  have "pf_alive log_platform 0 (cw_net (fresh_world []))" by simp
  from dispatch_grant_exact [OF p(2,1) f this, of example_fabric] show ?thesis
    using cur by (auto simp: fresh_world_def)
qed

theorem result_verdict_is_gate_witness:
  "\<exists>reply. on_unsolicited log_platform 0 example_verdict (fresh_world [], example_fabric) =
       ((fresh_world [(0, reply)], example_fabric), Inr ()) \<and>
     read_acceptance (Some reply) = Inr (False, ''stale coordinator epoch'')"
proof -
  let ?g = "grant_of default_CoordinatorEpoch default_Assignment"
  have p: "fr_type example_verdict = MsgType.AUTHORIZE_RESULT"
    "payload_fields (fr_payload example_verdict) = Inr (query_fields default_Frame example_query ?g)"
    by (simp_all add: example_verdict_def frame_with_fields query_fields_def valid_field_def)
  have d: "authorize_result example_fabric (presented_auth 1 ?g 0) = deny ''stale coordinator epoch''" by code_simp
  have "pf_yield log_platform (fresh_world [], example_fabric) = (fresh_world [], example_fabric)" by simp
  from result_verdict_is_gate [OF p read_query this, of 0] d show ?thesis
    by (auto simp: fresh_world_def example_query_def default_Frame_def deny_def)
qed

end
