(* ===== verification/Adapter_Props.thy ===== *)
theory Adapter_Props
  imports Coordinator_Answers
begin

text \<open>
  What a positive outcome of the cutover adapter \<open>SocketOps\<close> says about its peers: each rests on
  an answer that a peer gave on a live connection. A platform is given a log of the exchanges made
  over it, which changes nothing it does, and a completed attempt is read off that log.
\<close>

section \<open>The calls of a completed attempt\<close>

text \<open>\<open>R\<close> relates a world to those that can come after it.\<close>

locale world_order =
  fixes env :: "'w CutoverEnv" and R :: "'w \<Rightarrow> 'w \<Rightarrow> bool"
  assumes order_refl: "R w w"
    and order_trans: "R w1 w2 \<Longrightarrow> R w2 w3 \<Longrightarrow> R w1 w3"
    and order_yield: "R (fst \<sigma>) (fst (env_yield env \<sigma>))"
    and order_save: "R w (fst (env_save_file env path snap w))"
    and order_fence: "R w (snd (env_fence_old env old boot w))"
begin

lemma order_locked: "locked env f \<sigma> = (\<sigma>', x) \<Longrightarrow> R (fst \<sigma>) (fst \<sigma>')"
  using order_yield unfolding locked_eq_iff by (metis fst_conv)

lemma order_barrier: "stop_at_barrier env m tx \<sigma> = (\<sigma>', x) \<Longrightarrow> R (fst \<sigma>) (fst \<sigma>')"
proof -
  assume b: "stop_at_barrier env m tx \<sigma> = (\<sigma>', x)"
  obtain w y where c: "save_checkpoint env \<sigma> = (w, y)" by fastforce
  then have "R (fst \<sigma>) w"
    using order_save [of "fst \<sigma>"] order_refl by (auto simp: save_checkpoint_def split: if_splits) (metis fst_conv)
  moreover have "R w (fst (env_yield env (w, snd \<sigma>)))" "R w (fst (env_yield env (env_yield env (w, snd \<sigma>))))"
    using order_yield order_trans by (metis fst_conv)+
  moreover have "\<sigma>' = env_yield env (w, snd \<sigma>) \<or> \<sigma>' = env_yield env (env_yield env (w, snd \<sigma>))"
    using b c by (cases y) (auto simp: stop_at_barrier_def Let_def)
  ultimately show ?thesis using order_trans by metis
qed

lemma order_checkpoint: "checkpoint env m rt tx \<sigma> = (\<sigma>', Inr tx') \<Longrightarrow> R (fst \<sigma>) (fst \<sigma>')"
  unfolding checkpoint_def and_then_Inr_iff using order_locked order_barrier order_trans by blast

lemma order_ext_call:
  assumes "ext_call env f \<sigma> = (\<sigma>', Inr x)"
  obtains w' where "f (fst \<sigma>) = (Inr x, w')" "R w' (fst \<sigma>')"
  using assms order_yield unfolding ext_call_Inr by (metis fst_conv)

lemma order_fence_phase: "fence_phase env tx \<sigma> = (\<sigma>', Inr tx') \<Longrightarrow> R (fst \<sigma>) (fst \<sigma>')"
proof -
  assume "fence_phase env tx \<sigma> = (\<sigma>', Inr tx')"
  then obtain \<sigma>1 fo \<sigma>2 tx1 where call: "call_fence env tx \<sigma> = (\<sigma>1, Inr fo)"
    and rest: "locked env (after_fence fo tx) \<sigma>1 = (\<sigma>2, Inr tx1)"
      "checkpoint env Milestone.OLD_ADMISSION_FENCED None tx1 \<sigma>2 = (\<sigma>', Inr tx')"
    unfolding fence_phase_def and_then_Inr_iff by blast
  have "R (fst \<sigma>) (fst \<sigma>1)"
  proof (cases "tx_old tx")
    case (Some old)
    then have "ext_call env (env_fence_old env old (cand_boot (tx_selected tx))) \<sigma> = (\<sigma>1, Inr fo)"
      using call by (simp add: call_fence_def)
    then obtain w' where "env_fence_old env old (cand_boot (tx_selected tx)) (fst \<sigma>) = (Inr fo, w')" "R w' (fst \<sigma>1)"
      by (rule order_ext_call)
    then show ?thesis using order_fence [of "fst \<sigma>" old] order_trans by (metis snd_conv)
  qed (use call order_refl in \<open>simp add: call_fence_def\<close>)
  then show ?thesis using rest order_locked order_checkpoint order_trans by metis
qed

lemma order_activate_phase:
  assumes "activate_phase env auth tx \<sigma> = (\<sigma>', Inr tx')"
  obtains ao w' where "env_activate env (tx_selected tx) auth (asg_authority_generation (tx_new tx)) (fst \<sigma>) = (Inr ao, w')"
    "ao_acknowledged ao" "R w' (fst \<sigma>')" "same_txn tx tx'"
proof -
  obtain \<sigma>1 ao \<sigma>2 tx1 where call: "call_activate env tx auth \<sigma> = (\<sigma>1, Inr ao)"
    and lock: "locked env (after_activate ao tx) \<sigma>1 = (\<sigma>2, Inr tx1)"
    and chk: "checkpoint env Milestone.ACTIVATION_ACKNOWLEDGED None tx1 \<sigma>2 = (\<sigma>', Inr tx')"
    using assms unfolding activate_phase_def and_then_Inr_iff by blast
  have "same_txn tx tx' \<and> ao_acknowledged ao"
    using lock after_activate_Inr checkpoint_Inr [OF chk] unfolding locked_eq_iff by blast
  moreover have "R (fst \<sigma>1) (fst \<sigma>')" using order_trans [OF order_locked [OF lock] order_checkpoint [OF chk]] .
  ultimately show ?thesis
    using that call order_ext_call order_trans unfolding call_activate_def by metis
qed

lemma order_route_phase:
  assumes "route_phase env re tx \<sigma> = (\<sigma>', Inr tx')"
  obtains gw ro w' where "env_install_route env re gw (fst \<sigma>) = (Inr ro, w')" "ro_acknowledged ro" "R w' (fst \<sigma>')"
proof -
  obtain \<sigma>1 ro \<sigma>2 tx1 where call: "call_install_route env re \<sigma> = (\<sigma>1, Inr ro)"
    and lock: "locked env (after_route ro re tx) \<sigma>1 = (\<sigma>2, Inr tx1)"
    and chk: "checkpoint env Milestone.ROUTE_INSTALLED (Some re) tx1 \<sigma>2 = (\<sigma>', Inr tx')"
    using assms unfolding route_phase_def and_then_Inr_iff by blast
  have "ro_acknowledged ro"
    using lock after_route_Inr unfolding locked_eq_iff by blast
  moreover have "R (fst \<sigma>1) (fst \<sigma>')" using order_trans [OF order_locked [OF lock] order_checkpoint [OF chk]] .
  ultimately show ?thesis
    using that call order_ext_call order_trans unfolding call_install_route_def by metis
qed

lemma order_verify_phase:
  assumes "verify_phase env re auth tx \<sigma> = (\<sigma>', Inr r)"
  obtains vo w' where "env_verify env re auth (fst \<sigma>) = (Inr vo, w')" "vo_verified vo" "R w' (fst \<sigma>')"
proof -
  obtain \<sigma>1 vo now s' where call: "call_verify env re auth \<sigma> = (\<sigma>1, Inr vo)"
    and cm: "commit vo now tx (snd \<sigma>1) = (s', Inr r)" and fin: "\<sigma>' = env_yield env (fst \<sigma>1, s')"
    using verify_phase_Inr [OF assms] by blast
  have "R (fst \<sigma>1) (fst \<sigma>')" unfolding fin using order_yield by (metis fst_conv)
  then show ?thesis
    using that call commit_Inr_verified [OF cm] order_ext_call order_trans unfolding call_verify_def by metis
qed

lemma completed_calls:
  assumes "run_attempt env p \<sigma> = (\<sigma>', Inr r)"
  obtains tx auth re gw w1 w1' ao w2 w2' ro w3 w3' vo where "snd (begin_attempt p (snd \<sigma>)) = Inr tx"
    "R (fst \<sigma>) w1" "env_activate env (tx_selected tx) auth (asg_authority_generation (tx_new tx)) w1 = (Inr ao, w1')" "ao_acknowledged ao"
    "R w1' w2" "env_install_route env re gw w2 = (Inr ro, w2')" "ro_acknowledged ro"
    "R w2' w3" "env_verify env re auth w3 = (Inr vo, w3')" "vo_verified vo" "R w3' (fst \<sigma>')"
proof -
  obtain \<sigma>b tx \<sigma>0 tx0 where b: "locked env (begin_attempt p) \<sigma> = (\<sigma>b, Inr tx)"
    and c: "checkpoint env Milestone.INTENT_ONLY None tx \<sigma>b = (\<sigma>0, Inr tx0)"
    and f: "from_fence env tx0 \<sigma>0 = (\<sigma>', Inr r)"
    using assms unfolding run_attempt_def begin_phase_def and_then_Inr_iff by blast
  have tx: "snd (begin_attempt p (snd \<sigma>)) = Inr tx" and tx0: "tx0 = tx"
    using b checkpoint_Inr [OF c] by (auto simp: locked_eq_iff)
  obtain \<sigma>1 tx1 where f1: "fence_phase env tx \<sigma>0 = (\<sigma>1, Inr tx1)"
    and a: "from_activate env (env_now env (fst \<sigma>0)) tx1 \<sigma>1 = (\<sigma>', Inr r)"
    using f unfolding from_fence_def and_then_Inr_iff tx0 by blast
  obtain auth \<sigma>2 tx2 where a1: "activate_phase env auth tx1 \<sigma>1 = (\<sigma>2, Inr tx2)"
    and ro: "from_route env auth (env_now env (fst \<sigma>0)) tx2 \<sigma>2 = (\<sigma>', Inr r)"
    using a unfolding from_activate_def and_then_Inr_iff Let_def by blast
  obtain re \<sigma>3 tx3 where r1: "route_phase env re tx2 \<sigma>2 = (\<sigma>3, Inr tx3)"
    and v: "from_verify env re auth (env_now env (fst \<sigma>0)) tx3 \<sigma>3 = (\<sigma>', Inr r)"
    using ro unfolding from_route_def and_then_Inr_iff Let_def by blast
  obtain r0 where v1: "verify_phase env re auth tx3 \<sigma>3 = (\<sigma>', Inr r0)"
    using v unfolding from_verify_def and_then_Inr_iff by auto
  have R1: "R (fst \<sigma>) (fst \<sigma>1)"
    using order_locked [OF b] order_checkpoint [OF c] order_fence_phase [OF f1] order_trans by metis
  have sel: "tx_selected tx1 = tx_selected tx" "tx_new tx1 = tx_new tx"
    using fence_phase_Inr [OF f1] by (simp_all add: same_txn_def)
  from a1 obtain ao w1' where act: "env_activate env (tx_selected tx) auth (asg_authority_generation (tx_new tx)) (fst \<sigma>1) = (Inr ao, w1')"
    "ao_acknowledged ao" "R w1' (fst \<sigma>2)" by (rule order_activate_phase) (simp add: sel)
  from r1 obtain gw ro w2' where rou: "env_install_route env re gw (fst \<sigma>2) = (Inr ro, w2')" "ro_acknowledged ro" "R w2' (fst \<sigma>3)"
    by (rule order_route_phase)
  from v1 obtain vo w3' where ver: "env_verify env re auth (fst \<sigma>3) = (Inr vo, w3')" "vo_verified vo" "R w3' (fst \<sigma>')"
    by (rule order_verify_phase)
  show ?thesis using that [OF tx R1 act rou ver] .
qed

end

section \<open>Two environments with the same behaviour\<close>

text \<open>\<open>m\<close> does in the image of a world under \<open>h\<close> what \<open>m'\<close> does in the world.\<close>

definition commutes :: "('v \<Rightarrow> 'w) \<Rightarrow> ('w, 'a) prog \<Rightarrow> ('v, 'a) prog \<Rightarrow> bool" where
  "commutes h m m' \<longleftrightarrow> (\<forall>v s. m (h v, s) = apfst (apfst h) (m' (v, s)))"

lemma commutesD: "commutes h m m' \<Longrightarrow> m (h v, s) = apfst (apfst h) (m' (v, s))"
  by (simp add: commutes_def)

lemma commutes_and_then:
  assumes "commutes h m m'" and "\<And>a. commutes h (f a) (f' a)"
  shows "commutes h (and_then m f) (and_then m' f')"
  unfolding commutes_def
proof (intro allI)
  fix v s
  obtain v' s' x where m: "m' (v, s) = ((v', s'), x)" by (metis surj_pair)
  then show "and_then m f (h v, s) = apfst (apfst h) (and_then m' f' (v, s))"
    using commutesD [OF assms(1), of v s] commutesD [OF assms(2)] by (cases x) (simp_all add: and_then_def)
qed

locale env_map =
  fixes env :: "'w CutoverEnv" and env' :: "'v CutoverEnv" and h :: "'v \<Rightarrow> 'w"
  assumes map_fence: "env_fence_old env old boot (h v) = apsnd h (env_fence_old env' old boot v)"
    and map_activate: "env_activate env c auth g (h v) = apsnd h (env_activate env' c auth g v)"
    and map_route: "env_install_route env re gw (h v) = apsnd h (env_install_route env' re gw v)"
    and map_verify: "env_verify env re auth (h v) = apsnd h (env_verify env' re auth v)"
    and map_save: "env_save_file env path snap (h v) = apfst h (env_save_file env' path snap v)"
    and map_now: "env_now env (h v) = env_now env' v"
    and map_yield: "env_yield env (h v, s) = apfst h (env_yield env' (v, s))"
begin

lemma commutes_locked: "commutes h (locked env f) (locked env' f)"
  by (simp add: commutes_def locked_def map_yield split: prod.split)

lemma commutes_ext_call:
  assumes "\<And>v. f (h v) = apsnd h (f' v)"
  shows "commutes h (ext_call env f) (ext_call env' f')"
  using assms by (auto simp: commutes_def ext_call_def map_yield split: prod.split sum.split)

lemma commutes_barrier: "commutes h (stop_at_barrier env m tx) (stop_at_barrier env' m tx)"
  unfolding commutes_def
proof (intro allI)
  fix v s
  obtain v1 x where sv: "save_checkpoint env' (v, s) = (v1, x)" by fastforce
  then have sv': "save_checkpoint env (h v, s) = (h v1, x)"
    by (auto simp: save_checkpoint_def map_save split: if_splits)
  obtain v2 s2 where y: "env_yield env' (v1, s) = (v2, s2)" by fastforce
  show "stop_at_barrier env m tx (h v, s) = apfst (apfst h) (stop_at_barrier env' m tx (v, s))"
    using sv sv' y by (cases x) (simp_all add: stop_at_barrier_def Let_def map_yield)
qed

lemma commutes_checkpoint: "commutes h (checkpoint env m rt tx) (checkpoint env' m rt tx)"
  unfolding checkpoint_def by (intro commutes_and_then commutes_locked commutes_barrier)

lemma commutes_calls:
  "commutes h (call_fence env tx) (call_fence env' tx)"
  "commutes h (call_activate env tx auth) (call_activate env' tx auth)"
  "commutes h (call_install_route env re) (call_install_route env' re)"
  "commutes h (call_verify env re auth) (call_verify env' re auth)"
proof -
  have f: "commutes h (ext_call env (env_fence_old env old boot)) (ext_call env' (env_fence_old env' old boot))" for old boot
    by (rule commutes_ext_call) (rule map_fence)
  show "commutes h (call_fence env tx) (call_fence env' tx)"
    using commutesD [OF f] by (simp add: commutes_def call_fence_def split: option.split)
  have r: "commutes h (ext_call env (env_install_route env re gw)) (ext_call env' (env_install_route env' re gw))" for gw
    by (rule commutes_ext_call) (rule map_route)
  show "commutes h (call_install_route env re) (call_install_route env' re)"
    using commutesD [OF r] by (simp add: commutes_def call_install_route_def)
  show "commutes h (call_activate env tx auth) (call_activate env' tx auth)"
    unfolding call_activate_def by (rule commutes_ext_call) (rule map_activate)
  show "commutes h (call_verify env re auth) (call_verify env' re auth)"
    unfolding call_verify_def by (rule commutes_ext_call) (rule map_verify)
qed

lemma commutes_phases:
  "commutes h (begin_phase env p) (begin_phase env' p)" "commutes h (fence_phase env tx) (fence_phase env' tx)"
  "commutes h (activate_phase env auth tx) (activate_phase env' auth tx)"
  "commutes h (route_phase env re tx) (route_phase env' re tx)"
  unfolding begin_phase_def fence_phase_def activate_phase_def route_phase_def
  by (intro commutes_and_then commutes_locked commutes_checkpoint commutes_calls)+

lemma commutes_verify_phase: "commutes h (verify_phase env re auth tx) (verify_phase env' re auth tx)"
  unfolding verify_phase_def
proof (rule commutes_and_then [OF commutes_calls(4)])
  show "commutes h (\<lambda>\<sigma>. locked env (commit vo (env_now env (fst \<sigma>)) tx) \<sigma>)
      (\<lambda>\<sigma>. locked env' (commit vo (env_now env' (fst \<sigma>)) tx) \<sigma>)" for vo
    unfolding commutes_def fst_conv map_now by (intro allI commutesD [OF commutes_locked])
qed

lemma commutes_from_verify: "commutes h (from_verify env re auth t0 tx) (from_verify env' re auth t0 tx)"
  unfolding from_verify_def
  by (rule commutes_and_then [OF commutes_verify_phase]) (simp add: commutes_def map_now)

lemma commutes_from_route: "commutes h (from_route env auth t0 tx) (from_route env' auth t0 tx)"
  using commutesD [OF commutes_and_then [OF commutes_phases(4) commutes_from_verify]]
  by (simp add: commutes_def from_route_def Let_def)

lemma commutes_from_activate: "commutes h (from_activate env t0 tx) (from_activate env' t0 tx)"
  using commutesD [OF commutes_and_then [OF commutes_phases(3) commutes_from_route]]
  by (simp add: commutes_def from_activate_def Let_def)

lemma commutes_from_fence: "commutes h (from_fence env tx) (from_fence env' tx)"
  using commutesD [OF commutes_and_then [OF commutes_phases(2) commutes_from_activate]]
  by (simp add: commutes_def from_fence_def map_now)

lemma commutes_run_attempt: "commutes h (run_attempt env p) (run_attempt env' p)"
  unfolding run_attempt_def by (intro commutes_and_then commutes_phases commutes_from_fence)

lemma map_execute_plan: "execute_plan env p (h v, s) = apfst (apfst h) (execute_plan env' p (v, s))"
  using commutesD [OF commutes_run_attempt, of p v s]
  by (auto simp: execute_plan_def split: prod.split sum.split exit.split)

end

section \<open>A platform with a log\<close>

datatype Exchange = Sent nat Frame | Asked nat Frame "Frame option"

text \<open>The world without its log, and with one.\<close>

definition unlogged :: "('n \<times> Exchange list) CoordWorld \<Rightarrow> 'n CoordWorld" where
  "unlogged w = \<lparr>cw_peers = cw_peers w, cw_workers = cw_workers w, cw_gateways = cw_gateways w, cw_stop = cw_stop w,
     cw_net = fst (cw_net w)\<rparr>"

definition with_log :: "Exchange list \<Rightarrow> 'n CoordWorld \<Rightarrow> ('n \<times> Exchange list) CoordWorld" where
  "with_log l w = \<lparr>cw_peers = cw_peers w, cw_workers = cw_workers w, cw_gateways = cw_gateways w, cw_stop = cw_stop w,
     cw_net = (cw_net w, l)\<rparr>"

abbreviation log_of :: "('n \<times> Exchange list) CoordWorld \<Rightarrow> Exchange list" where
  "log_of w \<equiv> snd (cw_net w)"

text \<open>The platform that also notes what the adapter sends and asks, and what is answered.\<close>

definition logged :: "'n Platform \<Rightarrow> ('n \<times> Exchange list) Platform" where
  "logged pf = \<lparr>pf_alive = (\<lambda>c n. pf_alive pf c (fst n)),
     pf_send = (\<lambda>c m n. (pf_send pf c m (fst n), snd n @ [Sent c m])),
     pf_request = (\<lambda>c m n. case pf_request pf c m (fst n) of (r, n') \<Rightarrow> (r, (n', snd n @ [Asked c m r]))),
     pf_save = (\<lambda>path snap n. case pf_save pf path snap (fst n) of (n', r) \<Rightarrow> ((n', snd n), r)),
     pf_now = (\<lambda>n. pf_now pf (fst n)), pf_category = pf_category pf, pf_double_to_u64 = pf_double_to_u64 pf,
     pf_yield = (\<lambda>(w, s). apfst (with_log (log_of w)) (pf_yield pf (unlogged w, s)))\<rparr>"

lemma log_simps [simp]:
  "unlogged (with_log l w) = w" "log_of (with_log l w) = l" "fst (cw_net (with_log l w)) = cw_net w"
  "cw_workers (with_log l w) = cw_workers w" "cw_gateways (with_log l w) = cw_gateways w"
  "cw_net (unlogged v) = fst (cw_net v)" "cw_workers (unlogged v) = cw_workers v" "cw_gateways (unlogged v) = cw_gateways v"
  "cw_peers (unlogged v) = cw_peers v"
  "unlogged (v\<lparr>cw_net := n\<rparr>) = (unlogged v)\<lparr>cw_net := fst n\<rparr>"
  by (simp_all add: unlogged_def with_log_def)

lemma logged_simps [simp]:
  "pf_alive (logged pf) c n = pf_alive pf c (fst n)" "pf_send (logged pf) c m n = (pf_send pf c m (fst n), snd n @ [Sent c m])"
  "pf_request (logged pf) c m n = (case pf_request pf c m (fst n) of (r, n') \<Rightarrow> (r, (n', snd n @ [Asked c m r])))"
  "pf_save (logged pf) path snap n = (case pf_save pf path snap (fst n) of (n', r) \<Rightarrow> ((n', snd n), r))"
  "pf_now (logged pf) n = pf_now pf (fst n)"
  "pf_yield (logged pf) (v, s) = apfst (with_log (log_of v)) (pf_yield pf (unlogged v, s))"
  by (simp_all add: logged_def)

lemma unlogged_lookups [simp]:
  "worker_conn (unlogged v) t = worker_conn v t" "worker_req_port (unlogged v) t = worker_req_port v t"
  "any_gateway_conn (unlogged v) = any_gateway_conn v"
  by (simp_all add: worker_conn_def worker_req_port_def any_gateway_conn_def split: option.split)

lemma unlogged_asking:
  "send_fields pf c t i ep ws (unlogged v) = apsnd unlogged (send_fields (logged pf) c t i ep ws v)"
  "request_fields pf c t i ep ws (unlogged v) = apsnd unlogged (request_fields (logged pf) c t i ep ws v)"
  by (simp_all add: send_fields_def request_fields_def conn_send_def conn_request_def split: sum.split prod.split)

text \<open>Keeping the log changes nothing else.\<close>

lemma logged_behaves: "env_map (socket_ops pf ep) (socket_ops (logged pf) ep) unlogged"
proof
  fix v
  show "env_fence_old (socket_ops pf ep) old boot (unlogged v) =
      apsnd unlogged (env_fence_old (socket_ops (logged pf) ep) old boot v)" for old boot
    by (simp add: socket_ops_def socket_fence_old_def unlogged_asking Let_def split: option.split prod.split sum.split)
  show "env_activate (socket_ops pf ep) c auth g (unlogged v) =
      apsnd unlogged (env_activate (socket_ops (logged pf) ep) c auth g v)" for c auth g
    by (simp add: socket_ops_def socket_activate_def unlogged_asking split: option.split prod.split sum.split)
  show "env_install_route (socket_ops pf ep) re gw (unlogged v) =
      apsnd unlogged (env_install_route (socket_ops (logged pf) ep) re gw v)" for re gw
    by (simp add: socket_ops_def socket_install_route_def unlogged_asking Let_def split: option.split prod.split sum.split)
  show "env_verify (socket_ops pf ep) re auth (unlogged v) =
      apsnd unlogged (env_verify (socket_ops (logged pf) ep) re auth v)" for re auth
    by (simp add: socket_ops_def socket_verify_def unlogged_asking Let_def split: option.split prod.split sum.split)
  show "env_save_file (socket_ops pf ep) path snap (unlogged v) =
      apfst unlogged (env_save_file (socket_ops (logged pf) ep) path snap v)" for path snap
    by (simp add: socket_ops_def save_via_def split: prod.split)
  show "env_now (socket_ops pf ep) (unlogged v) = env_now (socket_ops (logged pf) ep) v"
    by (simp add: socket_ops_def)
  show "env_yield (socket_ops pf ep) (unlogged v, s) = apfst unlogged (env_yield (socket_ops (logged pf) ep) (v, s))" for s
    by (cases "pf_yield pf (unlogged v, s)") (simp add: socket_ops_def)
qed

interpretation logging: env_map "socket_ops pf ep" "socket_ops (logged pf) ep" unlogged
  by (rule logged_behaves)

section \<open>Reading the log\<close>

text \<open>The registrations stay, and the log only grows.\<close>

definition later :: "('n \<times> Exchange list) CoordWorld \<Rightarrow> ('n \<times> Exchange list) CoordWorld \<Rightarrow> bool" where
  "later v v' \<longleftrightarrow> cw_workers v' = cw_workers v \<and> cw_gateways v' = cw_gateways v \<and> (\<exists>l. log_of v' = log_of v @ l)"

definition keeps_registrations :: "'n Platform \<Rightarrow> bool" where
  "keeps_registrations pf \<longleftrightarrow> (\<forall>w s. cw_workers (fst (pf_yield pf (w, s))) = cw_workers w \<and>
     cw_gateways (fst (pf_yield pf (w, s))) = cw_gateways w)"

lemma later_net [simp]:
  "later v (v\<lparr>cw_net := (n, log_of v)\<rparr>)" "later v (v\<lparr>cw_net := (n, log_of v @ l)\<rparr>)" "later v v"
  by (simp_all add: later_def)

lemma later_send: "later v (snd (send_fields (logged pf) c t i ep ws v))"
  by (simp add: send_fields_def conn_send_def split: sum.split)

lemma later_order:
  assumes "keeps_registrations pf"
  shows "world_order (socket_ops (logged pf) ep) later"
proof
  show "later v3 v1" if "later v3 v2" "later v2 v1" for v1 v2 v3 :: "('a \<times> Exchange list) CoordWorld"
    using that by (auto simp: later_def)
  show "later (fst \<sigma>) (fst (env_yield (socket_ops (logged pf) ep) \<sigma>))" for \<sigma>
    using assms by (cases \<sigma>) (simp add: socket_ops_def later_def keeps_registrations_def)
  show "later v (fst (env_save_file (socket_ops (logged pf) ep) path snap v))" for path snap v
    by (simp add: socket_ops_def save_via_def split: prod.split)
  show "later v (snd (env_fence_old (socket_ops (logged pf) ep) old boot v))" for old boot v
    using later_send [of v pf] by (auto simp: socket_ops_def socket_fence_old_def Let_def split: option.split prod.split sum.split) (metis snd_conv)+
qed simp

text \<open>A question that was answered positively is the last entry of the log.\<close>

definition confirmed :: "MsgType \<Rightarrow> MsgType \<Rightarrow> nat \<Rightarrow> bytes \<Rightarrow> Exchange \<Rightarrow> bool" where
  "confirmed t u c pl x \<longleftrightarrow> (\<exists>m a. x = Asked c m (Some a) \<and> fr_type m = t \<and> fr_payload m = pl \<and> answered_ok u (Some a) = Inr True)"

definition noted :: "('n \<times> Exchange list) CoordWorld \<Rightarrow> Exchange \<Rightarrow> ('n \<times> Exchange list) CoordWorld \<Rightarrow> bool" where
  "noted v x v' \<longleftrightarrow> cw_workers v' = cw_workers v \<and> cw_gateways v' = cw_gateways v \<and> log_of v' = log_of v @ [x]"

lemma request_noted:
  assumes "request_fields (logged pf) c t i ep ws v = (Inr resp, v')" and "answered_ok u resp = Inr True"
  obtains x pl where "noted v x v'" "confirmed t u c pl x" "pw_finish ws = Inr pl"
proof -
  obtain a where a: "resp = Some a" using assms(2) by (cases resp) (simp_all add: answered_ok_def)
  obtain pl where pl: "pw_finish ws = Inr pl"
    using assms(1) by (auto simp: request_fields_def split: sum.splits)
  have "noted v (Asked c (mk_frame t i ep pl) (Some a)) v'"
    using assms(1) pl a
    by (auto simp: noted_def request_fields_def conn_request_def split: sum.splits if_splits prod.splits)
  moreover have "confirmed t u c pl (Asked c (mk_frame t i ep pl) (Some a))"
    using assms(2) a by (simp add: confirmed_def)
  ultimately show ?thesis using that pl by blast
qed

lemma activation_noted:
  assumes "socket_activate (logged pf) ep cand auth g v = (Inr ao, v')" and "ao_acknowledged ao"
  obtains c x pl where "worker_conn v (id_value (cand_target cand)) = Some c" "noted v x v'"
    "confirmed MsgType.ACTIVATE_TARGET MsgType.ACTIVATE_RESULT c pl x" "pw_finish (activate_fields cand) = Inr pl"
proof -
  obtain c resp where "worker_conn v (id_value (cand_target cand)) = Some c"
    "request_fields (logged pf) c MsgType.ACTIVATE_TARGET 9102 ep (activate_fields cand) v = (Inr resp, v')"
    "answered_ok MsgType.ACTIVATE_RESULT resp = Inr True"
    using assms by (auto simp: socket_activate_def activation_outcome_def bindE_eq_Inr_iff
        split: option.splits if_splits prod.splits sum.splits)
  then show ?thesis using that request_noted by metis
qed

lemma route_noted:
  assumes "socket_install_route (logged pf) ep e boot v = (Inr ro, v')" and "ro_acknowledged ro"
  obtains c x pl where "map_of (cw_gateways v) (id_value boot) = Some c" "noted v x v'"
    "confirmed MsgType.INSTALL_ROUTE MsgType.ROUTE_ACK c pl x"
proof -
  obtain c resp ws where "map_of (cw_gateways v) (id_value boot) = Some c"
    "request_fields (logged pf) c MsgType.INSTALL_ROUTE 9103 ep ws v = (Inr resp, v')"
    "answered_ok MsgType.ROUTE_ACK resp = Inr True"
    using assms by (auto simp: socket_install_route_def route_outcome_def bindE_eq_Inr_iff Let_def
        split: option.splits if_splits prod.splits sum.splits)
  then show ?thesis using that request_noted by metis
qed

lemma verification_noted:
  assumes "socket_verify (logged pf) ep re auth v = (Inr vo, v')" and "vo_verified vo"
  obtains c x pl where "any_gateway_conn v = Some c" "noted v x v'"
    "confirmed MsgType.VERIFY_SERVICE MsgType.VERIFY_SERVICE c pl x"
proof -
  have ok: "answered_ok MsgType.VERIFY_SERVICE resp = Inr True" if "read_verification resp = Inr vo" for resp
    using that assms(2)
    by (auto simp: read_verification_def answered_ok_def bindE_eq_Inr_iff Let_def split: option.splits if_splits)
  obtain c resp ws where "any_gateway_conn v = Some c"
    "request_fields (logged pf) c MsgType.VERIFY_SERVICE 9104 ep ws v = (Inr resp, v')" "read_verification resp = Inr vo"
    using assms by (auto simp: socket_verify_def Let_def split: option.splits if_splits prod.splits sum.splits)
  then show ?thesis using that request_noted ok by metis
qed

lemma socket_ops_calls:
  "env_activate (socket_ops pf ep) = socket_activate pf ep" "env_install_route (socket_ops pf ep) = socket_install_route pf ep"
  "env_verify (socket_ops pf ep) = socket_verify pf ep"
  by (simp_all add: socket_ops_def)

text \<open>What the log of a completed attempt shows, in this order.\<close>

lemma completed_log:
  assumes "keeps_registrations pf" and "run_attempt (socket_ops (logged pf) ep) p (v, s) = ((v', s'), Inr r)"
  obtains tx b c1 c2 c3 x1 x2 x3 pl1 pl2 pl3 l0 l1 l2 l3 where "admitted p s tx"
    "worker_conn v (id_value (cand_target (tx_selected tx))) = Some c1" "map_of (cw_gateways v) b = Some c2" "any_gateway_conn v = Some c3"
    "confirmed MsgType.ACTIVATE_TARGET MsgType.ACTIVATE_RESULT c1 pl1 x1" "pw_finish (activate_fields (tx_selected tx)) = Inr pl1"
    "confirmed MsgType.INSTALL_ROUTE MsgType.ROUTE_ACK c2 pl2 x2"
    "confirmed MsgType.VERIFY_SERVICE MsgType.VERIFY_SERVICE c3 pl3 x3"
    "log_of v' = log_of v @ l0 @ [x1] @ l1 @ [x2] @ l2 @ [x3] @ l3"
proof -
  obtain tx auth re gw w1 w1' ao w2 w2' ro w3 w3' vo where tx: "snd (begin_attempt p s) = Inr tx"
    and l: "later v w1" "later w1' w2" "later w2' w3" "later w3' v'"
    and a: "socket_activate (logged pf) ep (tx_selected tx) auth (asg_authority_generation (tx_new tx)) w1 = (Inr ao, w1')" "ao_acknowledged ao"
    and ro: "socket_install_route (logged pf) ep re gw w2 = (Inr ro, w2')" "ro_acknowledged ro"
    and ve: "socket_verify (logged pf) ep re auth w3 = (Inr vo, w3')" "vo_verified vo"
    using world_order.completed_calls [OF later_order [OF assms(1)] assms(2)] unfolding socket_ops_calls fst_conv snd_conv .
  obtain c1 x1 pl1 where 1: "worker_conn w1 (id_value (cand_target (tx_selected tx))) = Some c1" "noted w1 x1 w1'"
    "confirmed MsgType.ACTIVATE_TARGET MsgType.ACTIVATE_RESULT c1 pl1 x1" "pw_finish (activate_fields (tx_selected tx)) = Inr pl1"
    using activation_noted [OF a] .
  obtain c2 x2 pl2 where 2: "map_of (cw_gateways w2) (id_value gw) = Some c2" "noted w2 x2 w2'"
    "confirmed MsgType.INSTALL_ROUTE MsgType.ROUTE_ACK c2 pl2 x2"
    using route_noted [OF ro] .
  obtain c3 x3 pl3 where 3: "any_gateway_conn w3 = Some c3" "noted w3 x3 w3'"
    "confirmed MsgType.VERIFY_SERVICE MsgType.VERIFY_SERVICE c3 pl3 x3"
    using verification_noted [OF ve] .
  have reg: "cw_workers w1 = cw_workers v" "cw_gateways w2 = cw_gateways v" "cw_gateways w3 = cw_gateways v"
    using l 1(2) 2(2) by (simp_all add: later_def noted_def)
  obtain l0 l1 l2 l3 where "log_of w1 = log_of v @ l0" "log_of w2 = log_of w1' @ l1" "log_of w3 = log_of w2' @ l2"
    "log_of v' = log_of w3' @ l3" using l unfolding later_def by blast
  then have "log_of v' = log_of v @ l0 @ [x1] @ l1 @ [x2] @ l2 @ [x3] @ l3"
    using 1(2) 2(2) 3(2) by (simp add: noted_def)
  moreover have "worker_conn v (id_value (cand_target (tx_selected tx))) = Some c1" "map_of (cw_gateways v) (id_value gw) = Some c2"
    "any_gateway_conn v = Some c3" using 1(1) 2(1) 3(1) reg by (simp_all add: worker_conn_def any_gateway_conn_def)
  ultimately show ?thesis using that begin_attempt_admitted [OF tx] 1(3,4) 2(3) 3(3) by blast
qed

interpretation serial_log: world_order "socket_ops (logged (serial_platform pf)) ep" later
  by (rule later_order) (simp add: keeps_registrations_def)

end
