(* ===== verification/Whole_System.thy ===== *)
theory Whole_System
  imports Adapter_Props
begin

text \<open>
  The processes together. The coordinator's network has the modelled processes at its other end:
  the worker that is replaced on connection 0, the replacement on connection 1 and the gateway on
  connection 2, each running the control loop of its own model; the gateway reaches the
  replacement's request port. A failover is then a conversation of the four models. Requests are
  delivered and answered before the coordinator goes on; a frame that is sent without waiting for
  an answer, such as the FENCE, may get lost.
\<close>

section \<open>A network of modelled processes\<close>

record Net =
  nw_old :: WorkerState
  nw_new :: WorkerState
  nw_gateway :: GatewayState

text \<open>
  The configurations of the two workers, the port of the replacement, what its files do, whether
  frames that nobody acknowledges arrive, and the clock.
\<close>

record Deployment =
  dp_old :: WorkerConfig
  dp_new :: WorkerConfig
  dp_port :: "16 word"
  dp_io :: WriteOutcome
  dp_files :: files
  dp_sends_arrive :: bool
  dp_clock :: "Net \<Rightarrow> int"

text \<open>
  A request at the replacement's port. (The count of committed requests it keeps is not carried
  back into the network: nothing in a failover reads it.)
\<close>

definition ask_replacement :: "Deployment \<Rightarrow> WorkerState \<Rightarrow> worker_call" where
  "ask_replacement d st host port m =
     (if host = ''127.0.0.1'' \<and> port = dp_port d
      then (case worker_request (dp_new d) (dp_io d) (Some m) (dp_files d) st of
              Inr (_, _, Some r) \<Rightarrow> Response r
            | _ \<Rightarrow> NoResponse)
      else NoConnection)"

definition deliver :: "Deployment \<Rightarrow> nat \<Rightarrow> Frame \<Rightarrow> Net \<Rightarrow> Frame option \<times> Net" where
  "deliver d c m n =
     (if c = 0 then
        (case worker_control (dp_old d) m (nw_old n) of
           Inr (st, ack, _) \<Rightarrow> (ack, n\<lparr>nw_old := st\<rparr>) | Inl _ \<Rightarrow> (None, n))
      else if c = 1 then
        (case worker_control (dp_new d) m (nw_new n) of
           Inr (st, ack, _) \<Rightarrow> (ack, n\<lparr>nw_new := st\<rparr>) | Inl _ \<Rightarrow> (None, n))
      else
        (case gateway_control (ask_replacement d (nw_new n)) m (nw_gateway n) of
           Inr (g, ack) \<Rightarrow> (ack, n\<lparr>nw_gateway := g\<rparr>) | Inl _ \<Rightarrow> (None, n)))"

definition system_platform :: "Deployment \<Rightarrow> Net Platform" where
  "system_platform d = \<lparr>pf_alive = (\<lambda>c _. c < 3), 
     pf_send = (\<lambda>c m n. if dp_sends_arrive d then snd (deliver d c m n) else n), pf_request = deliver d,
     pf_save = (\<lambda>_ _ n. (n, Inr ())), pf_now = dp_clock d, pf_category = (\<lambda>_. FailureCategory.UNKNOWN_FAILURE),
     pf_double_to_u64 = (\<lambda>_. 0), pf_yield = (\<lambda>\<sigma>. \<sigma>)\<rparr>"

lemma system_platform_simps [simp]:
  "pf_alive (system_platform d) c n = (c < 3)" 
  "pf_send (system_platform d) c m n = (if dp_sends_arrive d then snd (deliver d c m n) else n)"
  "pf_request (system_platform d) = deliver d" "pf_yield (system_platform d) \<sigma> = \<sigma>"
  by (simp_all add: system_platform_def)

section \<open>The conversations\<close>

lemma request_short:
  assumes "ws = map put_field fl" and "short_fields fl" and "pf_alive pf c (cw_net w)"
  shows "request_fields pf c t i ep ws w =
    (case pf_request pf c (mk_frame t i ep (concat (map field_bytes fl))) (cw_net w) of (r, n) \<Rightarrow> (Inr r, w\<lparr>cw_net := n\<rparr>))"
proof -
  obtain bs where "encode_frame (mk_frame t i ep (concat (map field_bytes fl))) = Inr bs"
    using encode_short assms(2) unfolding short_fields_def by blast
  then show ?thesis using assms finish_short by (simp add: request_fields_def conn_request_def)
qed

lemma ok_message:
  obtains m where "send_msg t i ep [pw_bool fid_ok True] = Inr m" "fr_type m = t"
    "payload_fields (fr_payload m) = Inr [field_bool fid_ok True]" "answered_ok t (Some m) = Inr True"
proof -
  have "\<exists>m. send_msg t i ep [pw_bool fid_ok True] = Inr m \<and> fr_type m = t \<and>
      payload_fields (fr_payload m) = Inr [field_bool fid_ok True]"
    by (rule small_msg) (simp_all add: writer_fields valid_field_def)
  then show ?thesis using that by (auto simp: answered_ok_def opt_field_def pr_simps)
qed

lemma worker_fenced:
  "fr_type m = MsgType.FENCE_ASSIGNMENT \<Longrightarrow> deliver d 0 m n = (None, n\<lparr>nw_old := (nw_old n)\<lparr>wk_active := False\<rparr>\<rparr>)"
  by (simp add: deliver_def worker_control_def)

lemma worker_activated:
  assumes "fr_type m = MsgType.ACTIVATE_TARGET" and "\<not> wc_withhold_activate (dp_new d)"
  obtains ack where "deliver d 1 m n = (Some ack, n\<lparr>nw_new := (nw_new n)\<lparr>wk_active := True\<rparr>\<rparr>)"
    "answered_ok MsgType.ACTIVATE_RESULT (Some ack) = Inr True"
proof -
  obtain ack where "send_msg MsgType.ACTIVATE_RESULT (fr_msg_id m) (fr_epoch m) [pw_bool fid_ok True] = Inr ack"
    "answered_ok MsgType.ACTIVATE_RESULT (Some ack) = Inr True" using ok_message by metis
  then show ?thesis using assms that by (simp add: deliver_def worker_control_def)
qed

lemma gateway_routed:
  assumes "fr_type m = MsgType.INSTALL_ROUTE" and "payload_fields (fr_payload m) = Inr (route_fields e)"
  obtains ack g re st where "deliver d 2 m n = (Some ack, n\<lparr>nw_gateway := g\<rparr>)"
    "answered_ok MsgType.ROUTE_ACK (Some ack) = Inr True"
    "gw_routes g = map_put (id_value (sk_slot (re_slot e))) (re, st) (gw_routes (nw_gateway n))"
    "re_transport re = re_transport e" "re_permitted_boot re = re_permitted_boot e"
proof -
  obtain ack where "send_msg MsgType.ROUTE_ACK (fr_msg_id m) (fr_epoch m) [pw_bool fid_ok True] = Inr ack"
    "answered_ok MsgType.ROUTE_ACK (Some ack) = Inr True" using ok_message by metis
  then show ?thesis
    using assms that by (simp add: deliver_def gateway_control_def gateway_install_def route_fields_read Let_def)
qed

lemma tcp_transport_short: "length (tcp_transport port) \<le> 25"
proof -
  have "unat port < 65536" using unsigned_less [of port] by simp
  then have "unat port < 10 ^ Suc 4" by simp
  from decimal_length [OF this] show ?thesis by (simp add: tcp_transport_def)
qed

text \<open>What the gateway gets from the replacement for the operands \<open>a\<close> and \<open>b\<close>.\<close>

lemma replacement_computes:
  assumes "parse_tcp_transport (re_transport re) = (True, ''127.0.0.1'', dp_port d)"
    and "id_value (re_permitted_boot re) = wc_boot (dp_new d)" and "wk_active st" and "a \<notin> {0xDBAD, 0xBEEF, 0xC0FFEE}"
  shows "compute_on_worker (ask_replacement d st) ep re a b = Inr (decimal (unat (reference_result a b)), True, False)"
proof -
  let ?fl = "[field_u64 fid_input_a a, field_u64 fid_input_b b, field_u64 fid_boot (wc_boot (dp_new d)), field_str fid_operation ''serve'']"
  let ?d = "map (\<lambda>c. of_nat (of_char c)) (decimal (unat (reference_result a b))) :: bytes"
  have "\<exists>m. send_msg MsgType.VERIFY_SERVICE 1001 ep (compute_fields re a b) = Inr m \<and> fr_type m = MsgType.VERIFY_SERVICE \<and>
      payload_fields (fr_payload m) = Inr ?fl"
    by (rule small_msg) (use assms(2) in \<open>simp_all add: compute_fields_def writer_fields valid_field_def\<close>)
  then obtain m where m: "send_msg MsgType.VERIFY_SERVICE 1001 ep (compute_fields re a b) = Inr m"
    "payload_fields (fr_payload m) = Inr ?fl" by blast
  have "request_inputs (Some m) = Inr (a, b, wc_boot (dp_new d))"
    using m(2) by (simp add: request_inputs_def opt_field_def pr_simps)
  from active_worker_result [OF this assms(4,3)] obtain r where r: "ask_replacement d st ''127.0.0.1'' (dp_port d) m = Response r"
    "fr_type r = MsgType.EXECUTION_RESULT" "payload_fields (fr_payload r) = Inr [field_bool fid_ok True, field_bytes_of fid_payload ?d]"
    unfolding ask_replacement_def by (metis (no_types, lifting) option.case(2) prod.case sum.case(2))
  have "read_result r = Inr (True, decimal (unat (reference_result a b)))"
    using r(3) by (simp add: read_result_def pr_simps comp_def)
  then show ?thesis using assms(1) m(1) r(1,2) by (simp add: compute_on_worker_def)
qed

lemma gateway_verified:
  assumes "fr_type m = MsgType.VERIFY_SERVICE"
    and "payload_fields (fr_payload m) = Inr [field_u64 fid_input_a 7, field_u64 fid_input_b 11, field_str fid_operation ''verify'']"
    and "gw_routes (nw_gateway n) = (k, re, st) # rest"
    and "parse_tcp_transport (re_transport re) = (True, ''127.0.0.1'', dp_port d)"
    and "id_value (re_permitted_boot re) = wc_boot (dp_new d)" and "wk_active (nw_new n)"
  obtains reply g vo where "deliver d 2 m n = (Some reply, n\<lparr>nw_gateway := g\<rparr>)" "gw_routes g = gw_routes (nw_gateway n)"
    "read_verification (Some reply) = Inr vo" "vo_verified vo"
proof -
  let ?r = "decimal (unat (reference_result 7 11))" and ?ask = "ask_replacement d (nw_new n)"
  let ?p = "map (\<lambda>c. of_nat (of_char c)) ?r :: bytes"
  let ?g = "(nw_gateway n)\<lparr>gw_epoch := fr_epoch m\<rparr>"
  have ne: "?r \<noteq> []" by (subst decimal.simps) simp
  have comp: "compute_on_worker ?ask (gw_epoch ?g) re 7 11 = Inr (?r, True, False)"
    by (rule replacement_computes [OF assms(4-6)]) simp
  have "\<exists>reply. send_msg MsgType.VERIFY_SERVICE (fr_msg_id m) (fr_epoch m) (pw_bool fid_ok True # payload_of ?r) = Inr reply \<and>
      fr_type reply = MsgType.VERIFY_SERVICE \<and> payload_fields (fr_payload reply) = Inr [field_bool fid_ok True, field_bytes_of fid_payload ?p]"
    by (rule small_msg) (use ne decimal_word_length [of "reference_result 7 11"] in
        \<open>simp_all add: payload_of_def writer_fields valid_field_def\<close>)
  then obtain reply where r: "send_msg MsgType.VERIFY_SERVICE (fr_msg_id m) (fr_epoch m) (pw_bool fid_ok True # payload_of ?r) = Inr reply"
    "fr_type reply = MsgType.VERIFY_SERVICE" "payload_fields (fr_payload reply) = Inr [field_bool fid_ok True, field_bytes_of fid_payload ?p]"
    by blast
  have in_ab: "pr_u64 [field_u64 fid_input_a 7, field_u64 fid_input_b 11, field_str fid_operation ''verify''] fid_input_a = Inr 7"
    "pr_u64 [field_u64 fid_input_a 7, field_u64 fid_input_b 11, field_str fid_operation ''verify''] fid_input_b = Inr 11"
    by (simp_all add: pr_simps)
  have "gateway_verify ?ask m ?g = Inr (?g, Some reply)"
    unfolding gateway_verify_def assms(2) bindE_Inr in_ab
    using assms(3) comp r(1) by (simp add: parity_def)
  then have "deliver d 2 m n = (Some reply, n\<lparr>nw_gateway := ?g\<rparr>)"
    using assms(1) by (simp add: deliver_def gateway_control_def Let_def)
  moreover obtain vo where "read_verification (Some reply) = Inr vo" "vo_verified vo"
    using r(2,3) by (simp add: read_verification_def opt_field_def pr_simps)
  ultimately show ?thesis using that by simp
qed

section \<open>A failover of the whole system\<close>

text \<open>
  The peers are registered where the attempt looks for them: the current gateway as the first
  one, since any gateway may be asked to verify.
\<close>

definition deployed :: "Deployment \<Rightarrow> Txn \<Rightarrow> GatewayBootId \<Rightarrow> Net CoordWorld \<Rightarrow> bool" where
  "deployed d tx gw w \<longleftrightarrow>
     (\<exists>rest. cw_gateways w = (id_value gw, 2) # rest) \<and> map_of (cw_workers w) (id_value (cand_target (tx_selected tx))) = Some 1 \<and>
     (\<forall>old. tx_old tx = Some old \<longrightarrow> map_of (cw_workers w) (id_value (asg_target old)) = Some 0) \<and>
     pe_req_port (cw_peers w ! 1) = dp_port d"

abbreviation slot_key :: "Txn \<Rightarrow> u64" where
  "slot_key tx \<equiv> id_value (sk_slot (tx_slot tx))"

text \<open>No slot comes before this one in the gateway's table, whose first route is the one it verifies.\<close>

definition slot_first :: "Txn \<Rightarrow> Net CoordWorld \<Rightarrow> bool" where
  "slot_first tx w \<longleftrightarrow> (\<forall>k \<in> fst ` set (gw_routes (nw_gateway (cw_net w))). slot_key tx \<le> k)"

text \<open>What holds after each of the four calls: the old worker has stopped if the FENCE arrived; the
  replacement is active; the gateway's route for the slot leads to it.\<close>

definition stage :: "Deployment \<Rightarrow> Txn \<Rightarrow> GatewayBootId \<Rightarrow> nat \<Rightarrow> Net CoordWorld \<Rightarrow> bool" where
  "stage d tx gw i w \<longleftrightarrow> deployed d tx gw w \<and> slot_first tx w \<and>
     (1 \<le> i \<longrightarrow> tx_old tx \<noteq> None \<longrightarrow> dp_sends_arrive d \<longrightarrow> \<not> wk_active (nw_old (cw_net w))) \<and>
     (2 \<le> i \<longrightarrow> wk_active (nw_new (cw_net w))) \<and>
     (3 \<le> i \<longrightarrow> (\<exists>re st rest. gw_routes (nw_gateway (cw_net w)) = (slot_key tx, re, st) # rest \<and>
        parse_tcp_transport (re_transport re) = (True, ''127.0.0.1'', dp_port d) \<and>
        id_value (re_permitted_boot re) = wc_boot (dp_new d)))"

lemma map_put_first:
  assumes "\<forall>x \<in> fst ` set m. k \<le> x"
  shows "\<exists>rest. map_put k v m = (k, v) # rest"
  using assms by (cases m) auto

lemma deployed_net [simp]: "deployed d tx gw (w\<lparr>cw_net := n\<rparr>) = deployed d tx gw w"
  by (simp add: deployed_def)

lemma stage_fence:
  assumes "stage d tx gw 0 w" and "tx_old tx = Some old"
  shows "\<exists>fo w'. socket_fence_old (system_platform d) ep old b w = (Inr fo, w') \<and> stage d tx gw 1 w' \<and>
    fo_applied fo \<and> \<not> fo_fencing_unproven fo"
proof -
  let ?fl = "[field_u64 fid_target (id_value (asg_target old))]"
  have sh: "[pw_u64 fid_target (id_value (asg_target old))] = map put_field ?fl" "short_fields ?fl"
    by (simp_all add: writer_fields short_fields_def valid_field_def)
  obtain bs where enc: "encode_frame (mk_frame MsgType.FENCE_ASSIGNMENT 9101 ep (concat (map field_bytes ?fl))) = Inr bs"
    using encode_short sh(2) unfolding short_fields_def by blast
  let ?n = "if dp_sends_arrive d then (cw_net w)\<lparr>nw_old := (nw_old (cw_net w))\<lparr>wk_active := False\<rparr>\<rparr> else cw_net w"
  have "send_fields (system_platform d) 0 MsgType.FENCE_ASSIGNMENT 9101 ep [pw_u64 fid_target (id_value (asg_target old))] w =
      (Inr (), w\<lparr>cw_net := ?n\<rparr>)"
    using enc finish_short [OF sh(2)] by (simp add: send_fields_def sh(1) conn_send_def worker_fenced del: list.map)
  moreover have "worker_conn w (id_value (asg_target old)) = Some 0"
    using assms by (simp add: stage_def deployed_def worker_conn_def)
  moreover have "stage d tx gw 1 (w\<lparr>cw_net := ?n\<rparr>)" using assms(1) by (simp add: stage_def slot_first_def)
  ultimately show ?thesis by (simp add: socket_fence_old_def Let_def default_FenceOutcome_def)
qed

lemma stage_activate:
  assumes "stage d tx gw 1 w" and "\<not> wc_withhold_activate (dp_new d)"
  shows "\<exists>ao w'. socket_activate (system_platform d) ep (tx_selected tx) auth g w = (Inr ao, w') \<and> stage d tx gw 2 w' \<and>
    ao_acknowledged ao"
proof -
  let ?c = "tx_selected tx"
  let ?fl = "[field_u64 fid_target (id_value (cand_target ?c)), field_u64 fid_boot (id_value (cand_boot ?c)),
    field_u64 fid_incarnation (id_value (cf_engine_incarnation (cand_facts ?c)))]"
  have sh: "activate_fields ?c = map put_field ?fl" "short_fields ?fl"
    by (simp_all add: activate_fields_def writer_fields short_fields_def valid_field_def)
  obtain ack where ack: "deliver d 1 (mk_frame MsgType.ACTIVATE_TARGET 9102 ep (concat (map field_bytes ?fl))) (cw_net w) =
      (Some ack, (cw_net w)\<lparr>nw_new := (nw_new (cw_net w))\<lparr>wk_active := True\<rparr>\<rparr>)" "answered_ok MsgType.ACTIVATE_RESULT (Some ack) = Inr True"
    using worker_activated [OF _ assms(2)] by (metis Frame.select_convs(1))
  let ?w = "w\<lparr>cw_net := (cw_net w)\<lparr>nw_new := (nw_new (cw_net w))\<lparr>wk_active := True\<rparr>\<rparr>\<rparr>"
  have "request_fields (system_platform d) 1 MsgType.ACTIVATE_TARGET 9102 ep (activate_fields ?c) w = (Inr (Some ack), ?w)"
    using request_short [OF sh, of "system_platform d" 1 w] ack(1) by simp
  moreover have "worker_conn w (id_value (cand_target ?c)) = Some 1"
    using assms by (simp add: stage_def deployed_def worker_conn_def)
  moreover have "stage d tx gw 2 ?w" using assms(1) by (simp add: stage_def slot_first_def)
  ultimately show ?thesis using ack(2) by (simp add: socket_activate_def activation_outcome_def)
qed

lemma stage_route:
  assumes "stage d tx gw 2 w" and "wc_boot (dp_new d) = id_value (cand_boot (tx_selected tx))"
    and "asg_target (tx_new tx) = cand_target (tx_selected tx)"
  shows "\<exists>ro w'. socket_install_route (system_platform d) ep (route_for tx s) gw w = (Inr ro, w') \<and> stage d tx gw 3 w' \<and>
    ro_acknowledged ro"
proof -
  let ?e = "(route_for tx s)\<lparr>re_transport := tcp_transport (dp_port d)\<rparr>"
  have port: "worker_req_port w (id_value (re_target (route_for tx s))) = dp_port d"
    using assms(1,3) by (simp add: stage_def deployed_def worker_req_port_def route_for_def Let_def)
  have len: "length (re_transport ?e) \<le> 16777216" using tcp_transport_short [of "dp_port d"] by simp
  have sh: "short_fields (route_fields ?e)"
    using route_fields_written(2) [OF len] tcp_transport_short [of "dp_port d"]
    by (simp add: short_fields_def route_fields_def)
  let ?m = "mk_frame MsgType.INSTALL_ROUTE 9103 ep (concat (map field_bytes (route_fields ?e)))"
  have pl: "payload_fields (fr_payload ?m) = Inr (route_fields ?e)"
    using sh by (simp add: short_fields_def payload_fields_Inr)
  obtain ack g re st where ack: "deliver d 2 ?m (cw_net w) = (Some ack, (cw_net w)\<lparr>nw_gateway := g\<rparr>)"
    "answered_ok MsgType.ROUTE_ACK (Some ack) = Inr True"
    "gw_routes g = map_put (id_value (sk_slot (re_slot ?e))) (re, st) (gw_routes (nw_gateway (cw_net w)))"
    "re_transport re = re_transport ?e" "re_permitted_boot re = re_permitted_boot ?e"
    using gateway_routed [OF _ pl] by (metis Frame.select_convs(1))
  have slot: "id_value (sk_slot (re_slot ?e)) = slot_key tx" by (simp add: route_for_def Let_def)
  have first: "\<forall>x \<in> fst ` set (gw_routes (nw_gateway (cw_net w))). slot_key tx \<le> x"
    using assms(1) by (simp add: stage_def slot_first_def)
  then obtain rest where "gw_routes g = (slot_key tx, re, st) # rest"
    using ack(3) map_put_first unfolding slot by metis
  moreover have "\<forall>x \<in> fst ` set (gw_routes g). slot_key tx \<le> x"
    using first set_map_put [of "slot_key tx" "(re, st)" "gw_routes (nw_gateway (cw_net w))"] ack(3) unfolding slot by simp
  moreover have "parse_tcp_transport (re_transport re) = (True, ''127.0.0.1'', dp_port d)"
    using ack(4) parse_tcp_transport_tcp by simp
  moreover have "id_value (re_permitted_boot re) = wc_boot (dp_new d)"
    using ack(5) assms(2) by (simp add: route_for_def Let_def)
  ultimately have st: "stage d tx gw 3 (w\<lparr>cw_net := (cw_net w)\<lparr>nw_gateway := g\<rparr>\<rparr>)"
    using assms(1) by (simp add: stage_def slot_first_def)
  have "request_fields (system_platform d) 2 MsgType.INSTALL_ROUTE 9103 ep (encode_route_entry ?e) w =
      (Inr (Some ack), w\<lparr>cw_net := (cw_net w)\<lparr>nw_gateway := g\<rparr>\<rparr>)"
    using request_short [OF route_fields_written(1) [OF len] sh, of "system_platform d" 2 w] ack(1) by simp
  moreover have "map_of (cw_gateways w) (id_value gw) = Some 2" using assms(1) by (auto simp: stage_def deployed_def)
  ultimately show ?thesis
    using st ack(2) by (simp add: socket_install_route_def port route_outcome_def Let_def)
qed

lemma stage_verify:
  assumes "stage d tx gw 3 w"
  shows "\<exists>vo w'. socket_verify (system_platform d) ep re auth w = (Inr vo, w') \<and> stage d tx gw 4 w' \<and> vo_verified vo"
proof -
  let ?fl = "[field_u64 fid_input_a 7, field_u64 fid_input_b 11, field_str fid_operation ''verify'']"
  have sh: "[pw_u64 fid_input_a 7, pw_u64 fid_input_b 11, pw_str fid_operation ''verify''] = map put_field ?fl" "short_fields ?fl"
    by (simp_all add: writer_fields short_fields_def valid_field_def)
  let ?m = "mk_frame MsgType.VERIFY_SERVICE 9104 ep (concat (map field_bytes ?fl))"
  have pl: "payload_fields (fr_payload ?m) = Inr ?fl" using sh(2) by (simp add: short_fields_def payload_fields_Inr del: list.map)
  obtain re' st rest where r: "gw_routes (nw_gateway (cw_net w)) = (slot_key tx, re', st) # rest"
    "parse_tcp_transport (re_transport re') = (True, ''127.0.0.1'', dp_port d)"
    "id_value (re_permitted_boot re') = wc_boot (dp_new d)" "wk_active (nw_new (cw_net w))"
    using assms by (auto simp: stage_def)
  obtain reply g vo where v: "deliver d 2 ?m (cw_net w) = (Some reply, (cw_net w)\<lparr>nw_gateway := g\<rparr>)"
    "gw_routes g = gw_routes (nw_gateway (cw_net w))" "read_verification (Some reply) = Inr vo" "vo_verified vo"
    using gateway_verified [OF _ pl r] by (metis Frame.select_convs(1))
  have "request_fields (system_platform d) 2 MsgType.VERIFY_SERVICE 9104 ep
      [pw_u64 fid_input_a 7, pw_u64 fid_input_b 11, pw_str fid_operation ''verify''] w =
      (Inr (Some reply), w\<lparr>cw_net := (cw_net w)\<lparr>nw_gateway := g\<rparr>\<rparr>)"
    using request_short [OF sh, of "system_platform d" 2 w] v(1) by simp
  moreover have "any_gateway_conn w = Some 2" using assms by (auto simp: stage_def deployed_def any_gateway_conn_def)
  moreover have "stage d tx gw 4 (w\<lparr>cw_net := (cw_net w)\<lparr>nw_gateway := g\<rparr>\<rparr>)"
    using assms v(2) by (simp add: stage_def slot_first_def)
  ultimately show ?thesis using v(3,4) by (simp add: socket_verify_def Let_def)
qed

lemma system_cooperates:
  assumes "wc_boot (dp_new d) = id_value (cand_boot (tx_selected tx))" and "\<not> wc_withhold_activate (dp_new d)"
    and "asg_target (tx_new tx) = cand_target (tx_selected tx)"
  shows "cooperative (stage d tx gw) tx gw (socket_ops (system_platform d) ep)"
  unfolding cooperative_def socket_ops_def CutoverEnv.simps
proof (intro conjI allI impI)
  show "stage d tx gw 1 w" if "tx_old tx = None" "stage d tx gw 0 w" for w
    using that by (simp add: stage_def)
qed (rule stage_fence stage_activate stage_route stage_verify; (rule assms | assumption))+

lemma system_serial: "serial_env (socket_ops (system_platform d) ep) = socket_ops (system_platform d) ep"
  by (simp add: serial_env_def socket_ops_def system_platform_def)

lemma system_failover:
  assumes "snd (begin_attempt p s) = Inr tx" and "fs_checkpoint_path s = []"
    and "fs_barrier_milestone s = Milestone.VERIFICATION_COMPLETE" and "stage d tx (fs_gateway_boot s) 0 w"
    and "wc_boot (dp_new d) = id_value (cand_boot (tx_selected tx))" and "\<not> wc_withhold_activate (dp_new d)"
  obtains w' s' r where "execute_plan (socket_ops (system_platform d) ep) p (w, s) = ((w', s'), Inr r)"
    "ar_state r = AttemptState.COMPLETED" "stage d tx (fs_gateway_boot s) 4 w'"
proof -
  let ?env = "socket_ops (system_platform d) ep"
  have "asg_target (tx_new tx) = cand_target (tx_selected tx)"
    using begin_attempt_admitted [OF assms(1)] by (simp add: admitted_def)
  then have "cooperative (stage d tx (fs_gateway_boot s)) tx (fs_gateway_boot s) ?env"
    by (rule system_cooperates [OF assms(5,6)])
  moreover have "unhindered (authority_view s) (fs_gateway_boot s) s" using assms(2,3) by (simp add: unhindered_def)
  ultimately obtain w' s' r where "run_attempt ?env p (w, s) = ((w', s'), Inr r)" "stage d tx (fs_gateway_boot s) 4 w'"
    using serial_run_attempt [where W = "stage d tx (fs_gateway_boot s)" and env = ?env, OF assms(1) _ assms(4)] unfolding system_serial by metis
  then show ?thesis using that execute_plan_completed_iff by blast
qed

text \<open>
  C4. A failover of the whole system, with the modelled worker, replacement and gateway at the
  other ends of the coordinator's connections. The network delivers and answers requests in
  order and loses none; frames sent without an acknowledgment may be lost; nothing else runs
  meanwhile. Suppose the attempt is admitted, nothing is set to interrupt it, the two workers and
  the current gateway are registered, that gateway as the first one (any may be asked to verify),
  no slot comes before this one in the gateway's table (it verifies its first route, whatever
  slot that is for), and the replacement runs under the boot that was selected and acknowledges
  its activation. Then the failover completes; afterwards the old worker has stopped serving,
  provided that the FENCE arrived; the replacement is active; the gateway has a route for the
  slot; and for any ordinary operands it gets the reference result through that route.
\<close>

theorem failover_switches_over:
  assumes "snd (begin_attempt p s) = Inr tx" and "fs_checkpoint_path s = []"
    and "fs_barrier_milestone s = Milestone.VERIFICATION_COMPLETE"
    and "deployed d tx (fs_gateway_boot s) w" and "slot_first tx w"
    and "wc_boot (dp_new d) = id_value (cand_boot (tx_selected tx))" and "\<not> wc_withhold_activate (dp_new d)"
    and "a \<notin> {0xDBAD, 0xBEEF, 0xC0FFEE}"
  shows "\<exists>w' s' r re st. execute_plan (socket_ops (system_platform d) ep) p (w, s) = ((w', s'), Inr r) \<and>
    ar_state r = AttemptState.COMPLETED \<and>
    (tx_old tx \<noteq> None \<longrightarrow> dp_sends_arrive d \<longrightarrow> \<not> wk_active (nw_old (cw_net w'))) \<and>
    wk_active (nw_new (cw_net w')) \<and> map_of (gw_routes (nw_gateway (cw_net w'))) (slot_key tx) = Some (re, st) \<and>
    compute_on_worker (ask_replacement d (nw_new (cw_net w'))) epoch re a b =
      Inr (decimal (unat (reference_result a b)), True, False)"
proof -
  have "stage d tx (fs_gateway_boot s) 0 w" using assms(4,5) by (simp add: stage_def)
  then obtain w' s' r where run: "execute_plan (socket_ops (system_platform d) ep) p (w, s) = ((w', s'), Inr r)"
    "ar_state r = AttemptState.COMPLETED" "stage d tx (fs_gateway_boot s) 4 w'"
    using system_failover [OF assms(1-3) _ assms(6,7)] by blast
  obtain re st rest where re: "gw_routes (nw_gateway (cw_net w')) = (slot_key tx, re, st) # rest"
    "parse_tcp_transport (re_transport re) = (True, ''127.0.0.1'', dp_port d)" "id_value (re_permitted_boot re) = wc_boot (dp_new d)"
    and act: "wk_active (nw_new (cw_net w'))" "tx_old tx \<noteq> None \<longrightarrow> dp_sends_arrive d \<longrightarrow> \<not> wk_active (nw_old (cw_net w'))"
    using run(3) by (auto simp: stage_def)
  have "map_of (gw_routes (nw_gateway (cw_net w'))) (slot_key tx) = Some (re, st)" using re(1) by simp
  then show ?thesis
    using run(1,2) act replacement_computes [OF re(2,3) act(1) assms(8), of epoch b] by blast
qed

definition example_deployment :: Deployment where
  "example_deployment = \<lparr>dp_old = default_WorkerConfig\<lparr>wc_target := 10, wc_boot := 40\<rparr>,
     dp_new = default_WorkerConfig\<lparr>wc_target := 20, wc_boot := 41\<rparr>, dp_port = 9000,
     dp_io = \<lparr>io_open_ok = True, io_short_write = None, io_remove_ok = True, io_rename_ok = True\<rparr>, dp_files = Map.empty,
     dp_sends_arrive = True, dp_clock = (\<lambda>_. 0)\<rparr>"

definition example_world :: "Net CoordWorld" where
  "example_world = \<lparr>cw_peers = [new_Peer 1, (new_Peer 2)\<lparr>pe_req_port := 9000\<rparr>, new_Peer 3], cw_workers = [(10, 0), (20, 1)],
     cw_gateways = [(0, 2), (5, 3)], cw_stop = False,
     cw_net = \<lparr>nw_old = active_worker, nw_new = worker_start (dp_new example_deployment) no_checkpoint, nw_gateway = gateway_start\<rparr>\<rparr>"

lemma example_gateway: "id_value (fs_gateway_boot example_fabric) = 0"
  by code_simp

lemma example_old: "case current_assignment example_fabric (fp_slot example_plan) of None \<Rightarrow> False | Some old \<Rightarrow> asg_target old = Id 10"
  by code_simp

lemma example_selected: "case fp_selected example_plan of None \<Rightarrow> False | Some c \<Rightarrow> cand_target c = Id 20 \<and> cand_boot c = Id 41"
  by code_simp

lemma example_system:
  obtains tx where "snd (begin_attempt example_plan example_fabric) = Inr tx"
    "stage example_deployment tx (fs_gateway_boot example_fabric) 0 example_world" "cand_boot (tx_selected tx) = Id 41"
    "tx_old tx \<noteq> None" "fs_checkpoint_path example_fabric = []"
    "fs_barrier_milestone example_fabric = Milestone.VERIFICATION_COMPLETE"
proof -
  obtain tx where tx: "snd (begin_attempt example_plan example_fabric) = Inr tx"
    using example_begins by (metis sum.collapse(2))
  have old: "\<exists>old. tx_old tx = Some old \<and> asg_target old = Id 10" and
    sel: "cand_target (tx_selected tx) = Id 20" "cand_boot (tx_selected tx) = Id 41"
    using begin_attempt_admitted [OF tx] example_old example_selected by (auto simp: admitted_def split: option.splits)
  then have "stage example_deployment tx (fs_gateway_boot example_fabric) 0 example_world"
    by (auto simp: stage_def deployed_def slot_first_def example_world_def example_deployment_def example_gateway gateway_start_def)
  moreover have "fs_checkpoint_path example_fabric = []" "fs_barrier_milestone example_fabric = Milestone.VERIFICATION_COMPLETE"
    by code_simp+
  ultimately show ?thesis using that tx old sel(2) by blast
qed

lemma example_boot: "wc_boot (dp_new example_deployment) = 41" "\<not> wc_withhold_activate (dp_new example_deployment)"
  by (simp_all add: example_deployment_def default_WorkerConfig_def)

theorem failover_switches_over_witness:
  "\<exists>w' s' r re k st. execute_plan (socket_ops (system_platform example_deployment) 3) example_plan (example_world, example_fabric) =
      ((w', s'), Inr r) \<and> ar_state r = AttemptState.COMPLETED \<and> \<not> wk_active (nw_old (cw_net w')) \<and>
     wk_active (nw_new (cw_net w')) \<and> map_of (gw_routes (nw_gateway (cw_net w'))) k = Some (re, st) \<and>
     compute_on_worker (ask_replacement example_deployment (nw_new (cw_net w'))) 3 re 5 6 =
       Inr (decimal (unat (reference_result 5 6)), True, False)"
proof (rule example_system)
  fix tx
  assume tx: "snd (begin_attempt example_plan example_fabric) = Inr tx"
    "stage example_deployment tx (fs_gateway_boot example_fabric) 0 example_world" "cand_boot (tx_selected tx) = Id 41"
    "tx_old tx \<noteq> None" "fs_checkpoint_path example_fabric = []"
    "fs_barrier_milestone example_fabric = Milestone.VERIFICATION_COMPLETE"
  have d: "deployed example_deployment tx (fs_gateway_boot example_fabric) example_world" "slot_first tx example_world"
    using tx(2) by (simp_all add: stage_def)
  have "(5 :: u64) \<notin> {0xDBAD, 0xBEEF, 0xC0FFEE}" "dp_sends_arrive example_deployment"
    by (simp_all add: example_deployment_def)
  moreover have "wc_boot (dp_new example_deployment) = id_value (cand_boot (tx_selected tx))" using tx(3) example_boot(1) by simp
  ultimately show ?thesis using failover_switches_over [OF tx(1,5,6) d _ example_boot(2), of 5 3 3 6] tx(4) by blast
qed

text \<open>
  C11. A failover the coordinator reports as completed was confirmed by its peers. Take the
  socket adapter over any platform, with other handlers running meanwhile as long as they leave
  the registered connections as they are, and note every exchange in a log, which changes
  nothing else. A completed attempt means that the plan was admitted and that the log shows, in
  this order: on the connection that was registered for the selected target's worker, an
  ACTIVATE_TARGET with the fields of the selected candidate and a positive ACTIVATE_RESULT; on a
  registered gateway's connection, an INSTALL_ROUTE and a positive ROUTE_ACK; and on the first
  gateway's connection, a VERIFY_SERVICE and a positive answer to it. No answer, an answer of
  another type, or one without a positive \<open>ok\<close> does not complete it.
\<close>

theorem completed_failover_confirmed:
  fixes pf :: "'n Platform"
  assumes "keeps_registrations pf" and "execute_plan (socket_ops pf ep) p (w, s) = ((w', s'), Inr r)"
    and "ar_state r = AttemptState.COMPLETED"
  shows "\<exists>v' tx b c1 c2 c3 x1 x2 x3 pl1 pl2 pl3 l0 l1 l2 l3.
    execute_plan (socket_ops (logged pf) ep) p (with_log [] w, s) = ((v', s'), Inr r) \<and> unlogged v' = w' \<and>
    admitted p s tx \<and> worker_conn w (id_value (cand_target (tx_selected tx))) = Some c1 \<and>
    map_of (cw_gateways w) b = Some c2 \<and> any_gateway_conn w = Some c3 \<and>
    log_of v' = l0 @ [x1] @ l1 @ [x2] @ l2 @ [x3] @ l3 \<and>
    confirmed MsgType.ACTIVATE_TARGET MsgType.ACTIVATE_RESULT c1 pl1 x1 \<and>
    pw_finish (activate_fields (tx_selected tx)) = Inr pl1 \<and>
    confirmed MsgType.INSTALL_ROUTE MsgType.ROUTE_ACK c2 pl2 x2 \<and>
    confirmed MsgType.VERIFY_SERVICE MsgType.VERIFY_SERVICE c3 pl3 x3"
proof -
  obtain v' s1 res where ex: "execute_plan (socket_ops (logged pf) ep) p (with_log [] w, s) = ((v', s1), res)" by (metis surj_pair)
  then have eq: "unlogged v' = w'" "s1 = s'" "res = Inr r"
    using logging.map_execute_plan [of pf ep p "with_log [] w" s] assms(2) by simp_all
  have "run_attempt (socket_ops (logged pf) ep) p (with_log [] w, s) = ((v', s'), Inr r)"
    using ex eq assms(3) execute_plan_completed_iff by blast
  then show ?thesis
  proof (rule completed_log [OF assms(1)])
    fix tx b c1 c2 c3 x1 x2 x3 pl1 pl2 pl3 l0 l1 l2 l3
    assume tx: "admitted p s tx"
      and c: "worker_conn (with_log [] w) (id_value (cand_target (tx_selected tx))) = Some c1"
        "map_of (cw_gateways (with_log [] w)) b = Some c2" "any_gateway_conn (with_log [] w) = Some c3"
      and x: "confirmed MsgType.ACTIVATE_TARGET MsgType.ACTIVATE_RESULT c1 pl1 x1" "pw_finish (activate_fields (tx_selected tx)) = Inr pl1"
        "confirmed MsgType.INSTALL_ROUTE MsgType.ROUTE_ACK c2 pl2 x2"
        "confirmed MsgType.VERIFY_SERVICE MsgType.VERIFY_SERVICE c3 pl3 x3"
      and l: "log_of v' = log_of (with_log [] w) @ l0 @ [x1] @ l1 @ [x2] @ l2 @ [x3] @ l3"
    have "worker_conn w (id_value (cand_target (tx_selected tx))) = Some c1" "map_of (cw_gateways w) b = Some c2"
      "any_gateway_conn w = Some c3" using c by (simp_all add: worker_conn_def any_gateway_conn_def)
    moreover have "log_of v' = l0 @ [x1] @ l1 @ [x2] @ l2 @ [x3] @ l3" using l by simp
    ultimately show ?thesis using ex eq tx x by blast
  qed
qed

theorem completed_failover_confirmed_witness:
  "\<exists>w' s' r v' c pl x. execute_plan (socket_ops (system_platform example_deployment) 3) example_plan (example_world, example_fabric) =
      ((w', s'), Inr r) \<and> unlogged v' = w' \<and> x \<in> set (log_of v') \<and>
     confirmed MsgType.ACTIVATE_TARGET MsgType.ACTIVATE_RESULT c pl x"
proof (rule example_system)
  fix tx
  assume tx: "snd (begin_attempt example_plan example_fabric) = Inr tx"
    "stage example_deployment tx (fs_gateway_boot example_fabric) 0 example_world" "cand_boot (tx_selected tx) = Id 41"
    "fs_checkpoint_path example_fabric = []" "fs_barrier_milestone example_fabric = Milestone.VERIFICATION_COMPLETE"
  have "wc_boot (dp_new example_deployment) = id_value (cand_boot (tx_selected tx))" using tx(3) example_boot(1) by simp
  from system_failover [OF tx(1,4,5,2) this example_boot(2), of 3] obtain w' s' r where
    ex: "execute_plan (socket_ops (system_platform example_deployment) 3) example_plan (example_world, example_fabric) = ((w', s'), Inr r)"
    "ar_state r = AttemptState.COMPLETED" by blast
  have k: "keeps_registrations (system_platform example_deployment)" by (simp add: keeps_registrations_def)
  obtain v' c pl x l l' where "unlogged v' = w'" "confirmed MsgType.ACTIVATE_TARGET MsgType.ACTIVATE_RESULT c pl x"
    "log_of v' = l @ [x] @ l'" using completed_failover_confirmed [OF k ex] by blast
  then show ?thesis using ex(1) by (intro exI [of _ w'] exI [of _ s'] exI [of _ r] exI [of _ v'] exI [of _ c] exI [of _ pl] exI [of _ x]) simp
qed

end
