(* ===== verification/Observers.thy ===== *)
theory Observers
  imports Gateway Restart
begin

text \<open>
  What the runtime lets its callers look at without changing it, and the small value types of
  \<^verbatim>\<open>types.hpp\<close>: the remaining observers of \<^verbatim>\<open>fabric.cpp\<close>, the validation of a saved file, bounded
  floating-point numbers, and the clock that tests advance by hand.
\<close>

section \<open>Observers of the fabric\<close>

definition gateway_boot :: "FabricState \<Rightarrow> GatewayBootId" where
  "gateway_boot s = fs_gateway_boot s"

definition services :: "FabricState \<Rightarrow> ServiceDefinition list" where
  "services s = fs_services s"

definition domains :: "FabricState \<Rightarrow> DomainRegistry" where
  "domains s = fs_domains s"

definition ff_snapshot :: "FabricState \<Rightarrow> ServiceSlotKey \<Rightarrow> (FabricState \<times> CandidateSnapshot) result" where
  "ff_snapshot s k = snapshot_locked s k"

definition ambiguous_count :: "FabricState \<Rightarrow> nat" where
  "ambiguous_count s = trk_ambiguous (fs_requests s)"

definition rejected_late_count :: "FabricState \<Rightarrow> nat" where
  "rejected_late_count s = trk_rejected_late (fs_requests s)"

definition attempt_history :: "FabricState \<Rightarrow> AttemptState list" where
  "attempt_history s = fs_attempt_states s"

definition ff_validate_file :: "ReadOutcome \<Rightarrow> eval_order \<Rightarrow> files \<Rightarrow> string \<Rightarrow> string list" where
  "ff_validate_file io ord fs path = validate_file io ord fs path"

text \<open>Replacing the clock; a null pointer is refused.\<close>

definition set_clock :: "'c option \<Rightarrow> 'c \<Rightarrow> 'c \<times> bool" where
  "set_clock new old = (case new of None \<Rightarrow> (old, False) | Some c \<Rightarrow> (c, True))"

text \<open>The gateway's lookup of a worker's transport.\<close>

definition worker_transport_for :: "GatewayState \<Rightarrow> u64 \<Rightarrow> string" where
  "worker_transport_for g slot =
     (case map_of (gw_routes g) slot of None \<Rightarrow> [] | Some (e, _) \<Rightarrow> re_transport e)"

section \<open>Bounded numbers\<close>

definition bounded_finite :: "double \<Rightarrow> double result" where
  "bounded_finite v = (if \<not> d_isfinite v then Inl (InvalidArgument ''non-finite value'') else Inr v)"

definition bounded :: "double \<Rightarrow> double \<Rightarrow> double \<Rightarrow> double result" where
  "bounded v lo hi =
     (if \<not> d_isfinite v \<or> d_less v lo \<or> d_less hi v then Inl (InvalidArgument ''value out of bounds'') else Inr v)"

section \<open>The manual clock\<close>

text \<open>Both in nanoseconds.\<close>

record ManualClock =
  mc_base :: int
  mc_elapsed :: int

definition mc_now :: "ManualClock \<Rightarrow> int" where
  "mc_now c = mc_base c + mc_elapsed c"

definition mc_advance :: "int \<Rightarrow> ManualClock \<Rightarrow> ManualClock" where
  "mc_advance d c = c\<lparr>mc_elapsed := mc_elapsed c + d\<rparr>"

definition mc_reset :: "ManualClock \<Rightarrow> ManualClock" where
  "mc_reset c = c\<lparr>mc_elapsed := 0\<rparr>"

section \<open>What they show\<close>

text \<open>A saved file validates exactly when it loads, and the one problem reported is why it does not.\<close>

lemma validate_file_iff_loads:
  "ff_validate_file io ord fs path = (case ff_load io ord fs path s of Inr _ \<Rightarrow> [] | Inl e \<Rightarrow> [what e])"
  by (simp add: ff_validate_file_def validate_file_def validate_def ff_load_def load_file_def bindE_def what_def
      split: option.split ReadOutcome.split sum.split)

text \<open>A bound that is not a number excludes nothing, on either side.\<close>

lemma bounded_by_nan: "d_isnan lo \<Longrightarrow> d_isnan hi \<Longrightarrow> bounded v lo hi = Inr x \<longleftrightarrow> x = v \<and> d_isfinite v"
  by (auto simp: bounded_def d_less_def)

lemma manual_clock_sums: "mc_now (fold mc_advance ds (mc_reset c)) = mc_base c + sum_list ds"
proof -
  have "mc_now (fold mc_advance ds c') = mc_now c' + sum_list ds" for c'
    by (induction ds arbitrary: c') (simp_all add: mc_now_def mc_advance_def)
  then show ?thesis by (simp add: mc_now_def mc_reset_def)
qed

text \<open>What the gateway would connect to is the transport of the last route it was given for the slot.\<close>

lemma transport_after_install:
  assumes "gw_routes g' = map_put slot (e, st) (gw_routes g)"
    and "sorted (map fst (gw_routes g))" and "distinct (map fst (gw_routes g))"
  shows "worker_transport_for g' k = (if k = slot then re_transport e else worker_transport_for g k)"
  using assms by (simp add: worker_transport_for_def map_of_map_put)

end
