(* ===== verification/Socket_Setup.thy ===== *)
theory Socket_Setup
  imports Sockets
begin

text \<open>
  Opening and closing sockets (\<open>tcp_listen\<close>, \<open>tcp_listen_port\<close>, \<open>tcp_accept\<close> and \<open>tcp_connect\<close> of
  \<^verbatim>\<open>socket_util.hpp\<close>). The state is what the process asked the system for, in order; what each
  call returns is an argument. From the calls one reads which descriptors are open and where
  they listen.
\<close>

section \<open>System calls\<close>

type_synonym fd = int

definition kInvalidSocket :: fd where
  "kInvalidSocket = - 1"

text \<open>A call that gives a new descriptor records it; the address is in host order.\<close>

datatype SysCall =
    Opened fd
  | SetReuseAddr fd
  | Bind fd u32 "16 word"
  | Listen fd nat
  | AcceptedAs fd
  | Connect fd u32 "16 word"
  | Closed fd

definition loopback :: u32 where
  "loopback = 0x7F000001"

text \<open>What the calls return: a descriptor or -1, and whether the others succeed.\<close>

record SocketOutcome =
  so_socket :: fd
  so_bind_ok :: bool
  so_listen_ok :: bool
  so_accept :: fd
  so_connect_ok :: bool

section \<open>The operations\<close>

definition tcp_listen :: "SocketOutcome \<Rightarrow> 16 word \<Rightarrow> SysCall list \<Rightarrow> SysCall list \<times> fd" where
  "tcp_listen os port t =
     (let s = so_socket os
      in if s = kInvalidSocket then (t, kInvalidSocket)
         else (let t1 = t @ [Opened s, SetReuseAddr s, Bind s loopback port]
               in if \<not> so_bind_ok os then (t1 @ [Closed s], kInvalidSocket)
                  else if \<not> so_listen_ok os then (t1 @ [Listen s 16, Closed s], kInvalidSocket)
                  else (t1 @ [Listen s 16], s)))"

text \<open>
  The port the system chose; \<open>name\<close> is what \<open>getsockname\<close> stores, if it succeeds. The structure
  is zero before.
\<close>

definition tcp_listen_port :: "(16 word) option \<Rightarrow> 16 word" where
  "tcp_listen_port name = (case name of None \<Rightarrow> 0 | Some p \<Rightarrow> p)"

definition tcp_accept :: "SocketOutcome \<Rightarrow> SysCall list \<Rightarrow> SysCall list \<times> fd" where
  "tcp_accept os t =
     (if so_accept os = kInvalidSocket then (t, kInvalidSocket) else (t @ [AcceptedAs (so_accept os)], so_accept os))"

text \<open>
  \<open>pton\<close> is what \<open>inet_pton\<close> makes of the host: it stores no address for one that is not in
  dotted form, its result is not looked at, and the address stays zero.
\<close>

definition tcp_connect :: "(string \<Rightarrow> u32 option) \<Rightarrow> SocketOutcome \<Rightarrow> string \<Rightarrow> 16 word \<Rightarrow> SysCall list \<Rightarrow> SysCall list \<times> fd" where
  "tcp_connect pton os host port t =
     (let s = so_socket os
      in if s = kInvalidSocket then (t, kInvalidSocket)
         else (let t1 = t @ [Opened s, Connect s (case pton host of None \<Rightarrow> 0 | Some a \<Rightarrow> a) port]
               in if \<not> so_connect_ok os then (t1 @ [Closed s], kInvalidSocket) else (t1, s)))"

definition close_socket :: "fd \<Rightarrow> SysCall list \<Rightarrow> SysCall list" where
  "close_socket s t = t @ [Closed s]"

section \<open>What is open\<close>

fun after_call :: "SysCall \<Rightarrow> fd set \<Rightarrow> fd set" where
  "after_call (Opened s) D = insert s D"
| "after_call (AcceptedAs s) D = insert s D"
| "after_call (Closed s) D = D - {s}"
| "after_call _ D = D"

definition open_sockets :: "SysCall list \<Rightarrow> fd set" where
  "open_sockets t = fold after_call t {}"

text \<open>The addresses the process listens on, and the ones it bound.\<close>

definition bound_addresses :: "SysCall list \<Rightarrow> u32 set" where
  "bound_addresses t = {a. \<exists>s p. Bind s a p \<in> set t}"

lemma open_sockets_append [simp]: "open_sockets (t @ u) = fold after_call u (open_sockets t)"
  by (simp add: open_sockets_def)

lemma bound_addresses_append [simp]: "bound_addresses (t @ u) = bound_addresses t \<union> bound_addresses u"
  by (auto simp: bound_addresses_def)

lemma bound_addresses_Cons:
  "bound_addresses (c # t) = (case c of Bind _ a _ \<Rightarrow> {a} | _ \<Rightarrow> {}) \<union> bound_addresses t"
  by (auto simp: bound_addresses_def split: SysCall.split)

lemma bound_addresses_Nil [simp]: "bound_addresses [] = {}"
  by (simp add: bound_addresses_def)

text \<open>One attempt to get a socket: its calls, and the descriptor it returns.\<close>

inductive socket_op :: "SysCall list \<Rightarrow> SysCall list \<Rightarrow> fd \<Rightarrow> bool" where
  op_listen: "tcp_listen os port t = (t', s) \<Longrightarrow> so_socket os \<notin> open_sockets t \<Longrightarrow> socket_op t t' s"
| op_accept: "tcp_accept os t = (t', s) \<Longrightarrow> so_accept os \<notin> open_sockets t \<Longrightarrow> socket_op t t' s"
| op_connect: "tcp_connect pton os host port t = (t', s) \<Longrightarrow> so_socket os \<notin> open_sockets t \<Longrightarrow> socket_op t t' s"

lemma socket_op_balanced:
  "socket_op t t' s \<Longrightarrow>
   open_sockets t' = (if s = kInvalidSocket then open_sockets t else insert s (open_sockets t)) \<and>
   (s \<noteq> kInvalidSocket \<longrightarrow> s \<notin> open_sockets t) \<and> bound_addresses t' \<subseteq> bound_addresses t \<union> {loopback}"
  by (induction rule: socket_op.induct)
    (auto simp: tcp_listen_def tcp_accept_def tcp_connect_def Let_def bound_addresses_Cons split: if_splits)

text \<open>A process that gets sockets, and closes ones it has.\<close>

inductive socket_run :: "SysCall list \<Rightarrow> fd set \<Rightarrow> bool" where
  run_start: "socket_run [] {}"
| run_op: "socket_run t H \<Longrightarrow> socket_op t t' s \<Longrightarrow> socket_run t' (if s = kInvalidSocket then H else insert s H)"
| run_close: "socket_run t H \<Longrightarrow> s \<in> H \<Longrightarrow> socket_run (close_socket s t) (H - {s})"

text \<open>
  C40. Sockets are never leaked, and only the loopback address is ever listened on. Whatever the
  system calls return, a process that opens sockets with \<open>tcp_listen\<close>, \<open>tcp_accept\<close> and
  \<open>tcp_connect\<close> and closes the ones it holds has open exactly the descriptors it was given and
  has not closed: an attempt that fails closes what it had opened. Every address it binds is
  127.0.0.1.
\<close>

theorem sockets_never_leak:
  assumes "socket_run t H"
  shows "open_sockets t = H \<and> bound_addresses t \<subseteq> {loopback}"
  using assms
proof (induction rule: socket_run.induct)
  case run_start
  show ?case by (simp add: open_sockets_def)
next
  case (run_op t H t' s)
  then show ?case using socket_op_balanced by fastforce
next
  case (run_close t H s)
  then show ?case by (simp add: close_socket_def bound_addresses_Cons)
qed

definition refused_listen :: SocketOutcome where
  "refused_listen = \<lparr>so_socket = 3, so_bind_ok = True, so_listen_ok = False, so_accept = - 1, so_connect_ok = True\<rparr>"

theorem sockets_never_leak_witness:
  "open_sockets (fst (tcp_listen refused_listen 9000 [])) = {} \<and>
   bound_addresses (fst (tcp_listen refused_listen 9000 [])) \<subseteq> {loopback}"
proof -
  have "socket_op [] (fst (tcp_listen refused_listen 9000 [])) kInvalidSocket"
    by (rule op_listen [of refused_listen 9000])
      (simp_all add: tcp_listen_def refused_listen_def kInvalidSocket_def open_sockets_def)
  from run_op [OF run_start this] have "socket_run (fst (tcp_listen refused_listen 9000 [])) {}" by simp
  from sockets_never_leak [OF this] show ?thesis .
qed

end
