(* ===== verification/Cuda_Worker.thy ===== *)
theory Cuda_Worker
  imports Worker
begin

text \<open>
  The CUDA worker, \<^verbatim>\<open>cuda_worker_main.cu\<close>: the kernel, the host function that runs it, and the
  process around it, which has the control loop and the request handler of the CPU worker
  without checkpoints. What the calls of the CUDA runtime return is an argument, one outcome for
  each computation; the kernel itself is in the source and is modelled.
\<close>

section \<open>The computation\<close>

definition accum_step :: "u64 \<Rightarrow> u64 \<Rightarrow> u64 \<Rightarrow> nat \<Rightarrow> u64" where
  "accum_step a b acc i = and (acc * 31 + a * of_nat i + b * of_nat (i + 1)) 0x3FFFFFFF"

text \<open>The kernel: what it stores at \<open>out\<close>.\<close>

definition reference_accum :: "u64 \<Rightarrow> u64 \<Rightarrow> nat \<Rightarrow> u64" where
  "reference_accum a b steps = and (foldl (accum_step a b) 0 [0..<steps]) 0x3FFFFFFF"

text \<open>
  The outcome of the calls: the allocation, the launch, the synchronisation, and the copy back,
  which leaves some value in the host's variable when it fails (nobody looks at its result).
\<close>

record CudaOutcome =
  cu_malloc_ok :: bool
  cu_launch_ok :: bool
  cu_sync_ok :: bool
  cu_copy_failed :: "u64 option"

definition cuda_reference :: "CudaOutcome \<Rightarrow> u64 \<Rightarrow> u64 \<Rightarrow> u64" where
  "cuda_reference cu a b =
     (if \<not> cu_malloc_ok cu then 0
      else if cu_launch_ok cu \<and> cu_sync_ok cu
      then (case cu_copy_failed cu of None \<Rightarrow> reference_accum a b 32 | Some host \<Rightarrow> host)
      else 0)"

abbreviation cuda_fine :: "CudaOutcome \<Rightarrow> bool" where
  "cuda_fine cu \<equiv> cu_malloc_ok cu \<and> cu_launch_ok cu \<and> cu_sync_ok cu \<and> cu_copy_failed cu = None"

section \<open>The process\<close>

record CudaConfig =
  gc_coord_host :: string
  gc_coord_port :: "16 word"
  gc_port :: "16 word"
  gc_target :: u64
  gc_boot :: u64

definition default_CudaConfig :: CudaConfig where
  "default_CudaConfig = \<lparr>gc_coord_host = ''127.0.0.1'', gc_coord_port = 0, gc_port = 0, gc_target = 1, gc_boot = 1\<rparr>"

definition cuda_option :: "string \<times> string \<Rightarrow> CudaConfig \<Rightarrow> CudaConfig" where
  "cuda_option = (\<lambda>(k, v) c.
     if k = ''--coordinator'' then c\<lparr>gc_coord_host := fst (split_host_port v), gc_coord_port := snd (split_host_port v)\<rparr>
     else if k = ''--port'' then c\<lparr>gc_port := ucast (strtoull v)\<rparr>
     else if k = ''--target'' then c\<lparr>gc_target := strtoull v\<rparr>
     else if k = ''--boot'' then c\<lparr>gc_boot := strtoull v\<rparr> else c)"

definition cuda_args :: "string list \<Rightarrow> CudaConfig" where
  "cuda_args args = fold cuda_option (zip args (tl args)) default_CudaConfig"

definition cuda_hello :: "CudaConfig \<Rightarrow> 16 word \<Rightarrow> field_writer list" where
  "cuda_hello c actual_port =
     [pw_u8 fid_role kRoleWorker, pw_u64 fid_target (gc_target c), pw_u64 fid_boot (gc_boot c),
      pw_u64 fid_req_port (ucast actual_port)]"

definition cuda_registration :: "CudaConfig \<Rightarrow> field_writer list" where
  "cuda_registration c =
     [pw_u64 fid_target (gc_target c), pw_u64 fid_boot (gc_boot c), pw_bool fid_ready True,
      pw_str fid_model ''ref-det-sequence-v1'', pw_str fid_abi ''ff-ref-v1'', pw_f64 fid_capacity 0x3FF0000000000000]"

text \<open>Whether the worker is active, and whether its control connection is open.\<close>

record CudaState =
  cu_active :: bool
  cu_ctrl_open :: bool

definition cuda_start :: CudaState where
  "cuda_start = \<lparr>cu_active = False, cu_ctrl_open = True\<rparr>"

definition cuda_control :: "Frame \<Rightarrow> CudaState \<Rightarrow> (CudaState \<times> Frame option) result" where
  "cuda_control f s =
     (if fr_type f = MsgType.ACTIVATE_TARGET
      then bindE (send_msg MsgType.ACTIVATE_RESULT (fr_msg_id f) (fr_epoch f) [pw_bool fid_ok True]) (\<lambda>r.
           Inr (s\<lparr>cu_active := True\<rparr>, Some r))
      else if fr_type f = MsgType.FENCE_ASSIGNMENT then Inr (s\<lparr>cu_active := False\<rparr>, None)
      else Inr (s, None))"

definition cuda_answer :: "u64 \<Rightarrow> u64 \<Rightarrow> u64 \<Rightarrow> field_writer list" where
  "cuda_answer gpu a b =
     [pw_bool fid_ok (gpu = reference_result a b), pw_bytes fid_payload (map (\<lambda>c. of_nat (of_char c)) (decimal (unat gpu)))]"

definition cuda_serve ::
    "CudaConfig \<Rightarrow> WriteOutcome \<Rightarrow> CudaOutcome \<Rightarrow> u64 \<Rightarrow> u64 \<Rightarrow> u64 \<Rightarrow> files \<Rightarrow> CudaState \<Rightarrow> files \<times> CudaState \<times> field_writer list option" where
  "cuda_serve c io cu a b req_boot fs s =
     (if cu_active s \<and> req_boot = gc_boot c then
        (if a = 0xDBAD then (fs, s\<lparr>cu_ctrl_open := False\<rparr>, Some [pw_bool fid_ok True])
         else if a = 0xBEEF then
           ((if io_open_ok io
             then fs(''ambig_'' @ decimal (unat (gc_target c)) @ ''.out'' \<mapsto>
                     map (\<lambda>c. of_nat (of_char c)) (decimal (unat (cuda_reference cu (and a 0xFFFFFFFFFFFF) b))) @ [10])
             else fs), s, None)
         else (fs, s, Some (cuda_answer (cuda_reference cu a b) a b)))
      else (fs, s, Some [pw_bool fid_ok False, pw_str fid_detail ''not active or stale boot'']))"

definition cuda_request ::
    "CudaConfig \<Rightarrow> WriteOutcome \<Rightarrow> CudaOutcome \<Rightarrow> Frame option \<Rightarrow> files \<Rightarrow> CudaState \<Rightarrow> (files \<times> CudaState \<times> Frame option) result" where
  "cuda_request c io cu f fs s =
     bindE (request_inputs f) (\<lambda>(a, b, req_boot).
     case cuda_serve c io cu a b req_boot fs s of
       (fs', s', None) \<Rightarrow> Inr (fs', s', None)
     | (fs', s', Some ws) \<Rightarrow>
         bindE (send_msg MsgType.EXECUTION_RESULT (case f of None \<Rightarrow> 0 | Some f \<Rightarrow> fr_msg_id f)
                  (case f of None \<Rightarrow> 0 | Some f \<Rightarrow> fr_epoch f) ws) (\<lambda>r. Inr (fs', s', Some r)))"

section \<open>The kernel computes the reference\<close>

lemma mask_idem: "and (and x m) m = and x (m :: 'a::len word)"
  by (simp add: ac_simps)

lemma masked_fold: "and (foldl (accum_step a b) acc is) 0x3FFFFFFF = foldl (accum_step a b) acc is"
  if "and acc 0x3FFFFFFF = acc" for acc
  using that
proof (induction "is" arbitrary: acc)
  case (Cons i "is")
  have "and (accum_step a b acc i) 0x3FFFFFFF = accum_step a b acc i"
    unfolding accum_step_def by (rule mask_idem)
  then show ?case using Cons.IH by simp
qed simp

lemma reference_accum_32: "reference_accum a b 32 = reference_result a b"
proof -
  have "accum_step a b = (\<lambda>acc i. and (acc * 31 + a * of_nat i + b * (of_nat i + 1)) 0x3FFFFFFF)"
    by (simp add: accum_step_def fun_eq_iff add.commute)
  then show ?thesis
    using masked_fold [of 0 a b "[0..<32]"] by (simp add: reference_accum_def reference_result_def)
qed

lemma cuda_fine_reference: "cuda_fine cu \<Longrightarrow> cuda_reference cu a b = reference_result a b"
  by (simp add: cuda_reference_def reference_accum_32)

lemma cuda_answer_fine: "cuda_answer (reference_result a b) a b = result_fields (reference_result a b)"
  by (simp add: cuda_answer_def result_fields_def)

section \<open>The CUDA worker and the CPU worker\<close>

text \<open>What an observer sees of the two workers.\<close>

definition cpu_view :: "WorkerState \<Rightarrow> CudaState" where
  "cpu_view s = \<lparr>cu_active = wk_active s, cu_ctrl_open = wk_ctrl_open s\<rparr>"

definition cpu_observed :: "(files \<times> WorkerState \<times> Frame option) result \<Rightarrow> (files \<times> CudaState \<times> Frame option) result" where
  "cpu_observed = map_sum id (\<lambda>(fs, s, r). (fs, cpu_view s, r))"

lemma same_service:
  assumes "cuda_fine cu" and "\<not> wk_stateful c" and "gc_boot g = wc_boot c" and "gc_target g = wc_target c"
  shows "cuda_serve g io cu a b boot fs (cpu_view s) =
    (case serve_request c io a b boot fs s of (fs', s', ws) \<Rightarrow> (fs', cpu_view s', ws))"
  using assms
  by (auto simp: cuda_serve_def serve_request_def cpu_view_def cuda_fine_reference cuda_answer_fine)

text \<open>
  C30. The CUDA worker is the CPU worker. As long as the calls of the CUDA runtime succeed, it
  gives every request the answer, the file effects and the state that a CPU worker without
  checkpoints gives it under the same identity: same results, same refusals, same severed
  control connection, same withheld response.
\<close>

theorem cuda_worker_equivalent:
  assumes "cuda_fine cu" and "\<not> wk_stateful c" and "gc_boot g = wc_boot c" and "gc_target g = wc_target c"
  shows "cuda_request g io cu f fs (cpu_view s) = cpu_observed (worker_request c io f fs s)"
proof (cases "request_inputs f")
  case (Inr x)
  obtain a b boot where x: "x = (a, b, boot)" by (cases x)
  obtain fs' s' ws where "serve_request c io a b boot fs s = (fs', s', ws)" by (metis prod_cases3)
  then show ?thesis
    using Inr x same_service [OF assms]
    by (simp add: cuda_request_def worker_request_def cpu_observed_def bindE_def split: option.split sum.split)
qed (simp add: cuda_request_def worker_request_def cpu_observed_def)

definition cuda_works :: CudaOutcome where
  "cuda_works = \<lparr>cu_malloc_ok = True, cu_launch_ok = True, cu_sync_ok = True, cu_copy_failed = None\<rparr>"

theorem cuda_worker_equivalent_witness:
  "cuda_request default_CudaConfig all_io_ok cuda_works (Some example_request) Map.empty (cpu_view active_worker) =
   cpu_observed (worker_request default_WorkerConfig all_io_ok (Some example_request) Map.empty active_worker)"
  by (rule cuda_worker_equivalent)
    (simp_all add: cuda_works_def default_CudaConfig_def default_WorkerConfig_def)

end
