(* ===== verification/Proof_Driver.thy ===== *)
theory Proof_Driver
  imports Coordinator_Answers
begin

text \<open>
  The client side of the proof driver, \<^verbatim>\<open>multiproc_proof.cpp\<close>: how it learns the port of a process
  it started, and the questions it puts to the coordinator and to the gateway. Each question
  opens a connection, says hello, sends one frame and waits for one answer. What the peer makes
  of the frame is an argument. The scenarios themselves, which start and kill processes and wait
  for wall-clock time, are not modelled.
\<close>

section \<open>The output of a process\<close>

fun read_line :: "string \<Rightarrow> string \<times> string" where
  "read_line [] = ([], [])"
| "read_line (c # cs) =
     (if c = CHR 0x0A then ([], cs) else (case read_line cs of (line, rest) \<Rightarrow> (c # line, rest)))"

fun read_port_loop :: "nat \<Rightarrow> string \<Rightarrow> 16 word" where
  "read_port_loop 0 out = 0"
| "read_port_loop (Suc i) out =
     (case read_line out of (line, rest) \<Rightarrow>
        if take 5 line = ''PORT '' then ucast (strtoull (drop 5 line)) else read_port_loop i rest)"

definition read_port :: "string \<Rightarrow> 16 word" where
  "read_port out = read_port_loop 32 out"

text \<open>What a process prints once it listens.\<close>

definition port_line :: "16 word \<Rightarrow> string" where
  "port_line p = ''PORT '' @ decimal (unat p) @ [CHR 0x0A]"

section \<open>Questions\<close>

datatype PeerOutcome = NoConnection | NotSent | NoReply | Replied Frame

text \<open>
  A peer gets the frames that are sent on one connection, in order, and answers the last. The
  hello that precedes every question to the coordinator announces a client; whether it is sent
  is not looked at.
\<close>

definition driver_hello :: "Frame result" where
  "driver_hello = send_msg MsgType.HELLO 1 0 [pw_u8 fid_role kRoleClient, pw_u64 fid_boot 999]"

definition coord_rpc :: "(Frame list \<Rightarrow> PeerOutcome) \<Rightarrow> MsgType \<Rightarrow> field_writer list \<Rightarrow> (bool \<times> string) result" where
  "coord_rpc peer t ws =
     bindE driver_hello (\<lambda>h.
     bindE (send_msg t 7000 0 ws) (\<lambda>m.
     case peer [h, m] of
       NoConnection \<Rightarrow> Inr (False, ''rpc connect failed'')
     | NotSent \<Rightarrow> Inr (False, ''rpc send failed'')
     | NoReply \<Rightarrow> Inr (False, ''rpc no reply'')
     | Replied r \<Rightarrow>
         bindE (payload_fields (fr_payload r)) (\<lambda>q.
         if fr_type r = MsgType.ERROR_MSG
         then bindE (opt_field pr_str q fid_detail []) (\<lambda>d. Inr (False, d))
         else bindE (opt_field pr_bool q fid_ok False) (\<lambda>ok.
              if ok then Inr (True, []) else bindE (opt_field pr_str q fid_detail []) (\<lambda>d. Inr (False, d))))))"

record QueryResult =
  qr_target :: u64
  qr_revalidation :: bool
  qr_ambiguous :: u64
  qr_route_gen :: u64
  qr_gateway_boot :: u64
  qr_epoch :: u64
  qr_txn_incomplete :: bool

definition empty_QueryResult :: QueryResult where
  "empty_QueryResult = \<lparr>qr_target = 0, qr_revalidation = False, qr_ambiguous = 0, qr_route_gen = 0,
     qr_gateway_boot = 0, qr_epoch = 0, qr_txn_incomplete = False\<rparr>"

definition read_query_result :: "Field list \<Rightarrow> QueryResult result" where
  "read_query_result q =
     bindE (opt_field pr_u64 q fid_target 0) (\<lambda>t.
     bindE (opt_field pr_bool q fid_state False) (\<lambda>rv.
     bindE (opt_field pr_u64 q fid_seq 0) (\<lambda>amb.
     bindE (opt_field pr_u64 q fid_route_gen 0) (\<lambda>rg.
     bindE (opt_field pr_u64 q fid_boot 0) (\<lambda>gb.
     bindE (opt_field pr_u64 q fid_epoch 0) (\<lambda>ep.
     bindE (opt_field pr_bool q fid_txn_incomplete False) (\<lambda>ti.
     Inr \<lparr>qr_target = t, qr_revalidation = rv, qr_ambiguous = amb, qr_route_gen = rg, qr_gateway_boot = gb,
          qr_epoch = ep, qr_txn_incomplete = ti\<rparr>)))))))"

definition query_state :: "(Frame list \<Rightarrow> PeerOutcome) \<Rightarrow> u64 \<Rightarrow> QueryResult result" where
  "query_state peer service =
     bindE driver_hello (\<lambda>h.
     bindE (send_msg MsgType.QUERY_ROUTE 7005 0 [pw_u64 fid_service service]) (\<lambda>m.
     case peer [h, m] of
       Replied r \<Rightarrow> bindE (payload_fields (fr_payload r)) read_query_result
     | _ \<Rightarrow> Inr empty_QueryResult))"

definition route_ack_authorized :: "(Frame list \<Rightarrow> PeerOutcome) \<Rightarrow> u64 \<Rightarrow> u64 \<Rightarrow> u64 \<Rightarrow> bool result" where
  "route_ack_authorized peer service gen gboot =
     bindE (coord_rpc peer MsgType.CHECK_ROUTE_ACK
       [pw_u64 fid_service service, pw_u64 fid_slot 1, pw_u64 fid_route_gen gen, pw_u64 fid_boot gboot]) (\<lambda>(ok, _). Inr ok)"

text \<open>Whether the request is known, and the byte of its disposition.\<close>

definition classify_request :: "(Frame list \<Rightarrow> PeerOutcome) \<Rightarrow> u64 \<Rightarrow> (bool \<times> u8) result" where
  "classify_request peer req_id =
     bindE driver_hello (\<lambda>h.
     bindE (send_msg MsgType.CLASSIFY_REQUEST 7010 0 [pw_u64 fid_request_id req_id]) (\<lambda>m.
     case peer [h, m] of
       Replied r \<Rightarrow>
         if fr_type r = MsgType.CLASSIFY_REQUEST
         then bindE (payload_fields (fr_payload r)) (\<lambda>q.
              bindE (opt_field pr_bool q fid_ok False) (\<lambda>ok.
              if ok then bindE (opt_field pr_u8 q fid_state 0) (\<lambda>d. Inr (True, d)) else Inr (False, 0)))
         else Inr (False, 0)
     | _ \<Rightarrow> Inr (False, 0)))"

definition query_dispatch_count :: "(Frame list \<Rightarrow> PeerOutcome) \<Rightarrow> u64 result" where
  "query_dispatch_count peer =
     bindE driver_hello (\<lambda>h.
     bindE (send_msg MsgType.CLASSIFY_REQUEST 7011 0 [pw_u64 fid_request_id 0]) (\<lambda>m.
     case peer [h, m] of
       Replied r \<Rightarrow>
         if fr_type r = MsgType.CLASSIFY_REQUEST
         then bindE (payload_fields (fr_payload r)) (\<lambda>q. opt_field pr_u64 q fid_dispatch_count 0)
         else Inr 0
     | _ \<Rightarrow> Inr 0))"

text \<open>
  A request through the gateway: whether it succeeded, and the value that \<open>result\<close> holds
  afterwards.
\<close>

definition gateway_request ::
    "(Frame list \<Rightarrow> PeerOutcome) \<Rightarrow> u64 \<Rightarrow> u64 \<Rightarrow> u64 \<Rightarrow> u64 \<Rightarrow> u32 \<Rightarrow> bool \<Rightarrow> bool \<Rightarrow> (bool \<times> u64) result" where
  "gateway_request peer service a b result0 req_id idempotent effectful =
     bindE (send_msg MsgType.VERIFY_SERVICE req_id 0
       [pw_u64 fid_input_a a, pw_u64 fid_input_b b, pw_u64 fid_service service, pw_u64 fid_slot 1,
        pw_bool fid_idempotent idempotent, pw_bool fid_externally_effectful effectful]) (\<lambda>m.
     case peer [m] of
       Replied r \<Rightarrow>
         if fr_type r = MsgType.EXECUTION_RESULT
         then bindE (payload_fields (fr_payload r)) (\<lambda>q.
              bindE (opt_field pr_bool q fid_ok False) (\<lambda>ok.
              if ok
              then bindE (opt_field pr_bytes q fid_payload []) (\<lambda>bv.
                   let v = strtoull (map (\<lambda>x. char_of (unat x)) bv) in Inr (v = reference_result a b, v))
              else Inr (False, result0)))
         else Inr (False, result0)
     | _ \<Rightarrow> Inr (False, result0))"

definition stale_result_rejected ::
    "(Frame list \<Rightarrow> PeerOutcome) \<Rightarrow> u64 \<Rightarrow> u64 \<Rightarrow> u64 \<Rightarrow> u64 \<Rightarrow> u64 \<Rightarrow> bool result" where
  "stale_result_rejected peer service old_boot old_assg_gen old_route_gen req_id =
     bindE driver_hello (\<lambda>h.
     bindE (send_msg MsgType.AUTHORIZE_RESULT 7007 0
       [pw_u64 fid_service service, pw_u64 fid_slot 1, pw_u64 fid_epoch 1, pw_u64 fid_epoch_id 1, pw_u64 fid_epoch_boot 1,
        pw_u64 fid_assignment_id 1, pw_u64 fid_assignment_gen old_assg_gen, pw_u64 fid_route_gen old_route_gen,
        pw_u64 fid_boot old_boot, pw_u64 fid_incarnation old_boot, pw_u64 fid_request_id req_id,
        pw_u64 fid_execution_id req_id]) (\<lambda>m.
     case peer [h, m] of
       Replied r \<Rightarrow>
         if fr_type r = MsgType.AUTHORIZE_RESULT
         then bindE (payload_fields (fr_payload r)) (\<lambda>q. bindE (opt_field pr_bool q fid_ok False) (\<lambda>ok. Inr (\<not> ok)))
         else Inr False
     | _ \<Rightarrow> Inr False))"

section \<open>The port of a process\<close>

lemma read_line_append: "CHR 0x0A \<notin> set l \<Longrightarrow> read_line (l @ CHR 0x0A # rest) = (l, rest)"
  by (induction l) auto

lemma read_port_skip:
  "CHR 0x0A \<notin> set l \<Longrightarrow> take 5 l \<noteq> ''PORT '' \<Longrightarrow> read_port_loop (Suc i) (l @ CHR 0x0A # rest) = read_port_loop i rest"
  by (simp add: read_line_append)

lemma strtoull_port: "ucast (strtoull (decimal (unat p))) = (p :: 16 word)"
proof -
  have "unat p < 2 ^ 16" using unsigned_less [of p] by simp
  then have "strtoull (decimal (unat p)) = ucast p"
    using strtoull_digits [OF decimal_digits [of "unat p"]] by simp
  moreover have "ucast (ucast p :: u64) = p" by (rule bit_word_eqI) (simp add: bit_simps)
  ultimately show ?thesis by simp
qed

lemma decimal_no_newline: "CHR 0x0A \<notin> set (decimal n)"
  using decimal_digits [of n] by (auto simp: list_all_iff is_digit_def)

lemma read_port_line: "read_port_loop (Suc i) (port_line p @ rest) = p"
proof -
  have "CHR 0x0A \<notin> set (decimal (unat p))" using decimal_no_newline by simp
  then have "read_line ((''PORT '' @ decimal (unat p)) @ CHR 0x0A # rest) = (''PORT '' @ decimal (unat p), rest)"
    by (intro read_line_append) simp
  then show ?thesis by (simp add: port_line_def strtoull_port)
qed

section \<open>The questions, put to the coordinator\<close>

text \<open>
  The coordinator as a peer on a connection it just accepted, while nothing else happens to its
  fabric.
\<close>

definition ask_coordinator :: "(nat \<times> Frame) list CoordWorld \<Rightarrow> FabricState \<Rightarrow> Frame list \<Rightarrow> PeerOutcome" where
  "ask_coordinator w s ms =
     (let c = length (cw_peers w)
      in case fold (\<lambda>m \<sigma>. fst (on_unsolicited log_platform c m \<sigma>)) (butlast ms) (accept_connection w, s) of (w', s') \<Rightarrow>
           (case coordinator_answer c w' s' (last ms) of None \<Rightarrow> NoReply | Some r \<Rightarrow> Replied r))"

text \<open>The hello of a client changes nothing in the fabric.\<close>

lemma hello_of_client:
  obtains h w' where "driver_hello = Inr h"
    "fst (on_unsolicited log_platform (length (cw_peers w)) h (accept_connection w, s)) = (w', s)"
proof -
  let ?fl = "[field_u8 fid_role kRoleClient, field_u64 fid_boot 999]"
  let ?h = "mk_frame MsgType.HELLO 1 0 (concat (map field_bytes ?fl))"
  have h: "driver_hello = Inr ?h" "payload_fields (fr_payload ?h) = Inr ?fl"
    using send_msg_fields(1) [of ?fl MsgType.HELLO 1 0] send_msg_fields(2) [of ?fl]
    by (simp_all add: driver_hello_def writer_fields valid_field_def)
  obtain w' where w': "handle_frame log_platform (length (cw_peers w)) ?h ?fl (accept_connection w, s) = ((w', s), Inr ())"
    by (simp add: handle_frame_def handle_hello_def hello_field_def co_if_def co_bind_def co_lift_def co_peer_def
        co_set_def co_look_def co_return_def accept_connection_def new_Peer_def pr_simps)
  have "on_unsolicited log_platform (length (cw_peers w)) ?h (accept_connection w, s) = ((w', s), Inr ())"
    by (rule on_unsolicited_reads [OF _ h(2) w']) (simp add: reads_payload_def)
  then show ?thesis using that h(1) by simp
qed

lemma asked:
  assumes "reads_payload t" and "ws = map put_field fl" and "short_fields fl" and "wr = map put_field out" and "short_fields out"
    and "\<And>f c \<sigma>. fr_type f = t \<Longrightarrow> snd \<sigma> = s \<Longrightarrow> handle_frame log_platform c f fl \<sigma> = respond log_platform c f t' wr \<sigma>"
  shows "\<exists>h m r. driver_hello = Inr h \<and> send_msg t i 0 ws = Inr m \<and> ask_coordinator w s [h, m] = Replied r \<and>
    fr_type r = t' \<and> payload_fields (fr_payload r) = Inr out"
proof -
  let ?m = "mk_frame t i 0 (concat (map field_bytes fl))" and ?c = "length (cw_peers w)"
  have m: "send_msg t i 0 ws = Inr ?m" "payload_fields (fr_payload ?m) = Inr fl"
    using send_msg_fields(1) [of fl t i 0] send_msg_fields(2) [of fl] assms(2,3) by (simp_all add: short_fields_def)
  obtain h w' where h: "driver_hello = Inr h" "fst (on_unsolicited log_platform ?c h (accept_connection w, s)) = (w', s)"
    by (rule hello_of_client)
  have "handle_frame log_platform ?c ?m fl (w'\<lparr>cw_net := []\<rparr>, s) =
      ((w'\<lparr>cw_net := [(?c, reply_frame ?m t' out)]\<rparr>, s), Inr ())"
    using assms(6) [of ?m "(w'\<lparr>cw_net := []\<rparr>, s)"] respond_short [OF assms(4,5), of log_platform ?c "w'\<lparr>cw_net := []\<rparr>" ?m t' s]
    by simp
  then have "on_unsolicited log_platform ?c ?m (w'\<lparr>cw_net := []\<rparr>, s) =
      ((w'\<lparr>cw_net := [(?c, reply_frame ?m t' out)]\<rparr>, s), Inr ())"
    by (intro on_unsolicited_reads [OF _ m(2)]) (simp_all add: assms(1))
  then have "ask_coordinator w s [h, ?m] = Replied (reply_frame ?m t' out)"
    by (simp add: ask_coordinator_def Let_def h coordinator_answer_def)
  then show ?thesis using h(1) m(1) short_readable [OF assms(5)] by auto
qed

text \<open>The authority a stale result claims.\<close>

definition stale_auth :: "u64 \<Rightarrow> u64 \<Rightarrow> u64 \<Rightarrow> u64 \<Rightarrow> u64 \<Rightarrow> WorkerAuthorization" where
  "stale_auth sid boot ag rg req = \<lparr>wa_epoch = \<lparr>ep_epoch = 1, ep_id = Id 1, ep_boot = Id 1\<rparr>, wa_slot = slot_one sid,
     wa_assignment = Id 1, wa_assignment_generation = Gen ag, wa_route_generation = Gen rg, wa_incarnation = Id boot,
     wa_request = Id req, wa_execution = Id req, wa_operation = [], wa_worker_boot = Id boot\<rparr>"

lemma stale_result_answer:
  "stale_result_rejected (ask_coordinator w s) sid boot ag rg req =
     Inr (\<not> gd_allowed (authorize_result s (stale_auth sid boot ag rg req)))"
proof -
  let ?d = "authorize_result s (stale_auth sid boot ag rg req)"
  let ?fl = "[field_u64 fid_service sid, field_u64 fid_slot 1, field_u64 fid_epoch 1, field_u64 fid_epoch_id 1,
    field_u64 fid_epoch_boot 1, field_u64 fid_assignment_id 1, field_u64 fid_assignment_gen ag, field_u64 fid_route_gen rg,
    field_u64 fid_boot boot, field_u64 fid_incarnation boot, field_u64 fid_request_id req, field_u64 fid_execution_id req]"
  have rd: "pr_u64 ?fl fid_service = Inr sid" "read_authorization ?fl sid = Inr (stale_auth sid boot ag rg req)"
    "opt_field pr_bool ?fl fid_withheld False = Inr False"
    by (simp_all add: read_authorization_def stale_auth_def opt_field_def pr_simps)
  note short = gate_reason_short [of s "stale_auth sid boot ag rg req"]
  have a: "\<exists>h m r. driver_hello = Inr h \<and> send_msg MsgType.AUTHORIZE_RESULT 7007 0 (map put_field ?fl) = Inr m \<and>
      ask_coordinator w s [h, m] = Replied r \<and> fr_type r = MsgType.AUTHORIZE_RESULT \<and>
      payload_fields (fr_payload r) = Inr (verdict_fields ?d)"
    by (rule asked [OF _ refl _ verdict_writers [OF short] verdict_short [OF short]])
      (simp_all add: reads_payload_def short_fields_def valid_field_def handle_frame_def handle_authorize_result_def rd
        cong: if_cong split del: if_split)
  have "opt_field pr_bool (verdict_fields ?d) fid_ok False = Inr (gd_allowed ?d)"
    by (simp add: verdict_fields_def opt_field_def pr_simps)
  moreover obtain h m r where h: "driver_hello = Inr h" and "send_msg MsgType.AUTHORIZE_RESULT 7007 0 (map put_field ?fl) = Inr m"
    "ask_coordinator w s [h, m] = Replied r" "fr_type r = MsgType.AUTHORIZE_RESULT"
    "payload_fields (fr_payload r) = Inr (verdict_fields ?d)"
    using a by blast
  ultimately show ?thesis by (simp add: stale_result_rejected_def writer_fields h)
qed

lemma check_ack_detail: "length (snd (check_ack rt gen boot)) \<le> 100"
  by (simp add: check_ack_def split: option.split)

lemma route_ack_answer:
  "route_ack_authorized (ask_coordinator w s) sid gen boot = Inr (fst (check_ack (ff_current_route s (slot_one sid)) gen boot))"
proof -
  let ?a = "check_ack (ff_current_route s (slot_one sid)) gen boot"
  let ?fl = "[field_u64 fid_service sid, field_u64 fid_slot 1, field_u64 fid_route_gen gen, field_u64 fid_boot boot]"
  let ?out = "[field_bool fid_ok (fst ?a), field_str fid_detail (snd ?a)]"
  have a: "\<exists>h m r. driver_hello = Inr h \<and> send_msg MsgType.CHECK_ROUTE_ACK 7000 0 (map put_field ?fl) = Inr m \<and>
      ask_coordinator w s [h, m] = Replied r \<and> fr_type r = MsgType.CHECK_ROUTE_ACK \<and> payload_fields (fr_payload r) = Inr ?out"
    by (rule asked [OF _ refl])
      (simp_all add: reads_payload_def short_fields_def valid_field_def handle_frame_def handle_route_ack_def pr_simps
        writer_fields check_ack_detail le_trans [OF check_ack_detail])
  have "pr_str ?out fid_detail = Inr (snd ?a)" by (rule pr_str_at) (simp add: find_field_Cons)
  moreover obtain h m r where h: "driver_hello = Inr h" and "send_msg MsgType.CHECK_ROUTE_ACK 7000 0 (map put_field ?fl) = Inr m"
    "ask_coordinator w s [h, m] = Replied r" "fr_type r = MsgType.CHECK_ROUTE_ACK" "payload_fields (fr_payload r) = Inr ?out"
    using a by blast
  ultimately show ?thesis
    by (simp add: route_ack_authorized_def coord_rpc_def writer_fields opt_field_def pr_simps h)
qed

definition classify_fields :: "FabricState \<Rightarrow> u64 \<Rightarrow> Field list" where
  "classify_fields s req = field_u64 fid_dispatch_count (of_nat (fs_dispatch_count s)) #
    (case request_state s (Id req) of
       Some rec \<Rightarrow> [field_bool fid_ok True, field_u8 fid_state (enum_byte RequestDisposition_values (rq_disposition rec)),
                    field_str fid_detail (to_string_RequestDisposition (rq_disposition rec))]
     | None \<Rightarrow> [field_bool fid_ok False, field_str fid_detail ''unknown request''])"

lemma classify_answer:
  "\<exists>h m r. driver_hello = Inr h \<and> send_msg MsgType.CLASSIFY_REQUEST i 0 [pw_u64 fid_request_id req] = Inr m \<and>
     ask_coordinator w s [h, m] = Replied r \<and> fr_type r = MsgType.CLASSIFY_REQUEST \<and>
     payload_fields (fr_payload r) = Inr (classify_fields s req)"
proof (rule asked)
  have "length (to_string_RequestDisposition d) \<le> 100" for d by (cases d) simp_all
  note len = this le_trans [OF this]
  show "[pw_u64 fid_request_id req] = map put_field [field_u64 fid_request_id req]" by (simp add: writer_fields)
  show "short_fields (classify_fields s req)"
    by (simp add: classify_fields_def short_fields_def valid_field_def len split: option.split)
  show "pw_u64 fid_dispatch_count (of_nat (fs_dispatch_count s)) #
        (case request_state s (Id req) of
           Some rec \<Rightarrow> [pw_bool fid_ok True, pw_u8 fid_state (enum_byte RequestDisposition_values (rq_disposition rec)),
                        pw_str fid_detail (to_string_RequestDisposition (rq_disposition rec))]
         | None \<Rightarrow> [pw_bool fid_ok False, pw_str fid_detail ''unknown request'']) = map put_field (classify_fields s req)"
    by (simp add: classify_fields_def writer_fields len split: option.split)
qed (simp_all add: reads_payload_def short_fields_def valid_field_def handle_frame_def handle_classify_def pr_simps)

lemma classify_request_answer:
  "classify_request (ask_coordinator w s) req =
     Inr (case request_state s (Id req) of None \<Rightarrow> (False, 0)
          | Some rec \<Rightarrow> (True, enum_byte RequestDisposition_values (rq_disposition rec)))"
proof -
  obtain h m r where h: "driver_hello = Inr h" and "send_msg MsgType.CLASSIFY_REQUEST 7010 0 [pw_u64 fid_request_id req] = Inr m"
    "ask_coordinator w s [h, m] = Replied r" "fr_type r = MsgType.CLASSIFY_REQUEST"
    "payload_fields (fr_payload r) = Inr (classify_fields s req)"
    using classify_answer by blast
  then show ?thesis
    by (simp add: classify_request_def h) (simp add: classify_fields_def opt_field_def pr_simps split: option.split)
qed

lemma dispatch_count_answer: "query_dispatch_count (ask_coordinator w s) = Inr (of_nat (fs_dispatch_count s))"
proof -
  obtain h m r where h: "driver_hello = Inr h" and "send_msg MsgType.CLASSIFY_REQUEST 7011 0 [pw_u64 fid_request_id 0] = Inr m"
    "ask_coordinator w s [h, m] = Replied r" "fr_type r = MsgType.CLASSIFY_REQUEST"
    "payload_fields (fr_payload r) = Inr (classify_fields s 0)"
    using classify_answer by blast
  then show ?thesis
    by (simp add: query_dispatch_count_def h) (simp add: classify_fields_def opt_field_def pr_simps)
qed

text \<open>
  What the state query is to report of a fabric. The revalidation flag is whether the cumulative
  count of routes ever marked is positive, as the coordinator computes it.
\<close>

definition state_seen :: "FabricState \<Rightarrow> u64 \<Rightarrow> QueryResult" where
  "state_seen s sid =
     (let rt = ff_current_route s (slot_one sid)
      in \<lparr>qr_target = (case current_assignment s (slot_one sid) of None \<Rightarrow> 0 | Some a \<Rightarrow> id_value (asg_target a)),
          qr_revalidation = 0 < rt_revalidation_count (fs_routes s), qr_ambiguous = of_nat (trk_ambiguous (fs_requests s)),
          qr_route_gen = (case rt of None \<Rightarrow> 0 | Some e \<Rightarrow> gen_value (re_generation e)),
          qr_gateway_boot = (case rt of None \<Rightarrow> 0 | Some e \<Rightarrow> id_value (re_gateway_boot e)),
          qr_epoch = current_epoch s, qr_txn_incomplete = has_incomplete_cutover s\<rparr>)"

lemma query_state_answer: "query_state (ask_coordinator w s) sid = Inr (state_seen s sid)"
proof -
  define cur where "cur = current_assignment s (slot_one sid)"
  define rt where "rt = ff_current_route s (slot_one sid)"
  let ?fl = "[field_u64 fid_service sid]"
  let ?out = "[field_bool fid_ok (cur \<noteq> None)] @
    (case cur of None \<Rightarrow> [] | Some a \<Rightarrow> [field_u64 fid_target (id_value (asg_target a))]) @
    [field_bool fid_state (0 < rt_revalidation_count (fs_routes s)), field_u64 fid_seq (of_nat (trk_ambiguous (fs_requests s))),
     field_bool fid_txn_incomplete (has_incomplete_cutover s), field_u64 fid_epoch (current_epoch s)] @
    (case rt of None \<Rightarrow> []
     | Some e \<Rightarrow> [field_u64 fid_route_gen (gen_value (re_generation e)), field_u64 fid_boot (id_value (re_gateway_boot e))])"
  have a: "\<exists>h m r. driver_hello = Inr h \<and> send_msg MsgType.QUERY_ROUTE 7005 0 (map put_field ?fl) = Inr m \<and>
      ask_coordinator w s [h, m] = Replied r \<and> fr_type r = MsgType.QUERY_ROUTE \<and> payload_fields (fr_payload r) = Inr ?out"
  proof (rule asked [OF _ refl])
    show "short_fields ?out" by (simp add: short_fields_def valid_field_def split: option.split)
    show "[pw_bool fid_ok (cur \<noteq> None)] @
        (case cur of None \<Rightarrow> [] | Some a \<Rightarrow> [pw_u64 fid_target (id_value (asg_target a))]) @
        [pw_bool fid_state (0 < rt_revalidation_count (fs_routes s)), pw_u64 fid_seq (of_nat (trk_ambiguous (fs_requests s))),
         pw_bool fid_txn_incomplete (has_incomplete_cutover s), pw_u64 fid_epoch (current_epoch s)] @
        (case rt of None \<Rightarrow> []
         | Some e \<Rightarrow> [pw_u64 fid_route_gen (gen_value (re_generation e)), pw_u64 fid_boot (id_value (re_gateway_boot e))]) =
        map put_field ?out"
      by (simp add: writer_fields split: option.split)
  qed (simp_all add: reads_payload_def short_fields_def valid_field_def handle_frame_def handle_query_route_def pr_simps
      cur_def rt_def)
  have "read_query_result ?out = Inr (state_seen s sid)"
    unfolding read_query_result_def state_seen_def cur_def [symmetric] rt_def [symmetric] Let_def
    by (cases cur; cases rt; simp add: opt_field_def pr_simps)
  moreover obtain h m r where h: "driver_hello = Inr h" and "send_msg MsgType.QUERY_ROUTE 7005 0 (map put_field ?fl) = Inr m"
    "ask_coordinator w s [h, m] = Replied r" "payload_fields (fr_payload r) = Inr ?out"
    using a by blast
  ultimately show ?thesis by (simp add: query_state_def writer_fields h)
qed

section \<open>Properties\<close>

text \<open>
  C39. The proof driver sees the coordinator as it is. On a fresh connection to a coordinator in
  any state of its fabric, its state query reports the target of the current assignment of slot
  1, the generation and the gateway of that slot's current route, the epoch, the count of
  ambiguous requests, whether a cutover is incomplete, and as \<open>revalidation\<close> whether any route of
  any slot was ever marked as requiring revalidation: the count behind it only grows, so it stays
  set after a fresh route has replaced the marked one. The driver's classification reports the
  disposition of the request; its dispatch count is the fabric's modulo \<open>2 ^ 64\<close>; a route
  acknowledgment is found authorized exactly when the generation and the gateway are those of the
  current route; and a stale result is found rejected exactly when the gate denies it.
\<close>

theorem driver_sees_coordinator:
  "query_state (ask_coordinator w s) sid = Inr (state_seen s sid) \<and>
   classify_request (ask_coordinator w s) req =
     Inr (case request_state s (Id req) of None \<Rightarrow> (False, 0)
          | Some rec \<Rightarrow> (True, enum_byte RequestDisposition_values (rq_disposition rec))) \<and>
   query_dispatch_count (ask_coordinator w s) = Inr (of_nat (fs_dispatch_count s)) \<and>
   route_ack_authorized (ask_coordinator w s) sid gen gboot =
     Inr (case ff_current_route s (slot_one sid) of None \<Rightarrow> False
          | Some e \<Rightarrow> gen_value (re_generation e) = gen \<and> id_value (re_gateway_boot e) = gboot) \<and>
   stale_result_rejected (ask_coordinator w s) sid boot ag rg req =
     Inr (\<not> gd_allowed (authorize_result s (stale_auth sid boot ag rg req)))"
proof -
  have "fst (check_ack rt gen gboot) =
      (case rt of None \<Rightarrow> False | Some e \<Rightarrow> gen_value (re_generation e) = gen \<and> id_value (re_gateway_boot e) = gboot)" for rt
    by (simp add: check_ack_def split: option.split)
  then show ?thesis
    by (simp only: query_state_answer classify_request_answer dispatch_count_answer route_ack_answer stale_result_answer simp_thms)
qed

text \<open>
  The stale-result probe says nothing about fencing when the request it names was never
  dispatched: the gate denies such a result whatever authority it claims.
\<close>

lemma stale_probe_of_unknown_request:
  assumes "request_state s (Id req) = None"
  shows "stale_result_rejected (ask_coordinator w s) sid boot ag rg req = Inr True"
proof -
  have "find_request (fs_requests s) (wa_request (stale_auth sid boot ag rg req)) = None"
    using assms by (simp add: request_state_def stale_auth_def)
  then show ?thesis by (simp add: stale_result_answer authorize_result_def Let_def)
qed

text \<open>A request that the driver counts as served was answered with the reference result.\<close>

lemma gateway_request_served:
  assumes "gateway_request peer service a b r0 req idem eff = Inr (True, v)"
  shows "v = reference_result a b"
proof -
  obtain m where "(case peer [m] of
       Replied r \<Rightarrow>
         if fr_type r = MsgType.EXECUTION_RESULT
         then bindE (payload_fields (fr_payload r)) (\<lambda>q.
              bindE (opt_field pr_bool q fid_ok False) (\<lambda>ok.
              if ok
              then bindE (opt_field pr_bytes q fid_payload []) (\<lambda>bv.
                   let v = strtoull (map (\<lambda>x. char_of (unat x)) bv) in Inr (v = reference_result a b, v))
              else Inr (False, r0)))
         else Inr (False, r0)
     | _ \<Rightarrow> Inr (False, r0)) = Inr (True, v)"
    using assms unfolding gateway_request_def by (subst (asm) bindE_eq_Inr_iff) blast
  then show ?thesis by (cases "peer [m]") (auto simp: exn_simps Let_def split: if_splits)
qed

end
