(* ===== verification/Startup.thy ===== *)
theory Startup
  imports Socket_Setup Cuda_Worker Options Proof_Driver
begin

text \<open>
  How the four processes start (\<open>main\<close> of \<^verbatim>\<open>coordinator_main.cpp\<close>, \<^verbatim>\<open>gateway_main.cpp\<close>,
  \<^verbatim>\<open>worker_main.cpp\<close> and \<^verbatim>\<open>cuda_worker_main.cu\<close>, up to the point where they serve): the sockets
  they open, what they print and when they give up. What the system calls return is an
  argument. The output of a process is what the proof driver reads its port from.
\<close>

section \<open>The processes\<close>

text \<open>The system calls, the standard output, the lines of the standard error, and the exit status
  of a process that did not get to serve.\<close>

record Startup =
  sp_calls :: "SysCall list"
  sp_out :: string
  sp_err :: "string list"
  sp_exit :: "int option"

definition gives_up :: "SysCall list \<Rightarrow> string \<Rightarrow> string list \<Rightarrow> int \<Rightarrow> Startup" where
  "gives_up t out err code = \<lparr>sp_calls = t, sp_out = out, sp_err = err, sp_exit = Some code\<rparr>"

definition serves :: "SysCall list \<Rightarrow> string \<Rightarrow> string list \<Rightarrow> Startup" where
  "serves t out err = \<lparr>sp_calls = t, sp_out = out, sp_err = err, sp_exit = None\<rparr>"

definition coordinator_startup ::
    "SocketOutcome \<Rightarrow> (16 word) option \<Rightarrow> ReadOutcome \<Rightarrow> eval_order \<Rightarrow> files \<Rightarrow> string list \<Rightarrow> Startup" where
  "coordinator_startup os name io ord fs args =
     (let opt = coordinator_args args
      in case coordinator_start io ord fs (oc_load opt) (oc_checkpoint opt) of
           Inl e \<Rightarrow> gives_up [] [] [''load failed: '' @ what e] 2
         | Inr s \<Rightarrow>
             (let err = (if oc_load opt \<noteq> []
                         then [''coordinator restarted epoch='' @ decimal (unat (current_epoch s)) @ '' revalidation='' @
                               decimal (rt_revalidation_count (fs_routes s))]
                         else [])
              in case tcp_listen os (oc_port opt) [] of (t, l) \<Rightarrow>
                   if l = kInvalidSocket then gives_up t [] (err @ [''coordinator: cannot bind'']) 1
                   else serves t (port_line (tcp_listen_port name)) err))"

definition worker_startup ::
    "(string \<Rightarrow> u32 option) \<Rightarrow> SocketOutcome \<Rightarrow> (16 word) option \<Rightarrow> SocketOutcome \<Rightarrow> WorkerConfig \<Rightarrow> Startup" where
  "worker_startup pton osl name osc c =
     (case tcp_listen osl (wc_port c) [] of (t, l) \<Rightarrow>
        if l = kInvalidSocket then gives_up t [] [''worker: cannot bind request port''] 1
        else (case tcp_connect pton osc (wc_coord_host c) (wc_coord_port c) t of (t', ctrl) \<Rightarrow>
                if ctrl = kInvalidSocket
                then gives_up t' (port_line (tcp_listen_port name)) [''worker: cannot connect to coordinator''] 1
                else serves t' (port_line (tcp_listen_port name)) []))"

text \<open>The gateway opens a second connection, for its questions.\<close>

definition gateway_startup ::
    "(string \<Rightarrow> u32 option) \<Rightarrow> SocketOutcome \<Rightarrow> (16 word) option \<Rightarrow> SocketOutcome \<Rightarrow> SocketOutcome \<Rightarrow> string list \<Rightarrow> Startup" where
  "gateway_startup pton osl name osc osr args =
     (let c = gateway_args args; out = port_line (tcp_listen_port name)
      in case tcp_listen osl (og_port c) [] of (t, l) \<Rightarrow>
        if l = kInvalidSocket then gives_up t [] [''gateway: cannot bind''] 1
        else (case tcp_connect pton osc (og_coord_host c) (og_coord_port c) t of (t', ctrl) \<Rightarrow>
                if ctrl = kInvalidSocket then gives_up t' out [''gateway: cannot connect to coordinator''] 1
                else (case tcp_connect pton osr (og_coord_host c) (og_coord_port c) t' of (t'', rpc) \<Rightarrow>
                        if rpc = kInvalidSocket then gives_up t'' out [''gateway: cannot open rpc socket''] 1
                        else serves t'' out [])))"

text \<open>
  The device: the error string if it cannot be selected, and its name and compute capability.
\<close>

record CudaDevice =
  cd_error :: "string option"
  cd_name :: string
  cd_major :: nat
  cd_minor :: nat

definition cuda_line :: "CudaDevice \<Rightarrow> string" where
  "cuda_line d = ''CUDA '' @ cd_name d @ '' cc='' @ decimal (cd_major d) @ ''.'' @ decimal (cd_minor d) @ [CHR 0x0A]"

definition cuda_startup ::
    "CudaDevice \<Rightarrow> (string \<Rightarrow> u32 option) \<Rightarrow> SocketOutcome \<Rightarrow> (16 word) option \<Rightarrow> SocketOutcome \<Rightarrow> string list \<Rightarrow> Startup" where
  "cuda_startup d pton osl name osc args =
     (let c = cuda_args args; out = cuda_line d @ port_line (tcp_listen_port name)
      in case cd_error d of
           Some e \<Rightarrow> gives_up [] [] [''cuda worker: cudaSetDevice failed: '' @ e] 1
         | None \<Rightarrow>
             (case tcp_listen osl (gc_port c) [] of (t, l) \<Rightarrow>
                if l = kInvalidSocket then gives_up t (cuda_line d) [''cuda worker: cannot bind''] 1
                else (case tcp_connect pton osc (gc_coord_host c) (gc_coord_port c) t of (t', ctrl) \<Rightarrow>
                        if ctrl = kInvalidSocket then gives_up t' out [''cuda worker: cannot connect to coordinator''] 1
                        else serves t' out [])))"

section \<open>What a start amounts to\<close>

text \<open>
  A process that serves listens on the loopback address and has announced its port; one that
  gives up has said why and exits with a nonzero status.
\<close>

definition proper_start :: "16 word \<Rightarrow> (16 word) option \<Rightarrow> Startup \<Rightarrow> bool" where
  "proper_start port name st =
     (case sp_exit st of
        None \<Rightarrow> read_port (sp_out st) = tcp_listen_port name \<and>
          list_ex (\<lambda>c. case c of Listen l _ \<Rightarrow> Bind l loopback port \<in> set (sp_calls st) \<and> l \<in> open_sockets (sp_calls st)
                       | _ \<Rightarrow> False) (sp_calls st)
      | Some code \<Rightarrow> code \<noteq> 0 \<and> sp_err st \<noteq> [])"

lemma read_announced: "read_port (port_line p) = p"
  using read_port_line [of 31 p "[]"] by (simp add: read_port_def numeral_eq_Suc)

lemma proper_gives_up [simp]: "code \<noteq> 0 \<Longrightarrow> err \<noteq> [] \<Longrightarrow> proper_start port name (gives_up t out err code)"
  by (simp add: proper_start_def gives_up_def)

text \<open>The calls of a successful listen, and what the connections after it leave of them.\<close>

lemma listened:
  "tcp_listen os port [] = (t, l) \<Longrightarrow> l \<noteq> kInvalidSocket \<Longrightarrow>
     t = [Opened l, SetReuseAddr l, Bind l loopback port, Listen l 16] \<and> open_sockets t = {l}"
  by (auto simp: tcp_listen_def Let_def open_sockets_def split: if_splits)

lemma connected:
  "tcp_connect pton os host port t = (t', s) \<Longrightarrow> s \<noteq> kInvalidSocket \<Longrightarrow>
     \<exists>u. t' = t @ u \<and> open_sockets t \<subseteq> open_sockets t'"
  by (auto simp: tcp_connect_def Let_def split: if_splits)

lemma proper_serves:
  assumes "tcp_listen os port [] = (t, l)" and "l \<noteq> kInvalidSocket"
    and "read_port out = tcp_listen_port name" and "\<exists>u. t' = t @ u" and "open_sockets t \<subseteq> open_sockets t'"
  shows "proper_start port name (serves t' out err)"
  using listened [OF assms(1,2)] assms(3-5) by (auto simp: proper_start_def serves_def)

lemma proper_coordinator:
  "proper_start (oc_port (coordinator_args args)) name (coordinator_startup os name io ord fs args)"
proof -
  have "proper_start (oc_port (coordinator_args args)) name
      (case tcp_listen os (oc_port (coordinator_args args)) [] of (t, l) \<Rightarrow>
         if l = kInvalidSocket then gives_up t [] (err @ [''coordinator: cannot bind'']) 1
         else serves t (port_line (tcp_listen_port name)) err)" for err
    by (auto intro: proper_serves simp: read_announced split: prod.split)
  then show ?thesis by (simp add: coordinator_startup_def Let_def split: sum.split)
qed

text \<open>A process that listens, and connects to the coordinator before it serves.\<close>

lemma proper_connect:
  assumes "tcp_listen os port [] = (t, l)" and "l \<noteq> kInvalidSocket"
    and "tcp_connect pton osc host cport t = (t', ctrl)" and "ctrl \<noteq> kInvalidSocket"
    and "read_port out = tcp_listen_port name"
  shows "proper_start port name (serves t' out err)"
  using connected [OF assms(3,4)] by (auto intro!: proper_serves [OF assms(1,2,5)])

lemma proper_worker: "proper_start (wc_port c) name (worker_startup pton osl name osc c)"
  by (auto simp: worker_startup_def intro: proper_connect read_announced split: prod.split)

lemma proper_gateway:
  "proper_start (og_port (gateway_args args)) name (gateway_startup pton osl name osc osr args)"
proof -
  let ?c = "gateway_args args" and ?out = "port_line (tcp_listen_port name)"
  have "proper_start (og_port ?c) name (serves t'' ?out [])"
    if l: "tcp_listen osl (og_port ?c) [] = (t, l)" "l \<noteq> kInvalidSocket"
      and c: "tcp_connect pton osc (og_coord_host ?c) (og_coord_port ?c) t = (t', ctrl)" "ctrl \<noteq> kInvalidSocket"
        "tcp_connect pton osr (og_coord_host ?c) (og_coord_port ?c) t' = (t'', rpc)" "rpc \<noteq> kInvalidSocket"
    for t l t' ctrl t'' rpc
    using connected [OF c(1,2)] connected [OF c(3,4)] by (intro proper_serves [OF l read_announced]) auto
  then show ?thesis by (auto simp: gateway_startup_def Let_def split: prod.split)
qed

text \<open>The port of the CUDA worker is on the second line, as long as the device's name is one line.\<close>

lemma read_announced_cuda:
  assumes "CHR 0x0A \<notin> set (cd_name d)"
  shows "read_port (cuda_line d @ port_line p) = p"
proof -
  let ?l = "''CUDA '' @ cd_name d @ '' cc='' @ decimal (cd_major d) @ ''.'' @ decimal (cd_minor d)"
  have "read_port_loop 32 (?l @ CHR 0x0A # port_line p) = read_port_loop 31 (port_line p)"
    using assms decimal_no_newline read_port_skip [of ?l 31] by simp
  also have "\<dots> = p" using read_port_line [of 30 p "[]"] by simp
  finally show ?thesis by (simp add: read_port_def cuda_line_def)
qed

lemma proper_cuda:
  assumes "CHR 0x0A \<notin> set (cd_name d)"
  shows "proper_start (gc_port (cuda_args args)) name (cuda_startup d pton osl name osc args)"
  by (auto simp: cuda_startup_def Let_def intro: proper_connect read_announced_cuda [OF assms] split: prod.split option.split)

section \<open>Properties\<close>

text \<open>
  A process either serves where the driver will look for it or gives up with a reason.
  Whatever the system calls return, whatever the command line and the saved state, each of the
  four processes ends its start in one of two ways: it goes on to serve, and then it holds an open
  socket that listens on the loopback address and the port of its command line, and the port the
  proof driver reads from its output is the one the system reports; or it exits with a nonzero
  status and has said why. For the CUDA worker the name of the device has to be a single line.
\<close>

theorem startup_exact:
  assumes "CHR 0x0A \<notin> set (cd_name d)"
  shows "proper_start (oc_port (coordinator_args args)) name (coordinator_startup os name io ord fs args) \<and>
    proper_start (og_port (gateway_args args)) name (gateway_startup pton os name osc osr args) \<and>
    proper_start (wc_port c) name (worker_startup pton os name osc c) \<and>
    proper_start (gc_port (cuda_args args)) name (cuda_startup d pton os name osc args)"
  by (simp add: proper_coordinator proper_gateway proper_worker proper_cuda assms)

end
