(* ===== verification/Restart_File.thy ===== *)
theory Restart_File
  imports Restart
begin

text \<open>
  A restart through the file, from \<open>save\<close> to \<open>load\<close> of \<^verbatim>\<open>fabric.cpp\<close>. The durable format leaves
  out the cutover record of a fabric that has none under way, so what is read back is the
  snapshot without the remains of the last one; and \<open>decode\<close> refuses what \<open>encode\<close> writes for some
  states the runtime lets its callers reach.
\<close>

section \<open>What the file keeps of a snapshot\<close>

definition settled :: "PersistenceSnapshot \<Rightarrow> PersistenceSnapshot" where
  "settled snap =
     (if ps_has_txn snap then snap
      else snap\<lparr>ps_txn_milestone := Milestone.VERIFICATION_COMPLETE, ps_pending_assignment := None,
             ps_source_assignment := None, ps_pending_route := None\<rparr>)"

lemma settled_fields [simp]:
  "ps_format_version (settled snap) = ps_format_version snap" "ps_epoch (settled snap) = ps_epoch snap"
  "ps_policy_generation (settled snap) = ps_policy_generation snap"
  "ps_last_authority_gen (settled snap) = ps_last_authority_gen snap"
  "ps_services (settled snap) = ps_services snap" "ps_assignments (settled snap) = ps_assignments snap"
  "ps_domains (settled snap) = ps_domains snap" "ps_memberships (settled snap) = ps_memberships snap"
  "ps_evidence (settled snap) = ps_evidence snap" "ps_routes (settled snap) = ps_routes snap"
  "ps_fenced_boots (settled snap) = ps_fenced_boots snap" "ps_has_txn (settled snap) = ps_has_txn snap"
  by (simp_all add: settled_def)

lemma enc_payload_settled: "enc_payload (settled snap) = enc_payload snap"
proof -
  have "enc_txn (settled snap) = enc_txn snap" by (simp add: enc_txn_def) (simp add: settled_def)
  then show ?thesis by (simp add: enc_payload_def del: cat.simps)
qed

lemma sound_settled: "sound_snapshot (settled snap) \<longleftrightarrow> sound_snapshot snap"
  by (simp add: sound_snapshot_def)

text \<open>Every vector and string is within the limits of the format, and every double is finite.\<close>

definition within_limits :: "PersistenceSnapshot \<Rightarrow> bool" where
  "within_limits snap \<longleftrightarrow> valid_payload (settled snap)"

lemma decode_saved:
  assumes "encode snap = Inr blob" and "within_limits snap" and "length blob \<le> 2 ^ 30 + 28"
  shows "decode LeftToRight blob = Inr x \<longleftrightarrow> x = settled snap \<and> sound_snapshot snap"
proof -
  obtain p where p: "enc_payload snap = Inr p" "blob = blob_body p @ le_bytes 8 (fnv1a (blob_body p))"
    using assms(1) by (auto simp: encode_Inr_iff)
  have d: "dec_payload LeftToRight p = Inr (settled snap, [])"
    using p(1) assms(2) by (simp add: dec_payload_exact enc_payload_settled within_limits_def)
  have u: "q = p" if q: "blob = blob_body q @ le_bytes 8 (fnv1a (blob_body q))" for q
  proof -
    have "drop 20 (blob_body q) = drop 20 (blob_body p)" using q p(2) by simp
    then show ?thesis by (simp add: blob_body_def)
  qed
  have l: "8 \<le> length p" "length p \<le> 1073741824" using p assms(3) enc_payload_length by simp_all
  show ?thesis
  proof
    assume "decode LeftToRight blob = Inr x"
    then obtain q where "q = p" "dec_payload LeftToRight q = Inr (x, [])" "sound_snapshot x"
      unfolding decode_Inr_iff using u by blast
    then show "x = settled snap \<and> sound_snapshot snap" using d sound_settled [of snap] by auto
  next
    assume "x = settled snap \<and> sound_snapshot snap"
    then show "decode LeftToRight blob = Inr x"
      using p(2) l d sound_settled [of snap] unfolding decode_Inr_iff by (intro exI [of _ p]) auto
  qed
qed

lemma saved_file:
  assumes "ff_save io fs path s = (fs', Inr ())"
  obtains blob where "encode (save_snapshot s) = Inr blob" "fs' path = Some blob"
  using assms
  by (auto simp: ff_save_def save_file_def tmp_path_def Let_def split: sum.splits option.splits if_splits)

lemma load_saved:
  assumes "ff_save io fs path s = (fs', Inr ())" and "within_limits (save_snapshot s)"
    and "length (the (fs' path)) \<le> 2 ^ 30 + 28"
  shows "ff_load ReadComplete LeftToRight fs' path s0 = Inr s' \<longleftrightarrow>
    s' = load_snapshot s0 (settled (save_snapshot s)) \<and> sound_snapshot (save_snapshot s)"
  using assms(1)
proof (rule saved_file)
  fix blob assume b: "encode (save_snapshot s) = Inr blob" "fs' path = Some blob"
  then show ?thesis
    using decode_saved [OF b(1) assms(2)] assms(3) by (auto simp: ff_load_def load_file_def exn_simps)
qed

lemma reconciled_settled: "reconciled (settled snap) = reconciled snap"
  by (auto simp: reconciled_def interrupted_def settled_def fun_eq_iff)

lemma load_settled:
  "current_assignment (load_snapshot s0 (settled snap)) = current_assignment (load_snapshot s0 snap)"
  by (simp add: fun_eq_iff current_load_snapshot reconciled_settled)

section \<open>Which fabrics can be loaded\<close>

text \<open>
  Every service has slots, and every assignment, current or past, is of a registered service
  and has an authority generation.
\<close>

definition grounded :: "FabricState \<Rightarrow> bool" where
  "grounded s \<longleftrightarrow> list_all (\<lambda>d. srng_count (sd_slots d) \<noteq> 0) (fs_services s) \<and>
     list_all (\<lambda>st. list_all (\<lambda>a. find_service s (sk_service (asg_slot a)) \<noteq> None \<and> asg_authority_generation a \<noteq> gen_null)
       ((case ss_current st of None \<Rightarrow> [] | Some a \<Rightarrow> [a]) @ ss_history st)) (fs_slots s)"

lemma distinct_services: "wf_services s \<Longrightarrow> distinct (map sd_service (fs_services s))"
  unfolding distinct_conv_nth by (auto simp: wf_services_def) (metis option.inject)

lemma find_service_iff: "wf_services s \<Longrightarrow> find_service s i \<noteq> None \<longleftrightarrow> i \<in> sd_service ` set (fs_services s)"
  unfolding wf_services_def find_service_def by (fastforce simp: in_set_conv_nth image_iff)

lemma distinct_active:
  assumes "distinct (map ss_slot sts)"
    and "list_all (\<lambda>st. list_all (\<lambda>a. asg_state a \<noteq> AssignmentState.ACTIVE) (ss_history st)) sts"
    and "\<forall>st \<in> set sts. \<forall>a. ss_current st = Some a \<longrightarrow> asg_slot a = ss_slot st"
  shows "distinct (map asg_slot (filter (\<lambda>a. asg_state a = AssignmentState.ACTIVE)
    (concat (map (\<lambda>st. (case ss_current st of None \<Rightarrow> [] | Some a \<Rightarrow> [a]) @ ss_history st) sts))))"
  using assms
proof (induction sts)
  case (Cons st sts)
  let ?act = "\<lambda>sts. filter (\<lambda>a. asg_state a = AssignmentState.ACTIVE)
    (concat (map (\<lambda>st. (case ss_current st of None \<Rightarrow> [] | Some a \<Rightarrow> [a]) @ ss_history st) sts))"
  have h: "filter (\<lambda>a. asg_state a = AssignmentState.ACTIVE) (ss_history st) = []"
    using Cons.prems(2) by (simp add: filter_empty_conv list_all_iff)
  have "asg_slot a \<in> ss_slot ` set sts" if a: "a \<in> set (?act sts)" for a
  proof -
    obtain st' where "st' \<in> set sts" "ss_current st' = Some a \<or> a \<in> set (ss_history st')"
      "asg_state a = AssignmentState.ACTIVE"
      using a by (auto split: option.splits)
    then show ?thesis using Cons.prems(2,3) by (fastforce simp: list_all_iff)
  qed
  then have "ss_slot st \<notin> asg_slot ` set (?act sts)" using Cons.prems(1) by fastforce
  then show ?case using Cons h by (auto split: option.split)
qed simp

lemma sound_iff_grounded:
  assumes "restorable s"
  shows "sound_snapshot (save_snapshot s) \<longleftrightarrow> grounded s"
proof -
  have wf: "wf_services s" "wf_slots s" using assms by (simp_all add: restorable_def wf_fabric_def)
  have "distinct (map asg_slot (filter (\<lambda>a. asg_state a = AssignmentState.ACTIVE) (ps_assignments (save_snapshot s))))"
    using distinct_active [of "fs_slots s"] assms wf(2)
    by (auto simp: save_snapshot_def restorable_def list_all_iff wf_slots_def)
  moreover have "list_all P (ps_assignments (save_snapshot s)) \<longleftrightarrow>
      list_all (\<lambda>st. list_all P ((case ss_current st of None \<Rightarrow> [] | Some a \<Rightarrow> [a]) @ ss_history st)) (fs_slots s)" for P
    by (simp add: save_snapshot_def list_all_iff ball_Un)
  ultimately show ?thesis
    using distinct_services [OF wf(1)] find_service_iff [OF wf(1)]
    by (simp add: sound_snapshot_def grounded_def) (simp add: save_snapshot_def)
qed

text \<open>
  The runtime does not keep a fabric grounded: an initial assignment is accepted for a service
  that was never registered.
\<close>

lemma unregistered_service_accepted:
  "case set_initial_assignment (init_fabric default_RuntimeConfig) 0 example_assignment of
     Inl _ \<Rightarrow> False | Inr s \<Rightarrow> \<not> grounded s"
  by code_simp

section \<open>Properties\<close>

text \<open>
  C23. A restart through the file restores what was durable, and fails exactly when the saved
  state is one the format refuses. Assume that constructor arguments are evaluated from left to
  right, that the file is read completely, that the fabric saved is restorable (well formed, each
  slot stored once and indexed, its history of that slot and without an \<open>ACTIVE\<close> assignment) and
  within the limits of the format (vectors and strings of at most \<open>2 ^ 22\<close> elements, finite doubles,
  a pending assignment that is \<open>AUTHORIZED\<close>), and that the payload is at most 1 GiB. After a
  successful \<open>save\<close>, \<open>load\<close> on that path, into whatever fabric, succeeds if and only if every
  service has slots and every current or past assignment is of a registered service and has a
  non-null authority generation. Then it gives back the services, the epoch, the authority
  generation, the fenced boots, the failure domains and the failure events; the current
  assignment of every slot that was \<open>ACTIVE\<close>, which is withdrawn to \<open>REVALIDATION_REQUIRED\<close> if a
  cutover was under way and either its boot was fenced or a replacement was pending; and the
  current route of every slot, with every usable route marked as requiring revalidation.
\<close>

theorem restart_through_file:
  assumes "restorable s" and "within_limits (save_snapshot s)"
    and "ff_save io fs path s = (fs', Inr ())" and "length (the (fs' path)) \<le> 2 ^ 30 + 28"
  shows "case ff_load ReadComplete LeftToRight fs' path s0 of
      Inl _ \<Rightarrow> \<not> grounded s
    | Inr s' \<Rightarrow> grounded s \<and>
        fs_services s' = fs_services s \<and> fs_epoch s' = fs_epoch s \<and>
        fs_last_authority_gen s' = fs_last_authority_gen s \<and> fs_fenced_boots s' = fs_fenced_boots s \<and>
        fs_domains s' = fs_domains s \<and> all_evidence (fs_evidence s') = all_evidence (fs_evidence s) \<and>
        (\<forall>k. current_assignment s' k =
           (case current_assignment s k of None \<Rightarrow> None
            | Some a \<Rightarrow> if asg_state a = AssignmentState.ACTIVE then Some (reconciled (save_snapshot s) a) else None)) \<and>
        (\<forall>k. current_route (fs_routes s') k =
           map_option (\<lambda>r. r\<lparr>re_state := (if live_state (re_state r) then RouteState.REVALIDATION_REQUIRED
                                           else re_state r)\<rparr>) (current_route (fs_routes s) k))"
proof (cases "ff_load ReadComplete LeftToRight fs' path s0")
  case (Inl e)
  then show ?thesis using load_saved [OF assms(3,2,4), of s0] sound_iff_grounded [OF assms(1)] by simp
next
  case (Inr s')
  then have "s' = load_snapshot s0 (settled (save_snapshot s))" "grounded s"
    using load_saved [OF assms(3,2,4), of s0] sound_iff_grounded [OF assms(1)] by auto
  then show ?thesis
    using Inr restart_restores [OF assms(1), of s0] by (simp add: Let_def load_settled)
qed

lemma encode_limits:
  assumes "within_limits snap" and "enc_payload snap = Inr p"
  shows "encode snap = Inr (blob_body p @ le_bytes 8 (fnv1a (blob_body p)))"
  using assms by (auto simp: encode_Inr_iff within_limits_def valid_payload_def)

text \<open>A fabric within the limits whose payload is small is saved when no system call fails.\<close>

lemma save_ok:
  assumes "within_limits (save_snapshot s)" and "enc_payload (save_snapshot s) = Inr p" and "length p \<le> 2 ^ 30"
  obtains fs' where "ff_save all_io_ok Map.empty path s = (fs', Inr ())" "length (the (fs' path)) \<le> 2 ^ 30 + 28"
proof -
  have "path \<noteq> tmp_path path" by (simp add: tmp_path_def)
  then show ?thesis
    using that assms(3) encode_limits [OF assms(1,2)]
    by (simp add: ff_save_def save_file_def all_io_ok_def Let_def)
qed

lemma example_fabric_saves:
  "within_limits (save_snapshot example_fabric)" "grounded example_fabric"
  "case enc_payload (save_snapshot example_fabric) of Inl _ \<Rightarrow> False | Inr p \<Rightarrow> length p < 2000"
  by code_simp+

lemma example_fabric_saved:
  obtains fs' where "ff_save all_io_ok Map.empty ''state'' example_fabric = (fs', Inr ())"
    "length (the (fs' ''state'')) \<le> 2 ^ 30 + 28"
proof -
  obtain p where "enc_payload (save_snapshot example_fabric) = Inr p" "length p \<le> 2 ^ 30"
    using example_fabric_saves(3) by (auto split: sum.splits)
  then show ?thesis using that save_ok [OF example_fabric_saves(1)] by blast
qed

theorem restart_through_file_witness:
  "\<exists>fs' s'. ff_save all_io_ok Map.empty ''state'' example_fabric = (fs', Inr ()) \<and>
     ff_load ReadComplete LeftToRight fs' ''state'' (init_fabric default_RuntimeConfig) = Inr s' \<and>
     fs_services s' = fs_services example_fabric \<and> fs_epoch s' = fs_epoch example_fabric"
proof (rule example_fabric_saved)
  fix fs' assume fs': "ff_save all_io_ok Map.empty ''state'' example_fabric = (fs', Inr ())"
    "length (the (fs' ''state'')) \<le> 2 ^ 30 + 28"
  from restart_through_file [OF restorable_example example_fabric_saves(1) fs', of "init_fabric default_RuntimeConfig"]
  show ?thesis using fs'(1) example_fabric_saves(2) by (auto split: sum.splits)
qed

end
