(* ===== verification/Demos.thy ===== *)
theory Demos
  imports Recovery Cutover_Theorems Restart_File
begin

text \<open>
  The command line tool \<^verbatim>\<open>ff_cli.cpp\<close>, a program over the public interface of the runtime. A
  program is what it prints, line by line; the clock readings are an argument. An exception that
  nobody catches ends the program, whatever it printed before.
\<close>

definition llu :: "u64 \<Rightarrow> string" where
  "llu x = decimal (unat x)"

definition yes_no :: "bool \<Rightarrow> string" where
  "yes_no b = (if b then ''yes'' else ''no'')"

text \<open>What the tool and the examples share: one unit of CPU capacity is asked for, two are offered.\<close>

definition two_cpus :: CandidateResource where
  "two_cpus = \<lparr>cres_resource_class = ''cpu'', cres_amount = 0x4000000000000000, cres_capacity_generation = gen_first,
     cres_existing_claims = [], cres_has_conflicting_commitment = False, cres_reservation = None,
     cres_reservation_generation = gen_null, cres_resources_revoked = False, cres_unit = 2\<rparr>"

definition one_cpu :: ResourceRequirement where
  "one_cpu = \<lparr>rreq_resource_class = ''cpu'', rreq_amount = 0x3FF0000000000000, rreq_exactly_one_target = True\<rparr>"

definition publish_target :: "FabricState \<Rightarrow> int \<Rightarrow> TargetId \<Rightarrow> string \<Rightarrow> CandidateFacts \<Rightarrow> FabricState result" where
  "publish_target s now t transport f =
     bindE (register_target s t transport) (\<lambda>s.
     bindE (publish_candidate_facts s now f) (\<lambda>s.
     bindE (publish_candidate_state s t default_CandidateState) (\<lambda>s.
     publish_candidate_resources s t [two_cpus])))"

definition process_exit :: "TargetId \<Rightarrow> u64 \<Rightarrow> FailureEvent" where
  "process_exit t q = default_FailureEvent\<lparr>ev_event_id := Id q, ev_generation := gen_first,
     ev_status := EvidenceStatus.CONFIRMED, ev_category := FailureCategory.PROCESS_EXIT, ev_target := Some t,
     ev_source := Id 1, ev_received := zero_timestamp\<lparr>ts_seq := q\<rparr>\<rparr>"

definition active_assignment :: "AssignmentId \<Rightarrow> ServiceSlotKey \<Rightarrow> TargetId \<Rightarrow> WorkerBootId \<Rightarrow> Assignment" where
  "active_assignment i k t b = default_Assignment\<lparr>asg_id := i, asg_generation := gen_first, asg_slot := k,
     asg_target := t, asg_target_generation := gen_first, asg_worker_boot := b,
     asg_authority_generation := gen_first, asg_state := AssignmentState.ACTIVE\<rparr>"

definition print_exclusion :: "TargetId \<times> ExclusionReason \<times> string \<Rightarrow> string" where
  "print_exclusion e = ''  excluded target='' @ llu (id_value (fst e)) @ '' reason='' @ to_string_ExclusionReason (fst (snd e))"

section \<open>The command line tool\<close>

definition print_assignment :: "string \<Rightarrow> Assignment \<Rightarrow> string" where
  "print_assignment lbl a =
     ''  ['' @ lbl @ ''] slot(service='' @ llu (id_value (sk_service (asg_slot a))) @ '' slot='' @
     llu (id_value (sk_slot (asg_slot a))) @ '') target='' @ llu (id_value (asg_target a)) @ '' state='' @
     to_string_AssignmentState (asg_state a) @ '' authority_gen='' @ llu (gen_value (asg_authority_generation a)) @
     '' worker_boot='' @ llu (id_value (asg_worker_boot a))"

definition demo_service :: ServiceDefinition where
  "demo_service = default_ServiceDefinition\<lparr>sd_service := Id 1, sd_name := ''svc'', sd_role := ServingRole.EXCLUSIVE_ACTIVE,
     sd_compatibility := default_CompatibilityRequirement\<lparr>compat_model_key := ''m'', compat_runtime_abi := ''a''\<rparr>,
     sd_domain_requirement := default_DomainRequirement\<lparr>dreq_require_domain_independence := True\<rparr>,
     sd_resources := [one_cpu],
     sd_recovery := default_RecoveryObjective\<lparr>obj_rto_ms := 10000, obj_continuity := ContinuityClass.REPLAY_SAFE_REQUESTS,
       obj_requires_verified_recovery := True\<rparr>,
     sd_failback := FailbackPolicy.MANUAL\<rparr>"

definition demo_facts :: "u64 \<Rightarrow> CandidateFacts" where
  "demo_facts t = default_CandidateFacts\<lparr>cf_target := Id t, cf_target_generation := gen_first,
     cf_engine_incarnation := Id t, cf_worker_boot := Id t, cf_profile := Id 1, cf_model_key := ''m'',
     cf_runtime_abi := ''a'', cf_ready := True, cf_evidence_fresh := True\<rparr>"

abbreviation slot_of_service :: "u64 \<Rightarrow> ServiceSlotKey" where
  "slot_of_service i \<equiv> SlotKey (Id i) (Id 1)"

definition demo_setup :: "(nat \<Rightarrow> int) \<Rightarrow> FabricState result" where
  "demo_setup clk =
     bindE (create_service (init_fabric default_RuntimeConfig) demo_service) (\<lambda>s.
     bindE (set_initial_assignment s (clk 0) (active_assignment (Id 1) (slot_of_service 1) (Id 10) (Id 10))) (\<lambda>s.
     bindE (publish_target s (clk 1) (Id 10) ''demo'' (demo_facts 10)) (\<lambda>s.
     publish_target s (clk 2) (Id 11) ''demo'' (demo_facts 11))))"

text \<open>The dereference of \<open>current_assignment\<close> without a value is undefined; here it is an empty line.\<close>

definition demo :: "(nat \<Rightarrow> int) \<Rightarrow> string list result" where
  "demo clk =
     bindE (demo_setup clk) (\<lambda>s.
     bindE (eligible_candidates s (slot_of_service 1)) (\<lambda>(s1, cs).
     bindE (ff_select (publish_failure s1 (process_exit (Id 10) 1)) (slot_of_service 1)) (\<lambda>(_, sr).
     Inr ([''Current assignment:'',
           (case current_assignment s (slot_of_service 1) of None \<Rightarrow> [] | Some a \<Rightarrow> print_assignment ''current'' a),
           ''Eligible candidates: '' @ decimal (length cs),
           ''After failure, selection: '' @ yes_no (sel_has_selection sr)] @
          map print_exclusion (sel_exclusions sr) @
          (case sel_selected sr of None \<Rightarrow> []
           | Some c \<Rightarrow> [''  selected target='' @ llu (id_value (cf_target (cand_facts c)))])))))"

definition revalidation_required_count :: "FabricState \<Rightarrow> nat" where
  "revalidation_required_count s = rt_revalidation_count (fs_routes s)"

definition print_service :: "ServiceDefinition \<Rightarrow> string" where
  "print_service sv = ''Service '' @ llu (id_value (sd_service sv)) @ '' '' @ sd_name sv"

text \<open>What is printed of a loaded state: only the slots of service 1.\<close>

definition state_report :: "string \<Rightarrow> FabricState \<Rightarrow> string list" where
  "state_report path s =
     (''Loaded '' @ path) # map print_service (fs_services s) @
     concat (map (\<lambda>k. case current_assignment s k of None \<Rightarrow> [] | Some a \<Rightarrow> [print_assignment ''current'' a])
       (service_slots s (Id 1))) @
     [''revalidation_required_count='' @ decimal (revalidation_required_count s)]"

text \<open>The exit status, the lines of the standard output and of the standard error.\<close>

definition ff_cli :: "ReadOutcome \<Rightarrow> eval_order \<Rightarrow> files \<Rightarrow> (nat \<Rightarrow> int) \<Rightarrow> string list \<Rightarrow> (int \<times> string list \<times> string list) result" where
  "ff_cli io ord fs clk args =
     (case args of
        a # rest \<Rightarrow>
          if a = ''--demo'' then bindE (demo clk) (\<lambda>ls. Inr (0, ls, []))
          else if a = ''--state'' \<and> rest \<noteq> []
          then (case ff_load io ord fs (hd rest) (init_fabric default_RuntimeConfig) of
                  Inr s \<Rightarrow> Inr (0, state_report (hd rest) s, [])
                | Inl e \<Rightarrow> Inr (1, [], [''load failed: '' @ what e]))
          else Inr (2, [], [''usage: ff_cli --demo | --state <file.ff>''])
      | [] \<Rightarrow> Inr (2, [], [''usage: ff_cli --demo | --state <file.ff>'']))"

section \<open>What the tool reports of a saved state\<close>

lemma reloaded_table:
  assumes "distinct (map re_slot (map slr_current (rt_current t) @ rs))"
    and "list_all (\<lambda>r. sk_service (re_slot r) \<noteq> id_null) rs"
  shows "foldl (\<lambda>t r. fst (rt_install t r)) t rs =
    t\<lparr>rt_current := rt_current t @ map (\<lambda>r. \<lparr>slr_current = r, slr_history = []\<rparr>) rs\<rparr>"
  using assms
proof (induction rs arbitrary: t)
  case (Cons r rs)
  have "find_route t (re_slot r) = None"
    using Cons.prems(1) by (simp add: find_route_def find_None_iff_none) (metis imageI)
  then have "fst (rt_install t r) = t\<lparr>rt_current := rt_current t @ [\<lparr>slr_current = r, slr_history = []\<rparr>]\<rparr>"
    using Cons.prems(2) by (simp add: rt_install_def id_is_null_iff)
  then show ?case using Cons.IH [of "fst (rt_install t r)"] Cons.prems by simp
qed simp

lemma saved_route_slots:
  assumes "wf_routes t"
  shows "distinct (map re_slot (all_routes t))" "list_all (\<lambda>r. sk_service (re_slot r) \<noteq> id_null) (all_routes t)"
  using assms
  by (auto simp: all_routes_def wf_routes_def wf_slot_route_def comp_def list_all_iff intro: distinct_map_filter)

lemma loaded_revalidation_count:
  assumes "wf_routes (fs_routes s)"
  shows "revalidation_required_count (load_snapshot s0 (settled (save_snapshot s))) =
    length (filter (\<lambda>r. live_state (re_state r)) (all_routes (fs_routes s)))"
  using reloaded_table [of empty_routes "all_routes (fs_routes s)"] saved_route_slots [OF assms]
  by (simp add: revalidation_required_count_def mark_revalidation_required_def empty_routes_def)
    (simp add: save_snapshot_def filter_map comp_def)

lemma loaded_service_slots:
  assumes "wf_fabric s"
  shows "service_slots (load_snapshot s0 (settled (save_snapshot s))) i = service_slots s i"
proof -
  have wf: "wf_services s" using assms by (simp add: wf_fabric_def)
  have "index_services (fs_services s) i = Some n \<longleftrightarrow> fs_service_index s i = Some n" for n
    using index_services_Some [OF distinct_services [OF wf]] wf by (simp add: wf_services_def)
  then have "index_services (fs_services s) i = fs_service_index s i" by (metis not_Some_eq)
  then show ?thesis by (simp add: service_slots_def find_service_def save_snapshot_def)
qed

lemma loaded_current:
  assumes "restorable s"
  shows "current_assignment (load_snapshot s0 (settled (save_snapshot s))) k =
    map_option (reconciled (save_snapshot s)) (Option.bind (current_assignment s k)
      (\<lambda>a. if asg_state a = AssignmentState.ACTIVE then Some a else None))"
  by (simp add: load_settled current_load_snapshot active_saved [OF assms] split: option.split)

text \<open>The assignments the tool prints: those of the slots of service 1 that were active.\<close>

definition reported_assignments :: "FabricState \<Rightarrow> Assignment list" where
  "reported_assignments s =
     map (reconciled (save_snapshot s)) (filter (\<lambda>a. asg_state a = AssignmentState.ACTIVE)
       (concat (map (\<lambda>k. case current_assignment s k of None \<Rightarrow> [] | Some a \<Rightarrow> [a]) (service_slots s (Id 1)))))"

lemma state_report_loaded:
  assumes "restorable s"
  shows "state_report path (load_snapshot s0 (settled (save_snapshot s))) =
    (''Loaded '' @ path) # map print_service (fs_services s) @
    map (print_assignment ''current'') (reported_assignments s) @
    [''revalidation_required_count='' @
      decimal (length (filter (\<lambda>r. live_state (re_state r)) (all_routes (fs_routes s))))]"
proof -
  have wf: "wf_fabric s" "wf_routes (fs_routes s)" using assms by (auto simp: restorable_def wf_fabric_def wf_stores_def)
  have "concat (map (\<lambda>k. case current_assignment (load_snapshot s0 (settled (save_snapshot s))) k of
        None \<Rightarrow> [] | Some a \<Rightarrow> [print_assignment ''current'' a]) ks) =
      map (print_assignment ''current'') (map (reconciled (save_snapshot s)) (filter (\<lambda>a. asg_state a = AssignmentState.ACTIVE)
        (concat (map (\<lambda>k. case current_assignment s k of None \<Rightarrow> [] | Some a \<Rightarrow> [a]) ks))))" for ks
    by (induction ks) (simp_all add: loaded_current [OF assms] split: option.split)
  then show ?thesis
    by (simp add: state_report_def loaded_service_slots wf loaded_revalidation_count reported_assignments_def)
      (simp add: save_snapshot_def)
qed

text \<open>
  C38. The command line tool shows what was saved. Under the conditions of a restart through the
  file (a restorable fabric within the limits of the format, a successful save, a payload of at
  most 1 GiB, a complete read, and constructor arguments evaluated from left to right),
  \<^verbatim>\<open>ff_cli --state\<close> on that path exits with 0 if every service has slots and every current or
  past assignment is of a registered service and has a non-null authority generation. It then
  prints the saved services in their order, the assignment of every slot of service 1 that was
  \<open>ACTIVE\<close> (shown as withdrawn to \<open>REVALIDATION_REQUIRED\<close> if a cutover was under way and either
  its boot was fenced or a replacement was pending), and as the revalidation count the number of
  usable routes that were saved. Otherwise it exits with 1 and prints only that the load failed.
\<close>

theorem cli_reports_saved_state:
  assumes "restorable s" and "within_limits (save_snapshot s)"
    and "ff_save io fs path s = (fs', Inr ())" and "length (the (fs' path)) \<le> 2 ^ 30 + 28"
  shows "if grounded s
    then ff_cli ReadComplete LeftToRight fs' clk [''--state'', path] =
      Inr (0, (''Loaded '' @ path) # map print_service (fs_services s) @
        map (print_assignment ''current'') (reported_assignments s) @
        [''revalidation_required_count='' @
          decimal (length (filter (\<lambda>r. live_state (re_state r)) (all_routes (fs_routes s))))], [])
    else \<exists>e. ff_cli ReadComplete LeftToRight fs' clk [''--state'', path] = Inr (1, [], [''load failed: '' @ what e])"
proof -
  note load = load_saved [OF assms(3,2,4), of "init_fabric default_RuntimeConfig"] sound_iff_grounded [OF assms(1)]
  show ?thesis
  proof (cases "ff_load ReadComplete LeftToRight fs' path (init_fabric default_RuntimeConfig)")
    case (Inl e)
    then show ?thesis using load by (auto simp: ff_cli_def)
  next
    case (Inr s')
    then have "s' = load_snapshot (init_fabric default_RuntimeConfig) (settled (save_snapshot s))" "grounded s"
      using load by auto
    then show ?thesis using Inr state_report_loaded [OF assms(1)] by (simp add: ff_cli_def)
  qed
qed

theorem cli_reports_saved_state_witness:
  "\<exists>fs' ls. ff_save all_io_ok Map.empty ''state'' example_fabric = (fs', Inr ()) \<and>
     ff_cli ReadComplete LeftToRight fs' (\<lambda>_. 0) [''--state'', ''state''] = Inr (0, ''Loaded state'' # ls, [])"
proof (rule example_fabric_saved)
  fix fs' assume fs': "ff_save all_io_ok Map.empty ''state'' example_fabric = (fs', Inr ())"
    "length (the (fs' ''state'')) \<le> 2 ^ 30 + 28"
  from cli_reports_saved_state [OF restorable_example example_fabric_saves(1) fs', of "\<lambda>_. 0"]
  show ?thesis using fs'(1) example_fabric_saves(2) by simp
qed

end
