(* ===== verification/Examples.thy ===== *)
theory Examples
  imports Demos
begin

text \<open>
  The scenarios of \<^verbatim>\<open>examples.cpp\<close>, over the same interface: one exclusive failover from the
  failure to the commit, a selection limited by failure domains, a slot nothing can take over,
  and a missed recovery objective. The last section evaluates the first and the last two, for every clock.
\<close>

section \<open>Helpers\<close>

text \<open>
  The adapter. Nothing runs beside the program and no checkpoint path is set; the world counts
  the adapter's calls, for the clock.
\<close>

definition SimpleOps :: "bool \<Rightarrow> (nat \<Rightarrow> int) \<Rightarrow> nat CutoverEnv" where
  "SimpleOps unproven clk = \<lparr>
     env_fence_old = (\<lambda>_ _ n. (Inr (if unproven
        then default_FenceOutcome\<lparr>fo_fencing_unproven := True, fo_state := FenceState.UNPROVEN\<rparr>
        else default_FenceOutcome\<lparr>fo_applied := True, fo_state := FenceState.ENFORCED\<rparr>), n + 1)),
     env_activate = (\<lambda>_ _ _ n. (Inr \<lparr>ao_acknowledged = True, ao_activation_note = [], ao_detail = ''ok''\<rparr>, n + 1)),
     env_install_route = (\<lambda>e _ n. (Inr \<lparr>ro_acknowledged = True, ro_route = re_route e,
        ro_generation = re_generation e, ro_detail = ''ok''\<rparr>, n + 1)),
     env_verify = (\<lambda>_ _ n. (Inr \<lparr>vo_verified = True, vo_result = ''cpu-parity-ok'', vo_ambiguous = False,
        vo_detail = ''ok''\<rparr>, n + 1)),
     env_save_file = (\<lambda>_ _ n. (n, Inr ())), env_now = clk, env_yield = (\<lambda>\<sigma>. \<sigma>)\<rparr>"

definition make_svc :: "ServiceId \<Rightarrow> bool \<Rightarrow> ContinuityClass \<Rightarrow> ServiceDefinition" where
  "make_svc sid independent cont = default_ServiceDefinition\<lparr>sd_service := sid, sd_name := ''demo'',
     sd_role := ServingRole.EXCLUSIVE_ACTIVE,
     sd_compatibility := default_CompatibilityRequirement\<lparr>compat_model_key := ''ref-det-sequence-v1'',
       compat_runtime_abi := ''ff-ref-v1''\<rparr>,
     sd_domain_requirement := default_DomainRequirement\<lparr>dreq_require_domain_independence := independent\<rparr>,
     sd_resources := [one_cpu],
     sd_recovery := default_RecoveryObjective\<lparr>obj_rto_ms := 10000,
       obj_rto_anchor := RtoAnchor.FIRST_ACCEPTED_FAILURE_OBSERVATION, obj_continuity := cont,
       obj_requires_verified_recovery := True\<rparr>,
     sd_failback := FailbackPolicy.MANUAL\<rparr>"

definition reg :: "FabricState \<Rightarrow> int \<Rightarrow> TargetId \<Rightarrow> WorkerBootId \<Rightarrow> bool \<Rightarrow> FabricState result" where
  "reg s now t b ready =
     publish_target s now t (''demo-'' @ llu (id_value t))
       (default_CandidateFacts\<lparr>cf_target := t, cf_target_generation := gen_first, cf_replica := Id (id_value t),
          cf_engine := Id (id_value t), cf_engine_incarnation := Id (id_value t), cf_worker := Id (id_value t),
          cf_worker_boot := b, cf_profile := Id 1, cf_model_key := ''ref-det-sequence-v1'',
          cf_runtime_abi := ''ff-ref-v1'', cf_ready := ready, cf_activation_eligible := ready,
          cf_evidence_fresh := True\<rparr>)"

definition set_active :: "FabricState \<Rightarrow> int \<Rightarrow> ServiceSlotKey \<Rightarrow> TargetId \<Rightarrow> WorkerBootId \<Rightarrow> FabricState result" where
  "set_active s now k t b = set_initial_assignment s now (active_assignment (Id (id_value t)) k t b)"

definition fail_target :: "FabricState \<Rightarrow> TargetId \<Rightarrow> u64 \<Rightarrow> FabricState" where
  "fail_target s t q = publish_failure s (process_exit t q)"

definition host_h1 :: DomainDecl where
  "host_h1 = \<lparr>dd_id = Id 1, dd_generation = gen_first, dd_cls = DomainClass.HOST, dd_name = ''h1'',
     dd_parent = None, dd_provenance = Provenance.SYNTHETIC\<rparr>"

definition device_d2 :: DomainDecl where
  "device_d2 = \<lparr>dd_id = Id 2, dd_generation = gen_first, dd_cls = DomainClass.DEVICE, dd_name = ''d2'',
     dd_parent = Some (Id 1), dd_provenance = Provenance.SYNTHETIC\<rparr>"

definition member_of :: "u64 \<Rightarrow> u64 \<Rightarrow> DomainMembership" where
  "member_of t d = \<lparr>dm_target = Id t, dm_domain = Id d, dm_known = True\<rparr>"

section \<open>The scenarios\<close>

definition scenario_service :: "u64 \<Rightarrow> FabricState result" where
  "scenario_service i =
     create_service (init_fabric default_RuntimeConfig) (make_svc (Id i) True ContinuityClass.REPLAY_SAFE_REQUESTS)"

definition basic_setup :: "(nat \<Rightarrow> int) \<Rightarrow> FabricState result" where
  "basic_setup clk =
     bindE (scenario_service 1) (\<lambda>s.
     bindE (set_active s (clk 0) (slot_of_service 1) (Id 10) (Id 10)) (\<lambda>s.
     bindE (reg s (clk 1) (Id 10) (Id 10) True) (\<lambda>s.
     bindE (reg s (clk 2) (Id 11) (Id 11) True) (\<lambda>s.
     Inr (fail_target s (Id 10) 1)))))"

definition basic_failover :: "bool \<Rightarrow> (nat \<Rightarrow> int) \<Rightarrow> (string list \<times> FabricState) result" where
  "basic_failover unproven clk =
     bindE (basic_setup clk) (\<lambda>s.
     case plan_failover s (slot_of_service 1) of
       (_, Inl e) \<Rightarrow> Inl e
     | (s1, Inr plan) \<Rightarrow>
         (case (case plan of
             None \<Rightarrow> ((3, s1), Inr default_AttemptResult)
           | Some p \<Rightarrow> execute_plan (SimpleOps unproven clk) p (3, s1)) of
            (_, Inl e) \<Rightarrow> Inl e
          | ((_, s2), Inr r) \<Rightarrow>
              Inr ([''  plan='' @ yes_no (plan \<noteq> None) @ '' selected='' @
                      llu (case Option.bind plan fp_selected of None \<Rightarrow> 0 | Some c \<Rightarrow> id_value (cf_target (cand_facts c))),
                    ''  attempt='' @ to_string_AttemptState (ar_state r) @ '' new_target='' @
                      llu (case ar_committed_assignment r of None \<Rightarrow> 0 | Some a \<Rightarrow> id_value (asg_target a)),
                    ''  outcome='' @ to_string_ServiceOutcome (service_outcome s2 (slot_of_service 1))], s2)))"

definition domain_exclusion :: "(nat \<Rightarrow> int) \<Rightarrow> string list result" where
  "domain_exclusion clk =
     bindE (scenario_service 2) (\<lambda>s.
     let s = ff_declare_domain (ff_declare_domain s host_h1) device_d2;
         s = foldl ff_set_membership s [member_of 10 1, member_of 11 1, member_of 12 2]
     in bindE (set_active s (clk 0) (slot_of_service 2) (Id 10) (Id 10)) (\<lambda>s.
        bindE (reg s (clk 1) (Id 10) (Id 10) True) (\<lambda>s.
        bindE (reg s (clk 2) (Id 11) (Id 11) True) (\<lambda>s.
        bindE (reg s (clk 3) (Id 12) (Id 12) True) (\<lambda>s.
        bindE (ff_select (fail_target s (Id 10) 1) (slot_of_service 2)) (\<lambda>(_, sr).
        Inr ((''  has_selection='' @ yes_no (sel_has_selection sr)) # map print_exclusion (sel_exclusions sr))))))))"

definition no_candidate :: "(nat \<Rightarrow> int) \<Rightarrow> string list result" where
  "no_candidate clk =
     bindE (scenario_service 3) (\<lambda>s.
     bindE (set_active s (clk 0) (slot_of_service 3) (Id 10) (Id 10)) (\<lambda>s.
     let s = foldl ff_set_membership (ff_declare_domain s host_h1) [member_of 10 1, member_of 11 1]
     in bindE (reg s (clk 1) (Id 10) (Id 10) True) (\<lambda>s.
        bindE (reg s (clk 2) (Id 11) (Id 11) False) (\<lambda>s.
        bindE (snd (plan_failover (fail_target s (Id 10) 1) (slot_of_service 3))) (\<lambda>plan.
        Inr [''  plan='' @ yes_no (plan \<noteq> None) @ '' (expected no)''])))))"

definition objective_missed :: "string list" where
  "objective_missed =
     (let r = evaluate (default_RecoveryObjective\<lparr>obj_rto_ms := 1,
                obj_continuity := ContinuityClass.REPLAY_SAFE_REQUESTS, obj_requires_verified_recovery := True\<rparr>)
                default_RecoveryEstimate 5000 0 True
      in [''  rto_met='' @ decimal (of_bool (rev_rto_met r)) @ '' satisfied='' @ decimal (of_bool (rev_satisfied r)) @
          '' (expected 0,0)''])"

definition examples_main :: "(nat \<Rightarrow> int) \<Rightarrow> string list result" where
  "examples_main clk =
     bindE (basic_failover False clk) (\<lambda>(l1, _).
     bindE (domain_exclusion clk) (\<lambda>l2.
     bindE (no_candidate clk) (\<lambda>l3.
     Inr ([''FailoverFabric example'', ''-- basic exclusive failover --''] @ l1 @
          [''-- failure-domain exclusion --''] @ l2 @ [''-- no eligible candidate --''] @ l3 @
          [''-- recovery objective --''] @ objective_missed @ [''done'']))))"

section \<open>What the scenarios print\<close>

lemma basic_failover_proven:
  "map_sum id fst (basic_failover False clk) =
     Inr [''  plan=yes selected=11'', ''  attempt=COMPLETED new_target=11'', ''  outcome=AVAILABLE'']"
  by code_simp

lemma no_candidate_prints: "no_candidate clk = Inr [''  plan=no (expected no)'']"
  by code_simp

lemma objective_missed_prints: "objective_missed = [''  rto_met=0 satisfied=0 (expected 0,0)'']"
  by code_simp

end
