(* ===== verification/Spec2Isabelle.thy ===== *)
theory Spec2Isabelle
  imports Recovery Requests Checkpoint Connection Sockets Options Authority_Spec Capacity Whole_System
    Observers Startup Examples
begin

text \<open>
  Failover Fabric: a coordinator that moves the authority over a service slot from a failed
  worker to a replacement, fencing the old one first; the library it is built from; and the
  reference processes that speak its wire protocol. This development models the library and the
  processes from their C++ sources (paths below are under \<^verbatim>\<open>src/\<close>) and proves what makes them
  correct.

  \<^bold>\<open>Conventions.\<close> A struct is a \<open>record\<close> with a field prefix of its own, an enumeration a
  \<open>datatype\<close> in declaration order, an unsigned integer a word of its width. An operation that
  throws returns \<open>exn + 'a\<close>; the exception keeps the effects that precede it. Each public
  operation of the runtime holds one mutex, so it is one function on the state; where a C++
  function releases its lock, the model is cut there, and a parameter stands for what other
  threads do in between (\<open>env_yield\<close> of the transaction, \<open>pf_yield\<close> of the coordinator). Clocks,
  the outcomes of file and socket calls, and the order in which C++ evaluates arguments are
  parameters too.

  \<^bold>\<open>The library\<close> (\<^verbatim>\<open>include/failover_fabric\<close>, \<^verbatim>\<open>src\<close>).
  \<^item> \<open>FF_Prelude\<close>: machine integers, exceptions, the idioms of \<^verbatim>\<open>std::vector\<close> and their locales.
  \<^item> \<open>Identities\<close>: \<^verbatim>\<open>identities.hpp\<close>. \<open>FF_Types\<close>: \<^verbatim>\<open>types.hpp\<close>, \<^verbatim>\<open>types.cpp\<close>, the byte codes of the
    enumerations. \<open>Service\<close>: \<^verbatim>\<open>service.hpp\<close>, \<^verbatim>\<open>authority.hpp\<close>, \<^verbatim>\<open>fence.hpp\<close>.
  \<^item> \<open>Domains\<close>, \<open>Routes\<close>, \<open>Evidence\<close>, \<open>Requests\<close>, \<open>Recovery\<close>: the files of the same names. The
    ancestor walk of the domains makes at most 64 steps, as in the source, and is shown equal to the
    ancestor relation on registries of at most 64 domains; the histories of the route table are
    monotonic in every interleaving of its operations.
  \<^item> \<open>IEEE_Double\<close>: binary64 addition, multiplication and division, rounded to nearest even, for
    the scores of \<open>Candidates\<close>, \<open>Selection\<close> (\<^verbatim>\<open>candidate.hpp\<close>, \<^verbatim>\<open>selection.cpp\<close>) and \<open>Plans\<close>
    (\<^verbatim>\<open>plan.cpp\<close>). Hard eligibility equals its declarative reading, and \<open>select\<close> returns a best
    eligible candidate.
  \<^item> \<open>Fabric\<close>, \<open>Fabric_Invariant\<close>, \<open>Fabric_Props\<close>: the state of \<open>FailoverFabric::Impl\<close> and its
    operations (\<^verbatim>\<open>fabric.cpp\<close>), the well-formedness of its indices, the dispatch gate as exactly the
    current authority, and the failback policy. \<open>api_step\<close> is one call that holds the mutex once.
  \<^item> \<open>Cutover\<close>, \<open>Cutover_Props\<close>, \<open>Cutover_Theorems\<close>: \<open>execute_plan\<close> and \<open>execute_failback\<close> as
    sequences of locked sections and external calls. The locale \<open>cutover_invariant\<close> carries a
    property of the state through an attempt. Shown: what a completed attempt was told and leaves
    behind, that others change nothing, and completion when nothing hinders it.
  \<^item> \<open>Runtime_Steps\<close>: the whole interface as steps of any number of threads. \<open>region_step\<close> is a call
    that holds the mutex once, or one locked region of \<open>execute_plan\<close> or \<open>execute_failback\<close>;
    \<open>runtime_step\<close> adds \<open>load\<close>, which replaces the services, the slots, the fences and the
    generations. Attempts and failbacks are shown to be sequences of these steps, which carry the
    representation invariant (\<open>load\<close> included), fencing for good (without \<open>load\<close>), supersession
    and the failback gate.
  \<^item> \<open>Authority_Spec\<close>: an abstract authority machine (holders, barred boots, newest generation)
    and the simulation of the runtime by it between two loads. \<open>Capacity\<close>: the limits that are
    enforced, and what \<open>load\<close> does to them.
  \<^item> \<open>Codec\<close>, \<open>Persistence\<close>, \<open>Persistence_Props\<close>, \<open>Restart\<close>, \<open>Restart_File\<close>, \<open>Checkpoint\<close>:
    \<^verbatim>\<open>persistence.cpp\<close>, \<open>save\<close> and \<open>load\<close>, and the checkpoint file of an attempt. Counts are limited
    to \<open>2 ^ 22\<close> and a payload to 1 GiB as in the source. The codec is exact in both directions,
    damage is refused, saving never leaves a torn snapshot (nor is it atomic: a failed rename
    leaves none), and a restart through the file restores the state without inventing authority,
    or is refused exactly when the saved state is not grounded. These hold for arguments evaluated
    from left to right, which C++ does not promise. A cutover's checkpoint admits nobody.
  \<^item> \<open>Observers\<close>: the operations that only look, the validation of a saved file (which reports
    exactly why a load fails), and the small types of \<^verbatim>\<open>types.hpp\<close>.

  \<^bold>\<open>The processes.\<close>
  \<^item> \<open>Crc\<close>, \<open>Protocol\<close>, \<open>Payload\<close>, \<open>Wire\<close>: \<^verbatim>\<open>protocol.cpp\<close> and \<^verbatim>\<open>net/common.hpp\<close>. A frame carries at
    most 16 MiB; the decoder accepts exactly the encoder's frames of at least five bytes of
    payload and refuses every change of up to four consecutive bytes.
  \<^item> \<open>Sockets\<close>: the loops and the framing of \<^verbatim>\<open>net/socket_util.hpp\<close>, total by the bytes that remain.
    However the system cuts the stream, the reader gets a prefix of the frames written.
    \<open>Socket_Setup\<close>: its operations that open and close sockets, as the calls they make; none leaks.
  \<^item> \<open>Connection\<close>: \<^verbatim>\<open>net/conn.hpp\<close> as a step relation over its locked sections, for any number of
    threads: responses go to the request of their id, and once the connection is dead every
    request with an id of its own returns by at most three steps of its own thread, whatever
    the others do.
  \<^item> \<open>Worker\<close>: \<^verbatim>\<open>worker_main.cpp\<close>, with its checkpoint file and the 120 attempts of a reconnection.
    \<open>Gateway\<close>: \<^verbatim>\<open>gateway_main.cpp\<close>. \<open>Options\<close>: the command lines of gateway and coordinator.
    \<open>Cuda_Worker\<close>: \<^verbatim>\<open>cuda_worker_main.cu\<close>, kernel included, shown equal to the CPU worker as long as
    the CUDA runtime succeeds. \<open>Startup\<close>: how the four processes start, or give up.
  \<^item> \<open>Coordinator\<close>: \<^verbatim>\<open>coordinator_main.cpp\<close>: its peers, the adapter \<open>SocketOps\<close>, its start and the
    handler of every message. The epoch the adapter stamps on its frames is an argument, because
    it is set once before the first connection. \<open>Coordinator_Props\<close> carries invariants of the
    fabric through every handler (locale \<open>coordinator_invariant\<close>): well-formedness, fenced boots,
    the epoch. \<open>Coordinator_Answers\<close> works out the answers to a gateway and composes them with
    the gateway: a client's success means the result was current. \<open>Adapter_Props\<close> gives a platform
    a log of its exchanges, shows that this changes nothing else (locale \<open>env_map\<close>) and reads a
    completed attempt off the log (locale \<open>world_order\<close>). \<open>Whole_System\<close> puts the modelled worker,
    replacement and gateway behind the adapter and runs a failover of the four processes to its
    end; its network loses no request, may lose unacknowledged frames, and runs nothing else.

  \<^bold>\<open>The tools.\<close>
  \<^item> \<open>Demos\<close>: \<^verbatim>\<open>ff_cli.cpp\<close>; what it prints of a saved state is what was saved. \<open>Examples\<close>: the
    scenarios of \<^verbatim>\<open>examples.cpp\<close>, three of them evaluated for every clock.
  \<^item> \<open>Proof_Driver\<close>: the client side of \<^verbatim>\<open>multiproc_proof.cpp\<close>; put to the modelled coordinator, its
    questions report the coordinator's state.

  \<^bold>\<open>Not modelled.\<close> The calls of the operating system and of the CUDA runtime themselves, threads, and
  the accept loops around the handlers: they are the parameters above. The scenarios of
  \<^verbatim>\<open>multiproc_proof.cpp\<close>, which start and kill processes and wait for wall-clock time. Benchmarks
  and tests, which drive the library and hold no logic of the system. \<open>AuthorityGate\<close> and
  \<open>FenceEvaluator\<close> are declared in headers and implemented nowhere.
\<close>

end
